(* ===== verification/Prelude.thy ===== *)
theory Prelude
  imports Main
begin

section \<open>Prelude: results, errors, clocks and map iteration\<close>

text \<open>
  Shared vocabulary of the development.

  \<^item> A Go error is a value of \<open>go_error\<close>: the sentinel errors of the packages, errors made by
    \<^verbatim>\<open>errors.New\<close>, and the wrappers whose \<^verbatim>\<open>Unwrap\<close> chain \<^verbatim>\<open>errors.Is\<close> and \<^verbatim>\<open>errors.As\<close> walk.
  \<^item> A fallible call returns \<open>go_error + 'a\<close>: \<open>Inl\<close> the error, \<open>Inr\<close> the value.
  \<^item> An instant or a duration is an \<open>int\<close> in nanoseconds; each reading of the clock is an
    argument of the operation that reads it.
  \<^item> A Go map is a map \<open>'k \<rightharpoonup> 'v\<close>. Go leaves the order of \<^verbatim>\<open>range\<close> unspecified, so an operation
    that ranges over a map takes the list of keys in the order the runtime yields them
    (\<open>range_order\<close>); the theorems hold for every such order.
\<close>

named_theorems store_defs \<open>definitions of the store's operations\<close>
named_theorems job_frame \<open>what an update of a job leaves unchanged\<close>
named_theorems inv_rules \<open>preservation of an invariant by an operation\<close>

subsection \<open>Errors\<close>

datatype go_error =
    ErrNotFound
  | ErrConflict
  | ErrForbidden
  | ErrWorkersUnavailable
  | ErrVaultUnavailable
  | ErrUnauthorized
  | ErrUnavailable
  | CtxCanceled
  | CtxDeadlineExceeded
  | IOError string
  | ErrNew string
  | HttpStatusError int
  | Transient go_error
  | Errorf string go_error
  | Joined "go_error list"

type_synonym 'a result = "go_error + 'a"
type_synonym time = int

text \<open>The text of \<^verbatim>\<open>err.Error()\<close> for the errors whose text the code inspects or returns.\<close>

definition en_dash :: string where
  "en_dash = [CHR 0xE2, CHR 0x80, CHR 0x93]"

fun error_text :: "go_error \<Rightarrow> string" where
  "error_text ErrNotFound = ''job not found''"
| "error_text ErrConflict = ''operation conflicts with current job state''"
| "error_text ErrForbidden = ''connection access denied''"
| "error_text ErrWorkersUnavailable = ''worker registry unavailable''"
| "error_text ErrVaultUnavailable = ''connection credential store unavailable''"
| "error_text ErrUnauthorized = ''Polign sign-in required''"
| "error_text ErrUnavailable = ''Polign account service unavailable''"
| "error_text CtxCanceled = ''context canceled''"
| "error_text CtxDeadlineExceeded = ''context deadline exceeded''"
| "error_text (IOError s) = s"
| "error_text (ErrNew s) = s"
| "error_text (HttpStatusError n) = ''connector HTTP''"
| "error_text (Transient e) = error_text e"
| "error_text (Errorf p e) = p @ error_text e"
| "error_text (Joined es) = concat (map (\<lambda>e. error_text e @ [CHR 0x0A]) es)"

text \<open>\<^verbatim>\<open>errors.Is(err, target)\<close> for a sentinel target: some error of the chain is the target.\<close>

fun errors_is :: "go_error \<Rightarrow> go_error \<Rightarrow> bool" where
  "errors_is (Transient e) t = (Transient e = t \<or> errors_is e t)"
| "errors_is (Errorf p e) t = (Errorf p e = t \<or> errors_is e t)"
| "errors_is (Joined es) t = (Joined es = t \<or> list_ex (\<lambda>e. errors_is e t) es)"
| "errors_is e t = (e = t)"

subsection \<open>Iteration over a Go map\<close>

definition range_order :: "'k list \<Rightarrow> ('k \<rightharpoonup> 'v) \<Rightarrow> bool" where
  "range_order ks m \<longleftrightarrow> distinct ks \<and> set ks = dom m"

definition range_vals :: "'k list \<Rightarrow> ('k \<rightharpoonup> 'v) \<Rightarrow> 'v list" where
  "range_vals ks m = List.map_filter m ks"

lemma range_vals_Nil [simp]: "range_vals [] m = []"
  by (simp add: range_vals_def map_filter_simps)

lemma range_vals_Cons:
  "range_vals (k # ks) m = (case m k of None \<Rightarrow> range_vals ks m | Some v \<Rightarrow> v # range_vals ks m)"
  by (simp add: range_vals_def map_filter_simps split: option.split)

lemma set_range_vals: "set (range_vals ks m) = {v. \<exists>k \<in> set ks. m k = Some v}"
  by (induction ks) (auto simp: range_vals_Cons split: option.splits)

lemma set_range_order: "range_order ks m \<Longrightarrow> set (range_vals ks m) = ran m"
  by (auto simp: range_order_def set_range_vals ran_def)

lemma range_order_empty [simp]: "range_order [] Map.empty"
  by (simp add: range_order_def)

lemma length_range_vals_le: "length (range_vals ks m) \<le> length ks"
  by (induction ks) (auto simp: range_vals_Cons split: option.splits)

lemma length_range_vals: "set ks \<subseteq> dom m \<Longrightarrow> length (range_vals ks m) = length ks"
  by (induction ks) (auto simp: range_vals_Cons split: option.splits)

lemma length_range_order: "range_order ks m \<Longrightarrow> length (range_vals ks m) = card (dom m)"
  by (metis distinct_card length_range_vals order_refl range_order_def)

subsection \<open>Loops that keep the best element seen so far\<close>

text \<open>
  The two claim loops of the store share one shape: walk over the values, keep the eligible one
  with the smallest key, and keep the earlier one where keys are equal.
\<close>

fun pick_least :: "('a \<Rightarrow> bool) \<Rightarrow> ('a \<Rightarrow> int) \<Rightarrow> 'a option \<Rightarrow> 'a list \<Rightarrow> 'a option" where
  "pick_least P key best [] = best"
| "pick_least P key best (x # xs) =
     pick_least P key
       (if P x \<and> (case best of None \<Rightarrow> True | Some b \<Rightarrow> key x < key b) then Some x else best) xs"

lemma pick_least_Some_start: "\<exists>y. pick_least P key (Some b) xs = Some y"
  by (induction xs arbitrary: b) auto

lemma pick_least_None_iff: "pick_least P key None xs = None \<longleftrightarrow> (\<forall>x \<in> set xs. \<not> P x)"
proof (induction xs)
  case (Cons x xs)
  show ?case
  proof (cases "P x")
    case True
    then show ?thesis using pick_least_Some_start [of P key x xs] by auto
  qed (use Cons in simp)
qed simp

lemma pick_least_mem:
  "pick_least P key best xs = Some y \<Longrightarrow> best = Some y \<or> (y \<in> set xs \<and> P y)"
  by (induction xs arbitrary: best) (auto split: if_splits)

lemma pick_least_le_best:
  "pick_least P key best xs = Some y \<Longrightarrow> best = Some b \<Longrightarrow> key y \<le> key b"
proof (induction xs arbitrary: best b)
  case (Cons x xs)
  then show ?case by (fastforce split: if_splits)
qed simp

lemma pick_least_le:
  "pick_least P key best xs = Some y \<Longrightarrow> x \<in> set xs \<Longrightarrow> P x \<Longrightarrow> key y \<le> key x"
proof (induction xs arbitrary: best)
  case (Cons z zs)
  let ?b = "if P z \<and> (case best of None \<Rightarrow> True | Some b \<Rightarrow> key z < key b) then Some z else best"
  have y: "pick_least P key ?b zs = Some y" using Cons.prems(1) by simp
  show ?case
  proof (cases "x \<in> set zs")
    case True
    with Cons y show ?thesis by blast
  next
    case False
    with Cons.prems have [simp]: "z = x" by simp
    have "\<exists>b. ?b = Some b \<and> key b \<le> key x"
      using Cons.prems(3) by (cases best) (auto simp: not_less)
    then obtain b where b: "?b = Some b" "key b \<le> key x" by blast
    with pick_least_le_best [OF y b(1)] show ?thesis by simp
  qed
qed simp

subsection \<open>Histories of keyed values\<close>

text \<open>
  A component whose state holds values under keys promises how one step may change a value
  (\<open>ev\<close>); what holds for one step then holds along every run.
\<close>

locale keyed_history =
  fixes step :: "'s \<Rightarrow> 's \<Rightarrow> bool"
    and get :: "'s \<Rightarrow> 'k \<Rightarrow> 'v option"
    and ev :: "'v \<Rightarrow> 'v \<Rightarrow> bool"
  assumes ev_refl: "ev v v"
    and ev_trans: "ev u v \<Longrightarrow> ev v w \<Longrightarrow> ev u w"
    and step_ev: "step s t \<Longrightarrow> get s k = Some v \<Longrightarrow> \<exists>v'. get t k = Some v' \<and> ev v v'"
begin

lemma run_ev: "step\<^sup>*\<^sup>* s t \<Longrightarrow> get s k = Some v \<Longrightarrow> \<exists>v'. get t k = Some v' \<and> ev v v'"
proof (induction rule: rtranclp_induct)
  case base
  then show ?case using ev_refl by blast
next
  case (step t u)
  then obtain v' where "get t k = Some v'" "ev v v'" by blast
  with step_ev [OF step(2)] ev_trans show ?case by blast
qed

end

end
