(* ===== verification/Go_Strings.thy ===== *)
theory Go_Strings
  imports Prelude "HOL-Library.Sublist"
begin

section \<open>Go strings: bytes, decimal numbers, trimming and name patterns\<close>

text \<open>
  A Go string is a sequence of bytes, so it is a \<open>string\<close> (a list of 8-bit characters).
  This theory holds what the program uses of the packages strings, strconv, unicode/utf8 and
  regexp: decimal conversion with the 64-bit range of strconv, trimming of Unicode white space
  in its UTF-8 encoding, and the anchored patterns for names, digests and identifiers.
\<close>

definition byte :: "char \<Rightarrow> nat" where
  "byte c = of_char c"

lemma byte_less [simp]: "byte c < 256"
  by (simp add: byte_def)

lemma byte_eq_iff [simp]: "byte c = byte d \<longleftrightarrow> c = d"
  by (simp add: byte_def)

lemma byte_char_of: "n < 256 \<Longrightarrow> byte (char_of n) = n"
  by (simp add: byte_def)

subsection \<open>Decimal numbers (strconv)\<close>

definition is_digit :: "char \<Rightarrow> bool" where
  "is_digit c \<longleftrightarrow> 48 \<le> byte c \<and> byte c \<le> 57"

definition digit_char :: "nat \<Rightarrow> char" where
  "digit_char n = char_of (48 + n)"

definition digit_val :: "char \<Rightarrow> nat" where
  "digit_val c = byte c - 48"

lemma byte_digit_char: "n < 10 \<Longrightarrow> byte (digit_char n) = 48 + n"
  by (simp add: digit_char_def byte_char_of)

lemma is_digit_digit_char [simp]: "n < 10 \<Longrightarrow> is_digit (digit_char n)"
  by (simp add: is_digit_def byte_digit_char)

lemma digit_val_digit_char [simp]: "n < 10 \<Longrightarrow> digit_val (digit_char n) = n"
  by (simp add: digit_val_def byte_digit_char)

fun itoa_nat :: "nat \<Rightarrow> string" where
  "itoa_nat n = (if n < 10 then [digit_char n] else itoa_nat (n div 10) @ [digit_char (n mod 10)])"

declare itoa_nat.simps [simp del]

definition itoa :: "int \<Rightarrow> string" where
  "itoa n = (if n < 0 then CHR ''-'' # itoa_nat (nat (- n)) else itoa_nat (nat n))"

definition dec_val :: "string \<Rightarrow> nat" where
  "dec_val s = foldl (\<lambda>n c. 10 * n + digit_val c) 0 s"

definition all_digits :: "string \<Rightarrow> bool" where
  "all_digits s \<longleftrightarrow> s \<noteq> [] \<and> list_all is_digit s"

lemma itoa_nat_not_Nil [simp]: "itoa_nat n \<noteq> []"
  by (subst itoa_nat.simps) simp

lemma itoa_nat_digits: "list_all is_digit (itoa_nat n)"
proof (induction n rule: itoa_nat.induct)
  case (1 n)
  then show ?case by (subst itoa_nat.simps) simp
qed

lemma all_digits_itoa_nat [simp]: "all_digits (itoa_nat n)"
  by (simp add: all_digits_def itoa_nat_digits)

lemma dec_val_itoa_nat [simp]: "dec_val (itoa_nat n) = n"
proof (induction n rule: itoa_nat.induct)
  case (1 n)
  show ?case
  proof (cases "n < 10")
    case True
    then show ?thesis by (subst itoa_nat.simps) (simp add: dec_val_def)
  next
    case False
    with 1 have "foldl (\<lambda>n c. 10 * n + digit_val c) 0 (itoa_nat (n div 10)) = n div 10"
      by (simp add: dec_val_def)
    with False show ?thesis by (subst itoa_nat.simps) (simp add: dec_val_def)
  qed
qed

text \<open>\<^verbatim>\<open>strconv.ParseUint(s, 10, 64)\<close> and \<^verbatim>\<open>strconv.ParseInt(s, 10, 64)\<close>; \<open>None\<close> is the error.\<close>

definition parse_uint :: "string \<Rightarrow> nat option" where
  "parse_uint s = (if all_digits s \<and> dec_val s < 2 ^ 64 then Some (dec_val s) else None)"

definition parse_int :: "string \<Rightarrow> int option" where
  "parse_int s = (case s of [] \<Rightarrow> None
     | c # cs \<Rightarrow>
         if c = CHR ''-'' then
           (if all_digits cs \<and> dec_val cs \<le> 2 ^ 63 then Some (- int (dec_val cs)) else None)
         else if c = CHR ''+'' then
           (if all_digits cs \<and> dec_val cs < 2 ^ 63 then Some (int (dec_val cs)) else None)
         else (if all_digits s \<and> dec_val s < 2 ^ 63 then Some (int (dec_val s)) else None))"

definition int64 :: "int \<Rightarrow> bool" where
  "int64 n \<longleftrightarrow> - (2 ^ 63) \<le> n \<and> n < 2 ^ 63"

lemma parse_uint_itoa: "n < 2 ^ 64 \<Longrightarrow> parse_uint (itoa_nat n) = Some n"
  by (simp add: parse_uint_def)

lemma is_digit_not_sign: "is_digit c \<Longrightarrow> c \<noteq> CHR ''-'' \<and> c \<noteq> CHR ''+''"
  by (auto simp: is_digit_def byte_def)

lemma parse_int_digits:
  assumes "all_digits s" "dec_val s < 2 ^ 63"
  shows "parse_int s = Some (int (dec_val s))"
proof (cases s)
  case (Cons c cs)
  with assms have "is_digit c" by (simp add: all_digits_def)
  with Cons assms is_digit_not_sign show ?thesis by (auto simp: parse_int_def)
qed (use assms in \<open>simp add: all_digits_def\<close>)

lemma parse_int_itoa [simp]:
  assumes "int64 n"
  shows "parse_int (itoa n) = Some n"
proof (cases "n < 0")
  case True
  with assms show ?thesis by (auto simp: itoa_def parse_int_def int64_def nat_le_iff)
next
  case False
  then have "dec_val (itoa_nat (nat n)) < 2 ^ 63"
    using assms by (simp add: int64_def nat_less_iff)
  with False show ?thesis by (simp add: itoa_def parse_int_digits)
qed

lemma parse_int_int64: "parse_int s = Some n \<Longrightarrow> int64 n"
  by (auto simp: parse_int_def int64_def split: list.splits if_splits)

lemma itoa_chars: "c \<in> set (itoa n) \<Longrightarrow> is_digit c \<or> c = CHR ''-''"
  using itoa_nat_digits [of "nat n"] itoa_nat_digits [of "nat (- n)"]
  by (auto simp: itoa_def list_all_iff split: if_splits)

lemma itoa_not_Nil [simp]: "itoa n \<noteq> []"
  by (simp add: itoa_def)

lemma itoa_nat_inject [simp]: "itoa_nat m = itoa_nat n \<longleftrightarrow> m = n"
  by (metis dec_val_itoa_nat)

lemma itoa_nat_head_digit: "is_digit (hd (itoa_nat n))"
  using itoa_nat_digits [of n] by (cases "itoa_nat n") auto

lemma itoa_inject [simp]: "itoa m = itoa n \<longleftrightarrow> m = n"
proof
  assume eq: "itoa m = itoa n"
  have sign: "hd (itoa k) = CHR ''-'' \<longleftrightarrow> k < 0" for k
    using itoa_nat_head_digit [of "nat k"] is_digit_not_sign by (auto simp: itoa_def)
  from eq sign [of m] sign [of n] have "m < 0 \<longleftrightarrow> n < 0" by simp
  with eq show "m = n" by (auto simp: itoa_def split: if_splits)
qed simp

subsection \<open>Substrings and trimming (strings)\<close>

definition has_prefix :: "string \<Rightarrow> string \<Rightarrow> bool" where
  "has_prefix s p \<longleftrightarrow> take (length p) s = p"

definition trim_prefix :: "string \<Rightarrow> string \<Rightarrow> string" where
  "trim_prefix s p = (if has_prefix s p then drop (length p) s else s)"

fun contains_sub :: "string \<Rightarrow> string \<Rightarrow> bool" where
  "contains_sub s p = (has_prefix s p \<or> (case s of [] \<Rightarrow> False | _ # cs \<Rightarrow> contains_sub cs p))"

declare contains_sub.simps [simp del]

definition has_suffix :: "string \<Rightarrow> string \<Rightarrow> bool" where
  "has_suffix s p \<longleftrightarrow> has_prefix (rev s) (rev p)"

definition trim_right :: "char \<Rightarrow> string \<Rightarrow> string" where
  "trim_right c s = rev (dropWhile (\<lambda>d. d = c) (rev s))"

definition contains_any :: "string \<Rightarrow> char list \<Rightarrow> bool" where
  "contains_any s cs \<longleftrightarrow> list_ex (\<lambda>c. c \<in> set cs) s"

lemma has_prefix_append [simp]: "has_prefix (p @ s) p"
  by (simp add: has_prefix_def)

lemma trim_prefix_append [simp]: "trim_prefix (p @ s) p = s"
  by (simp add: trim_prefix_def)

lemma contains_sub_append: "contains_sub (a @ p @ b) p"
proof (induction a)
  case Nil
  show ?case by (subst contains_sub.simps) simp
next
  case (Cons x a)
  then show ?case by (subst contains_sub.simps) simp
qed

text \<open>
  \<^verbatim>\<open>unicode.IsSpace\<close> as byte sequences: the white space of Latin-1 and the other code points with
  the property White\_Space, each in UTF-8. \<^verbatim>\<open>strings.TrimSpace\<close> removes them at both ends.
\<close>

definition space_seqs :: "string list" where
  "space_seqs = map (map char_of)
     [[0x20], [0x09], [0x0A], [0x0B], [0x0C], [0x0D],
      [0xC2, 0x85], [0xC2, 0xA0], [0xE1, 0x9A, 0x80],
      [0xE2, 0x80, 0x80], [0xE2, 0x80, 0x81], [0xE2, 0x80, 0x82], [0xE2, 0x80, 0x83],
      [0xE2, 0x80, 0x84], [0xE2, 0x80, 0x85], [0xE2, 0x80, 0x86], [0xE2, 0x80, 0x87],
      [0xE2, 0x80, 0x88], [0xE2, 0x80, 0x89], [0xE2, 0x80, 0x8A],
      [0xE2, 0x80, 0xA8], [0xE2, 0x80, 0xA9], [0xE2, 0x80, 0xAF],
      [0xE2, 0x81, 0x9F], [0xE3, 0x80, 0x80 :: nat]]"

fun drop_seqs :: "string list \<Rightarrow> string \<Rightarrow> string" where
  "drop_seqs ps s = (case find (\<lambda>p. p \<noteq> [] \<and> has_prefix s p) ps of
      None \<Rightarrow> s
    | Some p \<Rightarrow> if length (drop (length p) s) < length s
                then drop_seqs ps (drop (length p) s) else s)"

declare drop_seqs.simps [simp del]

definition trim_space :: "string \<Rightarrow> string" where
  "trim_space s = rev (drop_seqs (map rev space_seqs) (rev (drop_seqs space_seqs s)))"

lemma length_drop_seqs: "length (drop_seqs ps s) \<le> length s"
proof (induction ps s rule: drop_seqs.induct)
  case (1 ps s)
  show ?case
  proof (cases "find (\<lambda>p. p \<noteq> [] \<and> has_prefix s p) ps")
    case None
    then show ?thesis by (subst drop_seqs.simps) simp
  next
    case (Some p)
    with 1 show ?thesis by (subst drop_seqs.simps) fastforce
  qed
qed

lemma length_trim_space: "length (trim_space s) \<le> length s"
  using length_drop_seqs [of "map rev space_seqs" "rev (drop_seqs space_seqs s)"]
    length_drop_seqs [of space_seqs s]
  by (simp add: trim_space_def)

lemma drop_seqs_idem: "drop_seqs ps (drop_seqs ps s) = drop_seqs ps s"
proof (induction ps s rule: drop_seqs.induct)
  case (1 ps s)
  show ?case
  proof (cases "find (\<lambda>p. p \<noteq> [] \<and> has_prefix s p) ps")
    case None
    then have "drop_seqs ps s = s" by (subst drop_seqs.simps) simp
    then show ?thesis by simp
  next
    case (Some p)
    then have "p \<noteq> []" "has_prefix s p" by (auto simp: find_Some_iff)
    then have "length (drop (length p) s) < length s"
      by (cases s; cases p) (auto simp: has_prefix_def)
    with 1 Some have "drop_seqs ps s = drop_seqs ps (drop (length p) s)"
      by (subst drop_seqs.simps) simp
    with 1 Some \<open>length (drop (length p) s) < length s\<close> show ?thesis by simp
  qed
qed

text \<open>A string that begins and ends with a printable ASCII character is not trimmed.\<close>

definition visible :: "char \<Rightarrow> bool" where
  "visible c \<longleftrightarrow> 0x20 < byte c \<and> byte c < 0x80"

lemma space_seqs_invisible: "p \<in> set space_seqs \<Longrightarrow> p \<noteq> [] \<and> \<not> visible (hd p) \<and> \<not> visible (last p)"
  by (auto simp: space_seqs_def visible_def byte_def)

lemma drop_seqs_visible:
  assumes "s \<noteq> []" "visible (hd s)" "\<And>p. p \<in> set ps \<Longrightarrow> p \<noteq> [] \<Longrightarrow> \<not> visible (hd p)"
  shows "drop_seqs ps s = s"
proof -
  have "\<not> has_prefix s p" if p: "p \<in> set ps" "p \<noteq> []" for p
  proof
    assume "has_prefix s p"
    then have "hd p = hd s" using p(2) assms(1) unfolding has_prefix_def by (metis hd_take length_greater_0_conv)
    with assms(2,3) p show False by metis
  qed
  then have "find (\<lambda>p. p \<noteq> [] \<and> has_prefix s p) ps = None" by (auto simp: find_None_iff)
  then show ?thesis by (subst drop_seqs.simps) simp
qed

lemma trim_space_visible:
  assumes "s \<noteq> []" "visible (hd s)" "visible (last s)"
  shows "trim_space s = s"
  unfolding trim_space_def using assms space_seqs_invisible
  by (subst drop_seqs_visible [of s]; (subst drop_seqs_visible)?) (auto simp: hd_rev)

subsection \<open>Anchored patterns (regexp)\<close>

definition is_lower :: "char \<Rightarrow> bool" where
  "is_lower c \<longleftrightarrow> 97 \<le> byte c \<and> byte c \<le> 122"

definition is_upper :: "char \<Rightarrow> bool" where
  "is_upper c \<longleftrightarrow> 65 \<le> byte c \<and> byte c \<le> 90"

definition is_name_char :: "char \<Rightarrow> bool" where
  "is_name_char c \<longleftrightarrow> is_upper c \<or> is_lower c \<or> is_digit c \<or> c = CHR ''_'' \<or> c = CHR ''.'' \<or> c = CHR ''-''"

definition is_hex_lower :: "char \<Rightarrow> bool" where
  "is_hex_lower c \<longleftrightarrow> is_digit c \<or> (97 \<le> byte c \<and> byte c \<le> 102)"

definition is_hex :: "char \<Rightarrow> bool" where
  "is_hex c \<longleftrightarrow> is_hex_lower c \<or> (65 \<le> byte c \<and> byte c \<le> 70)"

text \<open>\<^verbatim>\<open>^[A-Za-z0-9_.-]{1,128}$\<close> and \<^verbatim>\<open>^[a-f0-9]{n}$\<close>.\<close>

definition match_name :: "string \<Rightarrow> bool" where
  "match_name s \<longleftrightarrow> 1 \<le> length s \<and> length s \<le> 128 \<and> list_all is_name_char s"

definition match_hex :: "nat \<Rightarrow> string \<Rightarrow> bool" where
  "match_hex n s \<longleftrightarrow> length s = n \<and> list_all is_hex_lower s"

lemma match_name_not_Nil: "match_name s \<Longrightarrow> s \<noteq> []"
  by (auto simp: match_name_def)

text \<open>\<^verbatim>\<open>hex.EncodeToString\<close>.\<close>

definition hex_digit :: "nat \<Rightarrow> char" where
  "hex_digit n = (if n < 10 then char_of (48 + n) else char_of (87 + n))"

fun hex_encode :: "string \<Rightarrow> string" where
  "hex_encode [] = []"
| "hex_encode (c # cs) = hex_digit (byte c div 16) # hex_digit (byte c mod 16) # hex_encode cs"

lemma length_hex_encode [simp]: "length (hex_encode s) = 2 * length s"
  by (induction s) simp_all

lemma byte_hex_digit: "n < 16 \<Longrightarrow> byte (hex_digit n) = (if n < 10 then 48 + n else 87 + n)"
  by (simp add: hex_digit_def byte_char_of)

lemma is_hex_lower_hex_digit: "n < 16 \<Longrightarrow> is_hex_lower (hex_digit n)"
  by (auto simp: is_hex_lower_def is_digit_def byte_hex_digit)

lemma hex_encode_lower: "list_all is_hex_lower (hex_encode s)"
proof (induction s)
  case (Cons c cs)
  have "byte c div 16 < 16" using byte_less [of c] by (simp add: less_mult_imp_div_less)
  with Cons show ?case by (simp add: is_hex_lower_hex_digit)
qed simp

lemma match_hex_encode: "match_hex (2 * n) (hex_encode s) \<longleftrightarrow> length s = n"
  by (simp add: match_hex_def hex_encode_lower)

end
