(* ===== verification/Go_Json.thy ===== *)
theory Go_Json
  imports Go_Strings
begin

section \<open>JSON as encoding/json reads and writes it\<close>

text \<open>
  The journal, the account cursors and record metadata are JSON text, so the development models
  the part of Go's encoding/json that the program uses: UTF-8 validation, the encoder's string
  escaping (control characters, HTML characters, U+2028 and U+2029, and invalid bytes as
  backslash-ufffd), the scanner of \<^verbatim>\<open>json.Valid\<close> with its nesting limit of 10000, and the decoder's
  unquoting, which replaces an invalid byte by U+FFFD. A string or an object key is kept raw,
  as it stands between its quotes, and unquoted where a field is decoded.
\<close>

subsection \<open>UTF-8\<close>

definition in_bytes :: "nat \<Rightarrow> nat \<Rightarrow> char \<Rightarrow> bool" where
  "in_bytes lo hi c \<longleftrightarrow> lo \<le> byte c \<and> byte c \<le> hi"

text \<open>
  A lead byte gives the number of continuation bytes and the range of the first of them; the
  others lie in 0x80..0xBF. \<open>utf8_tail c cs\<close> is that number when \<open>c # cs\<close> starts with a valid
  multi-byte rune.
\<close>

definition utf8_lead :: "char \<Rightarrow> (nat \<times> nat \<times> nat) option" where
  "utf8_lead c = (let b = byte c in
     if 0xC2 \<le> b \<and> b \<le> 0xDF then Some (1, 0x80, 0xBF)
     else if 0xE0 \<le> b \<and> b \<le> 0xEF
       then Some (2, if b = 0xE0 then 0xA0 else 0x80, if b = 0xED then 0x9F else 0xBF)
     else if 0xF0 \<le> b \<and> b \<le> 0xF4
       then Some (3, if b = 0xF0 then 0x90 else 0x80, if b = 0xF4 then 0x8F else 0xBF)
     else None)"

definition utf8_tail :: "char \<Rightarrow> string \<Rightarrow> nat option" where
  "utf8_tail c cs = (case utf8_lead c of
       None \<Rightarrow> None
     | Some (n, lo, hi) \<Rightarrow>
         if n \<le> length cs \<and> in_bytes lo hi (hd cs) \<and> list_all (in_bytes 0x80 0xBF) (take (n - 1) (tl cs))
         then Some n else None)"

lemma utf8_lead_bounds:
  "utf8_lead c = Some (n, lo, hi) \<Longrightarrow> 0 < n \<and> 0x80 \<le> lo \<and> 0x80 \<le> byte c"
  by (auto simp: utf8_lead_def Let_def split: if_splits)

lemma utf8_tail_local:
  assumes "utf8_tail c cs = Some n"
  shows "utf8_tail c (take n cs @ rest) = Some n"
proof -
  from assms obtain lo hi where lead: "utf8_lead c = Some (n, lo, hi)"
    and len: "n \<le> length cs" and hd: "in_bytes lo hi (hd cs)"
    and tl: "list_all (in_bytes 0x80 0xBF) (take (n - 1) (tl cs))"
    by (auto simp: utf8_tail_def split: option.splits if_splits)
  from utf8_lead_bounds [OF lead] len obtain x xs m where "cs = x # xs" "n = Suc m"
    by (cases cs; cases n) auto
  with lead len hd tl show ?thesis by (simp add: utf8_tail_def)
qed

lemma utf8_tail_bounds:
  assumes "utf8_tail c cs = Some n"
  shows "0 < n \<and> n \<le> length cs \<and> 0x80 \<le> byte c \<and> list_all (\<lambda>d. 0x80 \<le> byte d) (take n cs)"
proof -
  from assms obtain lo hi where lead: "utf8_lead c = Some (n, lo, hi)"
    and len: "n \<le> length cs" and hd: "in_bytes lo hi (hd cs)"
    and tl: "list_all (in_bytes 0x80 0xBF) (take (n - 1) (tl cs))"
    by (auto simp: utf8_tail_def split: option.splits if_splits)
  from utf8_lead_bounds [OF lead] len obtain x xs m where "cs = x # xs" "n = Suc m"
    by (cases cs; cases n) auto
  with utf8_lead_bounds [OF lead] len hd tl show ?thesis
    by (auto simp: in_bytes_def list_all_iff)
qed

fun valid_utf8 :: "string \<Rightarrow> bool" where
  "valid_utf8 [] = True"
| "valid_utf8 (c # cs) =
     (if byte c < 0x80 then valid_utf8 cs
      else case utf8_tail c cs of None \<Rightarrow> False | Some n \<Rightarrow> valid_utf8 (drop n cs))"

lemma valid_utf8_ascii: "list_all (\<lambda>c. byte c < 0x80) s \<Longrightarrow> valid_utf8 s"
  by (induction s) auto

definition encode_rune :: "nat \<Rightarrow> string" where
  "encode_rune r = map char_of
     (if r < 0x80 then [r]
      else if r < 0x800 then [0xC0 + r div 0x40, 0x80 + r mod 0x40]
      else if r < 0x10000 then [0xE0 + r div 0x1000, 0x80 + r div 0x40 mod 0x40, 0x80 + r mod 0x40]
      else [0xF0 + r div 0x40000, 0x80 + r div 0x1000 mod 0x40, 0x80 + r div 0x40 mod 0x40,
            0x80 + r mod 0x40])"

definition replacement :: string where
  "replacement = [CHR 0xEF, CHR 0xBF, CHR 0xBD]"

subsection \<open>Escaping and unquoting strings\<close>

definition u_escape :: "string \<Rightarrow> string" where
  "u_escape hex4 = CHR 0x5C # CHR ''u'' # hex4"

definition escape_ascii :: "char \<Rightarrow> string" where
  "escape_ascii c =
     (if c = CHR 0x5C \<or> c = CHR 0x22 then [CHR 0x5C, c]
      else if c = CHR 0x08 then [CHR 0x5C, CHR ''b'']
      else if c = CHR 0x0C then [CHR 0x5C, CHR ''f'']
      else if c = CHR 0x0A then [CHR 0x5C, CHR ''n'']
      else if c = CHR 0x0D then [CHR 0x5C, CHR ''r'']
      else if c = CHR 0x09 then [CHR 0x5C, CHR ''t'']
      else if byte c < 0x20 \<or> c = CHR ''<'' \<or> c = CHR ''>'' \<or> c = CHR ''&''
        then u_escape [CHR ''0'', CHR ''0'', hex_digit (byte c div 16), hex_digit (byte c mod 16)]
      else [c])"

fun json_escape :: "string \<Rightarrow> string" where
  "json_escape [] = []"
| "json_escape (c # cs) =
     (if byte c < 0x80 then escape_ascii c @ json_escape cs
      else case utf8_tail c cs of
        None \<Rightarrow> u_escape ''fffd'' @ json_escape cs
      | Some n \<Rightarrow>
          (if c # take n cs = [CHR 0xE2, CHR 0x80, CHR 0xA8] then u_escape ''2028''
           else if c # take n cs = [CHR 0xE2, CHR 0x80, CHR 0xA9] then u_escape ''2029''
           else c # take n cs) @ json_escape (drop n cs))"

definition hex_val :: "char \<Rightarrow> nat" where
  "hex_val c = (if is_digit c then byte c - 48 else if 97 \<le> byte c then byte c - 87 else byte c - 55)"

definition hex4_val :: "char \<Rightarrow> char \<Rightarrow> char \<Rightarrow> char \<Rightarrow> nat" where
  "hex4_val a b c d = ((hex_val a * 16 + hex_val b) * 16 + hex_val c) * 16 + hex_val d"

definition simple_escape :: "char \<Rightarrow> char option" where
  "simple_escape e =
     (if e = CHR 0x22 \<or> e = CHR 0x5C \<or> e = CHR ''/'' then Some e
      else if e = CHR ''b'' then Some (CHR 0x08) else if e = CHR ''f'' then Some (CHR 0x0C)
      else if e = CHR ''n'' then Some (CHR 0x0A) else if e = CHR ''r'' then Some (CHR 0x0D)
      else if e = CHR ''t'' then Some (CHR 0x09) else None)"

text \<open>
  A \<^verbatim>\<open>\u\<close> escape of a surrogate joins a following low surrogate, and is U+FFFD otherwise.
\<close>

definition low_surrogate :: "string \<Rightarrow> nat option" where
  "low_surrogate s = (case s of e # u # a # b # c # d # _ \<Rightarrow>
       if e = CHR 0x5C \<and> u = CHR ''u'' \<and> list_all is_hex [a, b, c, d]
          \<and> 0xDC00 \<le> hex4_val a b c d \<and> hex4_val a b c d \<le> 0xDFFF
       then Some (hex4_val a b c d) else None
     | _ \<Rightarrow> None)"

fun json_unquote :: "string \<Rightarrow> string" where
  "json_unquote [] = []"
| "json_unquote (c # cs) =
     (if c = CHR 0x5C then
        (case cs of
           [] \<Rightarrow> []
         | e # ds \<Rightarrow>
             if e = CHR ''u'' then
               (let r = hex4_val (ds ! 0) (ds ! 1) (ds ! 2) (ds ! 3); rest = drop 4 ds in
                if 0xD800 \<le> r \<and> r \<le> 0xDFFF then
                  (case low_surrogate rest of
                     Some r2 \<Rightarrow>
                       if r \<le> 0xDBFF
                       then encode_rune (0x10000 + (r - 0xD800) * 0x400 + (r2 - 0xDC00))
                            @ json_unquote (drop 6 rest)
                       else replacement @ json_unquote rest
                   | None \<Rightarrow> replacement @ json_unquote rest)
                else encode_rune r @ json_unquote rest)
             else (case simple_escape e of None \<Rightarrow> [] | Some d \<Rightarrow> [d]) @ json_unquote ds)
      else if byte c < 0x80 then c # json_unquote cs
      else case utf8_tail c cs of
        None \<Rightarrow> replacement @ json_unquote cs
      | Some n \<Rightarrow> c # take n cs @ json_unquote (drop n cs))"

text \<open>
  The scanner's view of a string: everything up to the closing quote, escapes checked.
  \<open>consume p\<close> puts the consumed text \<open>p\<close> in front of what a lexer returns.
\<close>

definition consume :: "string \<Rightarrow> (string \<times> 'a) option \<Rightarrow> (string \<times> 'a) option" where
  "consume p x = (case x of None \<Rightarrow> None | Some (r, rest) \<Rightarrow> Some (p @ r, rest))"

lemma consume_simps [simp]:
  "consume p None = None"
  "consume p (Some (r, rest)) = Some (p @ r, rest)"
  "consume [] x = x"
  "consume p (consume q x) = consume (p @ q) x"
  by (auto simp: consume_def split: option.splits)

fun lex_string :: "string \<Rightarrow> (string \<times> string) option" where
  "lex_string [] = None"
| "lex_string (c # cs) =
     (if c = CHR 0x22 then Some ([], cs)
      else if c = CHR 0x5C then
        (case cs of
           e # ds \<Rightarrow>
             if e = CHR ''u'' then
               (if 4 \<le> length ds \<and> list_all is_hex (take 4 ds)
                then consume (c # e # take 4 ds) (lex_string (drop 4 ds))
                else None)
             else if simple_escape e \<noteq> None
             then consume [c, e] (lex_string ds)
             else None
         | [] \<Rightarrow> None)
      else if byte c < 0x20 then None
      else consume [c] (lex_string cs))"

definition raw_ok :: "string \<Rightarrow> bool" where
  "raw_ok r \<longleftrightarrow> lex_string (r @ [CHR 0x22]) = Some (r, [])"

lemma hex_val_hex_digit: "n < 16 \<Longrightarrow> hex_val (hex_digit n) = n"
  by (simp add: hex_val_def is_digit_def byte_hex_digit)

lemma is_hex_hex_digit: "n < 16 \<Longrightarrow> is_hex (hex_digit n)"
  by (simp add: is_hex_def is_hex_lower_hex_digit)

lemma encode_rune_ascii: "byte c < 0x80 \<Longrightarrow> encode_rune (byte c) = [c]"
  by (simp add: encode_rune_def byte_def)

text \<open>An ASCII character is written as itself, as a short escape or as \<^verbatim>\<open>\u00hh\<close>.\<close>

lemma escape_ascii_cases:
  obtains (raw) "escape_ascii c = [c]" "c \<noteq> CHR 0x22" "c \<noteq> CHR 0x5C" "\<not> byte c < 0x20"
  | (short) e where "escape_ascii c = [CHR 0x5C, e]" "simple_escape e = Some c" "e \<noteq> CHR ''u''"
  | (long) "escape_ascii c = u_escape [CHR ''0'', CHR ''0'', hex_digit (byte c div 16), hex_digit (byte c mod 16)]"
proof -
  consider "c = CHR 0x5C" | "c = CHR 0x22" | "c = CHR 0x08" | "c = CHR 0x0C" | "c = CHR 0x0A"
    | "c = CHR 0x0D" | "c = CHR 0x09"
    | "c \<noteq> CHR 0x5C" "c \<noteq> CHR 0x22" "c \<noteq> CHR 0x08" "c \<noteq> CHR 0x0C" "c \<noteq> CHR 0x0A"
      "c \<noteq> CHR 0x0D" "c \<noteq> CHR 0x09" by blast
  then show thesis
  proof cases
    case 8
    show thesis
    proof (cases "byte c < 0x20 \<or> c = CHR ''<'' \<or> c = CHR ''>'' \<or> c = CHR ''&''")
      case True
      with 8 show thesis by (intro long) (simp add: escape_ascii_def)
    next
      case False
      with 8 show thesis by (intro raw) (simp_all add: escape_ascii_def)
    qed
  qed (simp_all add: escape_ascii_def simple_escape_def short)
qed

lemma unquote_escape_ascii:
  assumes "byte c < 0x80"
  shows "json_unquote (escape_ascii c @ r) = c # json_unquote r"
proof (cases c rule: escape_ascii_cases)
  case raw
  with assms show ?thesis by simp
next
  case (short e)
  then show ?thesis by simp
next
  case long
  have "byte c div 16 < 16" "byte c mod 16 < 16" using assms by auto
  moreover have "(byte c div 16) * 16 + byte c mod 16 = byte c" by simp
  moreover have "hex_val (CHR ''0'') = 0" by (simp add: hex_val_def is_digit_def byte_def)
  ultimately have "hex4_val (CHR ''0'') (CHR ''0'') (hex_digit (byte c div 16)) (hex_digit (byte c mod 16)) = byte c"
    by (simp add: hex4_val_def hex_val_hex_digit)
  with assms long show ?thesis by (simp add: u_escape_def encode_rune_ascii Let_def)
qed

lemma unquote_u2028: "json_unquote (u_escape ''2028'' @ r) = [CHR 0xE2, CHR 0x80, CHR 0xA8] @ json_unquote r"
  by (simp add: u_escape_def Let_def hex4_val_def hex_val_def is_digit_def byte_def encode_rune_def char_of_def bit_0)

lemma unquote_u2029: "json_unquote (u_escape ''2029'' @ r) = [CHR 0xE2, CHR 0x80, CHR 0xA9] @ json_unquote r"
  by (simp add: u_escape_def Let_def hex4_val_def hex_val_def is_digit_def byte_def encode_rune_def char_of_def bit_0)

lemma unquote_ufffd: "json_unquote (u_escape ''fffd'' @ r) = replacement @ json_unquote r"
  by (simp add: u_escape_def Let_def hex4_val_def hex_val_def is_digit_def byte_def encode_rune_def
      replacement_def char_of_def bit_0)

lemma unquote_multi:
  assumes "utf8_tail c cs = Some n"
  shows "json_unquote (c # take n cs @ r) = c # take n cs @ json_unquote r"
proof -
  from utf8_tail_bounds [OF assms] have "n \<le> length cs" "\<not> byte c < 0x80" by auto
  moreover from this have "c \<noteq> CHR 0x5C" by (auto simp: byte_def)
  ultimately show ?thesis by (simp add: utf8_tail_local [OF assms])
qed

text \<open>Unquoting undoes escaping on valid UTF-8, and only there.\<close>

lemma json_unquote_escape:
  "valid_utf8 s \<Longrightarrow> json_unquote (json_escape s) = s"
proof (induction s rule: json_escape.induct)
  case (2 c cs)
  show ?case
  proof (cases "byte c < 0x80")
    case True
    with 2 show ?thesis by (simp add: unquote_escape_ascii)
  next
    case False
    with 2 obtain n where n: "utf8_tail c cs = Some n" and v: "valid_utf8 (drop n cs)"
      by (auto split: option.splits)
    with 2 False have IH: "json_unquote (json_escape (drop n cs)) = drop n cs" by simp
    have take_drop: "c # take n cs @ drop n cs = c # cs" by simp
    consider (a) "c # take n cs = [CHR 0xE2, CHR 0x80, CHR 0xA8]"
      | (b) "c # take n cs = [CHR 0xE2, CHR 0x80, CHR 0xA9]"
      | (c) "c # take n cs \<noteq> [CHR 0xE2, CHR 0x80, CHR 0xA8]"
        "c # take n cs \<noteq> [CHR 0xE2, CHR 0x80, CHR 0xA9]" by blast
    then show ?thesis
    proof cases
      case a
      with n False have "json_escape (c # cs) = u_escape ''2028'' @ json_escape (drop n cs)" by simp
      with IH a take_drop show ?thesis by (metis append_Cons unquote_u2028)
    next
      case b
      with n False have "json_escape (c # cs) = u_escape ''2029'' @ json_escape (drop n cs)" by simp
      with IH b take_drop show ?thesis by (metis append_Cons unquote_u2029)
    next
      case c
      with n False have "json_escape (c # cs) = c # take n cs @ json_escape (drop n cs)"
        by (simp only: json_escape.simps if_False option.case append_Cons)
      with IH unquote_multi [OF n] take_drop show ?thesis by simp
    qed
  qed
qed simp

lemma lex_string_high:
  "list_all (\<lambda>d. 0x80 \<le> byte d) xs \<Longrightarrow> lex_string (xs @ r) = consume xs (lex_string r)"
proof (induction xs)
  case (Cons x xs)
  then have "x \<noteq> CHR 0x22" "x \<noteq> CHR 0x5C" "\<not> byte x < 0x20" by (auto simp: byte_def)
  with Cons show ?case by simp
qed simp

lemma lex_string_u_escape:
  "length h = 4 \<Longrightarrow> list_all is_hex h \<Longrightarrow>
   lex_string (u_escape h @ r) = consume (u_escape h) (lex_string r)"
  by (simp add: u_escape_def)

lemma lex_string_escape_ascii:
  assumes "byte c < 0x80"
  shows "lex_string (escape_ascii c @ r) = consume (escape_ascii c) (lex_string r)"
proof (cases c rule: escape_ascii_cases)
  case long
  have d: "byte c div 16 < 16" "byte c mod 16 < 16" using assms by auto
  have z: "is_hex (CHR ''0'')" by (simp add: is_hex_def is_hex_lower_def is_digit_def byte_def)
  show ?thesis unfolding long by (rule lex_string_u_escape) (simp_all add: d z is_hex_hex_digit)
qed simp_all

lemma is_hex_fffd: "list_all is_hex ''fffd''" "list_all is_hex ''2028''" "list_all is_hex ''2029''"
  by (simp_all add: is_hex_def is_hex_lower_def is_digit_def byte_def)

lemma lex_string_escape:
  "lex_string (json_escape s @ CHR 0x22 # rest) = Some (json_escape s, rest)"
proof (induction s rule: json_escape.induct)
  case (2 c cs)
  show ?case
  proof (cases "byte c < 0x80")
    case True
    with 2 show ?thesis by (simp add: lex_string_escape_ascii)
  next
    case False
    show ?thesis
    proof (cases "utf8_tail c cs")
      case None
      with False 2 is_hex_fffd show ?thesis by (simp add: lex_string_u_escape)
    next
      case (Some n)
      from utf8_tail_bounds [OF Some]
      have "list_all (\<lambda>d. 0x80 \<le> byte d) (c # take n cs)" by simp
      from lex_string_high [OF this] Some False 2 is_hex_fffd show ?thesis
        by (simp add: lex_string_u_escape)
    qed
  qed
qed simp

lemma raw_ok_escape: "raw_ok (json_escape s)"
  using lex_string_escape [of s "[]"] by (simp add: raw_ok_def)

subsection \<open>Values, their compact text and the scanner\<close>

text \<open>
  A value keeps the text of a number and the raw content of a string or key. \<open>jprint\<close> is the
  compact output of \<^verbatim>\<open>json.Marshal\<close>.
\<close>

datatype json =
    JNull
  | JBool bool
  | JNum string
  | JStr string
  | JArr "json list"
  | JObj "(string \<times> json) list"

fun join :: "char \<Rightarrow> string list \<Rightarrow> string" where
  "join c [] = []"
| "join c [s] = s"
| "join c (s # t # ss) = s @ c # join c (t # ss)"

definition quoted :: "string \<Rightarrow> string" where
  "quoted r = CHR 0x22 # r @ [CHR 0x22]"

fun jprint :: "json \<Rightarrow> string" where
  "jprint JNull = ''null''"
| "jprint (JBool b) = (if b then ''true'' else ''false'')"
| "jprint (JNum s) = s"
| "jprint (JStr r) = quoted r"
| "jprint (JArr xs) = CHR ''['' # join (CHR '','') (map jprint xs) @ '']''"
| "jprint (JObj ms) =
     CHR ''{'' # join (CHR '','') (map (\<lambda>(k, v). quoted k @ CHR '':'' # jprint v) ms) @ ''}''"

definition is_ws :: "char \<Rightarrow> bool" where
  "is_ws c \<longleftrightarrow> c = CHR '' '' \<or> c = CHR 0x09 \<or> c = CHR 0x0A \<or> c = CHR 0x0D"

definition skip_ws :: "string \<Rightarrow> string" where
  "skip_ws s = dropWhile is_ws s"

text \<open>Numbers: an optional minus, an integer without leading zeros, fraction, exponent.\<close>

definition lex_digits :: "string \<Rightarrow> string \<Rightarrow> (string \<times> string) option" where
  "lex_digits acc s = (if takeWhile is_digit s = [] then None
     else Some (acc @ takeWhile is_digit s, dropWhile is_digit s))"

definition lex_exp :: "string \<Rightarrow> string \<Rightarrow> (string \<times> string) option" where
  "lex_exp acc s = (case s of
       e # r \<Rightarrow>
         if e = CHR ''e'' \<or> e = CHR ''E'' then
           (case r of
              g # q \<Rightarrow> if g = CHR ''+'' \<or> g = CHR ''-'' then lex_digits (acc @ [e, g]) q
                       else lex_digits (acc @ [e]) r
            | [] \<Rightarrow> None)
         else Some (acc, s)
     | [] \<Rightarrow> Some (acc, []))"

definition lex_frac :: "string \<Rightarrow> string \<Rightarrow> (string \<times> string) option" where
  "lex_frac acc s = (case s of
       d # r \<Rightarrow> if d = CHR ''.'' then
                 (case lex_digits (acc @ [d]) r of None \<Rightarrow> None | Some (a, q) \<Rightarrow> lex_exp a q)
               else lex_exp acc s
     | [] \<Rightarrow> Some (acc, []))"

definition lex_unsigned :: "string \<Rightarrow> string \<Rightarrow> (string \<times> string) option" where
  "lex_unsigned acc s = (case s of
       c # r \<Rightarrow> if c = CHR ''0'' then lex_frac (acc @ [c]) r
               else (case lex_digits acc s of None \<Rightarrow> None | Some (a, q) \<Rightarrow> lex_frac a q)
     | [] \<Rightarrow> None)"

definition lex_number :: "string \<Rightarrow> (string \<times> string) option" where
  "lex_number s = (case s of
       c # r \<Rightarrow> if c = CHR ''-'' then lex_unsigned ''-'' r else lex_unsigned [] s
     | [] \<Rightarrow> None)"

definition lex_literal :: "string \<Rightarrow> json \<Rightarrow> string \<Rightarrow> (json \<times> string) option" where
  "lex_literal l v s = (if has_prefix s l then Some (v, drop (length l) s) else None)"

text \<open>
  The recursive scanner. \<open>d\<close> is the nesting still allowed; the first argument is fuel, one unit per
  call, and \<open>json_parse\<close> gives twice the length of the text, which is enough because every two
  nested calls consume at least one character.
\<close>

fun pval :: "nat \<Rightarrow> nat \<Rightarrow> string \<Rightarrow> (json \<times> string) option"
  and pelems :: "nat \<Rightarrow> nat \<Rightarrow> string \<Rightarrow> (json list \<times> string) option"
  and pmembers :: "nat \<Rightarrow> nat \<Rightarrow> string \<Rightarrow> ((string \<times> json) list \<times> string) option"
where
  "pval 0 d s = None"
| "pval (Suc n) d s =
     (case skip_ws s of
        [] \<Rightarrow> None
      | c # r \<Rightarrow>
          if c = CHR ''{'' then
            (if d = 0 then None
             else if skip_ws r \<noteq> [] \<and> hd (skip_ws r) = CHR ''}'' then Some (JObj [], tl (skip_ws r))
             else map_option (apfst JObj) (pmembers n (d - 1) r))
          else if c = CHR ''['' then
            (if d = 0 then None
             else if skip_ws r \<noteq> [] \<and> hd (skip_ws r) = CHR '']'' then Some (JArr [], tl (skip_ws r))
             else map_option (apfst JArr) (pelems n (d - 1) r))
          else if c = CHR 0x22 then map_option (apfst JStr) (lex_string r)
          else if c = CHR ''t'' then lex_literal ''true'' (JBool True) (c # r)
          else if c = CHR ''f'' then lex_literal ''false'' (JBool False) (c # r)
          else if c = CHR ''n'' then lex_literal ''null'' JNull (c # r)
          else map_option (apfst JNum) (lex_number (c # r)))"
| "pelems 0 d s = None"
| "pelems (Suc n) d s =
     (case pval n d s of
        None \<Rightarrow> None
      | Some (v, r) \<Rightarrow>
          (case skip_ws r of
             [] \<Rightarrow> None
           | c # q \<Rightarrow>
               if c = CHR '','' then map_option (apfst ((#) v)) (pelems n d q)
               else if c = CHR '']'' then Some ([v], q)
               else None))"
| "pmembers 0 d s = None"
| "pmembers (Suc n) d s =
     (case skip_ws s of
        [] \<Rightarrow> None
      | c # r \<Rightarrow>
          if c = CHR 0x22 then
            (case lex_string r of
               None \<Rightarrow> None
             | Some (k, q) \<Rightarrow>
                 (case skip_ws q of
                    [] \<Rightarrow> None
                  | e # q' \<Rightarrow>
                      if e = CHR '':'' then
                        (case pval n d q' of
                           None \<Rightarrow> None
                         | Some (v, t) \<Rightarrow>
                             (case skip_ws t of
                                [] \<Rightarrow> None
                              | f # u \<Rightarrow>
                                  if f = CHR '','' then map_option (apfst ((#) (k, v))) (pmembers n d u)
                                  else if f = CHR ''}'' then Some ([(k, v)], u)
                                  else None))
                      else None))
          else None)"

definition max_nesting :: nat where
  "max_nesting = 10000"

definition json_parse :: "string \<Rightarrow> json option" where
  "json_parse s = (case pval (2 * length s + 2) max_nesting s of
       Some (v, r) \<Rightarrow> if skip_ws r = [] then Some v else None
     | None \<Rightarrow> None)"

definition json_valid :: "string \<Rightarrow> bool" where
  "json_valid s \<longleftrightarrow> json_parse s \<noteq> None"

end
