(* ===== verification/Go_Json_Facts.thy ===== *)
theory Go_Json_Facts
  imports Go_Json
begin

section \<open>Facts about the JSON scanner: round trip and fuel\<close>

text \<open>
  The scanner reads back what the printer writes (\<open>json_parse_print\<close>), for values whose raw
  strings and numbers are lexically right and whose nesting stays within the limit; the text
  printed for such a value holds no line feed, which is what makes one value one journal line.
\<close>

subsection \<open>Numbers\<close>

definition num_stop :: "string \<Rightarrow> bool" where
  "num_stop rest \<longleftrightarrow> (case rest of [] \<Rightarrow> True
     | c # _ \<Rightarrow> \<not> is_digit c \<and> c \<noteq> CHR ''.'' \<and> c \<noteq> CHR ''e'' \<and> c \<noteq> CHR ''E'')"

definition num_ok :: "string \<Rightarrow> bool" where
  "num_ok s \<longleftrightarrow> lex_number s = Some (s, [])"

lemma num_stop_simps [simp]:
  "num_stop []"
  "num_stop (CHR '','' # r)" "num_stop (CHR '']'' # r)" "num_stop (CHR ''}'' # r)"
  by (simp_all add: num_stop_def is_digit_def byte_def)

lemma takeWhile_stop: "num_stop rest \<Longrightarrow> takeWhile is_digit rest = [] \<and> dropWhile is_digit rest = rest"
  by (cases rest) (auto simp: num_stop_def)

lemma lex_digits_append:
  assumes "lex_digits acc s = Some (a, [])" "num_stop rest"
  shows "lex_digits acc (s @ rest) = Some (a, rest)"
proof -
  from assms have all: "\<forall>c \<in> set s. is_digit c" and a: "a = acc @ s" "s \<noteq> []"
    by (auto simp: lex_digits_def split: if_splits)
  then have "takeWhile is_digit (s @ rest) = s" "dropWhile is_digit (s @ rest) = rest"
    using takeWhile_stop [OF assms(2)] by (simp_all add: takeWhile_append2 dropWhile_append2)
  with a show ?thesis by (simp add: lex_digits_def)
qed

lemma lex_exp_append:
  assumes "lex_exp acc s = Some (a, [])" "num_stop rest"
  shows "lex_exp acc (s @ rest) = Some (a, rest)"
proof (cases s)
  case Nil
  with assms show ?thesis by (auto simp: lex_exp_def num_stop_def split: list.splits)
next
  case (Cons e r)
  with assms have e: "e = CHR ''e'' \<or> e = CHR ''E''" by (auto simp: lex_exp_def split: if_splits)
  with Cons assms obtain g q where r: "r = g # q" by (auto simp: lex_exp_def split: list.splits)
  show ?thesis
  proof (cases "g = CHR ''+'' \<or> g = CHR ''-''")
    case True
    with Cons assms e r lex_digits_append [of "acc @ [e, g]" q a rest] show ?thesis
      by (auto simp: lex_exp_def)
  next
    case False
    with Cons assms e r lex_digits_append [of "acc @ [e]" r a rest] show ?thesis
      by (auto simp: lex_exp_def)
  qed
qed

lemma lex_digits_split:
  assumes "lex_digits acc s = Some (a, q)" "q \<noteq> []"
  shows "lex_digits acc (s @ rest) = Some (a, q @ rest)"
proof -
  from assms have q: "dropWhile is_digit s = q" and tw: "takeWhile is_digit s \<noteq> []" "a = acc @ takeWhile is_digit s"
    by (auto simp: lex_digits_def split: if_splits)
  from q assms(2) obtain x where "x \<in> set s" "\<not> is_digit x"
    by (metis dropWhile_eq_Nil_conv)
  with q tw show ?thesis by (auto simp: lex_digits_def takeWhile_append1 dropWhile_append1)
qed

lemma lex_frac_append:
  assumes "lex_frac acc s = Some (a, [])" "num_stop rest"
  shows "lex_frac acc (s @ rest) = Some (a, rest)"
proof (cases s)
  case Nil
  with assms have "a = acc" by (simp add: lex_frac_def)
  moreover have "lex_frac acc rest = Some (acc, rest)"
    using assms(2) by (auto simp: lex_frac_def lex_exp_def num_stop_def split: list.splits)
  ultimately show ?thesis using Nil by simp
next
  case (Cons d r)
  show ?thesis
  proof (cases "d = CHR ''.''")
    case True
    with Cons assms obtain b q where b: "lex_digits (acc @ [d]) r = Some (b, q)" "lex_exp b q = Some (a, [])"
      by (auto simp: lex_frac_def split: option.splits)
    show ?thesis
    proof (cases "q = []")
      case True
      with b have "a = b" by (simp add: lex_exp_def)
      moreover have "lex_exp b rest = Some (b, rest)"
        using assms(2) by (auto simp: lex_exp_def num_stop_def split: list.splits)
      ultimately show ?thesis using b True \<open>d = CHR ''.''\<close> Cons assms(2)
        by (simp add: lex_frac_def lex_digits_append)
    next
      case False
      with b \<open>d = CHR ''.''\<close> Cons lex_exp_append [OF b(2) assms(2)] show ?thesis
        by (simp add: lex_frac_def lex_digits_split)
    qed
  next
    case False
    with Cons assms lex_exp_append [of acc "d # r" a rest] show ?thesis
      by (simp add: lex_frac_def)
  qed
qed

lemma lex_unsigned_append:
  assumes "lex_unsigned acc s = Some (a, [])" "num_stop rest"
  shows "lex_unsigned acc (s @ rest) = Some (a, rest)"
proof (cases s)
  case Nil
  with assms show ?thesis by (simp add: lex_unsigned_def)
next
  case (Cons c r)
  show ?thesis
  proof (cases "c = CHR ''0''")
    case True
    with Cons assms show ?thesis by (simp add: lex_unsigned_def lex_frac_append)
  next
    case False
    with Cons assms obtain b q where b: "lex_digits acc s = Some (b, q)" "lex_frac b q = Some (a, [])"
      by (auto simp: lex_unsigned_def split: option.splits)
    show ?thesis
    proof (cases "q = []")
      case True
      with b have "a = b" by (simp add: lex_frac_def)
      moreover have "lex_frac b rest = Some (b, rest)"
        using lex_frac_append [of b "[]" b rest] assms(2) by (simp add: lex_frac_def)
      ultimately show ?thesis
        using b True False Cons assms(2) lex_digits_append [of acc s b rest]
        by (simp add: lex_unsigned_def)
    next
      case False2: False
      with b False Cons lex_frac_append [OF b(2) assms(2)] lex_digits_split [OF b(1) False2, of rest]
      show ?thesis by (simp add: lex_unsigned_def)
    qed
  qed
qed

lemma lex_number_append:
  assumes "num_ok s" "num_stop rest"
  shows "lex_number (s @ rest) = Some (s, rest)"
proof (cases s)
  case Nil
  with assms show ?thesis by (simp add: num_ok_def lex_number_def)
next
  case (Cons c r)
  with assms lex_unsigned_append [of "''-''" r s rest] lex_unsigned_append [of "[]" s s rest]
  show ?thesis by (auto simp: num_ok_def lex_number_def split: if_splits)
qed

lemma itoa_nat_lead: "hd (itoa_nat n) = CHR ''0'' \<Longrightarrow> n = 0"
proof (induction n rule: itoa_nat.induct)
  case (1 n)
  have zero: "digit_char k = CHR ''0'' \<Longrightarrow> k < 10 \<Longrightarrow> k = 0" for k
    using byte_digit_char [of k] by (auto simp: byte_def)
  show ?case
  proof (cases "n < 10")
    case True
    with 1 zero show ?thesis by (subst (asm) (2) itoa_nat.simps) simp
  next
    case False
    with 1 have "n div 10 = 0" by (subst (asm) (2) itoa_nat.simps) simp
    with False show ?thesis by simp
  qed
qed

lemma lex_unsigned_itoa: "lex_unsigned acc (itoa_nat n) = Some (acc @ itoa_nat n, [])"
proof -
  have all: "takeWhile is_digit (itoa_nat n) = itoa_nat n" "dropWhile is_digit (itoa_nat n) = []"
    using itoa_nat_digits [of n] by (simp_all add: list_all_iff)
  obtain c r where c: "itoa_nat n = c # r" by (cases "itoa_nat n") auto
  show ?thesis
  proof (cases "c = CHR ''0''")
    case True
    with c itoa_nat_lead [of n] have "n = 0" by simp
    then have "itoa_nat n = ''0''" by (subst itoa_nat.simps) (simp add: digit_char_def char_of_def bit_0)
    then show ?thesis by (simp add: lex_unsigned_def lex_frac_def)
  next
    case False
    with c all show ?thesis by (simp add: lex_unsigned_def lex_digits_def lex_frac_def)
  qed
qed

lemma num_ok_itoa [simp]: "num_ok (itoa n)"
proof (cases "n < 0")
  case True
  then show ?thesis by (simp add: num_ok_def itoa_def lex_number_def lex_unsigned_itoa)
next
  case False
  obtain c r where c: "itoa_nat (nat n) = c # r" by (cases "itoa_nat (nat n)") auto
  with itoa_nat_head_digit [of "nat n"] is_digit_not_sign have "c \<noteq> CHR ''-''" by auto
  with False c lex_unsigned_itoa [of "[]" "nat n"] show ?thesis
    by (simp add: num_ok_def itoa_def lex_number_def)
qed

subsection \<open>Well-formed values and the round trip\<close>

fun json_ok :: "nat \<Rightarrow> json \<Rightarrow> bool" where
  "json_ok d JNull = True"
| "json_ok d (JBool b) = True"
| "json_ok d (JNum s) = num_ok s"
| "json_ok d (JStr r) = raw_ok r"
| "json_ok d (JArr xs) = (0 < d \<and> list_all (json_ok (d - 1)) xs)"
| "json_ok d (JObj ms) = (0 < d \<and> list_all (\<lambda>(k, v). raw_ok k \<and> json_ok (d - 1) v) ms)"

lemma consume_Some_iff:
  "consume p x = Some (r, q) \<longleftrightarrow> (\<exists>r'. x = Some (r', q) \<and> r = p @ r')"
  by (auto simp: consume_def split: option.splits)

lemma lex_string_extend:
  "lex_string s = Some (r, q) \<Longrightarrow> lex_string (s @ rest) = Some (r, q @ rest)"
proof (induction s arbitrary: r rule: lex_string.induct)
  case (2 c cs)
  consider (quote) "c = CHR 0x22" | (esc) "c = CHR 0x5C" | (plain) "c \<noteq> CHR 0x22" "c \<noteq> CHR 0x5C" by blast
  then show ?case
  proof cases
    case esc
    with 2 obtain e ds where cs: "cs = e # ds" by (auto split: list.splits)
    show ?thesis
    proof (cases "e = CHR ''u''")
      case True
      with 2 esc cs show ?thesis by (auto simp: consume_Some_iff split: if_splits)
    next
      case False
      with 2 esc cs have "simple_escape e \<noteq> None" by (auto split: if_splits)
      with 2 esc cs False show ?thesis by (auto simp: consume_Some_iff)
    qed
  next
    case plain
    with 2 have "\<not> byte c < 0x20" by (auto split: if_splits)
    with 2 plain show ?thesis by (auto simp: consume_Some_iff)
  qed (use 2 in simp)
qed simp

lemma lex_string_raw: "raw_ok r \<Longrightarrow> lex_string (r @ CHR 0x22 # rest) = Some (r, rest)"
  using lex_string_extend [of "r @ [CHR 0x22]" r "[]" rest] by (simp add: raw_ok_def)

lemma num_ok_head:
  assumes "num_ok s"
  obtains c r where "s = c # r" "c = CHR ''-'' \<or> is_digit c"
proof -
  from assms obtain c r where s: "s = c # r" by (cases s) (auto simp: num_ok_def lex_number_def)
  have "is_digit c" if "c \<noteq> CHR ''-''"
  proof (rule ccontr)
    assume "\<not> is_digit c"
    moreover from this have "c \<noteq> CHR ''0''" by (auto simp: is_digit_def byte_def)
    ultimately show False using assms s that
      by (simp add: num_ok_def lex_number_def lex_unsigned_def lex_digits_def)
  qed
  with s that show thesis by blast
qed

lemma is_digit_not_special:
  "is_digit c \<Longrightarrow> \<not> is_ws c \<and> c \<noteq> CHR ''{'' \<and> c \<noteq> CHR ''['' \<and> c \<noteq> CHR 0x22 \<and> c \<noteq> CHR ''t'' \<and> c \<noteq> CHR ''f'' \<and> c \<noteq> CHR ''n''
     \<and> c \<noteq> CHR ''}'' \<and> c \<noteq> CHR '']''"
  by (auto simp: is_digit_def byte_def is_ws_def)

lemma skip_ws_cons [simp]: "\<not> is_ws c \<Longrightarrow> skip_ws (c # r) = c # r"
  by (simp add: skip_ws_def)

lemma not_ws_consts [simp]:
  "\<not> is_ws (CHR ''{'')" "\<not> is_ws (CHR ''}'')" "\<not> is_ws (CHR ''['')" "\<not> is_ws (CHR '']'')"
  "\<not> is_ws (CHR 0x22)" "\<not> is_ws (CHR ''t'')" "\<not> is_ws (CHR ''f'')" "\<not> is_ws (CHR ''n'')"
  "\<not> is_ws (CHR '','')" "\<not> is_ws (CHR '':'')" "\<not> is_ws (CHR ''-'')"
  by (simp_all add: is_ws_def)

lemma jprint_head:
  assumes "json_ok d v"
  obtains c r where "jprint v = c # r" "\<not> is_ws c" "c \<noteq> CHR '']''" "c \<noteq> CHR ''}''"
proof (cases v)
  case (JNum s)
  with assms obtain c r where "s = c # r" "c = CHR ''-'' \<or> is_digit c"
    by (auto elim: num_ok_head)
  with JNum is_digit_not_special [of c] that show thesis by auto
next
  case (JBool b)
  with that show thesis by (cases b) auto
qed (use that in \<open>auto simp: quoted_def\<close>)

definition print_member :: "string \<times> json \<Rightarrow> string" where
  "print_member = (\<lambda>(k, v). quoted k @ CHR '':'' # jprint v)"

lemma jprint_JObj: "jprint (JObj ms) = CHR ''{'' # join (CHR '','') (map print_member ms) @ ''}''"
  by (simp add: print_member_def)

lemma length_join_Cons:
  "length (join c (s # ss)) = (if ss = [] then length s else length s + 1 + length (join c ss))"
  by (cases ss) auto

lemma pelems_print:
  assumes "\<And>x rest n. x \<in> set xs \<Longrightarrow> num_stop rest \<Longrightarrow> 2 * length (jprint x) \<le> n \<Longrightarrow>
      pval n d (jprint x @ rest) = Some (x, rest)"
    and "xs \<noteq> []" "2 * length (join (CHR '','') (map jprint xs)) + 1 \<le> n"
  shows "pelems n d (join (CHR '','') (map jprint xs) @ CHR '']'' # rest) = Some (xs, rest)"
  using assms
proof (induction xs arbitrary: n)
  case (Cons x xs)
  then obtain m where n: "n = Suc m" by (cases n) auto
  show ?case
  proof (cases xs)
    case Nil
    with Cons.prems n show ?thesis by simp
  next
    case (Cons y ys)
    have len: "2 * length (jprint x) \<le> m" "2 * length (join (CHR '','') (map jprint xs)) + 1 \<le> m"
      using Cons.prems(3) n Cons by (simp_all add: length_join_Cons)
    have "pelems m d (join (CHR '','') (map jprint xs) @ CHR '']'' # rest) = Some (xs, rest)"
      using Cons.IH Cons.prems(1) len(2) Cons by auto
    with Cons.prems(1) [of x "CHR '','' # join (CHR '','') (map jprint xs) @ CHR '']'' # rest" m] len(1) n Cons
    show ?thesis by simp
  qed
qed simp

lemma pmembers_print:
  assumes "\<And>k x rest n. (k, x) \<in> set ms \<Longrightarrow> num_stop rest \<Longrightarrow> 2 * length (jprint x) \<le> n \<Longrightarrow>
      pval n d (jprint x @ rest) = Some (x, rest)"
    and "\<And>k x. (k, x) \<in> set ms \<Longrightarrow> raw_ok k"
    and "ms \<noteq> []" "2 * length (join (CHR '','') (map print_member ms)) + 1 \<le> n"
  shows "pmembers n d (join (CHR '','') (map print_member ms) @ CHR ''}'' # rest) = Some (ms, rest)"
  using assms
proof (induction ms arbitrary: n)
  case (Cons a ms)
  obtain k x where a: "a = (k, x)" by (cases a)
  obtain m where n: "n = Suc m" using Cons.prems(4) by (cases n) auto
  have raw: "raw_ok k" using Cons.prems(2) [of k x] a by simp
  show ?case
  proof (cases ms)
    case Nil
    with Cons.prems(1) [of k x "CHR ''}'' # rest" m] Cons.prems(4) a n raw show ?thesis
      by (simp add: print_member_def quoted_def lex_string_raw)
  next
    case (Cons b bs)
    have len: "2 * length (jprint x) \<le> m" "2 * length (join (CHR '','') (map print_member ms)) + 1 \<le> m"
      using Cons.prems(4) n Cons a by (simp_all add: length_join_Cons print_member_def)
    have "pmembers m d (join (CHR '','') (map print_member ms) @ CHR ''}'' # rest) = Some (ms, rest)"
      using Cons.IH [of m] Cons.prems(1,2) len(2) Cons by (metis list.distinct(1) list.set_intros(2))
    with Cons.prems(1) [of k x "CHR '','' # join (CHR '','') (map print_member ms) @ CHR ''}'' # rest" m]
      len(1) n Cons a raw
    show ?thesis by (simp add: print_member_def quoted_def lex_string_raw)
  qed
qed simp

lemma pval_print:
  "json_ok d v \<Longrightarrow> num_stop rest \<Longrightarrow> 2 * length (jprint v) \<le> n \<Longrightarrow> pval n d (jprint v @ rest) = Some (v, rest)"
proof (induction v arbitrary: d rest n)
  case (JNum s)
  from JNum obtain c r where s: "s = c # r" "c = CHR ''-'' \<or> is_digit c" by (auto elim: num_ok_head)
  with JNum obtain m where n: "n = Suc m" by (cases n) auto
  have "lex_number (s @ rest) = Some (s, rest)" using JNum by (simp add: lex_number_append)
  with s n is_digit_not_special [of c] show ?case by auto
next
  case (JStr r)
  then obtain m where n: "n = Suc m" by (cases n) (auto simp: quoted_def)
  with JStr show ?case by (simp add: quoted_def lex_string_raw)
next
  case (JArr xs)
  then obtain m where n: "n = Suc m" by (cases n) auto
  show ?case
  proof (cases xs)
    case Nil
    with JArr n show ?thesis by simp
  next
    case (Cons y ys)
    have "json_ok (d - 1) y" using JArr.prems Cons by simp
    then obtain c r where c: "jprint y = c # r" "\<not> is_ws c" "c \<noteq> CHR '']''"
      by (rule jprint_head)
    have head: "join (CHR '','') (map jprint xs) = c # r @ (if ys = [] then [] else CHR '','' # join (CHR '','') (map jprint ys))"
      using Cons c by (cases ys) auto
    have "pelems m (d - 1) (join (CHR '','') (map jprint xs) @ CHR '']'' # rest) = Some (xs, rest)"
    proof (rule pelems_print)
      fix x rest' n'
      assume "x \<in> set xs" "num_stop rest'" "2 * length (jprint x) \<le> n'"
      with JArr show "pval n' (d - 1) (jprint x @ rest') = Some (x, rest')" by (simp add: list_all_iff)
    qed (use JArr.prems n Cons in auto)
    with head c n JArr.prems show ?thesis by simp
  qed
next
  case (JObj ms)
  then obtain m where n: "n = Suc m" by (cases n) auto
  show ?case
  proof (cases ms)
    case Nil
    with JObj n show ?thesis by simp
  next
    case (Cons a as)
    obtain k x where a: "a = (k, x)" by (cases a)
    have head: "\<exists>r. join (CHR '','') (map print_member ms) = CHR 0x22 # r"
      using Cons a by (cases as) (auto simp: print_member_def quoted_def)
    have "pmembers m (d - 1) (join (CHR '','') (map print_member ms) @ CHR ''}'' # rest) = Some (ms, rest)"
    proof (rule pmembers_print)
      fix k x rest' n'
      assume "(k, x) \<in> set ms" "num_stop rest'" "2 * length (jprint x) \<le> n'"
      with JObj show "pval n' (d - 1) (jprint x @ rest') = Some (x, rest')"
        by (force simp: list_all_iff)
    qed (use JObj.prems n Cons in \<open>auto simp: list_all_iff jprint_JObj simp del: jprint.simps\<close>)
    with head n JObj.prems show ?thesis by (auto simp: jprint_JObj simp del: jprint.simps(6))
  qed
next
  case JNull
  then obtain m where "n = Suc m" by (cases n) auto
  then show ?case by (simp add: lex_literal_def has_prefix_def)
next
  case (JBool b)
  then obtain m where "n = Suc m" by (cases n) (auto split: if_splits)
  then show ?case by (simp add: lex_literal_def has_prefix_def)
qed

theorem json_parse_print: "json_ok max_nesting v \<Longrightarrow> json_parse (jprint v) = Some v"
  using pval_print [of max_nesting v "[]" "2 * length (jprint v) + 2"]
  by (simp add: json_parse_def skip_ws_def)

subsection \<open>Printed text has no control characters\<close>

definition printable :: "string \<Rightarrow> bool" where
  "printable s \<longleftrightarrow> list_all (\<lambda>c. 0x20 \<le> byte c) s"

lemma printable_simps [simp]:
  "printable []"
  "printable (c # s) \<longleftrightarrow> 0x20 \<le> byte c \<and> printable s"
  "printable (s @ t) \<longleftrightarrow> printable s \<and> printable t"
  by (auto simp: printable_def)

lemma byte_consts [simp]:
  "0x20 \<le> byte (CHR 0x22)" "0x20 \<le> byte (CHR '','')" "0x20 \<le> byte (CHR '':'')"
  "0x20 \<le> byte (CHR ''['')" "0x20 \<le> byte (CHR '']'')" "0x20 \<le> byte (CHR ''{'')" "0x20 \<le> byte (CHR ''}'')"
  "0x20 \<le> byte (CHR ''.'')" "0x20 \<le> byte (CHR ''e'')" "0x20 \<le> byte (CHR ''E'')"
  "0x20 \<le> byte (CHR ''+'')" "0x20 \<le> byte (CHR ''-'')" "0x20 \<le> byte (CHR ''0'')"
  by (simp_all add: byte_def)

lemma printable_digits: "printable (takeWhile is_digit s)"
  by (induction s) (auto simp: is_digit_def)

lemma lex_number_printable: "num_ok s \<Longrightarrow> printable s"
proof -
  have digits: "lex_digits acc t = Some (a, q) \<Longrightarrow> printable acc \<Longrightarrow> printable a" for acc t a q
    using printable_digits by (auto simp: lex_digits_def split: if_splits)
  have exp: "lex_exp acc t = Some (a, q) \<Longrightarrow> printable acc \<Longrightarrow> printable a" for acc t a q
    by (auto simp: lex_exp_def split: list.splits if_splits dest!: digits)
  have frac: "lex_frac acc t = Some (a, q) \<Longrightarrow> printable acc \<Longrightarrow> printable a" for acc t a q
    by (auto simp: lex_frac_def split: list.splits if_splits option.splits dest!: digits exp)
  have uns: "lex_unsigned acc t = Some (a, q) \<Longrightarrow> printable acc \<Longrightarrow> printable a" for acc t a q
    by (auto simp: lex_unsigned_def split: list.splits if_splits option.splits dest!: digits frac)
  assume "num_ok s"
  then show ?thesis
    by (auto simp: num_ok_def lex_number_def split: list.splits if_splits dest!: uns)
qed

lemma is_hex_printable: "is_hex c \<Longrightarrow> 0x20 \<le> byte c"
  by (auto simp: is_hex_def is_hex_lower_def is_digit_def)

lemma lex_string_printable: "lex_string s = Some (r, q) \<Longrightarrow> printable r"
proof (induction s arbitrary: r rule: lex_string.induct)
  case (2 c cs)
  have bs: "0x20 \<le> byte (CHR 0x5C)" "0x20 \<le> byte (CHR ''u'')" by (simp_all add: byte_def)
  have simple: "simple_escape e \<noteq> None \<Longrightarrow> 0x20 \<le> byte e" for e
    by (auto simp: simple_escape_def byte_def split: if_splits)
  consider (quote) "c = CHR 0x22" | (esc) "c = CHR 0x5C" | (plain) "c \<noteq> CHR 0x22" "c \<noteq> CHR 0x5C" by blast
  then show ?case
  proof cases
    case esc
    with 2 obtain e ds where cs: "cs = e # ds" by (auto split: list.splits)
    show ?thesis
    proof (cases "e = CHR ''u''")
      case True
      with 2 esc cs obtain r' where "lex_string (drop 4 ds) = Some (r', q)"
        "r = c # e # take 4 ds @ r'" "list_all is_hex (take 4 ds)" "printable r'"
        by (auto simp: consume_Some_iff split: if_splits)
      then show ?thesis using esc True bs is_hex_printable by (auto simp: printable_def list_all_iff)
    next
      case False
      with 2 esc cs have "simple_escape e \<noteq> None" by (auto split: if_splits)
      with 2 esc cs False bs simple show ?thesis by (auto simp: consume_Some_iff)
    qed
  next
    case plain
    with 2 have "\<not> byte c < 0x20" by (auto split: if_splits)
    with 2 plain show ?thesis by (auto simp: consume_Some_iff)
  qed (use 2 in simp)
qed simp

lemma raw_ok_printable: "raw_ok r \<Longrightarrow> printable r"
  by (auto simp: raw_ok_def dest: lex_string_printable)

lemma printable_join: "0x20 \<le> byte c \<Longrightarrow> list_all printable ss \<Longrightarrow> printable (join c ss)"
  by (induction c ss rule: join.induct) auto

lemma jprint_printable: "json_ok d v \<Longrightarrow> printable (jprint v)"
proof (induction v arbitrary: d)
  case (JArr xs)
  then have "list_all printable (map jprint xs)" by (auto simp: list_all_iff)
  then show ?case by (simp add: printable_join)
next
  case (JObj ms)
  have "list_all printable (map print_member ms)"
  proof -
    have "printable (print_member m)" if "m \<in> set ms" for m
    proof -
      obtain k v where m: "m = (k, v)" by (cases m)
      with JObj that have "raw_ok k" "printable (jprint v)" by (force simp: list_all_iff)+
      with m show ?thesis by (simp add: print_member_def quoted_def raw_ok_printable)
    qed
    then show ?thesis by (simp add: list_all_iff)
  qed
  then show ?case by (simp add: jprint_JObj printable_join del: jprint.simps(6))
qed (auto simp: quoted_def raw_ok_printable lex_number_printable byte_def)

lemma printable_no_newline: "printable s \<Longrightarrow> CHR 0x0A \<notin> set s"
  by (auto simp: printable_def list_all_iff byte_def)

subsection \<open>Twice the length is enough fuel\<close>

lemma length_skip_ws: "length (skip_ws s) \<le> length s"
  by (simp add: skip_ws_def length_dropWhile_le)

lemma lex_string_shorter: "lex_string s = Some (r, q) \<Longrightarrow> length q < length s"
proof (induction s arbitrary: r rule: lex_string.induct)
  case (2 c cs)
  then show ?case
    by (fastforce simp: consume_Some_iff split: if_splits list.splits)
qed simp

lemma lex_number_shorter: "lex_number s = Some (a, q) \<Longrightarrow> length q < length s"
proof -
  have digits: "lex_digits acc t = Some (b, q) \<Longrightarrow> length q < length t" for acc t b q
    by (cases t) (auto simp: lex_digits_def length_dropWhile_le less_Suc_eq_le split: if_splits)
  have exp: "lex_exp acc t = Some (b, q) \<Longrightarrow> length q \<le> length t" for acc t b q
    by (auto simp: lex_exp_def split: list.splits if_splits dest!: digits)
  have frac: "lex_frac acc t = Some (b, q) \<Longrightarrow> length q \<le> length t" for acc t b q
    by (force simp: lex_frac_def split: list.splits if_splits option.splits dest!: digits exp)
  have uns: "lex_unsigned acc t = Some (b, q) \<Longrightarrow> length q < length t" for acc t b q
    by (force simp: lex_unsigned_def split: list.splits if_splits option.splits dest!: digits frac)
  assume "lex_number s = Some (a, q)"
  then show ?thesis
    by (force simp: lex_number_def split: list.splits if_splits dest!: uns)
qed

lemma lex_literal_shorter:
  "lex_literal l v s = Some (w, q) \<Longrightarrow> l \<noteq> [] \<Longrightarrow> length q < length s"
  by (cases s; cases l) (auto simp: lex_literal_def has_prefix_def split: if_splits)

definition fuel_enough :: "(nat \<Rightarrow> ('a \<times> string) option) \<Rightarrow> nat \<Rightarrow> string \<Rightarrow> bool" where
  "fuel_enough f n s \<longleftrightarrow> (\<forall>v r. f n = Some (v, r) \<longrightarrow>
     length r < length s \<and> (\<forall>m. 2 * (length s - length r) \<le> m \<longrightarrow> f m = Some (v, r)))"

lemma fuel_enoughD:
  assumes "fuel_enough f n s" "f n = Some (v, r)"
  shows "length r < length s" "2 * (length s - length r) \<le> m \<Longrightarrow> f m = Some (v, r)"
  using assms by (auto simp: fuel_enough_def)

lemma map_option_apfst_Some:
  "map_option (apfst f) x = Some (v, r) \<longleftrightarrow> (\<exists>w. x = Some (w, r) \<and> v = f w)"
  by (cases x) auto

lemma fuel_pelems:
  assumes pv: "\<And>d s. fuel_enough (\<lambda>n. pval n d s) n s"
    and pe: "\<And>d s. fuel_enough (\<lambda>n. pelems n d s) n s"
  shows "fuel_enough (\<lambda>n. pelems n d s) (Suc n) s"
  unfolding fuel_enough_def
proof (intro allI impI)
  fix vs r
  assume "pelems (Suc n) d s = Some (vs, r)"
  then obtain v t c q where v: "pval n d s = Some (v, t)" and t: "skip_ws t = c # q"
    and c: "(c = CHR '','' \<and> (\<exists>ws. pelems n d q = Some (ws, r) \<and> vs = v # ws)) \<or> (c = CHR '']'' \<and> c \<noteq> CHR '','' \<and> r = q \<and> vs = [v])"
    by (auto simp: map_option_apfst_Some split: option.splits list.splits if_splits)
  have lt: "length t < length s" and lq: "length q < length t"
    using fuel_enoughD(1) [OF pv v] length_skip_ws [of t] t by auto
  have lr: "length r \<le> length q" using c fuel_enoughD(1) [OF pe] by force
  have "pelems m d s = Some (vs, r)" if m: "2 * (length s - length r) \<le> m" for m
  proof -
    obtain k where k: "m = Suc k" using m lt lq lr by (cases m) auto
    have "pval k d s = Some (v, t)" using fuel_enoughD(2) [OF pv v, of k] m k lt lq lr by simp
    moreover have "pelems k d q = Some (ws, r)" if "pelems n d q = Some (ws, r)" for ws
      using fuel_enoughD(2) [OF pe that, of k] m k lt lq lr by simp
    ultimately show ?thesis using k t c by auto
  qed
  with lt lq lr show "length r < length s \<and> (\<forall>m. 2 * (length s - length r) \<le> m \<longrightarrow> pelems m d s = Some (vs, r))"
    by auto
qed

lemma fuel_pmembers:
  assumes pv: "\<And>d s. fuel_enough (\<lambda>n. pval n d s) n s"
    and pm: "\<And>d s. fuel_enough (\<lambda>n. pmembers n d s) n s"
  shows "fuel_enough (\<lambda>n. pmembers n d s) (Suc n) s"
  unfolding fuel_enough_def
proof (intro allI impI)
  fix vs r
  assume "pmembers (Suc n) d s = Some (vs, r)"
  then obtain a k x q' y v t c q where s: "skip_ws s = CHR 0x22 # a" and a: "lex_string a = Some (k, x)"
    and x: "skip_ws x = CHR '':'' # y" and v: "pval n d y = Some (v, t)" and t: "skip_ws t = c # q"
    and c: "(c = CHR '','' \<and> (\<exists>ws. pmembers n d q = Some (ws, r) \<and> vs = (k, v) # ws)) \<or> (c = CHR ''}'' \<and> c \<noteq> CHR '','' \<and> r = q \<and> vs = [(k, v)])"
    by (auto simp: map_option_apfst_Some split: option.splits list.splits if_splits)
  have l: "length a < length s" "length x < length a" "length y < length x"
    using length_skip_ws [of s] s lex_string_shorter [OF a] length_skip_ws [of x] x by auto
  have lt: "length t < length y" and lq: "length q < length t"
    using fuel_enoughD(1) [OF pv v] length_skip_ws [of t] t by auto
  have lr: "length r \<le> length q" using c fuel_enoughD(1) [OF pm] by force
  have "pmembers m d s = Some (vs, r)" if m: "2 * (length s - length r) \<le> m" for m
  proof -
    obtain k' where k: "m = Suc k'" using m lt lq lr l by (cases m) auto
    have "pval k' d y = Some (v, t)" using fuel_enoughD(2) [OF pv v, of k'] m k lt lq lr l by simp
    moreover have "pmembers k' d q = Some (ws, r)" if "pmembers n d q = Some (ws, r)" for ws
      using fuel_enoughD(2) [OF pm that, of k'] m k lt lq lr l by simp
    ultimately show ?thesis using k t c s a x by auto
  qed
  with lt lq lr l show "length r < length s \<and> (\<forall>m. 2 * (length s - length r) \<le> m \<longrightarrow> pmembers m d s = Some (vs, r))"
    by auto
qed

lemma fuel_pval:
  assumes pe: "\<And>d s. fuel_enough (\<lambda>n. pelems n d s) n s"
    and pm: "\<And>d s. fuel_enough (\<lambda>n. pmembers n d s) n s"
  shows "fuel_enough (\<lambda>n. pval n d s) (Suc n) s"
  unfolding fuel_enough_def
proof (intro allI impI)
  fix v r
  assume v: "pval (Suc n) d s = Some (v, r)"
  then obtain c t where s: "skip_ws s = c # t" by (auto split: list.splits)
  have lt: "length t < length s" using length_skip_ws [of s] s by simp
  have tl_shorter: "length (tl (skip_ws t)) \<le> length t"
    using length_skip_ws [of t] by (simp add: le_diff_conv)
  consider (members) ms where "c = CHR ''{''" "d \<noteq> 0" "skip_ws t = [] \<or> hd (skip_ws t) \<noteq> CHR ''}''"
      "pmembers n (d - 1) t = Some (ms, r)" "v = JObj ms"
    | (elems) xs where "c = CHR ''[''" "d \<noteq> 0" "skip_ws t = [] \<or> hd (skip_ws t) \<noteq> CHR '']''"
      "pelems n (d - 1) t = Some (xs, r)" "v = JArr xs"
    | (other) "\<And>m. pval (Suc m) d s = pval (Suc n) d s" "length r < length s"
  proof -
    consider (o) "c = CHR ''{''" | (a) "c = CHR ''[''" | (q) "c \<noteq> CHR ''{''" "c \<noteq> CHR ''[''" by blast
    then show thesis
    proof cases
      case o
      with v s members [of _] other lt tl_shorter show thesis
        by (cases "skip_ws t \<noteq> [] \<and> hd (skip_ws t) = CHR ''}''")
           (auto simp: map_option_apfst_Some split: if_splits)
    next
      case a
      with v s elems [of _] other lt tl_shorter show thesis
        by (cases "skip_ws t \<noteq> [] \<and> hd (skip_ws t) = CHR '']''")
           (auto simp: map_option_apfst_Some split: if_splits)
    next
      case q
      have "length r < length s"
        using v s q lt lex_string_shorter lex_number_shorter [of "c # t"] lex_literal_shorter [of _ _ "c # t" _ r]
          length_skip_ws [of s]
        by (fastforce simp: map_option_apfst_Some split: if_splits)
      with q s show thesis by (intro other) auto
    qed
  qed
  then show "length r < length s \<and> (\<forall>m. 2 * (length s - length r) \<le> m \<longrightarrow> pval m d s = Some (v, r))"
  proof cases
    case members
    note lr = fuel_enoughD(1) [OF pm members(4)]
    have "pval m d s = Some (v, r)" if m: "2 * (length s - length r) \<le> m" for m
    proof -
      obtain k where k: "m = Suc k" using m lt lr by (cases m) auto
      have "pmembers k (d - 1) t = Some (ms, r)"
        using fuel_enoughD(2) [OF pm members(4), of k] m k lt lr by simp
      with members k s show ?thesis by auto
    qed
    with lt lr show ?thesis by auto
  next
    case elems
    note lr = fuel_enoughD(1) [OF pe elems(4)]
    have "pval m d s = Some (v, r)" if m: "2 * (length s - length r) \<le> m" for m
    proof -
      obtain k where k: "m = Suc k" using m lt lr by (cases m) auto
      have "pelems k (d - 1) t = Some (xs, r)"
        using fuel_enoughD(2) [OF pe elems(4), of k] m k lt lr by simp
      with elems k s show ?thesis by auto
    qed
    with lt lr show ?thesis by auto
  next
    case other
    have "pval m d s = Some (v, r)" if m: "2 * (length s - length r) \<le> m" for m
    proof -
      obtain k where "m = Suc k" using m other(2) by (cases m) auto
      with other(1) v show ?thesis by metis
    qed
    with other(2) show ?thesis by blast
  qed
qed

lemma json_fuel_enough:
  "fuel_enough (\<lambda>n. pval n d s) n s \<and> fuel_enough (\<lambda>n. pelems n d s) n s \<and> fuel_enough (\<lambda>n. pmembers n d s) n s"
proof (induction n arbitrary: d s)
  case 0
  show ?case by (simp add: fuel_enough_def)
next
  case (Suc n)
  then show ?case by (simp add: fuel_pval fuel_pelems fuel_pmembers del: pval.simps pelems.simps pmembers.simps)
qed

text \<open>Whatever parses with some fuel parses to the same value with the fuel \<open>json_parse\<close> gives.\<close>

theorem json_parse_fuel:
  assumes "pval n max_nesting s = Some (v, r)" "skip_ws r = []"
  shows "json_parse s = Some v"
proof -
  have "fuel_enough (\<lambda>n. pval n max_nesting s) n s" using json_fuel_enough by blast
  from fuel_enoughD(2) [OF this assms(1)]
  have "pval (2 * length s + 2) max_nesting s = Some (v, r)" by (simp del: pval.simps)
  with assms(2) show ?thesis by (simp add: json_parse_def del: pval.simps)
qed

end
