(* ===== verification/Go_Time.thy ===== *)
theory Go_Time
  imports Go_Strings "HOL-Library.Monad_Syntax"
begin

section \<open>Time as text (time.RFC3339Nano in UTC)\<close>

text \<open>
  An instant is an \<open>int\<close>, nanoseconds since the Unix epoch. The program keeps its instants in
  UTC, and \<^verbatim>\<open>Time.MarshalJSON\<close> writes them as \<^verbatim>\<open>2006-01-02T15:04:05.999999999Z\<close>, without the
  trailing zeros of the fraction, for years 0 to 9999. \<open>parse_time\<close> reads that text back; a time
  with a numeric zone offset, which the program never writes, is not read.
\<close>

subsection \<open>The civil calendar\<close>

text \<open>
  Years start in March, so that a leap day is the last day of its year; \<open>leap_days c\<close> counts the
  leap days of the first \<open>c\<close> years of a 400-year era.
\<close>

definition leap :: "int \<Rightarrow> bool" where
  "leap y \<longleftrightarrow> (y mod 4 = 0 \<and> y mod 100 \<noteq> 0) \<or> y mod 400 = 0"

definition days_in :: "int \<Rightarrow> int \<Rightarrow> int" where
  "days_in y m = (if m = 2 then (if leap y then 29 else 28)
     else if m = 4 \<or> m = 6 \<or> m = 9 \<or> m = 11 then 30 else 31)"

definition leap_days :: "int \<Rightarrow> int" where
  "leap_days c = c div 4 - c div 100 + c div 400"

definition year_of_era :: "int \<Rightarrow> int" where
  "year_of_era doe = (let c = doe div 365 in if 365 * c + leap_days c \<le> doe then c else c - 1)"

definition civil :: "int \<Rightarrow> int \<times> int \<times> int" where
  "civil days =
     (let z = days + 719468; era = z div 146097; doe = z mod 146097;
          yoe = year_of_era doe; doy = doe - (365 * yoe + leap_days yoe);
          mp = (5 * doy + 2) div 153; d = doy - (153 * mp + 2) div 5 + 1;
          m = (if mp < 10 then mp + 3 else mp - 9)
      in (yoe + era * 400 + (if m \<le> 2 then 1 else 0), m, d))"

definition days_of_civil :: "int \<Rightarrow> int \<Rightarrow> int \<Rightarrow> int" where
  "days_of_civil y m d =
     (let y' = (if m \<le> 2 then y - 1 else y); era = y' div 400; yoe = y' mod 400;
          mp = (if m > 2 then m - 3 else m + 9); doy = (153 * mp + 2) div 5 + d - 1
      in era * 146097 + 365 * yoe + leap_days yoe + doy - 719468)"

lemma div_succ_int:
  assumes "0 \<le> (c :: int)" "0 < k"
  shows "(c + 1) div k = c div k + (if (c + 1) mod k = 0 then 1 else 0)"
proof -
  obtain n m where n: "c = int n" "k = int m" using assms by (metis nonneg_int_cases less_imp_le)
  have "(c + 1) div k = int (Suc n div m)" "c div k = int (n div m)" "(c + 1) mod k = int (Suc n mod m)"
    using n by (simp_all add: zdiv_int zmod_int add.commute)
  then show ?thesis by (auto simp: div_Suc)
qed

lemma leap_days_step:
  assumes "0 \<le> c"
  shows "leap_days (c + 1) = leap_days c + (if leap (c + 1) then 1 else 0)"
proof -
  define p q r where "p \<longleftrightarrow> (c + 1) mod 4 = 0" and "q \<longleftrightarrow> (c + 1) mod 100 = 0" and "r \<longleftrightarrow> (c + 1) mod 400 = 0"
  have imp: "q \<Longrightarrow> p" "r \<Longrightarrow> q"
    unfolding p_def q_def r_def mod_eq_0_iff_dvd by (erule dvd_trans [rotated]; simp)+
  have leap: "leap (c + 1) \<longleftrightarrow> (p \<and> \<not> q) \<or> r" by (simp only: leap_def p_def q_def r_def)
  have "(c + 1) div 4 = c div 4 + (if p then 1 else 0)"
    "(c + 1) div 100 = c div 100 + (if q then 1 else 0)"
    "(c + 1) div 400 = c div 400 + (if r then 1 else 0)"
    unfolding p_def q_def r_def by (rule div_succ_int [OF assms]; simp)+
  then show ?thesis
    using imp leap by (cases p; cases q; cases r) (simp_all only: leap_days_def if_True if_False simp_thms)
qed

lemma leap_days_mono: "0 \<le> c \<Longrightarrow> leap_days c \<le> leap_days (c + 1)"
  by (simp add: leap_days_step)

lemma leap_days_le:
  assumes "0 \<le> c" "c \<le> d"
  shows "leap_days c \<le> leap_days d"
  using assms(2)
proof (induction rule: int_ge_induct)
  case (step i)
  with assms(1) leap_days_mono [of i] show ?case by simp
qed simp

lemma leap_days_bounds: "0 \<le> c \<Longrightarrow> c \<le> 400 \<Longrightarrow> 0 \<le> leap_days c \<and> leap_days c \<le> 97"
  using leap_days_le [of 0 c] leap_days_le [of c 400] by (simp add: leap_days_def)

lemma year_of_era_bounds:
  assumes "0 \<le> doe" "doe < 146097"
  defines "y \<equiv> year_of_era doe"
  shows "0 \<le> y" "y < 400" "365 * y + leap_days y \<le> doe" "doe < 365 * (y + 1) + leap_days (y + 1)"
proof -
  define c where "c = doe div 365"
  have c: "0 \<le> c" "c \<le> 400" "365 * c \<le> doe" "doe < 365 * c + 365"
    using assms(1,2) by (auto simp: c_def)
  have y: "y = (if 365 * c + leap_days c \<le> doe then c else c - 1)"
    by (simp add: y_def year_of_era_def c_def Let_def)
  have L: "0 \<le> leap_days c" "leap_days c \<le> 97" using leap_days_bounds c by auto
  have "leap_days 400 = 97" by (simp add: leap_days_def)
  then have c400: "365 * c + leap_days c \<le> doe \<Longrightarrow> c \<noteq> 400" using assms(2) by auto
  have c1: "1 \<le> c" if "\<not> 365 * c + leap_days c \<le> doe"
  proof (rule ccontr)
    assume "\<not> 1 \<le> c"
    with c have "c = 0" by simp
    with that assms(1) show False by (simp add: leap_days_def)
  qed
  have L1: "1 \<le> c \<Longrightarrow> leap_days (c - 1) \<le> leap_days c" using leap_days_mono [of "c - 1"] by simp
  show "0 \<le> y" using y c c1 by auto
  show "y < 400" using y c c400 by auto
  show "365 * y + leap_days y \<le> doe" using y c c1 L L1 by (auto simp: algebra_simps)
  have "0 \<le> leap_days (c + 1)" using leap_days_mono [of c] L c by linarith
  then show "doe < 365 * (y + 1) + leap_days (y + 1)" using y c by auto
qed

lemma leap_shift: "leap (y + e * 400) = leap y"
proof -
  have a: "y + e * 400 = y + (e * 100) * 4" and b: "y + e * 400 = y + (e * 4) * 100" by simp_all
  have "(y + e * 400) mod 4 = y mod 4" by (subst a) (rule mod_mult_self1)
  moreover have "(y + e * 400) mod 100 = y mod 100" by (subst b) (rule mod_mult_self1)
  ultimately show ?thesis by (simp only: leap_def mod_mult_self1)
qed

text \<open>The month and day of a day of the year, and the bounds the text format needs.\<close>

lemma month_bounds:
  fixes doy :: int
  assumes "0 \<le> doy" "doy \<le> 365"
  defines "mp \<equiv> (5 * doy + 2) div 153"
  defines "d \<equiv> doy - (153 * mp + 2) div 5 + 1"
  shows "0 \<le> mp" "mp \<le> 11" "1 \<le> d" "d \<le> 31"
    "mp \<in> {1, 3, 6, 8} \<Longrightarrow> d \<le> 30" "mp = 11 \<Longrightarrow> d = doy - 336"
proof -
  show lo: "0 \<le> mp" and hi: "mp \<le> 11" using assms by (simp_all add: mp_def)
  have b: "153 * mp \<le> 5 * doy + 2" "5 * doy + 2 < 153 * mp + 153" by (simp_all add: mp_def)
  have "mp \<in> {0..11}" using lo hi by simp
  then have m: "mp \<in> {0, 1, 2, 3, 4, 5, 6, 7, 8, 9, 10, 11}"
    by (simp add: atLeastAtMost_iff) presburger
  show "1 \<le> d" "d \<le> 31" "mp \<in> {1, 3, 6, 8} \<Longrightarrow> d \<le> 30" "mp = 11 \<Longrightarrow> d = doy - 336"
    using m b assms(2) unfolding d_def by (elim insertE; simp)+
qed

lemma civil_spec:
  assumes "civil days = (y, m, d)"
  shows "days_of_civil y m d = days" "1 \<le> m" "m \<le> 12" "1 \<le> d" "d \<le> days_in y m"
proof -
  define z where "z = days + 719468"
  define era where "era = z div 146097"
  define doe where "doe = z mod 146097"
  define yoe where "yoe = year_of_era doe"
  define doy where "doy = doe - (365 * yoe + leap_days yoe)"
  define mp where "mp = (5 * doy + 2) div 153"
  have doe: "0 \<le> doe" "doe < 146097" by (simp_all add: doe_def)
  note Y = year_of_era_bounds [OF doe, folded yoe_def]
  have step: "leap_days (yoe + 1) = leap_days yoe + (if leap (yoe + 1) then 1 else 0)"
    using Y(1) by (rule leap_days_step)
  have doy: "0 \<le> doy" "doy \<le> 365" "doy = 365 \<Longrightarrow> leap (yoe + 1)"
    using Y step by (auto simp: doy_def algebra_simps split: if_splits)
  note M = month_bounds [OF doy(1,2), folded mp_def]
  have d: "d = doy - (153 * mp + 2) div 5 + 1" and m: "m = (if mp < 10 then mp + 3 else mp - 9)"
    and y: "y = yoe + era * 400 + (if m \<le> 2 then 1 else 0)"
    using assms unfolding civil_def Let_def z_def [symmetric] era_def [symmetric] doe_def [symmetric]
      yoe_def [symmetric] doy_def [symmetric] mp_def [symmetric] by auto
  show "1 \<le> m" "m \<le> 12" using m M(1,2) by (auto split: if_splits)
  show "1 \<le> d" using M(3) d by simp
  have mp_m: "(if m > 2 then m - 3 else m + 9) = mp" using m M(1,2) by (auto split: if_splits)
  have yy: "(if m \<le> 2 then y - 1 else y) = yoe + era * 400" using y by auto
  have "(yoe + era * 400) div 400 = era" "(yoe + era * 400) mod 400 = yoe" using Y(1,2) by simp_all
  then have "days_of_civil y m d = era * 146097 + 365 * yoe + leap_days yoe + doy - 719468"
    unfolding days_of_civil_def Let_def mp_m yy by (simp add: d)
  also have "\<dots> = era * 146097 + doe - 719468" by (simp add: doy_def)
  also have "\<dots> = days" using div_mult_mod_eq [of z 146097] by (simp add: era_def doe_def z_def)
  finally show "days_of_civil y m d = days" .
  show "d \<le> days_in y m"
  proof (cases "m = 2")
    case True
    then have mp: "mp = 11" using m M(1,2) by (auto split: if_splits)
    have "leap y = leap (yoe + 1)"
      using y True leap_shift [of "yoe + 1" era] by (simp add: algebra_simps)
    have dd: "d = doy - 336" using M(6) [OF mp] d by simp
    show ?thesis
    proof (cases "leap (yoe + 1)")
      case True
      with \<open>leap y = leap (yoe + 1)\<close> \<open>m = 2\<close> dd doy(2) show ?thesis by (simp add: days_in_def)
    next
      case False
      with doy have "doy \<noteq> 365" by blast
      with False \<open>leap y = leap (yoe + 1)\<close> \<open>m = 2\<close> dd doy(2) show ?thesis by (simp add: days_in_def)
    qed
  next
    case False
    have "m = 4 \<or> m = 6 \<or> m = 9 \<or> m = 11 \<Longrightarrow> mp \<in> {1, 3, 6, 8}"
      using m M(1,2) by (auto split: if_splits)
    with False M(4,5) d show ?thesis by (auto simp: days_in_def)
  qed
qed

subsection \<open>Writing and reading the text\<close>

fun pad :: "nat \<Rightarrow> nat \<Rightarrow> string" where
  "pad 0 n = []"
| "pad (Suc w) n = pad w (n div 10) @ [digit_char (n mod 10)]"

definition frac_text :: "nat \<Rightarrow> string" where
  "frac_text ns = (if ns = 0 then [] else CHR ''.'' # trim_right (CHR ''0'') (pad 9 ns))"

definition nanos :: int where
  "nanos = 1000000000"

definition format_time :: "time \<Rightarrow> string" where
  "format_time t =
     (let secs = t div nanos; ns = nat (t mod nanos); sod = nat (secs mod 86400)
      in case civil (secs div 86400) of (y, m, d) \<Rightarrow>
        pad 4 (nat y) @ ''-'' @ pad 2 (nat m) @ ''-'' @ pad 2 (nat d) @ ''T'' @
        pad 2 (sod div 3600) @ '':'' @ pad 2 (sod div 60 mod 60) @ '':'' @ pad 2 (sod mod 60) @
        frac_text ns @ ''Z'')"

definition time_ok :: "time \<Rightarrow> bool" where
  "time_ok t \<longleftrightarrow> (case civil (t div nanos div 86400) of (y, m, d) \<Rightarrow> 0 \<le> y \<and> y \<le> 9999)"

definition take_num :: "nat \<Rightarrow> string \<Rightarrow> (nat \<times> string) option" where
  "take_num w s = (if w \<le> length s \<and> list_all is_digit (take w s)
     then Some (dec_val (take w s), drop w s) else None)"

definition expect :: "char \<Rightarrow> string \<Rightarrow> string option" where
  "expect c s = (case s of d # r \<Rightarrow> if d = c then Some r else None | [] \<Rightarrow> None)"

definition take_frac :: "string \<Rightarrow> (nat \<times> string) option" where
  "take_frac s = (case s of
       d # r \<Rightarrow>
         if d = CHR ''.'' then
           (let ds = takeWhile is_digit r in
            if ds = [] then None
            else Some (dec_val (take 9 (ds @ replicate 9 (CHR ''0''))), dropWhile is_digit r))
         else Some (0, s)
     | [] \<Rightarrow> Some (0, s))"

definition parse_time :: "string \<Rightarrow> time option" where
  "parse_time s0 = do {
     (y, s1) \<leftarrow> take_num 4 s0; s2 \<leftarrow> expect (CHR ''-'') s1;
     (m, s3) \<leftarrow> take_num 2 s2; s4 \<leftarrow> expect (CHR ''-'') s3;
     (d, s5) \<leftarrow> take_num 2 s4; s6 \<leftarrow> expect (CHR ''T'') s5;
     (h, s7) \<leftarrow> take_num 2 s6; s8 \<leftarrow> expect (CHR '':'') s7;
     (mi, s9) \<leftarrow> take_num 2 s8; s10 \<leftarrow> expect (CHR '':'') s9;
     (se, s11) \<leftarrow> take_num 2 s10;
     (ns, s12) \<leftarrow> take_frac s11; s13 \<leftarrow> expect (CHR ''Z'') s12;
     if s13 = [] \<and> 1 \<le> m \<and> m \<le> 12 \<and> 1 \<le> d \<and> int d \<le> days_in (int y) (int m)
        \<and> h < 24 \<and> mi < 60 \<and> se < 60
     then Some ((days_of_civil (int y) (int m) (int d) * 86400 + int (h * 3600 + mi * 60 + se)) * nanos + int ns)
     else None }"

lemma length_pad [simp]: "length (pad w n) = w"
  by (induction w arbitrary: n) simp_all

lemma pad_digits: "list_all is_digit (pad w n)"
  by (induction w arbitrary: n) simp_all

lemma dec_val_snoc: "dec_val (s @ [c]) = 10 * dec_val s + digit_val c"
  by (simp add: dec_val_def)

lemma dec_val_pad: "n < 10 ^ w \<Longrightarrow> dec_val (pad w n) = n"
proof (induction w arbitrary: n)
  case (Suc w)
  then have "n div 10 < 10 ^ w" by (simp add: less_mult_imp_div_less mult.commute)
  with Suc.IH show ?case by (simp add: dec_val_snoc)
qed (simp add: dec_val_def)

lemma take_num_pad: "n < 10 ^ w \<Longrightarrow> take_num w (pad w n @ s) = Some (n, s)"
  by (simp add: take_num_def pad_digits dec_val_pad)

lemma expect_Cons [simp]: "expect c (c # s) = Some s"
  by (simp add: expect_def)

lemma pad_zero: "pad w 0 = replicate w (CHR ''0'')"
proof (induction w)
  case (Suc w)
  have "digit_char 0 = CHR ''0''" by (simp add: digit_char_def char_of_def bit_0)
  with Suc show ?case by (simp add: replicate_append_same)
qed simp

lemma trim_right_split:
  obtains k where "s = trim_right c s @ replicate k c"
    "trim_right c s = [] \<or> last (trim_right c s) \<noteq> c"
proof -
  let ?k = "length (takeWhile (\<lambda>d. d = c) (rev s))"
  have "takeWhile (\<lambda>d. d = c) (rev s) = replicate ?k c"
    by (metis (mono_tags, lifting) replicate_length_same set_takeWhileD)
  then have "s = trim_right c s @ replicate ?k c"
    by (metis rev_append rev_replicate rev_rev_ident takeWhile_dropWhile_id trim_right_def)
  moreover have "trim_right c s = [] \<or> last (trim_right c s) \<noteq> c"
    using hd_dropWhile [of "\<lambda>d. d = c" "rev s"] by (auto simp: trim_right_def last_rev)
  ultimately show thesis using that by blast
qed

lemma take_frac_text:
  assumes "ns < 10 ^ 9"
  shows "take_frac (frac_text ns @ CHR ''Z'' # s) = Some (ns, CHR ''Z'' # s)"
proof (cases "ns = 0")
  case True
  then show ?thesis by (simp add: frac_text_def take_frac_def)
next
  case False
  define ds where "ds = trim_right (CHR ''0'') (pad 9 ns)"
  obtain k where k: "pad 9 ns = ds @ replicate k (CHR ''0'')"
    unfolding ds_def by (rule trim_right_split)
  have digits: "\<forall>c \<in> set ds. is_digit c" using pad_digits [of 9 ns] k by (auto simp: list_all_iff)
  have nz: "\<not> is_digit (CHR ''Z'')" by (simp add: is_digit_def byte_def)
  have len: "length ds + k = 9" using length_pad [of 9 ns] k by simp
  have "ds \<noteq> []"
  proof
    assume "ds = []"
    then have "pad 9 ns = pad 9 0" using k len by (simp add: pad_zero)
    then have "ns = 0" using dec_val_pad [OF assms] dec_val_pad [of 0 9] by simp
    with False show False by simp
  qed
  moreover have "takeWhile is_digit (ds @ CHR ''Z'' # s) = ds" "dropWhile is_digit (ds @ CHR ''Z'' # s) = CHR ''Z'' # s"
    using digits nz by (simp_all add: takeWhile_append2 dropWhile_append2)
  moreover have "take 9 (ds @ replicate 9 (CHR ''0'')) = pad 9 ns"
  proof -
    have "replicate 9 (CHR ''0'') = replicate k (CHR ''0'') @ replicate (9 - k) (CHR ''0'')"
      using len by (simp flip: replicate_add)
    then have "ds @ replicate 9 (CHR ''0'') = pad 9 ns @ replicate (9 - k) (CHR ''0'')" using k by simp
    then show ?thesis by simp
  qed
  ultimately show ?thesis
    using False dec_val_pad [OF assms] by (simp add: frac_text_def take_frac_def Let_def flip: ds_def)
qed

theorem parse_format_time:
  assumes "time_ok t"
  shows "parse_time (format_time t) = Some t"
proof -
  define secs where "secs = t div nanos"
  define ns where "ns = nat (t mod nanos)"
  define sod where "sod = nat (secs mod 86400)"
  obtain y m d where c: "civil (secs div 86400) = (y, m, d)" by (metis prod_cases3)
  note C = civil_spec [OF c]
  have y: "0 \<le> y" "y \<le> 9999" using assms c by (simp_all add: time_ok_def secs_def)
  have ns: "ns < 10 ^ 9" "int ns = t mod nanos" by (simp_all add: ns_def nanos_def nat_less_iff)
  have sod: "sod < 86400" "int sod = secs mod 86400" by (simp_all add: sod_def nat_less_iff)
  have "days_in y m \<le> 31" by (simp add: days_in_def)
  with C have bounds: "nat y < 10 ^ 4" "nat m < 10 ^ 2" "nat d < 10 ^ 2" using y by (auto simp: nat_less_iff)
  have hms: "sod div 3600 < 24" "sod div 60 mod 60 < 60" "sod mod 60 < 60"
    using sod(1) by (simp_all add: less_mult_imp_div_less)
  then have hms2: "sod div 3600 < 10 ^ 2" "sod div 60 mod 60 < 10 ^ 2" "sod mod 60 < 10 ^ 2" by simp_all
  have "sod div 3600 * 3600 + sod div 60 mod 60 * 60 + sod mod 60 = sod"
  proof -
    define q where "q = sod div 60"
    have "sod div 3600 = q div 60" by (simp add: q_def flip: div_mult2_eq)
    moreover have "q * 60 + sod mod 60 = sod" unfolding q_def by (rule div_mult_mod_eq)
    moreover have "q div 60 * 60 + q mod 60 = q" by (rule div_mult_mod_eq)
    ultimately show ?thesis unfolding q_def [symmetric] by linarith
  qed
  then have total: "int (sod div 3600 * 3600 + sod div 60 mod 60 * 60 + sod mod 60) = secs mod 86400"
    using sod by simp
  have layout: "format_time t =
      pad 4 (nat y) @ CHR ''-'' # pad 2 (nat m) @ CHR ''-'' # pad 2 (nat d) @ CHR ''T'' #
      pad 2 (sod div 3600) @ CHR '':'' # pad 2 (sod div 60 mod 60) @ CHR '':'' # pad 2 (sod mod 60) @
      frac_text ns @ CHR ''Z'' # []"
    using c by (simp add: format_time_def Let_def secs_def ns_def sod_def)
  have "parse_time (format_time t) = Some ((days_of_civil y m d * 86400 + secs mod 86400) * nanos + int ns)"
    unfolding layout parse_time_def using C y bounds hms hms2 total
    by (simp add: take_num_pad take_frac_text [OF ns(1)] nat_le_iff Suc_le_eq)
  also have "(days_of_civil y m d * 86400 + secs mod 86400) * nanos + int ns = t"
    using C(1) ns(2) by (simp add: secs_def)
  finally show ?thesis .
qed

text \<open>The text of a time is plain ASCII without quotes, so it stands in JSON as it is.\<close>

lemma set_trim_right: "set (trim_right c s) \<subseteq> set s"
  by (auto simp: trim_right_def dest: set_dropWhileD)

lemma format_time_chars:
  "x \<in> set (format_time t) \<Longrightarrow> is_digit x \<or> x \<in> {CHR ''-'', CHR ''T'', CHR '':'', CHR ''.'', CHR ''Z''}"
proof -
  have pad: "x \<in> set (pad w n) \<Longrightarrow> is_digit x" for w n x
    using pad_digits [of w n] by (simp add: list_all_iff)
  then have frac: "x \<in> set (frac_text n) \<Longrightarrow> is_digit x \<or> x = CHR ''.''" for n x
    using set_trim_right by (fastforce simp: frac_text_def split: if_splits)
  obtain y m d where c: "civil (t div nanos div 86400) = (y, m, d)" by (metis prod_cases3)
  show "x \<in> set (format_time t) \<Longrightarrow> ?thesis"
    by (simp add: format_time_def Let_def c) (elim disjE; (drule frac | drule pad)?; fastforce)
qed

end
