(* ===== verification/Journal_Codec.thy ===== *)
theory Journal_Codec
  imports Prelude Go_Json_Facts Go_Time
begin

section \<open>Jobs, events and the journal line (types of src/control/store.go)\<close>

text \<open>
  The records of the store and the JSON text of a journal line, as \<^verbatim>\<open>json.Marshal\<close> writes it (fields
  in the order of the struct, \<^verbatim>\<open>omitempty\<close> fields left out when they are empty) and as
  \<^verbatim>\<open>json.Unmarshal\<close> reads it (members in the order of the text, keys matched without regard to case,
  unknown keys skipped, later members over earlier ones, null a no-op except on a pointer). A Go
  \<^verbatim>\<open>int\<close> is an \<open>int\<close>; the codec refuses what does not fit 64 bits when it reads. Job states and phases
  are the strings the code uses.
\<close>

subsection \<open>The records\<close>

record spec =
  sp_worker_id :: string
  sp_name :: string
  sp_source :: string
  sp_sink :: string
  sp_dimension :: int
  sp_batch_size :: int
  sp_max_attempts :: int
  sp_max_restarts :: int

record owner =
  o_id :: string
  o_subject :: string
  o_realm :: string

record job =
  j_lease_id :: string
  j_lease_until :: "time option"
  j_generation :: int
  j_report_sequence :: int
  j_owner :: "owner option"
  j_phase :: string
  j_restarts :: int
  j_next_run_at :: "time option"
  j_last_checkpoint_at :: "time option"
  j_id :: string
  j_spec :: spec
  j_state :: string
  j_created_at :: time
  j_updated_at :: time
  j_created_by :: string
  j_records :: int
  j_batches :: int
  j_retries :: int
  j_runs :: int
  j_cursor :: string
  j_source_exhausted :: bool
  j_error :: string
  j_source_fp :: string
  j_sink_fp :: string
  j_sink_resource :: string
  j_idempotency_key :: string

record event =
  ev_sequence :: int
  ev_at :: time
  ev_job_id :: string
  ev_kind :: string
  ev_actor :: string
  ev_message :: string
  ev_records :: int
  ev_batch_sha256 :: string
  ev_previous_hash :: string
  ev_hash :: string

record entry =
  en_event :: event
  en_job :: job

text \<open>The zero values, where a time is Go's zero time, 1 January of year 1.\<close>

definition zero_time :: time where
  "zero_time = days_of_civil 1 1 1 * 86400 * nanos"

definition zero_spec :: spec where
  "zero_spec = \<lparr>sp_worker_id = [], sp_name = [], sp_source = [], sp_sink = [], sp_dimension = 0,
     sp_batch_size = 0, sp_max_attempts = 0, sp_max_restarts = 0\<rparr>"

definition zero_owner :: owner where
  "zero_owner = \<lparr>o_id = [], o_subject = [], o_realm = []\<rparr>"

definition zero_job :: job where
  "zero_job = \<lparr>j_lease_id = [], j_lease_until = None, j_generation = 0, j_report_sequence = 0,
     j_owner = None, j_phase = [], j_restarts = 0, j_next_run_at = None, j_last_checkpoint_at = None,
     j_id = [], j_spec = zero_spec, j_state = [], j_created_at = zero_time, j_updated_at = zero_time,
     j_created_by = [], j_records = 0, j_batches = 0, j_retries = 0, j_runs = 0, j_cursor = [],
     j_source_exhausted = False, j_error = [], j_source_fp = [], j_sink_fp = [],
     j_sink_resource = [], j_idempotency_key = []\<rparr>"

definition zero_event :: event where
  "zero_event = \<lparr>ev_sequence = 0, ev_at = zero_time, ev_job_id = [], ev_kind = [], ev_actor = [],
     ev_message = [], ev_records = 0, ev_batch_sha256 = [], ev_previous_hash = [], ev_hash = []\<rparr>"

definition zero_entry :: entry where
  "zero_entry = \<lparr>en_event = zero_event, en_job = zero_job\<rparr>"

subsection \<open>Writing\<close>

definition jstr :: "string \<Rightarrow> json" where
  "jstr s = JStr (json_escape s)"

definition jint :: "int \<Rightarrow> json" where
  "jint n = JNum (itoa n)"

definition jtime :: "time \<Rightarrow> json" where
  "jtime t = JStr (format_time t)"

definition omit :: "bool \<Rightarrow> string \<Rightarrow> json \<Rightarrow> (string \<times> json) list" where
  "omit skip k v = (if skip then [] else [(k, v)])"

definition spec_members :: "spec \<Rightarrow> (string \<times> json) list" where
  "spec_members s =
     omit (sp_worker_id s = []) ''worker_id'' (jstr (sp_worker_id s)) @
     [(''name'', jstr (sp_name s)), (''source'', jstr (sp_source s)), (''sink'', jstr (sp_sink s)),
      (''dimension'', jint (sp_dimension s)), (''batch_size'', jint (sp_batch_size s)),
      (''max_attempts'', jint (sp_max_attempts s))] @
     omit (sp_max_restarts s = 0) ''max_restarts'' (jint (sp_max_restarts s))"

definition owner_members :: "owner \<Rightarrow> (string \<times> json) list" where
  "owner_members w = [(''id'', jstr (o_id w)), (''subject'', jstr (o_subject w)), (''realm'', jstr (o_realm w))]"

definition job_members :: "job \<Rightarrow> (string \<times> json) list" where
  "job_members j =
     omit (j_lease_id j = []) ''lease_id'' (jstr (j_lease_id j)) @
     omit (j_lease_until j = None) ''lease_until'' (jtime (the (j_lease_until j))) @
     omit (j_generation j = 0) ''generation'' (jint (j_generation j)) @
     omit (j_report_sequence j = 0) ''report_sequence'' (jint (j_report_sequence j)) @
     omit (j_owner j = None) ''owner'' (JObj (owner_members (the (j_owner j)))) @
     omit (j_phase j = []) ''phase'' (jstr (j_phase j)) @
     omit (j_restarts j = 0) ''restarts'' (jint (j_restarts j)) @
     omit (j_next_run_at j = None) ''next_run_at'' (jtime (the (j_next_run_at j))) @
     omit (j_last_checkpoint_at j = None) ''last_checkpoint_at'' (jtime (the (j_last_checkpoint_at j))) @
     [(''id'', jstr (j_id j)), (''spec'', JObj (spec_members (j_spec j))), (''state'', jstr (j_state j)),
      (''created_at'', jtime (j_created_at j)), (''updated_at'', jtime (j_updated_at j)),
      (''created_by'', jstr (j_created_by j)), (''records'', jint (j_records j)),
      (''batches'', jint (j_batches j)), (''retries'', jint (j_retries j)), (''runs'', jint (j_runs j))] @
     omit (j_cursor j = []) ''cursor'' (jstr (j_cursor j)) @
     [(''source_exhausted'', JBool (j_source_exhausted j))] @
     omit (j_error j = []) ''error'' (jstr (j_error j)) @
     [(''source_fingerprint'', jstr (j_source_fp j)), (''sink_fingerprint'', jstr (j_sink_fp j)),
      (''sink_resource'', jstr (j_sink_resource j))] @
     omit (j_idempotency_key j = []) ''idempotency_key'' (jstr (j_idempotency_key j))"

definition event_members :: "event \<Rightarrow> (string \<times> json) list" where
  "event_members e =
     [(''sequence'', jint (ev_sequence e)), (''at'', jtime (ev_at e)), (''job_id'', jstr (ev_job_id e)),
      (''kind'', jstr (ev_kind e)), (''actor'', jstr (ev_actor e)), (''message'', jstr (ev_message e)),
      (''records'', jint (ev_records e))] @
     omit (ev_batch_sha256 e = []) ''batch_sha256'' (jstr (ev_batch_sha256 e)) @
     [(''previous_hash'', jstr (ev_previous_hash e)), (''hash'', jstr (ev_hash e))]"

definition entry_json :: "entry \<Rightarrow> json" where
  "entry_json e = JObj [(''event'', JObj (event_members (en_event e))), (''job'', JObj (job_members (en_job e)))]"

text \<open>\<^verbatim>\<open>Time.MarshalJSON\<close> fails outside the years 0 to 9999; nothing else of an entry can fail.\<close>

definition opt_time_ok :: "time option \<Rightarrow> bool" where
  "opt_time_ok t \<longleftrightarrow> (case t of None \<Rightarrow> True | Some x \<Rightarrow> time_ok x)"

definition entry_times_ok :: "entry \<Rightarrow> bool" where
  "entry_times_ok e \<longleftrightarrow> time_ok (ev_at (en_event e)) \<and> time_ok (j_created_at (en_job e))
     \<and> time_ok (j_updated_at (en_job e)) \<and> opt_time_ok (j_lease_until (en_job e))
     \<and> opt_time_ok (j_next_run_at (en_job e)) \<and> opt_time_ok (j_last_checkpoint_at (en_job e))"

definition marshal_entry :: "entry \<Rightarrow> string result" where
  "marshal_entry e = (if entry_times_ok e then Inr (jprint (entry_json e))
     else Inl (ErrNew ''Time.MarshalJSON: year outside of range [0,9999]''))"

subsection \<open>Reading\<close>

text \<open>
  Case folding of a key, as encoding/json does it: ASCII letters, and the two runes that fold to
  an ASCII letter, U+017F (long s) and U+212A (Kelvin sign).
\<close>

fun fold_name :: "string \<Rightarrow> string" where
  "fold_name [] = []"
| "fold_name (c # cs) =
     (if is_upper c then char_of (byte c + 32) # fold_name cs
      else case cs of
        [] \<Rightarrow> [c]
      | d # ds \<Rightarrow>
          if c = CHR 0xC5 \<and> d = CHR 0xBF then CHR ''s'' # fold_name ds
          else (case ds of
              [] \<Rightarrow> c # fold_name cs
            | e # es \<Rightarrow>
                if c = CHR 0xE2 \<and> d = CHR 0x84 \<and> e = CHR 0xAA then CHR ''k'' # fold_name es
                else c # fold_name cs))"

primrec dec_members :: "(string \<Rightarrow> json \<Rightarrow> 'r \<Rightarrow> 'r option) \<Rightarrow> (string \<times> json) list \<Rightarrow> 'r \<Rightarrow> 'r option" where
  "dec_members f [] r = Some r"
| "dec_members f (m # ms) r =
     (case f (fold_name (json_unquote (fst m))) (snd m) r of None \<Rightarrow> None | Some r' \<Rightarrow> dec_members f ms r')"

definition dec_struct :: "(string \<Rightarrow> json \<Rightarrow> 'r \<Rightarrow> 'r option) \<Rightarrow> json \<Rightarrow> 'r \<Rightarrow> 'r option" where
  "dec_struct f v r = (case v of JNull \<Rightarrow> Some r | JObj ms \<Rightarrow> dec_members f ms r | _ \<Rightarrow> None)"

definition dec_str :: "((string \<Rightarrow> string) \<Rightarrow> 'r \<Rightarrow> 'r) \<Rightarrow> json \<Rightarrow> 'r \<Rightarrow> 'r option" where
  "dec_str upd v r = (case v of JNull \<Rightarrow> Some r | JStr s \<Rightarrow> Some (upd (\<lambda>_. json_unquote s) r) | _ \<Rightarrow> None)"

definition dec_int :: "((int \<Rightarrow> int) \<Rightarrow> 'r \<Rightarrow> 'r) \<Rightarrow> json \<Rightarrow> 'r \<Rightarrow> 'r option" where
  "dec_int upd v r = (case v of JNull \<Rightarrow> Some r
     | JNum s \<Rightarrow> (case parse_int s of None \<Rightarrow> None | Some n \<Rightarrow> Some (upd (\<lambda>_. n) r)) | _ \<Rightarrow> None)"

definition dec_bool :: "((bool \<Rightarrow> bool) \<Rightarrow> 'r \<Rightarrow> 'r) \<Rightarrow> json \<Rightarrow> 'r \<Rightarrow> 'r option" where
  "dec_bool upd v r = (case v of JNull \<Rightarrow> Some r | JBool b \<Rightarrow> Some (upd (\<lambda>_. b) r) | _ \<Rightarrow> None)"

definition dec_time :: "((time \<Rightarrow> time) \<Rightarrow> 'r \<Rightarrow> 'r) \<Rightarrow> json \<Rightarrow> 'r \<Rightarrow> 'r option" where
  "dec_time upd v r = (case v of JNull \<Rightarrow> Some r
     | JStr s \<Rightarrow> (case parse_time s of None \<Rightarrow> None | Some t \<Rightarrow> Some (upd (\<lambda>_. t) r)) | _ \<Rightarrow> None)"

definition dec_time_ptr :: "((time option \<Rightarrow> time option) \<Rightarrow> 'r \<Rightarrow> 'r) \<Rightarrow> json \<Rightarrow> 'r \<Rightarrow> 'r option" where
  "dec_time_ptr upd v r = (case v of JNull \<Rightarrow> Some (upd (\<lambda>_. None) r)
     | JStr s \<Rightarrow> (case parse_time s of None \<Rightarrow> None | Some t \<Rightarrow> Some (upd (\<lambda>_. Some t) r)) | _ \<Rightarrow> None)"

definition dec_spec :: "string \<Rightarrow> json \<Rightarrow> spec \<Rightarrow> spec option" where
  "dec_spec k v r =
     (if k = ''worker_id'' then dec_str sp_worker_id_update v r
      else if k = ''name'' then dec_str sp_name_update v r
      else if k = ''source'' then dec_str sp_source_update v r
      else if k = ''sink'' then dec_str sp_sink_update v r
      else if k = ''dimension'' then dec_int sp_dimension_update v r
      else if k = ''batch_size'' then dec_int sp_batch_size_update v r
      else if k = ''max_attempts'' then dec_int sp_max_attempts_update v r
      else if k = ''max_restarts'' then dec_int sp_max_restarts_update v r
      else Some r)"

definition dec_owner :: "string \<Rightarrow> json \<Rightarrow> owner \<Rightarrow> owner option" where
  "dec_owner k v r =
     (if k = ''id'' then dec_str o_id_update v r
      else if k = ''subject'' then dec_str o_subject_update v r
      else if k = ''realm'' then dec_str o_realm_update v r
      else Some r)"

definition dec_owner_ptr :: "json \<Rightarrow> owner option \<Rightarrow> owner option option" where
  "dec_owner_ptr v w = (if v = JNull then Some None
     else map_option Some (dec_struct dec_owner v (case w of None \<Rightarrow> zero_owner | Some x \<Rightarrow> x)))"

definition dec_job :: "string \<Rightarrow> json \<Rightarrow> job \<Rightarrow> job option" where
  "dec_job k v r =
     (if k = ''lease_id'' then dec_str j_lease_id_update v r
      else if k = ''lease_until'' then dec_time_ptr j_lease_until_update v r
      else if k = ''generation'' then dec_int j_generation_update v r
      else if k = ''report_sequence'' then dec_int j_report_sequence_update v r
      else if k = ''owner'' then map_option (\<lambda>w. r\<lparr>j_owner := w\<rparr>) (dec_owner_ptr v (j_owner r))
      else if k = ''phase'' then dec_str j_phase_update v r
      else if k = ''restarts'' then dec_int j_restarts_update v r
      else if k = ''next_run_at'' then dec_time_ptr j_next_run_at_update v r
      else if k = ''last_checkpoint_at'' then dec_time_ptr j_last_checkpoint_at_update v r
      else if k = ''id'' then dec_str j_id_update v r
      else if k = ''spec'' then map_option (\<lambda>s. r\<lparr>j_spec := s\<rparr>) (dec_struct dec_spec v (j_spec r))
      else if k = ''state'' then dec_str j_state_update v r
      else if k = ''created_at'' then dec_time j_created_at_update v r
      else if k = ''updated_at'' then dec_time j_updated_at_update v r
      else if k = ''created_by'' then dec_str j_created_by_update v r
      else if k = ''records'' then dec_int j_records_update v r
      else if k = ''batches'' then dec_int j_batches_update v r
      else if k = ''retries'' then dec_int j_retries_update v r
      else if k = ''runs'' then dec_int j_runs_update v r
      else if k = ''cursor'' then dec_str j_cursor_update v r
      else if k = ''source_exhausted'' then dec_bool j_source_exhausted_update v r
      else if k = ''error'' then dec_str j_error_update v r
      else if k = ''source_fingerprint'' then dec_str j_source_fp_update v r
      else if k = ''sink_fingerprint'' then dec_str j_sink_fp_update v r
      else if k = ''sink_resource'' then dec_str j_sink_resource_update v r
      else if k = ''idempotency_key'' then dec_str j_idempotency_key_update v r
      else Some r)"

definition dec_event :: "string \<Rightarrow> json \<Rightarrow> event \<Rightarrow> event option" where
  "dec_event k v r =
     (if k = ''sequence'' then dec_int ev_sequence_update v r
      else if k = ''at'' then dec_time ev_at_update v r
      else if k = ''job_id'' then dec_str ev_job_id_update v r
      else if k = ''kind'' then dec_str ev_kind_update v r
      else if k = ''actor'' then dec_str ev_actor_update v r
      else if k = ''message'' then dec_str ev_message_update v r
      else if k = ''records'' then dec_int ev_records_update v r
      else if k = ''batch_sha256'' then dec_str ev_batch_sha256_update v r
      else if k = ''previous_hash'' then dec_str ev_previous_hash_update v r
      else if k = ''hash'' then dec_str ev_hash_update v r
      else Some r)"

definition dec_entry :: "string \<Rightarrow> json \<Rightarrow> entry \<Rightarrow> entry option" where
  "dec_entry k v r =
     (if k = ''event'' then map_option (\<lambda>e. r\<lparr>en_event := e\<rparr>) (dec_struct dec_event v (en_event r))
      else if k = ''job'' then map_option (\<lambda>j. r\<lparr>en_job := j\<rparr>) (dec_struct dec_job v (en_job r))
      else Some r)"

definition unmarshal_entry :: "string \<Rightarrow> entry option" where
  "unmarshal_entry line = (case json_parse line of None \<Rightarrow> None | Some v \<Rightarrow> dec_struct dec_entry v zero_entry)"

end
