(* ===== verification/Connector.thy ===== *)
theory Connector
  imports Prelude Go_Json "HOL-Library.Word" "HOL-Library.Char_ord" "HOL-Library.List_Lexorder"
begin

section \<open>The connector contract (src/connector/connector.go)\<close>

text \<open>
  Records, pages and bindings, page validation, the registry listing, account grants and the
  classification of errors as transient. A \<^verbatim>\<open>float32\<close> is its 32-bit pattern; a
  \<^verbatim>\<open>map[string]json.RawMessage\<close> is the list of its members in the order the runtime ranges over
  them; a \<^verbatim>\<open>Source\<close> or \<^verbatim>\<open>Sink\<close> object is a handle, and what its methods return is an argument of
  the operation that calls them. SHA-256 is a parameter.
\<close>

subsection \<open>Records and pages\<close>

type_synonym f32 = "32 word"

definition f32_exponent :: "f32 \<Rightarrow> nat" where
  "f32_exponent w = unat w div 2 ^ 23 mod 2 ^ 8"

definition f32_finite :: "f32 \<Rightarrow> bool" where
  "f32_finite w \<longleftrightarrow> f32_exponent w \<noteq> 255"

record vrecord =
  r_id :: string
  r_values :: "f32 list"
  r_metadata :: "(string \<times> string) list"

record page =
  pg_records :: "vrecord list"
  pg_next :: string
  pg_done :: bool

definition empty_id_error :: go_error where
  "empty_id_error = ErrNew ''source returned an empty record ID''"

definition duplicate_id_error :: go_error where
  "duplicate_id_error = ErrNew ''source page contains duplicate record IDs''"

definition dimension_error :: "nat \<Rightarrow> int \<Rightarrow> go_error" where
  "dimension_error n dim = ErrNew (''vector dimension '' @ itoa (int n) @ '' does not match job dimension '' @ itoa dim)"

definition non_finite_error :: go_error where
  "non_finite_error = ErrNew ''vector contains a non-finite value''"

definition metadata_error :: go_error where
  "metadata_error = ErrNew ''invalid metadata JSON''"

fun validate_loop :: "string set \<Rightarrow> int \<Rightarrow> vrecord list \<Rightarrow> unit result" where
  "validate_loop seen dim [] = Inr ()"
| "validate_loop seen dim (r # rs) =
     (if r_id r = [] then Inl empty_id_error
      else if r_id r \<in> seen then Inl duplicate_id_error
      else if int (length (r_values r)) \<noteq> dim then Inl (dimension_error (length (r_values r)) dim)
      else if list_ex (\<lambda>v. \<not> f32_finite v) (r_values r) then Inl non_finite_error
      else if list_ex (\<lambda>(k, v). \<not> json_valid v) (r_metadata r) then Inl metadata_error
      else validate_loop (insert (r_id r) seen) dim rs)"

definition validate :: "vrecord list \<Rightarrow> int \<Rightarrow> unit result" where
  "validate rs dim = validate_loop {} dim rs"

definition record_ok :: "int \<Rightarrow> vrecord \<Rightarrow> bool" where
  "record_ok dim r \<longleftrightarrow> r_id r \<noteq> [] \<and> int (length (r_values r)) = dim
     \<and> list_all f32_finite (r_values r) \<and> list_all (\<lambda>(k, v). json_valid v) (r_metadata r)"

lemma validate_loop_iff:
  "validate_loop seen dim rs = Inr () \<longleftrightarrow>
     list_all (record_ok dim) rs \<and> distinct (map r_id rs) \<and> seen \<inter> set (map r_id rs) = {}"
proof (induction rs arbitrary: seen)
  case (Cons r rs)
  have bad: "list_ex (\<lambda>v. \<not> f32_finite v) (r_values r) \<longleftrightarrow> \<not> list_all f32_finite (r_values r)"
    "list_ex (\<lambda>(k, v). \<not> json_valid v) (r_metadata r) \<longleftrightarrow> \<not> list_all (\<lambda>(k, v). json_valid v) (r_metadata r)"
    by (auto simp: list_ex_iff list_all_iff split_def)
  show ?case
    by (cases "record_ok dim r"; cases "r_id r \<in> seen") (auto simp: bad record_ok_def Cons.IH)
qed simp

text \<open>The error a page is refused with names the first offending record.\<close>

lemma validate_loop_prefix:
  "validate_loop seen dim rs = Inr () \<Longrightarrow>
   validate_loop seen dim (rs @ ss) = validate_loop (seen \<union> set (map r_id rs)) dim ss"
proof (induction rs arbitrary: seen)
  case (Cons r rs)
  then show ?case by (simp split: if_splits add: insert_commute Un_commute)
qed simp

subsection \<open>Transient errors\<close>

text \<open>\<^verbatim>\<open>errors.As(err, &e)\<close> with \<^verbatim>\<open>e *Transient\<close>: some error of the chain is a \<open>Transient\<close>.\<close>

fun retryable :: "go_error \<Rightarrow> bool" where
  "retryable (Transient e) = True"
| "retryable (Errorf p e) = retryable e"
| "retryable (Joined es) = list_ex retryable es"
| "retryable _ = False"

lemma retryable_simps2 [simp]:
  "\<not> retryable ErrNotFound" "\<not> retryable (ErrNew s)" "\<not> retryable CtxCanceled"
  by simp_all

subsection \<open>Bindings and account grants\<close>

record binding =
  b_label :: string
  b_personal :: bool
  b_read_subjects :: "string list"
  b_write_subjects :: "string list"
  b_name :: string
  b_kind :: string
  b_description :: string
  b_fingerprint :: string
  b_resource :: string
  b_can_read :: bool
  b_can_write :: bool
  b_source :: "nat option"
  b_sink :: "nat option"

definition zero_binding :: binding where
  "zero_binding = \<lparr>b_label = [], b_personal = False, b_read_subjects = [], b_write_subjects = [],
     b_name = [], b_kind = [], b_description = [], b_fingerprint = [], b_resource = [],
     b_can_read = False, b_can_write = False, b_source = None, b_sink = None\<rparr>"

fun contains_subject :: "string list \<Rightarrow> string \<Rightarrow> bool" where
  "contains_subject subjects subject =
     (if subject = [] then False
      else case subjects of [] \<Rightarrow> False
        | allowed # rest \<Rightarrow> if allowed = subject then True else contains_subject rest subject)"

declare contains_subject.simps [simp del]

lemma contains_subject_iff: "contains_subject ss s \<longleftrightarrow> s \<noteq> [] \<and> s \<in> set ss"
proof (induction ss)
  case (Cons a ss)
  show ?case by (subst contains_subject.simps) (auto simp: Cons.IH)
qed (subst contains_subject.simps, simp)

definition allows_read :: "binding \<Rightarrow> string \<Rightarrow> bool" where
  "allows_read b subject \<longleftrightarrow> b_source b \<noteq> None \<and> contains_subject (b_read_subjects b) subject"

definition allows_write :: "binding \<Rightarrow> string \<Rightarrow> bool" where
  "allows_write b subject \<longleftrightarrow> b_sink b \<noteq> None \<and> contains_subject (b_write_subjects b) subject"

lemma zero_binding_grants [simp]: "\<not> allows_read zero_binding s" "\<not> allows_write zero_binding s"
  by (simp_all add: allows_read_def allows_write_def zero_binding_def)

subsection \<open>The registry\<close>

type_synonym registry = "string \<rightharpoonup> binding"

definition registry_list :: "string list \<Rightarrow> registry \<Rightarrow> binding list" where
  "registry_list ks r = sort_key b_name (range_vals ks r)"

definition fingerprint :: "(string \<Rightarrow> string) \<Rightarrow> string \<Rightarrow> string" where
  "fingerprint sha b = hex_encode (sha b)"

text \<open>With the name of a binding as its key, the listing does not depend on the iteration order.\<close>

lemma registry_list_order:
  assumes "range_order ks r" "range_order ls r" "\<And>k b. r k = Some b \<Longrightarrow> b_name b = k"
  shows "registry_list ks r = registry_list ls r"
proof -
  have names: "map b_name (range_vals ks r) = ks" if "set ks \<subseteq> dom r" for ks
    using that by (induction ks) (auto simp: range_vals_Cons assms(3) split: option.splits)
  have d: "distinct (map b_name (range_vals ks r))" "distinct (map b_name (range_vals ls r))"
    using assms(1,2) names by (auto simp: range_order_def)
  have s: "set (range_vals ks r) = set (range_vals ls r)"
    using assms(1,2) by (simp add: set_range_order)
  have inj: "inj_on b_name (set (range_vals ks r))" using d(1) by (simp add: distinct_map)
  let ?k = "sort_key b_name (range_vals ks r)" and ?l = "sort_key b_name (range_vals ls r)"
  have "distinct (map b_name ?k)" "distinct (map b_name ?l)"
    using d inj s by (simp_all add: distinct_map)
  then have "map b_name ?k = map b_name ?l"
    using s by (intro sorted_distinct_set_unique) simp_all
  then have "?k = ?l" using inj s by (intro map_inj_on [where f = b_name]) simp_all
  then show ?thesis by (simp add: registry_list_def)
qed

end
