(* ===== verification/Net_Address.thy ===== *)
theory Net_Address
  imports Prelude Go_Strings "HOL-Library.Word"
begin

section \<open>Public addresses (src/connector/personal.go)\<close>

text \<open>
  The network filter of personal connections. An address is a 32-bit or a 128-bit word; a 128-bit
  one carries its zone. The predicates are those of Go's net/netip, including its rule that a
  prefix never contains an address with a zone. DNS lookup and dialing are arguments.
\<close>

unbundle bit_operations_syntax

datatype ip =
    IP4 "32 word"
  | IP6 "128 word" string

definition prefix4 :: "32 word \<Rightarrow> nat \<Rightarrow> 32 word \<Rightarrow> bool" where
  "prefix4 p n w \<longleftrightarrow> drop_bit (32 - n) w = drop_bit (32 - n) p"

definition prefix6 :: "128 word \<Rightarrow> nat \<Rightarrow> 128 word \<Rightarrow> bool" where
  "prefix6 p n w \<longleftrightarrow> drop_bit (128 - n) w = drop_bit (128 - n) p"

definition unmap :: "ip \<Rightarrow> ip" where
  "unmap a = (case a of
       IP4 w \<Rightarrow> IP4 w
     | IP6 w z \<Rightarrow> if prefix6 0xFFFF00000000 96 w then IP4 (ucast w) else IP6 w z)"

definition is_loopback :: "ip \<Rightarrow> bool" where
  "is_loopback a = (case a of IP4 w \<Rightarrow> prefix4 0x7F000000 8 w | IP6 w z \<Rightarrow> w = 1)"

definition is_multicast :: "ip \<Rightarrow> bool" where
  "is_multicast a = (case a of IP4 w \<Rightarrow> prefix4 0xE0000000 4 w
     | IP6 w z \<Rightarrow> prefix6 0xFF000000000000000000000000000000 8 w)"

definition is_link_local :: "ip \<Rightarrow> bool" where
  "is_link_local a = (case a of IP4 w \<Rightarrow> prefix4 0xA9FE0000 16 w
     | IP6 w z \<Rightarrow> prefix6 0xFE800000000000000000000000000000 10 w)"

definition is_private :: "ip \<Rightarrow> bool" where
  "is_private a = (case a of
       IP4 w \<Rightarrow> prefix4 0x0A000000 8 w \<or> prefix4 0xAC100000 12 w \<or> prefix4 0xC0A80000 16 w
     | IP6 w z \<Rightarrow> prefix6 0xFC000000000000000000000000000000 7 w)"

definition is_global_unicast :: "ip \<Rightarrow> bool" where
  "is_global_unicast a \<longleftrightarrow> a \<noteq> IP4 0 \<and> a \<noteq> IP4 0xFFFFFFFF \<and> a \<noteq> IP6 0 []
     \<and> \<not> is_loopback a \<and> \<not> is_multicast a \<and> \<not> is_link_local a"

definition excluded4 :: "(32 word \<times> nat) list" where
  "excluded4 = [(0x64400000, 10), (0xC0000000, 24), (0xC0000200, 24), (0xC6120000, 15),
     (0xC6336400, 24), (0xCB007100, 24), (0xF0000000, 4), (0xA83F8110, 32)]"

definition excluded6 :: "(128 word \<times> nat) list" where
  "excluded6 = [(0x20010DB8000000000000000000000000, 32), (0x0064FF9B000000000000000000000000, 96),
     (0x0064FF9B000100000000000000000000, 48), (0x20020000000000000000000000000000, 16),
     (0, 96), (0x20010000000000000000000000000000, 32)]"

text \<open>\<^verbatim>\<open>Prefix.Contains\<close>: never for an address with a zone.\<close>

definition excluded_network :: "ip \<Rightarrow> bool" where
  "excluded_network a = (case a of
       IP4 w \<Rightarrow> list_ex (\<lambda>(p, n). prefix4 p n w) excluded4
     | IP6 w z \<Rightarrow> z = [] \<and> list_ex (\<lambda>(p, n). prefix6 p n w) excluded6)"

definition public_address :: "ip \<Rightarrow> bool" where
  "public_address addr =
     (let a = unmap addr in
      if \<not> is_global_unicast a \<or> is_private a \<or> is_loopback a \<or> is_link_local a then False
      else \<not> excluded_network a)"

text \<open>
  \<open>dial_first\<close> tries the addresses in order; \<open>dial\<close> says for which of them a connection opens.
\<close>

fun dial_first :: "(ip \<Rightarrow> bool) \<Rightarrow> ip list \<Rightarrow> ip result" where
  "dial_first dial [] = Inl (ErrNew ''provider endpoint could not be reached'')"
| "dial_first dial (a # as) = (if dial a then Inr a else dial_first dial as)"

definition resolved_public_dial ::
  "(string \<times> string) option \<Rightarrow> (string \<Rightarrow> ip list result) \<Rightarrow> (string \<Rightarrow> ip \<Rightarrow> bool) \<Rightarrow> ip result" where
  "resolved_public_dial host_port lookup dial =
     (case host_port of
        None \<Rightarrow> Inl (ErrNew ''invalid provider address'')
      | Some (host, port) \<Rightarrow>
          (case lookup host of
             Inl _ \<Rightarrow> Inl (ErrNew ''provider endpoint could not be resolved'')
           | Inr ips \<Rightarrow>
               if ips = [] then Inl (ErrNew ''provider endpoint could not be resolved'')
               else if list_ex (\<lambda>a. \<not> public_address a) ips
               then Inl (ErrNew ''provider endpoint resolves to a restricted network'')
               else dial_first (dial port) ips))"

lemma dial_first_Inr: "dial_first dial as = Inr a \<Longrightarrow> a \<in> set as \<and> dial a"
  by (induction as) (auto split: if_splits)

subsection \<open>Properties\<close>


text \<open>The address filter is sound for addresses without a zone: whatever it calls public is no
  private, loopback, link-local, multicast or unspecified address and lies in none of the excluded
  networks, also when it is written as an IPv4 address mapped into IPv6.\<close>

theorem public_address_sound:
  assumes "public_address a" "\<And>w z. a = IP6 w z \<Longrightarrow> z = []"
  shows "case unmap a of
      IP4 w \<Rightarrow> \<not> prefix4 0x0A000000 8 w \<and> \<not> prefix4 0x7F000000 8 w \<and> \<not> prefix4 0xA9FE0000 16 w
        \<and> \<not> prefix4 0xAC100000 12 w \<and> \<not> prefix4 0xC0A80000 16 w \<and> \<not> prefix4 0xE0000000 4 w
        \<and> w \<noteq> 0 \<and> (\<forall>(p, n) \<in> set excluded4. \<not> prefix4 p n w)
    | IP6 w z \<Rightarrow> w \<noteq> 0 \<and> w \<noteq> 1 \<and> \<not> prefix6 0xFC000000000000000000000000000000 7 w
        \<and> \<not> prefix6 0xFE800000000000000000000000000000 10 w
        \<and> \<not> prefix6 0xFF000000000000000000000000000000 8 w
        \<and> (\<forall>(p, n) \<in> set excluded6. \<not> prefix6 p n w)"
proof (cases "unmap a")
  case (IP4 w)
  with assms(1) show ?thesis
    by (auto simp: public_address_def Let_def is_global_unicast_def is_private_def is_loopback_def
        is_multicast_def is_link_local_def excluded_network_def list_ex_iff split: if_splits)
next
  case (IP6 w z)
  then have "a = IP6 w z" by (auto simp: unmap_def split: ip.splits if_splits)
  with assms(2) have z: "z = []" by blast
  with IP6 assms(1) show ?thesis
    by (auto simp: public_address_def Let_def is_global_unicast_def is_private_def is_loopback_def
        is_multicast_def is_link_local_def excluded_network_def list_ex_iff split: if_splits)
qed



theorem public_address_sound_witness:
  "case unmap (IP4 0x08080808) of
      IP4 w \<Rightarrow> w \<noteq> 0 \<and> \<not> prefix4 0x7F000000 8 w
    | IP6 w z \<Rightarrow> False"
proof -
  have "public_address (IP4 0x08080808)"
    by (simp add: public_address_def Let_def unmap_def prefix4_def is_global_unicast_def is_private_def
        is_loopback_def is_multicast_def is_link_local_def excluded_network_def excluded4_def)
  from public_address_sound [OF this] show ?thesis by (simp add: unmap_def)
qed

end
