(* ===== verification/Personal.thy ===== *)
theory Personal
  imports Journal_Codec Connector Net_Address
begin

section \<open>Connection settings (src/connector/personal.go, additional.go, config.go)\<close>

text \<open>
  The settings and credentials of a connection, their validation for each provider, the defaults
  and the opening of a binding with its fingerprint and resource. \<open>parse_url\<close> and \<open>parse_ip\<close> stand
  for Go's net/url and net/netip parsers, \<open>sha\<close> for SHA-256; the database drivers' constructors,
  third-party code, are the fields of \<open>drivers\<close>.
\<close>

subsection \<open>Settings\<close>

record pconfig =
  pc_kind :: string
  pc_endpoint :: string
  pc_collection :: string
  pc_namespace :: string
  pc_region :: string
  pc_bucket :: string
  pc_index :: string
  pc_distance_metric :: string
  pc_id_type :: string
  pc_database :: string
  pc_auth_database :: string
  pc_tenant :: string
  pc_vector_field :: string
  pc_id_field :: string
  pc_metadata_field :: string
  pc_key_prefix :: string

record pcreds =
  cr_api_key :: string
  cr_access_key_id :: string
  cr_secret_access_key :: string
  cr_session_token :: string
  cr_username :: string
  cr_password :: string

record url =
  u_scheme :: string
  u_host :: string
  u_user :: bool
  u_raw_query :: string
  u_fragment :: string
  u_path :: string
  u_hostname :: string

record drivers =
  dr_pgvector :: "pconfig \<Rightarrow> pcreds \<Rightarrow> bool \<Rightarrow> nat result"
  dr_redis :: "pconfig \<Rightarrow> pcreds \<Rightarrow> bool \<Rightarrow> nat result"
  dr_mongo :: "pconfig \<Rightarrow> pcreds \<Rightarrow> bool \<Rightarrow> nat result"

definition is_additional :: "string \<Rightarrow> bool" where
  "is_additional kind \<longleftrightarrow> kind \<in> set [''weaviate'', ''milvus'', ''elasticsearch'', ''opensearch'', ''pgvector'',
     ''chroma'', ''redis'', ''mongodb'', ''faiss'', ''solr'', ''qdrant'']"

definition is_builtin :: "string \<Rightarrow> bool" where
  "is_builtin kind \<longleftrightarrow> is_additional kind \<or> kind \<in> set [''polign'', ''pinecone'', ''turbopuffer'', ''s3vectors'']"

definition field_name :: "string \<Rightarrow> bool" where
  "field_name s \<longleftrightarrow> (case s of [] \<Rightarrow> False
     | c # cs \<Rightarrow> (is_upper c \<or> is_lower c \<or> c = CHR ''_'') \<and> length cs \<le> 127
         \<and> list_all (\<lambda>c. is_upper c \<or> is_lower c \<or> is_digit c \<or> c = CHR ''_'') cs)"

fun split_on :: "char \<Rightarrow> string \<Rightarrow> string list" where
  "split_on d [] = [[]]"
| "split_on d (c # cs) =
     (if c = d then [] # split_on d cs
      else case split_on d cs of [] \<Rightarrow> [[c]] | p # ps \<Rightarrow> (c # p) # ps)"

text \<open>\<^verbatim>\<open>^[a-z]{2}-[a-z]+(?:-[a-z]+)?-[0-9]+$\<close>\<close>

definition region_name :: "string \<Rightarrow> bool" where
  "region_name s \<longleftrightarrow> (case split_on (CHR ''-'') s of
       [a, b, n] \<Rightarrow> length a = 2 \<and> list_all is_lower a \<and> b \<noteq> [] \<and> list_all is_lower b \<and> all_digits n
     | [a, b, c, n] \<Rightarrow> length a = 2 \<and> list_all is_lower a \<and> b \<noteq> [] \<and> list_all is_lower b
         \<and> c \<noteq> [] \<and> list_all is_lower c \<and> all_digits n
     | _ \<Rightarrow> False)"

definition bad_text :: "nat \<Rightarrow> string \<Rightarrow> bool" where
  "bad_text n s \<longleftrightarrow> n < length s \<or> contains_any s [CHR 0x0D, CHR 0x0A, CHR 0x00]"

text \<open>\<^verbatim>\<open>strings.EqualFold\<close> and \<^verbatim>\<open>strings.ToLower\<close>, as far as they matter for comparison with an ASCII name.\<close>

definition ascii_lower :: "string \<Rightarrow> string" where
  "ascii_lower s = map (\<lambda>c. if is_upper c then char_of (byte c + 32) else c) s"

definition local_hostname :: "string \<Rightarrow> bool" where
  "local_hostname h \<longleftrightarrow> fold_name h = ''localhost'' \<or> has_suffix (ascii_lower h) ''.localhost''"

definition private_host :: "(string \<Rightarrow> ip option) \<Rightarrow> url \<Rightarrow> bool" where
  "private_host parse_ip u \<longleftrightarrow> local_hostname (u_hostname u)
     \<or> (case parse_ip (u_hostname u) of None \<Rightarrow> False | Some a \<Rightarrow> \<not> public_address a)"

definition not_origin :: "url \<Rightarrow> bool" where
  "not_origin u \<longleftrightarrow> u_host u = [] \<or> u_user u \<or> u_raw_query u \<noteq> [] \<or> u_fragment u \<noteq> []
     \<or> (u_path u \<noteq> [] \<and> u_path u \<noteq> ''/'')"

subsection \<open>Database connections\<close>

definition if_empty :: "string \<Rightarrow> string \<Rightarrow> string" where
  "if_empty s d = (if s = [] then d else s)"

definition additional_defaults :: "pconfig \<Rightarrow> pconfig" where
  "additional_defaults c =
     (let k = pc_kind c in
      c\<lparr>pc_endpoint := trim_right (CHR ''/'') (pc_endpoint c),
        pc_auth_database := (if k = ''mongodb'' then if_empty (pc_auth_database c) ''admin'' else pc_auth_database c),
        pc_vector_field := if_empty (pc_vector_field c) ''vector'',
        pc_id_field := if_empty (pc_id_field c) ''id'',
        pc_metadata_field := if_empty (pc_metadata_field c) ''metadata'',
        pc_id_type := if_empty (pc_id_type c)
          (if k = ''mongodb'' then ''objectid'' else if k = ''milvus'' then ''int64'' else ''string''),
        pc_tenant := (if k = ''chroma'' then if_empty (pc_tenant c) ''default_tenant'' else pc_tenant c),
        pc_database :=
          (if k = ''chroma'' then if_empty (pc_database c) ''default_database''
           else if k = ''milvus'' then if_empty (pc_database c) ''default''
           else if k = ''redis'' then if_empty (pc_database c) ''0'' else pc_database c)\<rparr>)"

definition scheme_error :: "pconfig \<Rightarrow> pcreds \<Rightarrow> bool \<Rightarrow> url \<Rightarrow> string option" where
  "scheme_error c s public u =
     (let k = pc_kind c in
      if k = ''pgvector'' then
        (if u_scheme u \<noteq> ''postgresql'' then Some ''pgvector requires a postgresql://host:port endpoint'' else None)
      else if k = ''redis'' then
        (if u_scheme u \<noteq> ''rediss'' \<and> \<not> (u_scheme u = ''redis'' \<and> \<not> public \<and> cr_password s = [])
         then Some ''Redis requires a rediss://host:port endpoint'' else None)
      else if k = ''mongodb'' then
        (if u_scheme u \<noteq> ''mongodb'' \<and> u_scheme u \<noteq> ''mongodb+srv''
         then Some ''MongoDB requires a mongodb:// or mongodb+srv:// endpoint'' else None)
      else
        (if u_scheme u \<noteq> ''https'' \<and> \<not> (u_scheme u = ''http'' \<and> \<not> public \<and> cr_api_key s = [] \<and> cr_password s = [])
         then Some ''authenticated HTTP connections require HTTPS'' else None))"

definition additional_target_error :: "pconfig \<Rightarrow> pcreds \<Rightarrow> string option" where
  "additional_target_error c s =
     (let k = pc_kind c in
      if (k = ''elasticsearch'' \<or> k = ''opensearch'') \<and> \<not> match_name (pc_index c)
      then Some ''one concrete index name is required''
      else if k = ''redis'' \<and> (pc_key_prefix c = []
         \<or> contains_any (pc_key_prefix c) [CHR ''*'', CHR ''?'', CHR ''['', CHR '']'', CHR 0x5C])
      then Some ''a literal Redis key prefix is required''
      else if k \<notin> set [''elasticsearch'', ''opensearch'', ''redis'']
         \<and> (\<not> match_name (pc_collection c) \<or> pc_collection c = ''.'' \<or> pc_collection c = ''..'')
      then Some ''a valid collection or table name is required''
      else if (k = ''pgvector'' \<or> k = ''mongodb'') \<and> \<not> match_name (pc_database c) then Some ''database is required''
      else if k = ''pgvector'' \<and> \<not> field_name (pc_collection c) then Some ''use a table name in the public schema''
      else if k = ''milvus'' \<and> (pc_id_type c \<noteq> ''int64'' \<or> \<not> match_name (pc_database c))
      then Some ''Milvus transfer requires an INT64 primary key and a database name''
      else if k = ''mongodb'' \<and> \<not> match_name (pc_auth_database c) then Some ''invalid authentication database''
      else if k = ''mongodb'' \<and> pc_id_type c \<noteq> ''string'' \<and> pc_id_type c \<noteq> ''objectid'' \<and> pc_id_type c \<noteq> ''int64''
      then Some ''MongoDB ID type must be objectid, string, or int64''
      else if k = ''chroma'' \<and> (\<not> match_name (pc_tenant c) \<or> \<not> match_name (pc_database c))
      then Some ''valid Chroma tenant and database are required''
      else if (k = ''pgvector'' \<or> k = ''redis'' \<or> k = ''mongodb'') \<and> cr_api_key s \<noteq> []
      then Some ''this database uses username/password credentials''
      else None)"

definition validate_additional ::
  "(string \<Rightarrow> url option) \<Rightarrow> (string \<Rightarrow> ip option) \<Rightarrow> pconfig \<Rightarrow> pcreds \<Rightarrow> bool \<Rightarrow> string option" where
  "validate_additional parse_url parse_ip c s public =
     (if list_ex (bad_text 2048) [pc_endpoint c, pc_collection c, pc_namespace c, pc_index c, pc_database c,
           pc_auth_database c, pc_tenant c, pc_vector_field c, pc_id_field c, pc_metadata_field c,
           pc_key_prefix c, pc_id_type c]
      then Some ''invalid connection setting''
      else if list_ex (bad_text 16384) [cr_api_key s, cr_username s, cr_password s]
      then Some ''invalid credential format''
      else if cr_access_key_id s \<noteq> [] \<or> cr_secret_access_key s \<noteq> [] \<or> cr_session_token s \<noteq> []
         \<or> pc_region c \<noteq> [] \<or> pc_bucket c \<noteq> [] \<or> pc_distance_metric c \<noteq> []
      then Some ''unsupported provider settings''
      else if cr_api_key s \<noteq> [] \<and> (cr_username s \<noteq> [] \<or> cr_password s \<noteq> [])
      then Some ''choose API key or username/password authentication''
      else if (cr_username s \<noteq> [] \<and> cr_password s = [])
         \<or> (cr_password s \<noteq> [] \<and> cr_username s = [] \<and> pc_kind c \<noteq> ''redis'')
      then Some ''username and password are required together''
      else if public \<and> cr_api_key s = [] \<and> cr_password s = []
      then Some ''database credentials are required''
      else case parse_url (pc_endpoint c) of
        None \<Rightarrow> Some ''endpoint must be an origin without credentials, query, or path''
      | Some u \<Rightarrow>
          if not_origin u then Some ''endpoint must be an origin without credentials, query, or path''
          else if scheme_error c s public u \<noteq> None then scheme_error c s public u
          else if public \<and> private_host parse_ip u then Some ''private network endpoints are not supported''
          else
            let d = additional_defaults c in
            if \<not> field_name (pc_vector_field d) \<or> \<not> field_name (pc_id_field d) \<or> \<not> field_name (pc_metadata_field d)
               \<or> pc_vector_field d = pc_id_field d \<or> pc_vector_field d = pc_metadata_field d
               \<or> pc_metadata_field d = pc_id_field d
            then Some ''field names must be distinct simple identifiers''
            else additional_target_error d s)"

subsection \<open>Personal connections\<close>

definition s3_error :: "pconfig \<Rightarrow> pcreds \<Rightarrow> string option" where
  "s3_error c s =
     (if pc_endpoint c \<noteq> [] \<or> pc_collection c \<noteq> [] \<or> pc_namespace c \<noteq> [] \<or> pc_distance_metric c \<noteq> []
         \<or> pc_id_type c \<noteq> [] \<or> cr_api_key s \<noteq> []
      then Some ''S3 Vectors accepts region, bucket, index, and AWS credentials''
      else if \<not> region_name (pc_region c) \<or> \<not> match_name (pc_bucket c) \<or> \<not> match_name (pc_index c)
      then Some ''S3 Vectors requires a valid region, vector bucket, and index''
      else if cr_access_key_id s = [] \<or> cr_secret_access_key s = []
      then Some ''AWS access key ID and secret access key are required''
      else None)"

definition provider_error :: "pconfig \<Rightarrow> string option" where
  "provider_error c =
     (let k = pc_kind c in
      if k = ''polign'' then
        (if pc_collection c = [] \<or> pc_namespace c \<noteq> [] \<or> pc_distance_metric c \<noteq> [] \<or> pc_id_type c \<noteq> []
         then Some ''Polign requires a collection and no namespace settings'' else None)
      else if k = ''pinecone'' then
        (if pc_collection c \<noteq> [] \<or> pc_distance_metric c \<noteq> [] \<or> pc_id_type c \<noteq> []
         then Some ''Pinecone accepts an index endpoint and optional namespace'' else None)
      else if k = ''turbopuffer'' then
        (if \<not> match_name (pc_namespace c) \<or> pc_collection c \<noteq> []
         then Some ''Turbopuffer requires a valid namespace''
         else if pc_distance_metric c \<noteq> [] \<and> pc_distance_metric c \<noteq> ''cosine_distance''
            \<and> pc_distance_metric c \<noteq> ''euclidean_squared'' then Some ''unsupported distance metric''
         else if pc_id_type c \<noteq> [] \<and> pc_id_type c \<noteq> ''string'' \<and> pc_id_type c \<noteq> ''uint'' \<and> pc_id_type c \<noteq> ''uuid''
         then Some ''unsupported ID type'' else None)
      else None)"

definition validate_personal ::
  "(string \<Rightarrow> url option) \<Rightarrow> (string \<Rightarrow> ip option) \<Rightarrow> pconfig \<Rightarrow> pcreds \<Rightarrow> string option" where
  "validate_personal parse_url parse_ip c s =
     (if is_additional (pc_kind c) then validate_additional parse_url parse_ip c s True
      else if cr_username s \<noteq> [] \<or> cr_password s \<noteq> [] \<or> pc_database c \<noteq> [] \<or> pc_auth_database c \<noteq> []
         \<or> pc_tenant c \<noteq> [] \<or> pc_vector_field c \<noteq> [] \<or> pc_id_field c \<noteq> [] \<or> pc_metadata_field c \<noteq> []
         \<or> pc_key_prefix c \<noteq> []
      then Some ''unsupported settings for this provider''
      else if \<not> is_builtin (pc_kind c) then Some ''choose Polign, Pinecone, Turbopuffer, or S3 Vectors''
      else if list_ex (bad_text 2048) [pc_endpoint c, pc_collection c, pc_namespace c, pc_region c, pc_bucket c, pc_index c]
      then Some ''invalid connection setting''
      else if list_ex (bad_text 16384) [cr_api_key s, cr_access_key_id s, cr_secret_access_key s, cr_session_token s]
      then Some ''invalid credential format''
      else if pc_kind c = ''s3vectors'' then s3_error c s
      else if pc_region c \<noteq> [] \<or> pc_bucket c \<noteq> [] \<or> pc_index c \<noteq> [] \<or> cr_access_key_id s \<noteq> []
         \<or> cr_secret_access_key s \<noteq> [] \<or> cr_session_token s \<noteq> []
      then Some ''this provider accepts an API key, not AWS credentials''
      else if cr_api_key s = [] then Some ''an API key is required''
      else case parse_url (pc_endpoint c) of
        None \<Rightarrow> Some ''endpoint must be a public HTTPS origin without credentials, query, or path''
      | Some u \<Rightarrow>
          if u_scheme u \<noteq> ''https'' \<or> not_origin u
          then Some ''endpoint must be a public HTTPS origin without credentials, query, or path''
          else if private_host parse_ip u
          then Some ''private network endpoints are not supported for personal connections''
          else provider_error c)"

subsection \<open>Opening a binding\<close>

definition config_members :: "pconfig \<Rightarrow> (string \<times> json) list" where
  "config_members c =
     (''kind'', jstr (pc_kind c)) # omit (pc_endpoint c = []) ''endpoint'' (jstr (pc_endpoint c))
     @ omit (pc_collection c = []) ''collection'' (jstr (pc_collection c))
     @ omit (pc_namespace c = []) ''namespace'' (jstr (pc_namespace c))
     @ omit (pc_region c = []) ''region'' (jstr (pc_region c))
     @ omit (pc_bucket c = []) ''bucket'' (jstr (pc_bucket c))
     @ omit (pc_index c = []) ''index'' (jstr (pc_index c))
     @ omit (pc_distance_metric c = []) ''distance_metric'' (jstr (pc_distance_metric c))
     @ omit (pc_id_type c = []) ''id_type'' (jstr (pc_id_type c))
     @ omit (pc_database c = []) ''database'' (jstr (pc_database c))
     @ omit (pc_auth_database c = []) ''auth_database'' (jstr (pc_auth_database c))
     @ omit (pc_tenant c = []) ''tenant'' (jstr (pc_tenant c))
     @ omit (pc_vector_field c = []) ''vector_field'' (jstr (pc_vector_field c))
     @ omit (pc_id_field c = []) ''id_field'' (jstr (pc_id_field c))
     @ omit (pc_metadata_field c = []) ''metadata_field'' (jstr (pc_metadata_field c))
     @ omit (pc_key_prefix c = []) ''key_prefix'' (jstr (pc_key_prefix c))"

definition config_json :: "pconfig \<Rightarrow> json" where
  "config_json c = JObj (config_members c)"

definition config_fingerprint :: "(string \<Rightarrow> string) \<Rightarrow> pconfig \<Rightarrow> string" where
  "config_fingerprint sha c = fingerprint sha (jprint (config_json c))"

definition strings_fingerprint :: "(string \<Rightarrow> string) \<Rightarrow> string list \<Rightarrow> string" where
  "strings_fingerprint sha ss = fingerprint sha (jprint (JArr (map jstr ss)))"

definition trim_both :: "char \<Rightarrow> string \<Rightarrow> string" where
  "trim_both c s = dropWhile (\<lambda>d. d = c) (trim_right c s)"

definition additional_binding :: "(string \<Rightarrow> string) \<Rightarrow> pconfig \<Rightarrow> binding" where
  "additional_binding sha c =
     (let resource = (if pc_kind c = ''redis'' then pc_key_prefix c
            else if pc_index c \<noteq> [] then pc_index c else pc_collection c);
          desc = trim_both (CHR ''/'') (pc_tenant c @ ''/'' @ pc_database c @ ''/'' @ resource)
      in zero_binding\<lparr>b_kind := pc_kind c, b_can_read := True, b_can_write := True,
           b_fingerprint := config_fingerprint sha c, b_description := desc,
           b_resource := strings_fingerprint sha [pc_kind c, pc_endpoint c, desc]\<rparr>)"

definition connect :: "nat \<Rightarrow> binding \<Rightarrow> binding" where
  "connect h b = b\<lparr>b_source := Some h, b_sink := Some h\<rparr>"

definition open_additional ::
  "(string \<Rightarrow> string) \<Rightarrow> (string \<Rightarrow> url option) \<Rightarrow> (string \<Rightarrow> ip option) \<Rightarrow> drivers \<Rightarrow> nat \<Rightarrow>
   pconfig \<Rightarrow> pcreds \<Rightarrow> bool \<Rightarrow> binding result" where
  "open_additional sha parse_url parse_ip dr h c0 s public =
     (case validate_additional parse_url parse_ip c0 s public of
        Some msg \<Rightarrow> Inl (ErrNew msg)
      | None \<Rightarrow>
          let c = additional_defaults c0;
              client = (if pc_kind c = ''pgvector'' then dr_pgvector dr c s public
                else if pc_kind c = ''redis'' then dr_redis dr c s public
                else if pc_kind c = ''mongodb'' then dr_mongo dr c s public
                else Inr h)
          in (case client of Inl err \<Rightarrow> Inl err | Inr p \<Rightarrow> Inr (connect p (additional_binding sha c))))"

definition personal_defaults :: "pconfig \<Rightarrow> pconfig" where
  "personal_defaults c =
     (let c1 = c\<lparr>pc_endpoint := trim_right (CHR ''/'') (pc_endpoint c)\<rparr> in
      if pc_kind c = ''turbopuffer''
      then c1\<lparr>pc_distance_metric := if_empty (pc_distance_metric c) ''cosine_distance'',
              pc_id_type := if_empty (pc_id_type c) ''string''\<rparr>
      else c1)"

definition public_binding :: "(string \<Rightarrow> string) \<Rightarrow> pconfig \<Rightarrow> binding" where
  "public_binding sha c =
     (let endpoint = (if pc_kind c = ''s3vectors'' then ''https://s3vectors.'' @ pc_region c @ ''.api.aws'' else pc_endpoint c);
          desc = (if pc_kind c = ''polign'' then pc_collection c
            else if pc_kind c = ''s3vectors'' then pc_bucket c @ ''/'' @ pc_index c else pc_namespace c)
      in zero_binding\<lparr>b_kind := pc_kind c, b_can_read := True, b_can_write := True, b_description := desc,
           b_fingerprint := config_fingerprint sha c,
           b_resource := strings_fingerprint sha [pc_kind c, endpoint, desc]\<rparr>)"

definition open_personal ::
  "(string \<Rightarrow> string) \<Rightarrow> (string \<Rightarrow> url option) \<Rightarrow> (string \<Rightarrow> ip option) \<Rightarrow> drivers \<Rightarrow> nat \<Rightarrow>
   pconfig \<Rightarrow> pcreds \<Rightarrow> binding result" where
  "open_personal sha parse_url parse_ip dr h c s =
     (if is_additional (pc_kind c) then open_additional sha parse_url parse_ip dr h c s True
      else case validate_personal parse_url parse_ip c s of
        Some msg \<Rightarrow> Inl (ErrNew msg)
      | None \<Rightarrow> Inr (connect h (public_binding sha (personal_defaults c))))"

lemma open_additional_Inr:
  "open_additional sha parse_url parse_ip dr h c s public = Inr b \<Longrightarrow>
   \<exists>p. b = connect p (additional_binding sha (additional_defaults c))
     \<and> validate_additional parse_url parse_ip c s public = None"
  unfolding open_additional_def Let_def
  by (cases "validate_additional parse_url parse_ip c s public") (auto split: sum.splits)

lemma open_personal_Inr:
  assumes "open_personal sha parse_url parse_ip dr h c s = Inr b"
  shows "validate_personal parse_url parse_ip c s = None \<and>
     (\<exists>p. b = connect p (if is_additional (pc_kind c) then additional_binding sha (additional_defaults c)
        else public_binding sha (personal_defaults c)))"
proof (cases "is_additional (pc_kind c)")
  case True
  with assms have "open_additional sha parse_url parse_ip dr h c s True = Inr b" by (simp add: open_personal_def)
  from open_additional_Inr [OF this] True show ?thesis by (auto simp: validate_personal_def)
next
  case False
  with assms show ?thesis by (cases "validate_personal parse_url parse_ip c s") (auto simp: open_personal_def)
qed

lemma connect_simps [simp]:
  "b_fingerprint (connect h b) = b_fingerprint b" "b_resource (connect h b) = b_resource b"
  "b_kind (connect h b) = b_kind b" "b_source (connect h b) = Some h" "b_sink (connect h b) = Some h"
  by (simp_all add: connect_def)

subsection \<open>Properties\<close>

text \<open>A chain of guards, each with its message, passes exactly when no guard holds.\<close>

lemma guard_chain:
  "((if b then Some x else r) = None) \<longleftrightarrow> \<not> b \<and> r = None"
  "((if m \<noteq> None then m else r) = None) \<longleftrightarrow> m = None \<and> r = None"
  "((case p of None \<Rightarrow> Some x | Some y \<Rightarrow> f y) = None) \<longleftrightarrow> (\<exists>y. p = Some y \<and> f y = None)"
  by (auto split: option.split)

lemma validate_additional_None:
  assumes "validate_additional parse_url parse_ip c s public = None"
  obtains u where "parse_url (pc_endpoint c) = Some u" "\<not> not_origin u" "scheme_error c s public u = None"
    "public \<Longrightarrow> \<not> private_host parse_ip u" "public \<Longrightarrow> cr_api_key s \<noteq> [] \<or> cr_password s \<noteq> []"
  using assms unfolding validate_additional_def guard_chain by blast

text \<open>A saved connection points at a public endpoint over an encrypted transport. When settings of a
  provider with an endpoint are accepted, the endpoint is an origin without credentials, query or
  path, its scheme is https or the TLS scheme of the database, its host is not localhost and is no
  address the network filter refuses, and there is a credential.\<close>

theorem personal_endpoint_public:
  assumes "validate_personal parse_url parse_ip c s = None" "pc_kind c \<noteq> ''s3vectors''"
  shows "\<exists>u. parse_url (pc_endpoint c) = Some u \<and> \<not> not_origin u \<and> \<not> local_hostname (u_hostname u)
     \<and> (\<forall>a. parse_ip (u_hostname u) = Some a \<longrightarrow> public_address a)
     \<and> u_scheme u \<in> {''https'', ''postgresql'', ''rediss'', ''mongodb'', ''mongodb+srv''}
     \<and> (cr_api_key s \<noteq> [] \<or> cr_password s \<noteq> [])"
proof (cases "is_additional (pc_kind c)")
  case True
  with assms(1) have v: "validate_additional parse_url parse_ip c s True = None"
    by (simp add: validate_personal_def)
  then obtain u where u: "parse_url (pc_endpoint c) = Some u" and g: "\<not> not_origin u" "scheme_error c s True u = None"
      "\<not> private_host parse_ip u" "cr_api_key s \<noteq> [] \<or> cr_password s \<noteq> []"
    by (rule validate_additional_None) blast
  have "u_scheme u \<in> {''https'', ''postgresql'', ''rediss'', ''mongodb'', ''mongodb+srv''}"
    using g(2) unfolding scheme_error_def Let_def by (auto split: if_splits)
  with u g show ?thesis by (auto simp: private_host_def)
next
  case False
  with assms have "validate_personal parse_url parse_ip c s = None" "\<not> is_additional (pc_kind c)" "pc_kind c \<noteq> ''s3vectors''"
    by simp_all
  then obtain u where u: "parse_url (pc_endpoint c) = Some u" "cr_api_key s \<noteq> []" "u_scheme u = ''https''"
      "\<not> not_origin u" "\<not> private_host parse_ip u"
    unfolding validate_personal_def by (simp only: if_False guard_chain) blast
  with u show ?thesis by (auto simp: private_host_def)
qed

definition demo_config :: pconfig where
  "demo_config = \<lparr>pc_kind = ''pinecone'', pc_endpoint = ''https://x.io'', pc_collection = [], pc_namespace = [],
     pc_region = [], pc_bucket = [], pc_index = [], pc_distance_metric = [], pc_id_type = [],
     pc_database = [], pc_auth_database = [], pc_tenant = [], pc_vector_field = [], pc_id_field = [],
     pc_metadata_field = [], pc_key_prefix = []\<rparr>"

definition demo_creds :: pcreds where
  "demo_creds = \<lparr>cr_api_key = ''k'', cr_access_key_id = [], cr_secret_access_key = [], cr_session_token = [],
     cr_username = [], cr_password = []\<rparr>"

definition demo_url :: "string \<Rightarrow> url option" where
  "demo_url s = Some \<lparr>u_scheme = ''https'', u_host = ''x.io'', u_user = False, u_raw_query = [], u_fragment = [],
     u_path = [], u_hostname = ''x.io''\<rparr>"

lemma demo_valid_key:
  assumes "k = ''k'' \<or> k = ''z''"
  shows "validate_personal demo_url (\<lambda>_. None) demo_config (demo_creds\<lparr>cr_api_key := k\<rparr>) = None"
proof -
  have kind: "\<not> is_additional ''pinecone''" "is_builtin ''pinecone''" by code_simp+
  have host: "\<not> local_hostname ''x.io''" by code_simp
  have any: "\<not> contains_any ''https://x.io'' [CHR 0x0D, CHR 0x0A, CHR 0x00]"
    "\<not> contains_any k [CHR 0x0D, CHR 0x0A, CHR 0x00]" "\<not> contains_any [] [CHR 0x0D, CHR 0x0A, CHR 0x00]" "length k = 1"
    using assms by (auto simp: contains_any_def)
  then have text_ok: "\<not> bad_text 2048 ''https://x.io''" "\<not> bad_text 2048 []" "\<not> bad_text 16384 []" "\<not> bad_text 16384 k" "k \<noteq> []"
    by (auto simp: bad_text_def)
  show ?thesis
    by (simp add: validate_personal_def demo_config_def demo_creds_def demo_url_def kind text_ok not_origin_def
        private_host_def host provider_error_def Let_def)
qed

lemma demo_valid: "validate_personal demo_url (\<lambda>_. None) demo_config demo_creds = None"
  using demo_valid_key [of "''k''"] by (simp add: demo_creds_def)

theorem personal_endpoint_public_witness:
  "\<exists>u. demo_url (pc_endpoint demo_config) = Some u \<and> \<not> local_hostname (u_hostname u) \<and> \<not> not_origin u"
proof -
  have k: "pc_kind demo_config \<noteq> ''s3vectors''" by (simp add: demo_config_def)
  from personal_endpoint_public [OF demo_valid k] show ?thesis by blast
qed

text \<open>Credentials are no part of a connection's identity. Opening the same settings with different
  credentials gives the same fingerprint and the same resource, so replacing credentials never
  invalidates the jobs that use the connection.\<close>

theorem identity_ignores_credentials:
  assumes "open_personal sha parse_url parse_ip dr h c s = Inr b"
    and "open_personal sha parse_url parse_ip dr h' c s' = Inr b'"
  shows "b_fingerprint b = b_fingerprint b' \<and> b_resource b = b_resource b' \<and> b_kind b = b_kind b'
     \<and> b_source b = b_sink b \<and> b_source b \<noteq> None"
  using open_personal_Inr [OF assms(1)] open_personal_Inr [OF assms(2)] by auto

definition no_drivers :: drivers where
  "no_drivers = \<lparr>dr_pgvector = (\<lambda>_ _ _. Inl ErrNotFound), dr_redis = (\<lambda>_ _ _. Inl ErrNotFound),
     dr_mongo = (\<lambda>_ _ _. Inl ErrNotFound)\<rparr>"

theorem identity_ignores_credentials_witness:
  "\<exists>b b'. open_personal (\<lambda>s. s) demo_url (\<lambda>_. None) no_drivers 1 demo_config demo_creds = Inr b
     \<and> open_personal (\<lambda>s. s) demo_url (\<lambda>_. None) no_drivers 2 demo_config (demo_creds\<lparr>cr_api_key := ''z''\<rparr>) = Inr b'
     \<and> b_fingerprint b = b_fingerprint b'"
proof -
  have na: "\<not> is_additional (pc_kind demo_config)" by code_simp
  have v: "validate_personal demo_url (\<lambda>_. None) demo_config (demo_creds\<lparr>cr_api_key := ''z''\<rparr>) = None"
    by (rule demo_valid_key) simp
  obtain b where b: "open_personal (\<lambda>s. s) demo_url (\<lambda>_. None) no_drivers 1 demo_config demo_creds = Inr b"
    using na demo_valid by (auto simp: open_personal_def Let_def)
  obtain b' where b': "open_personal (\<lambda>s. s) demo_url (\<lambda>_. None) no_drivers 2 demo_config (demo_creds\<lparr>cr_api_key := ''z''\<rparr>) = Inr b'"
    using na v by (auto simp: open_personal_def Let_def)
  from identity_ignores_credentials [OF b b'] b b' show ?thesis by blast
qed

end
