(* ===== verification/Journal_Facts.thy ===== *)
theory Journal_Facts
  imports Journal_Codec
begin

section \<open>A journal line is read back as it was written\<close>

text \<open>
  \<open>entry_ok\<close> says what an entry needs for its line to be read back unchanged: its strings are valid
  UTF-8, its numbers fit 64 bits and its times lie in the years 0 to 9999. The main theorem is the
  round trip of \<open>marshal_entry\<close> and \<open>unmarshal_entry\<close>; the line never contains a newline, whatever
  the strings are.
\<close>

subsection \<open>Entries that can be written\<close>

definition spec_ok :: "spec \<Rightarrow> bool" where
  "spec_ok s \<longleftrightarrow> valid_utf8 (sp_worker_id s) \<and> valid_utf8 (sp_name s) \<and> valid_utf8 (sp_source s)
     \<and> valid_utf8 (sp_sink s) \<and> int64 (sp_dimension s) \<and> int64 (sp_batch_size s)
     \<and> int64 (sp_max_attempts s) \<and> int64 (sp_max_restarts s)"

definition owner_ok :: "owner \<Rightarrow> bool" where
  "owner_ok w \<longleftrightarrow> valid_utf8 (o_id w) \<and> valid_utf8 (o_subject w) \<and> valid_utf8 (o_realm w)"

definition job_ok :: "job \<Rightarrow> bool" where
  "job_ok j \<longleftrightarrow> valid_utf8 (j_lease_id j) \<and> opt_time_ok (j_lease_until j) \<and> int64 (j_generation j)
     \<and> int64 (j_report_sequence j) \<and> (case j_owner j of None \<Rightarrow> True | Some w \<Rightarrow> owner_ok w)
     \<and> valid_utf8 (j_phase j) \<and> int64 (j_restarts j) \<and> opt_time_ok (j_next_run_at j)
     \<and> opt_time_ok (j_last_checkpoint_at j) \<and> valid_utf8 (j_id j) \<and> spec_ok (j_spec j)
     \<and> valid_utf8 (j_state j) \<and> time_ok (j_created_at j) \<and> time_ok (j_updated_at j)
     \<and> valid_utf8 (j_created_by j) \<and> int64 (j_records j) \<and> int64 (j_batches j)
     \<and> int64 (j_retries j) \<and> int64 (j_runs j) \<and> valid_utf8 (j_cursor j) \<and> valid_utf8 (j_error j)
     \<and> valid_utf8 (j_source_fp j) \<and> valid_utf8 (j_sink_fp j) \<and> valid_utf8 (j_sink_resource j)
     \<and> valid_utf8 (j_idempotency_key j)"

definition event_ok :: "event \<Rightarrow> bool" where
  "event_ok e \<longleftrightarrow> int64 (ev_sequence e) \<and> time_ok (ev_at e) \<and> valid_utf8 (ev_job_id e)
     \<and> valid_utf8 (ev_kind e) \<and> valid_utf8 (ev_actor e) \<and> valid_utf8 (ev_message e)
     \<and> int64 (ev_records e) \<and> valid_utf8 (ev_batch_sha256 e) \<and> valid_utf8 (ev_previous_hash e)
     \<and> valid_utf8 (ev_hash e)"

definition entry_ok :: "entry \<Rightarrow> bool" where
  "entry_ok e \<longleftrightarrow> event_ok (en_event e) \<and> job_ok (en_job e)"

subsection \<open>Keys\<close>

definition plain_key :: "string \<Rightarrow> bool" where
  "plain_key k \<longleftrightarrow> list_all (\<lambda>c. is_lower c \<or> c = CHR ''_'' \<or> is_digit c) k"

lemma plain_char:
  "is_lower c \<or> c = CHR ''_'' \<or> is_digit c \<Longrightarrow>
   byte c < 0x80 \<and> 0x20 \<le> byte c \<and> c \<noteq> CHR 0x5C \<and> c \<noteq> CHR 0x22 \<and> \<not> is_upper c \<and> c \<noteq> CHR 0xC5 \<and> c \<noteq> CHR 0xE2"
  by (auto simp: is_lower_def is_digit_def is_upper_def byte_def)

lemma fold_name_plain: "plain_key k \<Longrightarrow> fold_name k = k"
proof (induction k)
  case (Cons c cs)
  from Cons have "fold_name cs = cs" and c: "\<not> is_upper c" "c \<noteq> CHR 0xC5" "c \<noteq> CHR 0xE2"
    using plain_char [of c] by (simp_all add: plain_key_def)
  moreover have "fold_name (c # cs) = c # fold_name cs" using c by (simp split: list.split)
  ultimately show ?case by simp
qed simp

lemma json_unquote_plain: "plain_key k \<Longrightarrow> json_unquote k = k"
proof (induction k)
  case (Cons c cs)
  then show ?case using plain_char [of c] by (simp add: plain_key_def)
qed simp

lemma key_name: "plain_key k \<Longrightarrow> fold_name (json_unquote k) = k"
  by (simp add: fold_name_plain json_unquote_plain)

lemma raw_ok_plain: "plain_key k \<Longrightarrow> raw_ok k"
proof -
  have "plain_key k \<Longrightarrow> lex_string (k @ [CHR 0x22]) = Some (k, [])"
  proof (induction k)
    case (Cons c cs)
    then show ?case using plain_char [of c] by (simp add: plain_key_def)
  qed simp
  then show "plain_key k \<Longrightarrow> raw_ok k" by (simp add: raw_ok_def)
qed

lemma plain_char_simps: "is_lower c \<longleftrightarrow> 97 \<le> byte c \<and> byte c \<le> 122" "byte c = of_char c"
  by (simp_all add: is_lower_def byte_def)

definition keys :: "string list" where
  "keys = [''worker_id'', ''name'', ''source'', ''sink'', ''dimension'', ''batch_size'', ''max_attempts'',
     ''max_restarts'', ''id'', ''subject'', ''realm'', ''lease_id'', ''lease_until'', ''generation'',
     ''report_sequence'', ''owner'', ''phase'', ''restarts'', ''next_run_at'', ''last_checkpoint_at'',
     ''spec'', ''state'', ''created_at'', ''updated_at'', ''created_by'', ''records'', ''batches'',
     ''retries'', ''runs'', ''cursor'', ''source_exhausted'', ''error'', ''source_fingerprint'',
     ''sink_fingerprint'', ''sink_resource'', ''idempotency_key'', ''sequence'', ''at'', ''job_id'',
     ''kind'', ''actor'', ''message'', ''batch_sha256'', ''previous_hash'', ''hash'', ''event'', ''job'']"

lemma keys_plain: "list_all plain_key keys"
  by code_simp

subsection \<open>Single fields\<close>

lemma dec_str_jstr: "valid_utf8 s \<Longrightarrow> dec_str upd (jstr s) r = Some (upd (\<lambda>_. s) r)"
  by (simp add: dec_str_def jstr_def json_unquote_escape)

lemma dec_int_jint: "int64 n \<Longrightarrow> dec_int upd (jint n) r = Some (upd (\<lambda>_. n) r)"
  by (simp add: dec_int_def jint_def)

lemma dec_bool_JBool: "dec_bool upd (JBool b) r = Some (upd (\<lambda>_. b) r)"
  by (simp add: dec_bool_def)

lemma dec_time_jtime: "time_ok t \<Longrightarrow> dec_time upd (jtime t) r = Some (upd (\<lambda>_. t) r)"
  by (simp add: dec_time_def jtime_def parse_format_time)

lemma dec_time_ptr_jtime: "time_ok t \<Longrightarrow> dec_time_ptr upd (jtime t) r = Some (upd (\<lambda>_. Some t) r)"
  by (simp add: dec_time_ptr_def jtime_def parse_format_time)

lemmas dec_simps = dec_str_jstr dec_int_jint dec_bool_JBool dec_time_jtime dec_time_ptr_jtime

lemma dec_members_append:
  "dec_members f (ms @ ns) r = (case dec_members f ms r of None \<Rightarrow> None | Some r' \<Rightarrow> dec_members f ns r')"
  by (induction ms arbitrary: r) (auto split: option.splits)

lemma dec_members_key:
  assumes "plain_key k"
  shows "dec_members f ((k, v) # ms) r = (case f k v r of None \<Rightarrow> None | Some r' \<Rightarrow> dec_members f ms r')"
  by (simp add: key_name assms)

lemma dec_members_omit:
  assumes "plain_key k"
  shows "dec_members f (omit c k v @ ms) r =
     (if c then dec_members f ms r else case f k v r of None \<Rightarrow> None | Some r' \<Rightarrow> dec_members f ms r')"
  by (simp add: omit_def key_name assms)

lemmas plain_keys = keys_plain [unfolded keys_def list.pred_inject]

declare dec_members.simps(2) [simp del]

subsection \<open>Whole records\<close>

lemma spec_omit:
  "valid_utf8 x \<Longrightarrow> sp_worker_id r = [] \<Longrightarrow>
   dec_members dec_spec (omit (x = []) ''worker_id'' (jstr x) @ ms) r = dec_members dec_spec ms (r\<lparr>sp_worker_id := x\<rparr>)"
  "int64 n \<Longrightarrow> sp_max_restarts r = 0 \<Longrightarrow>
   dec_members dec_spec (omit (n = 0) ''max_restarts'' (jint n)) r = Some (r\<lparr>sp_max_restarts := n\<rparr>)"
  by (cases r; simp add: omit_def dec_members_key plain_keys dec_simps dec_spec_def)+

lemma dec_spec_members: "spec_ok s \<Longrightarrow> dec_members dec_spec (spec_members s) zero_spec = Some s"
  unfolding spec_ok_def spec_members_def zero_spec_def
  by (simp add: spec_omit dec_members_key plain_keys dec_simps dec_spec_def)

lemma dec_owner_members: "owner_ok w \<Longrightarrow> dec_members dec_owner (owner_members w) zero_owner = Some w"
  unfolding owner_ok_def owner_members_def zero_owner_def
  by (simp add: dec_members_key plain_keys dec_simps dec_owner_def)

lemma event_omit:
  "valid_utf8 x \<Longrightarrow> ev_batch_sha256 r = [] \<Longrightarrow>
   dec_members dec_event (omit (x = []) ''batch_sha256'' (jstr x) @ ms) r =
   dec_members dec_event ms (r\<lparr>ev_batch_sha256 := x\<rparr>)"
  by (cases r; simp add: omit_def dec_members_key plain_keys dec_simps dec_event_def)

lemma dec_event_members: "event_ok e \<Longrightarrow> dec_members dec_event (event_members e) zero_event = Some e"
  unfolding event_ok_def event_members_def zero_event_def
  by (simp add: event_omit dec_members_key plain_keys dec_simps dec_event_def)

lemma job_omit_str:
  "valid_utf8 x \<Longrightarrow> j_lease_id r = [] \<Longrightarrow>
   dec_members dec_job (omit (x = []) ''lease_id'' (jstr x) @ ms) r = dec_members dec_job ms (r\<lparr>j_lease_id := x\<rparr>)"
  "valid_utf8 x \<Longrightarrow> j_phase r = [] \<Longrightarrow>
   dec_members dec_job (omit (x = []) ''phase'' (jstr x) @ ms) r = dec_members dec_job ms (r\<lparr>j_phase := x\<rparr>)"
  "valid_utf8 x \<Longrightarrow> j_cursor r = [] \<Longrightarrow>
   dec_members dec_job (omit (x = []) ''cursor'' (jstr x) @ ms) r = dec_members dec_job ms (r\<lparr>j_cursor := x\<rparr>)"
  "valid_utf8 x \<Longrightarrow> j_error r = [] \<Longrightarrow>
   dec_members dec_job (omit (x = []) ''error'' (jstr x) @ ms) r = dec_members dec_job ms (r\<lparr>j_error := x\<rparr>)"
  "valid_utf8 x \<Longrightarrow> j_idempotency_key r = [] \<Longrightarrow>
   dec_members dec_job (omit (x = []) ''idempotency_key'' (jstr x)) r = Some (r\<lparr>j_idempotency_key := x\<rparr>)"
  by (cases r; simp add: omit_def dec_members_key plain_keys dec_simps dec_job_def)+

lemma job_omit_int:
  "int64 n \<Longrightarrow> j_generation r = 0 \<Longrightarrow>
   dec_members dec_job (omit (n = 0) ''generation'' (jint n) @ ms) r = dec_members dec_job ms (r\<lparr>j_generation := n\<rparr>)"
  "int64 n \<Longrightarrow> j_report_sequence r = 0 \<Longrightarrow>
   dec_members dec_job (omit (n = 0) ''report_sequence'' (jint n) @ ms) r = dec_members dec_job ms (r\<lparr>j_report_sequence := n\<rparr>)"
  "int64 n \<Longrightarrow> j_restarts r = 0 \<Longrightarrow>
   dec_members dec_job (omit (n = 0) ''restarts'' (jint n) @ ms) r = dec_members dec_job ms (r\<lparr>j_restarts := n\<rparr>)"
  by (cases r; simp add: omit_def dec_members_key plain_keys dec_simps dec_job_def)+

lemma job_omit_time:
  "opt_time_ok t \<Longrightarrow> j_lease_until r = None \<Longrightarrow>
   dec_members dec_job (omit (t = None) ''lease_until'' (jtime (the t)) @ ms) r = dec_members dec_job ms (r\<lparr>j_lease_until := t\<rparr>)"
  "opt_time_ok t \<Longrightarrow> j_next_run_at r = None \<Longrightarrow>
   dec_members dec_job (omit (t = None) ''next_run_at'' (jtime (the t)) @ ms) r = dec_members dec_job ms (r\<lparr>j_next_run_at := t\<rparr>)"
  "opt_time_ok t \<Longrightarrow> j_last_checkpoint_at r = None \<Longrightarrow>
   dec_members dec_job (omit (t = None) ''last_checkpoint_at'' (jtime (the t)) @ ms) r =
   dec_members dec_job ms (r\<lparr>j_last_checkpoint_at := t\<rparr>)"
  by (cases r; cases t; simp add: opt_time_ok_def omit_def dec_members_key plain_keys dec_simps dec_job_def)+

lemma job_omit_owner:
  "(case w of None \<Rightarrow> True | Some x \<Rightarrow> owner_ok x) \<Longrightarrow> j_owner r = None \<Longrightarrow>
   dec_members dec_job (omit (w = None) ''owner'' (JObj (owner_members (the w))) @ ms) r =
   dec_members dec_job ms (r\<lparr>j_owner := w\<rparr>)"
  by (cases r; cases w; simp add: omit_def dec_members_key plain_keys dec_job_def dec_owner_ptr_def
      dec_struct_def dec_owner_members)

lemmas job_omit = job_omit_str job_omit_int job_omit_time job_omit_owner

lemma dec_job_members: "job_ok j \<Longrightarrow> dec_members dec_job (job_members j) zero_job = Some j"
  unfolding job_ok_def job_members_def zero_job_def
  by (simp add: job_omit dec_members_key plain_keys dec_simps dec_job_def dec_struct_def dec_spec_members)

subsection \<open>The line\<close>

lemma json_parse_print_ws:
  assumes "json_ok max_nesting v" "num_stop r" "skip_ws r = []"
  shows "json_parse (jprint v @ r) = Some v"
  using pval_print [OF assms(1,2), of "2 * length (jprint v @ r) + 2"] assms(3)
  by (simp add: json_parse_def del: pval.simps)

definition member_ok :: "nat \<Rightarrow> string \<times> json \<Rightarrow> bool" where
  "member_ok d m \<longleftrightarrow> raw_ok (fst m) \<and> json_ok d (snd m)"

lemma json_ok_JObj: "json_ok d (JObj ms) \<longleftrightarrow> 0 < d \<and> list_all (member_ok (d - 1)) ms"
  by (simp add: member_ok_def split_def cong: list.pred_cong)

lemma raw_ok_digits_like:
  assumes "\<And>c. c \<in> set s \<Longrightarrow> 0x20 \<le> byte c \<and> c \<noteq> CHR 0x5C \<and> c \<noteq> CHR 0x22"
  shows "raw_ok s"
proof -
  have "lex_string (s @ [CHR 0x22]) = Some (s, [])" using assms by (induction s) (fastforce simp: not_less)+
  then show ?thesis by (simp add: raw_ok_def)
qed

lemma raw_ok_time: "raw_ok (format_time t)"
proof (rule raw_ok_digits_like)
  fix c assume "c \<in> set (format_time t)"
  from format_time_chars [OF this] show "0x20 \<le> byte c \<and> c \<noteq> CHR 0x5C \<and> c \<noteq> CHR 0x22"
    by (auto simp: is_digit_def byte_def)
qed

lemma field_ok:
  "json_ok d (jstr s)" "json_ok d (jint n)" "json_ok d (jtime t)"
  by (simp_all add: jstr_def jint_def jtime_def raw_ok_escape raw_ok_time)

lemma member_ok_key: "plain_key k \<Longrightarrow> member_ok d (k, v) \<longleftrightarrow> json_ok d v"
  by (simp add: member_ok_def raw_ok_plain)

lemma list_all_omit: "list_all P (omit c k v) \<longleftrightarrow> c \<or> P (k, v)"
  by (simp add: omit_def)

lemma spec_members_ok: "list_all (member_ok d) (spec_members s)"
  by (simp add: spec_members_def list_all_omit member_ok_key plain_keys field_ok)

lemma owner_members_ok: "list_all (member_ok d) (owner_members w)"
  by (simp add: owner_members_def member_ok_key plain_keys field_ok)

lemma event_members_ok: "list_all (member_ok d) (event_members e)"
  by (simp add: event_members_def list_all_omit member_ok_key plain_keys field_ok)

lemma job_members_ok: "0 < d \<Longrightarrow> list_all (member_ok d) (job_members j)"
  by (simp add: job_members_def list_all_omit member_ok_key plain_keys field_ok json_ok_JObj
      spec_members_ok owner_members_ok del: json_ok.simps(6))

lemma entry_json_ok: "json_ok max_nesting (entry_json e)"
proof -
  have d: "0 < max_nesting - 1" "0 < max_nesting" "0 < max_nesting - 1 - 1" by (simp_all add: max_nesting_def)
  show ?thesis
    using d by (simp add: entry_json_def json_ok_JObj member_ok_key plain_keys event_members_ok job_members_ok
        del: json_ok.simps(6))
qed

lemma entry_times: "entry_ok e \<Longrightarrow> entry_times_ok e"
  by (simp add: entry_ok_def event_ok_def job_ok_def entry_times_ok_def)

lemma marshal_entry_ok: "entry_ok e \<Longrightarrow> marshal_entry e = Inr (jprint (entry_json e))"
  by (simp add: marshal_entry_def entry_times)

lemma marshal_no_newline: "marshal_entry e = Inr b \<Longrightarrow> CHR 0x0A \<notin> set b"
  using printable_no_newline [OF jprint_printable [OF entry_json_ok]]
  by (auto simp: marshal_entry_def split: if_splits)

lemma unmarshal_marshal:
  assumes "marshal_entry e = Inr b" "entry_ok e"
  shows "unmarshal_entry (b @ [CHR 0x0A]) = Some e"
proof -
  have b: "b = jprint (entry_json e)" using assms by (simp add: marshal_entry_ok)
  have ns: "num_stop [CHR 0x0A]" "skip_ws [CHR 0x0A] = []"
    by (simp_all add: num_stop_def is_digit_def byte_def skip_ws_def is_ws_def)
  have ev: "dec_members dec_event (event_members (en_event e)) zero_event = Some (en_event e)"
    and jb: "dec_members dec_job (job_members (en_job e)) zero_job = Some (en_job e)"
    using assms(2) by (simp_all add: entry_ok_def dec_event_members dec_job_members)
  have "json_parse (b @ [CHR 0x0A]) = Some (entry_json e)"
    unfolding b by (rule json_parse_print_ws [OF entry_json_ok ns])
  then show ?thesis
    by (simp add: unmarshal_entry_def entry_json_def dec_struct_def
        dec_members_key plain_keys dec_entry_def zero_entry_def ev jb)
qed

text \<open>Different entries have different lines.\<close>

lemma marshal_inject:
  "marshal_entry e = marshal_entry f \<Longrightarrow> entry_ok e \<Longrightarrow> entry_ok f \<Longrightarrow> e = f"
  by (metis marshal_entry_ok option.inject unmarshal_marshal)

subsection \<open>Strings that are not UTF-8\<close>

text \<open>What a string becomes by being written and read back: each invalid byte is U+FFFD.\<close>

fun to_valid :: "string \<Rightarrow> string" where
  "to_valid [] = []"
| "to_valid (c # cs) =
     (if byte c < 0x80 then c # to_valid cs
      else case utf8_tail c cs of
        None \<Rightarrow> replacement @ to_valid cs
      | Some n \<Rightarrow> c # take n cs @ to_valid (drop n cs))"

lemma to_valid_id: "valid_utf8 s \<Longrightarrow> to_valid s = s"
  by (induction s rule: valid_utf8.induct) (auto split: if_splits option.splits)

lemma json_unquote_escape_any: "json_unquote (json_escape s) = to_valid s"
proof (induction s rule: to_valid.induct)
  case (2 c cs)
  show ?case
  proof (cases "byte c < 0x80")
    case True
    with 2 show ?thesis by (simp add: unquote_escape_ascii)
  next
    case False
    show ?thesis
    proof (cases "utf8_tail c cs")
      case None
      with False 2 show ?thesis by (simp add: unquote_ufffd)
    next
      case (Some n)
      have rest: "json_unquote (json_escape (drop n cs)) = to_valid (drop n cs)" using 2 False Some by blast
      have chars: "c # take n cs @ to_valid (drop n cs) = (c # take n cs) @ to_valid (drop n cs)" for c n cs by simp
      show ?thesis using False Some rest unquote_multi [OF Some] unquote_u2028 unquote_u2029
        by (auto simp: chars simp del: json_unquote.simps append_Cons split: if_splits) auto
    qed
  qed
qed simp

end
