(* ===== verification/Store.thy ===== *)
theory Store
  imports Journal_Facts
begin

section \<open>The job store and its journal (src/control/store.go)\<close>

text \<open>
  The store keeps the jobs in memory and appends one JSON line per state transition to the
  journal. The journal file is its bytes; a write either puts the whole line on disk and syncs, or
  fails after some number of bytes, and then the store is poisoned. Opening a store replays the
  journal: an unterminated last line is cut off, any other damage is an error. Every operation runs
  under the store's mutex, so it is one function from store to store. SHA-256, the clock, the
  random source and the outcome of a write are arguments.
\<close>

subsection \<open>State\<close>

record jstate =
  s_jobs :: "string \<rightharpoonup> job"
  s_sequence :: int
  s_hash :: string

record store = jstate +
  s_file :: string
  s_poison :: "go_error option"

datatype write_outcome = WriteOk | WriteFail nat go_error

record io =
  io_now :: time
  io_write :: write_outcome

definition empty_jstate :: jstate where
  "empty_jstate = \<lparr>s_jobs = Map.empty, s_sequence = 0, s_hash = []\<rparr>"

definition view :: "store \<Rightarrow> jstate" where
  "view st = \<lparr>s_jobs = s_jobs st, s_sequence = s_sequence st, s_hash = s_hash st\<rparr>"

subsection \<open>Reading lines\<close>

definition newline :: char where
  "newline = CHR 0x0A"

definition split_line :: "string \<Rightarrow> (string \<times> string) option" where
  "split_line s = (let l = takeWhile (\<lambda>c. c \<noteq> newline) s in
     if length l < length s then Some (l @ [newline], drop (Suc (length l)) s) else None)"

lemma split_line_length [termination_simp]: "split_line s = Some (l, r) \<Longrightarrow> length r < length s"
  by (auto simp: split_line_def Let_def split: if_splits)

definition integrity_error :: "nat \<Rightarrow> go_error" where
  "integrity_error off = ErrNew (''journal integrity check failed at byte '' @ itoa (int off))"

function read_lines ::
  "('s \<Rightarrow> string \<Rightarrow> 's option) \<Rightarrow> 's \<Rightarrow> nat \<Rightarrow> string \<Rightarrow> ('s \<times> nat \<times> string) result" where
  "read_lines step st off s =
     (case split_line s of
        None \<Rightarrow> Inr (st, off, s)
      | Some (line, rest) \<Rightarrow>
          (case step st line of
             None \<Rightarrow> Inl (integrity_error off)
           | Some st' \<Rightarrow> read_lines step st' (off + length line) rest))"
  by pat_completeness auto
termination
  by (relation "measure (\<lambda>(step, st, off, s). length s)") (auto simp: split_line_length)

declare read_lines.simps [simp del]

subsection \<open>Hashes and replay\<close>

definition hash_text :: "entry \<Rightarrow> string" where
  "hash_text e = (case marshal_entry (e\<lparr>en_event := (en_event e)\<lparr>ev_hash := []\<rparr>\<rparr>) of Inl _ \<Rightarrow> [] | Inr b \<Rightarrow> b)"

definition entry_hash :: "(string \<Rightarrow> string) \<Rightarrow> entry \<Rightarrow> string" where
  "entry_hash sha e = hex_encode (sha (hash_text e))"

definition apply_entry :: "jstate \<Rightarrow> entry \<Rightarrow> jstate" where
  "apply_entry st e = \<lparr>s_jobs = (s_jobs st)(j_id (en_job e) \<mapsto> en_job e),
     s_sequence = ev_sequence (en_event e), s_hash = ev_hash (en_event e)\<rparr>"

definition chained :: "(string \<Rightarrow> string) \<Rightarrow> jstate \<Rightarrow> entry \<Rightarrow> bool" where
  "chained sha st e \<longleftrightarrow> ev_sequence (en_event e) = s_sequence st + 1
     \<and> ev_previous_hash (en_event e) = s_hash st \<and> ev_hash (en_event e) = entry_hash sha e
     \<and> ev_job_id (en_event e) = j_id (en_job e)"

definition replay_step :: "(string \<Rightarrow> string) \<Rightarrow> jstate \<Rightarrow> string \<Rightarrow> jstate option" where
  "replay_step sha st line = (case unmarshal_entry line of
       None \<Rightarrow> None
     | Some e \<Rightarrow> if chained sha st e then Some (apply_entry st e) else None)"

text \<open>What the file system answers when a store is opened: an error of each call, or none.\<close>

record open_faults =
  of_mkdir :: "go_error option"
  of_open :: "go_error option"
  of_locked :: bool
  of_truncate :: "go_error option"
  of_sync :: "go_error option"
  of_seek :: "go_error option"
  of_dir :: "go_error option"
  of_dirsync :: "go_error option"

definition no_faults :: open_faults where
  "no_faults = \<lparr>of_mkdir = None, of_open = None, of_locked = False, of_truncate = None,
     of_sync = None, of_seek = None, of_dir = None, of_dirsync = None\<rparr>"

definition guard :: "go_error option \<Rightarrow> 'a result \<Rightarrow> 'a result" where
  "guard err r = (case err of Some e \<Rightarrow> Inl e | None \<Rightarrow> r)"

definition replay :: "(string \<Rightarrow> string) \<Rightarrow> open_faults \<Rightarrow> string \<Rightarrow> store result" where
  "replay sha fs file =
     (case read_lines (replay_step sha) empty_jstate 0 file of
        Inl err \<Rightarrow> Inl err
      | Inr (st, off, tail) \<Rightarrow>
          guard (if tail = [] then None else of_truncate fs)
            (guard (if tail = [] then None else of_sync fs)
              (guard (of_seek fs)
                (Inr \<lparr>s_jobs = s_jobs st, s_sequence = s_sequence st, s_hash = s_hash st,
                   s_file = (if tail = [] then file else take off file), s_poison = None\<rparr>))))"

definition open_store :: "(string \<Rightarrow> string) \<Rightarrow> open_faults \<Rightarrow> string \<Rightarrow> store result" where
  "open_store sha fs file =
     guard (of_mkdir fs) (guard (of_open fs)
       (guard (if of_locked fs then Some (ErrNew ''data directory is already in use'') else None)
         (case replay sha fs file of
            Inl err \<Rightarrow> Inl err
          | Inr st \<Rightarrow> guard (of_dir fs) (guard (of_dirsync fs) (Inr st)))))"

subsection \<open>Appending\<close>

definition journal_entry ::
  "(string \<Rightarrow> string) \<Rightarrow> time \<Rightarrow> job \<Rightarrow> string \<Rightarrow> string \<Rightarrow> string \<Rightarrow> string \<Rightarrow> jstate \<Rightarrow> entry" where
  "journal_entry sha now j kind actor message digest st =
     (let j' = j\<lparr>j_updated_at := now\<rparr>;
          kind' = (if j_state j' = ''canceled'' then ''canceled'' else kind);
          e = \<lparr>en_event = \<lparr>ev_sequence = s_sequence st + 1, ev_at = j_updated_at j', ev_job_id = j_id j',
                 ev_kind = kind', ev_actor = actor, ev_message = message, ev_records = j_records j',
                 ev_batch_sha256 = digest, ev_previous_hash = s_hash st, ev_hash = []\<rparr>, en_job = j'\<rparr>
      in e\<lparr>en_event := (en_event e)\<lparr>ev_hash := entry_hash sha e\<rparr>\<rparr>)"

definition store_append ::
  "(string \<Rightarrow> string) \<Rightarrow> io \<Rightarrow> job \<Rightarrow> string \<Rightarrow> string \<Rightarrow> string \<Rightarrow> string \<Rightarrow> store \<Rightarrow> unit result \<times> store" where
  "store_append sha io j kind actor message digest st =
     (case s_poison st of
        Some p \<Rightarrow> (Inl p, st)
      | None \<Rightarrow>
          let e = journal_entry sha (io_now io) j kind actor message digest (view st) in
          (case marshal_entry e of
             Inl err \<Rightarrow> (Inl err, st)
           | Inr b \<Rightarrow>
               (case io_write io of
                  WriteOk \<Rightarrow>
                    (Inr (), st\<lparr>s_file := s_file st @ b @ [newline],
                       s_jobs := (s_jobs st)(j_id (en_job e) \<mapsto> en_job e),
                       s_sequence := ev_sequence (en_event e), s_hash := ev_hash (en_event e)\<rparr>)
                | WriteFail n err \<Rightarrow>
                    let p = Errorf ''job journal write failed: '' err in
                    (Inl p, st\<lparr>s_file := s_file st @ take n (b @ [newline]), s_poison := Some p\<rparr>))))"

subsection \<open>Operations\<close>

definition same_owner :: "owner option \<Rightarrow> owner option \<Rightarrow> bool" where
  "same_owner a b \<longleftrightarrow> (case (a, b) of
       (Some x, Some y) \<Rightarrow> x = y
     | (None, None) \<Rightarrow> True
     | _ \<Rightarrow> False)"

definition first_owner :: "owner list \<Rightarrow> owner option" where
  "first_owner owners = (case owners of [] \<Rightarrow> None | w # _ \<Rightarrow> Some w)"

definition create_matches :: "string \<Rightarrow> owner option \<Rightarrow> job \<Rightarrow> bool" where
  "create_matches key owner j \<longleftrightarrow> j_idempotency_key j = key \<and> same_owner (j_owner j) owner"

text \<open>
  \<open>ks\<close> is the order in which the loop over the jobs sees them, \<open>rnd\<close> the answer of the random
  source, and \<open>created\<close> the clock reading for the job's creation time.
\<close>

definition create ::
  "(string \<Rightarrow> string) \<Rightarrow> io \<Rightarrow> string list \<Rightarrow> string result \<Rightarrow> time \<Rightarrow>
   spec \<Rightarrow> string \<Rightarrow> string \<Rightarrow> string \<Rightarrow> string \<Rightarrow> string \<Rightarrow> owner list \<Rightarrow> store \<Rightarrow> (job \<times> bool) result \<times> store" where
  "create sha io ks rnd created spec source_fp sink_fp sink_resource key actor owners st =
     (case s_poison st of
        Some p \<Rightarrow> (Inl p, st)
      | None \<Rightarrow>
          let owner = first_owner owners in
          (case (if key \<noteq> [] then find (create_matches key owner) (range_vals ks (s_jobs st)) else None) of
             Some j \<Rightarrow>
               if j_spec j \<noteq> spec \<or> j_source_fp j \<noteq> source_fp \<or> j_sink_fp j \<noteq> sink_fp
               then (Inl ErrConflict, st) else (Inr (j, False), st)
           | None \<Rightarrow>
               (case rnd of
                  Inl err \<Rightarrow> (Inl err, st)
                | Inr bytes \<Rightarrow>
                    let j = zero_job\<lparr>j_owner := owner, j_id := hex_encode bytes, j_spec := spec,
                          j_state := ''queued'', j_created_at := created, j_created_by := actor,
                          j_source_fp := source_fp, j_sink_fp := sink_fp,
                          j_sink_resource := sink_resource, j_idempotency_key := key\<rparr> in
                    (case store_append sha io j ''submitted'' actor ''Job submitted'' [] st of
                       (Inl err, st') \<Rightarrow> (Inl err, st')
                     | (Inr _, st') \<Rightarrow> (Inr (the (s_jobs st' (j_id j)), True), st')))))"

definition get_job :: "string \<Rightarrow> store \<Rightarrow> job result" where
  "get_job jid st = (case s_jobs st jid of None \<Rightarrow> Inl ErrNotFound | Some j \<Rightarrow> Inr j)"

definition list_jobs :: "string list \<Rightarrow> store \<Rightarrow> job list" where
  "list_jobs ks st = sort_key (\<lambda>j. - j_created_at j) (range_vals ks (s_jobs st))"

definition update ::
  "(string \<Rightarrow> string) \<Rightarrow> io \<Rightarrow> string \<Rightarrow> string \<Rightarrow> string \<Rightarrow> string \<Rightarrow> string \<Rightarrow> (job \<Rightarrow> job result) \<Rightarrow>
   store \<Rightarrow> job result \<times> store" where
  "update sha io jid kind actor message digest fn st =
     (case s_jobs st jid of
        None \<Rightarrow> (Inl ErrNotFound, st)
      | Some j \<Rightarrow>
          (case fn j of
             Inl err \<Rightarrow> (Inl err, st)
           | Inr j' \<Rightarrow>
               (case store_append sha io j' kind actor message digest st of
                  (Inl err, st') \<Rightarrow> (Inl err, st')
                | (Inr _, st') \<Rightarrow> (Inr (the (s_jobs st' jid)), st'))))"

definition active :: "job \<Rightarrow> bool" where
  "active j \<longleftrightarrow> j_state j = ''running'' \<or> j_state j = ''cancel_requested''"

definition recover_fn :: "job \<Rightarrow> job result" where
  "recover_fn j = Inr (if j_state j = ''cancel_requested'' then j\<lparr>j_state := ''canceled''\<rparr> else j\<lparr>j_state := ''queued''\<rparr>)"

fun recover_loop :: "(string \<Rightarrow> string) \<Rightarrow> (string \<Rightarrow> io) \<Rightarrow> job list \<Rightarrow> store \<Rightarrow> unit result \<times> store" where
  "recover_loop sha ios [] st = (Inr (), st)"
| "recover_loop sha ios (j # js) st =
     (if sp_worker_id (j_spec j) \<noteq> [] \<or> \<not> active j then recover_loop sha ios js st
      else case update sha (ios (j_id j)) (j_id j) ''recovered'' ''worker''
               ''Recovered interrupted job from its last acknowledged checkpoint'' [] recover_fn st of
        (Inl err, st') \<Rightarrow> (Inl err, st')
      | (Inr _, st') \<Rightarrow> recover_loop sha ios js st')"

definition recover :: "(string \<Rightarrow> string) \<Rightarrow> (string \<Rightarrow> io) \<Rightarrow> string list \<Rightarrow> store \<Rightarrow> unit result \<times> store" where
  "recover sha ios ks st = recover_loop sha ios (list_jobs ks st) st"

text \<open>The loop of a claim: a variable of type \<^verbatim>\<open>Job\<close> that is empty until a job is picked.\<close>

fun pick_job :: "(job \<Rightarrow> bool) \<Rightarrow> job \<Rightarrow> job list \<Rightarrow> job" where
  "pick_job P picked [] = picked"
| "pick_job P picked (j # js) =
     pick_job P (if P j \<and> (j_id picked = [] \<or> j_created_at j < j_created_at picked) then j else picked) js"

definition due :: "time \<Rightarrow> job \<Rightarrow> bool" where
  "due now j \<longleftrightarrow> j_state j = ''retry_wait'' \<and> (case j_next_run_at j of None \<Rightarrow> False | Some t \<Rightarrow> \<not> now < t)"

definition busy :: "string list \<Rightarrow> store \<Rightarrow> string list" where
  "busy ks st = map j_sink_resource (filter active (range_vals ks (s_jobs st)))"

definition claimable :: "(string \<Rightarrow> time) \<Rightarrow> string list \<Rightarrow> job \<Rightarrow> bool" where
  "claimable clk taken j \<longleftrightarrow> sp_worker_id (j_spec j) = [] \<and> (j_state j = ''queued'' \<or> due (clk (j_id j)) j)
     \<and> j_sink_resource j \<notin> set taken"

definition claim ::
  "(string \<Rightarrow> string) \<Rightarrow> io \<Rightarrow> (string \<Rightarrow> time) \<Rightarrow> string list \<Rightarrow> string list \<Rightarrow> store \<Rightarrow> (job \<times> bool) result \<times> store" where
  "claim sha io clk ks ls st =
     (case s_poison st of
        Some p \<Rightarrow> (Inl p, st)
      | None \<Rightarrow>
          let picked = pick_job (claimable clk (busy ks st)) zero_job (range_vals ls (s_jobs st)) in
          if j_id picked = [] then (Inr (zero_job, False), st)
          else
            let j = picked\<lparr>j_state := ''running'', j_phase := ''starting'', j_next_run_at := None,
                  j_runs := j_runs picked + 1, j_error := []\<rparr> in
            (case store_append sha io j ''started'' ''worker'' ''Transfer execution started'' [] st of
               (Inl err, st') \<Rightarrow> (Inl err, st')
             | (Inr _, st') \<Rightarrow> (Inr (the (s_jobs st' (j_id j)), True), st')))"

text \<open>The events of a job, read from the journal: at most \<open>limit\<close> of them, after a sequence number.\<close>

function events_loop :: "string \<Rightarrow> int \<Rightarrow> int \<Rightarrow> event list \<Rightarrow> string \<Rightarrow> event list result" where
  "events_loop jid after limit acc s =
     (if int (length acc) < limit then
        (case split_line s of
           None \<Rightarrow> Inr acc
         | Some (line, rest) \<Rightarrow>
             (case unmarshal_entry line of
                None \<Rightarrow> Inl (ErrNew ''json'')
              | Some e \<Rightarrow>
                  events_loop jid after limit
                    (if j_id (en_job e) = jid \<and> after < ev_sequence (en_event e) then acc @ [en_event e] else acc)
                    rest))
      else Inr acc)"
  by pat_completeness auto
termination
  by (relation "measure (\<lambda>(jid, after, limit, acc, s). length s)") (auto simp: split_line_length)

declare events_loop.simps [simp del]

definition events :: "string \<Rightarrow> int \<Rightarrow> int \<Rightarrow> go_error option \<Rightarrow> store \<Rightarrow> event list result" where
  "events jid after limit stat_err st =
     (case s_jobs st jid of
        None \<Rightarrow> Inl ErrNotFound
      | Some _ \<Rightarrow> guard stat_err (events_loop jid after limit [] (s_file st)))"

definition health :: "store \<Rightarrow> go_error option" where
  "health st = s_poison st"

end
