(* ===== verification/Store_Facts.thy ===== *)
theory Store_Facts
  imports Store
begin

section \<open>What the store guarantees\<close>

text \<open>
  The journal is a log of lines over a state: \<open>line_journal\<close> states what the reader promises for
  the lines the writer puts there, and gives the two facts a crash-safe log needs, for a complete
  line and for a torn one. It is interpreted on the store's own codec, hash chain and replay. The
  other lemmas describe each operation on every branch and the invariants of the store.
\<close>

subsection \<open>Lines\<close>

lemma split_line_newline: "newline \<notin> set l \<Longrightarrow> split_line (l @ newline # r) = Some (l @ [newline], r)"
proof -
  assume "newline \<notin> set l"
  then have "takeWhile (\<lambda>c. c \<noteq> newline) (l @ newline # r) = l" by (induction l) auto
  then show ?thesis by (simp add: split_line_def)
qed

lemma split_line_None_iff: "split_line s = None \<longleftrightarrow> newline \<notin> set s"
proof -
  have "length (takeWhile (\<lambda>c. c \<noteq> newline) s) < length s \<longleftrightarrow> newline \<in> set s"
    by (induction s) auto
  then show ?thesis by (simp add: split_line_def Let_def)
qed

lemma split_line_Some:
  assumes "split_line s = Some (l, r)"
  shows "s = l @ r" "\<exists>l'. l = l' @ [newline] \<and> newline \<notin> set l'"
proof -
  let ?t = "takeWhile (\<lambda>c. c \<noteq> newline) s"
  from assms have len: "length ?t < length s" and lr: "l = ?t @ [newline]" "r = drop (Suc (length ?t)) s"
    by (auto simp: split_line_def Let_def split: if_splits)
  have "s ! length ?t = newline" using len nth_length_takeWhile by blast
  then have "s = ?t @ newline # drop (Suc (length ?t)) s"
    using len by (metis append_take_drop_id Cons_nth_drop_Suc takeWhile_eq_take)
  with lr show "s = l @ r" by simp
  show "\<exists>l'. l = l' @ [newline] \<and> newline \<notin> set l'"
    using lr set_takeWhileD by fastforce
qed

lemma read_lines_done: "newline \<notin> set s \<Longrightarrow> read_lines step st off s = Inr (st, off, s)"
  by (subst read_lines.simps) (simp add: split_line_None_iff [THEN iffD2])

lemma read_lines_line:
  "newline \<notin> set l \<Longrightarrow> read_lines step st off (l @ newline # r) =
     (case step st (l @ [newline]) of None \<Rightarrow> Inl (integrity_error off)
      | Some st' \<Rightarrow> read_lines step st' (off + length l + 1) r)"
  by (subst read_lines.simps) (simp add: split_line_newline add.commute add.left_commute cong: option.case_cong)

lemma split_line_append:
  assumes "split_line s = Some (l, r)"
  shows "split_line (s @ t) = Some (l, r @ t)"
proof -
  from split_line_Some [OF assms] obtain l' where "s = (l' @ [newline]) @ r" "l = l' @ [newline]" "newline \<notin> set l'"
    by blast
  then show ?thesis using split_line_newline [of l' "r @ t"] by simp
qed

lemma read_lines_append:
  "read_lines step st off s = Inr (st', off', []) \<Longrightarrow>
   read_lines step st off (s @ t) = read_lines step st' off' t"
proof (induction step st off s rule: read_lines.induct)
  case (1 step st off s)
  show ?case
  proof (cases "split_line s")
    case None
    with 1(2) show ?thesis by (simp add: read_lines.simps [of step st off s])
  next
    case (Some p)
    obtain l r where p: "p = (l, r)" by force
    with Some 1(2) obtain st1 where st1: "step st l = Some st1"
        "read_lines step st1 (off + length l) r = Inr (st', off', [])"
      by (simp add: read_lines.simps [of step st off s] split: option.splits)
    from 1(1) [OF Some p [symmetric] st1(1) st1(2)] split_line_append [OF Some [unfolded p], of t] st1(1)
    show ?thesis by (simp add: read_lines.simps [of step st off "s @ t"])
  qed
qed

lemma read_lines_offset:
  "read_lines step st off s = Inr (st', off', tail) \<Longrightarrow> off \<le> off' \<and> s = take (off' - off) s @ tail"
proof (induction step st off s rule: read_lines.induct)
  case (1 step st off s)
  show ?case
  proof (cases "split_line s")
    case None
    with 1(2) show ?thesis by (simp add: read_lines.simps [of step st off s])
  next
    case (Some p)
    obtain l r where p: "p = (l, r)" by force
    with Some 1(2) obtain st1 where st1: "step st l = Some st1"
        "read_lines step st1 (off + length l) r = Inr (st', off', tail)"
      by (simp add: read_lines.simps [of step st off s] split: option.splits)
    have s: "s = l @ r" using split_line_Some(1) Some p by blast
    from 1(1) [OF Some p [symmetric] st1] have "off + length l \<le> off'" "r = take (off' - (off + length l)) r @ tail"
      by auto
    with s show ?thesis by (simp add: take_append diff_diff_left add.commute)
  qed
qed

text \<open>Cutting an unterminated tail off leaves a text that reads to the same state.\<close>

lemma read_lines_prefix:
  "read_lines step st off s = Inr (st', off', tail) \<Longrightarrow>
   read_lines step st off (take (off' - off) s) = Inr (st', off', [])"
proof (induction step st off s rule: read_lines.induct)
  case (1 step st off s)
  show ?case
  proof (cases "split_line s")
    case None
    with 1(2) show ?thesis by (simp add: read_lines.simps [of step st off s] read_lines_done)
  next
    case (Some p)
    obtain l r where p: "p = (l, r)" by force
    with Some 1(2) obtain st1 where st1: "step st l = Some st1"
        "read_lines step st1 (off + length l) r = Inr (st', off', tail)"
      by (simp add: read_lines.simps [of step st off s] split: option.splits)
    obtain l' where l: "l = l' @ [newline]" "newline \<notin> set l'" "s = l @ r"
      using split_line_Some Some p by blast
    have IH: "read_lines step st1 (off + length l) (take (off' - (off + length l)) r) = Inr (st', off', [])"
      using 1(1) [OF Some p [symmetric] st1] .
    have "off + length l \<le> off'" using read_lines_offset [OF st1(2)] by blast
    then obtain k where "off' = off + length l + k" by (metis le_iff_add)
    then have "take (off' - off) s = l' @ newline # take (off' - (off + length l)) r"
      using l by (simp add: take_append)
    then show ?thesis using IH st1(1) l by (simp add: read_lines_line)
  qed
qed

subsection \<open>A journal of lines\<close>

locale line_journal =
  fixes step :: "'s \<Rightarrow> string \<Rightarrow> 's option"
    and enc :: "'e \<Rightarrow> string"
    and ok :: "'s \<Rightarrow> 'e \<Rightarrow> bool"
    and app :: "'s \<Rightarrow> 'e \<Rightarrow> 's"
  assumes enc_line: "ok s e \<Longrightarrow> newline \<notin> set (enc e)"
    and step_enc: "ok s e \<Longrightarrow> step s (enc e @ [newline]) = Some (app s e)"
begin

lemma whole_line:
  assumes "read_lines step s0 off t = Inr (s, n, [])" "ok s e"
  shows "read_lines step s0 off (t @ enc e @ [newline]) = Inr (app s e, n + length (enc e) + 1, [])"
  using assms by (simp add: read_lines_append read_lines_line enc_line step_enc read_lines_done)

lemma torn_line:
  assumes "read_lines step s0 off t = Inr (s, n, [])" "ok s e" "k \<le> length (enc e)"
  shows "read_lines step s0 off (t @ take k (enc e @ [newline])) = Inr (s, n, take k (enc e))"
proof -
  have "newline \<notin> set (take k (enc e))" using enc_line [OF assms(2)] by (meson in_set_takeD)
  then show ?thesis using assms by (simp add: read_lines_append read_lines_done)
qed

lemma any_prefix:
  assumes "read_lines step s0 off t = Inr (s, n, [])" "ok s e"
  shows "\<exists>s' m tail. read_lines step s0 off (t @ take k (enc e @ [newline])) = Inr (s', m, tail)
     \<and> (s' = s \<or> s' = app s e)"
proof (cases "k \<le> length (enc e)")
  case True
  with torn_line [OF assms] show ?thesis by blast
next
  case False
  with whole_line [OF assms] show ?thesis by auto
qed

end

definition entry_line :: "entry \<Rightarrow> string" where
  "entry_line e = jprint (entry_json e)"

definition writable :: "(string \<Rightarrow> string) \<Rightarrow> jstate \<Rightarrow> entry \<Rightarrow> bool" where
  "writable sha s e \<longleftrightarrow> entry_ok e \<and> chained sha s e"

interpretation journal: line_journal "replay_step sha" entry_line "writable sha" apply_entry for sha
proof
  fix s e assume w: "writable sha s e"
  then have m: "marshal_entry e = Inr (entry_line e)" by (simp add: writable_def marshal_entry_ok entry_line_def)
  show "newline \<notin> set (entry_line e)" using marshal_no_newline [OF m] by (simp add: newline_def)
  have "unmarshal_entry (entry_line e @ [newline]) = Some e"
    using unmarshal_marshal [OF m] w by (simp add: writable_def newline_def)
  then show "replay_step sha s (entry_line e @ [newline]) = Some (apply_entry s e)"
    using w by (simp add: replay_step_def writable_def)
qed

lemma hash_text_blank: "hash_text (e\<lparr>en_event := (en_event e)\<lparr>ev_hash := h\<rparr>\<rparr>) = hash_text e"
  by (simp add: hash_text_def)

lemma journal_entry_chained: "chained sha s (journal_entry sha now j kind actor message digest s)"
  by (simp add: chained_def journal_entry_def Let_def entry_hash_def hash_text_def)

lemma journal_entry_job: "en_job (journal_entry sha now j kind actor message digest s) = j\<lparr>j_updated_at := now\<rparr>"
  by (simp add: journal_entry_def Let_def)

lemma journal_entry_writable:
  "entry_ok (journal_entry sha now j kind actor message digest s) \<Longrightarrow>
   writable sha s (journal_entry sha now j kind actor message digest s)"
  by (simp add: writable_def journal_entry_chained)

subsection \<open>The append on every branch\<close>

lemma store_append_cases:
  fixes sha io j kind actor message digest st
  defines "e \<equiv> journal_entry sha (io_now io) j kind actor message digest (view st)"
  obtains (poisoned) p where "s_poison st = Some p"
      "store_append sha io j kind actor message digest st = (Inl p, st)"
  | (unwritable) err where "s_poison st = None" "\<not> entry_times_ok e"
      "store_append sha io j kind actor message digest st = (Inl err, st)"
  | (written) "s_poison st = None" "entry_times_ok e" "io_write io = WriteOk"
      "store_append sha io j kind actor message digest st =
         (Inr (), st\<lparr>s_file := s_file st @ entry_line e @ [newline], s_jobs := (s_jobs st)(j_id j \<mapsto> j\<lparr>j_updated_at := io_now io\<rparr>),
            s_sequence := ev_sequence (en_event e), s_hash := ev_hash (en_event e)\<rparr>)"
  | (failed) n err where "s_poison st = None" "entry_times_ok e" "io_write io = WriteFail n err"
      "store_append sha io j kind actor message digest st =
         (Inl (Errorf ''job journal write failed: '' err),
          st\<lparr>s_file := s_file st @ take n (entry_line e @ [newline]),
             s_poison := Some (Errorf ''job journal write failed: '' err)\<rparr>)"
proof (cases "s_poison st")
  case (Some p)
  then show thesis using poisoned by (simp add: store_append_def)
next
  case None
  show thesis
  proof (cases "entry_times_ok e")
    case False
    with None unwritable show thesis
      by (simp add: store_append_def marshal_entry_def flip: e_def)
  next
    case True
    then have m: "marshal_entry e = Inr (entry_line e)" by (simp add: marshal_entry_def entry_line_def)
    have jb: "en_job e = j\<lparr>j_updated_at := io_now io\<rparr>" by (simp add: e_def journal_entry_job)
    show thesis
    proof (cases "io_write io")
      case WriteOk
      with None True m jb written show thesis by (simp add: store_append_def flip: e_def)
    next
      case (WriteFail n err)
      with None True m jb failed show thesis by (simp add: store_append_def Let_def flip: e_def)
    qed
  qed
qed

lemma store_append_Inr:
  assumes "store_append sha io j kind actor message digest st = (Inr u, st')"
  shows "s_poison st = None" "s_poison st' = None"
    "s_jobs st' = (s_jobs st)(j_id j \<mapsto> j\<lparr>j_updated_at := io_now io\<rparr>)"
  using assms by (auto simp: store_append_def Let_def journal_entry_job
      split: option.splits sum.splits write_outcome.splits)

lemma store_append_Inl:
  assumes "store_append sha io j kind actor message digest st = (Inl err, st')"
  shows "s_jobs st' = s_jobs st" "view st' = view st"
  using assms by (auto simp: store_append_def Let_def view_def
      split: option.splits sum.splits write_outcome.splits)

subsection \<open>The journal on disk\<close>

definition durable :: "(string \<Rightarrow> string) \<Rightarrow> store \<Rightarrow> bool" where
  "durable sha st \<longleftrightarrow> (\<exists>s n tail. read_lines (replay_step sha) empty_jstate 0 (s_file st) = Inr (s, n, tail)
     \<and> (s_poison st = None \<longrightarrow> s = view st \<and> tail = [])
     \<and> (s = view st \<or> (\<exists>e. writable sha (view st) e \<and> s = apply_entry (view st) e)))"

lemma durable_healthy:
  assumes "durable sha st" "s_poison st = None"
  obtains n where "read_lines (replay_step sha) empty_jstate 0 (s_file st) = Inr (view st, n, [])"
  using assms by (auto simp: durable_def)

lemma view_written:
  "view (st\<lparr>s_file := f, s_jobs := (s_jobs st)(j_id (en_job e) \<mapsto> en_job e),
     s_sequence := ev_sequence (en_event e), s_hash := ev_hash (en_event e)\<rparr>) = apply_entry (view st) e"
  by (simp add: view_def apply_entry_def)

lemma store_append_durable:
  assumes d: "durable sha st"
    and ok: "s_poison st = None \<Longrightarrow> entry_ok (journal_entry sha (io_now io) j kind actor message digest (view st))"
  shows "durable sha (snd (store_append sha io j kind actor message digest st))"
proof (cases rule: store_append_cases [where sha = sha and io = io and j = j and kind = kind
      and actor = actor and message = message and digest = digest and st = st])
  case (poisoned p)
  with d show ?thesis by simp
next
  case (unwritable err)
  with d show ?thesis by simp
next
  case written
  let ?e = "journal_entry sha (io_now io) j kind actor message digest (view st)"
  have w: "writable sha (view st) ?e" using ok written(1) by (simp add: journal_entry_writable)
  obtain n where "read_lines (replay_step sha) empty_jstate 0 (s_file st) = Inr (view st, n, [])"
    using d written(1) by (rule durable_healthy)
  from journal.whole_line [OF this w] show ?thesis
    using written(1) view_written [where st = st and e = ?e] by (simp add: written(4) durable_def journal_entry_job)
next
  case (failed n err)
  let ?e = "journal_entry sha (io_now io) j kind actor message digest (view st)"
  have w: "writable sha (view st) ?e" using ok failed(1) by (simp add: journal_entry_writable)
  obtain m where "read_lines (replay_step sha) empty_jstate 0 (s_file st) = Inr (view st, m, [])"
    using d failed(1) by (rule durable_healthy)
  from journal.any_prefix [OF this w, of n] obtain s' k tail where
    r: "read_lines (replay_step sha) empty_jstate 0 (s_file st @ take n (entry_line ?e @ [newline])) = Inr (s', k, tail)"
    and s': "s' = view st \<or> s' = apply_entry (view st) ?e" by blast
  have v: "view (snd (store_append sha io j kind actor message digest st)) = view st"
    by (simp add: failed(4) view_def)
  show ?thesis
    unfolding durable_def v using r s' w by (auto simp: failed(4))
qed

lemma replay_durable:
  assumes "durable sha st"
  obtains st' where "replay sha no_faults (s_file st) = Inr st'" "s_poison st' = None"
    "view st' = view st \<or> (\<exists>e. writable sha (view st) e \<and> view st' = apply_entry (view st) e)"
    "s_poison st = None \<longrightarrow> st' = st"
proof -
  from assms obtain s n tail where r: "read_lines (replay_step sha) empty_jstate 0 (s_file st) = Inr (s, n, tail)"
    and h: "s_poison st = None \<longrightarrow> s = view st \<and> tail = []"
    and s: "s = view st \<or> (\<exists>e. writable sha (view st) e \<and> s = apply_entry (view st) e)"
    unfolding durable_def by (elim exE conjE)
  let ?st' = "\<lparr>s_jobs = s_jobs s, s_sequence = s_sequence s, s_hash = s_hash s,
       s_file = (if tail = [] then s_file st else take n (s_file st)), s_poison = None\<rparr>"
  have "replay sha no_faults (s_file st) = Inr ?st'"
    using r by (simp add: replay_def no_faults_def guard_def)
  moreover have "view ?st' = s" by (simp add: view_def)
  moreover have "s_poison ?st' = None" by simp
  moreover have "?st' = st" if "s_poison st = None"
  proof -
    from h that have "s = view st" "tail = []" by simp_all
    with that show ?thesis by (cases st) (simp add: view_def)
  qed
  ultimately show thesis using that s by metis
qed

text \<open>A store opened on a journal is durable: replay leaves exactly the lines it has read.\<close>

lemma open_store_durable:
  assumes "open_store sha fs file = Inr st"
  shows "durable sha st"
proof -
  from assms have rep: "replay sha fs file = Inr st"
    by (auto simp: open_store_def guard_def split: option.splits if_splits sum.splits)
  then obtain s n tail where r: "read_lines (replay_step sha) empty_jstate 0 file = Inr (s, n, tail)"
    and st: "st = \<lparr>s_jobs = s_jobs s, s_sequence = s_sequence s, s_hash = s_hash s,
       s_file = (if tail = [] then file else take n file), s_poison = None\<rparr>"
    by (auto simp: replay_def guard_def split: option.splits if_splits sum.splits)
  have "read_lines (replay_step sha) empty_jstate 0 (take n file) = Inr (s, n, [])"
    using read_lines_prefix [OF r] by simp
  then show ?thesis using r by (auto simp: st durable_def view_def)
qed

subsection \<open>The entries of a journal and their hash chain\<close>

function decode_lines :: "string \<Rightarrow> entry list" where
  "decode_lines s = (case split_line s of None \<Rightarrow> []
     | Some (l, r) \<Rightarrow> (case unmarshal_entry l of None \<Rightarrow> [] | Some e \<Rightarrow> e # decode_lines r))"
  by pat_completeness auto
termination
  by (relation "measure length") (auto simp: split_line_length)

declare decode_lines.simps [simp del]

fun chain :: "(string \<Rightarrow> string) \<Rightarrow> jstate \<Rightarrow> entry list \<Rightarrow> jstate option" where
  "chain sha st [] = Some st"
| "chain sha st (e # es) = (if chained sha st e then chain sha (apply_entry st e) es else None)"

lemma read_lines_chain:
  "read_lines (replay_step sha) st off s = Inr (st', off', tail) \<Longrightarrow> chain sha st (decode_lines s) = Some st'"
proof (induction "replay_step sha" st off s rule: read_lines.induct)
  case (1 st off s)
  show ?case
  proof (cases "split_line s")
    case None
    with 1(2) show ?thesis
      by (auto simp: read_lines.simps [of "replay_step sha" st off s] decode_lines.simps)
  next
    case (Some p)
    obtain l r where p: "p = (l, r)" by force
    with Some 1(2) obtain st1 where st1: "replay_step sha st l = Some st1"
        "read_lines (replay_step sha) st1 (off + length l) r = Inr (st', off', tail)"
      by (simp add: read_lines.simps [of "replay_step sha" st off s] split: option.splits)
    from st1(1) obtain e where e: "unmarshal_entry l = Some e" "chained sha st e" "st1 = apply_entry st e"
      by (auto simp: replay_step_def split: option.splits if_splits)
    with 1(1) [OF Some p [symmetric] st1] Some p show ?thesis by (simp add: decode_lines.simps [of s])
  qed
qed

lemma chain_append:
  "chain sha st (es @ fs) = (case chain sha st es of None \<Rightarrow> None | Some st' \<Rightarrow> chain sha st' fs)"
  by (induction es arbitrary: st) auto

lemma chain_sequence: "chain sha st es = Some st' \<Longrightarrow> s_sequence st' = s_sequence st + int (length es)"
  by (induction es arbitrary: st) (auto simp: chained_def apply_entry_def split: if_splits)

lemma chain_sequences:
  "chain sha st es = Some st' \<Longrightarrow> map (\<lambda>e. ev_sequence (en_event e)) es = map (\<lambda>i. s_sequence st + 1 + int i) [0..<length es]"
proof (induction es arbitrary: st)
  case (Cons e es)
  then have c: "chained sha st e" "chain sha (apply_entry st e) es = Some st'" by (auto split: if_splits)
  from Cons.IH [OF c(2)] c(1)
  have "map (\<lambda>e. ev_sequence (en_event e)) es = map (\<lambda>i. s_sequence st + 2 + int i) [0..<length es]"
    by (simp add: chained_def apply_entry_def add.assoc)
  also have "\<dots> = map (\<lambda>i. s_sequence st + 1 + int i) (map Suc [0..<length es])" by simp
  also have "map Suc [0..<length es] = [1..<Suc (length es)]" by (simp add: map_Suc_upt)
  finally show ?case using c(1) by (simp add: chained_def upt_conv_Cons del: upt_Suc)
qed simp

lemma chain_sorted:
  assumes "chain sha st es = Some st'"
  shows "sorted_wrt (\<lambda>a b. ev_sequence (en_event a) < ev_sequence (en_event b)) es"
proof -
  have "sorted_wrt (<) (map (\<lambda>e. ev_sequence (en_event e)) es)"
    unfolding chain_sequences [OF assms] by (simp add: sorted_wrt_map sorted_wrt_upt)
  then show ?thesis by (simp add: sorted_wrt_map)
qed

lemma hex_digit_inject: "m < 16 \<Longrightarrow> n < 16 \<Longrightarrow> hex_digit m = hex_digit n \<Longrightarrow> m = n"
  by (metis hex_val_hex_digit)

lemma hex_encode_inject: "hex_encode s = hex_encode t \<Longrightarrow> s = t"
proof (induction s arbitrary: t)
  case (Cons c cs)
  then obtain d ds where t: "t = d # ds" by (cases t) auto
  have b: "byte x div 16 < 16" for x using byte_less [of x] by (simp add: less_mult_imp_div_less)
  have "byte c div 16 = byte d div 16" "byte c mod 16 = byte d mod 16"
    using Cons.prems t b by (auto intro: hex_digit_inject)
  then have "c = d" by (metis byte_eq_iff div_mult_mod_eq)
  with Cons t show ?case by auto
qed (metis hex_encode.elims list.distinct(1))

lemma hash_text_inject:
  assumes "hash_text e = hash_text f" "entry_ok e" "entry_ok f"
  shows "e\<lparr>en_event := (en_event e)\<lparr>ev_hash := []\<rparr>\<rparr> = f\<lparr>en_event := (en_event f)\<lparr>ev_hash := []\<rparr>\<rparr>"
proof -
  let ?b = "\<lambda>e. e\<lparr>en_event := (en_event e)\<lparr>ev_hash := []\<rparr>\<rparr>"
  have ok: "entry_ok (?b e)" "entry_ok (?b f)" using assms(2,3) by (simp_all add: entry_ok_def event_ok_def)
  with assms(1) have "marshal_entry (?b e) = marshal_entry (?b f)" by (simp add: hash_text_def marshal_entry_ok)
  then show ?thesis using ok by (rule marshal_inject)
qed

lemma chain_last:
  assumes "chain sha st (es @ [e]) = Some st'"
  obtains s where "chain sha st es = Some s" "chained sha s e" "s_hash st' = entry_hash sha e"
  using assms by (auto simp: chain_append chained_def apply_entry_def split: option.splits if_splits)

lemma chain_unique:
  assumes "\<And>x. sha x \<noteq> []"
    and "chain sha empty_jstate es = Some s1" "chain sha empty_jstate fs = Some s2" "s_hash s1 = s_hash s2"
    and "list_all entry_ok es" "list_all entry_ok fs"
    and "inj_on sha (hash_text ` (set es \<union> set fs))"
  shows "es = fs"
  using assms(2-)
proof (induction es arbitrary: fs s1 s2 rule: rev_induct)
  case Nil
  show ?case
  proof (cases fs rule: rev_cases)
    case (snoc gs f)
    with Nil(2) obtain s where "s_hash s2 = entry_hash sha f" by (auto elim: chain_last)
    then have "sha (hash_text f) = []"
      using Nil(1,3) by (cases "sha (hash_text f)") (auto simp: empty_jstate_def entry_hash_def)
    with assms(1) show ?thesis by simp
  qed simp
next
  case (snoc e es)
  obtain s where s: "chain sha empty_jstate es = Some s" "chained sha s e" "s_hash s1 = entry_hash sha e"
    using snoc.prems(1) by (rule chain_last)
  show ?case
  proof (cases fs rule: rev_cases)
    case Nil
    with snoc.prems(2,3) s(3) have "sha (hash_text e) = []"
      by (cases "sha (hash_text e)") (auto simp: empty_jstate_def entry_hash_def)
    with assms(1) show ?thesis by simp
  next
    case (snoc gs f)
    note fs = this
    obtain t where t: "chain sha empty_jstate gs = Some t" "chained sha t f" "s_hash s2 = entry_hash sha f"
      using snoc.prems(2) unfolding fs by (rule chain_last)
    have "sha (hash_text e) = sha (hash_text f)"
      using snoc.prems(3) s(3) t(3) hex_encode_inject by (metis entry_hash_def)
    then have texts: "hash_text e = hash_text f"
      by (rule inj_onD [OF snoc.prems(6)]) (simp_all add: fs)
    have hashes: "ev_hash (en_event e) = ev_hash (en_event f)"
      using s(2) t(2) texts by (simp add: chained_def entry_hash_def)
    from hash_text_inject [OF texts] snoc.prems(4,5) fs
    have blank: "e\<lparr>en_event := (en_event e)\<lparr>ev_hash := []\<rparr>\<rparr> = f\<lparr>en_event := (en_event f)\<lparr>ev_hash := []\<rparr>\<rparr>" by simp
    have ef: "e = f"
    proof (cases e; cases f)
      fix ee ej fe fj assume ef: "e = \<lparr>en_event = ee, en_job = ej\<rparr>" "f = \<lparr>en_event = fe, en_job = fj\<rparr>"
      from blank hashes show "e = f" unfolding ef by (cases ee; cases fe) simp
    qed
    then have "s_hash s = s_hash t" using s(2) t(2) by (simp add: chained_def)
    then have "es = gs"
      using snoc.IH [OF s(1) t(1)] snoc.prems(4,5,6) fs by (auto intro: inj_on_subset)
    with ef fs show ?thesis by simp
  qed
qed

end
