(* ===== verification/Store_Invariants.thy ===== *)
theory Store_Invariants
  imports Store_Facts
begin

section \<open>Invariants of the jobs and the effect of each operation\<close>

text \<open>
  \<open>jobs_wf\<close> says of the jobs in memory that each is filed under its own identifier, that no two
  jobs share an owner and an idempotency key, and that no two hosted jobs are active on the same
  sink resource. \<open>frozen\<close> lists the fields no operation changes after a job has been created.
\<close>

definition frozen :: "job \<Rightarrow> job \<Rightarrow> bool" where
  "frozen j j' \<longleftrightarrow> j_id j' = j_id j \<and> j_owner j' = j_owner j \<and> j_spec j' = j_spec j
     \<and> j_created_at j' = j_created_at j \<and> j_created_by j' = j_created_by j
     \<and> j_source_fp j' = j_source_fp j \<and> j_sink_fp j' = j_sink_fp j
     \<and> j_sink_resource j' = j_sink_resource j \<and> j_idempotency_key j' = j_idempotency_key j"

lemma frozen_refl [simp]: "frozen j j"
  by (simp add: frozen_def)

lemma frozen_trans: "frozen i j \<Longrightarrow> frozen j k \<Longrightarrow> frozen i k"
  by (simp add: frozen_def)

lemma frozen_updated [simp]: "frozen i (j\<lparr>j_updated_at := t\<rparr>) \<longleftrightarrow> frozen i j"
  by (simp add: frozen_def)

lemma same_owner_iff [simp]: "same_owner a b \<longleftrightarrow> a = b"
  by (auto simp: same_owner_def split: option.splits)

lemma active_updated [simp]: "active (j\<lparr>j_updated_at := t\<rparr>) \<longleftrightarrow> active j"
  by (simp add: active_def)

definition hosted_active :: "job \<Rightarrow> bool" where
  "hosted_active j \<longleftrightarrow> active j \<and> sp_worker_id (j_spec j) = []"

definition keyed :: "(string \<rightharpoonup> job) \<Rightarrow> bool" where
  "keyed jobs \<longleftrightarrow> (\<forall>k j. jobs k = Some j \<longrightarrow> j_id j = k \<and> k \<noteq> [])"

definition keys_unique :: "(string \<rightharpoonup> job) \<Rightarrow> bool" where
  "keys_unique jobs \<longleftrightarrow> (\<forall>a b i j. jobs a = Some i \<longrightarrow> jobs b = Some j \<longrightarrow> j_idempotency_key i \<noteq> [] \<longrightarrow>
     j_idempotency_key i = j_idempotency_key j \<longrightarrow> j_owner i = j_owner j \<longrightarrow> a = b)"

definition exclusive :: "(string \<rightharpoonup> job) \<Rightarrow> bool" where
  "exclusive jobs \<longleftrightarrow> (\<forall>a b i j. jobs a = Some i \<longrightarrow> jobs b = Some j \<longrightarrow> hosted_active i \<longrightarrow> hosted_active j \<longrightarrow>
     j_sink_resource i = j_sink_resource j \<longrightarrow> a = b)"

definition jobs_wf :: "(string \<rightharpoonup> job) \<Rightarrow> bool" where
  "jobs_wf jobs \<longleftrightarrow> keyed jobs \<and> keys_unique jobs \<and> exclusive jobs"

lemma keyedD: "keyed jobs \<Longrightarrow> jobs k = Some j \<Longrightarrow> j_id j = k \<and> k \<noteq> []"
  by (simp add: keyed_def)

lemma jobs_wf_keyed: "jobs_wf jobs \<Longrightarrow> keyed jobs"
  by (simp add: jobs_wf_def)

lemma jobs_wf_empty: "jobs_wf Map.empty"
  by (simp add: jobs_wf_def keyed_def keys_unique_def exclusive_def)

text \<open>The three ways a job is written: a new one, an update that does not start it, and a claim.\<close>

lemma keys_unique_update:
  assumes "keys_unique jobs" "jobs k = Some j" "frozen j j'"
  shows "keys_unique (jobs(k \<mapsto> j'))"
  unfolding keys_unique_def
proof (intro allI impI)
  fix a b x y
  assume h: "(jobs(k \<mapsto> j')) a = Some x" "(jobs(k \<mapsto> j')) b = Some y" "j_idempotency_key x \<noteq> []"
    "j_idempotency_key x = j_idempotency_key y" "j_owner x = j_owner y"
  obtain x0 where x0: "jobs a = Some x0" "frozen x0 x" using h(1) assms by (cases "a = k") auto
  obtain y0 where y0: "jobs b = Some y0" "frozen y0 y" using h(2) assms by (cases "b = k") auto
  have "j_idempotency_key x0 \<noteq> []" "j_idempotency_key x0 = j_idempotency_key y0" "j_owner x0 = j_owner y0"
    using h(3,4,5) x0(2) y0(2) by (simp_all add: frozen_def)
  with assms(1) x0(1) y0(1) show "a = b" unfolding keys_unique_def by blast
qed

lemma keyed_update: "keyed jobs \<Longrightarrow> jobs k = Some j \<Longrightarrow> frozen j j' \<Longrightarrow> keyed (jobs(k \<mapsto> j'))"
  by (auto simp: keyed_def frozen_def)

lemma exclusive_update:
  assumes "exclusive jobs"
    and "hosted_active j' \<Longrightarrow> (\<exists>j. jobs k = Some j \<and> hosted_active j \<and> j_sink_resource j = j_sink_resource j') \<or>
      (\<forall>b i. jobs b = Some i \<longrightarrow> hosted_active i \<longrightarrow> j_sink_resource i \<noteq> j_sink_resource j')"
  shows "exclusive (jobs(k \<mapsto> j'))"
  unfolding exclusive_def
proof (intro allI impI)
  fix a b x y
  assume h: "(jobs(k \<mapsto> j')) a = Some x" "(jobs(k \<mapsto> j')) b = Some y" "hosted_active x" "hosted_active y"
    "j_sink_resource x = j_sink_resource y"
  have ex: "\<And>c d u v. jobs c = Some u \<Longrightarrow> jobs d = Some v \<Longrightarrow> hosted_active u \<Longrightarrow> hosted_active v \<Longrightarrow>
      j_sink_resource u = j_sink_resource v \<Longrightarrow> c = d"
    using assms(1) unfolding exclusive_def by blast
  show "a = b"
  proof (cases "a = k"; cases "b = k")
    assume "a = k" "b \<noteq> k"
    with h assms(2) ex show ?thesis by (metis fun_upd_apply option.inject)
  next
    assume "a \<noteq> k" "b = k"
    with h assms(2) ex show ?thesis by (metis fun_upd_apply option.inject)
  qed (use h ex in auto)
qed

lemma jobs_wf_update [inv_rules]:
  assumes "jobs_wf jobs" "jobs k = Some j" "frozen j j'" "active j' \<Longrightarrow> active j"
  shows "jobs_wf (jobs(k \<mapsto> j'))"
proof -
  have "exclusive (jobs(k \<mapsto> j'))"
    using assms by (intro exclusive_update) (auto simp: jobs_wf_def hosted_active_def frozen_def)
  with assms show ?thesis by (auto simp: jobs_wf_def intro: keyed_update keys_unique_update)
qed

lemma jobs_wf_insert [inv_rules]:
  assumes "jobs_wf jobs" "jobs k = None" "j_id j = k" "k \<noteq> []" "\<not> active j"
    and "\<And>b i. jobs b = Some i \<Longrightarrow> j_idempotency_key j \<noteq> [] \<Longrightarrow>
      \<not> (j_idempotency_key i = j_idempotency_key j \<and> j_owner i = j_owner j)"
  shows "jobs_wf (jobs(k \<mapsto> j))"
proof -
  have "keyed (jobs(k \<mapsto> j))" using assms by (auto simp: jobs_wf_def keyed_def)
  moreover have "exclusive (jobs(k \<mapsto> j))"
    using assms by (intro exclusive_update) (auto simp: jobs_wf_def hosted_active_def)
  moreover have "keys_unique (jobs(k \<mapsto> j))"
    unfolding keys_unique_def
  proof (intro allI impI)
    fix a b x y
    assume h: "(jobs(k \<mapsto> j)) a = Some x" "(jobs(k \<mapsto> j)) b = Some y" "j_idempotency_key x \<noteq> []"
      "j_idempotency_key x = j_idempotency_key y" "j_owner x = j_owner y"
    have ku: "\<And>c d u v. jobs c = Some u \<Longrightarrow> jobs d = Some v \<Longrightarrow> j_idempotency_key u \<noteq> [] \<Longrightarrow>
        j_idempotency_key u = j_idempotency_key v \<Longrightarrow> j_owner u = j_owner v \<Longrightarrow> c = d"
      using assms(1) unfolding jobs_wf_def keys_unique_def by blast
    show "a = b"
    proof (cases "a = k"; cases "b = k")
      assume "a = k" "b \<noteq> k"
      with h assms(6) [of b y] show ?thesis by auto
    next
      assume "a \<noteq> k" "b = k"
      with h assms(6) [of a x] show ?thesis by auto
    qed (use h ku in auto)
  qed
  ultimately show ?thesis by (simp add: jobs_wf_def)
qed

subsection \<open>Update\<close>

lemma update_cases:
  assumes "update sha io jid kind actor message digest fn st = (r, st')"
  obtains (rejected) err where "r = Inl err" "st' = st"
  | (not_written) err where "r = Inl err" "view st' = view st" "s_poison st' \<noteq> None"
  | (written) j j' where "s_jobs st jid = Some j" "fn j = Inr j'" "s_poison st = None" "s_poison st' = None"
      "store_append sha io j' kind actor message digest st = (Inr (), st')"
      "s_jobs st' = (s_jobs st)(j_id j' \<mapsto> j'\<lparr>j_updated_at := io_now io\<rparr>)"
      "r = Inr (the (s_jobs st' jid))"
proof (cases "s_jobs st jid")
  case None
  with assms rejected show thesis by (auto simp: update_def)
next
  case (Some j)
  note j = Some
  show thesis
  proof (cases "fn j")
    case (Inl err)
    from assms j Inl have "r = Inl err" "st' = st" by (simp_all add: update_def)
    then show thesis by (rule rejected)
  next
    case (Inr j')
    obtain q st2 where a: "store_append sha io j' kind actor message digest st = (q, st2)" by force
    show thesis
    proof (cases q)
      case (Inl err)
      with assms j Inr a have r: "r = Inl err" "st' = st2" by (auto simp: update_def)
      show thesis
      proof (cases "st2 = st")
        case True
        with r rejected show thesis by simp
      next
        case False
        have "view st2 = view st" using store_append_Inl a Inl by blast
        moreover have "s_poison st2 \<noteq> None"
          using a [unfolded Inl] False by (auto simp: store_append_def Let_def split: option.splits sum.splits write_outcome.splits)
        ultimately show thesis using r not_written by simp
      qed
    next
      case (Inr u)
      with assms j \<open>fn j = Inr j'\<close> a have "r = Inr (the (s_jobs st2 jid))" "st' = st2" by (auto simp: update_def)
      with written [OF j \<open>fn j = Inr j'\<close>] store_append_Inr [of sha io j' kind actor message digest st u st2] a Inr
      show thesis by auto
    qed
  qed
qed

lemma view_jobs: "view st' = view st \<Longrightarrow> s_jobs st' = s_jobs st"
  by (simp add: view_def)

lemma update_jobs:
  assumes "update sha io jid kind actor message digest fn st = (r, st')"
    and "keyed (s_jobs st)" "\<And>j j'. fn j = Inr j' \<Longrightarrow> frozen j j'"
  obtains (same) err where "r = Inl err" "s_jobs st' = s_jobs st"
  | (written) j j' where "s_jobs st jid = Some j" "fn j = Inr j'"
      "s_jobs st' = (s_jobs st)(jid \<mapsto> j'\<lparr>j_updated_at := io_now io\<rparr>)"
      "r = Inr (j'\<lparr>j_updated_at := io_now io\<rparr>)" "s_poison st = None" "s_poison st' = None"
proof (cases rule: update_cases [OF assms(1)])
  case (1 err)
  then show thesis using that(1) by simp
next
  case (2 err)
  then show thesis using that(1) [OF 2(1) view_jobs [OF 2(2)]] by simp
next
  case (3 j j')
  then have "j_id j' = jid" using keyedD [OF assms(2)] assms(3) by (auto simp: frozen_def)
  then have jobs: "s_jobs st' = (s_jobs st)(jid \<mapsto> j'\<lparr>j_updated_at := io_now io\<rparr>)" using 3 by simp
  then have "r = Inr (j'\<lparr>j_updated_at := io_now io\<rparr>)" using 3(7) by simp
  from that(2) [OF 3(1,2) jobs this 3(3,4)] show thesis .
qed

lemma update_jobs_wf [inv_rules]:
  assumes "jobs_wf (s_jobs st)" "update sha io jid kind actor message digest fn st = (r, st')"
    and "\<And>j j'. fn j = Inr j' \<Longrightarrow> frozen j j' \<and> (active j' \<longrightarrow> active j)"
  shows "jobs_wf (s_jobs st')"
proof -
  have fr: "\<And>j j'. fn j = Inr j' \<Longrightarrow> frozen j j'" using assms(3) by blast
  show ?thesis
  proof (cases rule: update_jobs [OF assms(2) jobs_wf_keyed [OF assms(1)] fr])
    case (3 j j')
    then show ?thesis using assms(1,3) by (auto intro!: jobs_wf_update [where j = j])
  qed (use assms(1) in simp_all)
qed

subsection \<open>Create\<close>

definition new_job :: "time \<Rightarrow> time \<Rightarrow> owner option \<Rightarrow> string \<Rightarrow> spec \<Rightarrow> string \<Rightarrow> string \<Rightarrow> string \<Rightarrow> string \<Rightarrow> string \<Rightarrow> job" where
  "new_job now created owner jid spec source_fp sink_fp sink_resource key actor =
     zero_job\<lparr>j_owner := owner, j_id := jid, j_spec := spec, j_state := ''queued'', j_created_at := created,
       j_created_by := actor, j_source_fp := source_fp, j_sink_fp := sink_fp,
       j_sink_resource := sink_resource, j_idempotency_key := key, j_updated_at := now\<rparr>"

lemma create_matches_iff: "create_matches key owner j \<longleftrightarrow> j_idempotency_key j = key \<and> j_owner j = owner"
  by (simp add: create_matches_def)

lemma create_cases:
  assumes "create sha io ks rnd created spec source_fp sink_fp sink_resource key actor owners st = (r, st')"
  obtains (failed) err where "r = Inl err" "s_jobs st' = s_jobs st"
  | (existing) j where "r = Inr (j, False)" "st' = st" "key \<noteq> []" "j \<in> set (range_vals ks (s_jobs st))"
      "j_idempotency_key j = key" "j_owner j = first_owner owners" "j_spec j = spec" "j_source_fp j = source_fp"
      "j_sink_fp j = sink_fp" "s_poison st = None"
  | (fresh) bytes where "rnd = Inr bytes" "s_poison st = None" "s_poison st' = None"
      "key \<noteq> [] \<Longrightarrow> \<forall>j \<in> set (range_vals ks (s_jobs st)). \<not> (j_idempotency_key j = key \<and> j_owner j = first_owner owners)"
      "s_jobs st' = (s_jobs st)(hex_encode bytes \<mapsto>
         new_job (io_now io) created (first_owner owners) (hex_encode bytes) spec source_fp sink_fp sink_resource key actor)"
      "r = Inr (new_job (io_now io) created (first_owner owners) (hex_encode bytes) spec source_fp sink_fp sink_resource key actor, True)"
proof (cases "s_poison st")
  case (Some p)
  with assms have "r = Inl p" "st' = st" by (simp_all add: create_def)
  then show thesis using failed by simp
next
  case None
  let ?found = "if key \<noteq> [] then find (create_matches key (first_owner owners)) (range_vals ks (s_jobs st)) else None"
  show thesis
  proof (cases ?found)
    case (Some j)
    then have k: "key \<noteq> []" and f: "find (create_matches key (first_owner owners)) (range_vals ks (s_jobs st)) = Some j"
      by (auto split: if_splits)
    have j: "j \<in> set (range_vals ks (s_jobs st))" "create_matches key (first_owner owners) j"
      using f by (auto simp: find_Some_iff)
    show thesis
    proof (cases "j_spec j \<noteq> spec \<or> j_source_fp j \<noteq> source_fp \<or> j_sink_fp j \<noteq> sink_fp")
      case True
      with assms None k f have "r = Inl ErrConflict" "st' = st" by (simp_all add: create_def)
      then show thesis using failed by simp
    next
      case False
      with assms None k f have "r = Inr (j, False)" "st' = st" by (simp_all add: create_def)
      with False existing k j None show thesis by (simp add: create_matches_iff)
    qed
  next
    case nf: None
    show thesis
    proof (cases rnd)
      case (Inl err)
      with assms None nf have "r = Inl err" "st' = st" by (simp_all add: create_def Let_def)
      then show thesis using failed by simp
    next
      case (Inr bytes)
      define n where "n = zero_job\<lparr>j_owner := first_owner owners, j_id := hex_encode bytes, j_spec := spec,
          j_state := ''queued'', j_created_at := created, j_created_by := actor, j_source_fp := source_fp,
          j_sink_fp := sink_fp, j_sink_resource := sink_resource, j_idempotency_key := key\<rparr>"
      have n: "j_id n = hex_encode bytes" "n\<lparr>j_updated_at := io_now io\<rparr> =
          new_job (io_now io) created (first_owner owners) (hex_encode bytes) spec source_fp sink_fp sink_resource key actor"
        by (simp_all add: n_def new_job_def)
      obtain q st2 where a: "store_append sha io n ''submitted'' actor ''Job submitted'' [] st = (q, st2)" by force
      have res: "(r, st') = (case (q, st2) of (Inl err, st') \<Rightarrow> (Inl err, st')
          | (Inr _, st') \<Rightarrow> (Inr (the (s_jobs st' (j_id n)), True), st'))"
        using assms None nf Inr a unfolding create_def Let_def n_def by simp
      show thesis
      proof (cases q)
        case (Inl err)
        with res a store_append_Inl show thesis by (intro failed [of err]) auto
      next
        case (Inr u)
        note app = store_append_Inr [OF a [unfolded Inr]]
        have nomatch: "\<forall>j \<in> set (range_vals ks (s_jobs st)). \<not> (j_idempotency_key j = key \<and> j_owner j = first_owner owners)"
          if "key \<noteq> []" using nf that by (auto simp: find_None_iff create_matches_iff)
        from res Inr have "st' = st2" "r = Inr (the (s_jobs st2 (j_id n)), True)" by simp_all
        with app n fresh [OF \<open>rnd = Inr bytes\<close> app(1) _ nomatch] show thesis by simp
      qed
    qed
  qed
qed

lemma new_job_simps [simp]:
  "j_id (new_job now created w jid sp sf kf res key a) = jid"
  "j_owner (new_job now created w jid sp sf kf res key a) = w"
  "j_idempotency_key (new_job now created w jid sp sf kf res key a) = key"
  "j_state (new_job now created w jid sp sf kf res key a) = ''queued''"
  "j_spec (new_job now created w jid sp sf kf res key a) = sp"
  "j_source_fp (new_job now created w jid sp sf kf res key a) = sf"
  "j_sink_fp (new_job now created w jid sp sf kf res key a) = kf"
  "j_sink_resource (new_job now created w jid sp sf kf res key a) = res"
  "j_cursor (new_job now created w jid sp sf kf res key a) = []"
  "j_records (new_job now created w jid sp sf kf res key a) = 0"
  "\<not> j_source_exhausted (new_job now created w jid sp sf kf res key a)"
  "\<not> active (new_job now created w jid sp sf kf res key a)"
  by (simp_all add: new_job_def zero_job_def active_def)

lemma create_jobs_wf [inv_rules]:
  assumes wf: "jobs_wf (s_jobs st)" and ks: "range_order ks (s_jobs st)"
    and c: "create sha io ks rnd created spec source_fp sink_fp sink_resource key actor owners st = (r, st')"
    and id_fresh: "\<And>bytes. rnd = Inr bytes \<Longrightarrow> bytes \<noteq> [] \<and> s_jobs st (hex_encode bytes) = None"
  shows "jobs_wf (s_jobs st')"
proof (cases rule: create_cases [OF c])
  case (3 bytes)
  have "hex_encode bytes \<noteq> []" using id_fresh [OF 3(1)] by (cases bytes) auto
  moreover have "\<not> (j_idempotency_key i = key \<and> j_owner i = first_owner owners)"
    if "s_jobs st b = Some i" "key \<noteq> []" for b i
    using 3(4) that set_range_order [OF ks] by (auto simp: ran_def)
  ultimately show ?thesis using wf id_fresh [OF 3(1)] unfolding 3(5) by (intro jobs_wf_insert) simp_all
qed (use wf in simp_all)

subsection \<open>Claim\<close>

lemma pick_job_least:
  assumes "\<forall>x \<in> set xs. j_id x \<noteq> []" "\<And>b. best = Some b \<Longrightarrow> j_id b \<noteq> []"
  shows "pick_job P (case best of None \<Rightarrow> zero_job | Some b \<Rightarrow> b) xs =
     (case pick_least P j_created_at best xs of None \<Rightarrow> zero_job | Some b \<Rightarrow> b)"
  using assms
proof (induction xs arbitrary: best)
  case (Cons x xs)
  let ?b = "if P x \<and> (case best of None \<Rightarrow> True | Some b \<Rightarrow> j_created_at x < j_created_at b) then Some x else best"
  have z: "j_id zero_job = []" by (simp add: zero_job_def)
  have "pick_job P (case ?b of None \<Rightarrow> zero_job | Some b \<Rightarrow> b) xs =
      (case pick_least P j_created_at ?b xs of None \<Rightarrow> zero_job | Some b \<Rightarrow> b)"
    using Cons.prems by (intro Cons.IH) (auto split: if_splits)
  moreover have "(case ?b of None \<Rightarrow> zero_job | Some b \<Rightarrow> b) =
      (if P x \<and> (j_id (case best of None \<Rightarrow> zero_job | Some b \<Rightarrow> b) = [] \<or>
          j_created_at x < j_created_at (case best of None \<Rightarrow> zero_job | Some b \<Rightarrow> b)) then x
       else (case best of None \<Rightarrow> zero_job | Some b \<Rightarrow> b))"
    using z Cons.prems(2) by (cases best) auto
  ultimately show ?case by simp
qed simp

lemma pick_job_None_start:
  assumes "\<forall>x \<in> set xs. j_id x \<noteq> []"
  shows "pick_job P zero_job xs = (case pick_least P j_created_at None xs of None \<Rightarrow> zero_job | Some b \<Rightarrow> b)"
  using pick_job_least [OF assms, of None P] by simp

lemma range_vals_ids: "keyed jobs \<Longrightarrow> \<forall>x \<in> set (range_vals ks jobs). j_id x \<noteq> []"
  by (auto simp: set_range_vals keyed_def)

definition started :: "time \<Rightarrow> job \<Rightarrow> job" where
  "started now j = j\<lparr>j_state := ''running'', j_phase := ''starting'', j_next_run_at := None,
     j_runs := j_runs j + 1, j_error := [], j_updated_at := now\<rparr>"

lemma frozen_started [simp]: "frozen j (started now j)"
  by (simp add: frozen_def started_def)

lemma started_simps [simp]:
  "j_id (started now j) = j_id j" "j_state (started now j) = ''running''"
  "j_sink_resource (started now j) = j_sink_resource j" "j_spec (started now j) = j_spec j"
  by (simp_all add: started_def)

lemma claim_cases:
  assumes "claim sha io clk ks ls st = (r, st')" "keyed (s_jobs st)"
  obtains (failed) err where "r = Inl err" "s_jobs st' = s_jobs st"
  | (idle) "r = Inr (zero_job, False)" "st' = st" "s_poison st = None"
      "\<forall>j \<in> set (range_vals ls (s_jobs st)). \<not> claimable clk (busy ks st) j"
  | (claimed) j where "pick_least (claimable clk (busy ks st)) j_created_at None (range_vals ls (s_jobs st)) = Some j"
      "s_jobs st (j_id j) = Some j" "s_poison st = None" "s_poison st' = None"
      "s_jobs st' = (s_jobs st)(j_id j \<mapsto> started (io_now io) j)"
      "r = Inr (started (io_now io) j, True)"
proof (cases "s_poison st")
  case (Some p)
  with assms have "r = Inl p" "st' = st" by (simp_all add: claim_def)
  then show thesis using failed by simp
next
  case None
  let ?P = "claimable clk (busy ks st)" and ?xs = "range_vals ls (s_jobs st)"
  have pick: "pick_job ?P zero_job ?xs = (case pick_least ?P j_created_at None ?xs of None \<Rightarrow> zero_job | Some b \<Rightarrow> b)"
    using range_vals_ids [OF assms(2)] by (rule pick_job_None_start)
  show thesis
  proof (cases "pick_least ?P j_created_at None ?xs")
    case n: None
    then have "j_id (pick_job ?P zero_job ?xs) = []" using pick by (simp add: zero_job_def)
    with assms(1) None have r: "r = Inr (zero_job, False)" "st' = st" by (simp_all add: claim_def Let_def)
    have "\<forall>j \<in> set ?xs. \<not> ?P j" using n by (simp only: pick_least_None_iff)
    from idle [OF r None this] show thesis .
  next
    case (Some j)
    then have "j \<in> set ?xs" using pick_least_mem by fastforce
    then obtain k where "s_jobs st k = Some j" by (auto simp: set_range_vals)
    with keyedD [OF assms(2)] have j: "s_jobs st (j_id j) = Some j" "j_id j \<noteq> []" by auto
    let ?j = "j\<lparr>j_state := ''running'', j_phase := ''starting'', j_next_run_at := None,
         j_runs := j_runs j + 1, j_error := []\<rparr>"
    obtain q st2 where a: "store_append sha io ?j ''started'' ''worker'' ''Transfer execution started'' [] st = (q, st2)"
      by force
    have res: "(r, st') = (case (q, st2) of (Inl err, st') \<Rightarrow> (Inl err, st')
          | (Inr _, st') \<Rightarrow> (Inr (the (s_jobs st' (j_id ?j)), True), st'))"
      using assms(1) [symmetric] None j(2) pick Some a by (simp add: claim_def Let_def)
    show thesis
    proof (cases q)
      case (Inl err)
      with res a store_append_Inl show thesis by (intro failed [of err]) auto
    next
      case (Inr u)
      note app = store_append_Inr [OF a [unfolded Inr]]
      from res Inr have "st' = st2" "r = Inr (the (s_jobs st2 (j_id j)), True)" by simp_all
      with app have "s_jobs st' = (s_jobs st)(j_id j \<mapsto> started (io_now io) j)" "s_poison st' = None"
        "r = Inr (started (io_now io) j, True)" by (simp_all add: started_def)
      with claimed [OF Some j(1) None] show thesis by blast
    qed
  qed
qed

lemma busy_iff:
  assumes "range_order ks (s_jobs st)"
  shows "res \<in> set (busy ks st) \<longleftrightarrow> (\<exists>k j. s_jobs st k = Some j \<and> active j \<and> j_sink_resource j = res)"
proof -
  have "set (range_vals ks (s_jobs st)) = ran (s_jobs st)" using assms by (rule set_range_order)
  then show ?thesis by (auto simp: busy_def ran_def)
qed

lemma claim_jobs_wf [inv_rules]:
  assumes wf: "jobs_wf (s_jobs st)" and ks: "range_order ks (s_jobs st)"
    and c: "claim sha io clk ks ls st = (r, st')"
  shows "jobs_wf (s_jobs st')"
proof (cases rule: claim_cases [OF c jobs_wf_keyed [OF wf]])
  case (3 j)
  have "claimable clk (busy ks st) j" using 3(1) pick_least_mem by fastforce
  then have nb: "j_sink_resource j \<notin> set (busy ks st)" by (simp add: claimable_def)
  have "exclusive ((s_jobs st)(j_id j \<mapsto> started (io_now io) j))"
  proof (rule exclusive_update)
    show "exclusive (s_jobs st)" using wf by (simp add: jobs_wf_def)
  qed (use nb busy_iff [OF ks] in \<open>auto simp: hosted_active_def\<close>)
  moreover have "keyed ((s_jobs st)(j_id j \<mapsto> started (io_now io) j))"
    "keys_unique ((s_jobs st)(j_id j \<mapsto> started (io_now io) j))"
    using wf 3(2) by (auto simp: jobs_wf_def intro: keyed_update keys_unique_update)
  ultimately show ?thesis by (simp add: 3(5) jobs_wf_def)
qed (use wf in simp_all)

subsection \<open>Operations that succeed\<close>

text \<open>On a healthy store with a working disk, a write fails only for times outside the years 0 to 9999.\<close>

definition job_times_ok :: "job \<Rightarrow> bool" where
  "job_times_ok j \<longleftrightarrow> time_ok (j_created_at j) \<and> opt_time_ok (j_lease_until j) \<and> opt_time_ok (j_next_run_at j)
     \<and> opt_time_ok (j_last_checkpoint_at j)"

definition io_ok :: "io \<Rightarrow> bool" where
  "io_ok io \<longleftrightarrow> io_write io = WriteOk \<and> time_ok (io_now io)"

lemma append_ok:
  assumes "s_poison st = None" "io_ok io" "job_times_ok j"
  obtains st' where "store_append sha io j kind actor message digest st = (Inr (), st')" "s_poison st' = None"
    "s_jobs st' = (s_jobs st)(j_id j \<mapsto> j\<lparr>j_updated_at := io_now io\<rparr>)"
proof -
  have "entry_times_ok (journal_entry sha (io_now io) j kind actor message digest (view st))"
    using assms by (simp add: entry_times_ok_def journal_entry_def io_ok_def job_times_ok_def Let_def)
  then have "fst (store_append sha io j kind actor message digest st) = Inr ()"
    using assms by (simp add: store_append_def Let_def marshal_entry_def io_ok_def)
  then obtain st' where "store_append sha io j kind actor message digest st = (Inr (), st')"
    by (metis prod.collapse)
  with store_append_Inr [OF this] that show thesis by blast
qed

lemma update_ok:
  assumes "s_poison st = None" "io_ok io" "s_jobs st jid = Some j" "fn j = Inr j'" "j_id j' = jid" "job_times_ok j'"
  obtains st' where "update sha io jid kind actor message digest fn st = (Inr (j'\<lparr>j_updated_at := io_now io\<rparr>), st')"
    "s_poison st' = None" "s_jobs st' = (s_jobs st)(jid \<mapsto> j'\<lparr>j_updated_at := io_now io\<rparr>)"
proof -
  obtain st' where "store_append sha io j' kind actor message digest st = (Inr (), st')" "s_poison st' = None"
    "s_jobs st' = (s_jobs st)(j_id j' \<mapsto> j'\<lparr>j_updated_at := io_now io\<rparr>)"
    by (rule append_ok [OF assms(1,2,6)])
  with assms that show thesis by (simp add: update_def)
qed

lemma create_ok:
  assumes "s_poison st = None" "io_ok io" "rnd = Inr bytes" "time_ok created"
    and "key \<noteq> [] \<Longrightarrow> find (create_matches key (first_owner owners)) (range_vals ks (s_jobs st)) = None"
  obtains st' where "create sha io ks rnd created spec sf kf res key actor owners st =
      (Inr (new_job (io_now io) created (first_owner owners) (hex_encode bytes) spec sf kf res key actor, True), st')"
    "s_poison st' = None" "s_jobs st' = (s_jobs st)(hex_encode bytes \<mapsto>
       new_job (io_now io) created (first_owner owners) (hex_encode bytes) spec sf kf res key actor)"
proof -
  let ?n = "zero_job\<lparr>j_owner := first_owner owners, j_id := hex_encode bytes, j_spec := spec,
          j_state := ''queued'', j_created_at := created, j_created_by := actor, j_source_fp := sf,
          j_sink_fp := kf, j_sink_resource := res, j_idempotency_key := key\<rparr>"
  have "job_times_ok ?n" using assms(4) by (simp add: job_times_ok_def zero_job_def opt_time_ok_def)
  then obtain st' where a: "store_append sha io ?n ''submitted'' actor ''Job submitted'' [] st = (Inr (), st')" "s_poison st' = None"
    "s_jobs st' = (s_jobs st)(j_id ?n \<mapsto> ?n\<lparr>j_updated_at := io_now io\<rparr>)"
    by (rule append_ok [OF assms(1,2)])
  have found: "(if key \<noteq> [] then find (create_matches key (first_owner owners)) (range_vals ks (s_jobs st)) else None) = None"
    using assms(5) by simp
  have "create sha io ks rnd created spec sf kf res key actor owners st = (Inr (the (s_jobs st' (j_id ?n)), True), st')"
    unfolding create_def assms(1,3) Let_def found option.case sum.case a(1) prod.case ..
  with a show thesis by (intro that) (simp_all add: new_job_def)
qed

end
