(* ===== verification/Workers.thy ===== *)
theory Workers
  imports Store_Invariants "HOL-Library.Char_ord" "HOL-Library.List_Lexorder"
begin

section \<open>The worker registry (src/control/workers.go)\<close>

text \<open>
  Customer workers: registration with a one-time enrollment token, binding of an ed25519 public
  key, challenge and session authentication, the published manifest of connections and approved
  pairs, and revocation. The registry file is written by \<^verbatim>\<open>durable.Write\<close>, which replaces it
  atomically; a failed write poisons the registry. SHA-256, signature verification, random bytes
  and clock readings are arguments.
\<close>

subsection \<open>Data\<close>

record wconn =
  wc_name :: string
  wc_kind :: string
  wc_can_read :: bool
  wc_can_write :: bool
  wc_fingerprint :: string
  wc_resource :: string

record wpair =
  wp_source :: string
  wp_sink :: string
  wp_dimension :: int

record manifest =
  mf_connections :: "wconn list"
  mf_pairs :: "wpair list"

record worker =
  w_id :: string
  w_name :: string
  w_owner :: "owner option"
  w_public_key :: string
  w_enrollment_hash :: string
  w_enrollment_until :: time
  w_created_at :: time
  w_last_seen :: "time option"
  w_revoked :: bool
  w_manifest :: manifest

record worker_view =
  wv_id :: string
  wv_name :: string
  wv_status :: string
  wv_last_seen :: "time option"
  wv_manifest :: manifest

record wsession =
  wss_worker :: string
  wss_until :: time

record workers =
  ws_entries :: "string \<rightharpoonup> worker"
  ws_challenges :: "string \<rightharpoonup> wsession"
  ws_sessions :: "string \<rightharpoonup> wsession"
  ws_poison :: "go_error option"
  ws_disk :: "string \<rightharpoonup> worker"

definition empty_manifest :: manifest where
  "empty_manifest = \<lparr>mf_connections = [], mf_pairs = []\<rparr>"

definition zero_wconn :: wconn where
  "zero_wconn = \<lparr>wc_name = [], wc_kind = [], wc_can_read = False, wc_can_write = False,
     wc_fingerprint = [], wc_resource = []\<rparr>"

definition zero_worker :: worker where
  "zero_worker = \<lparr>w_id = [], w_name = [], w_owner = None, w_public_key = [], w_enrollment_hash = [],
     w_enrollment_until = zero_time, w_created_at = zero_time, w_last_seen = None, w_revoked = False,
     w_manifest = empty_manifest\<rparr>"

definition second :: time where
  "second = 1000000000"

text \<open>Base64 (RFC 4648, padded), as \<^verbatim>\<open>base64.StdEncoding.DecodeString\<close> reads it.\<close>

definition b64_val :: "char \<Rightarrow> nat option" where
  "b64_val c = (if is_upper c then Some (byte c - 65) else if is_lower c then Some (byte c - 71)
     else if is_digit c then Some (byte c + 4) else if c = CHR ''+'' then Some 62
     else if c = CHR ''/'' then Some 63 else None)"

definition b64_bytes :: "nat \<Rightarrow> nat \<Rightarrow> nat \<Rightarrow> nat \<Rightarrow> string" where
  "b64_bytes a b c d = map char_of [a * 4 + b div 16, b mod 16 * 16 + c div 4, c mod 4 * 64 + d]"

fun b64_groups :: "string \<Rightarrow> string option" where
  "b64_groups [] = Some []"
| "b64_groups (p # q # r # s # rest) =
     (case (b64_val p, b64_val q) of
        (Some a, Some b) \<Rightarrow>
          (case (b64_val r, b64_val s) of
             (Some c, Some d) \<Rightarrow> map_option (\<lambda>t. b64_bytes a b c d @ t) (b64_groups rest)
           | (Some c, None) \<Rightarrow> if s = CHR ''='' \<and> rest = [] then Some (take 2 (b64_bytes a b c 0)) else None
           | _ \<Rightarrow> if r = CHR ''='' \<and> s = CHR ''='' \<and> rest = [] then Some (take 1 (b64_bytes a b 0 0)) else None)
      | _ \<Rightarrow> None)"
| "b64_groups _ = None"

definition b64_decode :: "string \<Rightarrow> string option" where
  "b64_decode s = b64_groups (filter (\<lambda>c. c \<noteq> CHR 0x0A \<and> c \<noteq> CHR 0x0D) s)"

definition token_digest :: "(string \<Rightarrow> string) \<Rightarrow> string \<Rightarrow> string" where
  "token_digest sha s = hex_encode (sha s)"

definition random_id :: "string \<Rightarrow> string" where
  "random_id bytes = hex_encode bytes"

subsection \<open>Saving\<close>

text \<open>\<^verbatim>\<open>durable.Write\<close>: done, or an error with the file either still the old one or already replaced.\<close>

datatype save_outcome = SaveOk | SaveFail bool go_error

definition ws_save :: "save_outcome \<Rightarrow> workers \<Rightarrow> go_error option \<times> workers" where
  "ws_save out ws =
     (if ws_poison ws \<noteq> None then (Some ErrWorkersUnavailable, ws)
      else case out of
        SaveOk \<Rightarrow> (None, ws\<lparr>ws_disk := ws_entries ws\<rparr>)
      | SaveFail replaced err \<Rightarrow>
          (Some ErrWorkersUnavailable,
           ws\<lparr>ws_poison := Some err, ws_disk := (if replaced then ws_entries ws else ws_disk ws)\<rparr>))"

definition open_workers :: "go_error option \<Rightarrow> (string \<rightharpoonup> worker) option \<Rightarrow> workers result" where
  "open_workers fault disk =
     (case fault of Some err \<Rightarrow> Inl err
      | None \<Rightarrow>
          (case disk of None \<Rightarrow> Inl ErrWorkersUnavailable
           | Some m \<Rightarrow> Inr \<lparr>ws_entries = m, ws_challenges = Map.empty, ws_sessions = Map.empty,
               ws_poison = None, ws_disk = m\<rparr>))"

definition ws_health :: "workers option \<Rightarrow> go_error option" where
  "ws_health ws = (case ws of None \<Rightarrow> None | Some w \<Rightarrow> ws_poison w)"

subsection \<open>Registration\<close>

definition worker_view :: "time \<Rightarrow> worker \<Rightarrow> worker_view" where
  "worker_view now e =
     (let status =
        (if w_revoked e then ''revoked''
         else if w_public_key e = [] then
           (if w_enrollment_until e < now then ''enrollment expired'' else ''awaiting enrollment'')
         else if (case w_last_seen e of None \<Rightarrow> False | Some t \<Rightarrow> now - t < 45 * second) then ''online''
         else ''offline'')
      in \<lparr>wv_id = w_id e, wv_name = w_name e, wv_status = status, wv_last_seen = w_last_seen e,
          wv_manifest = w_manifest e\<rparr>)"

text \<open>The loops over the entries see them in the order \<open>ks\<close>; \<^verbatim>\<open>len(w.entries)\<close> is their number.\<close>

definition ws_create ::
  "(string \<Rightarrow> string) \<Rightarrow> save_outcome \<Rightarrow> string list \<Rightarrow> time \<Rightarrow> time \<Rightarrow> string \<Rightarrow> string \<Rightarrow> owner option \<Rightarrow> string \<Rightarrow>
   workers \<Rightarrow> (worker_view \<times> string) result \<times> workers" where
  "ws_create sha out ks now view_now token_bytes id_bytes owner name ws =
     (if \<not> match_name name then
        (Inl (ErrNew (''worker name must use 1'' @ en_dash @ ''128 letters, digits, dots, underscores or hyphens'')), ws)
      else
        let count = length (filter (\<lambda>e. same_owner (w_owner e) owner \<and> \<not> w_revoked e) (range_vals ks (ws_entries ws))) in
        if 20 \<le> count \<or> 1000 \<le> length (range_vals ks (ws_entries ws)) then
          (Inl (ErrNew ''worker registration limit reached''), ws)
        else
          let token = random_id token_bytes;
              e = zero_worker\<lparr>w_id := random_id id_bytes, w_name := name, w_created_at := now,
                    w_enrollment_until := now + 600 * second, w_enrollment_hash := token_digest sha token,
                    w_owner := owner\<rparr>
          in (case ws_save out (ws\<lparr>ws_entries := (ws_entries ws)(w_id e \<mapsto> e)\<rparr>) of
                (Some err, ws') \<Rightarrow> (Inl err, ws')
              | (None, ws') \<Rightarrow> (Inr (worker_view view_now e, w_id e @ ''.'' @ token), ws')))"

definition ws_list :: "string list \<Rightarrow> time \<Rightarrow> owner option \<Rightarrow> workers \<Rightarrow> worker_view list" where
  "ws_list ks now owner ws =
     sort_key wv_name
       (map (worker_view now) (filter (\<lambda>e. same_owner (w_owner e) owner) (range_vals ks (ws_entries ws))))"

definition ws_get :: "string \<Rightarrow> owner option \<Rightarrow> workers \<Rightarrow> worker result" where
  "ws_get wid owner ws =
     (if ws_poison ws \<noteq> None then Inl ErrWorkersUnavailable
      else case ws_entries ws wid of
        None \<Rightarrow> Inl ErrNotFound
      | Some e \<Rightarrow>
          if \<not> same_owner (w_owner e) owner then Inl ErrNotFound
          else if w_revoked e then Inl ErrForbidden else Inr e)"

definition unit_result :: "go_error option \<times> 's \<Rightarrow> unit result \<times> 's" where
  "unit_result p = (case p of (Some err, s) \<Rightarrow> (Inl err, s) | (None, s) \<Rightarrow> (Inr (), s))"

definition ws_put :: "save_outcome \<Rightarrow> string \<Rightarrow> worker \<Rightarrow> workers \<Rightarrow> unit result \<times> workers" where
  "ws_put out wid e ws = unit_result (ws_save out (ws\<lparr>ws_entries := (ws_entries ws)(wid \<mapsto> e)\<rparr>))"

definition ws_revoke :: "save_outcome \<Rightarrow> string \<Rightarrow> owner option \<Rightarrow> workers \<Rightarrow> unit result \<times> workers" where
  "ws_revoke out wid owner ws =
     (case ws_entries ws wid of
        None \<Rightarrow> (Inl ErrNotFound, ws)
      | Some e \<Rightarrow>
          if \<not> same_owner (w_owner e) owner then (Inl ErrNotFound, ws)
          else ws_put out wid (e\<lparr>w_revoked := True, w_enrollment_hash := []\<rparr>) ws)"

subsection \<open>Enrollment and authentication\<close>

definition ws_enroll ::
  "(string \<Rightarrow> string) \<Rightarrow> save_outcome \<Rightarrow> time \<Rightarrow> string \<Rightarrow> string \<Rightarrow> string \<Rightarrow> workers \<Rightarrow> unit result \<times> workers" where
  "ws_enroll sha out now wid token key ws =
     (if ws_poison ws \<noteq> None then (Inl ErrWorkersUnavailable, ws)
      else case (ws_entries ws wid, b64_decode key) of
        (Some e, Some pub) \<Rightarrow>
          if w_revoked e \<or> length pub \<noteq> 32 then (Inl ErrForbidden, ws)
          else if w_public_key e = key then (Inr (), ws)
          else if w_public_key e \<noteq> [] \<or> w_enrollment_until e < now \<or> token_digest sha token \<noteq> w_enrollment_hash e
          then (Inl ErrForbidden, ws)
          else ws_put out wid (e\<lparr>w_public_key := key, w_enrollment_hash := []\<rparr>) ws
      | _ \<Rightarrow> (Inl ErrForbidden, ws))"

definition stale :: "time \<Rightarrow> string \<Rightarrow> wsession \<Rightarrow> bool" where
  "stale now wid c \<longleftrightarrow> wss_until c < now \<or> wss_worker c = wid"

definition drop_stale :: "time \<Rightarrow> string \<Rightarrow> (string \<rightharpoonup> wsession) \<Rightarrow> (string \<rightharpoonup> wsession)" where
  "drop_stale now wid m = (\<lambda>k. case m k of None \<Rightarrow> None | Some c \<Rightarrow> if stale now wid c then None else Some c)"

definition ws_challenge :: "string list \<Rightarrow> time \<Rightarrow> string \<Rightarrow> string \<Rightarrow> workers \<Rightarrow> string result \<times> workers" where
  "ws_challenge ks now rnd wid ws =
     (if ws_poison ws \<noteq> None then (Inl ErrWorkersUnavailable, ws)
      else case ws_entries ws wid of
        None \<Rightarrow> (Inl ErrForbidden, ws)
      | Some e \<Rightarrow>
          if w_revoked e \<or> w_public_key e = [] then (Inl ErrForbidden, ws)
          else
            let cs = drop_stale now wid (ws_challenges ws) in
            if 1000 \<le> length (range_vals ks cs) then
              (Inl (ErrNew ''worker authentication busy; retry shortly''), ws\<lparr>ws_challenges := cs\<rparr>)
            else
              let c = random_id rnd in
              (Inr c, ws\<lparr>ws_challenges := cs(c \<mapsto> \<lparr>wss_worker = wid, wss_until = now + 60 * second\<rparr>)\<rparr>))"

definition session_proof :: "string \<Rightarrow> string \<Rightarrow> string" where
  "session_proof wid challenge =
     ''vector-transfer-worker-session-v1'' @ [newline] @ wid @ [newline] @ challenge"

definition ws_session ::
  "(string \<Rightarrow> string) \<Rightarrow> (string \<Rightarrow> string \<Rightarrow> string \<Rightarrow> bool) \<Rightarrow> time \<Rightarrow> time \<Rightarrow> string \<Rightarrow> string \<Rightarrow> string \<Rightarrow> string \<Rightarrow>
   workers \<Rightarrow> string result \<times> workers" where
  "ws_session sha verify now now2 rnd wid challenge signature ws =
     (if ws_poison ws \<noteq> None then (Inl ErrWorkersUnavailable, ws)
      else
        let c = ws_challenges ws challenge;
            ws1 = ws\<lparr>ws_challenges := (ws_challenges ws)(challenge := None)\<rparr>;
            e = (case ws_entries ws wid of None \<Rightarrow> zero_worker | Some x \<Rightarrow> x);
            pub = (case b64_decode (w_public_key e) of None \<Rightarrow> [] | Some p \<Rightarrow> p)
        in (case (c, b64_decode signature) of
              (Some ch, Some sig) \<Rightarrow>
                if wss_worker ch \<noteq> wid \<or> wss_until ch < now \<or> w_revoked e \<or> length pub \<noteq> 32
                   \<or> \<not> verify pub (session_proof wid challenge) sig
                then (Inl ErrForbidden, ws1)
                else
                  let token = random_id rnd in
                  (Inr token, ws1\<lparr>ws_sessions := (drop_stale now2 wid (ws_sessions ws))
                      (token_digest sha token \<mapsto> \<lparr>wss_worker = wid, wss_until = now2 + 600 * second\<rparr>)\<rparr>)
            | _ \<Rightarrow> (Inl ErrForbidden, ws1)))"

definition ws_authenticate :: "(string \<Rightarrow> string) \<Rightarrow> time \<Rightarrow> string \<Rightarrow> workers \<Rightarrow> worker result" where
  "ws_authenticate sha now token ws =
     (if ws_poison ws \<noteq> None then Inl ErrWorkersUnavailable
      else case ws_sessions ws (token_digest sha token) of
        None \<Rightarrow> Inl ErrForbidden
      | Some s \<Rightarrow>
          let e = (case ws_entries ws (wss_worker s) of None \<Rightarrow> zero_worker | Some x \<Rightarrow> x) in
          if wss_until s < now \<or> w_revoked e then Inl ErrForbidden else Inr e)"

subsection \<open>The manifest\<close>

fun manifest_names :: "(string \<rightharpoonup> wconn) \<Rightarrow> wconn list \<Rightarrow> (string \<rightharpoonup> wconn) option" where
  "manifest_names names [] = Some names"
| "manifest_names names (c # cs) =
     (if \<not> match_name (wc_name c) \<or> \<not> match_name (wc_kind c) \<or> \<not> match_hex 64 (wc_fingerprint c)
         \<or> \<not> match_hex 64 (wc_resource c)
         \<or> wc_name (case names (wc_name c) of None \<Rightarrow> zero_wconn | Some x \<Rightarrow> x) \<noteq> []
      then None else manifest_names (names(wc_name c \<mapsto> c)) cs)"

definition lookup_conn :: "(string \<rightharpoonup> wconn) \<Rightarrow> string \<Rightarrow> wconn" where
  "lookup_conn names n = (case names n of None \<Rightarrow> zero_wconn | Some x \<Rightarrow> x)"

definition pair_bad :: "(string \<rightharpoonup> wconn) \<Rightarrow> wpair \<Rightarrow> bool" where
  "pair_bad names p \<longleftrightarrow>
     (let s = lookup_conn names (wp_source p); d = lookup_conn names (wp_sink p) in
      \<not> wc_can_read s \<or> \<not> wc_can_write d \<or> wp_source p = wp_sink p \<or> wc_resource s = wc_resource d
      \<or> wp_dimension p < 1 \<or> wp_dimension p > 65536)"

definition validate_manifest :: "manifest \<Rightarrow> unit result" where
  "validate_manifest m =
     (if length (mf_connections m) = 0 \<or> length (mf_connections m) > 50
         \<or> length (mf_pairs m) = 0 \<or> length (mf_pairs m) > 100
      then Inl (ErrNew (''worker requires 1'' @ en_dash @ ''50 connections and 1'' @ en_dash @ ''100 approved pairs''))
      else case manifest_names Map.empty (mf_connections m) of
        None \<Rightarrow> Inl (ErrNew ''invalid worker connection'')
      | Some names \<Rightarrow>
          if list_ex (pair_bad names) (mf_pairs m) then Inl (ErrNew ''invalid approved connection pair'')
          else Inr ())"

definition ws_publish :: "save_outcome \<Rightarrow> time \<Rightarrow> string \<Rightarrow> manifest \<Rightarrow> workers \<Rightarrow> unit result \<times> workers" where
  "ws_publish out now wid m ws =
     (case validate_manifest m of
        Inl err \<Rightarrow> (Inl err, ws)
      | Inr _ \<Rightarrow>
          (case ws_entries ws wid of
             None \<Rightarrow> (Inl ErrForbidden, ws)
           | Some e \<Rightarrow>
               if w_revoked e then (Inl ErrForbidden, ws)
               else ws_put out wid (e\<lparr>w_manifest := m, w_last_seen := Some now\<rparr>) ws))"

definition ws_touch :: "save_outcome \<Rightarrow> time \<Rightarrow> string \<Rightarrow> workers \<Rightarrow> unit result \<times> workers" where
  "ws_touch out now wid ws =
     (case ws_entries ws wid of
        None \<Rightarrow> (Inl ErrForbidden, ws)
      | Some e \<Rightarrow>
          if w_revoked e then (Inl ErrForbidden, ws) else ws_put out wid (e\<lparr>w_last_seen := Some now\<rparr>) ws)"

definition pair_approves :: "spec \<Rightarrow> wconn \<Rightarrow> wconn \<Rightarrow> wpair \<Rightarrow> bool" where
  "pair_approves spec src dst p \<longleftrightarrow> wp_source p = sp_source spec \<and> wp_sink p = sp_sink spec
     \<and> wp_dimension p = sp_dimension spec \<and> wc_can_read src \<and> wc_can_write dst"

definition last_named :: "string \<Rightarrow> wconn list \<Rightarrow> wconn" where
  "last_named n cs = fold (\<lambda>c best. if wc_name c = n then c else best) cs zero_wconn"

definition worker_connections :: "worker \<Rightarrow> spec \<Rightarrow> (wconn \<times> wconn) result" where
  "worker_connections e spec =
     (let src = last_named (sp_source spec) (mf_connections (w_manifest e));
          dst = last_named (sp_sink spec) (mf_connections (w_manifest e))
      in if list_ex (pair_approves spec src dst) (mf_pairs (w_manifest e)) then Inr (src, dst)
         else Inl (ErrNew ''source, destination and dimension must match a locally approved worker pair''))"

end
