(* ===== verification/Vault.thy ===== *)
theory Vault
  imports Personal Journal_Facts Workers
begin

section \<open>The vault of personal connections (src/control/connections.go)\<close>

text \<open>
  Private connections of account users, one encrypted file each, named by the connection's
  identifier. The directory is a map from file names to bytes. AES-GCM and HMAC-SHA-256 under the
  vault's key are the parameters \<open>vc_seal\<close>, \<open>vc_open\<close> and \<open>vc_mac\<close>; opening a connection is
  \<open>open_personal\<close> of the connector package. Every operation runs under the vault's lock.
\<close>

subsection \<open>Entries and their text\<close>

record definition_text =
  df_label :: string
  df_direction :: string
  df_config :: pconfig
  df_creds :: pcreds

record personal_entry =
  pe_id :: string
  pe_owner :: owner
  pe_definition :: definition_text
  pe_digest :: string
  pe_created_at :: time

record vcrypto =
  vc_mac :: "string \<Rightarrow> string"
  vc_seal :: "string \<Rightarrow> string \<Rightarrow> string \<Rightarrow> string"
  vc_open :: "string \<Rightarrow> string \<Rightarrow> string \<Rightarrow> string option"

record vault_env =
  ve_sha :: "string \<Rightarrow> string"
  ve_parse_url :: "string \<Rightarrow> url option"
  ve_parse_ip :: "string \<Rightarrow> ip option"
  ve_drivers :: drivers
  ve_crypto :: vcrypto

record vault =
  vt_realm :: string
  vt_entries :: "string \<rightharpoonup> personal_entry"
  vt_bindings :: registry
  vt_poison :: "go_error option"
  vt_files :: "string \<rightharpoonup> string"

definition creds_members :: "pcreds \<Rightarrow> (string \<times> json) list" where
  "creds_members s =
     omit (cr_api_key s = []) ''api_key'' (jstr (cr_api_key s))
     @ omit (cr_access_key_id s = []) ''access_key_id'' (jstr (cr_access_key_id s))
     @ omit (cr_secret_access_key s = []) ''secret_access_key'' (jstr (cr_secret_access_key s))
     @ omit (cr_session_token s = []) ''session_token'' (jstr (cr_session_token s))
     @ omit (cr_username s = []) ''username'' (jstr (cr_username s))
     @ omit (cr_password s = []) ''password'' (jstr (cr_password s))"

definition definition_members :: "definition_text \<Rightarrow> (string \<times> json) list" where
  "definition_members d = [(''label'', jstr (df_label d)), (''direction'', jstr (df_direction d)),
     (''config'', config_json (df_config d)), (''credentials'', JObj (creds_members (df_creds d)))]"

definition entry_members :: "personal_entry \<Rightarrow> (string \<times> json) list" where
  "entry_members e = [(''id'', jstr (pe_id e)), (''owner'', JObj (owner_members (pe_owner e))),
     (''definition'', JObj (definition_members (pe_definition e))),
     (''request_digest'', jstr (pe_digest e)), (''created_at'', jtime (pe_created_at e))]"

definition zero_config :: pconfig where
  "zero_config = \<lparr>pc_kind = [], pc_endpoint = [], pc_collection = [], pc_namespace = [], pc_region = [],
     pc_bucket = [], pc_index = [], pc_distance_metric = [], pc_id_type = [], pc_database = [],
     pc_auth_database = [], pc_tenant = [], pc_vector_field = [], pc_id_field = [],
     pc_metadata_field = [], pc_key_prefix = []\<rparr>"

definition zero_creds :: pcreds where
  "zero_creds = \<lparr>cr_api_key = [], cr_access_key_id = [], cr_secret_access_key = [], cr_session_token = [],
     cr_username = [], cr_password = []\<rparr>"

definition zero_definition :: definition_text where
  "zero_definition = \<lparr>df_label = [], df_direction = [], df_config = zero_config, df_creds = zero_creds\<rparr>"

definition zero_personal :: personal_entry where
  "zero_personal = \<lparr>pe_id = [], pe_owner = zero_owner, pe_definition = zero_definition, pe_digest = [],
     pe_created_at = zero_time\<rparr>"

definition dec_config :: "string \<Rightarrow> json \<Rightarrow> pconfig \<Rightarrow> pconfig option" where
  "dec_config k v r =
     (if k = ''kind'' then dec_str pc_kind_update v r
      else if k = ''endpoint'' then dec_str pc_endpoint_update v r
      else if k = ''collection'' then dec_str pc_collection_update v r
      else if k = ''namespace'' then dec_str pc_namespace_update v r
      else if k = ''region'' then dec_str pc_region_update v r
      else if k = ''bucket'' then dec_str pc_bucket_update v r
      else if k = ''index'' then dec_str pc_index_update v r
      else if k = ''distance_metric'' then dec_str pc_distance_metric_update v r
      else if k = ''id_type'' then dec_str pc_id_type_update v r
      else if k = ''database'' then dec_str pc_database_update v r
      else if k = ''auth_database'' then dec_str pc_auth_database_update v r
      else if k = ''tenant'' then dec_str pc_tenant_update v r
      else if k = ''vector_field'' then dec_str pc_vector_field_update v r
      else if k = ''id_field'' then dec_str pc_id_field_update v r
      else if k = ''metadata_field'' then dec_str pc_metadata_field_update v r
      else if k = ''key_prefix'' then dec_str pc_key_prefix_update v r
      else Some r)"

definition dec_creds :: "string \<Rightarrow> json \<Rightarrow> pcreds \<Rightarrow> pcreds option" where
  "dec_creds k v r =
     (if k = ''api_key'' then dec_str cr_api_key_update v r
      else if k = ''access_key_id'' then dec_str cr_access_key_id_update v r
      else if k = ''secret_access_key'' then dec_str cr_secret_access_key_update v r
      else if k = ''session_token'' then dec_str cr_session_token_update v r
      else if k = ''username'' then dec_str cr_username_update v r
      else if k = ''password'' then dec_str cr_password_update v r
      else Some r)"

definition dec_definition :: "string \<Rightarrow> json \<Rightarrow> definition_text \<Rightarrow> definition_text option" where
  "dec_definition k v r =
     (if k = ''label'' then dec_str df_label_update v r
      else if k = ''direction'' then dec_str df_direction_update v r
      else if k = ''config'' then map_option (\<lambda>c. r\<lparr>df_config := c\<rparr>) (dec_struct dec_config v (df_config r))
      else if k = ''credentials'' then map_option (\<lambda>c. r\<lparr>df_creds := c\<rparr>) (dec_struct dec_creds v (df_creds r))
      else Some r)"

definition dec_personal :: "string \<Rightarrow> json \<Rightarrow> personal_entry \<Rightarrow> personal_entry option" where
  "dec_personal k v r =
     (if k = ''id'' then dec_str pe_id_update v r
      else if k = ''owner'' then map_option (\<lambda>w. r\<lparr>pe_owner := w\<rparr>) (dec_struct dec_owner v (pe_owner r))
      else if k = ''definition'' then
        map_option (\<lambda>d. r\<lparr>pe_definition := d\<rparr>) (dec_struct dec_definition v (pe_definition r))
      else if k = ''request_digest'' then dec_str pe_digest_update v r
      else if k = ''created_at'' then dec_time pe_created_at_update v r
      else Some r)"

definition marshal_personal :: "personal_entry \<Rightarrow> string result" where
  "marshal_personal e = (if time_ok (pe_created_at e) then Inr (jprint (JObj (entry_members e)))
     else Inl (ErrNew ''Time.MarshalJSON: year outside of range [0,9999]''))"

definition unmarshal_personal :: "string \<Rightarrow> personal_entry option" where
  "unmarshal_personal s = (case json_parse s of None \<Rightarrow> None | Some v \<Rightarrow> dec_struct dec_personal v zero_personal)"

subsection \<open>Encrypted files\<close>

definition nonce_size :: nat where
  "nonce_size = 12"

definition associated :: "string \<Rightarrow> string" where
  "associated cid = ''vector-transfer/connection/'' @ cid"

definition vault_open_file :: "vcrypto \<Rightarrow> string \<Rightarrow> string \<Rightarrow> personal_entry result" where
  "vault_open_file cr cid data =
     (if length data < 1 + nonce_size \<or> hd data \<noteq> CHR 0x01 then Inl ErrVaultUnavailable
      else case vc_open cr (take nonce_size (drop 1 data)) (drop (1 + nonce_size) data) (associated cid) of
        None \<Rightarrow> Inl ErrVaultUnavailable
      | Some text \<Rightarrow>
          (case unmarshal_personal text of
             None \<Rightarrow> Inl ErrVaultUnavailable
           | Some e \<Rightarrow>
               if pe_id e \<noteq> cid \<or> o_id (pe_owner e) = [] \<or> o_subject (pe_owner e) = [] \<or> o_realm (pe_owner e) = []
               then Inl ErrVaultUnavailable else Inr e))"

text \<open>
  A write of a file: it fails before the rename and leaves the directory as it was, or the file is
  in place and then the directory may fail to sync, which poisons the vault.
\<close>

datatype persist_outcome = PersistOk | PersistFail | PersistUnsynced

definition persist ::
  "vcrypto \<Rightarrow> string result \<Rightarrow> persist_outcome \<Rightarrow> personal_entry \<Rightarrow> vault \<Rightarrow> go_error option \<times> vault" where
  "persist cr nonce out e v =
     (case (marshal_personal e, nonce) of
        (Inr text, Inr n) \<Rightarrow>
          let data = CHR 0x01 # n @ vc_seal cr n text (associated (pe_id e));
              v' = v\<lparr>vt_files := (vt_files v)(pe_id e \<mapsto> data)\<rparr> in
          (case out of
             PersistOk \<Rightarrow> (None, v')
           | PersistFail \<Rightarrow> (Some ErrVaultUnavailable, v)
           | PersistUnsynced \<Rightarrow> (Some ErrVaultUnavailable, v'\<lparr>vt_poison := Some ErrVaultUnavailable\<rparr>))
      | _ \<Rightarrow> (Some ErrVaultUnavailable, v))"

subsection \<open>Bindings\<close>

definition personal_binding :: "vault_env \<Rightarrow> nat \<Rightarrow> personal_entry \<Rightarrow> binding result" where
  "personal_binding env h e =
     (let d = pe_definition e in
      if trim_space (df_label d) = [] \<or> 128 < length (df_label d)
         \<or> (df_direction d \<noteq> ''source'' \<and> df_direction d \<noteq> ''sink'')
      then Inl (ErrNew ''provide a connection name and choose source or destination'')
      else case open_personal (ve_sha env) (ve_parse_url env) (ve_parse_ip env) (ve_drivers env) h
             (df_config d) (df_creds d) of
        Inl err \<Rightarrow> Inl err
      | Inr b \<Rightarrow>
          let b1 = b\<lparr>b_name := pe_id e, b_label := df_label d, b_personal := True\<rparr>;
              b2 = (if df_direction d = ''source''
                then b1\<lparr>b_sink := None, b_can_write := False, b_read_subjects := [o_subject (pe_owner e)]\<rparr>
                else b1\<lparr>b_source := None, b_can_read := False, b_write_subjects := [o_subject (pe_owner e)]\<rparr>)
          in Inr (b2\<lparr>b_fingerprint := strings_fingerprint (ve_sha env) [b_fingerprint b2, df_direction d]\<rparr>))"

subsection \<open>Opening the vault\<close>

text \<open>\<^verbatim>\<open>^personal-[a-f0-9]{32}$\<close>\<close>

definition personal_name :: "string \<Rightarrow> bool" where
  "personal_name s \<longleftrightarrow> has_prefix s ''personal-'' \<and> match_hex 32 (drop 9 s)"

record vault_file =
  vf_name :: string
  vf_dir :: bool
  vf_regular :: bool
  vf_size :: int
  vf_data :: "string option"

text \<open>A directory has no two files of one name, so \<open>n\<close>, the files loaded so far, is \<^verbatim>\<open>len(v.entries)\<close>.\<close>

fun load_files :: "vault_env \<Rightarrow> (string \<Rightarrow> nat) \<Rightarrow> nat \<Rightarrow> vault_file list \<Rightarrow> vault \<Rightarrow> vault result" where
  "load_files env hs n [] v = Inr v"
| "load_files env hs n (f # fs) v =
     (if has_prefix (vf_name f) ''.connection-'' then load_files env hs n fs v
      else if vf_dir f \<or> \<not> personal_name (vf_name f) then Inl ErrVaultUnavailable
      else if \<not> vf_regular f \<or> 131072 < vf_size f then Inl ErrVaultUnavailable
      else case vf_data f of
        None \<Rightarrow> Inl ErrVaultUnavailable
      | Some data \<Rightarrow>
          (case vault_open_file (ve_crypto env) (vf_name f) data of
             Inl err \<Rightarrow> Inl err
           | Inr e \<Rightarrow>
               (case personal_binding env (hs (pe_id e)) e of
                  Inl _ \<Rightarrow> Inl ErrVaultUnavailable
                | Inr b \<Rightarrow>
                    let v' = v\<lparr>vt_entries := (vt_entries v)(pe_id e \<mapsto> e),
                          vt_bindings := (vt_bindings v)(pe_id e \<mapsto> b),
                          vt_files := (vt_files v)(vf_name f \<mapsto> data)\<rparr> in
                    if 2000 < n + 1 then Inl ErrVaultUnavailable
                    else load_files env hs (n + 1) fs v')))"

definition empty_vault :: "string \<Rightarrow> vault" where
  "empty_vault realm = \<lparr>vt_realm = realm, vt_entries = Map.empty, vt_bindings = Map.empty, vt_poison = None,
     vt_files = Map.empty\<rparr>"

text \<open>The key file, and the crypto the runtime makes of the key; \<open>hs\<close> gives the connector objects.\<close>

definition open_vault ::
  "vault_env \<Rightarrow> (string \<Rightarrow> nat) \<Rightarrow> string option \<Rightarrow> string \<Rightarrow> vault_file list option \<Rightarrow> vault result" where
  "open_vault env hs key_file realm files =
     (case key_file of
        None \<Rightarrow> Inl ErrVaultUnavailable
      | Some encoded \<Rightarrow>
          (case b64_decode (trim_space encoded) of
             None \<Rightarrow> Inl (ErrNew ''credential key must be base64-encoded 32 random bytes and requires account mode'')
           | Some key \<Rightarrow>
               if length key \<noteq> 32 \<or> realm = []
               then Inl (ErrNew ''credential key must be base64-encoded 32 random bytes and requires account mode'')
               else (case files of None \<Rightarrow> Inl ErrVaultUnavailable
                     | Some fs \<Rightarrow> load_files env hs 0 fs (empty_vault realm))))"

subsection \<open>Operations\<close>

definition connection_id :: "vcrypto \<Rightarrow> owner \<Rightarrow> string \<Rightarrow> string" where
  "connection_id cr owner key = ''personal-'' @ take 32 (hex_encode (vc_mac cr (o_id owner @ [CHR 0x00] @ key)))"

definition lookup_binding :: "registry \<Rightarrow> string \<Rightarrow> binding" where
  "lookup_binding r k = (case r k of None \<Rightarrow> zero_binding | Some b \<Rightarrow> b)"

definition vault_create ::
  "vault_env \<Rightarrow> nat \<Rightarrow> string list \<Rightarrow> time \<Rightarrow> string result \<Rightarrow> persist_outcome \<Rightarrow> owner \<Rightarrow> definition_text \<Rightarrow> string \<Rightarrow>
   vault \<Rightarrow> (binding \<times> bool) result \<times> vault" where
  "vault_create env h ks now nonce out owner d0 key v =
     (case vt_poison v of
        Some p \<Rightarrow> (Inl p, v)
      | None \<Rightarrow>
          if o_id owner = [] \<or> o_subject owner = [] \<or> o_realm owner \<noteq> vt_realm v then (Inl ErrForbidden, v)
          else if key = [] \<or> 128 < length key then
            (Inl (ErrNew (''a connection idempotency key of 1'' @ en_dash @ ''128 bytes is required'')), v)
          else
            let d = d0\<lparr>df_label := trim_space (df_label d0)\<rparr>;
                cid = connection_id (ve_crypto env) owner key;
                digest = hex_encode (vc_mac (ve_crypto env) (jprint (JObj (definition_members d)))) in
            (case vt_entries v cid of
               Some e \<Rightarrow>
                 if pe_owner e \<noteq> owner \<or> pe_digest e \<noteq> digest then (Inl ErrConflict, v)
                 else (Inr (lookup_binding (vt_bindings v) cid, False), v)
             | None \<Rightarrow>
                 if 50 \<le> length (filter (\<lambda>e. pe_owner e = owner) (range_vals ks (vt_entries v)))
                    \<or> 2000 \<le> length (range_vals ks (vt_entries v))
                 then (Inl (ErrNew ''saved connection limit reached; remove unused connections''), v)
                 else
                   let e = \<lparr>pe_id = cid, pe_owner = owner, pe_definition = d, pe_digest = digest, pe_created_at = now\<rparr> in
                   (case personal_binding env h e of
                      Inl err \<Rightarrow> (Inl err, v)
                    | Inr b \<Rightarrow>
                        (case persist (ve_crypto env) nonce out e v of
                           (Some err, v') \<Rightarrow> (Inl err, v')
                         | (None, v') \<Rightarrow>
                             (Inr (b, True), v'\<lparr>vt_entries := (vt_entries v)(cid \<mapsto> e),
                                vt_bindings := (vt_bindings v)(cid \<mapsto> b)\<rparr>)))))"

definition vault_get :: "vault option \<Rightarrow> string \<Rightarrow> binding option" where
  "vault_get vo cid =
     (case vo of
        None \<Rightarrow> None
      | Some v \<Rightarrow>
          (case vt_entries v cid of
             None \<Rightarrow> None
           | Some e \<Rightarrow>
               if o_realm (pe_owner e) \<noteq> vt_realm v \<or> vt_poison v \<noteq> None then None
               else Some (lookup_binding (vt_bindings v) cid)))"

definition vault_list :: "string list \<Rightarrow> vault option \<Rightarrow> binding list" where
  "vault_list ks vo =
     (case vo of
        None \<Rightarrow> []
      | Some v \<Rightarrow>
          if vt_poison v \<noteq> None then []
          else sort_key b_label (map (\<lambda>e. lookup_binding (vt_bindings v) (pe_id e))
                 (filter (\<lambda>e. o_realm (pe_owner e) = vt_realm v) (range_vals ks (vt_entries v)))))"

definition vault_rotate ::
  "vault_env \<Rightarrow> nat \<Rightarrow> string result \<Rightarrow> persist_outcome \<Rightarrow> owner \<Rightarrow> string \<Rightarrow> pcreds \<Rightarrow> vault \<Rightarrow> binding result \<times> vault" where
  "vault_rotate env h nonce out owner cid creds v =
     (case vt_poison v of
        Some p \<Rightarrow> (Inl p, v)
      | None \<Rightarrow>
          (case vt_entries v cid of
             None \<Rightarrow> (Inl ErrNotFound, v)
           | Some e0 \<Rightarrow>
               if pe_owner e0 \<noteq> owner \<or> o_realm owner \<noteq> vt_realm v then (Inl ErrNotFound, v)
               else
                 let e = e0\<lparr>pe_definition := (pe_definition e0)\<lparr>df_creds := creds\<rparr>\<rparr> in
                 (case personal_binding env h e of
                    Inl err \<Rightarrow> (Inl err, v)
                  | Inr b \<Rightarrow>
                      (case persist (ve_crypto env) nonce out e v of
                         (Some err, v') \<Rightarrow> (Inl err, v')
                       | (None, v') \<Rightarrow>
                           (Inr b, v'\<lparr>vt_entries := (vt_entries v)(cid \<mapsto> e), vt_bindings := (vt_bindings v)(cid \<mapsto> b)\<rparr>)))))"

text \<open>Deleting: the remove fails, or the file is gone and the directory may fail to sync.\<close>

definition vault_delete :: "persist_outcome \<Rightarrow> owner \<Rightarrow> string \<Rightarrow> vault \<Rightarrow> unit result \<times> vault" where
  "vault_delete out owner cid v =
     (case vt_poison v of
        Some p \<Rightarrow> (Inl p, v)
      | None \<Rightarrow>
          (case vt_entries v cid of
             None \<Rightarrow> (Inl ErrNotFound, v)
           | Some e \<Rightarrow>
               if pe_owner e \<noteq> owner \<or> o_realm owner \<noteq> vt_realm v then (Inl ErrNotFound, v)
               else (case out of
                 PersistFail \<Rightarrow> (Inl ErrVaultUnavailable, v)
               | PersistUnsynced \<Rightarrow>
                   (Inl ErrVaultUnavailable,
                    v\<lparr>vt_files := (vt_files v)(cid := None), vt_poison := Some ErrVaultUnavailable\<rparr>)
               | PersistOk \<Rightarrow>
                   (Inr (), v\<lparr>vt_files := (vt_files v)(cid := None), vt_bindings := (vt_bindings v)(cid := None),
                      vt_entries := (vt_entries v)(cid := None)\<rparr>))))"

definition vault_health :: "vault option \<Rightarrow> go_error option" where
  "vault_health vo = (case vo of None \<Rightarrow> None | Some v \<Rightarrow> vt_poison v)"

end
