(* ===== verification/Vault_Facts.thy ===== *)
theory Vault_Facts
  imports Vault
begin

section \<open>What the vault guarantees\<close>

text \<open>
  The entry codec and the encrypted file lose nothing, the directory always holds what memory holds
  so that a restart finds the same connections, no user reaches another user's connections, and
  creation is idempotent and bounded. The law of the cipher (what was sealed opens under the same
  nonce and associated data) is the hypothesis \<open>seals\<close>.
\<close>

subsection \<open>The entry codec\<close>

definition config_ok :: "pconfig \<Rightarrow> bool" where
  "config_ok c \<longleftrightarrow> list_all valid_utf8 [pc_kind c, pc_endpoint c, pc_collection c, pc_namespace c, pc_region c,
     pc_bucket c, pc_index c, pc_distance_metric c, pc_id_type c, pc_database c, pc_auth_database c,
     pc_tenant c, pc_vector_field c, pc_id_field c, pc_metadata_field c, pc_key_prefix c]"

definition creds_ok :: "pcreds \<Rightarrow> bool" where
  "creds_ok s \<longleftrightarrow> list_all valid_utf8 [cr_api_key s, cr_access_key_id s, cr_secret_access_key s,
     cr_session_token s, cr_username s, cr_password s]"

definition personal_ok :: "personal_entry \<Rightarrow> bool" where
  "personal_ok e \<longleftrightarrow> valid_utf8 (pe_id e) \<and> owner_ok (pe_owner e) \<and> valid_utf8 (df_label (pe_definition e))
     \<and> valid_utf8 (df_direction (pe_definition e)) \<and> config_ok (df_config (pe_definition e))
     \<and> creds_ok (df_creds (pe_definition e)) \<and> valid_utf8 (pe_digest e) \<and> time_ok (pe_created_at e)"

definition vault_keys :: "string list" where
  "vault_keys = [''kind'', ''endpoint'', ''collection'', ''namespace'', ''region'', ''bucket'', ''index'',
     ''distance_metric'', ''id_type'', ''database'', ''auth_database'', ''tenant'', ''vector_field'',
     ''id_field'', ''metadata_field'', ''key_prefix'', ''api_key'', ''access_key_id'', ''secret_access_key'',
     ''session_token'', ''username'', ''password'', ''label'', ''direction'', ''config'', ''credentials'',
     ''id'', ''owner'', ''definition'', ''request_digest'', ''created_at'']"

lemma vault_keys_plain: "list_all plain_key vault_keys"
  by code_simp

lemma vault_plain:
  "plain_key ''kind''"
  "plain_key ''endpoint''"
  "plain_key ''collection''"
  "plain_key ''namespace''"
  "plain_key ''region''"
  "plain_key ''bucket''"
  "plain_key ''index''"
  "plain_key ''distance_metric''"
  "plain_key ''id_type''"
  "plain_key ''database''"
  "plain_key ''auth_database''"
  "plain_key ''tenant''"
  "plain_key ''vector_field''"
  "plain_key ''id_field''"
  "plain_key ''metadata_field''"
  "plain_key ''key_prefix''"
  "plain_key ''api_key''"
  "plain_key ''access_key_id''"
  "plain_key ''secret_access_key''"
  "plain_key ''session_token''"
  "plain_key ''username''"
  "plain_key ''password''"
  "plain_key ''label''"
  "plain_key ''direction''"
  "plain_key ''config''"
  "plain_key ''credentials''"
  "plain_key ''id''"
  "plain_key ''owner''"
  "plain_key ''definition''"
  "plain_key ''request_digest''"
  "plain_key ''created_at''"
  using vault_keys_plain unfolding vault_keys_def list.pred_inject by blast+

declare dec_members.simps(2) [simp del]

text \<open>A string member that is left out when it is empty, read into a record that has it empty.\<close>

lemma omit_str:
  assumes "plain_key k" "f k = dec_str upd" "valid_utf8 x" "upd (\<lambda>_. []) r = r"
  shows "dec_members f (omit (x = []) k (jstr x) @ ms) r = dec_members f ms (upd (\<lambda>_. x) r)"
  using assms by (simp add: omit_def dec_members_key dec_str_jstr)

lemmas omit_str_last = omit_str [where ms = "[]", unfolded append_Nil2]

lemma dec_config_keys:
  "dec_config ''kind'' = dec_str pc_kind_update"
  "dec_config ''endpoint'' = dec_str pc_endpoint_update"
  "dec_config ''collection'' = dec_str pc_collection_update"
  "dec_config ''namespace'' = dec_str pc_namespace_update"
  "dec_config ''region'' = dec_str pc_region_update"
  "dec_config ''bucket'' = dec_str pc_bucket_update"
  "dec_config ''index'' = dec_str pc_index_update"
  "dec_config ''distance_metric'' = dec_str pc_distance_metric_update"
  "dec_config ''id_type'' = dec_str pc_id_type_update"
  "dec_config ''database'' = dec_str pc_database_update"
  "dec_config ''auth_database'' = dec_str pc_auth_database_update"
  "dec_config ''tenant'' = dec_str pc_tenant_update"
  "dec_config ''vector_field'' = dec_str pc_vector_field_update"
  "dec_config ''id_field'' = dec_str pc_id_field_update"
  "dec_config ''metadata_field'' = dec_str pc_metadata_field_update"
  "dec_config ''key_prefix'' = dec_str pc_key_prefix_update"
  by (simp_all add: fun_eq_iff dec_config_def)

lemma dec_creds_keys:
  "dec_creds ''api_key'' = dec_str cr_api_key_update"
  "dec_creds ''access_key_id'' = dec_str cr_access_key_id_update"
  "dec_creds ''secret_access_key'' = dec_str cr_secret_access_key_update"
  "dec_creds ''session_token'' = dec_str cr_session_token_update"
  "dec_creds ''username'' = dec_str cr_username_update"
  "dec_creds ''password'' = dec_str cr_password_update"
  by (simp_all add: fun_eq_iff dec_creds_def)

lemmas config_omit =
  omit_str [where f = dec_config, OF vault_plain(2) dec_config_keys(2)]
  omit_str [where f = dec_config, OF vault_plain(3) dec_config_keys(3)]
  omit_str [where f = dec_config, OF vault_plain(4) dec_config_keys(4)]
  omit_str [where f = dec_config, OF vault_plain(5) dec_config_keys(5)]
  omit_str [where f = dec_config, OF vault_plain(6) dec_config_keys(6)]
  omit_str [where f = dec_config, OF vault_plain(7) dec_config_keys(7)]
  omit_str [where f = dec_config, OF vault_plain(8) dec_config_keys(8)]
  omit_str [where f = dec_config, OF vault_plain(9) dec_config_keys(9)]
  omit_str [where f = dec_config, OF vault_plain(10) dec_config_keys(10)]
  omit_str [where f = dec_config, OF vault_plain(11) dec_config_keys(11)]
  omit_str [where f = dec_config, OF vault_plain(12) dec_config_keys(12)]
  omit_str [where f = dec_config, OF vault_plain(13) dec_config_keys(13)]
  omit_str [where f = dec_config, OF vault_plain(14) dec_config_keys(14)]
  omit_str [where f = dec_config, OF vault_plain(15) dec_config_keys(15)]
  omit_str_last [where f = dec_config, OF vault_plain(16) dec_config_keys(16)]

lemmas creds_omit =
  omit_str [where f = dec_creds, OF vault_plain(17) dec_creds_keys(1)]
  omit_str [where f = dec_creds, OF vault_plain(18) dec_creds_keys(2)]
  omit_str [where f = dec_creds, OF vault_plain(19) dec_creds_keys(3)]
  omit_str [where f = dec_creds, OF vault_plain(20) dec_creds_keys(4)]
  omit_str [where f = dec_creds, OF vault_plain(21) dec_creds_keys(5)]
  omit_str_last [where f = dec_creds, OF vault_plain(22) dec_creds_keys(6)]

lemma dec_config_members: "config_ok c \<Longrightarrow> dec_members dec_config (config_members c) zero_config = Some c"
  unfolding config_ok_def config_members_def zero_config_def
  by (simp add: config_omit dec_members_key vault_plain(1) dec_config_keys(1) dec_simps)

lemma dec_creds_members: "creds_ok s \<Longrightarrow> dec_members dec_creds (creds_members s) zero_creds = Some s"
  unfolding creds_ok_def creds_members_def zero_creds_def
  by (simp add: creds_omit)

lemma dec_definition_members:
  "valid_utf8 (df_label d) \<Longrightarrow> valid_utf8 (df_direction d) \<Longrightarrow> config_ok (df_config d) \<Longrightarrow> creds_ok (df_creds d) \<Longrightarrow>
   dec_members dec_definition (definition_members d) zero_definition = Some d"
  unfolding definition_members_def zero_definition_def
  by (simp add: dec_members_key vault_plain dec_simps dec_definition_def dec_struct_def config_json_def
      dec_config_members dec_creds_members)

lemma dec_personal_members: "personal_ok e \<Longrightarrow> dec_members dec_personal (entry_members e) zero_personal = Some e"
  unfolding personal_ok_def entry_members_def zero_personal_def
  by (simp add: dec_members_key vault_plain dec_simps dec_personal_def dec_struct_def dec_owner_members
      dec_definition_members)

lemma config_members_ok: "list_all (member_ok d) (config_members c)"
  by (simp add: config_members_def list_all_omit member_ok_key vault_plain field_ok)

lemma creds_members_ok: "list_all (member_ok d) (creds_members s)"
  by (simp add: creds_members_def list_all_omit member_ok_key vault_plain field_ok)

lemma definition_members_ok: "0 < d \<Longrightarrow> list_all (member_ok d) (definition_members x)"
  by (simp add: definition_members_def member_ok_key vault_plain field_ok json_ok_JObj config_json_def
      config_members_ok creds_members_ok del: json_ok.simps(6))

lemma entry_members_ok: "1 < d \<Longrightarrow> list_all (member_ok d) (entry_members e)"
  by (simp add: entry_members_def member_ok_key vault_plain field_ok json_ok_JObj owner_members_ok
      definition_members_ok del: json_ok.simps(6))

lemma unmarshal_marshal_personal:
  assumes "marshal_personal e = Inr b" "personal_ok e"
  shows "unmarshal_personal b = Some e"
proof -
  have b: "b = jprint (JObj (entry_members e))" using assms by (auto simp: marshal_personal_def split: if_splits)
  have "1 < max_nesting - 1" "0 < max_nesting" by (simp_all add: max_nesting_def)
  then have "json_ok max_nesting (JObj (entry_members e))"
    by (simp add: json_ok_JObj entry_members_ok del: json_ok.simps(6))
  then have "json_parse b = Some (JObj (entry_members e))" unfolding b by (rule json_parse_print)
  with dec_personal_members [OF assms(2)] show ?thesis by (simp add: unmarshal_personal_def dec_struct_def)
qed

subsection \<open>The cipher and the file\<close>

text \<open>What AES-GCM promises: a sealed text opens under the nonce and the associated data it was sealed with.\<close>

definition seals :: "vcrypto \<Rightarrow> bool" where
  "seals cr \<longleftrightarrow> (\<forall>n p a. vc_open cr n (vc_seal cr n p a) a = Some p)"

definition owner_named :: "owner \<Rightarrow> bool" where
  "owner_named w \<longleftrightarrow> o_id w \<noteq> [] \<and> o_subject w \<noteq> [] \<and> o_realm w \<noteq> []"

lemma file_opens:
  assumes cr: "seals cr"
    and n: "length n = nonce_size"
    and ok: "marshal_personal e = Inr plain" "personal_ok e"
    and owner: "owner_named (pe_owner e)"
  shows "vault_open_file cr (pe_id e) (CHR 0x01 # n @ vc_seal cr n plain (associated (pe_id e))) = Inr e"
  using n owner cr unmarshal_marshal_personal [OF ok]
  by (simp add: vault_open_file_def seals_def owner_named_def)

lemma persist_cases:
  assumes "persist cr nonce out e v = (r, v')"
  obtains (failed) err where "r = Some err" "v' = v"
  | (written) plain n where "marshal_personal e = Inr plain" "nonce = Inr n"
      "vt_files v' = (vt_files v)(pe_id e \<mapsto> CHR 0x01 # n @ vc_seal cr n plain (associated (pe_id e)))"
      "vt_entries v' = vt_entries v" "vt_bindings v' = vt_bindings v" "vt_realm v' = vt_realm v"
      "vt_poison v' = (if r = None then vt_poison v else Some ErrVaultUnavailable)"
proof (cases "marshal_personal e")
  case (Inl a)
  with assms show ?thesis by (intro failed) (auto simp: persist_def)
next
  case (Inr plain)
  show ?thesis
  proof (cases nonce)
    case (Inl a)
    with assms Inr show ?thesis by (intro failed) (auto simp: persist_def)
  next
    case n: (Inr n)
    show ?thesis
    proof (cases out)
      case PersistFail
      with assms Inr n show ?thesis by (intro failed) (auto simp: persist_def Let_def)
    qed (use assms Inr n in \<open>auto simp: persist_def Let_def intro!: written\<close>)
  qed
qed

subsection \<open>Memory and directory agree\<close>

text \<open>
  While the vault is not poisoned, the directory has exactly one file per connection, and the file
  opens to the connection's entry; the binding in memory is the one the entry opens to. \<open>hs\<close> is the
  connector object of each connection.
\<close>

definition vault_synced :: "vault_env \<Rightarrow> (string \<Rightarrow> nat) \<Rightarrow> vault \<Rightarrow> bool" where
  "vault_synced env hs v \<longleftrightarrow>
     dom (vt_files v) = dom (vt_entries v) \<and> dom (vt_bindings v) = dom (vt_entries v)
     \<and> (\<forall>cid e. vt_entries v cid = Some e \<longrightarrow> pe_id e = cid \<and> personal_name cid
          \<and> (\<exists>data. vt_files v cid = Some data \<and> vault_open_file (ve_crypto env) cid data = Inr e)
          \<and> (\<exists>b. vt_bindings v cid = Some b \<and> personal_binding env (hs cid) e = Inr b))"

lemma vault_synced_empty: "vault_synced env hs (empty_vault realm)"
  by (simp add: vault_synced_def empty_vault_def)

lemma vault_synced_put:
  assumes s: "vault_synced env hs v"
    and e: "pe_id e = cid" "personal_name cid" "vault_open_file (ve_crypto env) cid data = Inr e"
    and b: "personal_binding env h e = Inr b"
    and v': "vt_files v' = (vt_files v)(cid \<mapsto> data)" "vt_entries v' = (vt_entries v)(cid \<mapsto> e)"
      "vt_bindings v' = (vt_bindings v)(cid \<mapsto> b)"
  shows "vault_synced env (hs(cid := h)) v'"
  using s e b unfolding vault_synced_def v' by auto

lemma vault_synced_drop:
  assumes "vault_synced env hs v"
  shows "vault_synced env hs (v\<lparr>vt_files := (vt_files v)(cid := None), vt_bindings := (vt_bindings v)(cid := None),
           vt_entries := (vt_entries v)(cid := None)\<rparr>)"
  using assms by (auto simp: vault_synced_def)

end
