(* ===== verification/Store_Properties.thy ===== *)
theory Store_Properties
  imports Store_Invariants
begin

section \<open>Properties of the store\<close>

text \<open>
  What a caller of the store may rely on: a journal that survives a crash at any byte of a write and
  shows tampering, idempotent submission, a claim that is fair and never starts two hosted jobs on
  one sink resource, recovery, and pages of events that neither lose nor repeat an event.
\<close>

subsection \<open>Reading events\<close>

definition job_events :: "string \<Rightarrow> int \<Rightarrow> string \<Rightarrow> event list" where
  "job_events jid after file =
     map en_event (filter (\<lambda>e. j_id (en_job e) = jid \<and> after < ev_sequence (en_event e)) (decode_lines file))"

lemma events_loop_decode:
  "read_lines (replay_step sha) st off s = Inr r \<Longrightarrow>
   events_loop jid after limit acc s = Inr (acc @ take (nat limit - length acc) (job_events jid after s))"
proof (induction "replay_step sha" st off s arbitrary: acc rule: read_lines.induct)
  case (1 st off s)
  show ?case
  proof (cases "int (length acc) < limit")
    case False
    then have "nat limit - length acc = 0" by simp
    with False show ?thesis by (subst events_loop.simps) simp
  next
    case True
    then obtain m where m: "nat limit - length acc = Suc m" by (cases "nat limit - length acc") auto
    show ?thesis
    proof (cases "split_line s")
      case None
      then have "decode_lines s = []" by (subst decode_lines.simps) simp
      with None True show ?thesis by (subst events_loop.simps) (simp add: job_events_def)
    next
      case (Some p)
      obtain l q where p: "p = (l, q)" by force
      with Some 1(2) obtain st1 where st1: "replay_step sha st l = Some st1"
          "read_lines (replay_step sha) st1 (off + length l) q = Inr r"
        by (simp add: read_lines.simps [of "replay_step sha" st off s] split: option.splits)
      from st1(1) obtain e where e: "unmarshal_entry l = Some e"
        by (auto simp: replay_step_def split: option.splits)
      have d: "decode_lines s = e # decode_lines q"
        using Some p e by (subst decode_lines.simps) simp
      note IH = 1(1) [OF Some p [symmetric] st1]
      show ?thesis
      proof (cases "j_id (en_job e) = jid \<and> after < ev_sequence (en_event e)")
        case True
        have "events_loop jid after limit acc s = events_loop jid after limit (acc @ [en_event e]) q"
          using Some p e True \<open>int (length acc) < limit\<close> by (subst events_loop.simps) simp
        moreover have "nat limit - length (acc @ [en_event e]) = m" using m by simp
        ultimately show ?thesis using IH [of "acc @ [en_event e]"] True d m by (simp add: job_events_def)
      next
        case False
        have "events_loop jid after limit acc s = events_loop jid after limit acc q"
          using Some p e False \<open>int (length acc) < limit\<close> by (subst events_loop.simps) auto
        then show ?thesis using IH [of acc] False d by (auto simp: job_events_def)
      qed
    qed
  qed
qed

lemma events_durable:
  assumes "durable sha st" "s_jobs st jid = Some j"
  shows "events jid after limit None st = Inr (take (nat limit) (job_events jid after (s_file st)))"
proof -
  from assms(1) obtain r where "read_lines (replay_step sha) empty_jstate 0 (s_file st) = Inr r"
    by (auto simp: durable_def)
  from events_loop_decode [OF this, of jid after limit "[]"] assms(2) show ?thesis
    by (simp add: events_def guard_def)
qed

lemma sorted_split_filter:
  assumes "sorted_wrt (\<lambda>a b. f a < (f b :: int)) xs" "n \<le> length xs" "0 < n"
  shows "filter (\<lambda>x. f (xs ! (n - 1)) < f x) xs = drop n xs"
proof -
  have "filter (\<lambda>x. f (xs ! (n - 1)) < f x) (take n xs @ drop n xs) = drop n xs"
  proof -
    have "filter (\<lambda>x. f (xs ! (n - 1)) < f x) (take n xs) = []"
      unfolding filter_empty_conv
    proof (intro ballI)
      fix x assume "x \<in> set (take n xs)"
      then obtain i where i: "i < n" "x = xs ! i" using assms(2) by (auto simp: in_set_conv_nth)
      have "i < n - 1 \<Longrightarrow> f (xs ! i) < f (xs ! (n - 1))"
        using sorted_wrt_nth_less [OF assms(1), of i "n - 1"] assms(2,3) by simp
      moreover have "i < n - 1 \<or> i = n - 1" using i(1) by linarith
      ultimately show "\<not> f (xs ! (n - 1)) < f x" using i(2) by auto
    qed
    moreover have "filter (\<lambda>x. f (xs ! (n - 1)) < f x) (drop n xs) = drop n xs"
    proof (rule filter_True, intro ballI)
      fix x assume "x \<in> set (drop n xs)"
      then obtain i where "i < length xs - n" "x = drop n xs ! i" by (auto simp: in_set_conv_nth)
      then have "n + i < length xs" "x = xs ! (n + i)" by simp_all
      then show "f (xs ! (n - 1)) < f x" using assms sorted_wrt_nth_less [OF assms(1), of "n - 1" "n + i"] by auto
    qed
    ultimately show ?thesis by (simp only: filter_append append_Nil)
  qed
  then show ?thesis by simp
qed

lemma job_events_sorted:
  assumes "durable sha st"
  shows "sorted_wrt (\<lambda>a b. ev_sequence a < ev_sequence b) (job_events jid after (s_file st))"
proof -
  from assms obtain s n tail where "read_lines (replay_step sha) empty_jstate 0 (s_file st) = Inr (s, n, tail)"
    by (auto simp: durable_def)
  from chain_sorted [OF read_lines_chain [OF this]] show ?thesis
    by (simp add: job_events_def sorted_wrt_map sorted_wrt_filter)
qed

lemma job_events_after:
  "after \<le> a \<Longrightarrow> job_events jid a file = filter (\<lambda>e. a < ev_sequence e) (job_events jid after file)"
  unfolding job_events_def filter_map filter_filter o_def by (rule arg_cong [where f = "map en_event"], rule filter_cong) auto

lemma job_events_greater: "e \<in> set (job_events jid after file) \<Longrightarrow> after < ev_sequence e"
  by (auto simp: job_events_def)

subsection \<open>Recovery\<close>

definition recovered :: "time \<Rightarrow> job \<Rightarrow> job" where
  "recovered now j = (if j_state j = ''cancel_requested'' then j\<lparr>j_state := ''canceled'', j_updated_at := now\<rparr>
     else j\<lparr>j_state := ''queued'', j_updated_at := now\<rparr>)"

lemma recover_fn_frozen: "recover_fn j = Inr j' \<Longrightarrow> frozen j j'"
  by (auto simp: recover_fn_def frozen_def)

lemma recover_fn_recovered: "recover_fn j = Inr j' \<Longrightarrow> j'\<lparr>j_updated_at := now\<rparr> = recovered now j"
  by (auto simp: recover_fn_def recovered_def)

lemma recover_loop_jobs:
  "recover_loop sha ios js st = (Inr (), st') \<Longrightarrow> keyed (s_jobs st) \<Longrightarrow> distinct (map j_id js) \<Longrightarrow>
   (\<And>j. j \<in> set js \<Longrightarrow> s_jobs st (j_id j) = Some j) \<Longrightarrow>
   s_jobs st' k = (case s_jobs st k of None \<Rightarrow> None
     | Some j \<Rightarrow> Some (if j \<in> set js \<and> hosted_active j then recovered (io_now (ios k)) j else j))"
proof (induction sha ios js st rule: recover_loop.induct)
  case (1 sha ios st)
  then show ?case by (auto split: option.split)
next
  case (2 sha ios j js st)
  show ?case
  proof (cases "hosted_active j")
    case False
    then have skip: "sp_worker_id (j_spec j) \<noteq> [] \<or> \<not> active j" by (auto simp: hosted_active_def)
    have "s_jobs st' k = (case s_jobs st k of None \<Rightarrow> None
       | Some j \<Rightarrow> Some (if j \<in> set js \<and> hosted_active j then recovered (io_now (ios k)) j else j))"
      using 2(1) [OF skip] 2(3-) skip by simp
    with False show ?thesis by (auto split: option.split)
  next
    case True
    then have act: "\<not> (sp_worker_id (j_spec j) \<noteq> [] \<or> \<not> active j)" by (auto simp: hosted_active_def)
    obtain r st1 where u: "update sha (ios (j_id j)) (j_id j) ''recovered'' ''worker''
         ''Recovered interrupted job from its last acknowledged checkpoint'' [] recover_fn st = (r, st1)" by force
    with 2(3) act have r: "\<exists>x. r = Inr x" "recover_loop sha ios js st1 = (Inr (), st')"
      by (auto split: sum.splits)
    have j: "s_jobs st (j_id j) = Some j" using 2(6) by simp
    from r(1) obtain x where rx: "r = Inr x" by blast
    have jobs: "s_jobs st1 = (s_jobs st)(j_id j \<mapsto> recovered (io_now (ios (j_id j))) j)"
    proof (cases rule: update_jobs [OF u 2(4) recover_fn_frozen])
      case (3 i i')
      then show ?thesis using j recover_fn_recovered [OF 3(2)] by simp
    qed (use rx in simp_all)
    have fro: "frozen j (recovered (io_now (ios (j_id j))) j)" by (auto simp: frozen_def recovered_def)
    have k1: "keyed (s_jobs st1)" unfolding jobs using 2(4) j fro by (rule keyed_update)
    have notin: "j_id j \<notin> j_id ` set js" using 2(5) by auto
    have inj: "s_jobs st1 (j_id i) = Some i" if "i \<in> set js" for i
    proof -
      have "j_id i \<noteq> j_id j" using that notin by (metis image_eqI)
      then show ?thesis using 2(6) that by (simp add: jobs)
    qed
    have "distinct (map j_id js)" using 2(5) by simp
    from 2(2) [OF act u [symmetric] rx r(2) k1 this inj]
    have IH: "s_jobs st' k = (case s_jobs st1 k of None \<Rightarrow> None
       | Some j \<Rightarrow> Some (if j \<in> set js \<and> hosted_active j then recovered (io_now (ios k)) j else j))" .
    show ?thesis
    proof (cases "k = j_id j")
      case True
      have "\<not> hosted_active (recovered (io_now (ios k)) j)" by (simp add: recovered_def hosted_active_def active_def)
      with True IH j \<open>hosted_active j\<close> show ?thesis by (simp add: jobs)
    next
      case False
      with IH keyedD [OF 2(4)] show ?thesis by (auto simp: jobs split: option.splits)
    qed
  qed
qed

subsection \<open>Replay without faults\<close>

lemma replay_exact:
  assumes "read_lines (replay_step sha) empty_jstate 0 file = Inr (view st, m, tail)" "s_poison st = None"
    and "(if tail = [] then file else take m file) = s_file st"
  shows "replay sha no_faults file = Inr st"
  using assms by (cases st; cases "tail = []") (simp_all add: replay_def no_faults_def guard_def view_def)

lemma read_lines_length:
  "read_lines step st off s = Inr (st', off', tail) \<Longrightarrow> off' + length tail = off + length s"
proof (induction step st off s rule: read_lines.induct)
  case (1 step st off s)
  show ?case
  proof (cases "split_line s")
    case None
    with 1(2) show ?thesis by (simp add: read_lines.simps [of step st off s])
  next
    case (Some p)
    obtain l r where p: "p = (l, r)" by force
    with Some 1(2) obtain st1 where st1: "step st l = Some st1"
        "read_lines step st1 (off + length l) r = Inr (st', off', tail)"
      by (simp add: read_lines.simps [of step st off s] split: option.splits)
    have "s = l @ r" using split_line_Some(1) Some p by blast
    with 1(1) [OF Some p [symmetric] st1] show ?thesis by simp
  qed
qed

lemma replay_view:
  "read_lines (replay_step sha) empty_jstate 0 file = Inr (s, n, tail) \<Longrightarrow> replay sha no_faults file = Inr st \<Longrightarrow> view st = s"
  by (cases "tail = []") (auto simp: replay_def no_faults_def guard_def view_def)

subsection \<open>Concrete stores for the witnesses\<close>

definition empty_store :: store where
  "empty_store = \<lparr>s_jobs = Map.empty, s_sequence = 0, s_hash = [], s_file = [], s_poison = None\<rparr>"

definition demo_sha :: "string \<Rightarrow> string" where
  "demo_sha s = CHR ''h'' # s"

definition demo_io :: io where
  "demo_io = \<lparr>io_now = 0, io_write = WriteOk\<rparr>"

definition demo_spec :: spec where
  "demo_spec = \<lparr>sp_worker_id = [], sp_name = ''n'', sp_source = ''a'', sp_sink = ''b'', sp_dimension = 2,
     sp_batch_size = 100, sp_max_attempts = 5, sp_max_restarts = 3\<rparr>"

lemma empty_store_durable: "durable sha empty_store"
  by (simp add: durable_def empty_store_def read_lines_done view_def empty_jstate_def)

text \<open>What makes an entry writable, without computing its hash.\<close>

lemma valid_utf8_hex: "valid_utf8 (hex_encode s)"
proof (rule valid_utf8_ascii)
  show "list_all (\<lambda>c. byte c < 0x80) (hex_encode s)"
    using hex_encode_lower [of s] by (rule list.pred_mono_strong) (auto simp: is_hex_lower_def is_digit_def)
qed

definition string_args_ok :: "string list \<Rightarrow> bool" where
  "string_args_ok ss \<longleftrightarrow> list_all valid_utf8 ss"

lemma job_ok_updated: "job_ok j \<Longrightarrow> time_ok now \<Longrightarrow> job_ok (j\<lparr>j_updated_at := now\<rparr>)"
  by (simp add: job_ok_def)

lemma valid_canceled: "valid_utf8 ''canceled''"
  by code_simp

lemma journal_entry_ok:
  assumes "job_ok j" "time_ok now" "string_args_ok [kind, actor, message, digest, s_hash s]" "int64 (s_sequence s + 1)"
  shows "entry_ok (journal_entry sha now j kind actor message digest s)"
  using assms valid_canceled job_ok_updated [OF assms(1,2)]
  by (simp add: entry_ok_def event_ok_def journal_entry_def Let_def string_args_ok_def entry_hash_def
      valid_utf8_hex del: valid_utf8.simps) (simp add: job_ok_def del: valid_utf8.simps)

lemma zero_job_ok: "job_ok zero_job"
  by code_simp

lemma time_ok_0: "time_ok 0"
  by code_simp

lemma demo_entry_ok:
  "entry_ok (journal_entry sha (io_now demo_io) (zero_job\<lparr>j_id := ''a''\<rparr>) ''submitted'' ''x'' ''m'' [] (view empty_store))"
proof (rule journal_entry_ok)
  show "job_ok (zero_job\<lparr>j_id := ''a''\<rparr>)" by code_simp
  show "time_ok (io_now demo_io)" by (simp add: demo_io_def time_ok_0)
  show "string_args_ok [''submitted'', ''x'', ''m'', [], s_hash (view empty_store)]" by code_simp
  show "int64 (s_sequence (view empty_store) + 1)" by code_simp
qed

lemma empty_store_healthy: "s_poison empty_store = None"
  by (simp add: empty_store_def)

lemma store_append_succeeds:
  assumes "s_poison st = None" "entry_ok (journal_entry sha (io_now io) j kind actor message digest (view st))"
    and "io_write io = WriteOk"
  shows "fst (store_append sha io j kind actor message digest st) = Inr ()"
  using assms by (simp add: store_append_def Let_def marshal_entry_ok)

lemma inj_demo_sha: "inj_on demo_sha A"
  by (simp add: demo_sha_def inj_on_def)

subsection \<open>Properties\<close>

text \<open>C4: A crash during a write never loses or corrupts acknowledged state. Whatever an append did,
  reopening its journal succeeds; it gives exactly the store in memory when the append reported
  success, and otherwise the state before the append or the state with the one new entry.\<close>

theorem reopen_after_append:
  assumes "durable sha st" "s_poison st = None"
    and "entry_ok (journal_entry sha (io_now io) j kind actor message digest (view st))"
    and "store_append sha io j kind actor message digest st = (r, st')"
  shows "\<exists>st2. replay sha no_faults (s_file st') = Inr st2 \<and> (r = Inr () \<longrightarrow> st2 = st') \<and>
     (view st2 = view st \<or> view st2 = apply_entry (view st) (journal_entry sha (io_now io) j kind actor message digest (view st)))"
proof -
  let ?e = "journal_entry sha (io_now io) j kind actor message digest (view st)"
  have w: "writable sha (view st) ?e" using assms(3) by (rule journal_entry_writable)
  have d: "durable sha st'" using store_append_durable [OF assms(1,3)] assms(4) by (metis snd_conv)
  obtain n where healthy: "read_lines (replay_step sha) empty_jstate 0 (s_file st) = Inr (view st, n, [])"
    using assms(1,2) by (rule durable_healthy)
  obtain st2 where st2: "replay sha no_faults (s_file st') = Inr st2" "s_poison st' = None \<longrightarrow> st2 = st'"
    using d by (rule replay_durable)
  have views: "view st2 = view st \<or> view st2 = apply_entry (view st) ?e"
  proof (cases rule: store_append_cases [where sha = sha and io = io and j = j and kind = kind
        and actor = actor and message = message and digest = digest and st = st])
    case (written)
    then have "st' = snd (store_append sha io j kind actor message digest st)" using assms(4) by simp
    moreover have "view (snd (store_append sha io j kind actor message digest st)) = apply_entry (view st) ?e"
      unfolding written(4) snd_conv using view_written [where st = st and e = ?e] by (simp add: journal_entry_job)
    moreover have "s_poison st' = None" using written(1,4) assms(4) by auto
    ultimately show ?thesis using st2(2) by simp
  next
    case (failed k err)
    then have text_eq: "s_file st' = s_file st @ take k (entry_line ?e @ [newline])" using assms(4) by auto
    from journal.any_prefix [OF healthy w, of k] st2(1) replay_view show ?thesis
      unfolding text_eq by metis
  qed (use assms(2,4) st2(2) in auto)
  have "st2 = st'" if "r = Inr ()"
    using st2(2) store_append_Inr(2) [OF assms(4) [unfolded that]] by simp
  with st2(1) views show ?thesis by (intro exI [of _ st2] conjI impI)
qed

theorem reopen_after_append_witness:
  "\<exists>st2. replay demo_sha no_faults (s_file (snd (store_append demo_sha demo_io (zero_job\<lparr>j_id := ''a''\<rparr>) ''submitted'' ''x'' ''m'' [] empty_store))) = Inr st2
     \<and> st2 = snd (store_append demo_sha demo_io (zero_job\<lparr>j_id := ''a''\<rparr>) ''submitted'' ''x'' ''m'' [] empty_store)"
proof -
  let ?j = "zero_job\<lparr>j_id := ''a''\<rparr>"
  have ok: "entry_ok (journal_entry demo_sha (io_now demo_io) ?j ''submitted'' ''x'' ''m'' [] (view empty_store))"
    by (rule demo_entry_ok)
  have r: "fst (store_append demo_sha demo_io ?j ''submitted'' ''x'' ''m'' [] empty_store) = Inr ()"
    by (rule store_append_succeeds [OF empty_store_healthy ok]) (simp add: demo_io_def)
  from reopen_after_append [OF empty_store_durable empty_store_healthy ok prod.collapse [symmetric]] r
  show ?thesis by (elim exE conjE) (rule exI, rule conjI, assumption, erule (1) mp)
qed

text \<open>A torn write is undone by reopening: when a write stops before the end of its line, at any
  byte, replay truncates the journal to what it was and gives back the store before the append.\<close>

theorem torn_write_undone:
  assumes "durable sha st" "s_poison st = None" "io_write io = WriteFail n err"
    and "entry_ok (journal_entry sha (io_now io) j kind actor message digest (view st))"
    and "n \<le> length (entry_line (journal_entry sha (io_now io) j kind actor message digest (view st)))"
  shows "replay sha no_faults (s_file (snd (store_append sha io j kind actor message digest st))) = Inr st"
proof -
  let ?e = "journal_entry sha (io_now io) j kind actor message digest (view st)"
  have w: "writable sha (view st) ?e" using assms(4) by (rule journal_entry_writable)
  obtain m where healthy: "read_lines (replay_step sha) empty_jstate 0 (s_file st) = Inr (view st, m, [])"
    using assms(1,2) by (rule durable_healthy)
  have m: "m = length (s_file st)" using read_lines_length [OF healthy] by simp
  have marshal: "marshal_entry ?e = Inr (entry_line ?e)"
    using assms(4) by (simp add: marshal_entry_ok entry_line_def)
  have text_eq: "s_file (snd (store_append sha io j kind actor message digest st)) =
      s_file st @ take n (entry_line ?e @ [newline])"
    using assms(2,3) marshal by (simp add: store_append_def Let_def)
  have torn: "read_lines (replay_step sha) empty_jstate 0 (s_file st @ take n (entry_line ?e @ [newline])) =
      Inr (view st, m, take n (entry_line ?e))"
    using healthy w assms(5) by (rule journal.torn_line)
  have "take n (entry_line ?e @ [newline]) = take n (entry_line ?e)" using assms(5) by simp
  then have cut: "(if take n (entry_line ?e) = [] then s_file st @ take n (entry_line ?e @ [newline])
      else take m (s_file st @ take n (entry_line ?e @ [newline]))) = s_file st" using m by simp
  from replay_exact [OF torn assms(2) cut] show ?thesis unfolding text_eq .
qed

definition torn_io :: io where
  "torn_io = \<lparr>io_now = 0, io_write = WriteFail 1 (IOError ''disk full'')\<rparr>"

theorem torn_write_undone_witness:
  "replay demo_sha no_faults (s_file (snd (store_append demo_sha torn_io (zero_job\<lparr>j_id := ''a''\<rparr>) ''submitted'' ''x'' ''m'' [] empty_store))) = Inr empty_store"
proof (rule torn_write_undone [OF empty_store_durable empty_store_healthy])
  show "io_write torn_io = WriteFail 1 (IOError ''disk full'')" by (simp add: torn_io_def)
  have now: "io_now torn_io = io_now demo_io" by (simp add: torn_io_def demo_io_def)
  show "entry_ok (journal_entry demo_sha (io_now torn_io) (zero_job\<lparr>j_id := ''a''\<rparr>) ''submitted'' ''x'' ''m'' [] (view empty_store))"
    unfolding now by (rule demo_entry_ok)
  show "1 \<le> length (entry_line (journal_entry demo_sha (io_now torn_io) (zero_job\<lparr>j_id := ''a''\<rparr>) ''submitted'' ''x'' ''m'' [] (view empty_store)))"
    by (simp add: entry_line_def entry_json_def)
qed

text \<open>C6: The hash chain makes the journal tamper evident. Two journals that both replay to the same
  final hash hold the same entries and therefore the same jobs, as long as the hash has no collision
  among the texts the two journals hash.\<close>

theorem journal_tamper_evident:
  assumes "\<And>x. sha x \<noteq> []"
    and "replay sha fs f1 = Inr st1" "replay sha fs f2 = Inr st2" "s_hash st1 = s_hash st2"
    and "list_all entry_ok (decode_lines f1)" "list_all entry_ok (decode_lines f2)"
    and "inj_on sha (hash_text ` (set (decode_lines f1) \<union> set (decode_lines f2)))"
  shows "decode_lines f1 = decode_lines f2 \<and> s_jobs st1 = s_jobs st2"
proof -
  have read: "\<exists>s n tail. read_lines (replay_step sha) empty_jstate 0 f = Inr (s, n, tail) \<and> view st = s"
    if "replay sha fs f = Inr st" for f st
    using that by (cases "read_lines (replay_step sha) empty_jstate 0 f")
      (auto simp: replay_def guard_def view_def split: option.splits if_splits)
  from read [OF assms(2)] read_lines_chain
  have c1: "chain sha empty_jstate (decode_lines f1) = Some (view st1)" by blast
  from read [OF assms(3)] read_lines_chain
  have c2: "chain sha empty_jstate (decode_lines f2) = Some (view st2)" by blast
  have "s_hash (view st1) = s_hash (view st2)" using assms(4) by (simp add: view_def)
  from chain_unique [OF assms(1) c1 c2 this assms(5-7)] have eq: "decode_lines f1 = decode_lines f2" .
  with c1 c2 have "view st1 = view st2" by simp
  with eq show ?thesis by (simp add: view_def)
qed

definition demo_entry :: entry where
  "demo_entry = journal_entry demo_sha (io_now demo_io) (zero_job\<lparr>j_id := ''a''\<rparr>) ''submitted'' ''x'' ''m'' [] (view empty_store)"

definition demo_journal :: string where
  "demo_journal = entry_line demo_entry @ [newline]"

lemma demo_entry_writable: "writable sha s demo_entry \<longleftrightarrow> chained sha s demo_entry" "entry_ok demo_entry"
  using demo_entry_ok by (simp_all add: writable_def demo_entry_def)

lemma decode_demo_journal: "decode_lines demo_journal = [demo_entry]"
proof -
  have m: "marshal_entry demo_entry = Inr (entry_line demo_entry)"
    using demo_entry_writable(2) by (simp add: marshal_entry_ok entry_line_def)
  have "newline \<notin> set (entry_line demo_entry)" using marshal_no_newline [OF m] by (simp add: newline_def)
  then have "split_line demo_journal = Some (entry_line demo_entry @ [newline], [])"
    using split_line_newline [of "entry_line demo_entry" "[]"] by (simp add: demo_journal_def)
  moreover have "unmarshal_entry (entry_line demo_entry @ [newline]) = Some demo_entry"
    using unmarshal_marshal [OF m demo_entry_writable(2)] by (simp add: newline_def)
  moreover have "decode_lines [] = []" by (simp add: decode_lines.simps split_line_def)
  ultimately show ?thesis by (subst decode_lines.simps) simp
qed

lemma demo_journal_replays: "\<exists>st. replay demo_sha no_faults demo_journal = Inr st"
proof -
  have start: "read_lines (replay_step demo_sha) empty_jstate 0 [] = Inr (empty_jstate, 0, [])"
    by (simp add: read_lines_done)
  have "view empty_store = empty_jstate" by (simp add: view_def empty_store_def empty_jstate_def)
  then have "writable demo_sha empty_jstate demo_entry"
    using journal_entry_chained [of demo_sha empty_jstate] by (simp add: demo_entry_writable(1) demo_entry_def [symmetric])
      (simp add: demo_entry_def journal_entry_chained)
  from journal.whole_line [OF start this]
  have "\<exists>s n. read_lines (replay_step demo_sha) empty_jstate 0 demo_journal = Inr (s, n, [])"
    by (simp add: demo_journal_def)
  then show ?thesis by (auto simp: replay_def no_faults_def guard_def)
qed

theorem journal_tamper_evident_witness:
  "\<exists>st. replay demo_sha no_faults demo_journal = Inr st \<and> decode_lines demo_journal = decode_lines demo_journal
     \<and> s_jobs st = s_jobs st \<and> decode_lines demo_journal \<noteq> []"
proof -
  obtain st where st: "replay demo_sha no_faults demo_journal = Inr st" using demo_journal_replays by blast
  have ne: "demo_sha x \<noteq> []" for x by (simp add: demo_sha_def)
  have ok: "list_all entry_ok (decode_lines demo_journal)"
    by (simp add: decode_demo_journal demo_entry_writable)
  from journal_tamper_evident [OF ne st st refl ok ok inj_demo_sha] st show ?thesis
    by (auto simp: decode_demo_journal)
qed

text \<open>C10: Submission is idempotent. When a create has returned a job for a nonempty key, then in every
  later store in which that job still exists with its identity (operations only change the other
  fields), the same request returns that job again and writes nothing, whatever the iteration
  order, clock and random source do.\<close>

theorem create_idempotent:
  assumes "key \<noteq> []" "keyed (s_jobs st)"
    and "create sha io ks rnd created spec sfp kfp res key actor owners st = (Inr (j, new), st1)"
    and "jobs_wf (s_jobs st2)" "s_jobs st2 (j_id j) = Some j2" "frozen j j2" "s_poison st2 = None"
    and "range_order ks2 (s_jobs st2)"
  shows "create sha io2 ks2 rnd2 created2 spec sfp kfp res2 key actor2 owners st2 = (Inr (j2, False), st2)"
proof -
  have j: "j_idempotency_key j = key" "j_owner j = first_owner owners" "j_spec j = spec" "j_source_fp j = sfp" "j_sink_fp j = kfp"
    by (cases rule: create_cases [OF assms(3)]; auto)+
  then have j2: "j_idempotency_key j2 = key" "j_owner j2 = first_owner owners" "j_spec j2 = spec"
      "j_source_fp j2 = sfp" "j_sink_fp j2 = kfp"
    using assms(6) by (simp_all add: frozen_def)
  have mem: "j2 \<in> set (range_vals ks2 (s_jobs st2))"
    using assms(5) set_range_order [OF assms(8)] by (auto simp: ran_def)
  have only: "i = j2" if "i \<in> set (range_vals ks2 (s_jobs st2))" "create_matches key (first_owner owners) i" for i
  proof -
    from that(1) obtain b where b: "s_jobs st2 b = Some i" by (auto simp: set_range_vals)
    have "j_idempotency_key i = key" "j_owner i = first_owner owners" using that(2) by (simp_all add: create_matches_iff)
    then have "b = j_id j"
      using assms(1,4,5) b j2 unfolding jobs_wf_def keys_unique_def by metis
    with b assms(5) show ?thesis by simp
  qed
  have "find (create_matches key (first_owner owners)) (range_vals ks2 (s_jobs st2)) = Some j2"
  proof (cases "find (create_matches key (first_owner owners)) (range_vals ks2 (s_jobs st2))")
    case None
    with mem j2 show ?thesis by (auto simp: find_None_iff create_matches_iff)
  next
    case (Some i)
    then have "i \<in> set (range_vals ks2 (s_jobs st2))" "create_matches key (first_owner owners) i"
      by (auto simp: find_Some_iff)
    with only Some show ?thesis by simp
  qed
  with assms(1,7) j2 show ?thesis by (simp add: create_def)
qed

definition demo_create :: "(job \<times> bool) result \<times> store" where
  "demo_create = create demo_sha demo_io [] (Inr ''i'') 0 demo_spec ''f'' ''g'' ''r'' ''k'' ''x'' [] empty_store"

definition demo_job :: job where
  "demo_job = new_job 0 0 None (hex_encode ''i'') demo_spec ''f'' ''g'' ''r'' ''k'' ''x''"

lemma demo_create_eq:
  obtains st1 where "demo_create = (Inr (demo_job, True), st1)" "s_poison st1 = None"
    "s_jobs st1 = [hex_encode ''i'' \<mapsto> demo_job]"
proof -
  obtain r st1 where c: "demo_create = (r, st1)" by force
  let ?j = "zero_job\<lparr>j_owner := None, j_id := hex_encode ''i'', j_spec := demo_spec, j_state := ''queued'',
      j_created_at := 0, j_created_by := ''x'', j_source_fp := ''f'', j_sink_fp := ''g'',
      j_sink_resource := ''r'', j_idempotency_key := ''k''\<rparr>"
  have ok: "entry_ok (journal_entry demo_sha (io_now demo_io) ?j ''submitted'' ''x'' ''Job submitted'' [] (view empty_store))"
  proof (rule journal_entry_ok)
    show "job_ok ?j" by code_simp
    show "time_ok (io_now demo_io)" by (simp add: demo_io_def time_ok_0)
    show "string_args_ok [''submitted'', ''x'', ''Job submitted'', [], s_hash (view empty_store)]" by code_simp
    show "int64 (s_sequence (view empty_store) + 1)" by code_simp
  qed
  have w: "io_write demo_io = WriteOk" by (simp add: demo_io_def)
  obtain st3 where a: "store_append demo_sha demo_io ?j ''submitted'' ''x'' ''Job submitted'' [] empty_store = (Inr (), st3)"
    using store_append_succeeds [OF empty_store_healthy ok w] by (metis prod.collapse)
  note f = store_append_Inr [OF a]
  have jobs: "s_jobs st3 = [hex_encode ''i'' \<mapsto> demo_job]"
    using f(3) by (simp add: empty_store_def demo_job_def new_job_def demo_io_def)
  have "demo_create = (Inr (demo_job, True), st3)"
    unfolding demo_create_def create_def using a jobs
    by (simp add: empty_store_healthy first_owner_def Let_def del: hex_encode.simps)
  with f(2) jobs show thesis by (rule that [rotated 1])
qed

lemma singleton_jobs_wf: "j_id j = k \<Longrightarrow> k \<noteq> [] \<Longrightarrow> jobs_wf [k \<mapsto> j]"
  by (auto simp: jobs_wf_def keyed_def keys_unique_def exclusive_def)

theorem create_idempotent_witness:
  "create demo_sha torn_io [hex_encode ''i''] (Inl (IOError ''rand'')) 7 demo_spec ''f'' ''g'' ''r'' ''k'' ''y'' [] (snd demo_create)
     = (Inr (demo_job, False), snd demo_create)"
proof -
  obtain st1 where d: "demo_create = (Inr (demo_job, True), st1)" "s_poison st1 = None"
      "s_jobs st1 = [hex_encode ''i'' \<mapsto> demo_job]" by (rule demo_create_eq)
  have k: "keyed (s_jobs empty_store)" by (simp add: empty_store_def keyed_def)
  have wf: "jobs_wf (s_jobs st1)" unfolding d(3) by (rule singleton_jobs_wf) (simp_all add: demo_job_def)
  have j: "s_jobs st1 (j_id demo_job) = Some demo_job" unfolding d(3) by (simp add: demo_job_def)
  have ks: "range_order [hex_encode ''i''] (s_jobs st1)" unfolding d(3) by (simp add: range_order_def)
  have "create demo_sha torn_io [hex_encode ''i''] (Inl (IOError ''rand'')) 7 demo_spec ''f'' ''g'' ''r'' ''k'' ''y'' [] st1
      = (Inr (demo_job, False), st1)"
    by (rule create_idempotent [OF _ k d(1) [unfolded demo_create_def] wf j frozen_refl d(2) ks]) simp
  then show ?thesis unfolding d(1) snd_conv .
qed

text \<open>A claim is fair and sound. It takes a hosted job that is queued or whose retry time has come,
  whose sink resource no active job uses, and that no other such job precedes by creation time; it
  marks exactly that job as running and changes no other job. When it takes none, there is none.\<close>

theorem claim_oldest:
  assumes "keyed (s_jobs st)" "range_order ks (s_jobs st)" "range_order ls (s_jobs st)"
    and "claim sha io clk ks ls st = (Inr (j, found), st')"
  shows "if found
     then \<exists>i. s_jobs st (j_id i) = Some i \<and> j = started (io_now io) i \<and> sp_worker_id (j_spec i) = []
       \<and> (j_state i = ''queued'' \<or> due (clk (j_id i)) i)
       \<and> (\<forall>k a. s_jobs st k = Some a \<and> active a \<longrightarrow> j_sink_resource a \<noteq> j_sink_resource i)
       \<and> (\<forall>k a. s_jobs st k = Some a \<and> claimable clk (busy ks st) a \<longrightarrow> j_created_at i \<le> j_created_at a)
       \<and> s_jobs st' = (s_jobs st)(j_id i \<mapsto> started (io_now io) i)
     else st' = st \<and> (\<forall>k a. s_jobs st k = Some a \<longrightarrow> \<not> claimable clk (busy ks st) a)"
  using claim_cases [OF assms(4,1)]
proof cases
  case 2
  have "\<forall>k a. s_jobs st k = Some a \<longrightarrow> \<not> claimable clk (busy ks st) a"
    using 2(4) set_range_order [OF assms(3)] by (auto simp: ran_def)
  with 2 show ?thesis by simp
next
  case (3 i)
  have "claimable clk (busy ks st) i" using 3(1) pick_least_mem by fastforce
  then have i: "sp_worker_id (j_spec i) = []" "j_state i = ''queued'' \<or> due (clk (j_id i)) i"
      "j_sink_resource i \<notin> set (busy ks st)" by (simp_all add: claimable_def)
  have oldest: "j_created_at i \<le> j_created_at a" if "s_jobs st k = Some a" "claimable clk (busy ks st) a" for k a
    using pick_least_le [OF 3(1)] that set_range_order [OF assms(3)] by (auto simp: ran_def)
  have "\<forall>k a. s_jobs st k = Some a \<and> active a \<longrightarrow> j_sink_resource a \<noteq> j_sink_resource i"
    using i(3) busy_iff [OF assms(2)] by metis
  with i oldest 3 show ?thesis by auto
qed simp

definition demo_store :: store where
  "demo_store = empty_store\<lparr>s_jobs := [''69'' \<mapsto> demo_job]\<rparr>"

lemma demo_job_id: "j_id demo_job = ''69''"
  by code_simp

lemma demo_store_wf: "jobs_wf (s_jobs demo_store)" "range_order [''69''] (s_jobs demo_store)" "s_poison demo_store = None"
proof -
  have "jobs_wf [''69'' \<mapsto> demo_job]" by (rule singleton_jobs_wf [OF demo_job_id]) simp
  then show "jobs_wf (s_jobs demo_store)" by (simp add: demo_store_def)
qed (simp_all add: demo_store_def range_order_def empty_store_def)

lemma demo_claim:
  obtains st' where "claim demo_sha demo_io (\<lambda>_. 0) [''69''] [''69''] demo_store = (Inr (started 0 demo_job, True), st')"
    "s_jobs st' = [''69'' \<mapsto> started 0 demo_job]"
proof -
  obtain r st' where c: "claim demo_sha demo_io (\<lambda>_. 0) [''69''] [''69''] demo_store = (r, st')" by force
  let ?j = "demo_job\<lparr>j_state := ''running'', j_phase := ''starting'', j_next_run_at := None,
      j_runs := j_runs demo_job + 1, j_error := []\<rparr>"
  have vals: "range_vals [''69''] (s_jobs demo_store) = [demo_job]" by (simp add: range_vals_Cons demo_store_def)
  have "claimable (\<lambda>_. 0) (busy [''69''] demo_store) demo_job"
    unfolding busy_def vals by code_simp
  then have pick: "pick_job (claimable (\<lambda>_. 0) (busy [''69''] demo_store)) zero_job (range_vals [''69''] (s_jobs demo_store)) = demo_job"
    unfolding vals by (simp add: zero_job_def)
  have ok: "entry_ok (journal_entry demo_sha (io_now demo_io) ?j ''started'' ''worker'' ''Transfer execution started'' [] (view demo_store))"
  proof (rule journal_entry_ok)
    show "job_ok ?j" by code_simp
    show "time_ok (io_now demo_io)" by (simp add: demo_io_def time_ok_0)
    show "string_args_ok [''started'', ''worker'', ''Transfer execution started'', [], s_hash (view demo_store)]" by code_simp
    show "int64 (s_sequence (view demo_store) + 1)" by code_simp
  qed
  have w: "io_write demo_io = WriteOk" by (simp add: demo_io_def)
  obtain st3 where a: "store_append demo_sha demo_io ?j ''started'' ''worker'' ''Transfer execution started'' [] demo_store = (Inr (), st3)"
    using store_append_succeeds [OF demo_store_wf(3) ok w] by (metis prod.collapse)
  note f = store_append_Inr [OF a]
  have jobs: "s_jobs st3 = [''69'' \<mapsto> started 0 demo_job]"
    using f(3) by (simp add: demo_job_id) (simp add: demo_store_def started_def demo_io_def)
  have "claim demo_sha demo_io (\<lambda>_. 0) [''69''] [''69''] demo_store = (Inr (started 0 demo_job, True), st3)"
    unfolding claim_def pick Let_def using a jobs by (simp add: demo_store_wf(3) demo_job_id)
  with jobs show thesis by (rule that [rotated 1])
qed

theorem claim_oldest_witness:
  "\<exists>i st'. claim demo_sha demo_io (\<lambda>_. 0) [''69''] [''69''] demo_store = (Inr (started 0 demo_job, True), st')
     \<and> s_jobs demo_store (j_id i) = Some i \<and> started 0 demo_job = started 0 i \<and> (j_state i = ''queued'' \<or> due 0 i)"
proof -
  obtain st' where c: "claim demo_sha demo_io (\<lambda>_. 0) [''69''] [''69''] demo_store = (Inr (started 0 demo_job, True), st')"
    by (rule demo_claim)
  note o = claim_oldest [OF jobs_wf_keyed [OF demo_store_wf(1)] demo_store_wf(2) demo_store_wf(2) c]
  have "io_now demo_io = 0" by (simp add: demo_io_def)
  with o c show ?thesis unfolding if_True by metis
qed

text \<open>C5: Two hosted jobs never run on one sink resource. Creating, updating, claiming and recovering
  jobs keep the invariant that at most one hosted job is active per resource, together with unique
  identifiers and unique idempotency keys per owner.\<close>

theorem claim_keeps_exclusive:
  assumes "jobs_wf (s_jobs st)" "range_order ks (s_jobs st)" "claim sha io clk ks ls st = (r, st')"
  shows "jobs_wf (s_jobs st') \<and> (\<forall>a b i j. s_jobs st' a = Some i \<and> s_jobs st' b = Some j \<and> a \<noteq> b
     \<and> hosted_active i \<and> hosted_active j \<longrightarrow> j_sink_resource i \<noteq> j_sink_resource j)"
proof -
  have wf: "jobs_wf (s_jobs st')" using assms by (rule claim_jobs_wf)
  then have "exclusive (s_jobs st')" by (simp add: jobs_wf_def)
  with wf show ?thesis unfolding exclusive_def by blast
qed

theorem claim_keeps_exclusive_witness:
  "\<exists>st'. snd (claim demo_sha demo_io (\<lambda>_. 0) [''69''] [''69''] demo_store) = st' \<and> jobs_wf (s_jobs st')
     \<and> s_jobs st' ''69'' = Some (started 0 demo_job)"
proof -
  obtain st' where c: "claim demo_sha demo_io (\<lambda>_. 0) [''69''] [''69''] demo_store = (Inr (started 0 demo_job, True), st')"
    "s_jobs st' = [''69'' \<mapsto> started 0 demo_job]" by (rule demo_claim)
  from claim_keeps_exclusive [OF demo_store_wf(1,2) c(1)] c show ?thesis by simp
qed

text \<open>Event pages neither lose nor repeat an event. Reading a full page and then a page after the
  last sequence number seen gives the same events as one larger page.\<close>

theorem events_pages:
  assumes "durable sha st" "s_jobs st jid = Some j" "0 < m" "0 \<le> n"
    and "events jid after m None st = Inr p" "int (length p) = m"
    and "events jid (ev_sequence (last p)) n None st = Inr q"
  shows "events jid after (m + n) None st = Inr (p @ q)"
proof -
  let ?E = "job_events jid after (s_file st)"
  have p: "p = take (nat m) ?E" using events_durable [OF assms(1,2)] assms(5) by simp
  have len: "nat m \<le> length ?E" "0 < nat m" using p assms(3,6) by auto
  have ne: "p \<noteq> []" and lp: "length p = nat m" using assms(3,6) by auto
  have last: "last p = ?E ! (nat m - 1)" unfolding last_conv_nth [OF ne] lp using p len(2) by simp
  have "?E ! (nat m - 1) \<in> set ?E" using len by simp
  then have "after \<le> ev_sequence (last p)" unfolding last by (intro less_imp_le job_events_greater)
  then have "job_events jid (ev_sequence (last p)) (s_file st) = drop (nat m) ?E"
    using sorted_split_filter [OF job_events_sorted [OF assms(1)] len] by (simp add: job_events_after last)
  then have q: "q = take (nat n) (drop (nat m) ?E)" using events_durable [OF assms(1,2)] assms(7) by simp
  have "nat (m + n) = nat m + nat n" using assms(3,4) by (simp add: nat_add_distrib)
  then show ?thesis using events_durable [OF assms(1,2)] p q by (simp add: take_add)
qed

lemma demo_appended:
  obtains st1 where "durable demo_sha st1" "s_jobs st1 ''a'' = Some (zero_job\<lparr>j_id := ''a'', j_updated_at := 0\<rparr>)"
    "s_file st1 = demo_journal"
proof -
  let ?a = "store_append demo_sha demo_io (zero_job\<lparr>j_id := ''a''\<rparr>) ''submitted'' ''x'' ''m'' [] empty_store"
  have w: "io_write demo_io = WriteOk" by (simp add: demo_io_def)
  have a: "?a = (Inr (), snd ?a)"
    using store_append_succeeds [OF empty_store_healthy demo_entry_ok w] by (metis prod.collapse)
  have d: "durable demo_sha (snd ?a)" by (rule store_append_durable [OF empty_store_durable demo_entry_ok])
  have jb: "s_jobs (snd ?a) ''a'' = Some (zero_job\<lparr>j_id := ''a'', j_updated_at := 0\<rparr>)"
    using store_append_Inr(3) [OF a] by (simp add: demo_io_def)
  have m: "marshal_entry demo_entry = Inr (entry_line demo_entry)"
    using demo_entry_writable(2) by (simp add: marshal_entry_ok entry_line_def)
  have f: "s_file (snd ?a) = demo_journal"
    using m by (simp add: store_append_def Let_def empty_store_healthy w demo_journal_def demo_entry_def [symmetric])
      (simp add: empty_store_def)
  from d jb f show thesis by (rule that)
qed

theorem events_pages_witness:
  "\<exists>st1. s_file st1 = demo_journal \<and> events ''a'' 0 (1 + 1) None st1 = Inr ([en_event demo_entry] @ [])"
proof -
  obtain st1 where st1: "durable demo_sha st1" "s_jobs st1 ''a'' = Some (zero_job\<lparr>j_id := ''a'', j_updated_at := 0\<rparr>)"
    "s_file st1 = demo_journal" by (rule demo_appended)
  have seq: "ev_sequence (en_event demo_entry) = 1"
    by (simp add: demo_entry_def journal_entry_def Let_def view_def empty_store_def)
  have eid: "j_id (en_job demo_entry) = ''a''" by (simp add: demo_entry_def journal_entry_job)
  have "job_events ''a'' 0 demo_journal = [en_event demo_entry]" "job_events ''a'' 1 demo_journal = []"
    by (simp_all add: job_events_def decode_demo_journal seq eid)
  then have e: "events ''a'' 0 1 None st1 = Inr [en_event demo_entry]"
      "events ''a'' (ev_sequence (last [en_event demo_entry])) 1 None st1 = Inr []"
    using events_durable [OF st1(1,2)] st1(3) seq by simp_all
  have "events ''a'' 0 (1 + 1) None st1 = Inr ([en_event demo_entry] @ [])"
    by (rule events_pages [OF st1(1,2) _ _ e(1) _ e(2)]) simp_all
  with st1(3) show ?thesis by blast
qed

text \<open>Recovery after a restart. When it succeeds, no hosted job is left active; an interrupted job is
  queued again, or canceled where a cancel was pending, keeps its cursor and counts, and every other
  job is untouched.\<close>

theorem recover_requeues:
  assumes "keyed (s_jobs st)" "range_order ks (s_jobs st)" "recover sha ios ks st = (Inr (), st')"
  shows "s_jobs st' k = (case s_jobs st k of None \<Rightarrow> None
     | Some j \<Rightarrow> Some (if hosted_active j then recovered (io_now (ios k)) j else j))
     \<and> (\<forall>j. s_jobs st' k = Some j \<longrightarrow> \<not> hosted_active j)"
proof -
  have names: "map j_id (range_vals ls (s_jobs st)) = ls" if "set ls \<subseteq> dom (s_jobs st)" for ls
    using that assms(1) by (induction ls) (auto simp: range_vals_Cons keyed_def split: option.splits)
  have vals: "set (list_jobs ks st) = ran (s_jobs st)"
    using set_range_order [OF assms(2)] by (simp add: list_jobs_def)
  have "map j_id (range_vals ks (s_jobs st)) = ks" using names assms(2) by (simp add: range_order_def)
  then have "distinct (map j_id (range_vals ks (s_jobs st)))" using assms(2) by (simp add: range_order_def)
  then have d: "distinct (map j_id (list_jobs ks st))" by (simp add: list_jobs_def distinct_map)
  have mem: "s_jobs st (j_id j) = Some j" if "j \<in> set (list_jobs ks st)" for j
    using that vals assms(1) by (auto simp: ran_def keyed_def)
  have jobs: "s_jobs st' k = (case s_jobs st k of None \<Rightarrow> None
     | Some j \<Rightarrow> Some (if j \<in> set (list_jobs ks st) \<and> hosted_active j then recovered (io_now (ios k)) j else j))"
    using assms(3) unfolding recover_def by (rule recover_loop_jobs [OF _ assms(1) d mem])
  have "\<not> hosted_active (recovered now j)" for now j by (simp add: recovered_def hosted_active_def active_def)
  with jobs vals show ?thesis by (auto simp: ran_def split: option.splits)
qed

theorem recover_requeues_witness:
  "\<exists>st'. recover demo_sha (\<lambda>_. demo_io) [''69''] demo_store = (Inr (), st')
     \<and> s_jobs st' ''69'' = Some demo_job"
proof -
  have "\<not> active demo_job" by (simp add: demo_job_def)
  then have r: "recover demo_sha (\<lambda>_. demo_io) [''69''] demo_store = (Inr (), demo_store)"
    by (simp add: recover_def list_jobs_def range_vals_Cons demo_store_def)
  from recover_requeues [OF jobs_wf_keyed [OF demo_store_wf(1)] demo_store_wf(2) r, of "''69''"] r
  show ?thesis by (simp add: demo_store_def hosted_active_def \<open>\<not> active demo_job\<close>)
qed

text \<open>The codec loses nothing. An entry whose strings are UTF-8, whose numbers fit 64 bits and whose
  times lie in the years 0 to 9999 is read back from its journal line exactly as it was.\<close>

theorem entry_roundtrip:
  assumes "entry_ok e"
  shows "\<exists>b. marshal_entry e = Inr b \<and> unmarshal_entry (b @ [newline]) = Some e \<and> newline \<notin> set b"
  using assms marshal_no_newline [of e] unmarshal_marshal [of e] by (auto simp: marshal_entry_ok newline_def)

theorem entry_roundtrip_witness:
  "\<exists>b. marshal_entry demo_entry = Inr b \<and> unmarshal_entry (b @ [newline]) = Some demo_entry \<and> newline \<notin> set b"
  using entry_roundtrip [OF demo_entry_writable(2)] .

end
