(* ===== verification/Vault_Properties.thy ===== *)
theory Vault_Properties
  imports Vault_Facts Store_Properties
begin

section \<open>Properties of the vault\<close>

text \<open>
  Runs of the vault's operations are the step relation \<open>vault_step\<close> on the vault and the connector
  objects of its bindings. Its invariant gives the restart theorem: opening the directory yields the
  very vault that was in memory. The other properties are the separation of users, idempotent
  creation, the direction of a saved connection and a size that creation does not check.
\<close>

subsection \<open>Runs\<close>

definition definition_ok :: "definition_text \<Rightarrow> bool" where
  "definition_ok d \<longleftrightarrow> valid_utf8 (df_label d) \<and> valid_utf8 (df_direction d) \<and> config_ok (df_config d)
     \<and> creds_ok (df_creds d)"

text \<open>What the runtime promises of the random nonce, the MAC and the cipher.\<close>

definition nonce_ok :: "string result \<Rightarrow> bool" where
  "nonce_ok nonce \<longleftrightarrow> (\<forall>n. nonce = Inr n \<longrightarrow> length n = nonce_size)"

definition crypto_ok :: "vcrypto \<Rightarrow> bool" where
  "crypto_ok cr \<longleftrightarrow> seals cr \<and> (\<forall>s. length (vc_mac cr s) = 32)"

inductive vault_step :: "vault_env \<Rightarrow> (string \<Rightarrow> nat) \<times> vault \<Rightarrow> (string \<Rightarrow> nat) \<times> vault \<Rightarrow> bool" for env where
  created: "vault_create env h ks now nonce out w d key v = (Inr (b, True), v') \<Longrightarrow>
    range_order ks (vt_entries v) \<Longrightarrow> nonce_ok nonce \<Longrightarrow> owner_ok w \<Longrightarrow>
    definition_ok (d\<lparr>df_label := trim_space (df_label d)\<rparr>) \<Longrightarrow>
    vault_step env (hs, v) (hs(b_name b := h), v')"
| present: "vault_create env h ks now nonce out w d key v = (Inr (b, False), v') \<Longrightarrow>
    vault_step env (hs, v) (hs, v')"
| refused: "vault_create env h ks now nonce out w d key v = (Inl err, v') \<Longrightarrow>
    vault_step env (hs, v) (hs, v')"
| rotated: "vault_rotate env h nonce out w cid s v = (Inr b, v') \<Longrightarrow> nonce_ok nonce \<Longrightarrow> creds_ok s \<Longrightarrow>
    vault_step env (hs, v) (hs(cid := h), v')"
| not_rotated: "vault_rotate env h nonce out w cid s v = (Inl err, v') \<Longrightarrow>
    vault_step env (hs, v) (hs, v')"
| deleted: "vault_delete out w cid v = (r, v') \<Longrightarrow> vault_step env (hs, v) (hs, v')"

subsection \<open>Invariant\<close>

definition entry_in_order :: "vault \<Rightarrow> personal_entry \<Rightarrow> bool" where
  "entry_in_order v e \<longleftrightarrow> personal_ok e \<and> owner_named (pe_owner e) \<and> o_realm (pe_owner e) = vt_realm v"

definition vault_inv :: "vault_env \<Rightarrow> (string \<Rightarrow> nat) \<times> vault \<Rightarrow> bool" where
  "vault_inv env s \<longleftrightarrow> vt_realm (snd s) \<noteq> []
     \<and> (vt_poison (snd s) = None \<longrightarrow> vault_synced env (fst s) (snd s))
     \<and> finite (dom (vt_entries (snd s))) \<and> card (dom (vt_entries (snd s))) \<le> 2000
     \<and> (\<forall>cid e. vt_entries (snd s) cid = Some e \<longrightarrow> entry_in_order (snd s) e \<and> pe_id e = cid \<and> personal_name cid)"

lemma personal_name_connection_id:
  assumes "crypto_ok cr"
  shows "personal_name (connection_id cr w key)"
proof -
  have "length (hex_encode x) = 64" if "length x = 32" for x using that by simp
  then have "length (take 32 (hex_encode (vc_mac cr s))) = 32" for s
    using assms by (simp add: crypto_ok_def)
  moreover have "list_all is_hex_lower (take 32 (hex_encode x))" for x
    using hex_encode_lower [of x] by (auto simp: list_all_iff dest: in_set_takeD)
  moreover have "drop 9 (''personal-'' @ t) = t" "length ''personal-'' = 9" for t by simp_all
  ultimately show ?thesis unfolding personal_name_def connection_id_def match_hex_def
    by (simp only: has_prefix_append simp_thms)
qed

lemma valid_hex: "list_all is_hex_lower s \<Longrightarrow> valid_utf8 s"
  by (rule valid_utf8_ascii) (auto simp: list_all_iff is_hex_lower_def is_digit_def)

lemma personal_name_valid: "personal_name s \<Longrightarrow> valid_utf8 s"
proof -
  assume a: "personal_name s"
  then have p: "take 9 s = ''personal-''" by (simp add: personal_name_def has_prefix_def eval_nat_numeral)
  obtain t where t: "s = ''personal-'' @ t" using append_take_drop_id [of 9 s] unfolding p by metis
  with a have "list_all is_hex_lower t" by (simp add: personal_name_def match_hex_def)
  then show ?thesis unfolding t by (intro valid_utf8_ascii) (auto simp: list_all_iff is_hex_lower_def is_digit_def byte_def)
qed


lemma personal_binding_name: "personal_binding env h e = Inr b \<Longrightarrow> b_name b = pe_id e"
  by (auto simp: personal_binding_def Let_def split: if_splits sum.splits)

definition new_entry :: "vault_env \<Rightarrow> time \<Rightarrow> owner \<Rightarrow> definition_text \<Rightarrow> string \<Rightarrow> personal_entry" where
  "new_entry env now w d0 key =
     (let d = d0\<lparr>df_label := trim_space (df_label d0)\<rparr> in
      \<lparr>pe_id = connection_id (ve_crypto env) w key, pe_owner = w, pe_definition = d,
        pe_digest = hex_encode (vc_mac (ve_crypto env) (jprint (JObj (definition_members d)))), pe_created_at = now\<rparr>)"

lemma vault_create_new:
  assumes "vault_create env h ks now nonce out w d key v = (Inr (b, True), v')"
  obtains v1 where "vt_poison v = None" "key \<noteq> []" "length key \<le> 128" "o_id w \<noteq> []" "o_subject w \<noteq> []" "o_realm w = vt_realm v"
    "vt_entries v (pe_id (new_entry env now w d key)) = None"
    "length (filter (\<lambda>e. pe_owner e = w) (range_vals ks (vt_entries v))) < 50"
    "length (range_vals ks (vt_entries v)) < 2000"
    "personal_binding env h (new_entry env now w d key) = Inr b"
    "persist (ve_crypto env) nonce out (new_entry env now w d key) v = (None, v1)"
    "v' = v1\<lparr>vt_entries := (vt_entries v)(pe_id (new_entry env now w d key) \<mapsto> new_entry env now w d key),
            vt_bindings := (vt_bindings v)(pe_id (new_entry env now w d key) \<mapsto> b)\<rparr>"
  using assms unfolding vault_create_def Let_def new_entry_def
  by (auto simp: not_le split: option.splits if_splits sum.splits prod.splits)

lemma vault_create_same:
  assumes "vault_create env h ks now nonce out w d key v = (Inr (b, False), v')"
  shows "v' = v"
  using assms unfolding vault_create_def Let_def
  by (auto split: option.splits if_splits sum.splits prod.splits)

text \<open>A refused operation changes nothing, or it left a file behind it and poisoned the vault.\<close>

definition unchanged_or_poisoned :: "vault \<Rightarrow> vault \<Rightarrow> bool" where
  "unchanged_or_poisoned v v' \<longleftrightarrow> v' = v \<or>
     (vt_poison v' \<noteq> None \<and> vt_entries v' = vt_entries v \<and> vt_bindings v' = vt_bindings v \<and> vt_realm v' = vt_realm v)"

lemma persist_refused: "persist cr nonce out e v = (Some err, v') \<Longrightarrow> unchanged_or_poisoned v v'"
  by (erule persist_cases) (auto simp: unchanged_or_poisoned_def)

lemma unchanged [simp]: "unchanged_or_poisoned v v"
  by (simp add: unchanged_or_poisoned_def)

lemma vault_create_refused:
  assumes "vault_create env h ks now nonce out w d key v = (Inl err, v')"
  shows "unchanged_or_poisoned v v'"
  using assms unfolding vault_create_def Let_def
  by (auto split: option.splits if_splits sum.splits prod.splits intro: persist_refused)

lemma vault_rotate_cases:
  assumes "vault_rotate env h nonce out w cid s v = (r, v')"
  obtains (same) err where "r = Inl err" "unchanged_or_poisoned v v'"
  | (rotated) e0 e b v1 where "r = Inr b" "vt_poison v = None" "vt_entries v cid = Some e0" "pe_owner e0 = w"
      "e = e0\<lparr>pe_definition := (pe_definition e0)\<lparr>df_creds := s\<rparr>\<rparr>" "personal_binding env h e = Inr b"
      "persist (ve_crypto env) nonce out e v = (None, v1)"
      "v' = v1\<lparr>vt_entries := (vt_entries v)(cid \<mapsto> e), vt_bindings := (vt_bindings v)(cid \<mapsto> b)\<rparr>"
proof (cases "vt_poison v = None \<and> (\<exists>e0. vt_entries v cid = Some e0 \<and> pe_owner e0 = w \<and> o_realm w = vt_realm v)")
  case False
  with assms have "r \<in> range Inl \<and> v' = v" unfolding vault_rotate_def by (auto split: option.splits if_splits)
  then show ?thesis by (auto intro: same)
next
  case True
  then obtain e0 where e0: "vt_poison v = None" "vt_entries v cid = Some e0" "pe_owner e0 = w" "o_realm w = vt_realm v"
    by blast
  define e where "e = e0\<lparr>pe_definition := (pe_definition e0)\<lparr>df_creds := s\<rparr>\<rparr>"
  show ?thesis
  proof (cases "personal_binding env h e")
    case (Inl a)
    with assms e0 show ?thesis by (intro same [of a]) (auto simp: vault_rotate_def e_def [symmetric] Let_def)
  next
    case b: (Inr b)
    obtain r1 v1 where p: "persist (ve_crypto env) nonce out e v = (r1, v1)" by fastforce
    show ?thesis
    proof (cases r1)
      case None
      with assms e0 b p show ?thesis by (intro rotated [OF _ e0(1-3) e_def b p [unfolded None]]) (simp_all add: vault_rotate_def e_def [symmetric] Let_def)
    next
      case (Some err)
      with assms e0 b p show ?thesis
        by (intro same [of err, OF _ persist_refused]) (simp_all add: vault_rotate_def e_def [symmetric] Let_def)
    qed
  qed
qed

lemma vault_delete_cases:
  assumes "vault_delete out w cid v = (r, v')"
  obtains (same) "unchanged_or_poisoned v v'"
  | (deleted) e where "r = Inr ()" "vt_poison v = None" "vt_entries v cid = Some e" "pe_owner e = w"
      "v' = v\<lparr>vt_files := (vt_files v)(cid := None), vt_bindings := (vt_bindings v)(cid := None),
              vt_entries := (vt_entries v)(cid := None)\<rparr>"
  using assms unfolding vault_delete_def
  by (auto split: option.splits if_splits persist_outcome.splits simp: unchanged_or_poisoned_def)

lemma vault_inv_same:
  "vault_inv env (hs, v) \<Longrightarrow> unchanged_or_poisoned v v' \<Longrightarrow> vault_inv env (hs, v')"
  by (auto simp: unchanged_or_poisoned_def vault_inv_def entry_in_order_def)

lemma new_entry_ok:
  assumes "definition_ok (d\<lparr>df_label := trim_space (df_label d)\<rparr>)" "owner_ok w" "crypto_ok (ve_crypto env)" "time_ok now"
  shows "personal_ok (new_entry env now w d key)"
  using assms personal_name_valid [OF personal_name_connection_id [OF assms(3)]]
  by (simp add: personal_ok_def new_entry_def Let_def definition_ok_def valid_hex hex_encode_lower)

lemma marshal_time_ok: "marshal_personal e = Inr b \<Longrightarrow> time_ok (pe_created_at e)"
  by (auto simp: marshal_personal_def split: if_splits)

text \<open>A persisted entry is what its file opens to, and memory and directory agree after it is recorded.\<close>

lemma persisted_inv:
  assumes inv: "vault_inv env (hs, v)" and p: "persist (ve_crypto env) nonce out e v = (None, v1)"
    and ok: "vt_poison v = None" "crypto_ok (ve_crypto env)" "nonce_ok nonce"
    and e: "time_ok (pe_created_at e) \<Longrightarrow> entry_in_order v e" "personal_name (pe_id e)" "personal_binding env h e = Inr b"
    and room: "card (insert (pe_id e) (dom (vt_entries v))) \<le> 2000"
  shows "vault_inv env (hs(pe_id e := h), v1\<lparr>vt_entries := (vt_entries v)(pe_id e \<mapsto> e), vt_bindings := (vt_bindings v)(pe_id e \<mapsto> b)\<rparr>)"
  using p
proof (cases rule: persist_cases)
  case (written plain n)
  have ord: "entry_in_order v e" using e(1) marshal_time_ok [OF written(1)] .
  have "vault_open_file (ve_crypto env) (pe_id e) (CHR 0x01 # n @ vc_seal (ve_crypto env) n plain (associated (pe_id e))) = Inr e"
    using ok written(1,2) ord
    by (intro file_opens) (auto simp: crypto_ok_def nonce_ok_def entry_in_order_def)
  then have "vault_synced env (hs(pe_id e := h)) (v1\<lparr>vt_entries := (vt_entries v)(pe_id e \<mapsto> e), vt_bindings := (vt_bindings v)(pe_id e \<mapsto> b)\<rparr>)"
    using inv ok(1) e(2,3) written by (intro vault_synced_put) (auto simp: vault_inv_def)
  moreover have "vt_poison v1 = None" "vt_realm v1 = vt_realm v" using written ok(1) by simp_all
  moreover have "vt_realm v \<noteq> []" "finite (dom (vt_entries v))"
    and old: "\<And>cid e. vt_entries v cid = Some e \<Longrightarrow> entry_in_order v e \<and> pe_id e = cid \<and> personal_name cid"
    using inv by (simp_all add: vault_inv_def)
  moreover have "entry_in_order (v1\<lparr>vt_entries := x, vt_bindings := y\<rparr>) e' = entry_in_order v e'" for x y e'
    using written by (simp add: entry_in_order_def)
  ultimately show ?thesis using room e(2) ord by (simp add: vault_inv_def)
qed simp

lemma vault_delete_inv:
  assumes inv: "vault_inv env (hs, v)"
  shows "vault_inv env (hs, v\<lparr>vt_files := (vt_files v)(cid := None), vt_bindings := (vt_bindings v)(cid := None),
              vt_entries := (vt_entries v)(cid := None)\<rparr>)"
proof -
  have "card (dom (vt_entries v) - {cid}) \<le> card (dom (vt_entries v))"
    using inv by (intro card_mono) (auto simp: vault_inv_def)
  moreover have "entry_in_order (v\<lparr>vt_files := x, vt_bindings := y, vt_entries := z\<rparr>) e = entry_in_order v e" for x y z e
    by (simp add: entry_in_order_def)
  ultimately show ?thesis using inv vault_synced_drop by (simp add: vault_inv_def)
qed

lemma vault_step_inv:
  assumes "vault_step env s s'" "vault_inv env s" "crypto_ok (ve_crypto env)"
  shows "vault_inv env s'"
  using assms
proof cases
  case (created h ks now nonce out w d key v b v' hs)
  let ?e = "new_entry env now w d key"
  from created(3) obtain v1 where c: "vt_poison v = None" "key \<noteq> []" "length key \<le> 128" "o_id w \<noteq> []" "o_subject w \<noteq> []" "o_realm w = vt_realm v"
      "vt_entries v (pe_id ?e) = None" "length (range_vals ks (vt_entries v)) < 2000"
      "personal_binding env h ?e = Inr b" "persist (ve_crypto env) nonce out ?e v = (None, v1)"
      "v' = v1\<lparr>vt_entries := (vt_entries v)(pe_id ?e \<mapsto> ?e), vt_bindings := (vt_bindings v)(pe_id ?e \<mapsto> b)\<rparr>"
    by (rule vault_create_new)
  have o: "pe_owner ?e = w" "pe_id ?e = connection_id (ve_crypto env) w key" "pe_created_at ?e = now"
    by (simp_all add: new_entry_def Let_def)
  have inv: "vault_inv env (hs, v)" using assms(2) created(1) by simp
  have "vault_inv env (hs(pe_id ?e := h), v')" unfolding c(11)
  proof (rule persisted_inv [OF inv c(10) c(1) assms(3) created(5)])
    show "time_ok (pe_created_at ?e) \<Longrightarrow> entry_in_order v ?e"
      using new_entry_ok [OF created(7,6) assms(3)] c(4-6) inv o
      by (simp add: entry_in_order_def owner_named_def vault_inv_def)
    show "personal_name (pe_id ?e)" unfolding o by (rule personal_name_connection_id [OF assms(3)])
    show "card (insert (pe_id ?e) (dom (vt_entries v))) \<le> 2000"
      using c(8) length_range_order [OF created(4)] inv by (simp add: card_insert_if vault_inv_def)
  qed (fact c(9))
  with created(2) personal_binding_name [OF c(9)] show ?thesis by simp
next
  case (present h ks now nonce out w d key v b v' hs)
  with vault_create_same assms show ?thesis by metis
next
  case (refused h ks now nonce out w d key v err v' hs)
  with vault_create_refused vault_inv_same assms show ?thesis by metis
next
  case (rotated h nonce out w cid s v b v' hs)
  have inv: "vault_inv env (hs, v)" using assms(2) rotated(1) by simp
  from rotated(3) show ?thesis
  proof (cases rule: vault_rotate_cases)
    case (rotated e0 e b' v1)
    have old: "entry_in_order v e0" "pe_id e0 = cid" "personal_name cid"
      using inv rotated(3) by (auto simp: vault_inv_def)
    have e: "pe_id e = cid" "entry_in_order v e"
      using old rotated(5) \<open>creds_ok s\<close> by (auto simp: entry_in_order_def personal_ok_def)
    have "insert cid (dom (vt_entries v)) = dom (vt_entries v)" using rotated(3) by auto
    then have room: "card (insert (pe_id e) (dom (vt_entries v))) \<le> 2000"
      using inv e(1) by (simp add: vault_inv_def)
    have "vault_inv env (hs(pe_id e := h), v')" unfolding rotated(8) e(1) [symmetric]
      using old(3) e by (intro persisted_inv [OF inv rotated(7,2) assms(3) \<open>nonce_ok nonce\<close> _ _ rotated(6) room]) simp_all
    then have "vault_inv env (hs(cid := h), v')" unfolding e(1) .
    then show ?thesis using \<open>s' = (hs(cid := h), v')\<close> by simp
  qed simp
next
  case (not_rotated h nonce out w cid s v err v' hs)
  from not_rotated(3) show ?thesis
  proof (cases rule: vault_rotate_cases)
    case (same err)
    with not_rotated(1,2) vault_inv_same assms(2) show ?thesis by metis
  qed simp
next
  case (deleted out w cid v r v' hs)
  from deleted(3) show ?thesis
  proof (cases rule: vault_delete_cases)
    case same
    with deleted(1,2) vault_inv_same assms(2) show ?thesis by metis
  next
    case (deleted e)
    with vault_delete_inv assms(2) \<open>s = (hs, v)\<close> \<open>s' = (hs, v')\<close> show ?thesis by metis
  qed
qed

lemma vault_run_inv:
  assumes "(vault_step env)\<^sup>*\<^sup>* s s'" "vault_inv env s" "crypto_ok (ve_crypto env)"
  shows "vault_inv env s'"
  using assms(1,2) by induction (auto intro: vault_step_inv assms(3))

subsection \<open>Restart\<close>

text \<open>A listing of the vault's directory: regular files of at most 128 KiB, one per file of the vault.\<close>

definition dir_listing :: "(string \<rightharpoonup> string) \<Rightarrow> vault_file list \<Rightarrow> bool" where
  "dir_listing files fs \<longleftrightarrow> distinct (map vf_name fs) \<and> vf_name ` set fs = dom files
     \<and> (\<forall>f \<in> set fs. \<not> vf_dir f \<and> vf_regular f \<and> vf_size f \<le> 131072 \<and> vf_data f = files (vf_name f))"

definition over :: "'a set \<Rightarrow> ('a \<rightharpoonup> 'b) \<Rightarrow> ('a \<rightharpoonup> 'b) \<Rightarrow> ('a \<rightharpoonup> 'b)" where
  "over A m m0 = (\<lambda>k. if k \<in> A then m k else m0 k)"

lemma over_insert: "m k = Some x \<Longrightarrow> over (insert k A) m m0 = over A m (m0(k \<mapsto> x))"
  by (auto simp: over_def)

lemma not_temporary: "personal_name s \<Longrightarrow> \<not> has_prefix s ''.connection-''"
  by (cases s) (auto simp: personal_name_def has_prefix_def)

lemma load_files_synced:
  assumes v: "vault_synced env hs v"
    and fs: "\<forall>f \<in> set fs. \<not> vf_dir f \<and> vf_regular f \<and> vf_size f \<le> 131072 \<and> vf_data f = vt_files v (vf_name f)
       \<and> vf_name f \<in> dom (vt_files v)"
    and room: "n + length fs \<le> 2000"
  shows "load_files env hs n fs u = Inr (u\<lparr>vt_entries := over (vf_name ` set fs) (vt_entries v) (vt_entries u),
     vt_bindings := over (vf_name ` set fs) (vt_bindings v) (vt_bindings u),
     vt_files := over (vf_name ` set fs) (vt_files v) (vt_files u)\<rparr>)"
  using fs room
proof (induction fs arbitrary: n u)
  case Nil
  then show ?case by (simp add: over_def)
next
  case (Cons f fs)
  let ?k = "vf_name f"
  have "?k \<in> dom (vt_entries v)" using Cons.prems v by (simp add: vault_synced_def)
  then obtain e where e: "vt_entries v ?k = Some e" by blast
  with v obtain data b where *: "pe_id e = ?k" "personal_name ?k" "vt_files v ?k = Some data"
      "vault_open_file (ve_crypto env) ?k data = Inr e" "vt_bindings v ?k = Some b" "personal_binding env (hs ?k) e = Inr b"
    unfolding vault_synced_def by blast
  have f: "\<not> vf_dir f" "vf_regular f" "\<not> 131072 < vf_size f" "vf_data f = Some data" "\<not> 2000 < n + 1"
    using Cons.prems *(3) by auto
  have "load_files env hs n (f # fs) u = load_files env hs (n + 1) fs (u\<lparr>vt_entries := (vt_entries u)(?k \<mapsto> e),
      vt_bindings := (vt_bindings u)(?k \<mapsto> b), vt_files := (vt_files u)(?k \<mapsto> data)\<rparr>)"
    using f * not_temporary [OF *(2)] by simp
  also have "\<dots> = Inr (u\<lparr>vt_entries := over (vf_name ` set (f # fs)) (vt_entries v) (vt_entries u),
     vt_bindings := over (vf_name ` set (f # fs)) (vt_bindings v) (vt_bindings u),
     vt_files := over (vf_name ` set (f # fs)) (vt_files v) (vt_files u)\<rparr>)"
    using Cons.prems by (subst Cons.IH) (simp_all add: over_insert e *)
  finally show ?case .
qed

lemma over_empty: "A = dom m \<Longrightarrow> over A m Map.empty = m"
  by (auto simp: over_def fun_eq_iff domIff)


subsection \<open>Separation of users\<close>

lemma persist_frame:
  assumes "persist cr nonce out e v = (r, v')" "k \<noteq> pe_id e"
  shows "vt_entries v' = vt_entries v \<and> vt_bindings v' = vt_bindings v \<and> vt_files v' k = vt_files v k"
  using assms by (cases rule: persist_cases) auto

definition kept :: "string \<Rightarrow> vault \<Rightarrow> vault \<Rightarrow> bool" where
  "kept k v v' \<longleftrightarrow> vt_entries v' k = vt_entries v k \<and> vt_bindings v' k = vt_bindings v k \<and> vt_files v' k = vt_files v k"

lemma kept_refl [simp]: "kept k v v"
  by (simp add: kept_def)

lemma vault_create_kept:
  assumes "vault_create env h ks now nonce out w d key v = (r, v')" "vt_entries v k \<noteq> None"
  shows "kept k v v'"
proof -
  have "v' = v \<or> (vt_entries v (pe_id (new_entry env now w d key)) = None \<and>
      (\<exists>b r1 v1. persist (ve_crypto env) nonce out (new_entry env now w d key) v = (r1, v1)
         \<and> (v' = v1 \<or> v' = v1\<lparr>vt_entries := (vt_entries v)(pe_id (new_entry env now w d key) \<mapsto> new_entry env now w d key),
            vt_bindings := (vt_bindings v)(pe_id (new_entry env now w d key) \<mapsto> b)\<rparr>)))"
    using assms(1) unfolding vault_create_def Let_def new_entry_def
    by (auto split: option.splits if_splits sum.splits prod.splits)
  moreover have "k \<noteq> pe_id (new_entry env now w d key)" if "vt_entries v (pe_id (new_entry env now w d key)) = None"
    using that assms(2) by metis
  ultimately show ?thesis using persist_frame by (fastforce simp: kept_def)
qed

lemma vault_rotate_kept:
  assumes r: "vault_rotate env h nonce out w cid s v = (r, v')"
    and k: "vt_entries v k = Some e" "pe_owner e \<noteq> w" and ids: "\<And>cid e. vt_entries v cid = Some e \<Longrightarrow> pe_id e = cid"
  shows "kept k v v'"
proof (cases "\<exists>e0. vt_entries v cid = Some e0 \<and> pe_owner e0 = w")
  case False
  with r show ?thesis by (auto simp: vault_rotate_def split: option.splits if_splits)
next
  case True
  then obtain e0 where e0: "vt_entries v cid = Some e0" "pe_owner e0 = w" by blast
  define e1 where "e1 = e0\<lparr>pe_definition := (pe_definition e0)\<lparr>df_creds := s\<rparr>\<rparr>"
  have ne: "k \<noteq> cid" "k \<noteq> pe_id e1" using k e0 ids by (auto simp: e1_def)
  obtain r1 v1 where p: "persist (ve_crypto env) nonce out e1 v = (r1, v1)" by fastforce
  with r e0 have "v' = v \<or> v' = v1 \<or> (\<exists>b. v' = v1\<lparr>vt_entries := (vt_entries v)(cid \<mapsto> e1), vt_bindings := (vt_bindings v)(cid \<mapsto> b)\<rparr>)"
    unfolding vault_rotate_def e1_def by (auto simp: Let_def split: option.splits if_splits sum.splits)
  with persist_frame [OF p ne(2)] ne(1) show ?thesis by (auto simp: kept_def)
qed

lemma vault_delete_kept:
  assumes r: "vault_delete out w cid v = (r, v')" and k: "vt_entries v k = Some e" "pe_owner e \<noteq> w"
  shows "kept k v v'"
  using assms by (auto simp: vault_delete_def kept_def split: option.splits if_splits persist_outcome.splits)

text \<open>C9: No user reaches another user's saved connections. Whatever a user creates, rotates or deletes,
  with whatever outcome, a connection that belongs to someone else keeps its entry, its binding and
  its file.\<close>

theorem vault_separates_users:
  assumes "vault_inv env (hs, v)" "vt_entries v k = Some e" "pe_owner e \<noteq> w"
    and "v' = snd (vault_create env h ks now nonce out w d key v) \<or> v' = snd (vault_rotate env h nonce out w cid s v)
       \<or> v' = snd (vault_delete out w cid v)"
  shows "vt_entries v' k = Some e \<and> vt_bindings v' k = vt_bindings v k \<and> vt_files v' k = vt_files v k"
proof -
  have ids: "\<And>cid e. vt_entries v cid = Some e \<Longrightarrow> pe_id e = cid" using assms(1) by (simp add: vault_inv_def)
  have "kept k v v'"
    using assms(4) vault_create_kept [OF prod.collapse [symmetric]] vault_rotate_kept [OF prod.collapse [symmetric] assms(2,3) ids]
      vault_delete_kept [OF prod.collapse [symmetric] assms(2,3)] assms(2) by blast
  with assms(2) show ?thesis by (simp add: kept_def)
qed

text \<open>Creating a connection is idempotent. Once a creation under a key has succeeded, the same user
  sending the same definition under that key again gets the same connection and nothing changes,
  whatever the clock, the random numbers and the disk do; a different definition under the same key
  is a conflict and changes nothing either.\<close>

theorem vault_create_idempotent:
  assumes "vault_create env h ks now nonce out w d key v = (Inr (b, True), v')"
  shows "vault_create env h' ks' now' nonce' out' w d' key v' =
     (if pe_digest (new_entry env now w d' key) = pe_digest (new_entry env now w d key)
      then (Inr (b, False), v') else (Inl ErrConflict, v'))"
proof -
  let ?e = "new_entry env now w d key"
  from assms(1) obtain v1 where c: "vt_poison v = None" "key \<noteq> []" "length key \<le> 128" "o_id w \<noteq> []" "o_subject w \<noteq> []" "o_realm w = vt_realm v"
      "persist (ve_crypto env) nonce out ?e v = (None, v1)"
      "v' = v1\<lparr>vt_entries := (vt_entries v)(pe_id ?e \<mapsto> ?e), vt_bindings := (vt_bindings v)(pe_id ?e \<mapsto> b)\<rparr>"
    by (rule vault_create_new)
  have v': "vt_poison v' = None" "vt_realm v' = vt_realm v" "vt_entries v' (pe_id ?e) = Some ?e" "vt_bindings v' (pe_id ?e) = Some b"
    using c(1,7,8) by (auto elim: persist_cases)
  have e: "pe_id ?e = connection_id (ve_crypto env) w key" "pe_owner ?e = w" by (simp_all add: new_entry_def Let_def)
  have dg: "pe_digest (new_entry env now w d' key) =
      hex_encode (vc_mac (ve_crypto env) (jprint (JObj (definition_members (d'\<lparr>df_label := trim_space (df_label d')\<rparr>)))))" for d'
    by (simp add: new_entry_def Let_def)
  show ?thesis using v' c(2-6) e
    unfolding vault_create_def Let_def by (simp add: lookup_binding_def dg del: jprint.simps)
qed

text \<open>C14: A saved connection serves its owner in its direction and nobody else. A binding opened as a
  source can be read by the subject that saved it and written by no one; one opened as a sink can be
  written by that subject and read by no one.\<close>

theorem personal_direction:
  assumes "personal_binding env h e = Inr b"
  shows "(allows_read b s \<longleftrightarrow> s \<noteq> [] \<and> df_direction (pe_definition e) = ''source'' \<and> s = o_subject (pe_owner e))
     \<and> (allows_write b s \<longleftrightarrow> s \<noteq> [] \<and> df_direction (pe_definition e) = ''sink'' \<and> s = o_subject (pe_owner e))
     \<and> \<not> (b_can_read b \<and> b_can_write b) \<and> b_personal b \<and> b_name b = pe_id e"
proof -
  let ?d = "pe_definition e"
  from assms obtain b0 where dir: "df_direction ?d = ''source'' \<or> df_direction ?d = ''sink''"
    and o: "open_personal (ve_sha env) (ve_parse_url env) (ve_parse_ip env) (ve_drivers env) h (df_config ?d) (df_creds ?d) = Inr b0"
    unfolding personal_binding_def Let_def by (auto split: if_splits sum.splits)
  from open_personal_Inr [OF o] obtain p c where b0: "b0 = connect p c" "b_read_subjects c = []" "b_write_subjects c = []"
    by (auto simp: additional_binding_def public_binding_def zero_binding_def Let_def)
  show ?thesis
    using assms dir b0 unfolding personal_binding_def Let_def o
    by (auto simp: allows_read_def allows_write_def contains_subject_iff connect_def split: if_splits)
qed

subsection \<open>A file the loader does not accept\<close>

definition printed :: "json \<Rightarrow> nat" where
  "printed v = length (jprint v)"

lemma length_join: "sum_list (map length ss) \<le> length (join c ss)"
  by (induction c ss rule: join.induct) auto

lemma printed_obj: "sum_list (map (\<lambda>m. printed (snd m)) ms) \<le> printed (JObj ms)"
proof -
  have "sum_list (map (\<lambda>m. printed (snd m)) ms)
      \<le> sum_list (map length (map (\<lambda>(k, v). quoted k @ CHR '':'' # jprint v) ms))"
    by (induction ms) (auto simp: printed_def)
  also have "\<dots> \<le> printed (JObj ms)"
    using length_join [of "map (\<lambda>(k, v). quoted k @ CHR '':'' # jprint v) ms" "CHR '',''"] by (simp add: printed_def)
  finally show ?thesis .
qed

lemma printed_member: "(k, v) \<in> set ms \<Longrightarrow> printed v \<le> printed (JObj ms)"
  using member_le_sum_list [of "printed v" "map (\<lambda>m. printed (snd m)) ms"] printed_obj [of ms] by force

lemma length_escape_angle: "length (json_escape (replicate n (CHR ''<''))) = 6 * n"
  by (induction n) (simp_all add: escape_ascii_def u_escape_def byte_def)

lemma printed_angle: "6 * n \<le> printed (jstr (replicate n (CHR ''<'')))"
  by (simp add: printed_def jstr_def quoted_def length_escape_angle)

lemma printed_large_entry:
  assumes "cr_access_key_id (df_creds (pe_definition e)) = replicate 16384 (CHR ''<'')"
    and "cr_secret_access_key (df_creds (pe_definition e)) = replicate 16384 (CHR ''<'')"
  shows "131072 < printed (JObj (entry_members e))"
proof -
  let ?s = "df_creds (pe_definition e)" and ?big = "replicate 16384 (CHR ''<'')"
  have "2 * printed (jstr ?big) \<le> printed (JObj (creds_members ?s))"
    using printed_obj [of "creds_members ?s"] assms by (simp add: creds_members_def omit_def printed_def del: jprint.simps)
  moreover have "printed (JObj (creds_members ?s)) \<le> printed (JObj (definition_members (pe_definition e)))"
    by (rule printed_member [of "''credentials''"]) (simp add: definition_members_def)
  moreover have "printed (JObj (definition_members (pe_definition e))) \<le> printed (JObj (entry_members e))"
    by (rule printed_member [of "''definition''"]) (simp add: entry_members_def)
  ultimately show ?thesis using printed_angle [of 16384] by linarith
qed

lemma load_files_large:
  assumes "f \<in> set fs" "131072 < vf_size f" "\<not> has_prefix (vf_name f) ''.connection-''"
  shows "\<exists>err. load_files env hs n fs u = Inl err"
  using assms(1)
proof (induction fs arbitrary: n u)
  case (Cons g fs)
  show ?case
  proof (cases "f = g")
    case True
    with assms show ?thesis by simp
  next
    case False
    with Cons show ?thesis by (auto simp: Let_def split: option.splits sum.splits)
  qed
qed simp

text \<open>C15: Creation accepts a connection that the next start refuses. Two AWS credentials of 16384 characters
  pass validation and fit the 64 KiB request limit, but each \<^verbatim>\<open><\<close> takes six bytes in the file, so the file
  is longer than the 128 KiB the loader accepts: once such a connection is saved, opening the vault's
  directory fails as a whole.\<close>

theorem large_connection_blocks_restart:
  assumes "vault_create env h ks now nonce PersistOk w d key v = (Inr (b, True), v')" "crypto_ok (ve_crypto env)"
    and "cr_access_key_id (df_creds d) = replicate 16384 (CHR ''<'')"
    and "cr_secret_access_key (df_creds d) = replicate 16384 (CHR ''<'')"
    and gcm: "\<forall>n p a. length p \<le> length (vc_seal (ve_crypto env) n p a)"
    and "f \<in> set fs" "vf_name f = b_name b" "vt_files v' (vf_name f) = Some data" "vf_size f = int (length data)"
  shows "\<exists>err. load_files env hs n fs u = Inl err"
proof -
  let ?e = "new_entry env now w d key"
  from assms(1) obtain v1 where c: "personal_binding env h ?e = Inr b"
      "persist (ve_crypto env) nonce PersistOk ?e v = (None, v1)"
      "v' = v1\<lparr>vt_entries := (vt_entries v)(pe_id ?e \<mapsto> ?e), vt_bindings := (vt_bindings v)(pe_id ?e \<mapsto> b)\<rparr>"
    by (rule vault_create_new)
  have b: "b_name b = pe_id ?e" "pe_id ?e = connection_id (ve_crypto env) w key"
    using personal_binding_name [OF c(1)] by (simp_all add: new_entry_def Let_def)
  have big: "131072 < printed (JObj (entry_members ?e))"
    using assms(3,4) by (intro printed_large_entry) (simp_all add: new_entry_def Let_def)
  from c(2) show ?thesis
  proof (cases rule: persist_cases)
    case (written plain m)
    have "plain = jprint (JObj (entry_members ?e))"
      using written(1) by (auto simp: marshal_personal_def split: if_splits)
    with big gcm have "131072 < length (vc_seal (ve_crypto env) m plain (associated (pe_id ?e)))"
      unfolding printed_def by (meson less_le_trans)
    with written(3) c(3) assms(7,8,9) b have "131072 < vf_size f" by auto
    moreover have "\<not> has_prefix (vf_name f) ''.connection-''"
      unfolding assms(7) b using not_temporary [OF personal_name_connection_id [OF assms(2)]] .
    ultimately show ?thesis using load_files_large [OF assms(6)] by blast
  qed simp
qed

subsection \<open>Instances\<close>

definition demo_crypto :: vcrypto where
  "demo_crypto = \<lparr>vc_mac = (\<lambda>s. replicate 32 (CHR ''m'')), vc_seal = (\<lambda>n p a. a @ p),
     vc_open = (\<lambda>n c a. if has_prefix c a then Some (drop (length a) c) else None)\<rparr>"

definition demo_vault_env :: vault_env where
  "demo_vault_env = \<lparr>ve_sha = (\<lambda>s. s), ve_parse_url = demo_url, ve_parse_ip = (\<lambda>_. None), ve_drivers = no_drivers,
     ve_crypto = demo_crypto\<rparr>"

definition demo_definition :: definition_text where
  "demo_definition = \<lparr>df_label = ''a'', df_direction = ''source'', df_config = demo_config, df_creds = demo_creds\<rparr>"

definition demo_user :: owner where
  "demo_user = \<lparr>o_id = ''u'', o_subject = ''s'', o_realm = ''r''\<rparr>"

definition demo_nonce :: "string result" where
  "demo_nonce = Inr (replicate 12 (CHR ''n''))"

lemma demo_env [simp]:
  "ve_sha demo_vault_env = (\<lambda>s. s)" "ve_parse_url demo_vault_env = demo_url" "ve_parse_ip demo_vault_env = (\<lambda>_. None)"
  "ve_drivers demo_vault_env = no_drivers" "ve_crypto demo_vault_env = demo_crypto"
  by (simp_all add: demo_vault_env_def)

lemma demo_crypto_ok: "crypto_ok (ve_crypto demo_vault_env)"
  by (simp add: crypto_ok_def seals_def demo_crypto_def)

lemma demo_valid_strings:
  "valid_utf8 ''pinecone''" "valid_utf8 ''https://x.io''" "valid_utf8 ''k''" "valid_utf8 ''a''" "valid_utf8 ''source''"
  "valid_utf8 ''u''" "valid_utf8 ''s''" "valid_utf8 ''r''"
  by (rule valid_utf8_ascii, simp add: byte_def)+

lemma valid_empty: "valid_utf8 []"
  by simp

lemma demo_definition_ok: "definition_ok demo_definition"
  unfolding definition_ok_def demo_definition_def config_ok_def demo_config_def creds_ok_def demo_creds_def
    definition_text.simps pconfig.simps pcreds.simps list.pred_inject
  by (intro conjI TrueI demo_valid_strings valid_empty) simp_all

lemma demo_trim: "trim_space ''a'' = ''a''"
  by (rule trim_space_visible) (simp_all add: visible_def byte_def)

lemma demo_open: "\<exists>b. open_personal (\<lambda>s. s) demo_url (\<lambda>_. None) no_drivers h demo_config demo_creds = Inr b"
proof -
  have "\<not> is_additional (pc_kind demo_config)" by code_simp
  then show ?thesis using demo_valid by (auto simp: open_personal_def Let_def)
qed

lemma demo_create:
  assumes d: "df_label d = ''a''" "df_direction d = ''source''"
    and o: "open_personal (\<lambda>s. s) demo_url (\<lambda>_. None) no_drivers 1 (df_config d) (df_creds d) = Inr b0"
  shows "\<exists>b v'. vault_create demo_vault_env 1 [] 0 demo_nonce PersistOk demo_user d ''k'' (empty_vault ''r'')
     = (Inr (b, True), v') \<and> vt_poison v' = None \<and> vt_realm v' = ''r'' \<and> b_name b = connection_id demo_crypto demo_user ''k''
     \<and> vt_entries v' = [b_name b \<mapsto> new_entry demo_vault_env 0 demo_user d ''k'']
     \<and> (\<exists>data. vt_files v' = [b_name b \<mapsto> data])"
proof -
  let ?e = "new_entry demo_vault_env 0 demo_user d ''k''"
  have d': "d\<lparr>df_label := ''a''\<rparr> = d" using d(1) by (cases d) simp
  have e: "pe_definition ?e = d" "pe_id ?e = connection_id demo_crypto demo_user ''k''" "pe_created_at ?e = 0"
    by (simp_all add: new_entry_def Let_def d d' demo_trim)
  obtain b where b: "personal_binding demo_vault_env 1 ?e = Inr b"
    using o by (simp add: personal_binding_def e d demo_trim Let_def)
  let ?t = "jprint (JObj (entry_members ?e))"
  have m: "marshal_personal ?e = Inr ?t" by (simp add: marshal_personal_def e(3) time_ok_0 del: jprint.simps)
  let ?data = "CHR 0x01 # replicate 12 (CHR ''n'') @ associated (pe_id ?e) @ ?t"
  define v1 where "v1 = (empty_vault ''r'')\<lparr>vt_files := [pe_id ?e \<mapsto> ?data]\<rparr>"
  have p: "persist demo_crypto demo_nonce PersistOk ?e (empty_vault ''r'') = (None, v1)"
    unfolding persist_def demo_nonce_def m v1_def by (simp add: demo_crypto_def empty_vault_def Let_def del: jprint.simps)
  have "vault_create demo_vault_env 1 [] 0 demo_nonce PersistOk demo_user d ''k'' (empty_vault ''r'')
     = (Inr (b, True), v1\<lparr>vt_entries := [pe_id ?e \<mapsto> ?e], vt_bindings := [pe_id ?e \<mapsto> b]\<rparr>)"
    using b p by (simp add: vault_create_def new_entry_def Let_def d d' demo_trim empty_vault_def demo_user_def del: jprint.simps)
  then show ?thesis using personal_binding_name [OF b] e by (auto simp: v1_def empty_vault_def simp del: jprint.simps)
qed

lemma demo_created:
  obtains b v' data where "vault_create demo_vault_env 1 [] 0 demo_nonce PersistOk demo_user demo_definition ''k'' (empty_vault ''r'')
     = (Inr (b, True), v')" "vt_poison v' = None" "vt_realm v' = ''r''" "b_name b = connection_id demo_crypto demo_user ''k''"
     "vt_entries v' = [b_name b \<mapsto> new_entry demo_vault_env 0 demo_user demo_definition ''k'']" "vt_files v' = [b_name b \<mapsto> data]"
proof -
  have d: "df_label demo_definition = ''a''" "df_direction demo_definition = ''source''"
    "df_config demo_definition = demo_config" "df_creds demo_definition = demo_creds" by (simp_all add: demo_definition_def)
  obtain b0 where "open_personal (\<lambda>s. s) demo_url (\<lambda>_. None) no_drivers 1 (df_config demo_definition) (df_creds demo_definition) = Inr b0"
    using demo_open unfolding d by blast
  from demo_create [OF d(1,2) this] that show thesis by blast
qed

lemma demo_run:
  obtains b v' data where "(vault_step demo_vault_env)\<^sup>*\<^sup>* (\<lambda>_. 0, empty_vault ''r'') ((\<lambda>_. 0)(b_name b := 1), v')"
    "vt_poison v' = None" "vt_realm v' = ''r''" "personal_binding demo_vault_env 1 (new_entry demo_vault_env 0 demo_user demo_definition ''k'') = Inr b"
    "vt_entries v' = [b_name b \<mapsto> new_entry demo_vault_env 0 demo_user demo_definition ''k'']" "vt_files v' = [b_name b \<mapsto> data]"
proof -
  from demo_created obtain b v' data where c: "vault_create demo_vault_env 1 [] 0 demo_nonce PersistOk demo_user demo_definition ''k'' (empty_vault ''r'')
     = (Inr (b, True), v')" "vt_poison v' = None" "vt_realm v' = ''r''"
     "vt_entries v' = [b_name b \<mapsto> new_entry demo_vault_env 0 demo_user demo_definition ''k'']" "vt_files v' = [b_name b \<mapsto> data]" by metis
  have d: "demo_definition\<lparr>df_label := trim_space (df_label demo_definition)\<rparr> = demo_definition"
    by (simp add: demo_definition_def demo_trim)
  have "owner_ok demo_user" unfolding owner_ok_def demo_user_def owner.simps by (intro conjI demo_valid_strings)
  then have "vault_step demo_vault_env (\<lambda>_. 0, empty_vault ''r'') ((\<lambda>_. 0)(b_name b := 1), v')"
    by (intro vault_step.created [OF c(1)]) (simp_all add: d demo_definition_ok demo_nonce_def nonce_ok_def nonce_size_def empty_vault_def)
  moreover from c(1) have "personal_binding demo_vault_env 1 (new_entry demo_vault_env 0 demo_user demo_definition ''k'') = Inr b"
    by (rule vault_create_new)
  ultimately show thesis using c that by blast
qed


theorem vault_separates_users_witness:
  "\<exists>v k e. vt_entries v k = Some e
     \<and> vt_entries (snd (vault_delete PersistOk (demo_user\<lparr>o_id := ''z''\<rparr>) k v)) k = Some e"
proof (rule demo_run)
  fix b v' data
  let ?e = "new_entry demo_vault_env 0 demo_user demo_definition ''k''"
  assume r: "(vault_step demo_vault_env)\<^sup>*\<^sup>* (\<lambda>_. 0, empty_vault ''r'') ((\<lambda>_. 0)(b_name b := 1), v')"
    and "vt_entries v' = [b_name b \<mapsto> ?e]"
  then have e: "vt_entries v' (b_name b) = Some ?e" by simp
  have "vault_inv demo_vault_env (\<lambda>_. 0, empty_vault ''r'')"
    by (simp add: vault_inv_def vault_synced_empty) (simp add: empty_vault_def)
  from vault_run_inv [OF r this demo_crypto_ok]
  have i: "vault_inv demo_vault_env ((\<lambda>_. 0)(b_name b := 1), v')" .
  have "pe_owner ?e \<noteq> demo_user\<lparr>o_id := ''z''\<rparr>" by (simp add: new_entry_def demo_user_def Let_def)
  from vault_separates_users [OF i e this disjI2 [OF disjI2 [OF refl]]] e show ?thesis by blast
qed

theorem vault_create_idempotent_witness:
  "\<exists>b v'. vault_create demo_vault_env 2 [] 7 (Inl ErrNotFound) PersistFail demo_user demo_definition ''k'' v' = (Inr (b, False), v')"
proof -
  from demo_created obtain b v' where
    "vault_create demo_vault_env 1 [] 0 demo_nonce PersistOk demo_user demo_definition ''k'' (empty_vault ''r'') = (Inr (b, True), v')"
    by metis
  from vault_create_idempotent [OF this, of 2 "[]" 7 "Inl ErrNotFound" PersistFail demo_definition] show ?thesis
    by (auto simp: new_entry_def Let_def simp del: jprint.simps)
qed

theorem personal_direction_witness:
  "\<exists>b. personal_binding demo_vault_env 1 (new_entry demo_vault_env 0 demo_user demo_definition ''k'') = Inr b
     \<and> allows_read b ''s'' \<and> \<not> allows_write b ''s''"
proof -
  from demo_run obtain b where b: "personal_binding demo_vault_env 1 (new_entry demo_vault_env 0 demo_user demo_definition ''k'') = Inr b"
    by metis
  from personal_direction [OF b, of "''s''"] b show ?thesis
    by (simp add: new_entry_def demo_user_def demo_definition_def Let_def)
qed

definition large_definition :: definition_text where
  "large_definition = \<lparr>df_label = ''a'', df_direction = ''source'',
     df_config = demo_config\<lparr>pc_kind := ''s3vectors'', pc_endpoint := [], pc_region := ''us-east-1'', pc_bucket := ''b'', pc_index := ''i''\<rparr>,
     df_creds = demo_creds\<lparr>cr_api_key := [], cr_access_key_id := replicate 16384 (CHR ''<''),
       cr_secret_access_key := replicate 16384 (CHR ''<'')\<rparr>\<rparr>"

lemma large_opens: "\<exists>b. open_personal (\<lambda>s. s) demo_url (\<lambda>_. None) no_drivers 1 (df_config large_definition) (df_creds large_definition) = Inr b"
proof -
  have kind: "\<not> is_additional ''s3vectors''" "is_builtin ''s3vectors''" by code_simp+
  have names: "region_name ''us-east-1''" "match_name ''b''" "match_name ''i''" by code_simp+
  have "\<not> bad_text 16384 (replicate 16384 (CHR ''<''))" "\<not> bad_text m []" for m
    by (auto simp: bad_text_def contains_any_def list_ex_iff)
  moreover have "\<not> bad_text 2048 ''us-east-1''" "\<not> bad_text 2048 ''b''" "\<not> bad_text 2048 ''i''"
    by (simp_all add: bad_text_def contains_any_def)
  ultimately have "validate_personal demo_url (\<lambda>_. None) (df_config large_definition) (df_creds large_definition) = None"
    by (simp add: validate_personal_def large_definition_def demo_config_def demo_creds_def kind s3_error_def names)
  then show ?thesis by (simp add: open_personal_def kind large_definition_def Let_def)
qed

theorem large_connection_blocks_restart_witness:
  "\<exists>b v' data. vault_create demo_vault_env 1 [] 0 demo_nonce PersistOk demo_user large_definition ''k'' (empty_vault ''r'')
       = (Inr (b, True), v')
     \<and> (\<exists>err. load_files demo_vault_env (\<lambda>_. 1) 0 [\<lparr>vf_name = b_name b, vf_dir = False, vf_regular = True,
          vf_size = int (length data), vf_data = Some data\<rparr>] (empty_vault ''r'') = Inl err)"
proof -
  have d: "df_label large_definition = ''a''" "df_direction large_definition = ''source''" by (simp_all add: large_definition_def)
  from large_opens obtain b0 where o: "open_personal (\<lambda>s. s) demo_url (\<lambda>_. None) no_drivers 1 (df_config large_definition) (df_creds large_definition) = Inr b0"
    by blast
  from demo_create [OF d o] obtain b v' data where
    c: "vault_create demo_vault_env 1 [] 0 demo_nonce PersistOk demo_user large_definition ''k'' (empty_vault ''r'') = (Inr (b, True), v')"
    and f: "vt_files v' = [b_name b \<mapsto> data]" by blast
  let ?f = "\<lparr>vf_name = b_name b, vf_dir = False, vf_regular = True, vf_size = int (length data), vf_data = Some data\<rparr>"
  have "\<exists>err. load_files demo_vault_env (\<lambda>_. 1) 0 [?f] (empty_vault ''r'') = Inl err"
    by (rule large_connection_blocks_restart [OF c demo_crypto_ok, where f = ?f and data = data])
      (simp_all add: f large_definition_def demo_crypto_def)
  with c show ?thesis by blast
qed

end
