(* ===== verification/Go_Wire.thy ===== *)
theory Go_Wire
  imports Journal_Codec Connector
begin

section \<open>What connectors put on the wire: URLs, base64, float32 and JSON bodies\<close>

text \<open>
  The parts of net/url, encoding/base64, strconv and encoding/json that the connectors use. A request
  body is a \<open>gval\<close>, the Go value given to \<^verbatim>\<open>json.Marshal\<close>; the decimal text of a float32 is a
  parameter, as nothing but the size of a body depends on it. A response is decoded from its JSON text
  with the correctly rounded float32 of each number. A \<^verbatim>\<open>json.RawMessage\<close> that was decoded is the
  compact text of its value.
\<close>

subsection \<open>URLs\<close>

definition url_unreserved :: "char \<Rightarrow> bool" where
  "url_unreserved c \<longleftrightarrow> is_upper c \<or> is_lower c \<or> is_digit c \<or> c \<in> set [CHR ''-'', CHR ''_'', CHR ''.'', CHR ''~'']"

definition upper_hex :: "nat \<Rightarrow> char" where
  "upper_hex n = (if n < 10 then char_of (48 + n) else char_of (55 + n))"

definition percent :: "char \<Rightarrow> string" where
  "percent c = [CHR ''%'', upper_hex (byte c div 16), upper_hex (byte c mod 16)]"

text \<open>\<^verbatim>\<open>url.PathEscape\<close> and \<^verbatim>\<open>url.QueryEscape\<close>.\<close>

definition path_escape :: "string \<Rightarrow> string" where
  "path_escape s = concat (map (\<lambda>c.
     if url_unreserved c \<or> c \<in> set [CHR ''$'', CHR ''&'', CHR ''+'', CHR '':'', CHR ''='', CHR ''@''] then [c] else percent c) s)"

definition query_escape :: "string \<Rightarrow> string" where
  "query_escape s = concat (map (\<lambda>c. if url_unreserved c then [c] else if c = CHR '' '' then ''+'' else percent c) s)"

text \<open>\<^verbatim>\<open>url.Values.Encode\<close> of the given keys, each with its values in order.\<close>

definition values_encode :: "(string \<times> string list) list \<Rightarrow> string" where
  "values_encode q = join (CHR ''&'') (concat (map (\<lambda>(k, vs).
     map (\<lambda>v. query_escape k @ CHR ''='' # query_escape v) vs) (sort_key fst q)))"

definition uuid_pattern :: "string \<Rightarrow> bool" where
  "uuid_pattern s \<longleftrightarrow> length s = 36
     \<and> list_all (\<lambda>(i, c). if i \<in> set [8, 13, 18, 23 :: nat] then c = CHR ''-'' else is_hex c) (zip [0..<36] s)"

text \<open>An escaped segment holds no character that would end it.\<close>

lemma upper_hex_plain: "n < 16 \<Longrightarrow> is_digit (upper_hex n) \<or> is_upper (upper_hex n)"
  by (auto simp: upper_hex_def is_digit_def is_upper_def byte_char_of)

lemma plain_no_separator:
  "url_unreserved c \<or> c \<in> set [CHR ''$'', CHR ''&'', CHR ''+'', CHR '':'', CHR ''='', CHR ''@''] \<Longrightarrow>
   c \<noteq> CHR ''/'' \<and> c \<noteq> CHR ''?'' \<and> c \<noteq> CHR ''#'' \<and> c \<noteq> CHR ''%''"
  by (auto simp: url_unreserved_def is_digit_def is_upper_def is_lower_def byte_def)

lemma path_escape_segment:
  assumes "c \<in> set (path_escape s)"
  shows "c \<noteq> CHR ''/'' \<and> c \<noteq> CHR ''?'' \<and> c \<noteq> CHR ''#''"
proof -
  have h: "byte d div 16 < 16" for d using byte_less [of d] by (simp add: less_mult_imp_div_less)
  have p: "x \<noteq> CHR ''/'' \<and> x \<noteq> CHR ''?'' \<and> x \<noteq> CHR ''#''" if "is_digit x \<or> is_upper x" for x
    using that plain_no_separator [of x] by (auto simp: url_unreserved_def)
  from assms show ?thesis
    unfolding path_escape_def
    using p [OF upper_hex_plain [OF h]] p [OF upper_hex_plain] plain_no_separator
    by (auto simp: percent_def split: if_splits)
qed

subsection \<open>\<^verbatim>\<open>base64.RawURLEncoding\<close>\<close>

definition b64_char :: "nat \<Rightarrow> char" where
  "b64_char n = (if n < 26 then char_of (65 + n) else if n < 52 then char_of (71 + n)
     else if n < 62 then char_of (n - 4) else if n = 62 then CHR ''-'' else CHR ''_'')"

definition b64_val :: "char \<Rightarrow> nat option" where
  "b64_val c = (if is_upper c then Some (byte c - 65) else if is_lower c then Some (byte c - 71)
     else if is_digit c then Some (byte c + 4) else if c = CHR ''-'' then Some 62
     else if c = CHR ''_'' then Some 63 else None)"

fun b64_encode :: "string \<Rightarrow> string" where
  "b64_encode (a # b # c # r) =
     b64_char (byte a div 4) # b64_char (byte a mod 4 * 16 + byte b div 16)
       # b64_char (byte b mod 16 * 4 + byte c div 64) # b64_char (byte c mod 64) # b64_encode r"
| "b64_encode [a, b] = [b64_char (byte a div 4), b64_char (byte a mod 4 * 16 + byte b div 16), b64_char (byte b mod 16 * 4)]"
| "b64_encode [a] = [b64_char (byte a div 4), b64_char (byte a mod 4 * 16)]"
| "b64_encode [] = []"

fun b64_groups :: "nat list \<Rightarrow> string option" where
  "b64_groups (a # b # c # d # r) =
     map_option (\<lambda>s. char_of (a * 4 + b div 16) # char_of (b mod 16 * 16 + c div 4) # char_of (c mod 4 * 64 + d) # s) (b64_groups r)"
| "b64_groups [a, b, c] = Some [char_of (a * 4 + b div 16), char_of (b mod 16 * 16 + c div 4)]"
| "b64_groups [a, b] = Some [char_of (a * 4 + b div 16)]"
| "b64_groups [a] = None"
| "b64_groups [] = Some []"

fun all_some :: "'a option list \<Rightarrow> 'a list option" where
  "all_some [] = Some []"
| "all_some (x # xs) = (case (x, all_some xs) of (Some y, Some ys) \<Rightarrow> Some (y # ys) | _ \<Rightarrow> None)"

definition b64_decode :: "string \<Rightarrow> string option" where
  "b64_decode s = (case all_some (map b64_val (filter (\<lambda>c. c \<noteq> CHR 0x0A \<and> c \<noteq> CHR 0x0D) s)) of
       None \<Rightarrow> None | Some ns \<Rightarrow> b64_groups ns)"

lemma b64_val_char: "n < 64 \<Longrightarrow> b64_val (b64_char n) = Some n"
proof -
  assume "n < 64"
  then consider "n < 26" | "26 \<le> n" "n < 52" | "52 \<le> n" "n < 62" | "n = 62" | "n = 63" by linarith
  then show ?thesis
  proof cases
    case 3
    then show ?thesis by (simp add: b64_val_def b64_char_def is_upper_def is_lower_def is_digit_def byte_char_of) arith
  qed (simp_all add: b64_val_def b64_char_def is_upper_def is_lower_def is_digit_def byte_char_of byte_def)
qed

lemma b64_char_kept: "n < 64 \<Longrightarrow> b64_char n \<noteq> CHR 0x0A \<and> b64_char n \<noteq> CHR 0x0D"
  using b64_val_char [of n] by (auto simp: b64_val_def is_upper_def is_lower_def is_digit_def byte_def)

lemma all_some_map: "all_some (map (\<lambda>x. Some (f x)) xs) = Some (map f xs)"
  by (induction xs) simp_all

text \<open>A cursor is decoded to what was encoded.\<close>

lemma b64_bits:
  "byte a div 4 < 64" "byte a mod 4 * 16 + byte b div 16 < 64" "byte b mod 16 * 4 + byte c div 64 < 64" "byte c mod 64 < 64"
  "byte a mod 4 * 16 < 64" "byte b mod 16 * 4 < 64"
proof -
  have q: "byte d div 4 < 64" "byte d div 16 < 16" "byte d div 64 < 4" "byte d mod 4 < 4" "byte d mod 16 < 16" for d
    using byte_less [of d] by (simp_all add: less_mult_imp_div_less)
  show "byte a div 4 < 64" "byte a mod 4 * 16 < 64" "byte b mod 16 * 4 < 64" "byte c mod 64 < 64"
    using q(1) [of a] q(4) [of a] q(5) [of b] by simp_all
  show "byte a mod 4 * 16 + byte b div 16 < 64" "byte b mod 16 * 4 + byte c div 64 < 64"
    using q(4) [of a] q(2) [of b] q(5) [of b] q(3) [of c] by linarith+
qed

lemma b64_parts:
  "byte b div 16 div 16 = 0" "byte b div 16 mod 16 = byte b div 16"
  "byte b div 64 div 4 = 0" "byte b div 64 mod 4 = byte b div 64"
  using byte_less [of b] by (simp_all add: less_mult_imp_div_less)

lemma char_of_byte [simp]: "char_of (byte c) = c"
  by (simp add: byte_def)

lemma b64_decode_encode: "b64_decode (b64_encode s) = Some s"
proof (induction s rule: b64_encode.induct)
  case (1 a b c r)
  let ?f = "filter (\<lambda>c. c \<noteq> CHR 0x0A \<and> c \<noteq> CHR 0x0D)"
  have kept: "?f (b64_encode (a # b # c # r)) =
    [b64_char (byte a div 4), b64_char (byte a mod 4 * 16 + byte b div 16), b64_char (byte b mod 16 * 4 + byte c div 64),
     b64_char (byte c mod 64)] @ ?f (b64_encode r)"
    using b64_char_kept b64_bits by simp
  from 1 obtain ns where ns: "all_some (map b64_val (?f (b64_encode r))) = Some ns" "b64_groups ns = Some r"
    by (auto simp: b64_decode_def split: option.splits)
  show ?case unfolding b64_decode_def kept using ns by (simp add: b64_val_char b64_bits b64_parts)
next
  case (2 a b)
  show ?case using b64_char_kept b64_bits by (simp add: b64_decode_def b64_val_char b64_parts)
next
  case (3 a)
  show ?case using b64_char_kept b64_bits by (simp add: b64_decode_def b64_val_char b64_parts)
qed (simp add: b64_decode_def)

subsection \<open>float32\<close>

text \<open>
  The float32 nearest to \<open>num / den\<close>, ties to even, as its bits without the sign; \<open>None\<close> is overflow.
  \<open>e\<close> is the exponent of the last place: the quotient lies below \<open>2 ^ (24 + e)\<close>, and \<open>e\<close> is the least
  such exponent from -149 on.
\<close>

fun bits :: "nat \<Rightarrow> nat" where
  "bits n = (if n = 0 then 0 else Suc (bits (n div 2)))"

declare bits.simps [simp del]

definition round_half_even :: "nat \<Rightarrow> nat \<Rightarrow> nat" where
  "round_half_even num den = (let q = num div den; r = num mod den in
     if 2 * r < den \<or> (2 * r = den \<and> even q) then q else Suc q)"

definition f32_scale :: "nat \<Rightarrow> nat \<Rightarrow> int \<Rightarrow> nat \<times> nat" where
  "f32_scale num den e = (if 0 \<le> e then (num, den * 2 ^ nat e) else (num * 2 ^ nat (- e), den))"

definition f32_place :: "nat \<Rightarrow> nat \<Rightarrow> int" where
  "f32_place num den =
     (let e0 = int (bits num) - int (bits den) - 24; s = f32_scale num den e0
      in max (if fst s < 2 ^ 24 * snd s then e0 else e0 + 1) (- 149))"

definition f32_nearest :: "nat \<Rightarrow> nat \<Rightarrow> nat option" where
  "f32_nearest num den =
     (if num = 0 then Some 0
      else
        let e = f32_place num den; s = f32_scale num den e;
            b = nat (e + 149) * 2 ^ 23 + round_half_even (fst s) (snd s)
        in if b < 255 * 2 ^ 23 then Some b else None)"

definition f32_signed :: "bool \<Rightarrow> nat \<Rightarrow> f32" where
  "f32_signed neg b = word_of_nat (if neg then 2 ^ 31 + b else b)"

text \<open>\<^verbatim>\<open>strconv.ParseFloat(s, 32)\<close> of the text of a JSON number.\<close>

definition f32_text :: "string \<Rightarrow> f32 option" where
  "f32_text s =
     (let neg = has_prefix s ''-'';
          t = trim_prefix s ''-'';
          ip = takeWhile is_digit t;
          r = dropWhile is_digit t;
          fp = (if has_prefix r ''.'' then takeWhile is_digit (drop 1 r) else []);
          x = (if has_prefix r ''.'' then dropWhile is_digit (drop 1 r) else r);
          ex = (case parse_int (drop 1 x) of None \<Rightarrow> 0 | Some n \<Rightarrow> n) - int (length fp);
          m = dec_val (ip @ fp)
      in map_option (f32_signed neg)
           (if 0 \<le> ex then f32_nearest (m * 10 ^ nat ex) 1 else f32_nearest m (10 ^ nat (- ex))))"

subsection \<open>Values given to \<^verbatim>\<open>json.Marshal\<close>\<close>

datatype gval =
    GNull
  | GBool bool
  | GInt int
  | GStr string
  | GFloat f32
  | GRaw string
  | GArr "gval list"
  | GMap "(string \<times> gval) list"
  | GStruct "(string \<times> gval) list"

text \<open>A raw message is compacted with the HTML characters of its strings escaped; a nil one is null.\<close>

fun html_raw :: "string \<Rightarrow> string" where
  "html_raw [] = []"
| "html_raw (c # cs) =
     (if c \<in> set [CHR ''<'', CHR ''>'', CHR ''&''] then escape_ascii c @ html_raw cs
      else if take 3 (c # cs) = [CHR 0xE2, CHR 0x80, CHR 0xA8] then u_escape ''2028'' @ html_raw (drop 2 cs)
      else if take 3 (c # cs) = [CHR 0xE2, CHR 0x80, CHR 0xA9] then u_escape ''2029'' @ html_raw (drop 2 cs)
      else c # html_raw cs)"

fun html_json :: "json \<Rightarrow> json" where
  "html_json (JStr s) = JStr (html_raw s)"
| "html_json (JArr xs) = JArr (map html_json xs)"
| "html_json (JObj ms) = JObj (map (\<lambda>(k, v). (html_raw k, html_json v)) ms)"
| "html_json v = v"

fun gjson :: "(f32 \<Rightarrow> string) \<Rightarrow> gval \<Rightarrow> json option" where
  "gjson num GNull = Some JNull"
| "gjson num (GBool b) = Some (JBool b)"
| "gjson num (GInt n) = Some (jint n)"
| "gjson num (GStr s) = Some (jstr s)"
| "gjson num (GFloat w) = (if f32_finite w then Some (JNum (num w)) else None)"
| "gjson num (GRaw s) = (if s = [] then Some JNull else map_option html_json (json_parse s))"
| "gjson num (GArr xs) = map_option JArr (all_some (map (gjson num) xs))"
| "gjson num (GMap ms) = map_option (\<lambda>vs. JObj (map (apfst json_escape) (sort_key fst (zip (map fst ms) vs)))) (all_some (map (\<lambda>(k, v). gjson num v) ms))"
| "gjson num (GStruct ms) = map_option (\<lambda>vs. JObj (zip (map (json_escape \<circ> fst) ms) vs)) (all_some (map (\<lambda>(k, v). gjson num v) ms))"

definition marshal_error :: go_error where
  "marshal_error = ErrNew ''json: unsupported value or invalid raw message''"

definition marshal :: "(f32 \<Rightarrow> string) \<Rightarrow> gval \<Rightarrow> string result" where
  "marshal num v = (case gjson num v of None \<Rightarrow> Inl marshal_error | Some j \<Rightarrow> Inr (jprint j))"

definition gvec :: "f32 list \<Rightarrow> gval" where
  "gvec xs = GArr (map GFloat xs)"

definition graws :: "(string \<times> string) list \<Rightarrow> gval" where
  "graws ms = GMap (map (\<lambda>(k, v). (k, GRaw v)) ms)"

definition grecord :: "vrecord \<Rightarrow> gval" where
  "grecord r = GStruct ([(''id'', GStr (r_id r)), (''values'', gvec (r_values r))]
     @ (if r_metadata r = [] then [] else [(''metadata'', graws (r_metadata r))]))"

subsection \<open>Reading a response\<close>

text \<open>
  A decoder turns a JSON value into a Go value; \<open>None\<close> is the error. \<^verbatim>\<open>null\<close> leaves a number or a string
  as it is and makes a slice, a map or a pointer nil.
\<close>

fun dec_elem_f32 :: "json \<Rightarrow> f32 option" where
  "dec_elem_f32 (JNum s) = f32_text s"
| "dec_elem_f32 JNull = Some 0"
| "dec_elem_f32 _ = None"

fun dec_elem_str :: "json \<Rightarrow> string option" where
  "dec_elem_str (JStr s) = Some (json_unquote s)"
| "dec_elem_str JNull = Some []"
| "dec_elem_str _ = None"

text \<open>A slice: nil for \<^verbatim>\<open>null\<close>. Its elements are decoded one by one.\<close>

definition dec_slice :: "(json \<Rightarrow> 'a option) \<Rightarrow> json \<Rightarrow> 'a list option option" where
  "dec_slice f v = (case v of JNull \<Rightarrow> Some None | JArr xs \<Rightarrow> map_option Some (all_some (map f xs)) | _ \<Rightarrow> None)"

definition nil_empty :: "'a list option \<Rightarrow> 'a list" where
  "nil_empty x = (case x of None \<Rightarrow> [] | Some xs \<Rightarrow> xs)"

definition dec_vec :: "json \<Rightarrow> f32 list option" where
  "dec_vec v = map_option nil_empty (dec_slice dec_elem_f32 v)"

fun put_member :: "'k \<Rightarrow> 'v \<Rightarrow> ('k \<times> 'v) list \<Rightarrow> ('k \<times> 'v) list" where
  "put_member k v [] = [(k, v)]"
| "put_member k v (m # ms) = (if fst m = k then (k, v) # ms else m # put_member k v ms)"

text \<open>\<^verbatim>\<open>map[string]json.RawMessage\<close>: nil for \<^verbatim>\<open>null\<close>; a later member replaces an earlier one.\<close>

definition dec_raws :: "json \<Rightarrow> (string \<times> string) list option option" where
  "dec_raws v = (case v of JNull \<Rightarrow> Some None
     | JObj ms \<Rightarrow> Some (Some (foldl (\<lambda>acc (k, x). put_member (json_unquote k) (jprint x) acc) [] ms)) | _ \<Rightarrow> None)"

definition dec_field :: "(json \<Rightarrow> 'a option) \<Rightarrow> (('a \<Rightarrow> 'a) \<Rightarrow> 'r \<Rightarrow> 'r) \<Rightarrow> json \<Rightarrow> 'r \<Rightarrow> 'r option" where
  "dec_field f upd v r = map_option (\<lambda>x. upd (\<lambda>_. x) r) (f v)"

fun dec_int_ptr :: "json \<Rightarrow> int option option" where
  "dec_int_ptr JNull = Some None"
| "dec_int_ptr (JNum s) = map_option Some (parse_int s)"
| "dec_int_ptr _ = None"

fun dec_bool_ptr :: "json \<Rightarrow> bool option option" where
  "dec_bool_ptr JNull = Some None"
| "dec_bool_ptr (JBool b) = Some (Some b)"
| "dec_bool_ptr _ = None"

definition dec_raw :: "json \<Rightarrow> string option" where
  "dec_raw v = Some (jprint v)"

definition raw_member :: "string \<Rightarrow> (string \<times> string) list \<Rightarrow> string" where
  "raw_member k ms = (case map_of ms k of None \<Rightarrow> [] | Some v \<Rightarrow> v)"

definition del_member :: "string \<Rightarrow> (string \<times> string) list \<Rightarrow> (string \<times> string) list" where
  "del_member k ms = filter (\<lambda>m. fst m \<noteq> k) ms"

definition unmarshal :: "(json \<Rightarrow> 'a option) \<Rightarrow> string \<Rightarrow> 'a option" where
  "unmarshal f s = (case json_parse s of None \<Rightarrow> None | Some v \<Rightarrow> f v)"

definition dec_record :: "string \<Rightarrow> json \<Rightarrow> vrecord \<Rightarrow> vrecord option" where
  "dec_record k v r =
     (if k = ''id'' then dec_str r_id_update v r
      else if k = ''values'' then dec_field dec_vec r_values_update v r
      else if k = ''metadata'' then dec_field (map_option nil_empty \<circ> dec_raws) r_metadata_update v r
      else Some r)"

definition zero_record :: vrecord where
  "zero_record = \<lparr>r_id = [], r_values = [], r_metadata = []\<rparr>"

lemma set_put_member: "fst ` set (put_member k v ms) = insert k (fst ` set ms)"
  by (induction ms) auto

lemma distinct_put_member: "distinct (map fst ms) \<Longrightarrow> distinct (map fst (put_member k v ms))"
proof (induction ms)
  case (Cons m ms)
  then show ?case using set_put_member [of k v ms] by (auto simp: image_iff)
qed simp

text \<open>What was decoded as a map has each key once.\<close>

lemma dec_raws_distinct: "dec_raws v = Some (Some ms) \<Longrightarrow> distinct (map fst ms)"
proof -
  have "distinct (map fst (foldl (\<lambda>acc (k, x). put_member (json_unquote k) (jprint x) acc) acc xs))"
    if "distinct (map fst acc)" for acc and xs :: "(string \<times> json) list"
    using that by (induction xs arbitrary: acc) (auto intro: distinct_put_member)
  then show "dec_raws v = Some (Some ms) \<Longrightarrow> distinct (map fst ms)"
    by (auto simp: dec_raws_def split: json.splits)
qed

end
