(* ===== verification/Operator_Config.thy ===== *)
theory Operator_Config
  imports Personal Go_Wire
begin

section \<open>The operator's connections (src/connector/config.go, factory.go)\<close>

text \<open>
  Reading the configuration file, opening each connection, built in or by a registered factory, and
  closing what was opened when a later one fails. The environment, the URL and address parsers, the AWS
  configuration loader, the database drivers and the factories are parameters; opening a remote
  connector is the handle \<open>be_handle name\<close>, closing a Redis or MongoDB client \<open>be_close name\<close>. A closer is what \<^verbatim>\<open>Close\<close> returns, \<^verbatim>\<open>sync.OnceValue\<close> makes it
  the same every time. A connector kind is printed between quotes as it stands.
\<close>

subsection \<open>Settings\<close>

record conn_settings =
  cs_read_subjects :: "string list"
  cs_write_subjects :: "string list"
  cs_write_only :: bool
  cs_role_arn :: string
  cs_external_id_env :: string
  cs_kind :: string
  cs_endpoint :: string
  cs_collection :: string
  cs_namespace :: string
  cs_bucket :: string
  cs_index :: string
  cs_region :: string
  cs_api_key_env :: string
  cs_distance_metric :: string
  cs_id_type :: string
  cs_read_only :: bool
  cs_options :: string
  cs_database :: string
  cs_auth_database :: string
  cs_tenant :: string
  cs_vector_field :: string
  cs_id_field :: string
  cs_metadata_field :: string
  cs_key_prefix :: string
  cs_username_env :: string
  cs_password_env :: string

definition zero_settings :: conn_settings where
  "zero_settings = \<lparr>cs_read_subjects = [], cs_write_subjects = [], cs_write_only = False, cs_role_arn = [],
     cs_external_id_env = [], cs_kind = [], cs_endpoint = [], cs_collection = [], cs_namespace = [], cs_bucket = [],
     cs_index = [], cs_region = [], cs_api_key_env = [], cs_distance_metric = [], cs_id_type = [], cs_read_only = False,
     cs_options = [], cs_database = [], cs_auth_database = [], cs_tenant = [], cs_vector_field = [], cs_id_field = [],
     cs_metadata_field = [], cs_key_prefix = [], cs_username_env = [], cs_password_env = []\<rparr>"

definition gomit :: "bool \<Rightarrow> string \<Rightarrow> gval \<Rightarrow> (string \<times> gval) list" where
  "gomit skip k v = (if skip then [] else [(k, v)])"

definition gtext :: "string \<Rightarrow> string \<Rightarrow> (string \<times> gval) list" where
  "gtext k s = gomit (s = []) k (GStr s)"

definition settings_value :: "conn_settings \<Rightarrow> gval" where
  "settings_value c = GStruct
     (gomit (cs_read_subjects c = []) ''read_subjects'' (GArr (map GStr (cs_read_subjects c)))
      @ gomit (cs_write_subjects c = []) ''write_subjects'' (GArr (map GStr (cs_write_subjects c)))
      @ gomit (\<not> cs_write_only c) ''write_only'' (GBool True)
      @ gtext ''aws_role_arn'' (cs_role_arn c) @ gtext ''aws_external_id_env'' (cs_external_id_env c)
      @ [(''kind'', GStr (cs_kind c))]
      @ gtext ''endpoint'' (cs_endpoint c) @ gtext ''collection'' (cs_collection c) @ gtext ''namespace'' (cs_namespace c)
      @ gtext ''bucket'' (cs_bucket c) @ gtext ''index'' (cs_index c) @ gtext ''region'' (cs_region c)
      @ gtext ''api_key_env'' (cs_api_key_env c) @ gtext ''distance_metric'' (cs_distance_metric c) @ gtext ''id_type'' (cs_id_type c)
      @ gomit (\<not> cs_read_only c) ''read_only'' (GBool True) @ gomit (cs_options c = []) ''options'' (GRaw (cs_options c))
      @ gtext ''database'' (cs_database c) @ gtext ''auth_database'' (cs_auth_database c) @ gtext ''tenant'' (cs_tenant c)
      @ gtext ''vector_field'' (cs_vector_field c) @ gtext ''id_field'' (cs_id_field c) @ gtext ''metadata_field'' (cs_metadata_field c)
      @ gtext ''key_prefix'' (cs_key_prefix c) @ gtext ''username_env'' (cs_username_env c) @ gtext ''password_env'' (cs_password_env c))"

text \<open>\<^verbatim>\<open>Fingerprint(v)\<close>; the values here hold no float.\<close>

definition value_fingerprint :: "(string \<Rightarrow> string) \<Rightarrow> gval \<Rightarrow> string" where
  "value_fingerprint sha v = fingerprint sha (case marshal (\<lambda>_. []) v of Inl e \<Rightarrow> [] | Inr b \<Rightarrow> b)"

definition dec_strings :: "json \<Rightarrow> string list option" where
  "dec_strings v = map_option nil_empty (dec_slice dec_elem_str v)"

text \<open>The strict decoder refuses a key it does not know.\<close>

definition dec_settings :: "string \<Rightarrow> json \<Rightarrow> conn_settings \<Rightarrow> conn_settings option" where
  "dec_settings k v r =
     (if k = ''read_subjects'' then dec_field dec_strings cs_read_subjects_update v r
      else if k = ''write_subjects'' then dec_field dec_strings cs_write_subjects_update v r
      else if k = ''write_only'' then dec_bool cs_write_only_update v r
      else if k = ''aws_role_arn'' then dec_str cs_role_arn_update v r
      else if k = ''aws_external_id_env'' then dec_str cs_external_id_env_update v r
      else if k = ''kind'' then dec_str cs_kind_update v r
      else if k = ''endpoint'' then dec_str cs_endpoint_update v r
      else if k = ''collection'' then dec_str cs_collection_update v r
      else if k = ''namespace'' then dec_str cs_namespace_update v r
      else if k = ''bucket'' then dec_str cs_bucket_update v r
      else if k = ''index'' then dec_str cs_index_update v r
      else if k = ''region'' then dec_str cs_region_update v r
      else if k = ''api_key_env'' then dec_str cs_api_key_env_update v r
      else if k = ''distance_metric'' then dec_str cs_distance_metric_update v r
      else if k = ''id_type'' then dec_str cs_id_type_update v r
      else if k = ''read_only'' then dec_bool cs_read_only_update v r
      else if k = ''options'' then dec_field dec_raw cs_options_update v r
      else if k = ''database'' then dec_str cs_database_update v r
      else if k = ''auth_database'' then dec_str cs_auth_database_update v r
      else if k = ''tenant'' then dec_str cs_tenant_update v r
      else if k = ''vector_field'' then dec_str cs_vector_field_update v r
      else if k = ''id_field'' then dec_str cs_id_field_update v r
      else if k = ''metadata_field'' then dec_str cs_metadata_field_update v r
      else if k = ''key_prefix'' then dec_str cs_key_prefix_update v r
      else if k = ''username_env'' then dec_str cs_username_env_update v r
      else if k = ''password_env'' then dec_str cs_password_env_update v r
      else None)"

definition dec_conn_map :: "json \<Rightarrow> (string \<times> conn_settings) list option option" where
  "dec_conn_map v = (case v of JNull \<Rightarrow> Some None
     | JObj ms \<Rightarrow> map_option (\<lambda>cs. Some (foldl (\<lambda>acc (k, c). put_member k c acc) [] (zip (map (json_unquote \<circ> fst) ms) cs)))
                    (all_some (map (\<lambda>(k, x). dec_struct dec_settings x zero_settings) ms))
     | _ \<Rightarrow> None)"

text \<open>The first JSON value of a text and what follows it, as a decoder on a stream reads them.\<close>

definition first_value :: "string \<Rightarrow> (json \<times> string) option" where
  "first_value s = pval (2 * length s + 2) max_nesting s"

text \<open>\<^verbatim>\<open>DecodeOptions\<close> with the decoder \<open>f\<close> of the members.\<close>

definition decode_options :: "(string \<Rightarrow> json \<Rightarrow> 'r \<Rightarrow> 'r option) \<Rightarrow> string \<Rightarrow> 'r \<Rightarrow> 'r result" where
  "decode_options f raw zero =
     (if trim_space raw = [] \<or> hd (trim_space raw) \<noteq> CHR ''{'' then Inl (ErrNew ''connector options must be a JSON object'')
      else case first_value raw of
        Some (JObj ms, rest) \<Rightarrow>
          (case dec_members f ms zero of
             None \<Rightarrow> Inl (ErrNew ''invalid connector options or unknown fields'')
           | Some r \<Rightarrow> if skip_ws rest \<noteq> [] then Inl (ErrNew ''connector options must contain one JSON object'') else Inr r)
      | _ \<Rightarrow> Inl (ErrNew ''invalid connector options or unknown fields''))"

subsection \<open>Built-in connections\<close>

record build_env =
  be_sha :: "string \<Rightarrow> string"
  be_parse_url :: "string \<Rightarrow> url option"
  be_parse_ip :: "string \<Rightarrow> ip option"
  be_drivers :: drivers
  be_getenv :: "string \<Rightarrow> string"
  be_aws :: "string \<Rightarrow> bool"
  be_handle :: "string \<Rightarrow> nat"
  be_close :: "string \<Rightarrow> go_error option"

text \<open>The secrets named by the settings, each from the environment.\<close>

definition env_secret :: "build_env \<Rightarrow> string \<Rightarrow> string option" where
  "env_secret env name = (if name = [] then Some [] else if be_getenv env name = [] then None else Some (be_getenv env name))"

definition account_use :: "conn_settings \<Rightarrow> bool" where
  "account_use c \<longleftrightarrow> 0 < length (cs_read_subjects c) + length (cs_write_subjects c)"

definition settings_config :: "conn_settings \<Rightarrow> pconfig" where
  "settings_config c = \<lparr>pc_kind = cs_kind c, pc_endpoint = cs_endpoint c, pc_collection = cs_collection c,
     pc_namespace = cs_namespace c, pc_region = [], pc_bucket = [], pc_index = cs_index c, pc_distance_metric = [],
     pc_id_type = cs_id_type c, pc_database = cs_database c, pc_auth_database = cs_auth_database c, pc_tenant = cs_tenant c,
     pc_vector_field = cs_vector_field c, pc_id_field = cs_id_field c, pc_metadata_field = cs_metadata_field c,
     pc_key_prefix = cs_key_prefix c\<rparr>"

definition without_sink :: "bool \<Rightarrow> binding \<Rightarrow> binding" where
  "without_sink read_only b = (if read_only then b\<lparr>b_sink := None, b_can_write := False\<rparr> else b)"

definition build_additional :: "build_env \<Rightarrow> string \<Rightarrow> conn_settings \<Rightarrow> binding result" where
  "build_additional env name c =
     (if has_prefix (cs_endpoint c) ''http://'' \<and> account_use c then Inl (ErrNew ''account connections require TLS'')
      else if cs_options c \<noteq> [] \<or> cs_role_arn c \<noteq> [] \<or> cs_external_id_env c \<noteq> []
      then Inl (ErrNew ''unsupported settings for this connector'')
      else case (env_secret env (cs_api_key_env c), env_secret env (cs_username_env c), env_secret env (cs_password_env c)) of
        (Some key, Some user, Some pass) \<Rightarrow>
          (case open_additional (be_sha env) (be_parse_url env) (be_parse_ip env) (be_drivers env) (be_handle env name)
                  (settings_config c)
                  \<lparr>cr_api_key = key, cr_access_key_id = [], cr_secret_access_key = [], cr_session_token = [],
                    cr_username = user, cr_password = pass\<rparr> False of
             Inl e \<Rightarrow> Inl e
           | Inr b \<Rightarrow> Inr (without_sink (cs_read_only c) (b\<lparr>b_name := name\<rparr>)))
      | _ \<Rightarrow> Inl (ErrNew ''configured credential environment variable is empty''))"

definition aws_region :: "string \<Rightarrow> bool" where
  "aws_region s \<longleftrightarrow> s \<noteq> [] \<and> list_all (\<lambda>c. is_lower c \<or> is_digit c \<or> c = CHR ''-'') s"

text \<open>The endpoint and the defaults of a hosted service, then its checks in the code's order.\<close>

definition hosted_settings :: "conn_settings \<Rightarrow> conn_settings" where
  "hosted_settings c =
     (let c1 = (if cs_kind c = ''s3vectors'' \<and> cs_endpoint c = []
            then c\<lparr>cs_endpoint := ''https://s3vectors.'' @ cs_region c @ ''.api.aws''\<rparr> else c);
          c2 = c1\<lparr>cs_endpoint := trim_right (CHR ''/'') (cs_endpoint c1)\<rparr>
      in if cs_kind c = ''turbopuffer''
         then c2\<lparr>cs_distance_metric := if_empty (cs_distance_metric c) ''cosine_distance'', cs_id_type := if_empty (cs_id_type c) ''string''\<rparr>
         else c2)"

definition hosted_error :: "build_env \<Rightarrow> conn_settings \<Rightarrow> string option" where
  "hosted_error env c =
     (if cs_options c \<noteq> [] then Some ''built-in connections use flat configuration fields, not options''
      else if cs_kind c = ''s3vectors'' \<and> cs_endpoint c = [] \<and> \<not> aws_region (cs_region c)
      then Some ''S3 Vectors requires an AWS region''
      else case be_parse_url env (cs_endpoint (hosted_settings c)) of
        None \<Rightarrow> Some ''endpoint must be an HTTP(S) origin without credentials, query, or path''
      | Some u \<Rightarrow>
          if not_origin u \<or> (u_scheme u \<noteq> ''http'' \<and> u_scheme u \<noteq> ''https'')
          then Some ''endpoint must be an HTTP(S) origin without credentials, query, or path''
          else if u_scheme u \<noteq> ''https'' \<and> (cs_api_key_env c \<noteq> [] \<or> cs_kind c = ''s3vectors'' \<or> account_use c)
          then Some ''authenticated connections require an HTTPS endpoint''
          else if cs_kind c \<noteq> ''s3vectors'' \<and> (cs_role_arn c \<noteq> [] \<or> cs_external_id_env c \<noteq> [])
          then Some ''AWS role settings require s3vectors''
          else if cs_external_id_env c \<noteq> [] \<and> cs_role_arn c = [] then Some ''aws_external_id_env requires aws_role_arn''
          else if cs_kind c = ''turbopuffer''
             \<and> cs_distance_metric (hosted_settings c) \<notin> {''cosine_distance'', ''euclidean_squared''}
          then Some ''unsupported Turbopuffer distance metric''
          else if cs_kind c = ''turbopuffer'' \<and> cs_id_type (hosted_settings c) \<notin> {''string'', ''uint'', ''uuid''}
          then Some ''Turbopuffer id_type must be string, uint, or uuid''
          else None)"

definition hosted_target_error :: "build_env \<Rightarrow> conn_settings \<Rightarrow> string \<Rightarrow> string option" where
  "hosted_target_error env c key =
     (let k = cs_kind c in
      if k = ''polign'' then (if cs_collection c = [] then Some ''collection is required'' else None)
      else if k = ''pinecone'' then (if key = [] then Some ''api_key_env is required'' else None)
      else if k = ''turbopuffer'' then
        (if key = [] \<or> \<not> match_name (cs_namespace c) then Some ''api_key_env and valid namespace are required'' else None)
      else if cs_region c = [] \<or> cs_bucket c = [] \<or> cs_index c = [] then Some ''region, bucket, and index are required''
      else if \<not> be_aws env (cs_region c) then Some ''AWS configuration could not be loaded''
      else if cs_role_arn c \<noteq> [] \<and> env_secret env (cs_external_id_env c) = None
      then Some ''AWS external ID environment variable is empty''
      else None)"

definition hosted_binding :: "build_env \<Rightarrow> string \<Rightarrow> conn_settings \<Rightarrow> binding" where
  "hosted_binding env name c =
     (let k = cs_kind c;
          desc = (if k = ''polign'' then cs_collection c
            else if k = ''s3vectors'' then cs_bucket c @ ''/'' @ cs_index c else cs_namespace c);
          h = be_handle env name
      in zero_binding\<lparr>b_name := name, b_kind := k, b_can_read := True, b_can_write := \<not> cs_read_only c,
           b_fingerprint := value_fingerprint (be_sha env) (settings_value (c\<lparr>cs_read_subjects := [], cs_write_subjects := []\<rparr>)),
           b_description := desc, b_source := Some h, b_sink := (if cs_read_only c then None else Some h),
           b_resource := strings_fingerprint (be_sha env) [k, cs_endpoint c, desc]\<rparr>)"

definition build :: "build_env \<Rightarrow> string \<Rightarrow> conn_settings \<Rightarrow> binding result" where
  "build env name c =
     (if is_additional (cs_kind c) then build_additional env name c
      else if \<not> is_builtin (cs_kind c)
      then Inl (ErrNew (''unknown connector kind '' @ quoted (cs_kind c) @ ''; register its factory in this executable''))
      else case hosted_error env c of
        Some msg \<Rightarrow> Inl (ErrNew msg)
      | None \<Rightarrow>
          (case env_secret env (cs_api_key_env c) of
             None \<Rightarrow> Inl (ErrNew ''configured API key environment variable is empty'')
           | Some key \<Rightarrow>
               (case hosted_target_error env (hosted_settings c) key of
                  Some msg \<Rightarrow> Inl (ErrNew msg)
                | None \<Rightarrow> Inr (hosted_binding env name (hosted_settings c)))))"

subsection \<open>Connections of registered factories\<close>

type_synonym closer = "go_error option"

record adapter =
  ad_source :: "nat option"
  ad_sink :: "nat option"
  ad_resource :: string
  ad_version :: string
  ad_description :: string
  ad_close :: "closer option"

type_synonym factory = "string \<Rightarrow> adapter result"

text \<open>\<^verbatim>\<open>errors.Join\<close>: nil when all its arguments are.\<close>

definition join_errors :: "go_error option list \<Rightarrow> go_error option" where
  "join_errors es = (case List.map_filter (\<lambda>e. e) es of [] \<Rightarrow> None | e # rest \<Rightarrow> Some (Joined (e # rest)))"

definition joined :: "go_error \<Rightarrow> go_error option \<Rightarrow> go_error" where
  "joined e e' = Joined (e # (case e' of None \<Rightarrow> [] | Some x \<Rightarrow> [x]))"

text \<open>The options as \<^verbatim>\<open>map[string]any\<close> with \<^verbatim>\<open>json.Number\<close>, marshalled again: keys sorted, the last of equal keys kept.\<close>

fun norm_json :: "json \<Rightarrow> json" where
  "norm_json (JStr s) = JStr (json_escape (json_unquote s))"
| "norm_json (JArr xs) = JArr (map norm_json xs)"
| "norm_json (JObj ms) = JObj (map (\<lambda>(k, v). (json_escape k, v)) (sort_key fst
     (foldl (\<lambda>acc (k, v). put_member k v acc) [] (map (\<lambda>(k, v). (json_unquote k, norm_json v)) ms))))"
| "norm_json v = v"

definition custom_fingerprint :: "(string \<Rightarrow> string) \<Rightarrow> conn_settings \<Rightarrow> adapter \<Rightarrow> (string \<times> json) list \<Rightarrow> string" where
  "custom_fingerprint sha c a ms = fingerprint sha (jprint (JObj
     ([(''Kind'', jstr (cs_kind c)), (''Resource'', jstr (ad_resource a)), (''Version'', jstr (ad_version a)),
       (''Options'', norm_json (JObj ms)), (''ReadOnly'', JBool (cs_read_only c))]
      @ omit (\<not> cs_write_only c) ''WriteOnly'' (JBool True))))"

definition only_options :: "conn_settings \<Rightarrow> conn_settings" where
  "only_options c = zero_settings\<lparr>cs_kind := cs_kind c, cs_read_only := cs_read_only c, cs_write_only := cs_write_only c,
     cs_read_subjects := cs_read_subjects c, cs_write_subjects := cs_write_subjects c, cs_options := cs_options c\<rparr>"

definition opened :: "binding \<Rightarrow> closer option \<Rightarrow> binding \<times> closer option" where
  "opened b cl = (b, cl)"

definition open_custom :: "(string \<Rightarrow> string) \<Rightarrow> string \<Rightarrow> conn_settings \<Rightarrow> factory \<Rightarrow> (binding \<times> closer option) result" where
  "open_custom sha name c factory =
     (if value_fingerprint sha (settings_value c) \<noteq> value_fingerprint sha (settings_value (only_options c))
      then Inl (ErrNew ''custom connections accept kind, read_only, write_only, read_subjects, write_subjects, and options only'')
      else case decode_options (\<lambda>k v ms. Some ms) (cs_options c) () of
        Inl e \<Rightarrow> Inl e
      | Inr _ \<Rightarrow>
          (case factory (cs_options c) of
             Inl e \<Rightarrow> Inl e
           | Inr a \<Rightarrow>
               let close_error = (case ad_close a of None \<Rightarrow> None | Some r \<Rightarrow> r);
                   source = (if cs_write_only c then None else ad_source a);
                   sink = (if cs_read_only c then None else ad_sink a);
                   ms = (case first_value (cs_options c) of Some (JObj ms, rest) \<Rightarrow> ms | _ \<Rightarrow> [])
               in if ad_resource a = [] \<or> ad_version a = []
                  then Inl (joined (ErrNew ''factory must return resource identity and checkpoint version'') close_error)
                  else if ad_source a = None \<and> ad_sink a = None
                  then Inl (joined (ErrNew ''factory must provide a source or sink'') close_error)
                  else if source = None \<and> sink = None
                  then Inl (joined (ErrNew ''direction restriction: read_only disables this sink-only connection'') close_error)
                  else Inr (opened (zero_binding\<lparr>b_name := name, b_kind := cs_kind c, b_description := ad_description a,
                       b_resource := strings_fingerprint sha [cs_kind c, ad_resource a],
                       b_fingerprint := custom_fingerprint sha c a ms,
                       b_can_read := (source \<noteq> None), b_can_write := (sink \<noteq> None), b_source := source, b_sink := sink\<rparr>)
                     (ad_close a))))"

subsection \<open>The registry\<close>

type_synonym open_registry = "(string \<times> binding \<times> closer option) list"

text \<open>\<^verbatim>\<open>Registry.Close\<close>: every closer in the order of the names, the errors joined. The list is kept in that order.\<close>

definition registry_close :: "open_registry \<Rightarrow> go_error option" where
  "registry_close r = join_errors (map (\<lambda>(name, b, cl). case cl of
       Some (Some e) \<Rightarrow> Some (Errorf (''close connection '' @ name @ '': '') e) | _ \<Rightarrow> None) r)"

fun open_all :: "build_env \<Rightarrow> (string \<rightharpoonup> factory) \<Rightarrow> (string \<times> conn_settings) list \<Rightarrow> open_registry \<Rightarrow> open_registry result" where
  "open_all env factories [] r = Inr r"
| "open_all env factories ((name, c) # cs) r =
     (if \<not> match_name name then Inl (joined (ErrNew ''invalid connection name'') (registry_close r))
      else if cs_read_only c \<and> cs_write_only c
      then Inl (joined (ErrNew ''read_only and write_only cannot both be set'') (registry_close r))
      else case (case factories (cs_kind c) of
             Some f \<Rightarrow> open_custom (be_sha env) name c f
           | None \<Rightarrow> (case build env name c of Inl e \<Rightarrow> Inl e | Inr b \<Rightarrow>
                 Inr (opened b (if cs_kind c = ''redis'' \<or> cs_kind c = ''mongodb'' then Some (be_close env name) else None)))) of
        Inl e \<Rightarrow> Inl (joined (Errorf (''connection '' @ name @ '': '') e) (registry_close r))
      | Inr (b, cl) \<Rightarrow>
          let b1 = b\<lparr>b_read_subjects := cs_read_subjects c, b_write_subjects := cs_write_subjects c\<rparr>;
              b2 = (if cs_write_only c then b1\<lparr>b_source := None, b_can_read := False\<rparr> else b1)
          in open_all env factories cs (r @ [(name, b2, cl)]))"

fun add_factories :: "(string \<times> factory option) list \<Rightarrow> (string \<rightharpoonup> factory) \<Rightarrow> (string \<rightharpoonup> factory) result" where
  "add_factories [] m = Inr m"
| "add_factories ((kind, f) # fs) m =
     (case f of
        None \<Rightarrow> Inl (ErrNew ''invalid connector factory registration'')
      | Some g \<Rightarrow>
          if \<not> match_name kind then Inl (ErrNew ''invalid connector factory registration'')
          else if is_builtin kind \<or> m kind \<noteq> None
          then Inl (ErrNew (''connector kind '' @ quoted kind @ '' is already registered''))
          else add_factories fs (m(kind \<mapsto> g)))"

text \<open>
  The file is its bytes or the error of opening it; at most 1 MiB of it is read. \<open>extensions\<close> are the
  registered factories in the order the groups are given and ranged over.
\<close>

definition config_limit :: nat where
  "config_limit = 1024 * 1024"

definition config_connections :: "string \<Rightarrow> (string \<times> conn_settings) list result" where
  "config_connections content =
     (case first_value (take config_limit content) of
        None \<Rightarrow> Inl (ErrNew ''invalid configuration'')
      | Some (v, rest) \<Rightarrow>
          (case dec_struct (\<lambda>k x r. if k = ''connections'' then dec_conn_map x else None) v None of
             None \<Rightarrow> Inl (ErrNew ''invalid configuration'')
           | Some cs \<Rightarrow>
               if skip_ws rest \<noteq> [] then Inl (ErrNew ''configuration must contain one JSON object'')
               else case cs of
                 None \<Rightarrow> Inl (ErrNew ''configuration must include a connections object'')
               | Some cs \<Rightarrow> Inr (sort_key fst cs)))"

definition load_config :: "build_env \<Rightarrow> string result \<Rightarrow> (string \<times> factory option) list \<Rightarrow> open_registry result" where
  "load_config env file_content extensions =
     (case add_factories extensions Map.empty of
        Inl e \<Rightarrow> Inl e
      | Inr factories \<Rightarrow>
          (case file_content of
             Inl e \<Rightarrow> Inl e
           | Inr content \<Rightarrow>
               (case config_connections content of Inl e \<Rightarrow> Inl e | Inr cs \<Rightarrow> open_all env factories cs [])))"

definition registry_of :: "open_registry \<Rightarrow> registry" where
  "registry_of r = map_of (map (\<lambda>(name, b, cl). (name, b)) r)"

end
