(* ===== verification/Web.thy ===== *)
theory Web
  imports Operator_Config
begin

section \<open>Requests and responses of the HTTP servers\<close>

text \<open>
  What the control plane and the account service use of net/http and mime. A request is what the server
  has parsed: the method, the decoded segments of the path (one that the mux cleans, or completes with
  a slash, is redirected before), the headers and query values with
  their first value, the cookies, and the whole body. A response is its status, its headers, the cookies
  it sets with their age, and its JSON body; a redirect has a Location and no JSON. The reply of an
  account server is the status and the body of its answer, or none when the call fails.
\<close>

record request =
  rq_method :: string
  rq_path :: "string list"
  rq_uri :: string
  rq_host :: string
  rq_tls :: bool
  rq_headers :: "(string \<times> string) list"
  rq_query :: "(string \<times> string) list"
  rq_cookies :: "(string \<times> string) list"
  rq_body :: string

record response =
  rs_status :: int
  rs_headers :: "(string \<times> string) list"
  rs_cookies :: "(string \<times> string \<times> int) list"
  rs_json :: "json option"

definition value_of :: "string \<Rightarrow> (string \<times> string) list \<Rightarrow> string" where
  "value_of k ms = (case map_of ms k of None \<Rightarrow> [] | Some v \<Rightarrow> v)"

definition header :: "string \<Rightarrow> request \<Rightarrow> string" where
  "header k r = value_of k (rq_headers r)"

definition query :: "string \<Rightarrow> request \<Rightarrow> string" where
  "query k r = value_of k (rq_query r)"

definition set_header :: "string \<Rightarrow> string \<Rightarrow> response \<Rightarrow> response" where
  "set_header k v rs = rs\<lparr>rs_headers := rs_headers rs @ [(k, v)]\<rparr>"

definition no_response :: response where
  "no_response = \<lparr>rs_status = 200, rs_headers = [], rs_cookies = [], rs_json = None\<rparr>"

definition redirect :: "string \<Rightarrow> int \<Rightarrow> response" where
  "redirect url status = no_response\<lparr>rs_status := status, rs_headers := [(''Location'', url)]\<rparr>"

text \<open>\<^verbatim>\<open>http.NotFound\<close> and the answer of the mux to a path that exists for other methods.\<close>

definition not_found :: response where
  "not_found = no_response\<lparr>rs_status := 404\<rparr>"

definition wrong_method :: response where
  "wrong_method = no_response\<lparr>rs_status := 405\<rparr>"

subsection \<open>\<^verbatim>\<open>mime.ParseMediaType\<close>\<close>

definition token_char :: "char \<Rightarrow> bool" where
  "token_char c \<longleftrightarrow> 0x20 < byte c \<and> byte c < 0x7F \<and> c \<notin> set [CHR ''('', CHR '')'', CHR ''<'', CHR ''>'', CHR ''@'',
     CHR '','', CHR '';'', CHR '':'', CHR 0x5C, CHR 0x22, CHR ''/'', CHR ''['', CHR '']'', CHR ''?'', CHR ''='']"

text \<open>\<^verbatim>\<open>strings.ToLower\<close>, with the two other runes whose lower case is an ASCII letter.\<close>

fun lower_text :: "string \<Rightarrow> string" where
  "lower_text [] = []"
| "lower_text (c # cs) =
     (if take 2 (c # cs) = [CHR 0xC4, CHR 0xB0] then CHR ''i'' # lower_text (drop 1 cs)
      else if take 3 (c # cs) = [CHR 0xE2, CHR 0x84, CHR 0xAA] then CHR ''k'' # lower_text (drop 2 cs)
      else (if is_upper c then char_of (byte c + 32) else c) # lower_text cs)"

definition trim_left :: "string \<Rightarrow> string" where
  "trim_left s = drop_seqs space_seqs s"

definition token_of :: "string \<Rightarrow> string \<times> string" where
  "token_of s = (takeWhile token_char s, dropWhile token_char s)"

definition media_name :: "string \<Rightarrow> bool" where
  "media_name s = (let (typ, rest) = token_of s; (sub, end) = token_of (drop 1 rest) in
     typ \<noteq> [] \<and> (rest = [] \<or> (hd rest = CHR ''/'' \<and> sub \<noteq> [] \<and> end = [])))"

text \<open>The value of a parameter, quoted or not, and what follows; \<open>None\<close> when the quotes do not close.\<close>

fun quoted_value :: "string \<Rightarrow> (string \<times> string) option" where
  "quoted_value [] = None"
| "quoted_value (c # cs) =
     (if c = CHR 0x22 then Some ([], cs)
      else if c = CHR 0x5C \<and> cs \<noteq> [] \<and> \<not> token_char (hd cs) \<and> 0x20 < byte (hd cs) \<and> byte (hd cs) < 0x7F
      then map_option (\<lambda>(v, r). (hd cs # v, r)) (quoted_value (tl cs))
      else if c = CHR 0x0D \<or> c = CHR 0x0A then None
      else map_option (\<lambda>(v, r). (c # v, r)) (quoted_value cs))"

definition media_value :: "string \<Rightarrow> (string \<times> string) option" where
  "media_value s =
     (if s = [] then None
      else if hd s = CHR 0x22 then quoted_value (tl s)
      else if fst (token_of s) = [] then None else Some (token_of s))"

definition media_param :: "string \<Rightarrow> (string \<times> string \<times> string) option" where
  "media_param s =
     (let r = trim_left s in
      if \<not> has_prefix r '';'' then None
      else let (key, r2) = token_of (trim_left (drop 1 r)); r3 = trim_left r2 in
        if key = [] \<or> \<not> has_prefix r3 ''='' then None
        else map_option (\<lambda>(v, rest). (ascii_lower key, v, rest)) (media_value (trim_left (drop 1 r3))))"

text \<open>
  The parameters after the type: \<open>False\<close> is an error. A trailing semicolon is ignored, and a repeated
  name must repeat its value. Each turn consumes the semicolon at least, so as many turns as there are
  bytes are enough (\<open>media_param_shorter\<close>).
\<close>

fun media_params :: "nat \<Rightarrow> (string \<times> string) list \<Rightarrow> string \<Rightarrow> bool" where
  "media_params 0 seen s = True"
| "media_params (Suc n) seen s =
     (if trim_left s = [] then True
      else case media_param s of
        None \<Rightarrow> trim_space s = '';''
      | Some (k, v, rest) \<Rightarrow>
          (case map_of seen k of
             Some w \<Rightarrow> w = v \<and> media_params n seen rest
           | None \<Rightarrow> media_params n ((k, v) # seen) rest))"

definition media_type :: "string \<Rightarrow> string option" where
  "media_type s =
     (let base = takeWhile (\<lambda>c. c \<noteq> CHR '';'') s; name = trim_space (lower_text base); params = drop (length base) s in
      if media_name name \<and> media_params (Suc (length params)) [] params then Some name else None)"

lemma token_of_shorter: "length (snd (token_of s)) \<le> length s"
  by (simp add: token_of_def length_dropWhile_le)

lemma quoted_value_shorter: "quoted_value s = Some (v, r) \<Longrightarrow> length r < length s"
proof (induction s arbitrary: v rule: quoted_value.induct)
  case (2 c cs)
  then show ?case by (cases cs) (fastforce split: if_splits)+
qed simp

lemma media_value_shorter: "media_value s = Some (v, r) \<Longrightarrow> length r \<le> length s"
  using token_of_shorter [of s] quoted_value_shorter [of "tl s" v r]
  by (cases s) (auto simp: media_value_def split: if_splits)

lemma media_param_shorter:
  assumes "media_param s = Some (k, v, rest)"
  shows "length rest < length s"
proof -
  let ?r = "trim_left s"
  from assms have p: "has_prefix ?r '';''" by (auto simp: media_param_def Let_def split: if_splits)
  then have ne: "?r \<noteq> []" by (auto simp: has_prefix_def)
  obtain key r2 where t: "token_of (trim_left (drop 1 ?r)) = (key, r2)" by fastforce
  from assms p t obtain w where w: "media_value (trim_left (drop 1 (trim_left r2))) = Some (w, rest)"
    by (auto simp: media_param_def Let_def split: if_splits)
  have trim: "length (trim_left x) \<le> length x" for x by (simp add: trim_left_def length_drop_seqs)
  have "length rest \<le> length (trim_left (drop 1 (trim_left r2)))" using media_value_shorter [OF w] .
  also have "\<dots> \<le> length (trim_left r2)" using trim [of "drop 1 (trim_left r2)"] by simp
  also have "\<dots> \<le> length (trim_left (drop 1 ?r))" using trim [of r2] token_of_shorter [of "trim_left (drop 1 ?r)"] t by simp
  also have "\<dots> \<le> length (drop 1 ?r)" using trim .
  also have "\<dots> < length ?r" using ne by (cases ?r) simp_all
  also have "\<dots> \<le> length s" using trim .
  finally show ?thesis .
qed

text \<open>More turns than bytes change nothing.\<close>

lemma media_params_fuel: "length s < n \<Longrightarrow> length s < m \<Longrightarrow> media_params n seen s = media_params m seen s"
proof (induction n arbitrary: m seen s)
  case (Suc n)
  then obtain m' where m: "m = Suc m'" by (cases m) simp_all
  have "media_params n sn rest = media_params m' sn rest" if "media_param s = Some (k, v, rest)" for k v rest sn
  proof -
    have "length rest < n" "length rest < m'" using Suc.prems media_param_shorter [OF that] m by simp_all
    then show ?thesis by (rule Suc.IH)
  qed
  then show ?case by (auto simp: m split: option.split prod.split)
qed simp

lemma media_type_json: "media_type ''application/json'' = Some ''application/json''"
proof -
  have n: "lower_text ''application/json'' = ''application/json''" "media_name ''application/json''" by code_simp+
  have "trim_space ''application/json'' = ''application/json''"
    by (rule trim_space_visible) (simp_all add: visible_def byte_def)
  moreover have "trim_left [] = []" using length_drop_seqs [of space_seqs "[]"] by (simp add: trim_left_def)
  ultimately show ?thesis using n by (simp add: media_type_def)
qed

subsection \<open>\<^verbatim>\<open>net.SplitHostPort\<close>\<close>

definition split_host_port :: "string \<Rightarrow> (string \<times> string) option" where
  "split_host_port s =
     (if CHR '':'' \<notin> set s then None
      else
        let port = rev (takeWhile (\<lambda>c. c \<noteq> CHR '':'') (rev s));
            pre = take (length s - length port - 1) s
        in if hd s = CHR ''['' then
             let host = takeWhile (\<lambda>c. c \<noteq> CHR '']'') (tl pre) in
             if pre = CHR ''['' # host @ [CHR '']''] \<and> CHR ''['' \<notin> set (tl s) \<and> CHR '']'' \<notin> set port then Some (host, port) else None
           else if CHR '':'' \<in> set pre \<or> CHR ''['' \<in> set s \<or> CHR '']'' \<in> set s then None
           else Some (pre, port))"

text \<open>A JSON object with the given members, when all of them can be encoded.\<close>

definition jobj :: "(string \<times> json option) list \<Rightarrow> json option" where
  "jobj ms = map_option (\<lambda>vs. JObj (sort_key fst (zip (map fst ms) vs))) (all_some (map snd ms))"

definition jarr :: "json option list \<Rightarrow> json option" where
  "jarr vs = map_option JArr (all_some vs)"

text \<open>What the account server and its token server answer: to a form, and to a bearer token.\<close>

datatype reply = NoReply | Reply int string

record provider =
  pv_post :: "string \<Rightarrow> string \<Rightarrow> reply"
  pv_get :: "string \<Rightarrow> string \<Rightarrow> reply"

end
