(* ===== verification/Accounts.thy ===== *)
theory Accounts
  imports Web Workers
begin

section \<open>Browser sessions of account users (src/accountauth/session.go)\<close>

text \<open>
  Sign-in through the account provider, the sessions it opens, authentication of every request, and
  sign-out. A session is an object shared by the requests that use it: the map of sessions holds
  pointers, \<open>av_heap\<close> the objects, and a request keeps its pointer after the session has left the map.
  The service locks its maps and each session separately, so an operation is cut where it lets go of a
  lock; \<open>others\<close> is what the other requests do to the service in between. The provider's answers, the
  random bytes, SHA-256, the URL parser and the clock readings are parameters.
\<close>

record account_config =
  ac_public :: string
  ac_account :: string
  ac_api :: string
  ac_cognito :: string
  ac_client :: string

record principal_info =
  pr_subject :: string
  pr_email :: string
  pr_verified :: bool
  pr_owner :: string

record transaction =
  tr_verifier :: string
  tr_state :: string
  tr_expires :: time

record asession =
  as_access :: string
  as_refresh :: string
  as_csrf :: string
  as_expires :: time
  as_deadline :: time
  as_subject :: string
  as_closed :: bool

record accounts =
  av_config :: account_config
  av_transactions :: "string \<rightharpoonup> transaction"
  av_sessions :: "string \<rightharpoonup> nat"
  av_heap :: "asession list"

subsection \<open>Configuration\<close>

definition dec_account_config :: "string \<Rightarrow> json \<Rightarrow> account_config \<Rightarrow> account_config option" where
  "dec_account_config k v r =
     (if k = ''public_url'' then dec_str ac_public_update v r
      else if k = ''account_url'' then dec_str ac_account_update v r
      else if k = ''api_url'' then dec_str ac_api_update v r
      else if k = ''cognito_url'' then dec_str ac_cognito_update v r
      else if k = ''client_id'' then dec_str ac_client_update v r
      else None)"

definition account_origin :: "url option \<Rightarrow> bool" where
  "account_origin u = (case u of None \<Rightarrow> False
     | Some u \<Rightarrow> u_scheme u = ''https'' \<and> u_host u \<noteq> [] \<and> \<not> u_user u \<and> u_raw_query u = [] \<and> u_fragment u = []
         \<and> (u_path u = [] \<or> u_path u = ''/''))"

definition new_accounts :: "(string \<Rightarrow> url option) \<Rightarrow> account_config \<Rightarrow> accounts result" where
  "new_accounts parse c =
     (if list_ex (\<lambda>v. \<not> account_origin (parse v)) [ac_public c, ac_account c, ac_api c, ac_cognito c]
      then Inl (ErrNew ''account authentication requires HTTPS origins without credentials, paths, or query strings'')
      else if trim_space (ac_client c) = [] then Inl (ErrNew ''account client_id is required'')
      else Inr \<lparr>av_config = c\<lparr>ac_public := trim_right (CHR ''/'') (ac_public c), ac_account := trim_right (CHR ''/'') (ac_account c),
             ac_api := trim_right (CHR ''/'') (ac_api c), ac_cognito := trim_right (CHR ''/'') (ac_cognito c)\<rparr>,
           av_transactions = Map.empty, av_sessions = Map.empty, av_heap = []\<rparr>)"

text \<open>At most 64 KiB of a file or an answer are read.\<close>

definition auth_limit :: nat where
  "auth_limit = 64 * 1024"

definition load_accounts :: "(string \<Rightarrow> url option) \<Rightarrow> string result \<Rightarrow> accounts result" where
  "load_accounts parse content =
     (case content of
        Inl e \<Rightarrow> Inl e
      | Inr content \<Rightarrow>
          (case first_value (take auth_limit content) of
             None \<Rightarrow> Inl (ErrNew ''invalid account authentication configuration'')
           | Some (v, rest) \<Rightarrow>
               (case dec_struct dec_account_config v \<lparr>ac_public = [], ac_account = [], ac_api = [], ac_cognito = [], ac_client = []\<rparr> of
                  None \<Rightarrow> Inl (ErrNew ''invalid account authentication configuration'')
                | Some c \<Rightarrow>
                    if skip_ws rest \<noteq> [] then Inl (ErrNew ''account configuration must contain one JSON object'')
                    else new_accounts parse c)))"

definition account_digest :: "(string \<Rightarrow> string) \<Rightarrow> string \<Rightarrow> string" where
  "account_digest sha s = hex_encode (sha s)"

definition account_realm :: "(string \<Rightarrow> string) \<Rightarrow> account_config \<Rightarrow> string" where
  "account_realm sha c = account_digest sha (ac_api c)"

definition account_owner :: "(string \<Rightarrow> string) \<Rightarrow> account_config \<Rightarrow> string \<Rightarrow> string" where
  "account_owner sha c subject = account_digest sha (ac_api c @ CHR 0x00 # subject)"

definition same_origin :: "(string \<Rightarrow> url option) \<Rightarrow> account_config \<Rightarrow> request \<Rightarrow> bool" where
  "same_origin parse c r \<longleftrightarrow> rq_host r = (case parse (ac_public c) of None \<Rightarrow> [] | Some u \<Rightarrow> u_host u)
     \<and> (header ''Origin'' r = [] \<or> header ''Origin'' r = ac_public c)"

subsection \<open>Answers\<close>

definition auth_write :: "int \<Rightarrow> (string \<times> json) list \<Rightarrow> response" where
  "auth_write status body = no_response\<lparr>rs_status := status,
     rs_headers := [(''Content-Type'', ''application/json''), (''Cache-Control'', ''no-store''), (''Referrer-Policy'', ''no-referrer'')],
     rs_json := jobj (map (\<lambda>(k, v). (k, Some v)) body)\<rparr>"

definition auth_error :: "go_error \<Rightarrow> response" where
  "auth_error e = auth_write (if errors_is e ErrUnavailable then 503 else 401) [(''error'', jstr (error_text e))]"

definition set_cookie :: "string \<Rightarrow> string \<Rightarrow> int \<Rightarrow> response \<Rightarrow> response" where
  "set_cookie name value age rs = rs\<lparr>rs_cookies := rs_cookies rs @ [(name, value, age)]\<rparr>"

definition session_cookie :: string where
  "session_cookie = ''__Host-vtransfer-session''"

definition login_cookie :: string where
  "login_cookie = ''__Host-vtransfer-login''"

text \<open>\<open>inner\<close> answers a request that came over HTTPS.\<close>

definition secure_origin :: "account_config \<Rightarrow> (request \<Rightarrow> response) \<Rightarrow> request \<Rightarrow> response" where
  "secure_origin c inner r =
     (if \<not> rq_tls r \<and> header ''X-Forwarded-Proto'' r \<noteq> ''https'' then
        (if rq_method r \<noteq> ''GET'' \<and> rq_method r \<noteq> ''HEAD''
         then set_header ''Cache-Control'' ''no-store'' (auth_write 403 [(''error'', jstr ''HTTPS required'')])
         else set_header ''Cache-Control'' ''no-store'' (redirect (ac_public c @ rq_uri r) 308))
      else set_header ''Strict-Transport-Security'' ''max-age=31536000'' (inner r))"

subsection \<open>Sign-in\<close>

definition prune :: "time \<Rightarrow> accounts \<Rightarrow> accounts" where
  "prune now sv = sv\<lparr>
     av_transactions := (\<lambda>k. case av_transactions sv k of None \<Rightarrow> None | Some t \<Rightarrow> if now < tr_expires t then Some t else None),
     av_sessions := (\<lambda>k. case av_sessions sv k of None \<Rightarrow> None | Some p \<Rightarrow>
       if now < as_deadline (av_heap sv ! p) then Some p else None)\<rparr>"

text \<open>
  The number of entries of the two maps is counted over lists of their keys. The three random strings
  of a sign-in are its state, the browser's cookie and the verifier.
\<close>

definition account_scope :: string where
  "account_scope = ''https://account.polign.com/account''"

definition login ::
  "(string \<Rightarrow> string) \<Rightarrow> (string \<Rightarrow> url option) \<Rightarrow> string list \<Rightarrow> string list \<Rightarrow> time \<Rightarrow> time \<Rightarrow> string \<times> string \<times> string \<Rightarrow>
   request \<Rightarrow> accounts \<Rightarrow> response \<times> accounts" where
  "login sha parse kt ks now begun rnd r sv =
     (let c = av_config sv in
      if \<not> same_origin parse c r then (auth_write 403 [(''error'', jstr ''unexpected transfer origin'')], sv)
      else
        let state = b64_encode (fst rnd); browser = b64_encode (fst (snd rnd)); verifier = b64_encode (snd (snd rnd));
            sv1 = prune now sv
        in if 10000 \<le> length (range_vals kt (av_transactions sv1)) \<or> 10000 \<le> length (range_vals ks (av_sessions sv1))
           then (auth_write 503 [(''error'', jstr ''sign-in capacity reached'')], sv1)
           else
             (set_header ''Referrer-Policy'' ''no-referrer'' (set_header ''Cache-Control'' ''no-store''
                (set_cookie login_cookie browser 300 (redirect (ac_cognito c @ ''/oauth2/authorize?'' @ values_encode
                   [(''response_type'', [''code'']), (''client_id'', [ac_client c]),
                    (''redirect_uri'', [ac_public c @ ''/auth/callback'']), (''scope'', [''openid email profile '' @ account_scope]),
                    (''state'', [state]), (''code_challenge_method'', [''S256'']),
                    (''code_challenge'', [b64_encode (sha verifier)])]) 302))),
              sv1\<lparr>av_transactions := (av_transactions sv1)(account_digest sha browser \<mapsto>
                \<lparr>tr_verifier = verifier, tr_state = state, tr_expires = begun + 300 * second\<rparr>)\<rparr>))"

record tokens =
  tk_access :: string
  tk_refresh :: string
  tk_expires :: int
  tk_type :: string

definition dec_tokens :: "string \<Rightarrow> json \<Rightarrow> tokens \<Rightarrow> tokens option" where
  "dec_tokens k v r =
     (if k = ''access_token'' then dec_str tk_access_update v r
      else if k = ''refresh_token'' then dec_str tk_refresh_update v r
      else if k = ''expires_in'' then dec_int tk_expires_update v r
      else if k = ''token_type'' then dec_str tk_type_update v r
      else Some r)"

definition dec_answer :: "(string \<Rightarrow> json \<Rightarrow> 'r \<Rightarrow> 'r option) \<Rightarrow> string \<Rightarrow> 'r \<Rightarrow> 'r option" where
  "dec_answer f body zero = (case first_value (take auth_limit body) of None \<Rightarrow> None | Some (v, rest) \<Rightarrow> dec_struct f v zero)"

definition exchange :: "provider \<Rightarrow> account_config \<Rightarrow> (string \<times> string list) list \<Rightarrow> tokens result" where
  "exchange pv c form =
     (case pv_post pv (ac_cognito c @ ''/oauth2/token'') (values_encode (form @ [(''client_id'', [ac_client c])])) of
        NoReply \<Rightarrow> Inl ErrUnavailable
      | Reply status body \<Rightarrow>
          if 500 \<le> status then Inl ErrUnavailable
          else if status \<noteq> 200 then Inl ErrUnauthorized
          else case dec_answer dec_tokens body \<lparr>tk_access = [], tk_refresh = [], tk_expires = 0, tk_type = []\<rparr> of
            None \<Rightarrow> Inl ErrUnauthorized
          | Some t \<Rightarrow>
              if tk_access t = [] \<or> tk_expires t < 1 \<or> 86400 < tk_expires t \<or> ascii_lower (tk_type t) \<noteq> ''bearer''
              then Inl ErrUnauthorized else Inr t)"

definition dec_principal :: "string \<Rightarrow> json \<Rightarrow> principal_info \<Rightarrow> principal_info option" where
  "dec_principal k v r =
     (if k = ''subject'' then dec_str pr_subject_update v r
      else if k = ''email'' then dec_str pr_email_update v r
      else if k = ''email_verified'' then dec_bool pr_verified_update v r
      else Some r)"

definition profile :: "(string \<Rightarrow> string) \<Rightarrow> provider \<Rightarrow> account_config \<Rightarrow> string \<Rightarrow> principal_info result" where
  "profile sha pv c access =
     (case pv_get pv (ac_api c @ ''/v1/me'') (''Bearer '' @ access) of
        NoReply \<Rightarrow> Inl ErrUnavailable
      | Reply status body \<Rightarrow>
          if 500 \<le> status \<or> status = 429 then Inl ErrUnavailable
          else if status \<noteq> 200 then Inl ErrUnauthorized
          else case dec_answer dec_principal body \<lparr>pr_subject = [], pr_email = [], pr_verified = False, pr_owner = []\<rparr> of
            None \<Rightarrow> Inl ErrUnauthorized
          | Some p \<Rightarrow>
              if pr_subject p = [] \<or> 256 < length (pr_subject p) \<or> (pr_email p \<noteq> [] \<and> \<not> pr_verified p)
              then Inl ErrUnauthorized else Inr (p\<lparr>pr_owner := account_owner sha c (pr_subject p)\<rparr>))"

text \<open>The callback takes its transaction, which no later callback finds again, and checks it.\<close>

definition cookie_of :: "string \<Rightarrow> request \<Rightarrow> string option" where
  "cookie_of name r = map_of (rq_cookies r) name"

definition callback_take ::
  "(string \<Rightarrow> string) \<Rightarrow> time \<Rightarrow> string \<Rightarrow> request \<Rightarrow> accounts \<Rightarrow> transaction option \<times> accounts" where
  "callback_take sha now bound r sv =
     (let k = account_digest sha bound; sv1 = sv\<lparr>av_transactions := (av_transactions sv)(k := None)\<rparr> in
      case av_transactions sv k of
        None \<Rightarrow> (None, sv1)
      | Some t \<Rightarrow>
          (if tr_expires t < now \<or> tr_state t \<noteq> query ''state'' r \<or> query ''code'' r = [] \<or> query ''error'' r \<noteq> []
           then None else Some t, sv1))"

definition callback_open ::
  "(string \<Rightarrow> string) \<Rightarrow> string list \<Rightarrow> time \<Rightarrow> string \<Rightarrow> string \<Rightarrow> request \<Rightarrow> tokens \<Rightarrow> string \<Rightarrow> accounts \<Rightarrow> bool \<times> accounts" where
  "callback_open sha ks now sid csrf r t subject sv =
     (let sv1 = prune now sv in
      if 10000 \<le> length (range_vals ks (av_sessions sv1)) then (False, sv1)
      else
        let m = (case cookie_of session_cookie r of None \<Rightarrow> av_sessions sv1
              | Some old \<Rightarrow> (av_sessions sv1)(account_digest sha old := None));
            s = \<lparr>as_access = tk_access t, as_refresh = tk_refresh t, as_csrf = b64_encode csrf,
                 as_expires = now + tk_expires t * second, as_deadline = now + 8 * 3600 * second,
                 as_subject = subject, as_closed = False\<rparr>
        in (True, sv1\<lparr>av_sessions := m(account_digest sha (b64_encode sid) \<mapsto> length (av_heap sv1)),
              av_heap := av_heap sv1 @ [s]\<rparr>))"

definition auth_headers :: "response \<Rightarrow> response" where
  "auth_headers rs = rs\<lparr>rs_headers := [(''Cache-Control'', ''no-store''), (''Referrer-Policy'', ''no-referrer'')] @ rs_headers rs\<rparr>"

definition callback ::
  "(string \<Rightarrow> string) \<Rightarrow> (string \<Rightarrow> url option) \<Rightarrow> provider \<Rightarrow> string list \<Rightarrow> time \<Rightarrow> time \<Rightarrow> string \<times> string \<Rightarrow>
   (accounts \<Rightarrow> accounts) \<Rightarrow> request \<Rightarrow> accounts \<Rightarrow> response \<times> accounts" where
  "callback sha parse pv ks now begun rnd others r sv =
     (let c = av_config sv; cleared = set_cookie login_cookie [] (- 1) in
      if \<not> same_origin parse c r then (auth_headers (auth_error ErrUnauthorized), sv)
      else case cookie_of login_cookie r of
        None \<Rightarrow> (auth_headers (auth_error ErrUnauthorized), sv)
      | Some bound \<Rightarrow>
          (case callback_take sha now bound r sv of
             (None, sv1) \<Rightarrow> (auth_headers (cleared (auth_error ErrUnauthorized)), sv1)
           | (Some t, sv1) \<Rightarrow>
               (case exchange pv c [(''grant_type'', [''authorization_code'']), (''code'', [query ''code'' r]),
                      (''code_verifier'', [tr_verifier t]), (''redirect_uri'', [ac_public c @ ''/auth/callback''])] of
                  Inl e \<Rightarrow> (auth_headers (cleared (auth_error e)), sv1)
                | Inr tok \<Rightarrow>
                    (case profile sha pv c (tk_access tok) of
                       Inl e \<Rightarrow> (auth_headers (cleared (auth_error e)), sv1)
                     | Inr p \<Rightarrow>
                         (case callback_open sha ks begun (fst rnd) (snd rnd) r tok (pr_subject p) (others sv1) of
                            (False, sv2) \<Rightarrow> (auth_headers (cleared (auth_error ErrUnavailable)), sv2)
                          | (True, sv2) \<Rightarrow>
                              (auth_headers (set_cookie session_cookie (b64_encode (fst rnd)) (8 * 3600) (cleared (redirect ''/'' 303))), sv2))))))"

subsection \<open>Authentication\<close>

definition lookup_session :: "(string \<Rightarrow> string) \<Rightarrow> time \<Rightarrow> request \<Rightarrow> accounts \<Rightarrow> nat option \<times> accounts" where
  "lookup_session sha now r sv =
     (case cookie_of session_cookie r of
        None \<Rightarrow> (None, sv)
      | Some v \<Rightarrow>
          let k = account_digest sha v in
          (case av_sessions sv k of
             None \<Rightarrow> (None, sv)
           | Some p \<Rightarrow>
               if \<not> now < as_deadline (av_heap sv ! p) then (None, sv\<lparr>av_sessions := (av_sessions sv)(k := None)\<rparr>)
               else (Some p, sv)))"

text \<open>The access token is renewed half a minute before it expires.\<close>

definition refresh_session :: "provider \<Rightarrow> account_config \<Rightarrow> time \<Rightarrow> time \<Rightarrow> asession \<Rightarrow> asession result" where
  "refresh_session pv c now renewed s =
     (if now + 30 * second < as_expires s then Inr s
      else if as_refresh s = [] then Inl ErrUnauthorized
      else case exchange pv c [(''grant_type'', [''refresh_token'']), (''refresh_token'', [as_refresh s])] of
        Inl e \<Rightarrow> Inl e
      | Inr t \<Rightarrow> Inr (s\<lparr>as_access := tk_access t,
          as_refresh := (if tk_refresh t \<noteq> [] then tk_refresh t else as_refresh s), as_expires := renewed + tk_expires t * second\<rparr>))"

text \<open>With the session \<open>p\<close> locked.\<close>

definition safe_method :: "request \<Rightarrow> bool" where
  "safe_method r \<longleftrightarrow> rq_method r = ''GET'' \<or> rq_method r = ''HEAD''"

definition auth_session ::
  "(string \<Rightarrow> string) \<Rightarrow> provider \<Rightarrow> time \<Rightarrow> time \<Rightarrow> request \<Rightarrow> nat \<Rightarrow> accounts \<Rightarrow> principal_info result \<times> accounts" where
  "auth_session sha pv now renewed r p sv =
     (let c = av_config sv; s = av_heap sv ! p in
      if as_closed s then (Inl ErrUnauthorized, sv)
      else if \<not> safe_method r \<and> (header ''Origin'' r \<noteq> ac_public c \<or> header ''X-Csrf-Token'' r \<noteq> as_csrf s) then (Inl ErrUnauthorized, sv)
      else case refresh_session pv c now renewed s of
        Inl e \<Rightarrow> (Inl e, sv)
      | Inr s1 \<Rightarrow>
          (case profile sha pv c (as_access s1) of
             Inl e \<Rightarrow> (Inl e, sv\<lparr>av_heap := (av_heap sv)[p := s1]\<rparr>)
           | Inr q \<Rightarrow>
               if pr_subject q \<noteq> as_subject s1 then (Inl ErrUnauthorized, sv\<lparr>av_heap := (av_heap sv)[p := s1\<lparr>as_closed := True\<rparr>]\<rparr>)
               else (Inr q, sv\<lparr>av_heap := (av_heap sv)[p := s1]\<rparr>)))"

definition authenticate ::
  "(string \<Rightarrow> string) \<Rightarrow> (string \<Rightarrow> url option) \<Rightarrow> provider \<Rightarrow> time \<times> time \<times> time \<Rightarrow> (accounts \<Rightarrow> accounts) \<Rightarrow>
   request \<Rightarrow> accounts \<Rightarrow> principal_info result \<times> accounts" where
  "authenticate sha parse pv clk others r sv =
     (let c = av_config sv; auth = header ''Authorization'' r in
      if \<not> same_origin parse c r then (Inl ErrUnauthorized, sv)
      else if auth \<noteq> [] then
        (if \<not> has_prefix auth ''Bearer '' \<or> 16384 < length auth then (Inl ErrUnauthorized, sv)
         else (profile sha pv c (trim_prefix auth ''Bearer ''), sv))
      else case lookup_session sha (fst clk) r sv of
        (None, sv1) \<Rightarrow> (Inl ErrUnauthorized, sv1)
      | (Some p, sv1) \<Rightarrow> auth_session sha pv (fst (snd clk)) (snd (snd clk)) r p (others sv1))"

subsection \<open>Sign-out\<close>

text \<open>With the session locked: its tokens are dropped, and the refresh token is handed out to be revoked.\<close>

definition close_session :: "request \<Rightarrow> nat \<Rightarrow> accounts \<Rightarrow> string option \<times> accounts" where
  "close_session r p sv =
     (let s = av_heap sv ! p in
      if header ''X-Csrf-Token'' r \<noteq> as_csrf s then (None, sv)
      else (Some (as_refresh s), sv\<lparr>av_heap := (av_heap sv)[p := s\<lparr>as_closed := True, as_access := [], as_refresh := []\<rparr>]\<rparr>))"

definition drop_session :: "(string \<Rightarrow> string) \<Rightarrow> request \<Rightarrow> accounts \<Rightarrow> accounts" where
  "drop_session sha r sv = (case cookie_of session_cookie r of None \<Rightarrow> sv
     | Some v \<Rightarrow> sv\<lparr>av_sessions := (av_sessions sv)(account_digest sha v := None)\<rparr>)"

text \<open>The outcome of the revocation at the provider is not looked at.\<close>

definition logout ::
  "(string \<Rightarrow> string) \<Rightarrow> (string \<Rightarrow> url option) \<Rightarrow> time \<Rightarrow> (accounts \<Rightarrow> accounts) \<Rightarrow> (accounts \<Rightarrow> accounts) \<Rightarrow>
   request \<Rightarrow> accounts \<Rightarrow> response \<times> accounts" where
  "logout sha parse now before after r sv =
     (let c = av_config sv in
      case lookup_session sha now r sv of
        (None, sv1) \<Rightarrow> (auth_error ErrUnauthorized, sv1)
      | (Some p, sv1) \<Rightarrow>
          if \<not> same_origin parse c r \<or> header ''Origin'' r \<noteq> ac_public c \<or> header ''Authorization'' r \<noteq> []
          then (auth_error ErrUnauthorized, sv1)
          else case close_session r p (before sv1) of
            (None, sv2) \<Rightarrow> (auth_error ErrUnauthorized, sv2)
          | (Some token, sv2) \<Rightarrow>
              (set_cookie session_cookie [] (- 1) (auth_write 200 [(''logout_url'', jstr (ac_cognito c @ ''/logout?'' @ values_encode
                 [(''client_id'', [ac_client c]), (''logout_uri'', [ac_public c @ ''/''])]))]),
               drop_session sha r (after sv2)))"

subsection \<open>Routes\<close>

definition session_info ::
  "(string \<Rightarrow> string) \<Rightarrow> (string \<Rightarrow> url option) \<Rightarrow> provider \<Rightarrow> time \<times> time \<times> time \<Rightarrow> time \<Rightarrow> (accounts \<Rightarrow> accounts) \<Rightarrow>
   request \<Rightarrow> accounts \<Rightarrow> response \<times> accounts" where
  "session_info sha parse pv clk now others r sv =
     (case authenticate sha parse pv clk others r sv of
        (Inl e, sv1) \<Rightarrow> (auth_error e, sv1)
      | (Inr p, sv1) \<Rightarrow>
          (case lookup_session sha now r sv1 of
             (found, sv2) \<Rightarrow>
               let csrf = (case found of None \<Rightarrow> []
                     | Some s \<Rightarrow> if header ''Authorization'' r = [] then as_csrf (av_heap sv2 ! s) else [])
               in (auth_write 200 [(''subject'', jstr (pr_subject p)), (''email'', jstr (pr_email p)), (''csrf_token'', jstr csrf)], sv2)))"

record account_call =
  al_sha :: "string \<Rightarrow> string"
  al_parse :: "string \<Rightarrow> url option"
  al_provider :: provider
  al_transactions :: "string list"
  al_sessions :: "string list"
  al_clock :: "time \<times> time \<times> time"
  al_last :: time
  al_random :: "string \<times> string \<times> string"
  al_before :: "accounts \<Rightarrow> accounts"
  al_after :: "accounts \<Rightarrow> accounts"

text \<open>\<^verbatim>\<open>Mount\<close>: the routes under \<^verbatim>\<open>/auth\<close>, or none of them. A HEAD request is answered like a GET.\<close>

definition auth_route :: "account_call \<Rightarrow> request \<Rightarrow> accounts \<Rightarrow> (response \<times> accounts) option" where
  "auth_route a r sv =
     (let c = av_config sv; known = rq_path r \<in> set (map (\<lambda>s. [''auth'', s]) [''config'', ''login'', ''callback'', ''session'', ''logout'']) in
      if \<not> known then None
      else if rq_path r = [''auth'', ''logout''] then
        Some (if rq_method r = ''POST'' then logout (al_sha a) (al_parse a) (fst (al_clock a)) (al_before a) (al_after a) r sv
              else (wrong_method, sv))
      else Some (
        if \<not> safe_method r then (wrong_method, sv)
        else if rq_path r = [''auth'', ''config''] then
          (auth_write 200 [(''mode'', jstr ''polign''), (''account_url'', jstr (ac_account c)), (''login_url'', jstr ''/auth/login'')], sv)
        else if rq_path r = [''auth'', ''login''] then
          login (al_sha a) (al_parse a) (al_transactions a) (al_sessions a) (fst (al_clock a)) (fst (snd (al_clock a))) (al_random a) r sv
        else if rq_path r = [''auth'', ''callback''] then
          callback (al_sha a) (al_parse a) (al_provider a) (al_sessions a) (fst (al_clock a)) (fst (snd (al_clock a)))
            (fst (al_random a), fst (snd (al_random a))) (al_before a) r sv
        else session_info (al_sha a) (al_parse a) (al_provider a) (al_clock a) (al_last a) (al_before a) r sv))"

end
