(* ===== verification/Engine.thy ===== *)
theory Engine
  imports Vault Store
begin

section \<open>Submitting and steering jobs (src/control/engine.go)\<close>

text \<open>
  The engine joins the operator's registry, the vault of personal connections and the worker
  registry, and keeps the jobs in the store. A submission is checked, completed with defaults and
  handed to \<open>create\<close>; cancelling and resuming are updates of a job; \<open>authorized\<close> is asked again while a
  job runs. The store is passed explicitly, the other parts are fields of the engine.
\<close>

record engine =
  eg_worker_downloads :: string
  eg_hosted_disabled :: bool
  eg_registry :: registry
  eg_realm :: string
  eg_vault :: "vault option"
  eg_workers :: "workers option"

definition connection :: "engine \<Rightarrow> string \<Rightarrow> binding option" where
  "connection e n = (case eg_registry e n of Some b \<Rightarrow> Some b | None \<Rightarrow> vault_get (eg_vault e) n)"

text \<open>\<^verbatim>\<open>b, _ := e.connection(name)\<close>: the zero binding when there is none.\<close>

definition connection_or_zero :: "engine \<Rightarrow> string \<Rightarrow> binding" where
  "connection_or_zero e n = (case connection e n of Some b \<Rightarrow> b | None \<Rightarrow> zero_binding)"

definition connection_list :: "string list \<Rightarrow> string list \<Rightarrow> engine \<Rightarrow> binding list" where
  "connection_list ks ls e = registry_list ks (eg_registry e) @ vault_list ls (eg_vault e)"

subsection \<open>Submission\<close>

definition forbidden_submission :: "engine \<Rightarrow> spec \<Rightarrow> owner list \<Rightarrow> bool" where
  "forbidden_submission e spec owners \<longleftrightarrow>
     (if eg_realm e \<noteq> [] then
        (case owners of
           [w] \<Rightarrow> o_realm w \<noteq> eg_realm e \<or> o_id w = [] \<or> o_subject w = []
             \<or> (sp_worker_id spec = []
                \<and> (\<not> allows_read (connection_or_zero e (sp_source spec)) (o_subject w)
                   \<or> \<not> allows_write (connection_or_zero e (sp_sink spec)) (o_subject w)))
         | _ \<Rightarrow> True)
      else owners \<noteq> [])"

definition default :: "int \<Rightarrow> int \<Rightarrow> int" where
  "default d n = (if n = 0 then d else n)"

definition complete_spec :: "spec \<Rightarrow> spec" where
  "complete_spec s = s\<lparr>sp_name := trim_space (sp_name s), sp_batch_size := default 100 (sp_batch_size s),
     sp_max_attempts := default 5 (sp_max_attempts s), sp_max_restarts := default 3 (sp_max_restarts s)\<rparr>"

text \<open>The checks in the code's order; each is made on the fields completed so far.\<close>

definition spec_error :: "spec \<Rightarrow> string \<Rightarrow> go_error option" where
  "spec_error s0 key =
     (let s = complete_spec s0 in
      if sp_name s = [] \<or> 160 < length (sp_name s) then Some (ErrNew (''name must contain 1'' @ en_dash @ ''160 bytes''))
      else if sp_dimension s < 1 \<or> 65536 < sp_dimension s then Some (ErrNew ''dimension must be between 1 and 65536'')
      else if sp_batch_size s < 1 \<or> 500 < sp_batch_size s then Some (ErrNew ''batch_size must be between 1 and 500'')
      else if sp_max_attempts s < 1 \<or> 10 < sp_max_attempts s then Some (ErrNew ''max_attempts must be between 1 and 10'')
      else if sp_max_restarts s < -1 \<or> 10 < sp_max_restarts s
      then Some (ErrNew (''max_restarts must be -1 (disabled) or 0'' @ en_dash @ ''10 (0 defaults to 3)''))
      else if 128 < length key then Some (ErrNew ''idempotency key must not exceed 128 bytes'')
      else None)"

text \<open>What a submission resolves to: the fingerprints of both sides and the resource that is locked.\<close>

record target =
  tg_source_fp :: string
  tg_sink_fp :: string
  tg_resource :: string

definition worker_target :: "engine \<Rightarrow> spec \<Rightarrow> owner list \<Rightarrow> target result" where
  "worker_target e spec owners =
     (case eg_workers e of
        None \<Rightarrow> Inl ErrForbidden
      | Some ws \<Rightarrow>
          (case ws_get (sp_worker_id spec) (first_owner owners) ws of
             Inl err \<Rightarrow> Inl err
           | Inr w \<Rightarrow>
               (case worker_connections w spec of
                  Inl err \<Rightarrow> Inl err
                | Inr (src, dst) \<Rightarrow>
                    Inr \<lparr>tg_source_fp = wc_fingerprint src, tg_sink_fp = wc_fingerprint dst,
                      tg_resource = ''worker:'' @ w_id w @ '':'' @ wc_resource dst\<rparr>)))"

definition hosted_target :: "engine \<Rightarrow> spec \<Rightarrow> target result" where
  "hosted_target e spec =
     (case connection e (sp_source spec) of
        None \<Rightarrow> Inl (ErrNew ''unknown or unreadable source connection'')
      | Some src \<Rightarrow>
          if b_source src = None then Inl (ErrNew ''unknown or unreadable source connection'')
          else (case connection e (sp_sink spec) of
             None \<Rightarrow> Inl (ErrNew ''unknown or unwritable sink connection'')
           | Some dst \<Rightarrow>
               if b_sink dst = None then Inl (ErrNew ''unknown or unwritable sink connection'')
               else if sp_source spec = sp_sink spec \<or> b_fingerprint src = b_fingerprint dst
                  \<or> (b_resource src \<noteq> [] \<and> b_resource src = b_resource dst)
               then Inl (ErrNew ''source and sink must be different connections'')
               else Inr \<lparr>tg_source_fp = b_fingerprint src, tg_sink_fp = b_fingerprint dst,
                 tg_resource = if_empty (b_resource dst) (b_fingerprint dst)\<rparr>))"

definition submission_target :: "engine \<Rightarrow> spec \<Rightarrow> owner list \<Rightarrow> target result" where
  "submission_target e spec owners =
     (if sp_worker_id spec \<noteq> [] then worker_target e spec owners else hosted_target e spec)"

definition submit ::
  "(string \<Rightarrow> string) \<Rightarrow> io \<Rightarrow> string list \<Rightarrow> string result \<Rightarrow> time \<Rightarrow>
   engine \<Rightarrow> spec \<Rightarrow> string \<Rightarrow> string \<Rightarrow> owner list \<Rightarrow> store \<Rightarrow> (job \<times> bool) result \<times> store" where
  "submit sha io ks rnd created e spec0 key actor owners st =
     (if forbidden_submission e spec0 owners then (Inl ErrForbidden, st)
      else if eg_hosted_disabled e \<and> sp_worker_id spec0 = []
      then (Inl (ErrNew ''hosted execution is disabled; select a customer worker''), st)
      else case spec_error spec0 key of
        Some err \<Rightarrow> (Inl err, st)
      | None \<Rightarrow>
          let spec = complete_spec spec0 in
          (case submission_target e spec owners of
             Inl err \<Rightarrow> (Inl err, st)
           | Inr t \<Rightarrow> create sha io ks rnd created spec (tg_source_fp t) (tg_sink_fp t) (tg_resource t) key actor owners st))"

subsection \<open>Cancel and resume\<close>

definition cancel_fn :: "job \<Rightarrow> job result" where
  "cancel_fn j =
     (if j_state j = ''queued'' \<or> j_state j = ''retry_wait''
      then Inr (j\<lparr>j_state := ''canceled'', j_phase := [], j_next_run_at := None, j_error := []\<rparr>)
      else if j_state j = ''running'' \<or> j_state j = ''cancel_requested'' then Inr (j\<lparr>j_state := ''cancel_requested''\<rparr>)
      else Inl ErrConflict)"

definition resume_fn :: "job \<Rightarrow> job result" where
  "resume_fn j =
     (if j_state j \<noteq> ''failed'' \<and> j_state j \<noteq> ''canceled'' \<and> j_state j \<noteq> ''retry_wait'' then Inl ErrConflict
      else
        let j1 = j\<lparr>j_state := ''queued''\<rparr>;
            j2 = (if sp_worker_id (j_spec j1) \<noteq> []
              then j1\<lparr>j_generation := j_generation j1 + 1, j_lease_id := [], j_lease_until := None, j_report_sequence := 0\<rparr>
              else j1)
        in Inr (j2\<lparr>j_phase := [], j_next_run_at := None, j_restarts := 0, j_error := []\<rparr>))"

definition action_fn :: "string \<Rightarrow> job \<Rightarrow> job result" where
  "action_fn action j =
     (if action = ''cancel'' then cancel_fn j
      else if action = ''resume'' then resume_fn j
      else Inl (ErrNew ''unknown action''))"

definition job_action ::
  "(string \<Rightarrow> string) \<Rightarrow> io \<Rightarrow> string \<Rightarrow> string \<Rightarrow> string \<Rightarrow> store \<Rightarrow> job result \<times> store" where
  "job_action sha io jid action actor st =
     update sha io jid action actor (''Operator requested '' @ action) [] (action_fn action) st"

subsection \<open>Authorization of a running job\<close>

definition authorized :: "engine \<Rightarrow> job \<Rightarrow> bool" where
  "authorized e j \<longleftrightarrow>
     (if sp_worker_id (j_spec j) \<noteq> [] then
        (case eg_workers e of
           None \<Rightarrow> False
         | Some ws \<Rightarrow>
             if eg_realm e \<noteq> [] \<and> (case j_owner j of None \<Rightarrow> True | Some w \<Rightarrow> o_realm w \<noteq> eg_realm e) then False
             else (case ws_get (sp_worker_id (j_spec j)) (j_owner j) ws of
                Inl _ \<Rightarrow> False
              | Inr w \<Rightarrow>
                  (case worker_connections w (j_spec j) of
                     Inl _ \<Rightarrow> False
                   | Inr (src, dst) \<Rightarrow> wc_fingerprint src = j_source_fp j \<and> wc_fingerprint dst = j_sink_fp j)))
      else if eg_realm e = [] then j_owner j = None
      else (case j_owner j of
         None \<Rightarrow> False
       | Some w \<Rightarrow> o_realm w = eg_realm e
           \<and> allows_read (connection_or_zero e (sp_source (j_spec j))) (o_subject w)
           \<and> allows_write (connection_or_zero e (sp_sink (j_spec j))) (o_subject w)))"

subsection \<open>Finishing an execution\<close>

definition finish_fn :: "string \<Rightarrow> string \<Rightarrow> job \<Rightarrow> job result" where
  "finish_fn state message j =
     (let j1 = j\<lparr>j_phase := [], j_next_run_at := None\<rparr> in
      Inr (if j_state j1 = ''cancel_requested'' then j1\<lparr>j_state := ''canceled'', j_error := []\<rparr>
           else j1\<lparr>j_state := state, j_error := message\<rparr>))"

definition finish ::
  "(string \<Rightarrow> string) \<Rightarrow> io \<Rightarrow> string \<Rightarrow> string \<Rightarrow> string \<Rightarrow> store \<Rightarrow> go_error option \<times> store" where
  "finish sha io jid state message st =
     (case update sha io jid state ''worker'' message [] (finish_fn state message) st of
        (Inl err, st') \<Rightarrow> (Some err, st')
      | (Inr _, st') \<Rightarrow> (None, st'))"

end
