(* ===== verification/Worker_Jobs.thy ===== *)
theory Worker_Jobs
  imports Workers Store
begin

section \<open>Leases and reports of customer workers (src/control/worker_jobs.go)\<close>

text \<open>
  A customer worker leases one of its jobs for a minute, reports progress under the lease, and keeps
  its own store of the jobs it was assigned. \<open>claim_worker\<close> and \<open>report_worker\<close> run in the control
  plane's store, \<open>prepare_worker_job\<close> in the worker's. Clock readings and random bytes are arguments.
\<close>

definition worker_lease_duration :: time where
  "worker_lease_duration = 60 * second"

record worker_report =
  wr_lease_id :: string
  wr_sequence :: int
  wr_state :: string
  wr_phase :: string
  wr_records :: int
  wr_batches :: int
  wr_retries :: int
  wr_restarts :: int
  wr_checkpoint :: bool
  wr_retry_after :: int
  wr_failure :: string

record worker_assignment =
  wa_id :: string
  wa_spec :: spec
  wa_lease_id :: string
  wa_lease_until :: time
  wa_generation :: int
  wa_records :: int
  wa_batches :: int
  wa_checkpoint :: bool
  wa_source_fp :: string
  wa_sink_fp :: string
  wa_cancel_requested :: bool

definition assignment :: "job \<Rightarrow> worker_assignment" where
  "assignment j = \<lparr>wa_id = j_id j, wa_spec = j_spec j, wa_lease_id = j_lease_id j, wa_lease_until = the (j_lease_until j),
     wa_generation = j_generation j, wa_records = j_records j, wa_batches = j_batches j,
     wa_checkpoint = (j_last_checkpoint_at j \<noteq> None), wa_source_fp = j_source_fp j, wa_sink_fp = j_sink_fp j,
     wa_cancel_requested = (j_state j = ''cancel_requested'')\<rparr>"

subsection \<open>Leasing\<close>

text \<open>\<^verbatim>\<open>t != nil && t.After(now)\<close>\<close>

definition after :: "time option \<Rightarrow> time \<Rightarrow> bool" where
  "after t now \<longleftrightarrow> (case t of None \<Rightarrow> False | Some x \<Rightarrow> now < x)"

definition job_of_worker :: "worker \<Rightarrow> job \<Rightarrow> bool" where
  "job_of_worker w j \<longleftrightarrow> sp_worker_id (j_spec j) = w_id w \<and> same_owner (j_owner j) (w_owner w)"

definition leased :: "time \<Rightarrow> job \<Rightarrow> bool" where
  "leased now j \<longleftrightarrow> after (j_lease_until j) now \<and> active j"

definition leasable :: "time \<Rightarrow> job \<Rightarrow> bool" where
  "leasable now j \<longleftrightarrow> j_state j = ''queued'' \<or> (active j \<and> \<not> after (j_lease_until j) now) \<or> due now j"

text \<open>The loop over the jobs; \<open>None\<close> is the early return when the worker holds a lease already.\<close>

fun lease_loop :: "time \<Rightarrow> worker \<Rightarrow> job \<Rightarrow> job list \<Rightarrow> job option" where
  "lease_loop now w pick [] = Some pick"
| "lease_loop now w pick (j # js) =
     (if \<not> job_of_worker w j then lease_loop now w pick js
      else if leased now j then None
      else lease_loop now w
        (if leasable now j \<and> (j_id pick = [] \<or> j_created_at j < j_created_at pick) then j else pick) js)"

definition policy_changed :: string where
  "policy_changed = ''Worker connection policy changed; restore it or submit a new job''"

definition policy_holds :: "worker \<Rightarrow> job \<Rightarrow> bool" where
  "policy_holds w j \<longleftrightarrow> (case worker_connections w (j_spec j) of
       Inl _ \<Rightarrow> False
     | Inr (src, dst) \<Rightarrow> wc_fingerprint src = j_source_fp j \<and> wc_fingerprint dst = j_sink_fp j)"

definition fail_lease :: "job \<Rightarrow> job" where
  "fail_lease j = j\<lparr>j_state := ''failed'', j_error := policy_changed, j_lease_id := [], j_lease_until := None\<rparr>"

definition lease_job :: "time \<Rightarrow> string \<Rightarrow> job \<Rightarrow> job" where
  "lease_job now bytes j =
     j\<lparr>j_state := (if j_state j \<noteq> ''cancel_requested'' then ''running'' else j_state j),
       j_phase := ''starting'', j_runs := j_runs j + 1, j_report_sequence := 0, j_next_run_at := None, j_error := [],
       j_lease_id := random_id bytes, j_lease_until := Some (now + worker_lease_duration)\<rparr>"

definition claim_worker ::
  "(string \<Rightarrow> string) \<Rightarrow> io \<Rightarrow> time \<Rightarrow> string list \<Rightarrow> string \<Rightarrow> worker \<Rightarrow> store \<Rightarrow> worker_assignment option result \<times> store" where
  "claim_worker sha io now ks bytes w st =
     (case s_poison st of
        Some p \<Rightarrow> (Inl p, st)
      | None \<Rightarrow>
          (case lease_loop now w zero_job (range_vals ks (s_jobs st)) of
             None \<Rightarrow> (Inr None, st)
           | Some pick \<Rightarrow>
               if j_id pick = [] then (Inr None, st)
               else if \<not> policy_holds w pick then
                 (case store_append sha io (fail_lease pick) ''failed'' ''worker'' policy_changed [] st of
                    (Inl err, st') \<Rightarrow> (Inl err, st')
                  | (Inr _, st') \<Rightarrow> (Inr None, st'))
               else
                 (case store_append sha io (lease_job now bytes pick) ''worker_leased'' (''worker:'' @ w_id w)
                         ''Customer worker acquired execution lease'' [] st of
                    (Inl err, st') \<Rightarrow> (Inl err, st')
                  | (Inr _, st') \<Rightarrow> (Inr (Some (assignment (lease_job now bytes pick))), st'))))"

subsection \<open>Reports\<close>

definition report_states :: "string list" where
  "report_states = [''queued'', ''running'', ''retry_wait'', ''succeeded'', ''failed'', ''canceled'', ''cancel_requested'']"

definition report_phases :: "string list" where
  "report_phases = ['''', ''starting'', ''read'', ''write'', ''backoff'', ''checkpointed'', ''waiting'']"

definition failure_text :: "string \<Rightarrow> string option" where
  "failure_text f =
     (if f = [] then Some []
      else if f = ''policy'' then Some ''Worker rejected the job: local connection policy or configuration changed''
      else if f = ''checkpoint_missing'' then
        Some ''Worker checkpoint is missing or behind reported progress; restore the original worker data directory''
      else if f = ''transfer'' then
        Some ''Transfer failed; inspect the customer worker and database permissions before resuming''
      else None)"

definition bad_progress :: "worker_report \<Rightarrow> bool" where
  "bad_progress r \<longleftrightarrow> wr_sequence r < 1 \<or> wr_records r < 0 \<or> wr_batches r < 0 \<or> wr_retries r < 0
     \<or> wr_restarts r < 0 \<or> 10 < wr_restarts r \<or> wr_retry_after r < 0 \<or> 3600 < wr_retry_after r"

definition report_error :: "worker_report \<Rightarrow> go_error option" where
  "report_error r =
     (if wr_state r \<notin> set report_states then Some (ErrNew ''invalid worker state'')
      else if wr_phase r \<notin> set report_phases then Some (ErrNew ''invalid worker phase'')
      else if bad_progress r then Some (ErrNew ''invalid worker progress'')
      else case failure_text (wr_failure r) of
        None \<Rightarrow> Some (ErrNew ''invalid worker failure code'')
      | Some t \<Rightarrow> if t \<noteq> [] \<and> wr_state r \<noteq> ''failed'' then Some (ErrNew ''failure requires failed state'') else None)"

text \<open>The readings of the clock while a report is applied, in their order.\<close>

record report_clock =
  rc_lease :: time
  rc_checkpoint :: time
  rc_until :: time
  rc_next :: time

definition reported_state :: "worker_report \<Rightarrow> job \<Rightarrow> string" where
  "reported_state r j =
     (if j_state j = ''cancel_requested''
      then (if wr_state r = ''running'' \<or> wr_state r = ''cancel_requested'' then ''cancel_requested'' else ''canceled'')
      else wr_state r)"

definition apply_report :: "report_clock \<Rightarrow> string \<Rightarrow> worker_report \<Rightarrow> job \<Rightarrow> job" where
  "apply_report clk failure r j =
     (let s = reported_state r j;
          held = (s = ''running'' \<or> s = ''cancel_requested'')
      in j\<lparr>j_last_checkpoint_at :=
             (if wr_checkpoint r \<and> (j_last_checkpoint_at j = None \<or> j_records j < wr_records r \<or> j_batches j < wr_batches r)
              then Some (rc_checkpoint clk) else j_last_checkpoint_at j),
           j_records := wr_records r, j_batches := wr_batches r, j_retries := wr_retries r, j_restarts := wr_restarts r,
           j_report_sequence := wr_sequence r, j_phase := wr_phase r, j_error := failure,
           j_lease_until := (if held then Some (rc_until clk + worker_lease_duration) else None),
           j_lease_id := (if held then j_lease_id j else []),
           j_state := s,
           j_next_run_at := (if s = ''retry_wait'' then Some (rc_next clk + max 1 (wr_retry_after r) * second) else None)\<rparr>)"

definition report_fn :: "report_clock \<Rightarrow> worker \<Rightarrow> string \<Rightarrow> worker_report \<Rightarrow> job \<Rightarrow> job result" where
  "report_fn clk w failure r j =
     (if \<not> job_of_worker w j then Inl ErrNotFound
      else if j_lease_id j \<noteq> wr_lease_id r \<or> \<not> after (j_lease_until j) (rc_lease clk) \<or> wr_sequence r \<le> j_report_sequence j
      then Inl ErrConflict
      else if \<not> active j then Inl ErrConflict
      else if wr_records r < j_records j \<or> wr_batches r < j_batches j then Inl ErrConflict
      else if j_records j < wr_records r \<and> \<not> wr_checkpoint r
      then Inl (ErrNew ''progress requires a durable local checkpoint'')
      else Inr (apply_report clk failure r j))"

definition report_worker ::
  "(string \<Rightarrow> string) \<Rightarrow> io \<Rightarrow> report_clock \<Rightarrow> worker \<Rightarrow> string \<Rightarrow> worker_report \<Rightarrow> store \<Rightarrow> job result \<times> store" where
  "report_worker sha io clk w jid r st =
     (case report_error r of
        Some err \<Rightarrow> (Inl err, st)
      | None \<Rightarrow>
          update sha io jid ''worker_progress'' (''worker:'' @ w_id w) ''Customer worker reported transfer progress'' []
            (report_fn clk w (the (failure_text (wr_failure r))) r) st)"

subsection \<open>The worker's own store\<close>

definition checkpoint_missing :: go_error where
  "checkpoint_missing = ErrNew ''checkpoint missing''"

definition resumed_job :: "int \<Rightarrow> job \<Rightarrow> job" where
  "resumed_job g j = j\<lparr>j_generation := g, j_state := ''queued'', j_restarts := 0, j_error := [], j_next_run_at := None\<rparr>"

definition prepare_worker_job ::
  "(string \<Rightarrow> string) \<Rightarrow> io \<Rightarrow> time \<Rightarrow> worker_assignment \<Rightarrow> string \<Rightarrow> string \<Rightarrow> string \<Rightarrow> store \<Rightarrow> job result \<times> store" where
  "prepare_worker_job sha io created a source_fp sink_fp resource st =
     (let spec = (wa_spec a)\<lparr>sp_worker_id := []\<rparr> in
      case s_jobs st (wa_id a) of
        Some j \<Rightarrow>
          if j_spec j \<noteq> spec \<or> j_source_fp j \<noteq> source_fp \<or> j_sink_fp j \<noteq> sink_fp \<or> wa_generation a < j_generation j
          then (Inl ErrConflict, st)
          else if j_records j < wa_records a \<or> j_batches j < wa_batches a
             \<or> (wa_checkpoint a \<and> j_last_checkpoint_at j = None)
          then (Inl checkpoint_missing, st)
          else if j_generation j < wa_generation a then
            (case store_append sha io (resumed_job (wa_generation a) j) ''resumed'' ''worker''
                    ''Control plane requested resume'' [] st of
               (Inl err, st') \<Rightarrow> (Inl err, st')
             | (Inr _, st') \<Rightarrow> (Inr (the (s_jobs st' (wa_id a))), st'))
          else (Inr j, st)
      | None \<Rightarrow>
          if wa_checkpoint a \<or> 0 < wa_records a \<or> 0 < wa_batches a then (Inl checkpoint_missing, st)
          else
            let j = zero_job\<lparr>j_id := wa_id a, j_spec := spec, j_generation := wa_generation a, j_state := ''queued'',
                  j_created_at := created, j_created_by := ''control-plane'', j_source_fp := source_fp,
                  j_sink_fp := sink_fp, j_sink_resource := resource\<rparr> in
            (case store_append sha io j ''submitted'' ''worker'' ''Accepted locally approved transfer'' [] st of
               (Inl err, st') \<Rightarrow> (Inl err, st')
             | (Inr _, st') \<Rightarrow> (Inr (the (s_jobs st' (wa_id a))), st')))"

end
