(* ===== verification/Control_Api.thy ===== *)
theory Control_Api
  imports Accounts Engine Worker_Jobs
begin

section \<open>The HTTP API (src/control/api.go, worker_api.go)\<close>

text \<open>
  What a request may do and what it is answered: the gate before \<^verbatim>\<open>/v1/\<close>, one definition per handler, the
  worker protocol and the routes. \<open>control\<close> is the engine and its store. A handler takes the answers of
  the outside as a \<open>host\<close> (clock, random bytes, map orders, outcomes of writes, file status); where it
  lets go of the locks between two operations, \<open>hs_others\<close> is what other requests do there.
\<close>

record control =
  ct_engine :: engine
  ct_store :: store

record host =
  hs_sha :: "string \<Rightarrow> string"
  hs_verify :: "string \<Rightarrow> string \<Rightarrow> string \<Rightarrow> bool"
  hs_io :: io
  hs_now :: time
  hs_view :: time
  hs_random :: "string result"
  hs_bytes :: string
  hs_token :: string
  hs_jobs :: "string list"
  hs_registry :: "string list"
  hs_saved :: "string list"
  hs_workers :: "string list"
  hs_challenges :: "string list"
  hs_save :: save_outcome
  hs_touch :: save_outcome
  hs_env :: vault_env
  hs_handle :: nat
  hs_nonce :: "string result"
  hs_persist :: persist_outcome
  hs_stat :: "go_error option"
  hs_clock :: report_clock
  hs_others :: "control \<Rightarrow> control"

definition put_workers :: "workers \<Rightarrow> control \<Rightarrow> control" where
  "put_workers ws ct = ct\<lparr>ct_engine := (ct_engine ct)\<lparr>eg_workers := Some ws\<rparr>\<rparr>"

definition put_vault :: "vault \<Rightarrow> control \<Rightarrow> control" where
  "put_vault v ct = ct\<lparr>ct_engine := (ct_engine ct)\<lparr>eg_vault := Some v\<rparr>\<rparr>"

subsection \<open>Answers\<close>

definition respond :: "int \<Rightarrow> json option \<Rightarrow> response" where
  "respond status v = no_response\<lparr>rs_status := status, rs_headers := [(''Content-Type'', ''application/json'')], rs_json := v\<rparr>"

definition message_answer :: "int \<Rightarrow> string \<Rightarrow> response" where
  "message_answer status s = respond status (jobj [(''error'', Some (jstr s))])"

text \<open>Each later test overrides the earlier ones.\<close>

definition api_status :: "go_error \<Rightarrow> int \<times> string" where
  "api_status e =
     (let a = (if errors_is e ErrForbidden then 403 else 400, error_text e);
          b = (if errors_is e ErrNotFound then (404, snd a) else a);
          c = (if errors_is e ErrConflict then (409, snd b) else b);
          d = (if errors_is e ErrWorkersUnavailable then (503, ''worker registry unavailable'') else c);
          f = (if errors_is e ErrVaultUnavailable then (503, ''connection credential store unavailable'') else d)
      in if contains_sub (snd f) ''journal'' then (503, ''job store unavailable'') else f)"

definition api_error :: "go_error \<Rightarrow> response" where
  "api_error e = message_answer (fst (api_status e)) (snd (api_status e))"

subsection \<open>Requests\<close>

text \<open>
  The strict decoders refuse unknown members. At most 64 KiB are read: a longer body fails in the first
  value, or after it, where only the end of the body is accepted. A value that is neither an object nor
  an array ends at the byte after it.
\<close>

definition strict :: "string list \<Rightarrow> (string \<Rightarrow> json \<Rightarrow> 'r \<Rightarrow> 'r option) \<Rightarrow> string \<Rightarrow> json \<Rightarrow> 'r \<Rightarrow> 'r option" where
  "strict ks f k v r = (if k \<in> set ks then f k v r else None)"

definition body_limit :: nat where
  "body_limit = 64 * 1024"

definition bad_json :: go_error where
  "bad_json = ErrNew ''invalid JSON request or unknown fields''"

definition open_ended :: "json \<Rightarrow> bool" where
  "open_ended v = (case v of JObj _ \<Rightarrow> False | JArr _ \<Rightarrow> False | _ \<Rightarrow> True)"

definition decode :: "(string \<Rightarrow> json \<Rightarrow> 'r \<Rightarrow> 'r option) \<Rightarrow> 'r \<Rightarrow> request \<Rightarrow> 'r result" where
  "decode f zero r =
     (if media_type (header ''Content-Type'' r) \<noteq> Some ''application/json'' then Inl (ErrNew ''Content-Type must be application/json'')
      else
        let longer = (body_limit < length (rq_body r)) in
        case first_value (take body_limit (rq_body r)) of
          None \<Rightarrow> Inl bad_json
        | Some (v, rest) \<Rightarrow>
            if longer \<and> rest = [] \<and> open_ended v then Inl bad_json
            else case dec_struct f v zero of
              None \<Rightarrow> Inl bad_json
            | Some x \<Rightarrow> if longer \<or> skip_ws rest \<noteq> [] then Inl (ErrNew ''request must contain one JSON object'') else Inr x)"

definition no_members :: "string \<Rightarrow> json \<Rightarrow> unit \<Rightarrow> unit option" where
  "no_members k v r = None"

definition query_int :: "request \<Rightarrow> string \<Rightarrow> int \<Rightarrow> int \<Rightarrow> int \<Rightarrow> int result" where
  "query_int r key fallback low high =
     (if query key r = [] then Inr fallback
      else case parse_int (query key r) of
        None \<Rightarrow> Inl (ErrNew (''invalid '' @ key))
      | Some v \<Rightarrow> if v < low \<or> high < v then Inl (ErrNew (''invalid '' @ key)) else Inr v)"

definition principal :: "string \<Rightarrow> string" where
  "principal token = (if token = [] then ''local'' else ''operator-token'')"

definition actor_of :: "string \<Rightarrow> owner option \<Rightarrow> string" where
  "actor_of token ow = (case ow of None \<Rightarrow> principal token | Some w \<Rightarrow> ''account:'' @ o_subject w)"

subsection \<open>Views\<close>

definition public_job :: "job \<Rightarrow> job" where
  "public_job j = j\<lparr>j_cursor := [], j_lease_id := [], j_report_sequence := 0, j_owner := None, j_idempotency_key := [],
     j_source_fp := [], j_sink_fp := [], j_sink_resource := []\<rparr>"

definition time_json :: "time \<Rightarrow> json option" where
  "time_json t = (if time_ok t then Some (jtime t) else None)"

definition job_value :: "job \<Rightarrow> json option" where
  "job_value j = (if time_ok (j_created_at j) \<and> time_ok (j_updated_at j) \<and> opt_time_ok (j_lease_until j)
       \<and> opt_time_ok (j_next_run_at j) \<and> opt_time_ok (j_last_checkpoint_at j)
     then Some (JObj (job_members j)) else None)"

definition event_value :: "event \<Rightarrow> json option" where
  "event_value e = (if time_ok (ev_at e) then Some (JObj (event_members e)) else None)"

definition binding_value :: "binding \<Rightarrow> json" where
  "binding_value b = JObj (omit (b_label b = []) ''label'' (jstr (b_label b)) @ omit (\<not> b_personal b) ''personal'' (JBool True)
     @ [(''name'', jstr (b_name b)), (''kind'', jstr (b_kind b)), (''description'', jstr (b_description b)),
        (''fingerprint'', jstr (b_fingerprint b)), (''resource'', jstr (b_resource b)),
        (''can_read'', JBool (b_can_read b)), (''can_write'', JBool (b_can_write b))])"

text \<open>A nil slice is \<^verbatim>\<open>null\<close>; a manifest has no empty slice that is not nil.\<close>

definition wconn_value :: "wconn \<Rightarrow> json" where
  "wconn_value c = JObj [(''name'', jstr (wc_name c)), (''kind'', jstr (wc_kind c)), (''can_read'', JBool (wc_can_read c)),
     (''can_write'', JBool (wc_can_write c)), (''fingerprint'', jstr (wc_fingerprint c)), (''resource'', jstr (wc_resource c))]"

definition wpair_value :: "wpair \<Rightarrow> json" where
  "wpair_value p = JObj [(''source'', jstr (wp_source p)), (''sink'', jstr (wp_sink p)), (''dimension'', jint (wp_dimension p))]"

definition manifest_value :: "manifest \<Rightarrow> json" where
  "manifest_value m = JObj
     [(''connections'', if mf_connections m = [] then JNull else JArr (map wconn_value (mf_connections m))),
      (''pairs'', if mf_pairs m = [] then JNull else JArr (map wpair_value (mf_pairs m)))]"

definition view_value :: "worker_view \<Rightarrow> json option" where
  "view_value w = (if opt_time_ok (wv_last_seen w) then Some (JObj
       ([(''id'', jstr (wv_id w)), (''name'', jstr (wv_name w)), (''status'', jstr (wv_status w))]
        @ omit (wv_last_seen w = None) ''last_seen'' (jtime (the (wv_last_seen w))) @ [(''manifest'', manifest_value (wv_manifest w))]))
     else None)"

definition assignment_value :: "worker_assignment \<Rightarrow> json option" where
  "assignment_value a = (if time_ok (wa_lease_until a) then Some (JObj
     [(''id'', jstr (wa_id a)), (''spec'', JObj (spec_members (wa_spec a))), (''lease_id'', jstr (wa_lease_id a)),
      (''lease_until'', jtime (wa_lease_until a)), (''generation'', jint (wa_generation a)), (''records'', jint (wa_records a)),
      (''batches'', jint (wa_batches a)), (''checkpoint'', JBool (wa_checkpoint a)),
      (''source_fingerprint'', jstr (wa_source_fp a)), (''sink_fingerprint'', jstr (wa_sink_fp a)),
      (''cancel_requested'', JBool (wa_cancel_requested a))]) else None)"

subsection \<open>Connections\<close>

definition hide_identity :: "binding \<Rightarrow> binding" where
  "hide_identity b = b\<lparr>b_fingerprint := [], b_resource := []\<rparr>"

definition usable_by :: "owner option \<Rightarrow> binding \<Rightarrow> binding" where
  "usable_by ow b = (case ow of None \<Rightarrow> b
     | Some w \<Rightarrow> b\<lparr>b_can_read := allows_read b (o_subject w), b_can_write := allows_write b (o_subject w)\<rparr>)"

definition shown_connections :: "owner option \<Rightarrow> binding list \<Rightarrow> binding list" where
  "shown_connections ow bs = map hide_identity (filter (\<lambda>b. b_can_read b \<or> b_can_write b) (map (usable_by ow) bs))"

definition connections_list :: "host \<Rightarrow> bool \<Rightarrow> owner option \<Rightarrow> control \<Rightarrow> response \<times> control" where
  "connections_list h accounts ow ct =
     (let e = ct_engine ct; shown = shown_connections ow (connection_list (hs_registry h) (hs_saved h) e) in
      (respond 200 (jobj [(''connections'', Some (JArr (map binding_value shown))),
         (''personal_connections_enabled'', Some (JBool (accounts \<and> eg_vault e \<noteq> None \<and> \<not> eg_hosted_disabled e))),
         (''hosted_execution_enabled'', Some (JBool (\<not> eg_hosted_disabled e)))]), ct))"

definition config_keys :: "string list" where
  "config_keys = [''kind'', ''endpoint'', ''collection'', ''namespace'', ''region'', ''bucket'', ''index'', ''distance_metric'',
     ''id_type'', ''database'', ''auth_database'', ''tenant'', ''vector_field'', ''id_field'', ''metadata_field'', ''key_prefix'']"

definition creds_keys :: "string list" where
  "creds_keys = [''api_key'', ''access_key_id'', ''secret_access_key'', ''session_token'', ''username'', ''password'']"

definition dec_definition_strict :: "string \<Rightarrow> json \<Rightarrow> definition_text \<Rightarrow> definition_text option" where
  "dec_definition_strict k v r =
     (if k = ''label'' then dec_str df_label_update v r
      else if k = ''direction'' then dec_str df_direction_update v r
      else if k = ''config'' then map_option (\<lambda>c. r\<lparr>df_config := c\<rparr>) (dec_struct (strict config_keys dec_config) v (df_config r))
      else if k = ''credentials'' then map_option (\<lambda>c. r\<lparr>df_creds := c\<rparr>) (dec_struct (strict creds_keys dec_creds) v (df_creds r))
      else None)"

definition connection_create :: "host \<Rightarrow> owner option \<Rightarrow> request \<Rightarrow> control \<Rightarrow> response \<times> control" where
  "connection_create h ow r ct =
     (case (ow, eg_vault (ct_engine ct)) of
        (Some w, Some v) \<Rightarrow>
          (case decode dec_definition_strict zero_definition r of
             Inl e \<Rightarrow> (api_error e, ct)
           | Inr d \<Rightarrow>
               (case vault_create (hs_env h) (hs_handle h) (hs_saved h) (hs_now h) (hs_nonce h) (hs_persist h) w d
                       (header ''Idempotency-Key'' r) v of
                  (Inl e, v') \<Rightarrow> (api_error e, put_vault v' ct)
                | (Inr (b, created), v') \<Rightarrow>
                    (respond (if created then 201 else 200) (Some (binding_value (hide_identity b))), put_vault v' ct)))
      | _ \<Rightarrow> (api_error ErrForbidden, ct))"

definition connection_rotate :: "host \<Rightarrow> owner option \<Rightarrow> string \<Rightarrow> request \<Rightarrow> control \<Rightarrow> response \<times> control" where
  "connection_rotate h ow cid r ct =
     (case (ow, eg_vault (ct_engine ct)) of
        (Some w, Some v) \<Rightarrow>
          (case decode (strict creds_keys dec_creds) zero_creds r of
             Inl e \<Rightarrow> (api_error e, ct)
           | Inr creds \<Rightarrow>
               (case vault_rotate (hs_env h) (hs_handle h) (hs_nonce h) (hs_persist h) w cid creds v of
                  (Inl e, v') \<Rightarrow> (api_error e, put_vault v' ct)
                | (Inr b, v') \<Rightarrow> (respond 200 (Some (binding_value (hide_identity b))), put_vault v' ct)))
      | _ \<Rightarrow> (api_error ErrForbidden, ct))"

definition unfinished :: "job \<Rightarrow> bool" where
  "unfinished j \<longleftrightarrow> j_state j \<in> set [''queued'', ''running'', ''retry_wait'', ''cancel_requested'']"

definition connection_in_use :: "string list \<Rightarrow> owner \<Rightarrow> string \<Rightarrow> store \<Rightarrow> bool" where
  "connection_in_use ks w cid st = list_ex (\<lambda>j. same_owner (j_owner j) (Some w)
     \<and> (sp_source (j_spec j) = cid \<or> sp_sink (j_spec j) = cid) \<and> unfinished j) (list_jobs ks st)"

definition connection_delete :: "host \<Rightarrow> owner option \<Rightarrow> string \<Rightarrow> control \<Rightarrow> response \<times> control" where
  "connection_delete h ow cid ct =
     (case (ow, eg_vault (ct_engine ct)) of
        (Some w, Some _) \<Rightarrow>
          if connection_in_use (hs_jobs h) w cid (ct_store ct)
          then (api_error (ErrNew ''cancel active jobs before removing this connection''), ct)
          else
            let ct1 = hs_others h ct in
            (case eg_vault (ct_engine ct1) of
               None \<Rightarrow> (api_error ErrForbidden, ct1)
             | Some v \<Rightarrow>
                 (case vault_delete (hs_persist h) w cid v of
                    (Inl e, v') \<Rightarrow> (api_error e, put_vault v' ct1)
                  | (Inr _, v') \<Rightarrow> (respond 200 (jobj [(''deleted'', Some (JBool True))]), put_vault v' ct1)))
      | _ \<Rightarrow> (api_error ErrForbidden, ct))"

subsection \<open>Jobs\<close>

definition jobs_shown :: "string list \<Rightarrow> owner option \<Rightarrow> string \<Rightarrow> store \<Rightarrow> job list" where
  "jobs_shown ks ow state st = map public_job (filter (\<lambda>j. same_owner (j_owner j) ow \<and> (state = [] \<or> j_state j = state)) (list_jobs ks st))"

definition job_page :: "int \<Rightarrow> int \<Rightarrow> 'a list \<Rightarrow> 'a list" where
  "job_page offset limit xs = (let start = min offset (int (length xs)); end = min (start + limit) (int (length xs)) in
     take (nat end - nat start) (drop (nat start) xs))"

definition jobs_list :: "host \<Rightarrow> owner option \<Rightarrow> request \<Rightarrow> control \<Rightarrow> response \<times> control" where
  "jobs_list h ow r ct =
     (case query_int r ''limit'' 100 1 1000 of
        Inl e \<Rightarrow> (api_error e, ct)
      | Inr limit \<Rightarrow>
          (case query_int r ''offset'' 0 0 100000000 of
             Inl e \<Rightarrow> (api_error e, ct)
           | Inr offset \<Rightarrow>
               let js = jobs_shown (hs_jobs h) ow (query ''state'' r) (ct_store ct) in
               (respond 200 (jobj [(''jobs'', jarr (map job_value (job_page offset limit js))), (''total'', Some (jint (int (length js))))]), ct)))"

definition spec_keys :: "string list" where
  "spec_keys = [''worker_id'', ''name'', ''source'', ''sink'', ''dimension'', ''batch_size'', ''max_attempts'', ''max_restarts'']"

definition job_submit :: "host \<Rightarrow> string \<Rightarrow> owner option \<Rightarrow> request \<Rightarrow> control \<Rightarrow> response \<times> control" where
  "job_submit h token ow r ct =
     (case decode (strict spec_keys dec_spec) zero_spec r of
        Inl e \<Rightarrow> (api_error e, ct)
      | Inr spec \<Rightarrow>
          (case submit (hs_sha h) (hs_io h) (hs_jobs h) (hs_random h) (hs_now h) (ct_engine ct) spec (header ''Idempotency-Key'' r)
                  (actor_of token ow) (case ow of None \<Rightarrow> [] | Some w \<Rightarrow> [w]) (ct_store ct) of
             (Inl e, st') \<Rightarrow>
               ((if health st' \<noteq> None then message_answer 503 ''job store unavailable'' else api_error e), ct\<lparr>ct_store := st'\<rparr>)
           | (Inr (j, created), st') \<Rightarrow>
               (set_header ''Location'' (''/v1/jobs/'' @ j_id j) (respond (if created then 202 else 200) (job_value (public_job j))),
                ct\<lparr>ct_store := st'\<rparr>)))"

definition owned_job :: "string \<Rightarrow> owner option \<Rightarrow> store \<Rightarrow> job result" where
  "owned_job jid ow st =
     (case get_job jid st of
        Inl e \<Rightarrow> Inl e
      | Inr j \<Rightarrow> if same_owner (j_owner j) ow then Inr j else Inl ErrNotFound)"

definition job_get :: "owner option \<Rightarrow> string \<Rightarrow> control \<Rightarrow> response \<times> control" where
  "job_get ow jid ct =
     (case owned_job jid ow (ct_store ct) of
        Inl e \<Rightarrow> (api_error e, ct)
      | Inr j \<Rightarrow> (respond 200 (job_value (public_job j)), ct))"

definition job_history :: "host \<Rightarrow> owner option \<Rightarrow> string \<Rightarrow> request \<Rightarrow> control \<Rightarrow> response \<times> control" where
  "job_history h ow jid r ct =
     (case owned_job jid ow (ct_store ct) of
        Inl e \<Rightarrow> (api_error e, ct)
      | Inr _ \<Rightarrow>
          (case (if query ''after'' r = [] then Some 0 else parse_int (query ''after'' r)) of
             None \<Rightarrow> (api_error (ErrNew ''invalid after cursor''), ct)
           | Some start \<Rightarrow>
               if start < 0 then (api_error (ErrNew ''invalid after cursor''), ct)
               else case query_int r ''limit'' 100 1 1000 of
                 Inl e \<Rightarrow> (api_error e, ct)
               | Inr limit \<Rightarrow>
                   let ct1 = hs_others h ct in
                   (case events jid start limit (hs_stat h) (ct_store ct1) of
                      Inl e \<Rightarrow> (api_error e, ct1)
                    | Inr es \<Rightarrow>
                        (respond 200 (jobj [(''events'', jarr (map event_value es)),
                           (''next_after'', Some (jint (if es = [] then start else ev_sequence (List.last es))))]), ct1))))"

definition job_steer :: "host \<Rightarrow> string \<Rightarrow> owner option \<Rightarrow> string \<Rightarrow> string \<Rightarrow> request \<Rightarrow> control \<Rightarrow> response \<times> control" where
  "job_steer h token ow jid action r ct =
     (case decode no_members () r of
        Inl e \<Rightarrow> (api_error e, ct)
      | Inr _ \<Rightarrow>
          (case owned_job jid ow (ct_store ct) of
             Inl e \<Rightarrow> (api_error e, ct)
           | Inr j \<Rightarrow>
               if action = ''resume'' \<and> \<not> authorized (ct_engine ct) j then (api_error ErrForbidden, ct)
               else
                 let ct1 = hs_others h ct in
                 (case job_action (hs_sha h) (hs_io h) jid action (actor_of token ow) (ct_store ct1) of
                    (Inl e, st') \<Rightarrow> (api_error e, ct1\<lparr>ct_store := st'\<rparr>)
                  | (Inr j', st') \<Rightarrow> (respond 200 (job_value (public_job j')), ct1\<lparr>ct_store := st'\<rparr>))))"

subsection \<open>Worker management\<close>

definition dec_text :: "string \<Rightarrow> string \<Rightarrow> json \<Rightarrow> string \<Rightarrow> string option" where
  "dec_text key k v r = (if k = key then dec_str (\<lambda>f. f) v r else None)"

definition workers_list :: "host \<Rightarrow> owner option \<Rightarrow> control \<Rightarrow> response \<times> control" where
  "workers_list h ow ct =
     (case eg_workers (ct_engine ct) of
        None \<Rightarrow> (respond 200 (jobj [(''enabled'', Some (JBool False)), (''workers'', Some (JArr []))]), ct)
      | Some ws \<Rightarrow>
          if ws_health (Some ws) \<noteq> None then (api_error ErrWorkersUnavailable, ct)
          else (respond 200 (jobj [(''enabled'', Some (JBool True)),
            (''workers'', jarr (map view_value (ws_list (hs_workers h) (hs_now h) ow ws)))]), ct))"

definition worker_create :: "host \<Rightarrow> owner option \<Rightarrow> request \<Rightarrow> control \<Rightarrow> response \<times> control" where
  "worker_create h ow r ct =
     (case eg_workers (ct_engine ct) of
        None \<Rightarrow> (api_error ErrForbidden, ct)
      | Some ws \<Rightarrow>
          (case decode (dec_text ''name'') [] r of
             Inl e \<Rightarrow> (api_error e, ct)
           | Inr name \<Rightarrow>
               (case ws_create (hs_sha h) (hs_save h) (hs_workers h) (hs_now h) (hs_view h) (hs_token h) (hs_bytes h) ow name ws of
                  (Inl e, ws') \<Rightarrow> (api_error e, put_workers ws' ct)
                | (Inr (shown, token), ws') \<Rightarrow>
                    (respond 201 (jobj [(''worker'', view_value shown), (''enrollment_token'', Some (jstr token)),
                       (''expires_in'', Some (jint 600))]), put_workers ws' ct))))"

definition worker_revoke :: "host \<Rightarrow> owner option \<Rightarrow> string \<Rightarrow> request \<Rightarrow> control \<Rightarrow> response \<times> control" where
  "worker_revoke h ow wid r ct =
     (case eg_workers (ct_engine ct) of
        None \<Rightarrow> (api_error ErrForbidden, ct)
      | Some ws \<Rightarrow>
          (case decode no_members () r of
             Inl e \<Rightarrow> (api_error e, ct)
           | Inr _ \<Rightarrow>
               (case ws_revoke (hs_save h) wid ow ws of
                  (Inl e, ws') \<Rightarrow> (api_error e, put_workers ws' ct)
                | (Inr _, ws') \<Rightarrow> (respond 200 (jobj [(''revoked'', Some (JBool True))]), put_workers ws' ct))))"

subsection \<open>The worker protocol\<close>

definition worker_enroll :: "host \<Rightarrow> request \<Rightarrow> workers \<Rightarrow> control \<Rightarrow> response \<times> control" where
  "worker_enroll h r ws ct =
     (case decode (\<lambda>k v (i, t, p). if k = ''id'' then dec_str (\<lambda>f (i, t, p). (f i, t, p)) v (i, t, p)
              else if k = ''token'' then dec_str (\<lambda>f (i, t, p). (i, f t, p)) v (i, t, p)
              else if k = ''public_key'' then dec_str (\<lambda>f (i, t, p). (i, t, f p)) v (i, t, p) else None) ([], [], []) r of
        Inl e \<Rightarrow> (api_error e, ct)
      | Inr (wid, token, key) \<Rightarrow>
          (case ws_enroll (hs_sha h) (hs_save h) (hs_now h) wid token key ws of
             (Inl e, ws') \<Rightarrow> (api_error e, put_workers ws' ct)
           | (Inr _, ws') \<Rightarrow> (respond 200 (jobj [(''enrolled'', Some (JBool True))]), put_workers ws' ct)))"

definition worker_challenge :: "host \<Rightarrow> request \<Rightarrow> workers \<Rightarrow> control \<Rightarrow> response \<times> control" where
  "worker_challenge h r ws ct =
     (case decode (dec_text ''id'') [] r of
        Inl e \<Rightarrow> (api_error e, ct)
      | Inr wid \<Rightarrow>
          (case ws_challenge (hs_challenges h) (hs_now h) (hs_bytes h) wid ws of
             (Inl e, ws') \<Rightarrow> (api_error e, put_workers ws' ct)
           | (Inr c, ws') \<Rightarrow> (respond 200 (jobj [(''challenge'', Some (jstr c))]), put_workers ws' ct)))"

definition worker_session :: "host \<Rightarrow> request \<Rightarrow> workers \<Rightarrow> control \<Rightarrow> response \<times> control" where
  "worker_session h r ws ct =
     (case decode (\<lambda>k v (i, c, s). if k = ''id'' then dec_str (\<lambda>f (i, c, s). (f i, c, s)) v (i, c, s)
              else if k = ''challenge'' then dec_str (\<lambda>f (i, c, s). (i, f c, s)) v (i, c, s)
              else if k = ''signature'' then dec_str (\<lambda>f (i, c, s). (i, c, f s)) v (i, c, s) else None) ([], [], []) r of
        Inl e \<Rightarrow> (api_error e, ct)
      | Inr (wid, challenge, signature) \<Rightarrow>
          (case ws_session (hs_sha h) (hs_verify h) (hs_now h) (hs_view h) (hs_bytes h) wid challenge signature ws of
             (Inl e, ws') \<Rightarrow> (api_error e, put_workers ws' ct)
           | (Inr token, ws') \<Rightarrow>
               (respond 200 (jobj [(''token'', Some (jstr token)), (''expires_in'', Some (jint 600))]), put_workers ws' ct)))"

text \<open>A worker shows the session token it got; in account mode it must belong to the realm, else to nobody.\<close>

definition unauthenticated :: response where
  "unauthenticated = message_answer 401 ''worker authentication required''"

definition foreign_worker :: "engine \<Rightarrow> worker \<Rightarrow> bool" where
  "foreign_worker e w \<longleftrightarrow> (eg_realm e \<noteq> [] \<and> (case w_owner w of None \<Rightarrow> True | Some p \<Rightarrow> o_realm p \<noteq> eg_realm e))
     \<or> (eg_realm e = [] \<and> w_owner w \<noteq> None)"

definition bearer :: "request \<Rightarrow> string" where
  "bearer r = trim_prefix (header ''Authorization'' r) ''Bearer ''"

definition with_worker ::
  "host \<Rightarrow> request \<Rightarrow> workers \<Rightarrow> control \<Rightarrow> (worker \<Rightarrow> response option \<times> control) \<Rightarrow> response option \<times> control" where
  "with_worker h r ws ct f =
     (case ws_authenticate (hs_sha h) (hs_now h) (bearer r) ws of
        Inl _ \<Rightarrow> (Some unauthenticated, ct)
      | Inr w \<Rightarrow> if foreign_worker (ct_engine ct) w then (Some (api_error ErrForbidden), ct) else f w)"

definition dec_wconn :: "string \<Rightarrow> json \<Rightarrow> wconn \<Rightarrow> wconn option" where
  "dec_wconn k v r =
     (if k = ''name'' then dec_str wc_name_update v r
      else if k = ''kind'' then dec_str wc_kind_update v r
      else if k = ''can_read'' then dec_bool wc_can_read_update v r
      else if k = ''can_write'' then dec_bool wc_can_write_update v r
      else if k = ''fingerprint'' then dec_str wc_fingerprint_update v r
      else if k = ''resource'' then dec_str wc_resource_update v r
      else None)"

definition dec_wpair :: "string \<Rightarrow> json \<Rightarrow> wpair \<Rightarrow> wpair option" where
  "dec_wpair k v r =
     (if k = ''source'' then dec_str wp_source_update v r
      else if k = ''sink'' then dec_str wp_sink_update v r
      else if k = ''dimension'' then dec_int wp_dimension_update v r
      else None)"

definition dec_manifest :: "string \<Rightarrow> json \<Rightarrow> manifest \<Rightarrow> manifest option" where
  "dec_manifest k v r =
     (if k = ''connections'' then
        dec_field (map_option nil_empty \<circ> dec_slice (\<lambda>x. dec_struct dec_wconn x zero_wconn)) mf_connections_update v r
      else if k = ''pairs'' then
        dec_field (map_option nil_empty \<circ> dec_slice (\<lambda>x. dec_struct dec_wpair x \<lparr>wp_source = [], wp_sink = [], wp_dimension = 0\<rparr>))
          mf_pairs_update v r
      else None)"

definition dec_report :: "string \<Rightarrow> json \<Rightarrow> worker_report \<Rightarrow> worker_report option" where
  "dec_report k v r =
     (if k = ''lease_id'' then dec_str wr_lease_id_update v r
      else if k = ''sequence'' then dec_int wr_sequence_update v r
      else if k = ''state'' then dec_str wr_state_update v r
      else if k = ''phase'' then dec_str wr_phase_update v r
      else if k = ''records'' then dec_int wr_records_update v r
      else if k = ''batches'' then dec_int wr_batches_update v r
      else if k = ''retries'' then dec_int wr_retries_update v r
      else if k = ''restarts'' then dec_int wr_restarts_update v r
      else if k = ''checkpoint'' then dec_bool wr_checkpoint_update v r
      else if k = ''retry_after'' then dec_int wr_retry_after_update v r
      else if k = ''failure'' then dec_str wr_failure_update v r
      else None)"

definition zero_report :: worker_report where
  "zero_report = \<lparr>wr_lease_id = [], wr_sequence = 0, wr_state = [], wr_phase = [], wr_records = 0, wr_batches = 0,
     wr_retries = 0, wr_restarts = 0, wr_checkpoint = False, wr_retry_after = 0, wr_failure = []\<rparr>"

definition workers_of :: "control \<Rightarrow> workers" where
  "workers_of ct = (case eg_workers (ct_engine ct) of Some ws \<Rightarrow> ws
     | None \<Rightarrow> \<lparr>ws_entries = Map.empty, ws_challenges = Map.empty, ws_sessions = Map.empty, ws_poison = None, ws_disk = Map.empty\<rparr>)"

definition worker_publish :: "host \<Rightarrow> request \<Rightarrow> workers \<Rightarrow> control \<Rightarrow> worker \<Rightarrow> response option \<times> control" where
  "worker_publish h r ws ct w =
     (case decode dec_manifest empty_manifest r of
        Inl e \<Rightarrow> (Some (api_error e), ct)
      | Inr m \<Rightarrow>
          (case ws_publish (hs_save h) (hs_view h) (w_id w) m ws of
             (Inl e, ws') \<Rightarrow> (Some (api_error e), put_workers ws' ct)
           | (Inr _, ws') \<Rightarrow> (Some (respond 200 (jobj [(''accepted'', Some (JBool True))])), put_workers ws' ct)))"

text \<open>One turn of the long poll: the worker is authenticated again, then a job is claimed.\<close>

definition claim_turn :: "host \<Rightarrow> request \<Rightarrow> control \<Rightarrow> response option \<times> control" where
  "claim_turn h r ct =
     (case ws_authenticate (hs_sha h) (hs_now h) (bearer r) (workers_of ct) of
        Inl _ \<Rightarrow> (Some unauthenticated, ct)
      | Inr w \<Rightarrow>
          (case claim_worker (hs_sha h) (hs_io h) (hs_view h) (hs_jobs h) (hs_bytes h) w (ct_store ct) of
             (Inl e, st') \<Rightarrow> (Some (api_error e), ct\<lparr>ct_store := st'\<rparr>)
           | (Inr (Some a), st') \<Rightarrow> (Some (respond 200 (jobj [(''job'', assignment_value a)])), ct\<lparr>ct_store := st'\<rparr>)
           | (Inr None, st') \<Rightarrow> (None, ct\<lparr>ct_store := st'\<rparr>)))"

text \<open>
  The poll waits a second between its turns, while others use the control plane, and gives up at its
  deadline, or without an answer when the client is gone.
\<close>

fun claim_poll :: "request \<Rightarrow> host \<Rightarrow> host list \<Rightarrow> bool \<Rightarrow> control \<Rightarrow> response option \<times> control" where
  "claim_poll r h hs gone ct =
     (case claim_turn h r ct of
        (Some rs, ct') \<Rightarrow> (Some rs, ct')
      | (None, ct') \<Rightarrow>
          (case hs of
             [] \<Rightarrow> (if gone then None else Some (respond 200 (jobj [(''job'', Some JNull)])), ct')
           | h' # hs' \<Rightarrow> claim_poll r h' hs' gone (hs_others h' ct')))"

declare claim_poll.simps [simp del]

definition worker_claim :: "host \<Rightarrow> host list \<Rightarrow> bool \<Rightarrow> request \<Rightarrow> workers \<Rightarrow> control \<Rightarrow> worker \<Rightarrow> response option \<times> control" where
  "worker_claim h hs gone r ws ct w =
     (case decode no_members () r of
        Inl e \<Rightarrow> (Some (api_error e), ct)
      | Inr _ \<Rightarrow>
          (case ws_touch (hs_touch h) (hs_view h) (w_id w) ws of
             (Inl e, ws') \<Rightarrow> (Some (api_error e), put_workers ws' ct)
           | (Inr _, ws') \<Rightarrow> claim_poll r h hs gone (put_workers ws' ct)))"

definition worker_progress :: "host \<Rightarrow> string \<Rightarrow> request \<Rightarrow> control \<Rightarrow> worker \<Rightarrow> response option \<times> control" where
  "worker_progress h jid r ct w =
     (case decode dec_report zero_report r of
        Inl e \<Rightarrow> (Some (api_error e), ct)
      | Inr rep \<Rightarrow>
          (case report_worker (hs_sha h) (hs_io h) (hs_clock h) w jid rep (ct_store ct) of
             (Inl e, st') \<Rightarrow> (Some (api_error e), ct\<lparr>ct_store := st'\<rparr>)
           | (Inr j, st') \<Rightarrow>
               let ct1 = hs_others h (ct\<lparr>ct_store := st'\<rparr>) in
               (case ws_touch (hs_touch h) (hs_view h) (w_id w) (workers_of ct1) of
                  (Inl e, ws') \<Rightarrow> (Some (api_error e), put_workers ws' ct1)
                | (Inr _, ws') \<Rightarrow>
                    (Some (respond 200 (jobj [(''cancel_requested'', Some (JBool (j_state j = ''cancel_requested''))),
                       (''lease_until'', case j_lease_until j of None \<Rightarrow> Some JNull | Some t \<Rightarrow> time_json t)])), put_workers ws' ct1))))"

text \<open>\<^verbatim>\<open>mountWorkerProtocol\<close>: the answer to a path under \<^verbatim>\<open>/worker/v1\<close>; \<open>None\<close> inside when none is written.\<close>

definition worker_route :: "host \<Rightarrow> host list \<Rightarrow> bool \<Rightarrow> request \<Rightarrow> control \<Rightarrow> (response option \<times> control) option" where
  "worker_route h hs gone r ct =
     (case eg_workers (ct_engine ct) of
        None \<Rightarrow> None
      | Some ws \<Rightarrow>
          let post = (rq_method r = ''POST''); only = (\<lambda>f. Some (if post then f else (Some wrong_method, ct)));
              some = (\<lambda>(rs, ct'). (Some rs, ct'))
          in case rq_path r of
            [a, b, c] \<Rightarrow>
              if a \<noteq> ''worker'' \<or> b \<noteq> ''v1'' then None
              else if c = ''enroll'' then only (some (worker_enroll h r ws ct))
              else if c = ''challenge'' then only (some (worker_challenge h r ws ct))
              else if c = ''session'' then only (some (worker_session h r ws ct))
              else if c = ''manifest'' then only (with_worker h r ws ct (worker_publish h r ws ct))
              else if c = ''claim'' then only (with_worker h r ws ct (worker_claim h hs gone r ws ct))
              else None
          | [a, b, c, jid, d] \<Rightarrow>
              if a = ''worker'' \<and> b = ''v1'' \<and> c = ''jobs'' \<and> jid \<noteq> [] \<and> d = ''progress''
              then only (with_worker h r ws ct (worker_progress h jid r ct)) else None
          | _ \<Rightarrow> None)"

subsection \<open>The gate and the routes\<close>

text \<open>The account service as the handler sees it, and how the handler was made.\<close>

record account_service =
  sv_realm :: string
  sv_authenticate :: "request \<Rightarrow> principal_info result"
  sv_mount :: "request \<Rightarrow> response option"

record handler =
  hn_token :: string
  hn_accounts :: "account_service option"
  hn_parse_url :: "string \<Rightarrow> url option"
  hn_parse_ip :: "string \<Rightarrow> ip option"

definition account_handler :: "account_service \<Rightarrow> control \<Rightarrow> control" where
  "account_handler sv ct = ct\<lparr>ct_engine := (ct_engine ct)\<lparr>eg_realm := sv_realm sv\<rparr>\<rparr>"

definition local_host :: "(string \<Rightarrow> ip option) \<Rightarrow> string \<Rightarrow> bool" where
  "local_host parse_ip s =
     (let name = (case split_host_port s of Some (n, p) \<Rightarrow> n | None \<Rightarrow> s) in
      name = ''localhost'' \<or> (case parse_ip name of None \<Rightarrow> False | Some a \<Rightarrow> is_loopback (unmap a)))"

definition cross_origin :: "(string \<Rightarrow> url option) \<Rightarrow> request \<Rightarrow> bool" where
  "cross_origin parse r \<longleftrightarrow> header ''Origin'' r \<noteq> []
     \<and> (case parse (header ''Origin'' r) of None \<Rightarrow> True
        | Some u \<Rightarrow> u_host u \<noteq> rq_host r \<or> (u_scheme u \<noteq> ''http'' \<and> u_scheme u \<noteq> ''https''))"

text \<open>Before \<^verbatim>\<open>/v1/\<close>: the refusal, or the owner on whose behalf the request acts.\<close>

definition gate :: "handler \<Rightarrow> request \<Rightarrow> response + owner option" where
  "gate hn r =
     (case hn_accounts hn of
        Some sv \<Rightarrow>
          (case sv_authenticate sv r of
             Inl e \<Rightarrow> Inl (message_answer (if errors_is e ErrUnavailable then 503 else 401) ''Polign sign-in unavailable or expired'')
           | Inr p \<Rightarrow>
               if pr_subject p = [] \<or> pr_owner p = [] then Inl (message_answer 401 ''Polign sign-in required'')
               else Inr (Some \<lparr>o_id = pr_owner p, o_subject = pr_subject p, o_realm = sv_realm sv\<rparr>))
      | None \<Rightarrow>
          if hn_token hn \<noteq> [] \<and> header ''Authorization'' r \<noteq> ''Bearer '' @ hn_token hn
          then Inl (message_answer 401 ''valid bearer token required'')
          else if hn_token hn = [] \<and> \<not> local_host (hn_parse_ip hn) (rq_host r)
          then Inl (message_answer 403 ''local access required'')
          else if cross_origin (hn_parse_url hn) r then Inl (message_answer 403 ''cross-origin requests are disabled'')
          else Inr None)"

definition api_route :: "handler \<Rightarrow> host \<Rightarrow> owner option \<Rightarrow> request \<Rightarrow> control \<Rightarrow> response \<times> control" where
  "api_route hn h ow r ct =
     (let get = safe_method r; post = (rq_method r = ''POST''); no = (wrong_method, ct) in
      if [] \<in> set (rq_path r) then (not_found, ct)
      else case drop 1 (rq_path r) of
        [a] \<Rightarrow>
          if a = ''workers'' then (if get then workers_list h ow ct else if post then worker_create h ow r ct else no)
          else if a = ''connections'' then
            (if get then connections_list h (hn_accounts hn \<noteq> None) ow ct else if post then connection_create h ow r ct else no)
          else if a = ''jobs'' then (if get then jobs_list h ow r ct else if post then job_submit h (hn_token hn) ow r ct else no)
          else (not_found, ct)
      | [a, i] \<Rightarrow>
          if a = ''connections'' then (if rq_method r = ''DELETE'' then connection_delete h ow i ct else no)
          else if a = ''jobs'' then (if get then job_get ow i ct else no)
          else (not_found, ct)
      | [a, i, b] \<Rightarrow>
          if a = ''workers'' \<and> b = ''revoke'' then (if post then worker_revoke h ow i r ct else no)
          else if a = ''connections'' \<and> b = ''credentials'' then (if rq_method r = ''PUT'' then connection_rotate h ow i r ct else no)
          else if a = ''jobs'' then
            (if get \<and> b = ''events'' then job_history h ow i r ct
             else if post then job_steer h (hn_token hn) ow i b r ct else no)
          else (not_found, ct)
      | _ \<Rightarrow> (not_found, ct))"

definition health_answer :: "control \<Rightarrow> response" where
  "health_answer ct =
     (if health (ct_store ct) \<noteq> None \<or> vault_health (eg_vault (ct_engine ct)) \<noteq> None \<or> ws_health (eg_workers (ct_engine ct)) \<noteq> None
      then respond 503 (jobj [(''status'', Some (jstr ''unavailable''))])
      else respond 200 (jobj [(''status'', Some (jstr ''ok''))]))"

definition v1_answer :: "handler \<Rightarrow> host \<Rightarrow> request \<Rightarrow> control \<Rightarrow> response \<times> control" where
  "v1_answer hn h r ct =
     (case gate hn r of
        Inl rs \<Rightarrow> (set_header ''Cache-Control'' ''no-store'' rs, ct)
      | Inr ow \<Rightarrow> (case api_route hn h ow r ct of (rs, ct') \<Rightarrow> (set_header ''Cache-Control'' ''no-store'' rs, ct')))"

text \<open>The static pages and the downloads: their headers; their bytes are not modelled.\<close>

definition static_pages :: "(string list \<times> string) list" where
  "static_pages =
     [([''docs.html''], ''text/html; charset=utf-8''), ([''landing.js''], ''text/javascript; charset=utf-8''),
      ([''connections'', ''new''], ''text/html; charset=utf-8''), ([''worker-reference.html''], ''text/html; charset=utf-8''),
      ([''connection-setup.js''], ''text/javascript; charset=utf-8''), ([''connection-fields.js''], ''text/javascript; charset=utf-8''),
      ([''worker-script.js''], ''text/javascript; charset=utf-8''), ([], ''text/html; charset=utf-8''),
      ([''app.js''], ''text/javascript; charset=utf-8''), ([''style.css''], ''text/css; charset=utf-8''),
      ([''bloom.jpg''], ''image/jpeg''), ([''favicon.svg''], ''image/svg+xml''), ([''polign-sans.woff2''], ''font/woff2''),
      ([''FONT-LICENSE.txt''], ''text/plain; charset=utf-8'')]"

definition downloads :: "string list" where
  "downloads = [''vtransfer-linux-amd64'', ''vtransfer-linux-arm64'', ''vtransfer-darwin-arm64'', ''SHA256SUMS'']"

definition only_get :: "request \<Rightarrow> response \<Rightarrow> response" where
  "only_get r rs = (if safe_method r then rs else wrong_method)"

definition static_page :: "engine \<Rightarrow> request \<Rightarrow> response option" where
  "static_page e r =
     (case map_of static_pages (rq_path r) of
        Some t \<Rightarrow> Some (only_get r (set_header ''Content-Type'' t no_response))
      | None \<Rightarrow>
          if rq_path r = [''worker-guide.html''] then Some (only_get r (redirect ''/connections/new'' 302))
          else (case rq_path r of
             [d, name] \<Rightarrow>
               if d = ''downloads'' \<and> eg_worker_downloads e \<noteq> [] \<and> name \<in> set downloads
               then Some (only_get r (set_header ''Content-Disposition'' (''attachment; filename='' @ name) no_response))
               else None
           | _ \<Rightarrow> None))"

definition self_source :: string where
  "self_source = CHR 0x27 # ''self'' @ [CHR 0x27]"

definition none_source :: string where
  "none_source = CHR 0x27 # ''none'' @ [CHR 0x27]"

definition security_headers :: "response \<Rightarrow> response" where
  "security_headers rs = rs\<lparr>rs_headers := [(''Referrer-Policy'', ''no-referrer''), (''Cache-Control'', ''no-store''),
     (''X-Content-Type-Options'', ''nosniff''),
     (''Content-Security-Policy'', ''default-src '' @ self_source @ ''; style-src '' @ self_source @ ''; script-src '' @ self_source
        @ ''; object-src '' @ none_source @ ''; frame-ancestors '' @ none_source @ ''; base-uri '' @ none_source
        @ ''; form-action '' @ self_source)] @ rs_headers rs\<rparr>"

definition auth_answer :: "handler \<Rightarrow> request \<Rightarrow> response option" where
  "auth_answer hn r =
     (case hn_accounts hn of
        Some sv \<Rightarrow> sv_mount sv r
      | None \<Rightarrow> if rq_path r = [''auth'', ''config'']
                then Some (only_get r (respond 200 (jobj [(''mode'', Some (jstr ''operator''))]))) else None)"

definition handle :: "handler \<Rightarrow> host \<Rightarrow> host list \<Rightarrow> bool \<Rightarrow> request \<Rightarrow> control \<Rightarrow> response option \<times> control" where
  "handle hn h hs gone r ct =
     (let some = (\<lambda>(rs, ct'). (Some rs, ct'));
          (rs, ct') =
            (if rq_path r \<noteq> [] \<and> hd (rq_path r) = ''v1'' then some (v1_answer hn h r ct)
             else case worker_route h hs gone r ct of
               Some p \<Rightarrow> p
             | None \<Rightarrow>
                 (case auth_answer hn r of
                    Some rs \<Rightarrow> (Some rs, ct)
                  | None \<Rightarrow>
                      if rq_path r = [''healthz''] then (Some (only_get r (health_answer ct)), ct)
                      else (Some (case static_page (ct_engine ct) r of Some rs \<Rightarrow> rs | None \<Rightarrow> not_found), ct)))
      in (map_option security_headers rs, ct'))"

end
