(* ===== verification/Engine_Properties.thy ===== *)
theory Engine_Properties
  imports Engine Store_Properties
begin

section \<open>Properties of submission and steering\<close>

text \<open>
  What a stored job satisfies (bounds of its settings, distinct sides, the grants of its owner),
  that a job just submitted would also be authorized to run, and the edges that cancelling and
  resuming take in the state machine of a job.
\<close>

subsection \<open>Submission\<close>

definition spec_within :: "spec \<Rightarrow> bool" where
  "spec_within s \<longleftrightarrow> sp_name s \<noteq> [] \<and> length (sp_name s) \<le> 160 \<and> sp_dimension s \<in> {1..65536}
     \<and> sp_batch_size s \<in> {1..500} \<and> sp_max_attempts s \<in> {1..10} \<and> sp_max_restarts s \<in> {-1..10}"

lemma spec_error_None:
  "spec_error s key = None \<longleftrightarrow> spec_within (complete_spec s) \<and> length key \<le> 128"
  by (auto simp: spec_error_def spec_within_def Let_def not_less split: if_splits)

lemma submit_cases:
  assumes "submit sha io ks rnd created e spec0 key actor owners st = (Inr (j, fresh), st')"
  obtains t where "\<not> forbidden_submission e spec0 owners" "\<not> (eg_hosted_disabled e \<and> sp_worker_id spec0 = [])"
    "spec_within (complete_spec spec0)" "length key \<le> 128"
    "submission_target e (complete_spec spec0) owners = Inr t"
    "create sha io ks rnd created (complete_spec spec0) (tg_source_fp t) (tg_sink_fp t) (tg_resource t) key actor owners st
       = (Inr (j, fresh), st')"
proof -
  have nf: "\<not> forbidden_submission e spec0 owners" "\<not> (eg_hosted_disabled e \<and> sp_worker_id spec0 = [])"
    using assms by (auto simp: submit_def split: if_splits)
  then have "spec_error spec0 key = None" using assms by (cases "spec_error spec0 key") (auto simp: submit_def)
  with nf assms that spec_error_None [of spec0 key] show thesis
    by (cases "submission_target e (complete_spec spec0) owners") (auto simp: submit_def Let_def)
qed

lemma created_job:
  assumes "create sha io ks rnd created spec sf kf res key actor owners st = (Inr (j, fresh), st')"
  shows "j_spec j = spec \<and> j_source_fp j = sf \<and> j_sink_fp j = kf \<and> j_owner j = first_owner owners
     \<and> (fresh \<longrightarrow> j_state j = ''queued'' \<and> j_sink_resource j = res \<and> j_records j = 0 \<and> j_cursor j = [])"
  using assms by (cases rule: create_cases) auto

lemma complete_spec_simps [simp]:
  "sp_worker_id (complete_spec s) = sp_worker_id s" "sp_source (complete_spec s) = sp_source s"
  "sp_sink (complete_spec s) = sp_sink s" "sp_dimension (complete_spec s) = sp_dimension s"
  by (simp_all add: complete_spec_def)

lemma hosted_target_Inr:
  assumes "hosted_target e spec = Inr t"
  obtains src dst where "connection e (sp_source spec) = Some src" "connection e (sp_sink spec) = Some dst"
    "b_source src \<noteq> None" "b_sink dst \<noteq> None" "sp_source spec \<noteq> sp_sink spec" "b_fingerprint src \<noteq> b_fingerprint dst"
    "b_resource src \<noteq> [] \<Longrightarrow> b_resource src \<noteq> b_resource dst"
    "t = \<lparr>tg_source_fp = b_fingerprint src, tg_sink_fp = b_fingerprint dst,
       tg_resource = if_empty (b_resource dst) (b_fingerprint dst)\<rparr>"
  using assms unfolding hosted_target_def by (auto split: option.splits if_splits)

lemma worker_target_Inr:
  assumes "worker_target e spec owners = Inr t"
  obtains ws w src dst where "eg_workers e = Some ws" "ws_get (sp_worker_id spec) (first_owner owners) ws = Inr w"
    "worker_connections w spec = Inr (src, dst)"
    "t = \<lparr>tg_source_fp = wc_fingerprint src, tg_sink_fp = wc_fingerprint dst,
       tg_resource = ''worker:'' @ w_id w @ '':'' @ wc_resource dst\<rparr>"
  using assms unfolding worker_target_def by (auto split: option.splits sum.splits)

text \<open>Every job that a submission stores or finds again has settings within the documented limits, with
  the defaults filled in: a name of 1 to 160 bytes, a dimension of 1 to 65536, a batch size of 1 to
  500, 1 to 10 attempts, -1 to 10 restarts and an idempotency key of at most 128 bytes; and a hosted
  job transfers between two different connections.\<close>

theorem submission_bounds:
  assumes "submit sha io ks rnd created e spec0 key actor owners st = (Inr (j, fresh), st')"
  shows "j_spec j = complete_spec spec0 \<and> spec_within (j_spec j) \<and> length key \<le> 128
     \<and> (sp_worker_id spec0 = [] \<longrightarrow> \<not> eg_hosted_disabled e \<and> sp_source (j_spec j) \<noteq> sp_sink (j_spec j)
          \<and> j_source_fp j \<noteq> j_sink_fp j)"
  using assms
proof (cases rule: submit_cases)
  case (1 t)
  note c = created_job [OF 1(6)]
  have "sp_source (j_spec j) \<noteq> sp_sink (j_spec j) \<and> j_source_fp j \<noteq> j_sink_fp j" if "sp_worker_id spec0 = []"
  proof -
    have "hosted_target e (complete_spec spec0) = Inr t" using 1(5) that by (simp add: submission_target_def)
    with c show ?thesis by (elim hosted_target_Inr) simp
  qed
  with c 1 show ?thesis by auto
qed

text \<open>C21: A job that was just submitted is authorized to run. The grants, the realm and the approved pair
  that a submission checks are what the executor checks again before every page, so with the
  configuration unchanged an accepted job is never failed for a revoked access; and in account mode
  the job belongs to the one signed-in user, who may read its source and write its sink.\<close>

theorem submitted_authorized:
  assumes "submit sha io ks rnd created e spec0 key actor owners st = (Inr (j, fresh), st')"
  shows "authorized e j \<and> (eg_realm e \<noteq> [] \<longrightarrow> (\<exists>w. owners = [w] \<and> j_owner j = Some w \<and> o_realm w = eg_realm e
     \<and> (sp_worker_id spec0 = [] \<longrightarrow> allows_read (connection_or_zero e (sp_source (j_spec j))) (o_subject w)
          \<and> allows_write (connection_or_zero e (sp_sink (j_spec j))) (o_subject w))))"
  using assms
proof (cases rule: submit_cases)
  case (1 t)
  note c = created_job [OF 1(6)]
  have own: "\<exists>w. owners = [w] \<and> j_owner j = Some w \<and> o_realm w = eg_realm e
      \<and> (sp_worker_id spec0 = [] \<longrightarrow> allows_read (connection_or_zero e (sp_source (j_spec j))) (o_subject w)
          \<and> allows_write (connection_or_zero e (sp_sink (j_spec j))) (o_subject w))" if "eg_realm e \<noteq> []"
    using 1(1) that c unfolding forbidden_submission_def first_owner_def by (auto split: list.splits)
  have none: "j_owner j = None" if "eg_realm e = []"
    using 1(1) that c unfolding forbidden_submission_def first_owner_def by (auto split: list.splits)
  have "authorized e j"
  proof (cases "sp_worker_id spec0 = []")
    case True
    with c own none show ?thesis by (auto simp: authorized_def)
  next
    case False
    then have "worker_target e (complete_spec spec0) owners = Inr t" using 1(5) by (simp add: submission_target_def)
    then obtain ws w src dst where w: "eg_workers e = Some ws" "ws_get (sp_worker_id spec0) (first_owner owners) ws = Inr w"
      "worker_connections w (complete_spec spec0) = Inr (src, dst)" "t = \<lparr>tg_source_fp = wc_fingerprint src,
        tg_sink_fp = wc_fingerprint dst, tg_resource = ''worker:'' @ w_id w @ '':'' @ wc_resource dst\<rparr>"
      by (rule worker_target_Inr) simp
    with c own none False show ?thesis by (auto simp: authorized_def)
  qed
  with own show ?thesis by blast
qed

subsection \<open>Cancel and resume\<close>

definition cancelable :: "string set" where
  "cancelable = {''queued'', ''retry_wait'', ''running'', ''cancel_requested''}"

definition resumable :: "string set" where
  "resumable = {''failed'', ''canceled'', ''retry_wait''}"

definition progress :: "job \<Rightarrow> int \<times> int \<times> string \<times> bool" where
  "progress j = (j_records j, j_batches j, j_cursor j, j_source_exhausted j)"

lemma action_fn_error:
  "action_fn action j = Inl err \<longleftrightarrow>
     (if action = ''cancel'' then j_state j \<notin> cancelable \<and> err = ErrConflict
      else if action = ''resume'' then j_state j \<notin> resumable \<and> err = ErrConflict
      else err = ErrNew ''unknown action'')"
  by (auto simp: action_fn_def cancel_fn_def resume_fn_def cancelable_def resumable_def Let_def)

lemma action_fn_Inr:
  "action_fn action j = Inr j' \<Longrightarrow> frozen j j' \<and> progress j' = progress j \<and>
     (if action = ''cancel'' then j_state j \<in> cancelable
        \<and> j_state j' = (if j_state j \<in> {''queued'', ''retry_wait''} then ''canceled'' else ''cancel_requested'')
      else action = ''resume'' \<and> j_state j \<in> resumable \<and> j_state j' = ''queued'' \<and> j_restarts j' = 0
        \<and> j_next_run_at j' = None
        \<and> j_generation j' = j_generation j + (if sp_worker_id (j_spec j) = [] then 0 else 1))"
  by (auto simp: action_fn_def cancel_fn_def resume_fn_def cancelable_def resumable_def progress_def frozen_def Let_def
      split: if_splits)

text \<open>The operator's actions take exactly the documented edges. Cancelling a waiting job ends it,
  cancelling an active one marks it, resuming sends a failed, canceled or waiting job back to the queue
  with its restarts reset; every other action is refused and changes nothing. No action touches the
  job's progress, identity or any other job.\<close>

theorem action_edges:
  assumes "keyed (s_jobs st)" "s_jobs st jid = Some j" "job_action sha io jid action actor st = (r, st')"
  shows "case r of
       Inl err \<Rightarrow> s_jobs st' = s_jobs st
     | Inr j' \<Rightarrow> s_jobs st' = (s_jobs st)(jid \<mapsto> j') \<and> frozen j j' \<and> progress j' = progress j
         \<and> (action = ''cancel'' \<and> j_state j \<in> cancelable
              \<and> j_state j' = (if j_state j \<in> {''queued'', ''retry_wait''} then ''canceled'' else ''cancel_requested'')
            \<or> action = ''resume'' \<and> j_state j \<in> resumable \<and> j_state j' = ''queued'' \<and> j_restarts j' = 0)"
proof -
  have fr: "\<And>j j'. action_fn action j = Inr j' \<Longrightarrow> frozen j j'" using action_fn_Inr by blast
  show ?thesis
  proof (cases rule: update_jobs [OF assms(3) [unfolded job_action_def] assms(1) fr])
    case (3 j0 j')
    have "j0 = j" using 3(1) assms(2) by simp
    with action_fn_Inr [OF 3(2)] have "frozen j j'" "progress j' = progress j"
      "action = ''cancel'' \<and> j_state j \<in> cancelable
          \<and> j_state j' = (if j_state j \<in> {''queued'', ''retry_wait''} then ''canceled'' else ''cancel_requested'')
        \<or> action = ''resume'' \<and> j_state j \<in> resumable \<and> j_state j' = ''queued'' \<and> j_restarts j' = 0"
      by (auto split: if_splits)
    with 3(3,4) show ?thesis by (simp add: frozen_def progress_def)
  qed simp_all
qed

subsection \<open>Instances\<close>

definition demo_registry :: registry where
  "demo_registry = [''a'' \<mapsto> zero_binding\<lparr>b_fingerprint := ''f'', b_resource := ''x'', b_source := Some 1, b_read_subjects := [''s'']\<rparr>,
     ''b'' \<mapsto> zero_binding\<lparr>b_fingerprint := ''g'', b_resource := ''y'', b_sink := Some 2, b_write_subjects := [''s'']\<rparr>]"

definition demo_engine :: engine where
  "demo_engine = \<lparr>eg_worker_downloads = [], eg_hosted_disabled = False, eg_registry = demo_registry, eg_realm = ''r'',
     eg_vault = None, eg_workers = None\<rparr>"

definition demo_account :: owner where
  "demo_account = \<lparr>o_id = ''u'', o_subject = ''s'', o_realm = ''r''\<rparr>"

definition demo_request :: spec where
  "demo_request = \<lparr>sp_worker_id = [], sp_name = ''n'', sp_source = ''a'', sp_sink = ''b'', sp_dimension = 3, sp_batch_size = 0,
     sp_max_attempts = 0, sp_max_restarts = 0\<rparr>"

lemma demo_connection [simp]:
  "connection demo_engine ''a'' = Some (zero_binding\<lparr>b_fingerprint := ''f'', b_resource := ''x'', b_source := Some 1, b_read_subjects := [''s'']\<rparr>)"
  "connection demo_engine ''b'' = Some (zero_binding\<lparr>b_fingerprint := ''g'', b_resource := ''y'', b_sink := Some 2, b_write_subjects := [''s'']\<rparr>)"
  by (simp_all add: connection_def demo_engine_def demo_registry_def)

lemma demo_complete: "complete_spec demo_request = demo_request\<lparr>sp_batch_size := 100, sp_max_attempts := 5, sp_max_restarts := 3\<rparr>"
proof -
  have "trim_space ''n'' = ''n''" by (rule trim_space_visible) (simp_all add: visible_def byte_def)
  then show ?thesis by (simp add: complete_spec_def demo_request_def default_def)
qed

lemma demo_submit:
  obtains j st' where "submit demo_sha demo_io [] (Inr ''z'') 0 demo_engine demo_request [] ''u'' [demo_account] empty_store
     = (Inr (j, True), st')" "s_jobs st' = [hex_encode ''z'' \<mapsto> j]" "j_state j = ''queued''" "j_id j = hex_encode ''z''"
proof -
  have nf: "\<not> forbidden_submission demo_engine demo_request [demo_account]"
    by (simp add: forbidden_submission_def connection_or_zero_def demo_account_def demo_request_def allows_read_def
        allows_write_def contains_subject_iff) (simp add: demo_engine_def)
  have sp: "spec_error demo_request [] = None"
    unfolding spec_error_None demo_complete by (simp add: spec_within_def demo_request_def)
  have tg: "submission_target demo_engine (complete_spec demo_request) [demo_account]
      = Inr \<lparr>tg_source_fp = ''f'', tg_sink_fp = ''g'', tg_resource = ''y''\<rparr>"
    by (simp add: submission_target_def hosted_target_def demo_complete demo_request_def if_empty_def)
  have io: "io_ok demo_io" by (simp add: io_ok_def demo_io_def time_ok_0)
  have "[] \<noteq> ([] :: string) \<Longrightarrow> find (create_matches [] (first_owner [demo_account])) (range_vals [] (s_jobs empty_store)) = None"
    by simp
  then obtain st' where c: "create demo_sha demo_io [] (Inr ''z'') 0 (complete_spec demo_request) ''f'' ''g'' ''y'' [] ''u'' [demo_account] empty_store =
      (Inr (new_job (io_now demo_io) 0 (first_owner [demo_account]) (hex_encode ''z'') (complete_spec demo_request) ''f'' ''g'' ''y'' [] ''u'', True), st')"
    "s_jobs st' = (s_jobs empty_store)(hex_encode ''z'' \<mapsto>
        new_job (io_now demo_io) 0 (first_owner [demo_account]) (hex_encode ''z'') (complete_spec demo_request) ''f'' ''g'' ''y'' [] ''u'')"
    by (rule create_ok [OF empty_store_healthy io refl time_ok_0])
  have "s_jobs empty_store = Map.empty" by (simp add: empty_store_def)
  with c nf sp tg show thesis
    by (intro that, simp_all add: submit_def Let_def new_job_simps del: hex_encode.simps) (simp_all add: demo_engine_def)
qed

theorem submission_bounds_witness:
  "\<exists>j st'. submit demo_sha demo_io [] (Inr ''z'') 0 demo_engine demo_request [] ''u'' [demo_account] empty_store
       = (Inr (j, True), st') \<and> spec_within (j_spec j)"
  by (rule demo_submit) (use submission_bounds in blast)

theorem submitted_authorized_witness:
  "\<exists>j st'. submit demo_sha demo_io [] (Inr ''z'') 0 demo_engine demo_request [] ''u'' [demo_account] empty_store
       = (Inr (j, True), st') \<and> authorized demo_engine j"
  by (rule demo_submit) (use submitted_authorized in blast)

theorem action_edges_witness:
  "\<exists>(j :: job) st. j_state j = ''queued'' \<and> (case fst (job_action demo_sha demo_io (j_id j) ''resume'' ''u'' st) of
     Inl err \<Rightarrow> True | Inr j' \<Rightarrow> False)"
proof (rule demo_submit)
  fix j and st' :: store
  assume j: "s_jobs st' = [hex_encode ''z'' \<mapsto> j]" "j_state j = ''queued''" "j_id j = hex_encode ''z''"
  have k: "keyed (s_jobs st')" unfolding j(1) using j(3) by (simp add: keyed_def)
  have s: "s_jobs st' (j_id j) = Some j" unfolding j(1) j(3) by simp
  obtain r st2 where a: "job_action demo_sha demo_io (j_id j) ''resume'' ''u'' st' = (r, st2)" by force
  from action_edges [OF k s a] j(2) a
  have "j_state j = ''queued'' \<and> (case fst (job_action demo_sha demo_io (j_id j) ''resume'' ''u'' st') of
     Inl err \<Rightarrow> True | Inr j' \<Rightarrow> False)"
    by (auto simp: resumable_def split: sum.splits)
  then show ?thesis by blast
qed

end
