(* ===== verification/Journal_Damage.thy ===== *)
theory Journal_Damage
  imports Control_Api Engine_Properties
begin

section \<open>Keys that are not UTF-8 damage the journal\<close>

text \<open>
  The idempotency key of a submission is any header value, and Go keeps its bytes. A journal line is JSON,
  where a byte that is not UTF-8 is written as an escaped U+FFFD; read back and written again it is the
  three bytes of U+FFFD. So the hash over the entry as it was does not match the hash over the entry as it
  is read, and the store does not open again.
\<close>

declare dec_members.simps(2) [simp del]

subsection \<open>What is read back\<close>

lemma utf8_tail_take:
  assumes "utf8_tail c cs = Some n"
  shows "utf8_tail c (take n cs @ y) = Some n"
proof -
  from assms obtain lo hi where lead: "utf8_lead c = Some (n, lo, hi)" and len: "n \<le> length cs"
    and h: "in_bytes lo hi (hd cs)" and t: "list_all (in_bytes 0x80 0xBF) (take (n - 1) (tl cs))"
    by (auto simp: utf8_tail_def split: option.splits if_splits)
  from utf8_lead_bounds [OF lead] len obtain x xs m where c: "cs = x # xs" "n = Suc m" by (cases cs; cases n) auto
  with lead len h t show ?thesis by (auto simp: utf8_tail_def)
qed

lemma replacement_tail: "utf8_tail (CHR 0xEF) (CHR 0xBF # CHR 0xBD # x) = Some 2"
  by (simp add: utf8_tail_def utf8_lead_def in_bytes_def byte_def)

lemma valid_replacement: "valid_utf8 (replacement @ x) = valid_utf8 x"
  using replacement_tail [of x] by (simp add: replacement_def byte_def)

lemma valid_to_valid: "valid_utf8 (to_valid s)"
proof (induction s rule: to_valid.induct)
  case (2 c cs)
  show ?case
  proof (cases "byte c < 0x80 \<or> utf8_tail c cs = None")
    case True
    with 2 valid_replacement show ?thesis by auto
  next
    case False
    then obtain n where n: "utf8_tail c cs = Some n" by auto
    with False 2 have "valid_utf8 (to_valid (drop n cs))" by simp
    moreover have "drop n (take n cs @ to_valid (drop n cs)) = to_valid (drop n cs)"
      using utf8_tail_bounds [OF n] by simp
    ultimately show ?thesis using False n utf8_tail_take [OF n] by simp
  qed
qed simp

lemma to_valid_Nil [simp]: "to_valid s = [] \<longleftrightarrow> s = []"
  by (cases s) (simp_all add: replacement_def split: option.splits)

text \<open>Only a valid string is written as what is read back from it.\<close>

lemma escape_fixed: "json_escape s = json_escape (to_valid s) \<Longrightarrow> valid_utf8 s"
proof (induction s rule: to_valid.induct)
  case (2 c cs)
  show ?case
  proof (cases "byte c < 0x80")
    case True
    with 2 show ?thesis by simp
  next
    case False
    show ?thesis
    proof (cases "utf8_tail c cs")
      case None
      have "hd (json_escape (to_valid (c # cs))) = CHR 0xEF"
        using False None replacement_tail by (simp add: replacement_def byte_def)
      moreover have "hd (json_escape (c # cs)) = CHR 0x5C" using False None by (simp add: u_escape_def)
      ultimately show ?thesis using 2(4) by simp
    next
      case (Some n)
      have d: "take n (take n cs @ to_valid (drop n cs)) = take n cs" "drop n (take n cs @ to_valid (drop n cs)) = to_valid (drop n cs)"
        using utf8_tail_bounds [OF Some] by simp_all
      from 2(4) False Some utf8_tail_take [OF Some] have "json_escape (drop n cs) = json_escape (to_valid (drop n cs))"
        by (simp add: d del: take_append drop_append split: if_splits)
      with 2 False Some show ?thesis by simp
    qed
  qed
qed simp

definition read_back :: "job \<Rightarrow> job" where
  "read_back j = j\<lparr>j_idempotency_key := to_valid (j_idempotency_key j)\<rparr>"

lemma dec_key_value: "dec_job ''idempotency_key'' (jstr s) r = dec_job ''idempotency_key'' (jstr (to_valid s)) r"
proof -
  have "dec_job ''idempotency_key'' v r = dec_str j_idempotency_key_update v r" for v by (simp add: dec_job_def)
  moreover have "json_unquote (json_escape s) = json_unquote (json_escape (to_valid s))"
    unfolding json_unquote_escape_any using to_valid_id [OF valid_to_valid] by simp
  ultimately show ?thesis by (simp add: dec_str_def jstr_def)
qed

lemma dec_key_member:
  "dec_members dec_job (omit (s = []) ''idempotency_key'' (jstr s)) r =
   dec_members dec_job (omit (to_valid s = []) ''idempotency_key'' (jstr (to_valid s))) r"
proof -
  have "plain_key ''idempotency_key''" by (simp add: plain_keys)
  then have "dec_members dec_job [(''idempotency_key'', v)] r = (case dec_job ''idempotency_key'' v r of None \<Rightarrow> None | Some r' \<Rightarrow> Some r')" for v
    by (simp add: dec_members_key split: option.split)
  then show ?thesis using dec_key_value [of s r] by (simp only: omit_def to_valid_Nil split: if_split) simp
qed

lemma job_members_split: "\<exists>ms. \<forall>s. job_members (j\<lparr>j_idempotency_key := s\<rparr>) = ms @ omit (s = []) ''idempotency_key'' (jstr s)"
proof -
  define ms where "ms = job_members (j\<lparr>j_idempotency_key := []\<rparr>)"
  have "job_members (j\<lparr>j_idempotency_key := s\<rparr>) = ms @ omit (s = []) ''idempotency_key'' (jstr s)" for s
    by (simp add: ms_def job_members_def omit_def)
  then show ?thesis by blast
qed

lemma dec_job_read_back:
  assumes "job_ok (read_back j)"
  shows "dec_members dec_job (job_members j) zero_job = Some (read_back j)"
proof -
  from job_members_split [of j] obtain ms where ms: "\<And>s. job_members (j\<lparr>j_idempotency_key := s\<rparr>) = ms @ omit (s = []) ''idempotency_key'' (jstr s)"
    by blast
  have "job_members j = ms @ omit (j_idempotency_key j = []) ''idempotency_key'' (jstr (j_idempotency_key j))"
    using ms [of "j_idempotency_key j"] by simp
  then have "dec_members dec_job (job_members j) zero_job = dec_members dec_job (job_members (read_back j)) zero_job"
    unfolding read_back_def ms by (simp only: dec_members_append dec_key_member [symmetric])
  then show ?thesis using dec_job_members [OF assms] by simp
qed

lemma unmarshal_read_back:
  assumes "event_ok (en_event e)" "job_ok (read_back (en_job e))"
  shows "unmarshal_entry (entry_line e @ [newline]) = Some (e\<lparr>en_job := read_back (en_job e)\<rparr>)"
proof -
  have ns: "num_stop [newline]" "skip_ws [newline] = []"
    by (simp_all add: newline_def num_stop_def is_digit_def byte_def skip_ws_def is_ws_def)
  have "json_parse (entry_line e @ [newline]) = Some (entry_json e)"
    unfolding entry_line_def by (rule json_parse_print_ws [OF entry_json_ok ns])
  then show ?thesis
    by (simp add: unmarshal_entry_def entry_json_def dec_struct_def dec_members_key plain_keys dec_entry_def zero_entry_def
        dec_event_members [OF assms(1)] dec_job_read_back [OF assms(2)])
qed

lemma key_hash_differs:
  assumes "entry_times_ok e" "\<not> valid_utf8 (j_idempotency_key (en_job e))"
  shows "hash_text e \<noteq> hash_text (e\<lparr>en_job := read_back (en_job e)\<rparr>)"
proof
  let ?f = "e\<lparr>en_job := read_back (en_job e)\<rparr>" and ?b = "\<lambda>e. e\<lparr>en_event := (en_event e)\<lparr>ev_hash := []\<rparr>\<rparr>"
  have t: "entry_times_ok (?b e)" "entry_times_ok (?b ?f)" using assms(1) by (simp_all add: entry_times_ok_def read_back_def)
  assume "hash_text e = hash_text ?f"
  then have "jprint (entry_json (?b e)) = jprint (entry_json (?b ?f))"
    using t by (simp add: hash_text_def marshal_entry_def)
  then have "entry_json (?b e) = entry_json (?b ?f)" by (metis json_parse_print entry_json_ok option.inject)
  then have m: "job_members (en_job e) = job_members (read_back (en_job e))" by (simp add: entry_json_def)
  obtain ms where ms: "\<And>s. job_members ((en_job e)\<lparr>j_idempotency_key := s\<rparr>) = ms @ omit (s = []) ''idempotency_key'' (jstr s)"
    using job_members_split [of "en_job e"] by blast
  let ?k = "j_idempotency_key (en_job e)"
  have "omit (?k = []) ''idempotency_key'' (jstr ?k) = omit (to_valid ?k = []) ''idempotency_key'' (jstr (to_valid ?k))"
    using m ms [of ?k] ms [of "to_valid ?k"] by (simp add: read_back_def)
  moreover have "?k \<noteq> []" using assms(2) by auto
  ultimately have "json_escape ?k = json_escape (to_valid ?k)" by (simp add: omit_def jstr_def)
  then show False using escape_fixed assms(2) by blast
qed

text \<open>So the line that was just written is refused by the next replay.\<close>

lemma damaged_line:
  assumes "event_ok (en_event e)" "job_ok (read_back (en_job e))" "\<not> valid_utf8 (j_idempotency_key (en_job e))"
    and "inj sha" "ev_hash (en_event e) = entry_hash sha e"
  shows "replay_step sha s (entry_line e @ [newline]) = None"
proof -
  let ?f = "e\<lparr>en_job := read_back (en_job e)\<rparr>"
  have "entry_times_ok e" using assms(1,2) by (simp add: entry_times_ok_def event_ok_def job_ok_def read_back_def)
  then have "entry_hash sha e \<noteq> entry_hash sha ?f"
    using key_hash_differs [OF _ assms(3)] assms(4) by (auto simp: entry_hash_def dest!: hex_encode_inject injD)
  then have "\<not> chained sha s ?f" using assms(5) by (simp add: chained_def)
  then show ?thesis by (simp add: replay_step_def unmarshal_read_back [OF assms(1,2)])
qed


subsection \<open>The store does not open again\<close>

lemma created_append:
  assumes "create sha io ks rnd created spec sf kf res key actor owners st = (Inr (j, True), st')"
  obtains n where "store_append sha io n ''submitted'' actor ''Job submitted'' [] st = (Inr (), st')"
    "j = n\<lparr>j_updated_at := io_now io\<rparr>" "j_idempotency_key n = key"
proof -
  let ?found = "if key \<noteq> [] then find (create_matches key (first_owner owners)) (range_vals ks (s_jobs st)) else None"
  from assms have p: "s_poison st = None" by (auto simp: create_def split: option.splits)
  have f: "?found = None" using assms p by (auto simp: create_def Let_def split: option.splits if_splits)
  obtain bytes where b: "rnd = Inr bytes" using assms p f by (auto simp: create_def Let_def split: sum.splits)
  define n where "n = zero_job\<lparr>j_owner := first_owner owners, j_id := hex_encode bytes, j_spec := spec,
          j_state := ''queued'', j_created_at := created, j_created_by := actor, j_source_fp := sf,
          j_sink_fp := kf, j_sink_resource := res, j_idempotency_key := key\<rparr>"
  obtain q st2 where a: "store_append sha io n ''submitted'' actor ''Job submitted'' [] st = (q, st2)" by fastforce
  have "create sha io ks rnd created spec sf kf res key actor owners st =
      (case (q, st2) of (Inl err, st') \<Rightarrow> (Inl err, st') | (Inr _, st') \<Rightarrow> (Inr (the (s_jobs st' (j_id n)), True), st'))"
    unfolding create_def p b Let_def f option.case sum.case a [symmetric] unfolding n_def ..
  with assms a have "q = Inr ()" "st2 = st'" "j = the (s_jobs st' (j_id n))" by (auto split: sum.splits)
  with store_append_Inr(3) [of sha io n _ _ _ _ st] a that [of n] show thesis by (simp add: n_def)
qed

lemma appended_file:
  assumes "store_append sha io n kind actor message digest st = (Inr (), st')"
  shows "s_poison st = None"
    "s_file st' = s_file st @ entry_line (journal_entry sha (io_now io) n kind actor message digest (view st)) @ [newline]"
    "entry_times_ok (journal_entry sha (io_now io) n kind actor message digest (view st))"
  by (cases rule: store_append_cases [where sha = sha and io = io and j = n and kind = kind
      and actor = actor and message = message and digest = digest and st = st]; use assms in auto)+

lemma submitted_event_ok:
  assumes "job_ok (read_back (n\<lparr>j_updated_at := now\<rparr>))" "string_args_ok [actor, s_hash s]" "int64 (s_sequence s + 1)"
  shows "event_ok (en_event (journal_entry sha now n ''submitted'' actor ''Job submitted'' [] s))"
proof -
  have "valid_utf8 ''submitted''" "valid_utf8 ''Job submitted''" by code_simp+
  then show ?thesis using assms valid_canceled
    by (simp add: event_ok_def journal_entry_def Let_def string_args_ok_def entry_hash_def valid_utf8_hex
        read_back_def job_ok_def valid_utf8.simps(1) del: valid_utf8.simps(2))
qed

text \<open>C27: A submission whose idempotency key is not valid UTF-8 is acknowledged, and from then on the
  journal is refused: no start of the control plane opens the store again, whatever else it holds.\<close>

theorem invalid_key_blocks_restart:
  assumes "durable sha st" "inj sha"
    and "create sha io ks rnd created spec sf kf res key actor owners st = (Inr (j, True), st')"
    and "\<not> valid_utf8 key" "job_ok (read_back j)" "string_args_ok [actor, s_hash st]" "int64 (s_sequence st + 1)"
    and "of_mkdir fs = None" "of_open fs = None" "\<not> of_locked fs"
  shows "\<exists>off. open_store sha fs (s_file st') = Inl (integrity_error off)"
proof -
  obtain n where n: "store_append sha io n ''submitted'' actor ''Job submitted'' [] st = (Inr (), st')"
    "j = n\<lparr>j_updated_at := io_now io\<rparr>" "j_idempotency_key n = key"
    by (rule created_append [OF assms(3)])
  let ?e = "journal_entry sha (io_now io) n ''submitted'' actor ''Job submitted'' [] (view st)"
  note f = appended_file [OF n(1)]
  have ev: "event_ok (en_event ?e)"
    by (rule submitted_event_ok) (use assms(5-7) n(2) in \<open>simp_all add: view_def\<close>)
  have step: "replay_step sha (view st) (entry_line ?e @ [newline]) = None"
    by (rule damaged_line [OF ev]) (use assms n journal_entry_chained [of sha "view st"]
        in \<open>simp_all add: journal_entry_job chained_def\<close>)
  have "newline \<notin> set (entry_line ?e)"
    using f(3) marshal_no_newline [of ?e "entry_line ?e"] by (simp add: marshal_entry_def entry_line_def newline_def)
  moreover obtain off where "read_lines (replay_step sha) empty_jstate 0 (s_file st) = Inr (view st, off, [])"
    using assms(1) f(1) by (rule durable_healthy)
  ultimately have "read_lines (replay_step sha) empty_jstate 0 (s_file st') = Inl (integrity_error off)"
    using step by (simp add: f(2) read_lines_append read_lines_line)
  then show ?thesis using assms(8-10) by (auto simp: open_store_def replay_def guard_def)
qed

definition bad_key :: string where
  "bad_key = [CHR 0xFF]"

theorem invalid_key_blocks_restart_witness:
  "\<exists>off. open_store demo_sha \<lparr>of_mkdir = None, of_open = None, of_locked = False, of_truncate = None, of_sync = None,
      of_seek = None, of_dir = None, of_dirsync = None\<rparr>
    (s_file (snd (create demo_sha demo_io [] (Inr ''i'') 0 demo_spec ''f'' ''g'' ''r'' bad_key ''x'' [] empty_store))) = Inl (integrity_error off)"
proof -
  obtain n st' where c: "create demo_sha demo_io [] (Inr ''i'') 0 demo_spec ''f'' ''g'' ''r'' bad_key ''x'' [] empty_store
      = (Inr (n, True), st')" "job_ok (read_back n)"
  proof -
    let ?n = "zero_job\<lparr>j_owner := first_owner [], j_id := hex_encode ''i'', j_spec := demo_spec,
          j_state := ''queued'', j_created_at := 0, j_created_by := ''x'', j_source_fp := ''f'', j_sink_fp := ''g'',
          j_sink_resource := ''r'', j_idempotency_key := bad_key\<rparr>"
    have "entry_times_ok (journal_entry demo_sha (io_now demo_io) ?n ''submitted'' ''x'' ''Job submitted'' [] (view empty_store))"
      by (simp add: entry_times_ok_def journal_entry_def Let_def demo_io_def zero_job_def opt_time_ok_def time_ok_0)
    then obtain st' where a: "store_append demo_sha demo_io ?n ''submitted'' ''x'' ''Job submitted'' [] empty_store = (Inr (), st')"
      by (cases rule: store_append_cases [where sha = demo_sha and io = demo_io and j = ?n and kind = "''submitted''"
          and actor = "''x''" and message = "''Job submitted''" and digest = "[]" and st = empty_store])
        (use empty_store_healthy in \<open>auto simp: demo_io_def\<close>)
    then have "create demo_sha demo_io [] (Inr ''i'') 0 demo_spec ''f'' ''g'' ''r'' bad_key ''x'' [] empty_store
      = (Inr (?n\<lparr>j_updated_at := 0\<rparr>, True), st')"
      unfolding create_def using a store_append_Inr(3) [OF a]
      by (simp add: empty_store_healthy Let_def split: if_split del: hex_encode.simps) (simp add: demo_io_def bad_key_def)
    moreover have "job_ok (read_back (?n\<lparr>j_updated_at := 0\<rparr>))" by code_simp
    ultimately show thesis by (rule that)
  qed
  have "\<not> valid_utf8 bad_key" "string_args_ok [''x'', s_hash empty_store]" "int64 (s_sequence empty_store + 1)" by code_simp+
  from invalid_key_blocks_restart [OF empty_store_durable inj_demo_sha c(1) this(1) c(2) this(2,3)] show ?thesis
    unfolding c(1) snd_conv by simp
qed

end
