(* ===== verification/Accounts_Properties.thy ===== *)
theory Accounts_Properties
  imports Accounts
begin

declare dec_members.simps(2) [simp del]

section \<open>Properties of account sessions\<close>

text \<open>
  The steps of the account service, each under the lock the code holds for it, in any interleaving and
  with any answers of the provider; what a step may change of a session; the properties.
\<close>

subsection \<open>The service as a state machine\<close>

inductive account_step :: "(string \<Rightarrow> string) \<Rightarrow> (string \<Rightarrow> url option) \<Rightarrow> accounts \<Rightarrow> accounts \<Rightarrow> bool"
  for sha parse where
  Login: "range_order kt (av_transactions (prune now sv)) \<Longrightarrow> range_order ks (av_sessions (prune now sv)) \<Longrightarrow>
     account_step sha parse sv (snd (login sha parse kt ks now begun rnd r sv))"
| Take: "account_step sha parse sv (snd (callback_take sha now bound r sv))"
| Open: "range_order ks (av_sessions (prune now sv)) \<Longrightarrow>
     account_step sha parse sv (snd (callback_open sha ks now sid csrf r t subject sv))"
| Lookup: "account_step sha parse sv (snd (lookup_session sha now r sv))"
| Auth: "p < length (av_heap sv) \<Longrightarrow> account_step sha parse sv (snd (auth_session sha pv now renewed r p sv))"
| Close: "p < length (av_heap sv) \<Longrightarrow> account_step sha parse sv (snd (close_session r p sv))"
| Drop: "account_step sha parse sv (drop_session sha r sv)"

abbreviation account_run :: "(string \<Rightarrow> string) \<Rightarrow> (string \<Rightarrow> url option) \<Rightarrow> accounts \<Rightarrow> accounts \<Rightarrow> bool" where
  "account_run sha parse \<equiv> (account_step sha parse)\<^sup>*\<^sup>*"

definition session_at :: "accounts \<Rightarrow> nat \<Rightarrow> asession option" where
  "session_at sv p = (if p < length (av_heap sv) then Some (av_heap sv ! p) else None)"

text \<open>A session keeps who it belongs to, its token against forged requests and its deadline. A closed one stays closed and
  gets no token.\<close>

definition session_kept :: "asession \<Rightarrow> asession \<Rightarrow> bool" where
  "session_kept s s' \<longleftrightarrow> as_subject s' = as_subject s \<and> as_csrf s' = as_csrf s \<and> as_deadline s' = as_deadline s
     \<and> (as_closed s \<longrightarrow> as_closed s' \<and> as_access s' \<in> {as_access s, []} \<and> as_refresh s' \<in> {as_refresh s, []})"

lemma session_kept_refl [simp]: "session_kept s s"
  by (simp add: session_kept_def)

lemma refresh_session_kept: "refresh_session pv c now renewed s = Inr s' \<Longrightarrow> \<not> as_closed s \<Longrightarrow> session_kept s s' \<and> \<not> as_closed s'"
  by (auto simp: refresh_session_def session_kept_def split: if_splits sum.splits)

text \<open>The heap after a step: one more session, or one session changed, or the same.\<close>

lemma prune_heap [simp]: "av_heap (prune now sv) = av_heap sv" "av_config (prune now sv) = av_config sv"
  by (simp_all add: prune_def)

lemma login_heap: "av_heap (snd (login sha parse kt ks now begun rnd r sv)) = av_heap sv"
  by (simp add: login_def Let_def)

lemma take_heap: "av_heap (snd (callback_take sha now bound r sv)) = av_heap sv"
  by (simp add: callback_take_def Let_def split: option.split)

lemma open_heap: "\<exists>new. av_heap (snd (callback_open sha ks now sid csrf r t subject sv)) = av_heap sv @ new"
  by (simp add: callback_open_def Let_def)

lemma lookup_heap: "av_heap (snd (lookup_session sha now r sv)) = av_heap sv"
  by (simp add: lookup_session_def Let_def split: option.split)

lemma auth_heap:
  assumes "auth_session sha pv now renewed r p sv = (q, sv')"
  shows "av_heap sv' = av_heap sv \<or> (\<exists>s'. av_heap sv' = (av_heap sv)[p := s'] \<and> session_kept (av_heap sv ! p) s')"
proof (cases "as_closed (av_heap sv ! p)")
  case False
  then have "session_kept (av_heap sv ! p) (s1\<lparr>as_closed := True\<rparr>)" if "session_kept (av_heap sv ! p) s1" for s1
    using that by (simp add: session_kept_def)
  with False show ?thesis using assms refresh_session_kept [of pv _ now renewed "av_heap sv ! p"]
    by (auto simp: auth_session_def Let_def split: if_splits sum.splits)
qed (use assms in \<open>simp add: auth_session_def\<close>)

lemma close_heap:
  assumes "close_session r p sv = (q, sv')"
  shows "av_heap sv' = av_heap sv \<or>
    av_heap sv' = (av_heap sv)[p := (av_heap sv ! p)\<lparr>as_closed := True, as_access := [], as_refresh := []\<rparr>]"
  using assms by (auto simp: close_session_def Let_def split: if_splits)

lemma drop_heap [simp]: "av_heap (drop_session sha r sv) = av_heap sv"
  by (simp add: drop_session_def split: option.split)

lemma session_at_grow: "session_at sv p = Some s \<Longrightarrow> av_heap sv' = av_heap sv @ new \<Longrightarrow> session_at sv' p = Some s"
  by (auto simp: session_at_def nth_append split: if_splits)

lemma session_at_put:
  "session_at sv p = Some s \<Longrightarrow> av_heap sv' = (av_heap sv)[q := s'] \<Longrightarrow> session_kept (av_heap sv ! q) s' \<Longrightarrow>
   \<exists>t. session_at sv' p = Some t \<and> session_kept s t"
  by (cases "p = q") (auto simp: session_at_def split: if_splits)

interpretation session_history: keyed_history "account_step sha parse" session_at session_kept for sha parse
proof
  fix u v w :: asession assume "session_kept u v" "session_kept v w"
  then show "session_kept u w" by (auto simp: session_kept_def)
next
  fix sv sv' p s assume step: "account_step sha parse sv sv'" and s: "session_at sv p = Some s"
  let ?R = "\<exists>s'. session_at sv' p = Some s' \<and> session_kept s s'"
  have same: ?R if "av_heap sv' = av_heap sv" using s that by (auto simp: session_at_def split: if_splits)
  have put: ?R if "av_heap sv' = (av_heap sv)[q := s']" "session_kept (av_heap sv ! q) s'" for q s'
    using session_at_put [OF s that] .
  from step show "\<exists>s'. session_at sv' p = Some s' \<and> session_kept s s'"
  proof cases
    case (Open ks now sid csrf r t subject)
    with s session_at_grow open_heap show ?thesis by (metis session_kept_refl)
  next
    case (Auth q pv now renewed r)
    obtain x where "auth_session sha pv now renewed r q sv = (x, sv')" using Auth(1) by (metis prod.collapse)
    from auth_heap [OF this] same put show ?thesis by blast
  next
    case (Close q r)
    obtain x where "close_session r q sv = (x, sv')" using Close(1) by (metis prod.collapse)
    from close_heap [OF this] same put show ?thesis by (fastforce simp: session_kept_def)
  qed (use same in \<open>simp_all add: login_heap take_heap lookup_heap\<close>)
qed simp

subsection \<open>The limits\<close>

definition within_account_limits :: "accounts \<Rightarrow> bool" where
  "within_account_limits sv \<longleftrightarrow> finite (dom (av_transactions sv)) \<and> card (dom (av_transactions sv)) \<le> 10000
     \<and> finite (dom (av_sessions sv)) \<and> card (dom (av_sessions sv)) \<le> 10000 \<and> ran (av_sessions sv) \<subseteq> {..<length (av_heap sv)}"

lemma smaller_map:
  assumes "finite (dom m)" "card (dom m) \<le> n" "dom m' \<subseteq> dom m"
  shows "finite (dom m') \<and> card (dom m') \<le> n"
  using assms by (meson card_mono finite_subset le_trans)

lemma put_map:
  assumes "finite (dom m)" "card (dom m) < n" "dom m' \<subseteq> insert k (dom m)"
  shows "finite (dom m') \<and> card (dom m') \<le> n"
proof -
  have "card (dom m') \<le> card (insert k (dom m))" using assms by (simp add: card_mono)
  also have "\<dots> \<le> n" using assms(1,2) by (simp add: card_insert_if)
  finally show ?thesis using assms by (meson finite_insert finite_subset)
qed

text \<open>A step that adds nothing to a map and keeps the pointers it holds.\<close>

lemma limits_shrink:
  assumes "within_account_limits sv" "dom (av_transactions sv') \<subseteq> dom (av_transactions sv)"
    and "av_sessions sv' \<subseteq>\<^sub>m av_sessions sv" "length (av_heap sv') = length (av_heap sv)"
  shows "within_account_limits sv'"
proof -
  have "dom (av_sessions sv') \<subseteq> dom (av_sessions sv)" using assms(3) by (rule map_le_implies_dom_le)
  moreover have "ran (av_sessions sv') \<subseteq> ran (av_sessions sv)" using assms(3) by (auto simp: map_le_def ran_def dom_def) metis
  ultimately show ?thesis using assms smaller_map [of "av_transactions sv" 10000 "av_transactions sv'"]
      smaller_map [of "av_sessions sv" 10000 "av_sessions sv'"] by (auto simp: within_account_limits_def)
qed

lemma prune_shrinks:
  "dom (av_transactions (prune now sv)) \<subseteq> dom (av_transactions sv)" "av_sessions (prune now sv) \<subseteq>\<^sub>m av_sessions sv"
  by (auto simp: prune_def map_le_def split: option.splits if_splits)

lemma limits_prune: "within_account_limits sv \<Longrightarrow> within_account_limits (prune now sv)"
  by (rule limits_shrink [OF _ prune_shrinks]) simp_all

lemma limits_login:
  assumes "within_account_limits sv" "range_order kt (av_transactions (prune now sv))"
  shows "within_account_limits (snd (login sha parse kt ks now begun rnd r sv))"
proof (cases "same_origin parse (av_config sv) r \<and> length (range_vals kt (av_transactions (prune now sv))) < 10000
    \<and> length (range_vals ks (av_sessions (prune now sv))) < 10000")
  case True
  obtain k t where sv': "snd (login sha parse kt ks now begun rnd r sv) =
      (prune now sv)\<lparr>av_transactions := (av_transactions (prune now sv))(k \<mapsto> t)\<rparr>"
    using True by (simp add: login_def Let_def not_le)
  have "card (dom (av_transactions (prune now sv))) < 10000"
    using True length_range_order [OF assms(2)] by simp
  with limits_prune [OF assms(1), of now] put_map [of "av_transactions (prune now sv)" 10000 "(av_transactions (prune now sv))(k \<mapsto> t)" k]
  show ?thesis unfolding sv' within_account_limits_def by simp
next
  case False
  with assms(1) limits_prune [OF assms(1), of now] show ?thesis by (auto simp: login_def Let_def not_less)
qed

lemma limits_open:
  assumes "within_account_limits sv" "range_order ks (av_sessions (prune now sv))"
  shows "within_account_limits (snd (callback_open sha ks now sid csrf r t subject sv))"
proof (cases "length (range_vals ks (av_sessions (prune now sv))) < 10000")
  case True
  define m where "m = (case cookie_of session_cookie r of None \<Rightarrow> av_sessions (prune now sv)
      | Some old \<Rightarrow> (av_sessions (prune now sv))(account_digest sha old := None))"
  then have m: "m = av_sessions (prune now sv) \<or> (\<exists>k. m = (av_sessions (prune now sv))(k := None))"
    by (auto split: option.split)
  obtain k s where sv': "snd (callback_open sha ks now sid csrf r t subject sv) =
      (prune now sv)\<lparr>av_sessions := m(k \<mapsto> length (av_heap sv)), av_heap := av_heap sv @ [s]\<rparr>"
    using True by (auto simp: callback_open_def Let_def not_le simp flip: m_def)
  note l = limits_prune [OF assms(1), of now]
  have "card (dom (av_sessions (prune now sv))) < 10000" using True length_range_order [OF assms(2)] by simp
  moreover have "ran (m(k \<mapsto> length (av_heap sv))) \<subseteq> {..<length (av_heap sv @ [s])}"
  proof -
    have "ran m \<subseteq> ran (av_sessions (prune now sv))" using m by (auto simp: ran_def split: if_splits)
    with l have "ran m \<subseteq> {..<length (av_heap sv)}" by (auto simp: within_account_limits_def)
    then show ?thesis by (auto simp: ran_def less_Suc_eq split: if_splits)
  qed
  moreover have "dom (m(k \<mapsto> length (av_heap sv))) \<subseteq> insert k (dom (av_sessions (prune now sv)))" using m by (auto split: if_splits)
  ultimately show ?thesis
    using l put_map [of "av_sessions (prune now sv)" 10000 "m(k \<mapsto> length (av_heap sv))" k]
    unfolding sv' within_account_limits_def by simp
next
  case False
  with limits_prune [OF assms(1), of now] show ?thesis by (simp add: callback_open_def Let_def not_less)
qed

lemma auth_maps:
  "av_transactions (snd (auth_session sha pv now renewed r p sv)) = av_transactions sv"
  "av_sessions (snd (auth_session sha pv now renewed r p sv)) = av_sessions sv"
  "length (av_heap (snd (auth_session sha pv now renewed r p sv))) = length (av_heap sv)"
  by (simp_all add: auth_session_def Let_def split: sum.split)

lemma close_maps:
  "av_transactions (snd (close_session r p sv)) = av_transactions sv"
  "av_sessions (snd (close_session r p sv)) = av_sessions sv"
  "length (av_heap (snd (close_session r p sv))) = length (av_heap sv)"
  by (simp_all add: close_session_def Let_def)

lemma limits_step: "account_step sha parse sv sv' \<Longrightarrow> within_account_limits sv \<Longrightarrow> within_account_limits sv'"
proof (induction rule: account_step.induct)
  case (Take now bound r sv)
  then show ?case
    by (rule limits_shrink) (auto simp: callback_take_def Let_def split: option.split)
next
  case (Lookup now r sv)
  then show ?case
    by (rule limits_shrink) (auto simp: lookup_session_def Let_def map_le_def split: option.split)
next
  case (Auth p sv pv now renewed r)
  from Auth(2) show ?case by (rule limits_shrink) (simp_all add: auth_maps)
next
  case (Close p sv r)
  from Close(2) show ?case by (rule limits_shrink) (simp_all add: close_maps)
next
  case (Drop r sv)
  then show ?case
    by (rule limits_shrink) (auto simp: drop_session_def map_le_def split: option.split)
qed (simp_all add: limits_login limits_open)

lemma limits_run: "account_run sha parse sv sv' \<Longrightarrow> within_account_limits sv \<Longrightarrow> within_account_limits sv'"
  by (induction rule: rtranclp_induct) (auto intro: limits_step)

subsection \<open>Properties\<close>

text \<open>What a successful authentication without a bearer token has checked.\<close>

lemma refresh_session_same: "refresh_session pv c now renewed s = Inr s' \<Longrightarrow> as_subject s' = as_subject s"
  by (auto simp: refresh_session_def split: if_splits sum.splits)

lemma profile_owner: "profile sha pv c access = Inr q \<Longrightarrow> pr_owner q = account_owner sha c (pr_subject q)"
  by (auto simp: profile_def split: reply.splits if_splits option.splits)

lemma auth_session_Inr:
  assumes "auth_session sha pv now renewed r p sv = (Inr q, sv')"
  shows "\<not> as_closed (av_heap sv ! p)"
    and "\<not> safe_method r \<Longrightarrow> header ''Origin'' r = ac_public (av_config sv) \<and> header ''X-Csrf-Token'' r = as_csrf (av_heap sv ! p)"
    and "pr_subject q = as_subject (av_heap sv ! p)" "pr_owner q = account_owner sha (av_config sv) (pr_subject q)"
  using assms by (auto simp: auth_session_def Let_def refresh_session_same profile_owner split: if_splits sum.splits)

text \<open>C28: A request authenticated by a session cookie is the session owner's own: the cookie names a
  session of the map that has not passed its deadline, nobody signed out of it, a request that changes
  something comes from the public origin with the session's own CSRF token, and the principal is the
  subject that signed in, whatever other requests did to the service in between.\<close>

theorem session_request_genuine:
  assumes "authenticate sha parse pv clk others r sv = (Inr q, sv')" "header ''Authorization'' r = []"
    and "\<And>v. account_run sha parse v (others v)" "ran (av_sessions sv) \<subseteq> {..<length (av_heap sv)}"
    and "av_config (others sv) = av_config sv"
  shows "\<exists>v p s. cookie_of session_cookie r = Some v \<and> av_sessions sv (account_digest sha v) = Some p \<and> session_at sv p = Some s
     \<and> fst clk < as_deadline s \<and> \<not> as_closed s \<and> pr_subject q = as_subject s
     \<and> pr_owner q = account_owner sha (av_config sv) (as_subject s)
     \<and> (\<not> safe_method r \<longrightarrow> header ''Origin'' r = ac_public (av_config sv) \<and> header ''X-Csrf-Token'' r = as_csrf s)"
proof -
  from assms(1,2) obtain p where p: "lookup_session sha (fst clk) r sv = (Some p, sv)"
    and a: "auth_session sha pv (fst (snd clk)) (snd (snd clk)) r p (others sv) = (Inr q, sv')"
    by (auto simp: authenticate_def lookup_session_def Let_def split: if_splits option.splits)
  from p obtain v where v: "cookie_of session_cookie r = Some v" "av_sessions sv (account_digest sha v) = Some p"
    "fst clk < as_deadline (av_heap sv ! p)"
    by (auto simp: lookup_session_def Let_def split: option.splits if_splits)
  then have "p < length (av_heap sv)" using assms(4) by (auto simp: ran_def)
  then have s: "session_at sv p = Some (av_heap sv ! p)" by (simp add: session_at_def)
  from session_history.run_ev [OF assms(3) this] have "session_kept (av_heap sv ! p) (av_heap (others sv) ! p)"
    by (auto simp: session_at_def split: if_splits)
  with auth_session_Inr [OF a] v s assms(5) show ?thesis by (auto simp: session_kept_def)
qed

text \<open>C29: Signing out is final. Once a session has been closed, no run of the service gives it a token
  again, and no request that still holds it, or presents its cookie, is authenticated by it.\<close>

theorem signed_out_forever:
  assumes "close_session r p sv = (Some token, sv1)" "p < length (av_heap sv)" "account_run sha parse sv1 sv2"
  shows "as_access (av_heap sv2 ! p) = [] \<and> as_refresh (av_heap sv2 ! p) = []
     \<and> fst (auth_session sha pv now renewed r' p sv2) = Inl ErrUnauthorized"
proof -
  from assms(1,2) have "session_at sv1 p = Some ((av_heap sv ! p)\<lparr>as_closed := True, as_access := [], as_refresh := []\<rparr>)"
    by (auto simp: close_session_def Let_def session_at_def split: if_splits)
  from session_history.run_ev [OF assms(3) this] show ?thesis
    by (auto simp: session_kept_def session_at_def auth_session_def split: if_splits)
qed

text \<open>The service never holds more than 10000 pending sign-ins or sessions, and its map of sessions
  only points to sessions it opened, in every state it can reach from its configuration.\<close>

theorem account_limits:
  assumes "new_accounts parse c = Inr sv0" "account_run sha parse sv0 sv"
  shows "card (dom (av_transactions sv)) \<le> 10000 \<and> card (dom (av_sessions sv)) \<le> 10000
     \<and> ran (av_sessions sv) \<subseteq> {..<length (av_heap sv)}"
proof -
  have "within_account_limits sv0"
    using assms(1) by (auto simp: new_accounts_def within_account_limits_def split: if_splits)
  with limits_run [OF assms(2)] show ?thesis by (simp add: within_account_limits_def)
qed

lemma callback_open_True:
  assumes "callback_open sha ks now sid csrf r t subject sv = (True, sv')"
  shows "av_sessions sv' (account_digest sha (b64_encode sid)) = Some (length (av_heap sv))"
    and "av_heap sv' = av_heap sv @ [\<lparr>as_access = tk_access t, as_refresh = tk_refresh t, as_csrf = b64_encode csrf,
                 as_expires = now + tk_expires t * second, as_deadline = now + 8 * 3600 * second,
                 as_subject = subject, as_closed = False\<rparr>]"
  using assms unfolding callback_open_def Let_def by (auto split: if_splits)

lemma callback_opened:
  assumes "same_origin parse (av_config sv) r" "cookie_of login_cookie r = Some bound"
    and "callback_take sha now bound r sv = (Some t, sv1)" "\<And>form. exchange pv (av_config sv) form = Inr tok"
    and "profile sha pv (av_config sv) (tk_access tok) = Inr q"
    and "callback_open sha ks begun (fst rnd) (snd rnd) r tok (pr_subject q) (others sv1) = (True, sv2)"
  shows "\<exists>rs. callback sha parse pv ks now begun rnd others r sv = (rs, sv2) \<and> rs_status rs = 303"
  using assms by (simp add: callback_def auth_headers_def set_cookie_def redirect_def)

text \<open>C30: A sign-in belongs to the browser that began it. A callback opens a session only for a browser
  whose login cookie names a pending sign-in that has not expired and whose state it repeats; the tokens
  come from the code exchanged with that sign-in's verifier, the session is the subject's the provider
  names for them, and no later callback finds the sign-in again.\<close>

theorem callback_binds_browser:
  assumes "callback sha parse pv ks now begun rnd others r sv = (rs, sv')" "rs_status rs = 303"
  shows "\<exists>bound t tok q. cookie_of login_cookie r = Some bound \<and> av_transactions sv (account_digest sha bound) = Some t
     \<and> now \<le> tr_expires t \<and> query ''state'' r = tr_state t
     \<and> exchange pv (av_config sv) [(''grant_type'', [''authorization_code'']), (''code'', [query ''code'' r]),
          (''code_verifier'', [tr_verifier t]), (''redirect_uri'', [ac_public (av_config sv) @ ''/auth/callback''])] = Inr tok
     \<and> profile sha pv (av_config sv) (tk_access tok) = Inr q
     \<and> (\<exists>p s. av_sessions sv' (account_digest sha (b64_encode (fst rnd))) = Some p \<and> session_at sv' p = Some s
          \<and> as_subject s = pr_subject q \<and> as_access s = tk_access tok \<and> \<not> as_closed s)
     \<and> (\<forall>now' r'. fst (callback_take sha now' bound r' (snd (callback_take sha now bound r sv))) = None)"
proof -
  have err: "rs_status (auth_headers (auth_error e)) \<noteq> 303" "rs_status (auth_headers (set_cookie n v a (auth_error e))) \<noteq> 303" for e n v a
    by (simp_all add: auth_headers_def auth_error_def auth_write_def set_cookie_def)
  from assms err obtain bound t sv1 tok q where b: "cookie_of login_cookie r = Some bound"
    "callback_take sha now bound r sv = (Some t, sv1)"
    "exchange pv (av_config sv) [(''grant_type'', [''authorization_code'']), (''code'', [query ''code'' r]),
        (''code_verifier'', [tr_verifier t]), (''redirect_uri'', [ac_public (av_config sv) @ ''/auth/callback''])] = Inr tok"
    "profile sha pv (av_config sv) (tk_access tok) = Inr q"
    and o: "callback_open sha ks begun (fst rnd) (snd rnd) r tok (pr_subject q) (others sv1) = (True, sv')"
    by (auto simp: callback_def Let_def split: if_splits option.splits sum.splits prod.splits bool.splits)
  have t: "av_transactions sv (account_digest sha bound) = Some t \<and> now \<le> tr_expires t \<and> query ''state'' r = tr_state t"
    using b(2) by (auto simp: callback_take_def Let_def split: option.splits if_splits)
  have s: "\<exists>p s. av_sessions sv' (account_digest sha (b64_encode (fst rnd))) = Some p \<and> session_at sv' p = Some s
      \<and> as_subject s = pr_subject q \<and> as_access s = tk_access tok \<and> \<not> as_closed s"
    using callback_open_True [OF o] by (simp add: session_at_def)
  have "fst (callback_take sha now' bound r' (snd (callback_take sha now bound r sv))) = None" for now' r'
    by (simp add: callback_take_def Let_def split: option.split)
  with b t s show ?thesis by blast
qed

subsection \<open>Witnesses\<close>

definition demo_account_config :: account_config where
  "demo_account_config = \<lparr>ac_public = ''https://t.example'', ac_account = ''https://a.example'', ac_api = ''https://api.example'',
     ac_cognito = ''https://c.example'', ac_client = ''c''\<rparr>"

definition demo_account_url :: "string \<Rightarrow> url option" where
  "demo_account_url s = (if has_prefix s ''https://'' then Some \<lparr>u_scheme = ''https'', u_host = drop 8 s, u_user = False,
     u_raw_query = [], u_fragment = [], u_path = [], u_hostname = drop 8 s\<rparr> else None)"

definition demo_tokens :: json where
  "demo_tokens = JObj [(''access_token'', jstr ''a''), (''expires_in'', jint 60), (''token_type'', jstr ''Bearer'')]"

definition demo_person :: json where
  "demo_person = JObj [(''subject'', JStr ''u'')]"

definition demo_provider :: provider where
  "demo_provider = \<lparr>pv_post = \<lambda>_ _. Reply 200 (jprint demo_tokens), pv_get = \<lambda>_ _. Reply 200 (jprint demo_person)\<rparr>"

definition demo_asession :: asession where
  "demo_asession = \<lparr>as_access = ''a'', as_refresh = ''r'', as_csrf = ''f'', as_expires = 3600 * second, as_deadline = 3600 * second,
     as_subject = ''u'', as_closed = False\<rparr>"

definition demo_accounts :: accounts where
  "demo_accounts = \<lparr>av_config = demo_account_config,
     av_transactions = [account_digest id ''b'' \<mapsto> \<lparr>tr_verifier = ''v'', tr_state = ''s'', tr_expires = 100\<rparr>],
     av_sessions = [account_digest id ''c'' \<mapsto> 0], av_heap = [demo_asession]\<rparr>"

definition demo_request :: request where
  "demo_request = \<lparr>rq_method = ''POST'', rq_path = [''v1'', ''jobs''], rq_uri = ''/v1/jobs'', rq_host = ''t.example'', rq_tls = True,
     rq_headers = [(''Origin'', ''https://t.example''), (''X-Csrf-Token'', ''f'')],
     rq_query = [(''state'', ''s''), (''code'', ''x'')], rq_cookies = [(session_cookie, ''c''), (login_cookie, ''b'')], rq_body = []\<rparr>"

lemma demo_same_origin: "same_origin demo_account_url demo_account_config demo_request"
  by code_simp

lemma demo_cookies: "cookie_of session_cookie demo_request = Some ''c''" "cookie_of login_cookie demo_request = Some ''b''"
  by code_simp+

lemma printed_answer:
  assumes "json_ok max_nesting v" "length (jprint v) \<le> 1000"
  shows "dec_answer f (jprint v) zero = dec_struct f v zero"
proof -
  have "first_value (jprint v) = Some (v, [])"
    using pval_print [of max_nesting v "[]" "2 * length (jprint v) + 2"] assms by (simp add: first_value_def num_stop_def)
  then show ?thesis using assms(2) by (simp add: dec_answer_def auth_limit_def)
qed

lemma demo_answers_ok: "json_ok max_nesting demo_tokens" "json_ok max_nesting demo_person"
proof -
  have "list_all (\<lambda>k. raw_ok k) [''access_token'', ''a'', ''expires_in'', ''token_type'', json_escape ''Bearer'', json_escape ''a'', ''subject'', ''u'']"
    by code_simp+
  then show "json_ok max_nesting demo_tokens" "json_ok max_nesting demo_person"
    by (simp_all add: demo_tokens_def demo_person_def max_nesting_def jint_def jstr_def del: json_escape.simps)
qed

lemma demo_profile: "profile id demo_provider demo_account_config access =
    Inr \<lparr>pr_subject = ''u'', pr_email = [], pr_verified = False, pr_owner = account_owner id demo_account_config ''u''\<rparr>"
proof -
  have "dec_struct dec_principal demo_person \<lparr>pr_subject = [], pr_email = [], pr_verified = False, pr_owner = []\<rparr> =
      Some \<lparr>pr_subject = ''u'', pr_email = [], pr_verified = False, pr_owner = []\<rparr>" by code_simp
  moreover have "length (jprint demo_person) \<le> 1000" by (simp add: demo_person_def quoted_def)
  ultimately show ?thesis by (simp add: profile_def demo_provider_def printed_answer demo_answers_ok)
qed

lemma demo_exchange: "exchange demo_provider demo_account_config form = Inr \<lparr>tk_access = ''a'', tk_refresh = [], tk_expires = 60, tk_type = ''Bearer''\<rparr>"
proof -
  have "plain_key ''access_token''" "plain_key ''expires_in''" "plain_key ''token_type''"
      "valid_utf8 ''a''" "valid_utf8 ''Bearer''" "int64 60" by code_simp+
  then have "dec_struct dec_tokens demo_tokens \<lparr>tk_access = [], tk_refresh = [], tk_expires = 0, tk_type = []\<rparr> =
      Some \<lparr>tk_access = ''a'', tk_refresh = [], tk_expires = 60, tk_type = ''Bearer''\<rparr>"
    by (simp add: demo_tokens_def dec_struct_def dec_members_key dec_tokens_def dec_str_jstr dec_int_jint del: valid_utf8.simps)
  moreover have "ascii_lower ''Bearer'' = ''bearer''" by code_simp
  moreover have "json_escape ''a'' = ''a''" "json_escape ''Bearer'' = ''Bearer''" "length (itoa 60) \<le> 20" by code_simp+
  then have "length (jprint demo_tokens) \<le> 1000"
    by (simp add: demo_tokens_def quoted_def jint_def jstr_def del: json_escape.simps)
  ultimately show ?thesis by (simp add: exchange_def demo_provider_def printed_answer demo_answers_ok)
qed

lemma demo_config: "av_config demo_accounts = demo_account_config" "av_heap demo_accounts = [demo_asession]"
  by (simp_all add: demo_accounts_def)

lemma demo_session: "av_sessions demo_accounts (account_digest id ''c'') = Some 0"
  by (simp add: demo_accounts_def)

theorem session_request_genuine_witness:
  "\<exists>v p s. cookie_of session_cookie demo_request = Some v \<and> av_sessions demo_accounts (account_digest id v) = Some p
     \<and> session_at demo_accounts p = Some s \<and> header ''X-Csrf-Token'' demo_request = as_csrf s"
proof -
  have l: "lookup_session id 0 demo_request demo_accounts = (Some 0, demo_accounts)"
    unfolding lookup_session_def demo_cookies demo_config Let_def option.case by (simp add: demo_session demo_asession_def second_def)
  have h: "header ''Origin'' demo_request = ''https://t.example''" "header ''X-Csrf-Token'' demo_request = ''f''"
      "header ''Authorization'' demo_request = []" "\<not> safe_method demo_request" by code_simp+
  have "auth_session id demo_provider 0 0 demo_request 0 demo_accounts =
      (Inr \<lparr>pr_subject = ''u'', pr_email = [], pr_verified = False, pr_owner = account_owner id demo_account_config ''u''\<rparr>, demo_accounts)"
    by (simp add: auth_session_def Let_def demo_config h refresh_session_def demo_profile)
      (simp add: demo_accounts_def demo_asession_def demo_account_config_def second_def)
  then have a: "authenticate id demo_account_url demo_provider (0, 0, 0) id demo_request demo_accounts =
      (Inr \<lparr>pr_subject = ''u'', pr_email = [], pr_verified = False, pr_owner = account_owner id demo_account_config ''u''\<rparr>, demo_accounts)"
    using demo_same_origin by (simp add: authenticate_def Let_def demo_config h l)
  have r: "ran (av_sessions demo_accounts) \<subseteq> {..<length (av_heap demo_accounts)}" by (simp add: demo_accounts_def)
  from session_request_genuine [OF a h(3) _ r] h(4) show ?thesis by auto
qed

theorem signed_out_forever_witness:
  "fst (auth_session id demo_provider 0 0 demo_request 0 (snd (close_session demo_request 0 demo_accounts))) = Inl ErrUnauthorized"
proof -
  have "header ''X-Csrf-Token'' demo_request = as_csrf (av_heap demo_accounts ! 0)" by code_simp
  then have c: "close_session demo_request 0 demo_accounts = (Some ''r'', snd (close_session demo_request 0 demo_accounts))"
    by (simp add: close_session_def demo_config demo_asession_def)
  have "0 < length (av_heap demo_accounts)" by (simp add: demo_config)
  from signed_out_forever [OF c this rtranclp.rtrancl_refl [of "account_step id demo_account_url"]] show ?thesis by blast
qed

theorem account_limits_witness:
  "card (dom (av_sessions \<lparr>av_config = demo_account_config, av_transactions = Map.empty, av_sessions = Map.empty, av_heap = []\<rparr>)) \<le> 10000"
proof -
  have "new_accounts demo_account_url demo_account_config =
      Inr \<lparr>av_config = demo_account_config, av_transactions = Map.empty, av_sessions = Map.empty, av_heap = []\<rparr>"
  proof -
    have "trim_space (ac_client demo_account_config) = ac_client demo_account_config"
      by (rule trim_space_visible) (simp_all add: demo_account_config_def visible_def byte_def)
    moreover have "list_ex (\<lambda>v. \<not> account_origin (demo_account_url v)) [ac_public demo_account_config, ac_account demo_account_config,
        ac_api demo_account_config, ac_cognito demo_account_config] = False" by code_simp
    moreover have "ac_client demo_account_config \<noteq> []" by (simp add: demo_account_config_def)
    moreover have "trim_right (CHR ''/'') (ac_public demo_account_config) = ac_public demo_account_config"
        "trim_right (CHR ''/'') (ac_account demo_account_config) = ac_account demo_account_config"
        "trim_right (CHR ''/'') (ac_api demo_account_config) = ac_api demo_account_config"
        "trim_right (CHR ''/'') (ac_cognito demo_account_config) = ac_cognito demo_account_config" by code_simp+
    ultimately show ?thesis by (simp add: new_accounts_def)
  qed
  from account_limits [OF this rtranclp.rtrancl_refl] show ?thesis by blast
qed

theorem callback_binds_browser_witness:
  "av_sessions (snd (callback id demo_account_url demo_provider [] 0 0 (''i'', ''j'') id demo_request demo_accounts))
     (account_digest id (b64_encode ''i'')) \<noteq> None"
proof -
  obtain t sv1 where t: "callback_take id 0 ''b'' demo_request demo_accounts = (Some t, sv1)"
  proof -
    have "query ''state'' demo_request = ''s''" "query ''code'' demo_request = ''x''" "query ''error'' demo_request = []" by code_simp+
    with that show thesis by (simp add: callback_take_def Let_def demo_accounts_def)
  qed
  obtain b sv2 where o: "callback_open id [] 0 ''i'' ''j'' demo_request \<lparr>tk_access = ''a'', tk_refresh = [], tk_expires = 60, tk_type = ''Bearer''\<rparr>
      ''u'' sv1 = (b, sv2)" by fastforce
  then have "b = True" by (simp add: callback_open_def Let_def split: if_splits)
  obtain rs where c: "callback id demo_account_url demo_provider [] 0 0 (''i'', ''j'') id demo_request demo_accounts = (rs, sv2)"
    "rs_status rs = 303"
  proof -
    let ?q = "\<lparr>pr_subject = ''u'', pr_email = [], pr_verified = False, pr_owner = account_owner id demo_account_config ''u''\<rparr>"
    have "\<exists>rs. callback id demo_account_url demo_provider [] 0 0 (''i'', ''j'') id demo_request demo_accounts = (rs, sv2) \<and> rs_status rs = 303"
      by (rule callback_opened [where q = ?q, OF _ demo_cookies(2) t])
        (use demo_same_origin o \<open>b = True\<close> in \<open>simp_all add: demo_config demo_exchange demo_profile\<close>)
    with that show thesis by blast
  qed
  from callback_binds_browser [OF c] c(1) show ?thesis by auto
qed

end
