(* ===== verification/Durable.thy ===== *)
theory Durable
  imports Workers
begin

section \<open>Atomic replacement of a file (src/internal/durable/file.go)\<close>

text \<open>
  \<^verbatim>\<open>durable.Write\<close>, call by call: the value is marshalled, written to a temporary file of the same
  directory, synced and closed, the file is renamed over the old one and the directory is synced. A
  fault is the error of one of the calls. The temporary file is removed on every path.
\<close>

record durable_faults =
  du_marshal :: "go_error option"
  du_mkdir :: "go_error option"
  du_create :: "go_error option"
  du_write :: "go_error option"
  du_sync :: "go_error option"
  du_close :: "go_error option"
  du_rename :: "go_error option"
  du_opendir :: "go_error option"
  du_syncdir :: "go_error option"

text \<open>The value is synced only when it was written, and a failed close counts when both went well.\<close>

definition temporary_error :: "durable_faults \<Rightarrow> go_error option" where
  "temporary_error f =
     (let err = (case du_write f of Some e \<Rightarrow> Some e | None \<Rightarrow> du_sync f) in
      case err of Some e \<Rightarrow> Some e | None \<Rightarrow> du_close f)"

fun first_error :: "go_error option list \<Rightarrow> go_error option" where
  "first_error [] = None"
| "first_error (e # es) = (case e of Some x \<Rightarrow> Some x | None \<Rightarrow> first_error es)"

definition durable_write :: "durable_faults \<Rightarrow> string \<Rightarrow> string \<Rightarrow> (string \<rightharpoonup> string) \<Rightarrow> go_error option \<times> (string \<rightharpoonup> string)" where
  "durable_write f path b files =
     (case first_error [du_marshal f, du_mkdir f, du_create f, temporary_error f, du_rename f] of
        Some e \<Rightarrow> (Some e, files)
      | None \<Rightarrow>
          let files' = files(path \<mapsto> b) in
          (case du_opendir f of Some e \<Rightarrow> (Some e, files') | None \<Rightarrow> (du_syncdir f, files')))"

text \<open>The outcome that the users of the function distinguish.\<close>

definition durable_outcome :: "durable_faults \<Rightarrow> save_outcome" where
  "durable_outcome f =
     (case first_error [du_marshal f, du_mkdir f, du_create f, temporary_error f, du_rename f] of
        Some e \<Rightarrow> SaveFail False e
      | None \<Rightarrow> (case first_error [du_opendir f, du_syncdir f] of Some e \<Rightarrow> SaveFail True e | None \<Rightarrow> SaveOk))"

lemma durable_write_outcome:
  "durable_write f path b files =
     (case durable_outcome f of
        SaveOk \<Rightarrow> (None, files(path \<mapsto> b))
      | SaveFail replaced e \<Rightarrow> (Some e, if replaced then files(path \<mapsto> b) else files))"
  by (auto simp: durable_write_def durable_outcome_def Let_def split: option.splits)

end
