(* ===== verification/Customer_Worker.thy ===== *)
theory Customer_Worker
  imports Control_Api Durable
begin

section \<open>The customer's worker (src/worker/worker.go)\<close>

text \<open>
  The process in the customer's environment: its identity, its calls to the control plane, enrollment
  and sessions, the manifest it offers, the check of what it is assigned, and the loop that claims jobs,
  runs them on the local engine and reports. The control plane is a function \<open>net\<close> from the URL, the
  body and the bearer token of a request to the reply; the keys, the clock and the local store's
  concurrent execution are parameters. Redirects are not followed.
\<close>

record worker_keys =
  wk_public :: "string \<Rightarrow> string"
  wk_sign :: "string \<Rightarrow> string \<Rightarrow> string"
  wk_hmac :: "string \<Rightarrow> string \<Rightarrow> string"

record identity =
  id_id :: string
  id_url :: string
  id_seed :: string
  id_enrolled :: bool

record client =
  cl_identity :: identity
  cl_token :: string
  cl_until :: time
  cl_disk :: "identity option"

type_synonym plane = "string \<Rightarrow> string \<Rightarrow> string option \<Rightarrow> reply"

definition zero_identity :: identity where
  "zero_identity = \<lparr>id_id = [], id_url = [], id_seed = [], id_enrolled = False\<rparr>"

subsection \<open>\<^verbatim>\<open>base64.StdEncoding\<close>\<close>

definition b64_std_char :: "nat \<Rightarrow> char" where
  "b64_std_char n = (if n = 62 then CHR ''+'' else if n = 63 then CHR ''/'' else b64_char n)"

fun b64_std :: "string \<Rightarrow> string" where
  "b64_std (a # b # c # r) =
     b64_std_char (byte a div 4) # b64_std_char (byte a mod 4 * 16 + byte b div 16)
       # b64_std_char (byte b mod 16 * 4 + byte c div 64) # b64_std_char (byte c mod 64) # b64_std r"
| "b64_std [a, b] = [b64_std_char (byte a div 4), b64_std_char (byte a mod 4 * 16 + byte b div 16),
     b64_std_char (byte b mod 16 * 4), CHR ''='']"
| "b64_std [a] = [b64_std_char (byte a div 4), b64_std_char (byte a mod 4 * 16), CHR ''='', CHR ''='']"
| "b64_std [] = []"

subsection \<open>Opening the data directory\<close>

text \<open>A byte slice in JSON is a base64 text or an array of bytes.\<close>

fun dec_byte :: "json \<Rightarrow> char option" where
  "dec_byte (JNum s) = (case parse_uint s of None \<Rightarrow> None | Some n \<Rightarrow> if n < 256 then Some (char_of n) else None)"
| "dec_byte JNull = Some (CHR 0x00)"
| "dec_byte _ = None"

definition dec_bytes :: "json \<Rightarrow> string option" where
  "dec_bytes v = (case v of JStr s \<Rightarrow> Workers.b64_decode (json_unquote s) | _ \<Rightarrow> map_option nil_empty (dec_slice dec_byte v))"

definition dec_identity :: "string \<Rightarrow> json \<Rightarrow> identity \<Rightarrow> identity option" where
  "dec_identity k v r =
     (if k = ''id'' then dec_str id_id_update v r
      else if k = ''url'' then dec_str id_url_update v r
      else if k = ''seed'' then dec_field dec_bytes id_seed_update v r
      else if k = ''enrolled'' then dec_bool id_enrolled_update v r
      else Some r)"

text \<open>The identity file: missing, or the result of reading it, with its status and permission bits.\<close>

record identity_file =
  if_content :: "string result option"
  if_mode :: "nat result"

definition client_of :: "identity \<Rightarrow> identity option \<Rightarrow> client" where
  "client_of i disk = \<lparr>cl_identity = i, cl_token = [], cl_until = zero_time, cl_disk = disk\<rparr>"

definition open_worker :: "go_error option \<Rightarrow> go_error option \<Rightarrow> bool \<Rightarrow> identity_file \<Rightarrow> client result" where
  "open_worker mkdir lock_file taken f =
     (case first_error [mkdir, lock_file] of
        Some e \<Rightarrow> Inl e
      | None \<Rightarrow>
          if taken then Inl (ErrNew ''worker data directory already in use'')
          else case if_content f of
            None \<Rightarrow> Inr (client_of zero_identity None)
          | Some content \<Rightarrow>
              (case (case content of Inl e \<Rightarrow> None
                     | Inr s \<Rightarrow> (case json_parse s of None \<Rightarrow> None | Some v \<Rightarrow> dec_struct dec_identity v zero_identity)) of
                 None \<Rightarrow> Inl (ErrNew ''invalid worker identity; restore its original data directory'')
               | Some i \<Rightarrow>
                   if length (id_seed i) \<noteq> 32 \<or> length (id_id i) \<noteq> 32
                   then Inl (ErrNew ''invalid worker identity; restore its original data directory'')
                   else case if_mode f of
                     Inl e \<Rightarrow> Inl (ErrNew ''worker identity must have mode 0600'')
                   | Inr mode \<Rightarrow> if mode mod 64 \<noteq> 0 then Inl (ErrNew ''worker identity must have mode 0600'')
                       else Inr (client_of i (Some i))))"

definition validate_url :: "(string \<Rightarrow> url option) \<Rightarrow> (string \<Rightarrow> ip option) \<Rightarrow> string \<Rightarrow> bool \<Rightarrow> string result" where
  "validate_url parse parse_ip raw allow_http =
     (case parse raw of
        None \<Rightarrow> Inl (ErrNew ''control plane must be an HTTPS origin'')
      | Some u \<Rightarrow>
          if u_host u = [] \<or> u_user u \<or> u_raw_query u \<noteq> [] \<or> u_fragment u \<noteq> [] \<or> (u_path u \<noteq> [] \<and> u_path u \<noteq> ''/'')
          then Inl (ErrNew ''control plane must be an HTTPS origin'')
          else
            let at_home = (u_hostname u = ''localhost'' \<or> (case parse_ip (u_hostname u) of None \<Rightarrow> False | Some a \<Rightarrow> is_loopback (unmap a)))
            in if u_scheme u \<noteq> ''https'' \<and> \<not> (allow_http \<and> u_scheme u = ''http'' \<and> at_home)
               then Inl (ErrNew ''control plane requires HTTPS; local development requires explicit loopback opt-in'')
               else Inr (trim_right (CHR ''/'') raw))"

subsection \<open>Calls to the control plane\<close>

definition answer_limit :: nat where
  "answer_limit = 256 * 1024"

definition post ::
  "plane \<Rightarrow> (string \<Rightarrow> json \<Rightarrow> 'r \<Rightarrow> 'r option) \<Rightarrow> 'r \<Rightarrow> string \<Rightarrow> json \<Rightarrow> bool \<Rightarrow> client \<Rightarrow> 'r result \<times> client" where
  "post net f zero path body authenticated c =
     (case net (id_url (cl_identity c) @ ''/worker/v1'' @ path) (jprint body) (if authenticated then Some (cl_token c) else None) of
        NoReply \<Rightarrow> (Inl (ErrNew ''control plane connection unavailable''), c)
      | Reply status answer \<Rightarrow>
          if status \<noteq> 200 then
            (Inl (ErrNew (''control plane rejected worker request (HTTP '' @ itoa status @ '')'')),
             if status = 401 then c\<lparr>cl_token := []\<rparr> else c)
          else case first_value (take answer_limit answer) of
            None \<Rightarrow> (Inl (ErrNew ''invalid control plane response''), c)
          | Some (v, rest) \<Rightarrow>
              (case dec_struct f v zero of
                 None \<Rightarrow> (Inl (ErrNew ''invalid control plane response''), c)
               | Some x \<Rightarrow>
                   if skip_ws rest \<noteq> [] then (Inl (ErrNew ''oversized or invalid control plane response''), c) else (Inr x, c)))"

definition text_object :: "(string \<times> string) list \<Rightarrow> json" where
  "text_object ms = JObj (sort_key fst (map (\<lambda>(k, v). (k, jstr v)) ms))"

definition dec_session_answer :: "string \<Rightarrow> json \<Rightarrow> string \<times> int \<Rightarrow> (string \<times> int) option" where
  "dec_session_answer k v r =
     (if k = ''token'' then dec_str apfst v r else if k = ''expires_in'' then dec_int apsnd v r else None)"

text \<open>A new session when there is none or it is about to expire: prove the key on a fresh challenge.\<close>

definition open_session :: "worker_keys \<Rightarrow> plane \<Rightarrow> time \<Rightarrow> time \<Rightarrow> client \<Rightarrow> go_error option \<times> client" where
  "open_session ky net now got c =
     (let i = cl_identity c in
      if cl_token c \<noteq> [] \<and> now < cl_until c then (None, c)
      else case post net (dec_text ''challenge'') [] ''/challenge'' (text_object [(''id'', id_id i)]) False c of
        (Inl e, c1) \<Rightarrow> (Some e, c1)
      | (Inr challenge, c1) \<Rightarrow>
          if length challenge \<noteq> 64 then (Some (ErrNew ''invalid authentication challenge''), c1)
          else
            (case post net dec_session_answer ([], 0) ''/session'' (text_object [(''id'', id_id i), (''challenge'', challenge),
                     (''signature'', b64_std (wk_sign ky (id_seed i) (session_proof (id_id i) challenge)))]) False c1 of
               (Inl e, c2) \<Rightarrow> (Some e, c2)
             | (Inr (token, expires), c2) \<Rightarrow>
                 if length token \<noteq> 64 \<or> expires < 60 \<or> 600 < expires then (Some (ErrNew ''invalid worker session''), c2)
                 else (None, c2\<lparr>cl_token := token, cl_until := got + (expires - 30) * second\<rparr>)))"

definition worker_call ::
  "worker_keys \<Rightarrow> plane \<Rightarrow> time \<times> time \<Rightarrow> (string \<Rightarrow> json \<Rightarrow> 'r \<Rightarrow> 'r option) \<Rightarrow> 'r \<Rightarrow> string \<Rightarrow> json \<Rightarrow> client \<Rightarrow> 'r result \<times> client" where
  "worker_call ky net clk f zero path body c =
     (case open_session ky net (fst clk) (snd clk) c of
        (Some e, c1) \<Rightarrow> (Inl e, c1)
      | (None, c1) \<Rightarrow> post net f zero path body True c1)"

subsection \<open>Enrollment\<close>

text \<open>\<^verbatim>\<open>strings.Cut\<close> at the first dot, and \<^verbatim>\<open>hex.DecodeString\<close>'s acceptance.\<close>

definition cut_dot :: "string \<Rightarrow> (string \<times> string) option" where
  "cut_dot s = (if CHR ''.'' \<in> set s
     then Some (takeWhile (\<lambda>c. c \<noteq> CHR ''.'') s, drop 1 (dropWhile (\<lambda>c. c \<noteq> CHR ''.'') s)) else None)"

definition hex_text :: "string \<Rightarrow> bool" where
  "hex_text s \<longleftrightarrow> even (length s) \<and> list_all is_hex s"

definition save_identity :: "save_outcome \<Rightarrow> client \<Rightarrow> go_error option \<times> client" where
  "save_identity out c = (case out of
       SaveOk \<Rightarrow> (None, c\<lparr>cl_disk := Some (cl_identity c)\<rparr>)
     | SaveFail replaced e \<Rightarrow> (Some e, if replaced then c\<lparr>cl_disk := Some (cl_identity c)\<rparr> else c))"

definition dec_flag :: "string \<Rightarrow> string \<Rightarrow> json \<Rightarrow> bool \<Rightarrow> bool option" where
  "dec_flag key k v r = (if k = key then dec_bool (\<lambda>f. f) v r else None)"

definition enroll_call :: "worker_keys \<Rightarrow> plane \<Rightarrow> save_outcome \<Rightarrow> string \<Rightarrow> string \<Rightarrow> client \<Rightarrow> go_error option \<times> client" where
  "enroll_call ky net out wid token c =
     (case post net (dec_flag ''enrolled'') False ''/enroll'' (text_object [(''id'', wid), (''token'', token),
              (''public_key'', b64_std (wk_public ky (id_seed (cl_identity c))))]) False c of
        (Inl e, c1) \<Rightarrow> (Some e, c1)
      | (Inr enrolled, c1) \<Rightarrow>
          if \<not> enrolled then (Some (ErrNew ''worker enrollment rejected''), c1)
          else save_identity out (c1\<lparr>cl_identity := (cl_identity c1)\<lparr>id_enrolled := True\<rparr>\<rparr>))"

text \<open>The new key is on disk before the control plane learns of it.\<close>

definition enroll_worker ::
  "worker_keys \<Rightarrow> plane \<Rightarrow> (string \<Rightarrow> url option) \<Rightarrow> (string \<Rightarrow> ip option) \<Rightarrow> string result \<Rightarrow> save_outcome \<Rightarrow> save_outcome \<Rightarrow>
   string \<Rightarrow> string \<Rightarrow> bool \<Rightarrow> client \<Rightarrow> go_error option \<times> client" where
  "enroll_worker ky net parse parse_ip seed out1 out2 raw enrollment allow_http c =
     (case validate_url parse parse_ip raw allow_http of
        Inl e \<Rightarrow> (Some e, c)
      | Inr base \<Rightarrow>
          (case cut_dot (trim_space enrollment) of
             None \<Rightarrow> (Some (ErrNew ''invalid enrollment token''), c)
           | Some (wid, token) \<Rightarrow>
               if length wid \<noteq> 32 \<or> length token \<noteq> 64 \<or> \<not> hex_text (wid @ token)
               then (Some (ErrNew ''invalid enrollment token''), c)
               else if id_id (cl_identity c) \<noteq> [] \<and> (id_id (cl_identity c) \<noteq> wid \<or> id_url (cl_identity c) \<noteq> base)
               then (Some (ErrNew ''data directory belongs to another worker or control plane''), c)
               else if id_id (cl_identity c) = [] then
                 (case seed of
                    Inl e \<Rightarrow> (Some e, c)
                  | Inr s \<Rightarrow>
                      (case save_identity out1 (c\<lparr>cl_identity := \<lparr>id_id = wid, id_url = base, id_seed = s, id_enrolled = False\<rparr>\<rparr>) of
                         (Some e, c1) \<Rightarrow> (Some e, c1)
                       | (None, c1) \<Rightarrow> enroll_call ky net out2 wid token c1))
               else enroll_call ky net out2 wid token c))"

subsection \<open>Local configuration and manifest\<close>

record worker_config =
  wf_connections :: string
  wf_pairs :: "wpair list"

definition dec_worker_config :: "string \<Rightarrow> json \<Rightarrow> worker_config \<Rightarrow> worker_config option" where
  "dec_worker_config k v r =
     (if k = ''connections_file'' then dec_str wf_connections_update v r
      else if k = ''pairs'' then
        dec_field (map_option nil_empty \<circ> dec_slice (\<lambda>x. dec_struct dec_wpair x \<lparr>wp_source = [], wp_sink = [], wp_dimension = 0\<rparr>))
          wf_pairs_update v r
      else None)"

text \<open>A relative path is joined to the directory of the configuration by \<open>beside\<close>, \<^verbatim>\<open>filepath.Join\<close>. The decoder's own errors are one.\<close>

definition load_worker_config :: "(string \<Rightarrow> string) \<Rightarrow> string result \<Rightarrow> worker_config result" where
  "load_worker_config beside content =
     (case content of
        Inl e \<Rightarrow> Inl e
      | Inr s \<Rightarrow>
          (case first_value (take config_limit s) of
             None \<Rightarrow> Inl (ErrNew ''json'')
           | Some (v, rest) \<Rightarrow>
               (case dec_struct dec_worker_config v \<lparr>wf_connections = [], wf_pairs = []\<rparr> of
                  None \<Rightarrow> Inl (ErrNew ''json'')
                | Some c \<Rightarrow>
                    if skip_ws rest \<noteq> [] then Inl (ErrNew ''invalid worker config'')
                    else if wf_connections c = [] then Inl (ErrNew ''connections_file is required'')
                    else Inr (if has_prefix (wf_connections c) ''/'' then c else c\<lparr>wf_connections := beside (wf_connections c)\<rparr>))))"

definition opaque :: "worker_keys \<Rightarrow> identity \<Rightarrow> string \<Rightarrow> string" where
  "opaque ky i s = hex_encode (wk_hmac ky (id_seed i) s)"

definition offered_connection :: "worker_keys \<Rightarrow> identity \<Rightarrow> binding \<Rightarrow> wconn" where
  "offered_connection ky i b =
     \<lparr>wc_name = b_name b, wc_kind = b_kind b, wc_can_read = (b_source b \<noteq> None), wc_can_write = (b_sink b \<noteq> None),
      wc_fingerprint = opaque ky i (b_fingerprint b), wc_resource = opaque ky i (if_empty (b_resource b) (b_fingerprint b))\<rparr>"

definition worker_manifest :: "worker_keys \<Rightarrow> identity \<Rightarrow> string list \<Rightarrow> registry \<Rightarrow> wpair list \<Rightarrow> manifest result" where
  "worker_manifest ky i ks reg pairs =
     (let allowed = map wp_source pairs @ map wp_sink pairs;
          m = \<lparr>mf_connections = map (offered_connection ky i) (filter (\<lambda>b. b_name b \<in> set allowed) (registry_list ks reg)),
               mf_pairs = pairs\<rparr>
      in case validate_manifest m of Inl e \<Rightarrow> Inl e | Inr _ \<Rightarrow> Inr m)"

subsection \<open>Assignments and reports\<close>

definition valid_assignment :: "worker_assignment \<Rightarrow> string \<Rightarrow> bool" where
  "valid_assignment a wid \<longleftrightarrow>
     length (wa_id a) = 32 \<and> length (wa_lease_id a) = 64 \<and> sp_worker_id (wa_spec a) = wid
     \<and> 0 \<le> wa_generation a \<and> 0 \<le> wa_records a \<and> 0 \<le> wa_batches a \<and> hex_text (wa_id a @ wa_lease_id a)
     \<and> (let s = wa_spec a in 0 < length (sp_name s) \<and> length (sp_name s) \<le> 160 \<and> 1 \<le> sp_dimension s \<and> sp_dimension s \<le> 65536
          \<and> 1 \<le> sp_batch_size s \<and> sp_batch_size s \<le> 500 \<and> 1 \<le> sp_max_attempts s \<and> sp_max_attempts s \<le> 10
          \<and> - 1 \<le> sp_max_restarts s \<and> sp_max_restarts s \<le> 10)"

definition report_members :: "worker_report \<Rightarrow> (string \<times> json) list" where
  "report_members r =
     [(''lease_id'', jstr (wr_lease_id r)), (''sequence'', jint (wr_sequence r)), (''state'', jstr (wr_state r)),
      (''phase'', jstr (wr_phase r)), (''records'', jint (wr_records r)), (''batches'', jint (wr_batches r)),
      (''retries'', jint (wr_retries r)), (''restarts'', jint (wr_restarts r)), (''checkpoint'', JBool (wr_checkpoint r))]
     @ omit (wr_retry_after r = 0) ''retry_after'' (jint (wr_retry_after r))
     @ omit (wr_failure r = []) ''failure'' (jstr (wr_failure r))"

definition dec_progress_answer :: "string \<Rightarrow> json \<Rightarrow> bool \<times> time option \<Rightarrow> (bool \<times> time option) option" where
  "dec_progress_answer k v r =
     (if k = ''cancel_requested'' then dec_bool apfst v r
      else if k = ''lease_until'' then dec_time_ptr apsnd v r else None)"

definition send_report ::
  "worker_keys \<Rightarrow> plane \<Rightarrow> time \<times> time \<Rightarrow> worker_assignment \<Rightarrow> worker_report \<Rightarrow> client \<Rightarrow> bool result \<times> client" where
  "send_report ky net clk a r c =
     (case worker_call ky net clk dec_progress_answer (False, None) (''/jobs/'' @ wa_id a @ ''/progress'') (JObj (report_members r)) c of
        (Inl e, c1) \<Rightarrow> (Inl e, c1)
      | (Inr (cancel, until), c1) \<Rightarrow> (Inr cancel, c1))"

definition rejection :: "worker_assignment \<Rightarrow> string \<Rightarrow> worker_report" where
  "rejection a code = zero_report\<lparr>wr_lease_id := wa_lease_id a, wr_sequence := 1, wr_state := ''failed'',
     wr_records := wa_records a, wr_batches := wa_batches a, wr_checkpoint := wa_checkpoint a, wr_failure := code\<rparr>"

text \<open>Seconds until the next run, truncated toward zero, plus one, between 1 and 3600.\<close>

definition retry_seconds :: "time \<Rightarrow> time \<Rightarrow> int" where
  "retry_seconds now t = (let d = t - now; s = (if 0 \<le> d then d div second else - ((- d) div second)) in max 1 (min 3600 (s + 1)))"

definition snapshot :: "time \<Rightarrow> worker_assignment \<Rightarrow> int \<Rightarrow> job \<Rightarrow> worker_report" where
  "snapshot now a n j =
     \<lparr>wr_lease_id = wa_lease_id a, wr_sequence = n, wr_state = j_state j, wr_phase = j_phase j, wr_records = j_records j,
      wr_batches = j_batches j, wr_retries = j_retries j, wr_restarts = j_restarts j,
      wr_checkpoint = (j_last_checkpoint_at j \<noteq> None),
      wr_retry_after = (case j_next_run_at j of None \<Rightarrow> 0 | Some t \<Rightarrow> retry_seconds now t),
      wr_failure = (if j_state j = ''failed'' then ''transfer'' else [])\<rparr>"

subsection \<open>Executing an assignment\<close>

text \<open>
  The checks before anything runs: the local manifest must approve the pair under the identities the job
  was submitted with, and the local checkpoint must not be behind. The outcome is an error, a rejection
  to report, or the job and whether it is to be run.
\<close>

datatype start =
    Refused go_error
  | Rejected string
  | Started job bool

definition worker_of_manifest :: "manifest \<Rightarrow> worker" where
  "worker_of_manifest m = zero_worker\<lparr>w_manifest := m\<rparr>"

definition start_job ::
  "(string \<Rightarrow> string) \<Rightarrow> io \<Rightarrow> io \<Rightarrow> time \<Rightarrow> string \<Rightarrow> registry \<Rightarrow> manifest \<Rightarrow> worker_assignment \<Rightarrow> store \<Rightarrow> start \<times> store" where
  "start_job sha io1 io2 created wid reg m a st =
     (if \<not> valid_assignment a wid then (Refused (ErrNew ''invalid job assignment''), st)
      else case worker_connections (worker_of_manifest m) (wa_spec a) of
        Inl e \<Rightarrow> (Rejected ''policy'', st)
      | Inr (src, dst) \<Rightarrow>
          if wc_fingerprint src \<noteq> wa_source_fp a \<or> wc_fingerprint dst \<noteq> wa_sink_fp a then (Rejected ''policy'', st)
          else
            let s = lookup_binding reg (sp_source (wa_spec a)); d = lookup_binding reg (sp_sink (wa_spec a)) in
            (case prepare_worker_job sha io1 created a (b_fingerprint s) (b_fingerprint d) (b_resource d) st of
               (Inl e, st1) \<Rightarrow> (if health st1 \<noteq> None then Refused e else Rejected ''checkpoint_missing'', st1)
             | (Inr j, st1) \<Rightarrow>
                 if wa_cancel_requested a \<and> (j_state j = ''queued'' \<or> j_state j = ''retry_wait'') then
                   (case job_action sha io2 (j_id j) ''cancel'' ''control-plane'' st1 of
                      (Inl e, st2) \<Rightarrow> (Refused e, st2)
                    | (Inr j', st2) \<Rightarrow> (Started j' (j_state j' = ''queued'' \<or> j_state j' = ''retry_wait''), st2))
                 else (Started j (j_state j = ''queued'' \<or> j_state j = ''retry_wait''), st1)))"

text \<open>
  The loop while the job runs: it wakes because the execution has ended, because five seconds have
  passed, or because its context is done; a timer, set to 35 seconds after the last report was begun,
  ends the context. \<open>Over\<close> is what \<^verbatim>\<open>execute\<close> returns.
\<close>

datatype wake =
    Finished "go_error option"
  | Ticked
  | Ended go_error

record watch =
  wt_sequence :: int
  wt_timer :: time

datatype turn =
    Over "go_error option"
  | Onward watch

definition lease_span :: time where
  "lease_span = 35 * second"

text \<open>The readings of the clock: for the snapshot, before the report, for a session, and after the answer.\<close>

record turn_clock =
  tc_snapshot :: time
  tc_begun :: time
  tc_session :: "time \<times> time"
  tc_answered :: time

definition execute_turn ::
  "(string \<Rightarrow> string) \<Rightarrow> io \<Rightarrow> worker_keys \<Rightarrow> plane \<Rightarrow> turn_clock \<Rightarrow> bool \<Rightarrow> worker_assignment \<Rightarrow> string \<Rightarrow> wake \<Rightarrow>
   watch \<Rightarrow> client \<times> store \<Rightarrow> turn \<times> (client \<times> store)" where
  "execute_turn sha io ky net clk canceled a jid w s cs =
     (case cs of (c, st) \<Rightarrow>
      (case w of
         Finished (Some e) \<Rightarrow> (Over (Some e), (c, st))
       | Ended e \<Rightarrow> (Over (Some e), (c, st))
       | _ \<Rightarrow>
           (case get_job jid st of
              Inl e \<Rightarrow> (Over (Some e), (c, st))
            | Inr j \<Rightarrow>
                let n = wt_sequence s + 1 in
                (case send_report ky net (tc_session clk) a (snapshot (tc_snapshot clk) a n j) c of
                   (Inl e, c1) \<Rightarrow> (Over (Some e), (c1, st))
                 | (Inr cancel, c1) \<Rightarrow>
                     if j_state j \<noteq> ''running'' \<and> j_state j \<noteq> ''cancel_requested'' then (Over None, (c1, st))
                     else case (if cancel then job_action sha io jid ''cancel'' ''control-plane'' st else (Inr j, st)) of
                       (Inl e, st1) \<Rightarrow> (Over (Some e), (c1, st1))
                     | (Inr _, st1) \<Rightarrow>
                         if wt_timer s \<le> tc_answered clk \<or> canceled then (Over (Some (ErrNew ''execution lease expired'')), (c1, st1))
                         else if (case w of Finished _ \<Rightarrow> True | _ \<Rightarrow> False) then (Over None, (c1, st1))
                         else (Onward \<lparr>wt_sequence = n,
                                 wt_timer = tc_answered clk + max (second div 1000) (lease_span - (tc_answered clk - tc_begun clk))\<rparr>,
                               (c1, st1))))))"

text \<open>
  The turns of one execution. Each brings the event, what the execution has done to the store since the
  last turn, and whether its context was done by then; when they end, the process has ended.
\<close>

record execution_turn =
  et_wake :: wake
  et_run :: "store \<Rightarrow> store"
  et_io :: io
  et_net :: plane
  et_clock :: turn_clock
  et_canceled :: bool

fun execute_turns ::
  "(string \<Rightarrow> string) \<Rightarrow> worker_keys \<Rightarrow> worker_assignment \<Rightarrow> string \<Rightarrow> execution_turn list \<Rightarrow> watch \<Rightarrow> client \<times> store \<Rightarrow>
   go_error option \<times> (client \<times> store)" where
  "execute_turns sha ky a jid [] s cs = (Some CtxCanceled, cs)"
| "execute_turns sha ky a jid (t # ts) s (c, st) =
     (case execute_turn sha (et_io t) ky (et_net t) (et_clock t) (et_canceled t) a jid (et_wake t) s (c, et_run t st) of
        (Over e, cs') \<Rightarrow> (e, cs')
      | (Onward s', cs') \<Rightarrow> execute_turns sha ky a jid ts s' cs')"

text \<open>When nothing is to be run, the execution has ended from the start.\<close>

definition unstarted :: "execution_turn \<Rightarrow> execution_turn" where
  "unstarted t = t\<lparr>et_wake := (case et_wake t of Ended e \<Rightarrow> Ended e | _ \<Rightarrow> Finished None), et_run := \<lambda>st. st\<rparr>"

definition execute ::
  "(string \<Rightarrow> string) \<Rightarrow> io \<Rightarrow> io \<Rightarrow> time \<Rightarrow> time \<Rightarrow> worker_keys \<Rightarrow> plane \<Rightarrow> time \<times> time \<Rightarrow> registry \<Rightarrow> manifest \<Rightarrow>
   execution_turn list \<Rightarrow> worker_assignment \<Rightarrow> client \<times> store \<Rightarrow> go_error option \<times> (client \<times> store)" where
  "execute sha io1 io2 created begun ky net clk reg m ts a cs =
     (case cs of (c, st) \<Rightarrow>
      (case start_job sha io1 io2 created (id_id (cl_identity c)) reg m a st of
         (Refused e, st1) \<Rightarrow> (Some e, (c, st1))
       | (Rejected code, st1) \<Rightarrow>
           (case send_report ky net clk a (rejection a code) c of
              (Inl e, c1) \<Rightarrow> (Some e, (c1, st1))
            | (Inr _, c1) \<Rightarrow> (None, (c1, st1)))
       | (Started j run, st1) \<Rightarrow>
           execute_turns sha ky a (j_id j) (if run then ts else map unstarted ts)
             \<lparr>wt_sequence = 0, wt_timer = begun + lease_span\<rparr> (c, st1)))"

subsection \<open>The worker's loop\<close>

definition dec_spec_strict :: "string \<Rightarrow> json \<Rightarrow> spec \<Rightarrow> spec option" where
  "dec_spec_strict = strict spec_keys dec_spec"

definition zero_assignment :: worker_assignment where
  "zero_assignment = \<lparr>wa_id = [], wa_spec = zero_spec, wa_lease_id = [], wa_lease_until = zero_time, wa_generation = 0,
     wa_records = 0, wa_batches = 0, wa_checkpoint = False, wa_source_fp = [], wa_sink_fp = [], wa_cancel_requested = False\<rparr>"

definition dec_assignment :: "string \<Rightarrow> json \<Rightarrow> worker_assignment \<Rightarrow> worker_assignment option" where
  "dec_assignment k v r =
     (if k = ''id'' then dec_str wa_id_update v r
      else if k = ''spec'' then map_option (\<lambda>s. r\<lparr>wa_spec := s\<rparr>) (dec_struct dec_spec_strict v (wa_spec r))
      else if k = ''lease_id'' then dec_str wa_lease_id_update v r
      else if k = ''lease_until'' then dec_time wa_lease_until_update v r
      else if k = ''generation'' then dec_int wa_generation_update v r
      else if k = ''records'' then dec_int wa_records_update v r
      else if k = ''batches'' then dec_int wa_batches_update v r
      else if k = ''checkpoint'' then dec_bool wa_checkpoint_update v r
      else if k = ''source_fingerprint'' then dec_str wa_source_fp_update v r
      else if k = ''sink_fingerprint'' then dec_str wa_sink_fp_update v r
      else if k = ''cancel_requested'' then dec_bool wa_cancel_requested_update v r
      else None)"

definition dec_claim_answer :: "string \<Rightarrow> json \<Rightarrow> worker_assignment option \<Rightarrow> worker_assignment option option" where
  "dec_claim_answer k v r =
     (if k \<noteq> ''job'' then None
      else if v = JNull then Some None
      else map_option Some (dec_struct dec_assignment v (case r of None \<Rightarrow> zero_assignment | Some a \<Rightarrow> a)))"

text \<open>
  One turn of the loop: publish the manifest unless it is published, then claim, and execute what was
  claimed with \<open>exec\<close>. After an error the manifest is published again.
\<close>

record worker_state =
  ww_client :: client
  ww_store :: store
  ww_published :: bool

definition publish_manifest :: "worker_keys \<Rightarrow> plane \<Rightarrow> time \<times> time \<Rightarrow> manifest \<Rightarrow> client \<Rightarrow> go_error option \<times> client" where
  "publish_manifest ky net clk m c =
     (case worker_call ky net clk (dec_flag ''accepted'') False ''/manifest'' (manifest_value m) c of
        (Inl e, c1) \<Rightarrow> (Some e, c1)
      | (Inr True, c1) \<Rightarrow> (None, c1)
      | (Inr False, c1) \<Rightarrow> (Some (ErrNew ''worker manifest rejected''), c1))"

definition run_turn ::
  "worker_keys \<Rightarrow> plane \<Rightarrow> (time \<times> time) \<times> (time \<times> time) \<Rightarrow> manifest \<Rightarrow>
   (worker_assignment \<Rightarrow> client \<times> store \<Rightarrow> go_error option \<times> (client \<times> store)) \<Rightarrow> worker_state \<Rightarrow> go_error option \<times> worker_state" where
  "run_turn ky net clk m exec w =
     (let (err, c) = (if ww_published w then (None, ww_client w) else publish_manifest ky net (fst clk) m (ww_client w)) in
      case err of
        Some e \<Rightarrow> (Some e, w\<lparr>ww_client := c, ww_published := False\<rparr>)
      | None \<Rightarrow>
          (case worker_call ky net (snd clk) dec_claim_answer None ''/claim'' (JObj []) c of
             (Inl e, c1) \<Rightarrow> (Some e, w\<lparr>ww_client := c1, ww_published := False\<rparr>)
           | (Inr None, c1) \<Rightarrow> (None, w\<lparr>ww_client := c1, ww_published := True\<rparr>)
           | (Inr (Some a), c1) \<Rightarrow>
               (case exec a (c1, ww_store w) of
                  (e, (c2, st)) \<Rightarrow> (e, \<lparr>ww_client = c2, ww_store = st, ww_published = (e = None)\<rparr>))))"

text \<open>The turns until the context is done, which is when the list of their inputs ends.\<close>

fun run_loop ::
  "worker_keys \<Rightarrow> manifest \<Rightarrow>
   (plane \<times> ((time \<times> time) \<times> (time \<times> time)) \<times> (worker_assignment \<Rightarrow> client \<times> store \<Rightarrow> go_error option \<times> (client \<times> store))) list \<Rightarrow>
   worker_state \<Rightarrow> go_error option \<times> worker_state" where
  "run_loop ky m [] w = (None, w)"
| "run_loop ky m ((net, clk, exec) # ts) w =
     (case run_turn ky net clk m exec w of
        (err, w') \<Rightarrow>
          if health (ww_store w') \<noteq> None then (Some (ErrNew ''worker checkpoint store unavailable; execution stopped''), w')
          else run_loop ky m ts w')"

definition run_worker ::
  "worker_keys \<Rightarrow> (string \<Rightarrow> string) \<Rightarrow> (string \<Rightarrow> url option) \<Rightarrow> (string \<Rightarrow> ip option) \<Rightarrow> bool \<Rightarrow> string list \<Rightarrow> registry \<Rightarrow> wpair list \<Rightarrow>
   store result \<Rightarrow> (string \<Rightarrow> io) \<Rightarrow> string list \<Rightarrow>
   (plane \<times> ((time \<times> time) \<times> (time \<times> time)) \<times> (worker_assignment \<Rightarrow> client \<times> store \<Rightarrow> go_error option \<times> (client \<times> store))) list \<Rightarrow>
   client \<Rightarrow> go_error option" where
  "run_worker ky sha parse parse_ip allow_http ks reg pairs opened_store ios js turns c =
     (if \<not> id_enrolled (cl_identity c) then Some (ErrNew ''enroll this worker first'')
      else case validate_url parse parse_ip (id_url (cl_identity c)) allow_http of
        Inl e \<Rightarrow> Some e
      | Inr _ \<Rightarrow>
          (case worker_manifest ky (cl_identity c) ks reg pairs of
             Inl e \<Rightarrow> Some e
           | Inr m \<Rightarrow>
               (case opened_store of
                  Inl e \<Rightarrow> Some e
                | Inr st \<Rightarrow>
                    (case recover sha ios js st of
                       (Inl e, st1) \<Rightarrow> Some e
                     | (Inr _, st1) \<Rightarrow>
                         fst (run_loop ky m turns \<lparr>ww_client = c, ww_store = st1, ww_published = False\<rparr>)))))"

end
