(* ===== verification/Worker_Jobs_Properties.thy ===== *)
theory Worker_Jobs_Properties
  imports Worker_Jobs Store_Properties
begin

section \<open>Properties of leases and reports\<close>

text \<open>
  A worker holds at most one live lease, a report is accepted only under the live lease and moves
  progress forwards only, a requested cancellation is never lost to a report, and a worker's own
  store is never behind what it reported.
\<close>

subsection \<open>Leasing\<close>

lemma lease_loop_Some:
  assumes "lease_loop now w start js = Some p"
  shows "(\<forall>j \<in> set js. job_of_worker w j \<longrightarrow> \<not> leased now j)
     \<and> (p = start \<or> p \<in> set js \<and> job_of_worker w p \<and> leasable now p)"
  using assms
proof (induction js arbitrary: start)
  case (Cons j js)
  then show ?case by (fastforce split: if_splits)
qed simp

lemma claim_worker_cases:
  assumes "claim_worker sha io now ks bytes w st = (r, st')" "keyed (s_jobs st)" "range_order ks (s_jobs st)"
  obtains (same) "s_jobs st' = s_jobs st" "r = Inr None \<or> (\<exists>err. r = Inl err)"
  | (failed) p where "s_jobs st (j_id p) = Some p" "job_of_worker w p" "leasable now p" "\<not> policy_holds w p" "r = Inr None"
      "s_jobs st' = (s_jobs st)(j_id p \<mapsto> (fail_lease p)\<lparr>j_updated_at := io_now io\<rparr>)"
  | (leased) p where "s_jobs st (j_id p) = Some p" "job_of_worker w p" "leasable now p" "policy_holds w p"
      "\<And>k j. s_jobs st k = Some j \<Longrightarrow> job_of_worker w j \<Longrightarrow> \<not> leased now j"
      "r = Inr (Some (assignment (lease_job now bytes p)))"
      "s_jobs st' = (s_jobs st)(j_id p \<mapsto> (lease_job now bytes p)\<lparr>j_updated_at := io_now io\<rparr>)"
proof (cases "s_poison st")
  case (Some e)
  with assms(1) same show thesis by (auto simp: claim_worker_def)
next
  case None
  let ?js = "range_vals ks (s_jobs st)"
  show thesis
  proof (cases "lease_loop now w zero_job ?js")
    case l: None
    with assms(1) None same show thesis by (auto simp: claim_worker_def)
  next
    case (Some p)
    note loop = lease_loop_Some [OF Some]
    have ran: "set ?js = ran (s_jobs st)" using set_range_order [OF assms(3)] .
    show thesis
    proof (cases "j_id p = []")
      case True
      with assms(1) None Some same show thesis by (auto simp: claim_worker_def)
    next
      case False
      then have "p \<noteq> zero_job" by (auto simp: zero_job_def)
      with loop have p: "p \<in> set ?js" "job_of_worker w p" "leasable now p" by auto
      then obtain k where "s_jobs st k = Some p" unfolding ran by (auto simp: ran_def)
      with keyedD [OF assms(2)] have sp: "s_jobs st (j_id p) = Some p" by auto
      have nl: "\<And>k j. s_jobs st k = Some j \<Longrightarrow> job_of_worker w j \<Longrightarrow> \<not> leased now j"
        using loop unfolding ran by (auto simp: ran_def)
      let ?f = "store_append sha io (fail_lease p) ''failed'' ''worker'' policy_changed [] st"
      let ?l = "store_append sha io (lease_job now bytes p) ''worker_leased'' (''worker:'' @ w_id w)
                         ''Customer worker acquired execution lease'' [] st"
      show thesis
      proof (cases "policy_holds w p")
        case False
        obtain q st2 where a: "?f = (q, st2)" by force
        show thesis
        proof (cases q)
          case (Inl err)
          with a assms(1) None Some \<open>j_id p \<noteq> []\<close> False have "r = Inl err" "st' = st2" by (auto simp: claim_worker_def)
          with store_append_Inl a Inl same show thesis by blast
        next
          case (Inr u)
          with a assms(1) None Some \<open>j_id p \<noteq> []\<close> False have "r = Inr None" "st' = st2" by (auto simp: claim_worker_def)
          with store_append_Inr [OF a [unfolded Inr]] failed [OF sp p(2,3) False] show thesis by (simp add: fail_lease_def)
        qed
      next
        case True
        obtain q st2 where a: "?l = (q, st2)" by force
        show thesis
        proof (cases q)
          case (Inl err)
          with a assms(1) None Some \<open>j_id p \<noteq> []\<close> True have "r = Inl err" "st' = st2" by (auto simp: claim_worker_def)
          with store_append_Inl a Inl same show thesis by blast
        next
          case (Inr u)
          with a assms(1) None Some \<open>j_id p \<noteq> []\<close> True
          have "r = Inr (Some (assignment (lease_job now bytes p)))" "st' = st2" by (auto simp: claim_worker_def)
          with store_append_Inr [OF a [unfolded Inr]] leased [OF sp p(2,3) True nl] show thesis by (simp add: lease_job_def)
        qed
      qed
    qed
  qed
qed

subsection \<open>At most one live lease\<close>

definition one_lease :: "time \<Rightarrow> (string \<rightharpoonup> job) \<Rightarrow> bool" where
  "one_lease t jobs \<longleftrightarrow> (\<forall>a b x y. jobs a = Some x \<longrightarrow> jobs b = Some y \<longrightarrow> leased t x \<longrightarrow> leased t y \<longrightarrow>
     sp_worker_id (j_spec x) = sp_worker_id (j_spec y) \<longrightarrow> a = b)"

lemma leased_mono: "leased t' j \<Longrightarrow> t \<le> t' \<Longrightarrow> leased t j"
  by (auto simp: leased_def after_def split: option.splits)

lemma one_lease_mono: "one_lease t jobs \<Longrightarrow> t \<le> t' \<Longrightarrow> one_lease t' jobs"
  unfolding one_lease_def using leased_mono by blast

text \<open>The jobs of a worker belong to the worker's owner, as submission makes them.\<close>

definition owned :: "worker \<Rightarrow> (string \<rightharpoonup> job) \<Rightarrow> bool" where
  "owned w jobs \<longleftrightarrow> (\<forall>k j. jobs k = Some j \<longrightarrow> sp_worker_id (j_spec j) = w_id w \<longrightarrow> j_owner j = w_owner w)"

lemma one_lease_update:
  assumes "one_lease t jobs" "jobs k = Some j" "j_spec j' = j_spec j"
    and "leased t' j' \<Longrightarrow> leased t j \<or> (\<forall>a x. jobs a = Some x \<longrightarrow> sp_worker_id (j_spec x) = sp_worker_id (j_spec j) \<longrightarrow> \<not> leased t x)"
    and "t \<le> t'"
  shows "one_lease t' (jobs(k \<mapsto> j'))"
  unfolding one_lease_def
proof (intro allI impI)
  fix a b x y
  assume h: "(jobs(k \<mapsto> j')) a = Some x" "(jobs(k \<mapsto> j')) b = Some y" "leased t' x" "leased t' y"
    "sp_worker_id (j_spec x) = sp_worker_id (j_spec y)"
  have old: "\<And>a b x y. jobs a = Some x \<Longrightarrow> jobs b = Some y \<Longrightarrow> leased t x \<Longrightarrow> leased t y \<Longrightarrow>
      sp_worker_id (j_spec x) = sp_worker_id (j_spec y) \<Longrightarrow> a = b"
    using assms(1) unfolding one_lease_def by blast
  have lx: "leased t x" "leased t y" using h(3,4) leased_mono assms(5) by blast+
  show "a = b"
  proof (cases "a = k"; cases "b = k")
    assume ak: "a = k" "b \<noteq> k"
    with h have xy: "x = j'" "jobs b = Some y" by simp_all
    with assms(4) h(3) have "leased t j" using lx(2) h(5) assms(3) by metis
    with old [OF assms(2) xy(2)] lx(2) h(5) xy(1) assms(3) ak show ?thesis by simp
  next
    assume ak: "a \<noteq> k" "b = k"
    with h have xy: "y = j'" "jobs a = Some x" by simp_all
    with assms(4) h(4) have "leased t j" using lx(1) h(5) assms(3) by metis
    with old [OF xy(2) assms(2)] lx(1) h(5) xy(1) assms(3) ak show ?thesis by simp
  qed (use h old lx in auto)
qed

lemma not_leased_simps: "\<not> leased t ((fail_lease j)\<lparr>j_updated_at := x\<rparr>)"
  by (simp add: leased_def fail_lease_def after_def)

lemma claim_worker_one_lease:
  assumes "claim_worker sha io now ks bytes w st = (r, st')" "keyed (s_jobs st)" "range_order ks (s_jobs st)"
    and "one_lease now (s_jobs st)" "owned w (s_jobs st)" "now \<le> t"
  shows "one_lease t (s_jobs st')"
proof (cases rule: claim_worker_cases [OF assms(1-3)])
  case 1
  then show ?thesis using assms(4,6) one_lease_mono by simp
next
  case (2 p)
  show ?thesis unfolding 2(6) using not_leased_simps
    by (intro one_lease_update [OF assms(4) 2(1) _ _ assms(6)]) (auto simp: fail_lease_def)
next
  case (3 p)
  have w: "sp_worker_id (j_spec p) = w_id w" using 3(2) by (simp add: job_of_worker_def)
  show ?thesis unfolding 3(7)
  proof (rule one_lease_update [OF assms(4) 3(1) _ _ assms(6)])
    have "\<not> leased now x" if "s_jobs st a = Some x" "sp_worker_id (j_spec x) = sp_worker_id (j_spec p)" for a x
      using 3(5) [OF that(1)] that assms(5) w by (simp add: job_of_worker_def owned_def same_owner_def split: option.splits)
    then show "leased now p \<or> (\<forall>a x. s_jobs st a = Some x \<longrightarrow> sp_worker_id (j_spec x) = sp_worker_id (j_spec p) \<longrightarrow> \<not> leased now x)"
      by blast
  qed (simp add: lease_job_def)
qed

subsection \<open>Reports\<close>

lemma frozen_report [simp]: "frozen j (apply_report clk f r j)"
  by (simp add: frozen_def apply_report_def Let_def)

lemma report_fn_Inr:
  "report_fn clk w f r j = Inr j' \<longleftrightarrow>
     job_of_worker w j \<and> leased (rc_lease clk) j \<and> j_lease_id j = wr_lease_id r \<and> j_report_sequence j < wr_sequence r
     \<and> j_records j \<le> wr_records r \<and> j_batches j \<le> wr_batches r \<and> (j_records j < wr_records r \<longrightarrow> wr_checkpoint r)
     \<and> j' = apply_report clk f r j"
  by (auto simp: report_fn_def leased_def)

lemma report_jobs:
  assumes "report_worker sha io clk w jid r st = (q, st')" "keyed (s_jobs st)"
  obtains (same) err where "q = Inl err" "s_jobs st' = s_jobs st"
  | (written) j where "report_error r = None" "s_jobs st jid = Some j"
      "report_fn clk w (the (failure_text (wr_failure r))) r j = Inr (apply_report clk (the (failure_text (wr_failure r))) r j)"
      "s_jobs st' = (s_jobs st)(jid \<mapsto> (apply_report clk (the (failure_text (wr_failure r))) r j)\<lparr>j_updated_at := io_now io\<rparr>)"
      "q = Inr ((apply_report clk (the (failure_text (wr_failure r))) r j)\<lparr>j_updated_at := io_now io\<rparr>)"
proof (cases "report_error r")
  case (Some err)
  with assms(1) have "q = Inl err" "st' = st" by (simp_all add: report_worker_def)
  with same show thesis by simp
next
  case None
  let ?fn = "report_fn clk w (the (failure_text (wr_failure r))) r"
  have u: "update sha io jid ''worker_progress'' (''worker:'' @ w_id w) ''Customer worker reported transfer progress'' [] ?fn st = (q, st')"
    using assms(1) None by (simp add: report_worker_def)
  have fr: "\<And>j j'. ?fn j = Inr j' \<Longrightarrow> frozen j j'" by (auto simp: report_fn_Inr)
  show thesis
  proof (cases rule: update_jobs [OF u assms(2) fr])
    case (2 err)
    with same show thesis by simp
  next
    case (3 j j')
    then show thesis using written [OF None 3(1)] by (simp add: report_fn_Inr)
  qed
qed

lemma report_one_lease:
  assumes "report_worker sha io clk w jid r st = (q, st')" "keyed (s_jobs st)"
    and "one_lease (rc_lease clk) (s_jobs st)" "rc_lease clk \<le> t"
  shows "one_lease t (s_jobs st')"
proof (cases rule: report_jobs [OF assms(1,2)])
  case (1 err)
  then show ?thesis using assms(3,4) one_lease_mono by simp
next
  case (2 j)
  then have "leased (rc_lease clk) j" by (simp add: report_fn_Inr)
  then show ?thesis unfolding 2(4)
    by (intro one_lease_update [OF assms(3) 2(2) _ _ assms(4)]) (simp_all add: apply_report_def Let_def)
qed

text \<open>C22: A customer worker never holds two live leases. If at most one of its jobs is leased when it asks
  for work or reports progress, the same is true at every later time, whatever the answer was; so two
  transfers of one worker never run under live leases at once.\<close>

theorem lease_exclusive:
  assumes "keyed (s_jobs st)" "range_order ks (s_jobs st)" "owned w (s_jobs st)"
    and "one_lease now (s_jobs st)" "now \<le> t" "rc_lease clk = now"
    and "st' = snd (claim_worker sha io now ks bytes w st) \<or> st' = snd (report_worker sha io clk v jid r st)"
  shows "one_lease t (s_jobs st')"
  using assms(7)
proof
  assume "st' = snd (claim_worker sha io now ks bytes w st)"
  then show ?thesis
    using claim_worker_one_lease [OF prod.collapse [symmetric] assms(1,2,4,3,5)] by simp
next
  assume "st' = snd (report_worker sha io clk v jid r st)"
  then show ?thesis
    using report_one_lease [OF prod.collapse [symmetric] assms(1)] assms(4-6) by simp
qed

text \<open>C23: A report counts only under the lease it names. It is applied exactly when the job is the worker's,
  the lease is the current one and has not run out, its sequence number is new, its progress is not
  behind the job's and any new record is backed by a checkpoint; then progress only grows, a requested
  cancellation stays requested or ends the job, and the lease is renewed exactly while the job stays
  active. In every other case the jobs are as they were.\<close>

theorem report_fenced:
  assumes "keyed (s_jobs st)" "s_jobs st jid = Some j" "report_worker sha io clk w jid r st = (q, st')"
  shows "case q of
       Inl err \<Rightarrow> s_jobs st' = s_jobs st
     | Inr j' \<Rightarrow> s_jobs st' = (s_jobs st)(jid \<mapsto> j') \<and> job_of_worker w j \<and> leased (rc_lease clk) j
         \<and> j_lease_id j = wr_lease_id r \<and> j_report_sequence j < j_report_sequence j'
         \<and> j_records j \<le> j_records j' \<and> j_batches j \<le> j_batches j'
         \<and> (j_records j < j_records j' \<longrightarrow> j_last_checkpoint_at j' = Some (rc_checkpoint clk))
         \<and> (j_last_checkpoint_at j \<noteq> None \<longrightarrow> j_last_checkpoint_at j' \<noteq> None)
         \<and> (j_state j = ''cancel_requested'' \<longrightarrow> j_state j' \<in> {''cancel_requested'', ''canceled''})
         \<and> (active j' \<longleftrightarrow> j_lease_until j' = Some (rc_until clk + 60 * second)) \<and> (\<not> active j' \<longrightarrow> j_lease_until j' = None)
         \<and> j_cursor j' = j_cursor j \<and> j_source_exhausted j' = j_source_exhausted j"
proof (cases rule: report_jobs [OF assms(3,1)])
  case (1 err)
  then show ?thesis by simp
next
  case (2 i)
  have [simp]: "i = j" using 2(2) assms(2) by simp
  let ?j = "apply_report clk (the (failure_text (wr_failure r))) r j"
  have s: "j_state ?j = reported_state r j" "j_records ?j = wr_records r" "j_batches ?j = wr_batches r"
    "j_report_sequence ?j = wr_sequence r" "j_cursor ?j = j_cursor j" "j_source_exhausted ?j = j_source_exhausted j"
    "j_last_checkpoint_at ?j = (if wr_checkpoint r \<and> (j_last_checkpoint_at j = None \<or> j_records j < wr_records r \<or> j_batches j < wr_batches r)
              then Some (rc_checkpoint clk) else j_last_checkpoint_at j)"
    "j_lease_until ?j = (if active ?j then Some (rc_until clk + 60 * second) else None)"
    by (simp_all add: apply_report_def active_def worker_lease_duration_def Let_def)
  have st: "j_state j = ''cancel_requested'' \<longrightarrow> reported_state r j \<in> {''cancel_requested'', ''canceled''}"
    by (simp add: reported_state_def)
  have a: "active (?j\<lparr>j_updated_at := x\<rparr>) = active ?j" for x by (simp add: active_def)
  show ?thesis using 2(3-5) st by (auto simp: report_fn_Inr s a)
qed

subsection \<open>The worker's own store\<close>

text \<open>A worker never continues from behind what it reported. Preparing an assigned job succeeds only
  when the local job has the assigned settings and fingerprints and at least the progress the control
  plane knows of; it then starts with the local progress untouched, at the assigned generation. A new
  job is accepted only when nothing was ever reported for it, and starts from the beginning.\<close>

theorem prepare_never_behind:
  assumes "prepare_worker_job sha io created a sf kf res st = (Inr j, st')" "keyed (s_jobs st)"
  shows "s_jobs st' (wa_id a) = Some j \<and> j_spec j = (wa_spec a)\<lparr>sp_worker_id := []\<rparr> \<and> j_source_fp j = sf \<and> j_sink_fp j = kf
     \<and> wa_records a \<le> j_records j \<and> wa_batches a \<le> j_batches j \<and> (wa_checkpoint a \<longrightarrow> j_last_checkpoint_at j \<noteq> None)
     \<and> j_generation j = wa_generation a
     \<and> (case s_jobs st (wa_id a) of
          Some i \<Rightarrow> j_records j = j_records i \<and> j_batches j = j_batches i \<and> j_cursor j = j_cursor i
            \<and> j_source_exhausted j = j_source_exhausted i \<and> (j_generation i = wa_generation a \<longrightarrow> j = i)
        | None \<Rightarrow> j_state j = ''queued'' \<and> j_records j = 0 \<and> j_cursor j = [] \<and> \<not> j_source_exhausted j)"
proof (cases "s_jobs st (wa_id a)")
  case None
  let ?n = "zero_job\<lparr>j_id := wa_id a, j_spec := (wa_spec a)\<lparr>sp_worker_id := []\<rparr>, j_generation := wa_generation a, j_state := ''queued'',
                  j_created_at := created, j_created_by := ''control-plane'', j_source_fp := sf,
                  j_sink_fp := kf, j_sink_resource := res\<rparr>"
  have g: "\<not> (wa_checkpoint a \<or> 0 < wa_records a \<or> 0 < wa_batches a)"
    using assms(1) None by (auto simp: prepare_worker_job_def Let_def split: if_splits)
  obtain q st2 where s: "store_append sha io ?n ''submitted'' ''worker'' ''Accepted locally approved transfer'' [] st = (q, st2)" by force
  with assms(1) None g have q: "q = Inr ()" "st' = st2" "j = the (s_jobs st2 (wa_id a))"
    by (auto simp: prepare_worker_job_def Let_def split: sum.splits)
  note f = store_append_Inr [OF s [unfolded q(1)]]
  from f(3) q(2,3) g None show ?thesis by (auto simp: zero_job_def)
next
  case (Some i)
  let ?r = "resumed_job (wa_generation a) i"
  have i: "j_id i = wa_id a" using keyedD [OF assms(2) Some] by simp
  from assms(1) Some have ok: "j_spec i = (wa_spec a)\<lparr>sp_worker_id := []\<rparr>" "j_source_fp i = sf" "j_sink_fp i = kf"
    "\<not> wa_generation a < j_generation i" "\<not> (j_records i < wa_records a \<or> j_batches i < wa_batches a \<or> (wa_checkpoint a \<and> j_last_checkpoint_at i = None))"
    by (auto simp: prepare_worker_job_def Let_def split: if_splits)
  show ?thesis
  proof (cases "j_generation i < wa_generation a")
    case False
    with assms(1) Some ok have "j = i" "st' = st" by (simp_all add: prepare_worker_job_def Let_def)
    with ok False Some show ?thesis by auto
  next
    case True
    obtain q st2 where s: "store_append sha io ?r ''resumed'' ''worker'' ''Control plane requested resume'' [] st = (q, st2)" by force
    with assms(1) Some ok True have q: "q = Inr ()" "st' = st2" "j = the (s_jobs st2 (wa_id a))"
      by (auto simp: prepare_worker_job_def Let_def split: sum.splits)
    note f = store_append_Inr [OF s [unfolded q(1)]]
    have "j_id ?r = wa_id a" using i by (simp add: resumed_job_def)
    with f(3) q(2,3) ok True Some show ?thesis by (auto simp: resumed_job_def)
  qed
qed

subsection \<open>Instances\<close>

definition demo_worker :: worker where
  "demo_worker = zero_worker\<lparr>w_id := ''w'', w_manifest := \<lparr>mf_connections = [
       \<lparr>wc_name = ''a'', wc_kind = ''k'', wc_can_read = True, wc_can_write = False, wc_fingerprint = ''f'', wc_resource = ''x''\<rparr>,
       \<lparr>wc_name = ''b'', wc_kind = ''k'', wc_can_read = False, wc_can_write = True, wc_fingerprint = ''g'', wc_resource = ''y''\<rparr>],
     mf_pairs = [\<lparr>wp_source = ''a'', wp_sink = ''b'', wp_dimension = 3\<rparr>]\<rparr>\<rparr>"

definition demo_worker_spec :: spec where
  "demo_worker_spec = zero_spec\<lparr>sp_worker_id := ''w'', sp_source := ''a'', sp_sink := ''b'', sp_dimension := 3\<rparr>"

definition demo_worker_job :: job where
  "demo_worker_job = zero_job\<lparr>j_id := ''j'', j_spec := demo_worker_spec, j_state := ''queued'', j_created_at := 0,
     j_source_fp := ''f'', j_sink_fp := ''g''\<rparr>"

definition demo_leased :: job where
  "demo_leased = demo_worker_job\<lparr>j_state := ''cancel_requested'', j_lease_id := ''l'', j_lease_until := Some 9\<rparr>"

definition demo_clock :: report_clock where
  "demo_clock = \<lparr>rc_lease = 1, rc_checkpoint = 2, rc_until = 3, rc_next = 4\<rparr>"

definition demo_report :: worker_report where
  "demo_report = \<lparr>wr_lease_id = ''l'', wr_sequence = 1, wr_state = ''succeeded'', wr_phase = [], wr_records = 7, wr_batches = 1,
     wr_retries = 0, wr_restarts = 0, wr_checkpoint = True, wr_retry_after = 0, wr_failure = []\<rparr>"

definition job_store :: "job \<Rightarrow> store" where
  "job_store j = empty_store\<lparr>s_jobs := [j_id j \<mapsto> j]\<rparr>"

lemma job_store_simps [simp]: "s_jobs (job_store j) = [j_id j \<mapsto> j]" "s_poison (job_store j) = None"
  by (simp_all add: job_store_def empty_store_def)

lemma job_store_keyed: "j_id j \<noteq> [] \<Longrightarrow> keyed (s_jobs (job_store j))"
  by (simp add: keyed_def)

theorem lease_exclusive_witness:
  "one_lease 5 (s_jobs (snd (claim_worker demo_sha demo_io 1 [''j''] ''z'' demo_worker (job_store demo_worker_job))))"
proof (rule lease_exclusive [where clk = demo_clock])
  show "keyed (s_jobs (job_store demo_worker_job))" by (rule job_store_keyed) (simp add: demo_worker_job_def)
  show "range_order [''j''] (s_jobs (job_store demo_worker_job))" by (simp add: range_order_def demo_worker_job_def)
  show "owned demo_worker (s_jobs (job_store demo_worker_job))"
    by (simp add: owned_def demo_worker_job_def zero_job_def demo_worker_def zero_worker_def)
  show "one_lease 1 (s_jobs (job_store demo_worker_job))" by (simp add: one_lease_def)
  show "snd (claim_worker demo_sha demo_io 1 [''j''] ''z'' demo_worker (job_store demo_worker_job))
        = snd (claim_worker demo_sha demo_io 1 [''j''] ''z'' demo_worker (job_store demo_worker_job))
     \<or> snd (claim_worker demo_sha demo_io 1 [''j''] ''z'' demo_worker (job_store demo_worker_job))
        = snd (report_worker demo_sha demo_io demo_clock demo_worker ''j'' demo_report (job_store demo_worker_job))" by simp
qed (simp_all add: demo_clock_def)

lemma demo_report_ok: "report_error demo_report = None"
  by (simp add: report_error_def demo_report_def report_states_def report_phases_def bad_progress_def failure_text_def)

theorem report_fenced_witness:
  "\<exists>j' st'. report_worker demo_sha demo_io demo_clock demo_worker ''j'' demo_report (job_store demo_leased) = (Inr j', st')
     \<and> j_state j' \<in> {''cancel_requested'', ''canceled''} \<and> s_jobs st' = [''j'' \<mapsto> j']"
proof -
  let ?st = "job_store demo_leased"
  have j: "s_jobs ?st ''j'' = Some demo_leased" and k: "keyed (s_jobs ?st)"
    by (simp_all add: demo_leased_def demo_worker_job_def keyed_def)
  have fn: "report_fn demo_clock demo_worker (the (failure_text (wr_failure demo_report))) demo_report demo_leased
      = Inr (apply_report demo_clock (the (failure_text (wr_failure demo_report))) demo_report demo_leased)" (is "_ = Inr ?j")
    unfolding report_fn_Inr
    by (simp add: job_of_worker_def leased_def after_def active_def same_owner_def demo_leased_def demo_worker_job_def
        demo_worker_spec_def demo_worker_def zero_job_def zero_worker_def demo_clock_def demo_report_def)
  have io: "io_ok demo_io" by (simp add: io_ok_def demo_io_def time_ok_0)
  have t2: "time_ok 2" by code_simp
  have t: "job_times_ok ?j"
    by (simp add: apply_report_def Let_def job_times_ok_def opt_time_ok_def demo_leased_def demo_worker_job_def time_ok_0
        demo_report_def reported_state_def zero_job_def demo_clock_def t2)
  have jid: "j_id ?j = ''j''" by (simp add: apply_report_def Let_def demo_leased_def demo_worker_job_def)
  let ?fn = "report_fn demo_clock demo_worker (the (failure_text (wr_failure demo_report))) demo_report"
  have "s_poison ?st = None" by simp
  then obtain st1 where "update demo_sha demo_io ''j'' ''worker_progress'' (''worker:'' @ w_id demo_worker)
      ''Customer worker reported transfer progress'' [] ?fn ?st = (Inr (?j\<lparr>j_updated_at := io_now demo_io\<rparr>), st1)"
    by (rule update_ok [where fn = ?fn and j' = ?j, OF _ io j fn jid t])
  then obtain j' st' where r: "report_worker demo_sha demo_io demo_clock demo_worker ''j'' demo_report ?st = (Inr j', st')"
    unfolding report_worker_def demo_report_ok option.case by blast
  from report_fenced [OF k j r] r show ?thesis by (auto simp: demo_leased_def demo_worker_job_def)
qed

definition demo_assignment :: worker_assignment where
  "demo_assignment = \<lparr>wa_id = ''j'', wa_spec = demo_worker_spec, wa_lease_id = ''l'', wa_lease_until = 9, wa_generation = 0,
     wa_records = 0, wa_batches = 0, wa_checkpoint = False, wa_source_fp = ''f'', wa_sink_fp = ''g'', wa_cancel_requested = False\<rparr>"

theorem prepare_never_behind_witness:
  "\<exists>j st'. prepare_worker_job demo_sha demo_io 0 demo_assignment ''f'' ''g'' ''y'' empty_store = (Inr j, st')
     \<and> sp_worker_id (j_spec j) = [] \<and> j_records j = 0"
proof -
  let ?n = "zero_job\<lparr>j_id := ''j'', j_spec := demo_worker_spec\<lparr>sp_worker_id := []\<rparr>, j_generation := 0, j_state := ''queued'',
      j_created_at := 0, j_created_by := ''control-plane'', j_source_fp := ''f'', j_sink_fp := ''g'', j_sink_resource := ''y''\<rparr>"
  have io: "io_ok demo_io" by (simp add: io_ok_def demo_io_def time_ok_0)
  have t: "job_times_ok ?n" by (simp add: job_times_ok_def zero_job_def opt_time_ok_def time_ok_0)
  obtain st' where "store_append demo_sha demo_io ?n ''submitted'' ''worker'' ''Accepted locally approved transfer'' [] empty_store = (Inr (), st')"
    by (rule append_ok [OF empty_store_healthy io t])
  then have p: "prepare_worker_job demo_sha demo_io 0 demo_assignment ''f'' ''g'' ''y'' empty_store = (Inr (the (s_jobs st' ''j'')), st')"
    by (simp add: prepare_worker_job_def demo_assignment_def Let_def) (simp add: empty_store_def)
  have e: "s_jobs empty_store = Map.empty" by (simp add: empty_store_def)
  then have "keyed (s_jobs empty_store)" by (simp add: keyed_def)
  from prepare_never_behind [OF p this] p e show ?thesis by fastforce
qed

end
