(* ===== verification/Workers_Facts.thy ===== *)
theory Workers_Facts
  imports Workers
begin

section \<open>What the worker registry guarantees\<close>

text \<open>
  The steps of the registry, how an entry may change along a run, and what enrollment, sessions and
  manifests promise: a revoked worker stays revoked, a bound key is never replaced, a challenge is
  good for one session, and a published manifest approves only readable and writable connections
  on different resources.
\<close>

subsection \<open>Saving an entry\<close>

lemma ws_put_cases:
  obtains (poisoned) "ws_put out wid e ws = (Inl ErrWorkersUnavailable, ws\<lparr>ws_entries := (ws_entries ws)(wid \<mapsto> e)\<rparr>)"
      "ws_poison ws \<noteq> None"
  | (saved) "ws_put out wid e ws = (Inr (), ws\<lparr>ws_entries := (ws_entries ws)(wid \<mapsto> e),
        ws_disk := (ws_entries ws)(wid \<mapsto> e)\<rparr>)" "ws_poison ws = None"
  | (failed) err d where "ws_put out wid e ws = (Inl ErrWorkersUnavailable,
        ws\<lparr>ws_entries := (ws_entries ws)(wid \<mapsto> e), ws_poison := Some err, ws_disk := d\<rparr>)" "ws_poison ws = None"
proof (cases "ws_poison ws")
  case None
  show thesis
  proof (cases out)
    case SaveOk
    with None saved show thesis by (simp add: ws_put_def ws_save_def unit_result_def)
  next
    case (SaveFail r err)
    with None failed show thesis by (simp add: ws_put_def ws_save_def unit_result_def)
  qed
next
  case (Some p)
  with poisoned show thesis by (simp add: ws_put_def ws_save_def unit_result_def)
qed

lemma ws_put_entries: "ws_entries (snd (ws_put out wid e ws)) = (ws_entries ws)(wid \<mapsto> e)"
  by (cases rule: ws_put_cases [of out wid e ws]) simp_all

lemma ws_put_sessions:
  "ws_sessions (snd (ws_put out wid e ws)) = ws_sessions ws"
  "ws_challenges (snd (ws_put out wid e ws)) = ws_challenges ws"
  by (cases rule: ws_put_cases [of out wid e ws]; simp)+

text \<open>In memory and on disk agree after every successful save.\<close>

lemma ws_put_disk: "fst (ws_put out wid e ws) = Inr () \<Longrightarrow> ws_disk (snd (ws_put out wid e ws)) = ws_entries (snd (ws_put out wid e ws))"
  by (cases rule: ws_put_cases [of out wid e ws]) simp_all

subsection \<open>Steps\<close>

inductive wstep :: "(string \<Rightarrow> string) \<Rightarrow> (string \<Rightarrow> string \<Rightarrow> string \<Rightarrow> bool) \<Rightarrow> workers \<Rightarrow> workers \<Rightarrow> bool"
  for sha verify where
  Create: "ws_create sha out ks now vnow tb ib owner name ws = (r, ws') \<Longrightarrow> range_order ks (ws_entries ws) \<Longrightarrow>
     ws_entries ws (random_id ib) = None \<Longrightarrow> wstep sha verify ws ws'"
| Revoke: "ws_revoke out wid owner ws = (r2, ws') \<Longrightarrow> wstep sha verify ws ws'"
| Enroll: "ws_enroll sha out now wid token key ws = (r2, ws') \<Longrightarrow> wstep sha verify ws ws'"
| Challenge: "ws_challenge ks now rnd wid ws = (r3, ws') \<Longrightarrow> wstep sha verify ws ws'"
| Session: "ws_session sha verify now now2 rnd wid ch sig ws = (r3, ws') \<Longrightarrow> wstep sha verify ws ws'"
| Publish: "ws_publish out now wid m ws = (r2, ws') \<Longrightarrow> wstep sha verify ws ws'"
| Touch: "ws_touch out now wid ws = (r2, ws') \<Longrightarrow> wstep sha verify ws ws'"

definition w_evolves :: "worker \<Rightarrow> worker \<Rightarrow> bool" where
  "w_evolves e e' \<longleftrightarrow> w_id e' = w_id e \<and> w_name e' = w_name e \<and> w_owner e' = w_owner e
     \<and> w_created_at e' = w_created_at e \<and> w_enrollment_until e' = w_enrollment_until e
     \<and> (w_revoked e \<longrightarrow> w_revoked e') \<and> (w_public_key e \<noteq> [] \<longrightarrow> w_public_key e' = w_public_key e)
     \<and> (w_enrollment_hash e = [] \<longrightarrow> w_enrollment_hash e' = [])"

lemma w_evolves_refl [simp]: "w_evolves e e"
  by (simp add: w_evolves_def)

lemma w_evolves_trans: "w_evolves e f \<Longrightarrow> w_evolves f g \<Longrightarrow> w_evolves e g"
  by (auto simp: w_evolves_def)

text \<open>Every operation but registration leaves the entries alone or puts back an evolved one.\<close>

definition entries_evolve :: "workers \<Rightarrow> workers \<Rightarrow> bool" where
  "entries_evolve ws ws' \<longleftrightarrow> ws_entries ws' = ws_entries ws \<or>
     (\<exists>wid e e'. ws_entries ws wid = Some e \<and> w_evolves e e' \<and> ws_entries ws' = (ws_entries ws)(wid \<mapsto> e'))"

lemma entries_evolve_same [simp]: "entries_evolve ws ws"
  by (simp add: entries_evolve_def)

lemma entries_evolve_put:
  assumes "ws_put out wid e' ws = (r, ws')" "ws_entries ws wid = Some e" "w_evolves e e'"
  shows "entries_evolve ws ws'"
  using assms ws_put_entries [of out wid e' ws] by (auto simp: entries_evolve_def)

lemma revoke_evolves: "ws_revoke out wid owner ws = (r, ws') \<Longrightarrow> entries_evolve ws ws'"
  by (auto simp: ws_revoke_def w_evolves_def
      split: option.splits if_splits elim!: entries_evolve_put)

lemma enroll_evolves: "ws_enroll sha out now wid token key ws = (r, ws') \<Longrightarrow> entries_evolve ws ws'"
  by (auto simp: ws_enroll_def w_evolves_def
      split: option.splits if_splits elim!: entries_evolve_put)

lemma publish_evolves: "ws_publish out now wid m ws = (r, ws') \<Longrightarrow> entries_evolve ws ws'"
  by (auto simp: ws_publish_def w_evolves_def
      split: option.splits if_splits sum.splits elim!: entries_evolve_put)

lemma touch_evolves: "ws_touch out now wid ws = (r, ws') \<Longrightarrow> entries_evolve ws ws'"
  by (auto simp: ws_touch_def w_evolves_def
      split: option.splits if_splits elim!: entries_evolve_put)

lemma challenge_entries: "ws_entries (snd (ws_challenge ks now rnd wid ws)) = ws_entries ws"
  by (simp add: ws_challenge_def Let_def split: option.split)

lemma session_entries: "ws_entries (snd (ws_session sha verify now now2 rnd wid ch sig ws)) = ws_entries ws"
  by (simp add: ws_session_def Let_def split: option.split)

definition new_worker :: "(string \<Rightarrow> string) \<Rightarrow> time \<Rightarrow> string \<Rightarrow> string \<Rightarrow> owner option \<Rightarrow> string \<Rightarrow> worker" where
  "new_worker sha now tb ib owner name = zero_worker\<lparr>w_id := random_id ib, w_name := name, w_created_at := now,
     w_enrollment_until := now + 600 * second, w_enrollment_hash := token_digest sha (random_id tb),
     w_owner := owner\<rparr>"

lemma new_worker_simps [simp]:
  "w_id (new_worker sha now tb ib owner name) = random_id ib"
  "w_owner (new_worker sha now tb ib owner name) = owner"
  "\<not> w_revoked (new_worker sha now tb ib owner name)"
  "w_public_key (new_worker sha now tb ib owner name) = []"
  by (simp_all add: new_worker_def zero_worker_def)

definition live_count :: "string list \<Rightarrow> owner option \<Rightarrow> workers \<Rightarrow> nat" where
  "live_count ks owner ws = length (filter (\<lambda>e. same_owner (w_owner e) owner \<and> \<not> w_revoked e) (range_vals ks (ws_entries ws)))"

lemma create_cases_ws:
  assumes "ws_create sha out ks now vnow tb ib owner name ws = (r, ws')"
  obtains (refused) err where "r = Inl err" "ws' = ws"
  | (added) "match_name name" "live_count ks owner ws < 20" "length (range_vals ks (ws_entries ws)) < 1000"
      "ws_entries ws' = (ws_entries ws)(random_id ib \<mapsto> new_worker sha now tb ib owner name)"
proof (cases "match_name name \<and> live_count ks owner ws < 20 \<and> length (range_vals ks (ws_entries ws)) < 1000")
  case False
  then have "\<exists>err. (r, ws') = (Inl err, ws)"
    using assms by (auto simp: ws_create_def live_count_def Let_def not_less split: if_splits)
  with refused show thesis by blast
next
  case True
  define e where "e = new_worker sha now tb ib owner name"
  have guards: "match_name name"
    "\<not> (20 \<le> length (filter (\<lambda>e. same_owner (w_owner e) owner \<and> \<not> w_revoked e) (range_vals ks (ws_entries ws)))
      \<or> 1000 \<le> length (range_vals ks (ws_entries ws)))" using True by (auto simp: live_count_def)
  have wid: "w_id e = random_id ib" by (simp add: e_def)
  have "(r, ws') = (case ws_save out (ws\<lparr>ws_entries := (ws_entries ws)(w_id e \<mapsto> e)\<rparr>) of
      (Some err, ws') \<Rightarrow> (Inl err, ws')
    | (None, ws') \<Rightarrow> (Inr (worker_view vnow e, w_id e @ ''.'' @ random_id tb), ws'))"
    using assms guards unfolding ws_create_def Let_def e_def new_worker_def by (simp only: if_False if_True not_not simp_thms)
  then have "ws_entries ws' = (ws_entries ws)(random_id ib \<mapsto> e)"
    by (auto simp: ws_save_def wid split: if_splits save_outcome.splits)
  with added True show thesis by (simp add: e_def)
qed

lemma wstep_cases:
  assumes "wstep sha verify ws ws'"
  obtains (evolve) "entries_evolve ws ws'"
  | (add) ks now tb ib owner name where "range_order ks (ws_entries ws)" "ws_entries ws (random_id ib) = None"
      "live_count ks owner ws < 20" "length (range_vals ks (ws_entries ws)) < 1000"
      "ws_entries ws' = (ws_entries ws)(random_id ib \<mapsto> new_worker sha now tb ib owner name)"
  using assms
proof cases
  case (Create out ks now vnow tb ib owner name r)
  from Create(1) show thesis
  proof (cases rule: create_cases_ws)
    case (refused err)
    then show thesis using evolve by (simp add: entries_evolve_def)
  next
    case added
    then show thesis using add Create(2,3) by blast
  qed
next
  case (Challenge ks now rnd wid r)
  then show thesis using evolve challenge_entries [of ks now rnd wid ws] by (simp add: entries_evolve_def)
next
  case (Session now now2 rnd wid ch sig r)
  then show thesis using evolve session_entries [of sha verify now now2 rnd wid ch sig ws] by (simp add: entries_evolve_def)
next
  case (Revoke out wid owner r)
  then show thesis using evolve revoke_evolves by metis
next
  case (Enroll out now wid token key r)
  then show thesis using evolve enroll_evolves by metis
next
  case (Publish out now wid m r)
  then show thesis using evolve publish_evolves by metis
next
  case (Touch out now wid r)
  then show thesis using evolve touch_evolves by metis
qed

interpretation worker_history: keyed_history "wstep sha verify" ws_entries w_evolves for sha verify
proof
  fix ws ws' k e assume s: "wstep sha verify ws ws'" "ws_entries ws k = Some e"
  from s(1) show "\<exists>v'. ws_entries ws' k = Some v' \<and> w_evolves e v'"
    by (cases rule: wstep_cases) (use s(2) in \<open>auto simp: entries_evolve_def\<close>)
qed (use w_evolves_trans in auto)

subsection \<open>The manifest\<close>

definition conn_ok :: "wconn \<Rightarrow> bool" where
  "conn_ok c \<longleftrightarrow> match_name (wc_name c) \<and> match_name (wc_kind c) \<and> match_hex 64 (wc_fingerprint c)
     \<and> match_hex 64 (wc_resource c)"

definition names_map :: "(string \<rightharpoonup> wconn) \<Rightarrow> wconn list \<Rightarrow> (string \<rightharpoonup> wconn)" where
  "names_map m cs = m ++ map_of (rev (map (\<lambda>c. (wc_name c, c)) cs))"

lemma manifest_names_iff:
  assumes "\<And>n c. m n = Some c \<Longrightarrow> wc_name c = n \<and> n \<noteq> []"
  shows "manifest_names m cs = (if list_all conn_ok cs \<and> distinct (map wc_name cs) \<and> set (map wc_name cs) \<inter> dom m = {}
     then Some (names_map m cs) else None)"
  using assms
proof (induction cs arbitrary: m)
  case (Cons c cs)
  show ?case
  proof (cases "conn_ok c \<and> m (wc_name c) = None")
    case True
    then have ne: "wc_name c \<noteq> []" using match_name_not_Nil by (auto simp: conn_ok_def)
    have IH: "manifest_names (m(wc_name c \<mapsto> c)) cs =
        (if list_all conn_ok cs \<and> distinct (map wc_name cs) \<and> set (map wc_name cs) \<inter> dom (m(wc_name c \<mapsto> c)) = {}
         then Some (names_map (m(wc_name c \<mapsto> c)) cs) else None)"
      by (rule Cons.IH) (use ne Cons.prems in \<open>auto split: if_splits\<close>)
    have step: "manifest_names m (c # cs) = manifest_names (m(wc_name c \<mapsto> c)) cs"
      using True by (simp add: conn_ok_def zero_wconn_def)
    have "names_map (m(wc_name c \<mapsto> c)) cs = names_map m (c # cs)" by (simp add: names_map_def map_add_assoc [symmetric])
    moreover have "list_all conn_ok (c # cs) \<and> distinct (map wc_name (c # cs)) \<and> set (map wc_name (c # cs)) \<inter> dom m = {}
       \<longleftrightarrow> list_all conn_ok cs \<and> distinct (map wc_name cs) \<and> set (map wc_name cs) \<inter> dom (m(wc_name c \<mapsto> c)) = {}"
      using True by auto
    ultimately show ?thesis unfolding step IH by simp
  next
    case False
    have "wc_name (case m (wc_name c) of None \<Rightarrow> zero_wconn | Some x \<Rightarrow> x) \<noteq> []" if "m (wc_name c) \<noteq> None"
      using that Cons.prems by auto
    then have "manifest_names m (c # cs) = None" using False by (auto simp: conn_ok_def)
    then show ?thesis using False by auto
  qed
qed (simp add: names_map_def)

lemma names_map_lookup:
  assumes "distinct (map wc_name cs)"
  shows "names_map Map.empty cs n = Some c \<longleftrightarrow> c \<in> set cs \<and> wc_name c = n"
proof -
  have "distinct (map fst (rev (map (\<lambda>c. (wc_name c, c)) cs)))" using assms by (simp add: o_def rev_map [symmetric])
  then show ?thesis unfolding names_map_def
    by (auto simp: map_of_eq_Some_iff)
qed

lemma last_named_unique:
  assumes "distinct (map wc_name cs)" "c \<in> set cs"
  shows "last_named (wc_name c) cs = c"
proof -
  have notin: "fold (\<lambda>c best. if wc_name c = n then c else best) ds b = b" if "n \<notin> wc_name ` set ds" for n ds b
    using that by (induction ds arbitrary: b) auto
  from assms(2) obtain as bs where cs: "cs = as @ c # bs" by (meson split_list)
  with assms(1) have "wc_name c \<notin> wc_name ` set bs" by auto
  with notin show ?thesis by (simp add: last_named_def cs)
qed

lemma last_named_mem: "last_named n cs = zero_wconn \<or> (last_named n cs \<in> set cs \<and> wc_name (last_named n cs) = n)"
proof -
  have "fold (\<lambda>c best. if wc_name c = n then c else best) cs b = b \<or>
      (fold (\<lambda>c best. if wc_name c = n then c else best) cs b \<in> set cs \<and>
       wc_name (fold (\<lambda>c best. if wc_name c = n then c else best) cs b) = n)" for b
  proof (induction cs arbitrary: b)
    case (Cons a cs)
    show ?case using Cons.IH [of a] Cons.IH [of b] by (cases "wc_name a = n") auto
  qed simp
  then show ?thesis by (simp add: last_named_def)
qed

definition pair_ok :: "wconn list \<Rightarrow> wpair \<Rightarrow> bool" where
  "pair_ok cs p \<longleftrightarrow> (\<exists>s \<in> set cs. \<exists>d \<in> set cs. wc_name s = wp_source p \<and> wc_name d = wp_sink p
     \<and> wc_can_read s \<and> wc_can_write d \<and> wp_source p \<noteq> wp_sink p \<and> wc_resource s \<noteq> wc_resource d)
     \<and> 1 \<le> wp_dimension p \<and> wp_dimension p \<le> 65536"

lemma pair_bad_iff:
  assumes "distinct (map wc_name cs)"
  shows "\<not> pair_bad (names_map Map.empty cs) p \<longleftrightarrow> pair_ok cs p"
proof -
  let ?m = "names_map Map.empty cs"
  have uniq: "\<And>a b. a \<in> set cs \<Longrightarrow> b \<in> set cs \<Longrightarrow> wc_name a = wc_name b \<Longrightarrow> a = b"
    using assms by (auto simp: distinct_map inj_on_def)
  show ?thesis
  proof (cases "?m (wp_source p)"; cases "?m (wp_sink p)")
    fix s d assume sd: "?m (wp_source p) = Some s" "?m (wp_sink p) = Some d"
    then have mem: "s \<in> set cs" "wc_name s = wp_source p" "d \<in> set cs" "wc_name d = wp_sink p"
      using names_map_lookup [OF assms] by auto
    have src: "a = s" if "a \<in> set cs" "wc_name a = wp_source p" for a using that uniq mem by simp
    have dst: "a = d" if "a \<in> set cs" "wc_name a = wp_sink p" for a using that uniq mem by simp
    let ?Q = "\<lambda>a b. wc_can_read a \<and> wc_can_write b \<and> wp_source p \<noteq> wp_sink p \<and> wc_resource a \<noteq> wc_resource b"
    have "(\<exists>a \<in> set cs. \<exists>b \<in> set cs. wc_name a = wp_source p \<and> wc_name b = wp_sink p \<and> ?Q a b) \<longleftrightarrow> ?Q s d"
    proof
      assume "\<exists>a \<in> set cs. \<exists>b \<in> set cs. wc_name a = wp_source p \<and> wc_name b = wp_sink p \<and> ?Q a b"
      then obtain a b where ab: "a \<in> set cs" "b \<in> set cs" "wc_name a = wp_source p" "wc_name b = wp_sink p" "?Q a b" by blast
      from src [OF ab(1,3)] dst [OF ab(2,4)] ab(5) show "?Q s d" by simp
    qed (use mem in blast)
    then show ?thesis using sd by (simp add: pair_bad_def pair_ok_def lookup_conn_def Let_def not_less) blast
  next
    fix s assume sd: "?m (wp_source p) = Some s" "?m (wp_sink p) = None"
    then have "\<nexists>d. d \<in> set cs \<and> wc_name d = wp_sink p" using names_map_lookup [OF assms] by (metis option.distinct(1))
    then show ?thesis using sd by (auto simp: pair_bad_def pair_ok_def lookup_conn_def Let_def zero_wconn_def)
  next
    assume sd: "?m (wp_source p) = None" "?m (wp_sink p) = None"
    then have "\<nexists>d. d \<in> set cs \<and> wc_name d = wp_sink p" using names_map_lookup [OF assms] by (metis option.distinct(1))
    then show ?thesis using sd by (auto simp: pair_bad_def pair_ok_def lookup_conn_def Let_def zero_wconn_def)
  next
    fix d assume sd: "?m (wp_source p) = None" "?m (wp_sink p) = Some d"
    then have "\<nexists>s. s \<in> set cs \<and> wc_name s = wp_source p" using names_map_lookup [OF assms] by (metis option.distinct(1))
    then show ?thesis using sd by (auto simp: pair_bad_def pair_ok_def lookup_conn_def Let_def zero_wconn_def)
  qed
qed

definition manifest_ok :: "manifest \<Rightarrow> bool" where
  "manifest_ok m \<longleftrightarrow> 1 \<le> length (mf_connections m) \<and> length (mf_connections m) \<le> 50
     \<and> 1 \<le> length (mf_pairs m) \<and> length (mf_pairs m) \<le> 100
     \<and> list_all conn_ok (mf_connections m) \<and> distinct (map wc_name (mf_connections m))
     \<and> list_all (pair_ok (mf_connections m)) (mf_pairs m)"

lemma validate_manifest_iff: "validate_manifest m = Inr () \<longleftrightarrow> manifest_ok m"
proof (cases "list_all conn_ok (mf_connections m) \<and> distinct (map wc_name (mf_connections m))")
  case True
  then have "manifest_names Map.empty (mf_connections m) = Some (names_map Map.empty (mf_connections m))"
    using manifest_names_iff [of Map.empty "mf_connections m"] by simp
  moreover have "list_ex (pair_bad (names_map Map.empty (mf_connections m))) (mf_pairs m) \<longleftrightarrow>
      \<not> list_all (pair_ok (mf_connections m)) (mf_pairs m)"
    using pair_bad_iff [of "mf_connections m"] True by (auto simp: list_ex_iff list_all_iff)
  ultimately show ?thesis using True by (auto simp: validate_manifest_def manifest_ok_def Suc_le_eq)
next
  case False
  then have "manifest_names Map.empty (mf_connections m) = None"
    using manifest_names_iff [of Map.empty "mf_connections m"] by auto
  then show ?thesis using False by (auto simp: validate_manifest_def manifest_ok_def)
qed

subsection \<open>Limits\<close>

definition live :: "owner option \<Rightarrow> workers \<Rightarrow> string set" where
  "live owner ws = {k. \<exists>e. ws_entries ws k = Some e \<and> w_owner e = owner \<and> \<not> w_revoked e}"

definition within_limits :: "workers \<Rightarrow> bool" where
  "within_limits ws \<longleftrightarrow> finite (dom (ws_entries ws)) \<and> card (dom (ws_entries ws)) \<le> 1000
     \<and> (\<forall>owner. card (live owner ws) \<le> 20)"

lemma live_subset: "live owner ws \<subseteq> dom (ws_entries ws)"
  by (auto simp: live_def)

lemma live_count_card:
  assumes "range_order ks (ws_entries ws)"
  shows "live_count ks owner ws = card (live owner ws)"
proof -
  have d: "distinct ks" "set ks = dom (ws_entries ws)" using assms by (simp_all add: range_order_def)
  have "length (filter P (range_vals ls m)) = length (filter (\<lambda>k. \<exists>e. m k = Some e \<and> P e) ls)"
    for P and ls :: "string list" and m :: "string \<rightharpoonup> worker"
    by (induction ls) (auto simp: range_vals_Cons split: option.split)
  then have "live_count ks owner ws = length (filter (\<lambda>k. k \<in> live owner ws) ks)"
    by (simp add: live_count_def live_def)
  also have "\<dots> = card (live owner ws \<inter> set ks)" using d(1) by (simp add: distinct_length_filter)
  also have "live owner ws \<inter> set ks = live owner ws" using live_subset d(2) by blast
  finally show ?thesis .
qed

lemma evolve_limits:
  assumes "within_limits ws" "entries_evolve ws ws'"
  shows "within_limits ws'"
proof -
  have sub: "live owner ws' \<subseteq> live owner ws" for owner
    using assms(2) by (auto simp: entries_evolve_def live_def w_evolves_def split: if_splits)
  have dom: "dom (ws_entries ws') = dom (ws_entries ws)"
    using assms(2) unfolding entries_evolve_def by (elim disjE exE conjE) (simp_all add: insert_absorb domI)
  have "card (live owner ws') \<le> 20" for owner
  proof -
    have "finite (live owner ws)" using assms(1) live_subset by (auto simp: within_limits_def intro: finite_subset)
    with sub have "card (live owner ws') \<le> card (live owner ws)" by (rule card_mono [rotated])
    also have "\<dots> \<le> 20" using assms(1) by (simp add: within_limits_def)
    finally show ?thesis .
  qed
  with assms(1) show ?thesis by (simp add: within_limits_def dom)
qed

lemma wstep_limits:
  assumes "wstep sha verify ws ws'" "within_limits ws"
  shows "within_limits ws'"
  using assms(1)
proof (cases rule: wstep_cases)
  case evolve
  with assms(2) show ?thesis by (rule evolve_limits)
next
  case (add ks now tb ib owner name)
  have fin: "finite (dom (ws_entries ws))" using assms(2) by (simp add: within_limits_def)
  have "card (dom (ws_entries ws)) < 1000"
    using add(4) length_range_order [OF add(1)] by simp
  moreover have "dom (ws_entries ws') = insert (random_id ib) (dom (ws_entries ws))" by (simp add: add(5))
  moreover have "card (live w ws') \<le> 20" for w
  proof (cases "w = owner")
    case True
    have "live w ws' \<subseteq> insert (random_id ib) (live w ws)" by (auto simp: live_def add(5))
    moreover have "finite (live w ws)" using fin live_subset finite_subset by blast
    ultimately have "card (live w ws') \<le> card (insert (random_id ib) (live w ws))" "finite (live w ws)"
      by (simp_all add: card_mono)
    then have "card (live w ws') \<le> Suc (card (live w ws))"
      by (simp add: card_insert_if split: if_splits)
    with add(3) live_count_card [OF add(1)] True show ?thesis by simp
  next
    case False
    then have "live w ws' \<subseteq> live w ws" by (auto simp: live_def add(5) split: if_splits)
    moreover have "finite (live w ws)" using fin live_subset finite_subset by blast
    ultimately have "card (live w ws') \<le> card (live w ws)" by (simp add: card_mono)
    with assms(2) show ?thesis by (meson le_trans within_limits_def)
  qed
  ultimately show ?thesis using fin by (simp add: within_limits_def card_insert_if)
qed

end
