(* ===== verification/Workers_Properties.thy ===== *)
theory Workers_Properties
  imports Workers_Facts Store_Properties
begin

section \<open>Properties of the worker registry\<close>

text \<open>
  Authentication, revocation, enrollment, limits and manifests of customer workers, as the control
  plane relies on them. SHA-256, signature verification and the random source are parameters of the
  registry, and every statement holds for all of them.
\<close>

subsection \<open>A registry for the witnesses\<close>

definition no_workers :: workers where
  "no_workers = \<lparr>ws_entries = Map.empty, ws_challenges = Map.empty, ws_sessions = Map.empty,
     ws_poison = None, ws_disk = Map.empty\<rparr>"

text \<open>The base64 text of 32 zero bytes.\<close>

definition demo_key :: string where
  "demo_key = replicate 43 (CHR ''A'') @ ''=''"

definition demo_worker :: worker where
  "demo_worker = zero_worker\<lparr>w_id := ''w'', w_name := ''n'', w_public_key := demo_key\<rparr>"

definition demo_workers :: workers where
  "demo_workers = no_workers\<lparr>ws_entries := [''w'' \<mapsto> demo_worker],
     ws_challenges := [''c'' \<mapsto> \<lparr>wss_worker = ''w'', wss_until = 100\<rparr>],
     ws_sessions := [''68'' \<mapsto> \<lparr>wss_worker = ''w'', wss_until = 100\<rparr>]\<rparr>"

lemma demo_key_bytes: "\<exists>p. b64_decode demo_key = Some p \<and> length p = 32"
proof -
  have "map_option length (b64_decode demo_key) = Some 32" by code_simp
  then show ?thesis by (cases "b64_decode demo_key") auto
qed

subsection \<open>Properties\<close>

text \<open>C7: A session needs proof of the key. A session token is given only for a challenge that was issued
  to that worker and has not expired, when the worker is enrolled and not revoked and the signature
  of the domain-separated proof verifies under its key; the challenge is used up, and the worker is
  left with that one session.\<close>

theorem session_sound:
  assumes "ws_session sha verify now now2 rnd wid challenge signature ws = (Inr token, ws')"
  shows "\<exists>ch pub sig. ws_challenges ws challenge = Some ch \<and> wss_worker ch = wid \<and> now \<le> wss_until ch
     \<and> (\<exists>e. ws_entries ws wid = Some e \<and> \<not> w_revoked e \<and> b64_decode (w_public_key e) = Some pub)
     \<and> length pub = 32 \<and> b64_decode signature = Some sig \<and> verify pub (session_proof wid challenge) sig
     \<and> ws_challenges ws' challenge = None
     \<and> (\<forall>k s. ws_sessions ws' k = Some s \<and> wss_worker s = wid \<longrightarrow>
          k = token_digest sha token \<and> wss_until s = now2 + 600 * second)"
proof -
  define e where "e = (case ws_entries ws wid of None \<Rightarrow> zero_worker | Some x \<Rightarrow> x)"
  define pub where "pub = (case b64_decode (w_public_key e) of None \<Rightarrow> [] | Some p \<Rightarrow> p)"
  obtain ch sig where ch: "ws_challenges ws challenge = Some ch" and sig: "b64_decode signature = Some sig"
    using assms by (cases "ws_challenges ws challenge"; cases "b64_decode signature")
      (auto simp: ws_session_def Let_def split: if_splits)
  have ok: "wss_worker ch = wid" "now \<le> wss_until ch" "\<not> w_revoked e" "length pub = 32"
      "verify pub (session_proof wid challenge) sig"
    and ws': "ws' = (ws\<lparr>ws_challenges := (ws_challenges ws)(challenge := None)\<rparr>)\<lparr>ws_sessions :=
        (drop_stale now2 wid (ws_sessions ws))(token_digest sha token \<mapsto> \<lparr>wss_worker = wid, wss_until = now2 + 600 * second\<rparr>)\<rparr>"
    using assms ch sig by (auto simp: ws_session_def Let_def e_def [symmetric] pub_def [symmetric] split: if_splits)
  have pub: "b64_decode (w_public_key e) = Some pub" using ok(4) by (auto simp: pub_def split: option.splits)
  have "b64_decode [] = Some []" by (simp add: b64_decode_def)
  with pub ok(4) have "e \<noteq> zero_worker" by (auto simp: zero_worker_def)
  then have entry: "ws_entries ws wid = Some e" by (auto simp: e_def split: option.splits)
  have single: "k = token_digest sha token \<and> wss_until s = now2 + 600 * second"
    if "ws_sessions ws' k = Some s" "wss_worker s = wid" for k s
    using that by (auto simp: ws' drop_stale_def stale_def split: if_splits option.splits)
      (metis wsession.select_convs(2))
  have "ws_challenges ws' challenge = None" by (simp add: ws')
  with ch sig ok pub entry single show ?thesis by blast
qed

theorem session_sound_witness:
  "\<exists>token ws'. ws_session demo_sha (\<lambda>_ _ _. True) 0 0 ''t'' ''w'' ''c'' ''AAAA'' demo_workers = (Inr token, ws')
     \<and> ws_challenges ws' ''c'' = None"
proof -
  obtain p where p: "b64_decode demo_key = Some p" "length p = 32" using demo_key_bytes by blast
  have s: "b64_decode ''AAAA'' = Some (b64_bytes 0 0 0 0)" by code_simp
  have "\<exists>ws'. ws_session demo_sha (\<lambda>_ _ _. True) 0 0 ''t'' ''w'' ''c'' ''AAAA'' demo_workers = (Inr (random_id ''t''), ws')"
    by (simp add: ws_session_def demo_workers_def no_workers_def demo_worker_def zero_worker_def p s Let_def)
  then obtain ws' where r: "ws_session demo_sha (\<lambda>_ _ _. True) 0 0 ''t'' ''w'' ''c'' ''AAAA'' demo_workers = (Inr (random_id ''t''), ws')"
    by blast
  from session_sound [OF r] r show ?thesis by blast
qed

text \<open>Revocation is permanent. After a worker has been revoked, whatever operations follow, its
  session tokens are refused, it cannot be looked up, enrolled or challenged, and it can neither
  publish nor report in.\<close>

theorem revocation_permanent:
  assumes "ws_entries ws wid = Some e" "w_revoked e" "(wstep sha verify)\<^sup>*\<^sup>* ws ws'"
  shows "(\<forall>s. ws_sessions ws' (token_digest sha token) = Some s \<and> wss_worker s = wid \<longrightarrow>
       (\<forall>x. ws_authenticate sha now token ws' \<noteq> Inr x))
     \<and> (\<forall>x. ws_get wid owner ws' \<noteq> Inr x) \<and> (\<forall>x. fst (ws_enroll sha out now wid tok key ws') \<noteq> Inr x)
     \<and> (\<forall>x. fst (ws_challenge ks now rnd wid ws') \<noteq> Inr x)
     \<and> (\<forall>x. fst (ws_session sha verify now now2 rnd wid ch sig ws') \<noteq> Inr x)
     \<and> (\<forall>x. fst (ws_publish out now wid m ws') \<noteq> Inr x) \<and> (\<forall>x. fst (ws_touch out now wid ws') \<noteq> Inr x)"
proof -
  obtain e' where e': "ws_entries ws' wid = Some e'" "w_evolves e e'"
    using worker_history.run_ev [OF assms(3,1)] by blast
  with assms(2) have rev: "w_revoked e'" by (simp add: w_evolves_def)
  have "\<forall>x. fst (ws_session sha verify now now2 rnd wid ch sig ws') \<noteq> Inr x"
    using e'(1) rev by (auto simp: ws_session_def Let_def split: option.splits)
  moreover have "\<forall>x. fst (ws_publish out now wid m ws') \<noteq> Inr x"
    using e'(1) rev by (auto simp: ws_publish_def split: sum.splits)
  moreover have "\<forall>x. fst (ws_enroll sha out now wid tok key ws') \<noteq> Inr x"
    using e'(1) rev by (auto simp: ws_enroll_def split: option.splits)
  ultimately show ?thesis
    using e'(1) rev by (auto simp: ws_authenticate_def ws_get_def ws_challenge_def ws_touch_def Let_def)
qed

theorem revocation_permanent_witness:
  "\<forall>x. ws_get ''w'' None (demo_workers\<lparr>ws_entries := [''w'' \<mapsto> demo_worker\<lparr>w_revoked := True\<rparr>]\<rparr>) \<noteq> Inr x"
proof -
  let ?ws = "demo_workers\<lparr>ws_entries := [''w'' \<mapsto> demo_worker\<lparr>w_revoked := True\<rparr>]\<rparr>"
  have e: "ws_entries ?ws ''w'' = Some (demo_worker\<lparr>w_revoked := True\<rparr>)" by simp
  have r: "w_revoked (demo_worker\<lparr>w_revoked := True\<rparr>)" by simp
  from revocation_permanent [OF e r rtranclp.rtrancl_refl] show ?thesis by blast
qed

text \<open>Enrollment binds one key. Once an enrollment has succeeded, no later enrollment with another
  key succeeds, with any token at any time, and a retry with the same key succeeds as long as the
  worker is not revoked and the registry is healthy.\<close>

theorem enrollment_binds_key:
  assumes "ws_enroll sha out now wid token key ws = (Inr (), ws1)" "(wstep sha verify)\<^sup>*\<^sup>* ws1 ws2"
  shows "(key' \<noteq> key \<longrightarrow> fst (ws_enroll sha out2 now2 wid token2 key' ws2) \<noteq> Inr ())
     \<and> (\<exists>e. ws_entries ws2 wid = Some e \<and> w_public_key e = key \<and>
         (\<not> w_revoked e \<and> ws_poison ws2 = None \<longrightarrow> ws_enroll sha out2 now2 wid token2 key ws2 = (Inr (), ws2)))"
proof -
  obtain e pub where e: "ws_entries ws wid = Some e" and pub: "b64_decode key = Some pub" "length pub = 32"
    and cases: "(w_public_key e = key \<and> ws1 = ws) \<or>
      (ws_put out wid (e\<lparr>w_public_key := key, w_enrollment_hash := []\<rparr>) ws = (Inr (), ws1))"
    using assms(1) by (auto simp: ws_enroll_def split: option.splits if_splits)
  have "b64_decode [] = Some []" by (simp add: b64_decode_def)
  with pub have ne: "key \<noteq> []" by auto
  have "\<exists>e1. ws_entries ws1 wid = Some e1 \<and> w_public_key e1 = key"
    using cases e ws_put_entries [of out wid "e\<lparr>w_public_key := key, w_enrollment_hash := []\<rparr>" ws] by auto
  then obtain e1 where e1: "ws_entries ws1 wid = Some e1" "w_public_key e1 = key" by blast
  obtain e2 where e2: "ws_entries ws2 wid = Some e2" "w_evolves e1 e2"
    using worker_history.run_ev [OF assms(2) e1(1)] by blast
  have k: "w_public_key e2 = key" using e1(2) e2(2) ne by (simp add: w_evolves_def)
  have "fst (ws_enroll sha out2 now2 wid token2 key' ws2) \<noteq> Inr ()" if "key' \<noteq> key"
    using that k e2(1) ne by (auto simp: ws_enroll_def split: option.splits)
  moreover have "\<not> w_revoked e2 \<and> ws_poison ws2 = None \<longrightarrow> ws_enroll sha out2 now2 wid token2 key ws2 = (Inr (), ws2)"
    using k e2(1) pub by (simp add: ws_enroll_def)
  ultimately show ?thesis using e2(1) k by blast
qed

theorem enrollment_binds_key_witness:
  "fst (ws_enroll demo_sha SaveOk 0 ''w'' ''t'' ''AAAA'' demo_workers) \<noteq> Inr ()"
proof -
  obtain p where p: "b64_decode demo_key = Some p" "length p = 32" using demo_key_bytes by blast
  have s: "ws_enroll demo_sha SaveOk 0 ''w'' ''t'' demo_key demo_workers = (Inr (), demo_workers)"
    by (simp add: ws_enroll_def demo_workers_def no_workers_def demo_worker_def zero_worker_def p)
  have ne: "''AAAA'' \<noteq> demo_key" by code_simp
  from enrollment_binds_key [OF s rtranclp.rtrancl_refl [of "wstep demo_sha (\<lambda>_ _ _. True)"], of "''AAAA''"] ne
  show ?thesis by blast
qed

text \<open>Registration stays within its limits. Whatever operations run on a fresh registry, no owner has
  more than 20 workers that are not revoked, and the registry never holds more than 1000 entries.\<close>

theorem worker_limits:
  assumes "(wstep sha verify)\<^sup>*\<^sup>* no_workers ws"
  shows "card (dom (ws_entries ws)) \<le> 1000 \<and> card (live owner ws) \<le> 20"
proof -
  have "within_limits no_workers" by (simp add: within_limits_def no_workers_def live_def)
  with assms have "within_limits ws" by (induction rule: rtranclp_induct) (auto intro: wstep_limits)
  then show ?thesis by (simp add: within_limits_def)
qed

theorem worker_limits_witness:
  "\<exists>ws. wstep demo_sha (\<lambda>_ _ _. True) no_workers ws \<and> ws_entries ws \<noteq> Map.empty \<and> card (live None ws) \<le> 20"
proof -
  obtain r ws where c: "ws_create demo_sha SaveOk [] 0 0 ''t'' ''i'' None ''n'' no_workers = (r, ws)" by force
  have name: "match_name ''n''" by code_simp
  have e: "ws_entries ws \<noteq> Map.empty"
    using c by (simp add: ws_create_def name no_workers_def Let_def ws_save_def) auto
  have s: "wstep demo_sha (\<lambda>_ _ _. True) no_workers ws"
    using c by (rule wstep.Create) (simp_all add: no_workers_def)
  from worker_limits [OF r_into_rtranclp [of "wstep demo_sha (\<lambda>_ _ _. True)", OF s], of None] s e show ?thesis by blast
qed

text \<open>C11: A manifest is accepted exactly when it is well formed: 1 to 50 connections with valid, distinct
  names and digests, and 1 to 100 pairs, each from a declared readable connection to another
  declared, writable one on a different resource with a dimension between 1 and 65536.\<close>

theorem manifest_accepted_iff:
  "validate_manifest m = Inr () \<longleftrightarrow>
     length (mf_connections m) \<in> {1..50} \<and> length (mf_pairs m) \<in> {1..100}
     \<and> list_all conn_ok (mf_connections m) \<and> distinct (map wc_name (mf_connections m))
     \<and> list_all (pair_ok (mf_connections m)) (mf_pairs m)"
  by (auto simp: validate_manifest_iff manifest_ok_def)

text \<open>What a published manifest approves is safe to run. When the connections of a worker with an
  accepted manifest are asked for a job, the answer is a declared readable source and a declared
  writable destination with the names of the job, on different resources, and the job's dimension
  is one of an approved pair.\<close>

theorem approved_connections_sound:
  assumes "validate_manifest (w_manifest e) = Inr ()" "worker_connections e spec = Inr (src, dst)"
  shows "src \<in> set (mf_connections (w_manifest e)) \<and> dst \<in> set (mf_connections (w_manifest e))
     \<and> wc_name src = sp_source spec \<and> wc_name dst = sp_sink spec \<and> wc_can_read src \<and> wc_can_write dst
     \<and> wc_resource src \<noteq> wc_resource dst \<and> sp_source spec \<noteq> sp_sink spec
     \<and> 1 \<le> sp_dimension spec \<and> sp_dimension spec \<le> 65536"
proof -
  let ?cs = "mf_connections (w_manifest e)"
  have ok: "manifest_ok (w_manifest e)" using assms(1) by (simp add: validate_manifest_iff)
  have sd: "src = last_named (sp_source spec) ?cs" "dst = last_named (sp_sink spec) ?cs"
    and "list_ex (pair_approves spec src dst) (mf_pairs (w_manifest e))"
    using assms(2) by (auto simp: worker_connections_def Let_def split: if_splits)
  then obtain p where p: "p \<in> set (mf_pairs (w_manifest e))" "pair_approves spec src dst p" by (auto simp: list_ex_iff)
  with ok have "pair_ok ?cs p" by (simp add: manifest_ok_def list_all_iff)
  then obtain s d where s: "s \<in> set ?cs" "d \<in> set ?cs" "wc_name s = wp_source p" "wc_name d = wp_sink p"
      "wc_can_read s" "wc_can_write d" "wp_source p \<noteq> wp_sink p" "wc_resource s \<noteq> wc_resource d"
      "1 \<le> wp_dimension p" "wp_dimension p \<le> 65536" by (auto simp: pair_ok_def)
  have dist: "distinct (map wc_name ?cs)" using ok by (simp add: manifest_ok_def)
  have "src = s" "dst = d"
    using last_named_unique [OF dist s(1)] last_named_unique [OF dist s(2)] p(2) s(3,4)
    by (simp_all add: sd pair_approves_def)
  with s p(2) show ?thesis by (simp add: pair_approves_def)
qed

definition demo_manifest :: manifest where
  "demo_manifest = \<lparr>mf_connections =
     [\<lparr>wc_name = ''a'', wc_kind = ''k'', wc_can_read = True, wc_can_write = False,
        wc_fingerprint = replicate 64 (CHR ''a''), wc_resource = replicate 64 (CHR ''b'')\<rparr>,
      \<lparr>wc_name = ''b'', wc_kind = ''k'', wc_can_read = False, wc_can_write = True,
        wc_fingerprint = replicate 64 (CHR ''c''), wc_resource = replicate 64 (CHR ''d'')\<rparr>],
     mf_pairs = [\<lparr>wp_source = ''a'', wp_sink = ''b'', wp_dimension = 2\<rparr>]\<rparr>"

theorem approved_connections_sound_witness:
  "\<exists>src dst. worker_connections (demo_worker\<lparr>w_manifest := demo_manifest\<rparr>) demo_spec = Inr (src, dst)
     \<and> wc_name src = ''a'' \<and> wc_name dst = ''b'' \<and> wc_resource src \<noteq> wc_resource dst"
proof -
  have v: "validate_manifest (w_manifest (demo_worker\<lparr>w_manifest := demo_manifest\<rparr>)) = Inr ()" by code_simp
  obtain src dst where c: "worker_connections (demo_worker\<lparr>w_manifest := demo_manifest\<rparr>) demo_spec = Inr (src, dst)"
    by (simp add: worker_connections_def demo_manifest_def demo_spec_def last_named_def Let_def pair_approves_def)
  from approved_connections_sound [OF v c] c show ?thesis by (simp add: demo_spec_def)
qed

end
