(* ===== verification/Customer_Properties.thy ===== *)
theory Customer_Properties
  imports Customer_Worker Engine_Properties Worker_Jobs_Properties Workers_Properties
begin

section \<open>Properties of the customer's worker\<close>

text \<open>
  What the worker runs is what its own operator paired, and it stops before the lease it holds ends.
\<close>

subsection \<open>Only approved transfers run\<close>

lemma offered_name [simp]: "wc_name (offered_connection ky i b) = b_name b"
  by (simp add: offered_connection_def)

lemma offered_binding:
  assumes "worker_manifest ky i ks reg pairs = Inr m" "range_order ks reg" "\<And>k b. reg k = Some b \<Longrightarrow> b_name b = k"
    and "c \<in> set (mf_connections m)"
  obtains b where "reg (wc_name c) = Some b" "c = offered_connection ky i b"
proof -
  have "mf_connections m = map (offered_connection ky i) (filter (\<lambda>b. b_name b \<in> set (map wp_source pairs @ map wp_sink pairs)) (registry_list ks reg))"
    using assms(1) by (auto simp: worker_manifest_def Let_def split: sum.splits)
  with assms(4) obtain b where b: "b \<in> set (registry_list ks reg)" "c = offered_connection ky i b" by auto
  then have "b \<in> ran reg" using set_range_order [OF assms(2)] by (simp add: registry_list_def)
  then obtain k where "reg k = Some b" by (auto simp: ran_def)
  with assms(3) b that show thesis by simp
qed

lemma manifest_pairs:
  "worker_manifest ky i ks reg pairs = Inr m \<Longrightarrow> mf_pairs m = pairs \<and> validate_manifest m = Inr ()"
  by (auto simp: worker_manifest_def Let_def split: sum.splits)

lemma prepare_keyed:
  assumes "prepare_worker_job sha io created a sf kf res st = (Inr j, st')" "keyed (s_jobs st)" "wa_id a \<noteq> []"
  shows "keyed (s_jobs st') \<and> s_jobs st' (wa_id a) = Some j \<and> j_id j = wa_id a"
proof -
  have k: "j_id i = wa_id a" if "s_jobs st (wa_id a) = Some i" for i using keyedD [OF assms(2) that] by simp
  have put: "keyed ((s_jobs st)(wa_id a \<mapsto> i))" if "j_id i = wa_id a" for i using assms(2,3) that by (simp add: keyed_def)
  from assms(1) show ?thesis
    using assms(2) k put by (auto simp: prepare_worker_job_def Let_def resumed_job_def dest!: store_append_Inr(3)
        split: option.splits if_splits sum.splits prod.splits)
qed

lemma cancel_kept:
  assumes "job_action sha io jid ''cancel'' actor st = (Inr j, st')" "keyed (s_jobs st)" "s_jobs st jid = Some i"
  shows "frozen i j \<and> progress j = progress i \<and> j_last_checkpoint_at j = j_last_checkpoint_at i \<and> j_generation j = j_generation i"
proof -
  have fr: "\<And>j j'. action_fn ''cancel'' j = Inr j' \<Longrightarrow> frozen j j'" by (blast dest: action_fn_Inr)
  from update_jobs [OF assms(1) [unfolded job_action_def] assms(2) fr] obtain j' where
    j': "action_fn ''cancel'' i = Inr j'" "j = j'\<lparr>j_updated_at := io_now io\<rparr>" using assms(3) by auto
  then show ?thesis
    by (auto simp: action_fn_def cancel_fn_def Let_def frozen_def progress_def split: if_splits)
qed

text \<open>What a job that is started has passed.\<close>

lemma start_job_Started:
  assumes "start_job sha io1 io2 created wid reg m a st = (Started j run, st')" "keyed (s_jobs st)"
  obtains src dst i st1 where "valid_assignment a wid"
    "worker_connections (worker_of_manifest m) (wa_spec a) = Inr (src, dst)"
    "wc_fingerprint src = wa_source_fp a" "wc_fingerprint dst = wa_sink_fp a"
    "prepare_worker_job sha io1 created a (b_fingerprint (lookup_binding reg (sp_source (wa_spec a))))
       (b_fingerprint (lookup_binding reg (sp_sink (wa_spec a)))) (b_resource (lookup_binding reg (sp_sink (wa_spec a)))) st = (Inr i, st1)"
    "frozen i j" "progress j = progress i" "j_last_checkpoint_at j = j_last_checkpoint_at i" "j_generation j = j_generation i"
proof -
  let ?s = "lookup_binding reg (sp_source (wa_spec a))" and ?d = "lookup_binding reg (sp_sink (wa_spec a))"
  have v: "valid_assignment a wid" using assms(1) by (auto simp: start_job_def split: if_splits)
  from assms(1) v obtain src dst where c: "worker_connections (worker_of_manifest m) (wa_spec a) = Inr (src, dst)"
    by (auto simp: start_job_def split: sum.splits)
  with assms(1) v have fp: "wc_fingerprint src = wa_source_fp a" "wc_fingerprint dst = wa_sink_fp a"
    by (auto simp: start_job_def split: if_splits)
  obtain q st1 where p: "prepare_worker_job sha io1 created a (b_fingerprint ?s) (b_fingerprint ?d) (b_resource ?d) st = (q, st1)"
    by fastforce
  with assms(1) v c fp obtain i where q: "q = Inr i" by (cases q) (auto simp: start_job_def split: if_splits)
  have "wa_id a \<noteq> []" using v by (auto simp: valid_assignment_def)
  note k = prepare_keyed [OF p [unfolded q] assms(2) this]
  let ?stop = "wa_cancel_requested a \<and> (j_state i = ''queued'' \<or> j_state i = ''retry_wait'')"
  have "frozen i j \<and> progress j = progress i \<and> j_last_checkpoint_at j = j_last_checkpoint_at i \<and> j_generation j = j_generation i"
  proof (cases ?stop)
    case True
    obtain q2 st2 where a: "job_action sha io2 (j_id i) ''cancel'' ''control-plane'' st1 = (q2, st2)" by fastforce
    have "q2 = Inr j" using assms(1) v c fp p q True a by (auto simp: start_job_def Let_def split: sum.splits)
    with a k cancel_kept show ?thesis by metis
  next
    case False
    then have "j = i" using assms(1) v c fp p q by (auto simp: start_job_def)
    then show ?thesis by simp
  qed
  with v c fp p q that show thesis by blast
qed

text \<open>C31: A customer's worker only runs what its own operator paired, whatever the control plane assigns:
  the pair and its dimension are in the local configuration, the source is a local connection that can
  be read and the sink one that can be written, both are the very connections the job was submitted
  for, and the local job starts from a checkpoint that is not behind what was reported.\<close>

theorem worker_runs_only_approved:
  assumes "worker_manifest ky i ks reg pairs = Inr m" "range_order ks reg" "\<And>k b. reg k = Some b \<Longrightarrow> b_name b = k"
    and "start_job sha io1 io2 created wid reg m a st = (Started j run, st')" "keyed (s_jobs st)"
  shows "sp_worker_id (wa_spec a) = wid \<and> j_spec j = (wa_spec a)\<lparr>sp_worker_id := []\<rparr>
     \<and> (\<exists>p \<in> set pairs. wp_source p = sp_source (j_spec j) \<and> wp_sink p = sp_sink (j_spec j) \<and> wp_dimension p = sp_dimension (j_spec j))
     \<and> (\<exists>s d. reg (sp_source (j_spec j)) = Some s \<and> reg (sp_sink (j_spec j)) = Some d \<and> b_source s \<noteq> None \<and> b_sink d \<noteq> None
          \<and> wa_source_fp a = opaque ky i (b_fingerprint s) \<and> wa_sink_fp a = opaque ky i (b_fingerprint d)
          \<and> j_source_fp j = b_fingerprint s \<and> j_sink_fp j = b_fingerprint d)
     \<and> wa_records a \<le> j_records j \<and> wa_batches a \<le> j_batches j \<and> (wa_checkpoint a \<longrightarrow> j_last_checkpoint_at j \<noteq> None)
     \<and> j_generation j = wa_generation a"
proof -
  obtain src dst i' st1 where s: "valid_assignment a wid"
    "worker_connections (worker_of_manifest m) (wa_spec a) = Inr (src, dst)"
    "wc_fingerprint src = wa_source_fp a" "wc_fingerprint dst = wa_sink_fp a"
    and p: "prepare_worker_job sha io1 created a (b_fingerprint (lookup_binding reg (sp_source (wa_spec a))))
       (b_fingerprint (lookup_binding reg (sp_sink (wa_spec a)))) (b_resource (lookup_binding reg (sp_sink (wa_spec a)))) st = (Inr i', st1)"
    and fr: "frozen i' j" "progress j = progress i'" "j_last_checkpoint_at j = j_last_checkpoint_at i'" "j_generation j = j_generation i'"
    by (rule start_job_Started [OF assms(4,5)])
  have w: "w_manifest (worker_of_manifest m) = m" by (simp add: worker_of_manifest_def)
  note ok = manifest_pairs [OF assms(1)]
  have conns: "src \<in> set (mf_connections m)" "dst \<in> set (mf_connections m)" "wc_name src = sp_source (wa_spec a)"
    "wc_name dst = sp_sink (wa_spec a)" "wc_can_read src" "wc_can_write dst"
    using approved_connections_sound [of "worker_of_manifest m"] s(2) ok w by auto
  obtain bs where bs: "reg (sp_source (wa_spec a)) = Some bs" "src = offered_connection ky i bs"
    using offered_binding [OF assms(1-3) conns(1)] conns(3) by metis
  obtain bd where bd: "reg (sp_sink (wa_spec a)) = Some bd" "dst = offered_connection ky i bd"
    using offered_binding [OF assms(1-3) conns(2)] conns(4) by metis
  obtain pr where pr: "pr \<in> set pairs" "wp_source pr = sp_source (wa_spec a)" "wp_sink pr = sp_sink (wa_spec a)"
    "wp_dimension pr = sp_dimension (wa_spec a)"
    using s(2) ok w by (auto simp: worker_connections_def Let_def list_ex_iff pair_approves_def split: if_splits)
  have spec: "j_spec j = (wa_spec a)\<lparr>sp_worker_id := []\<rparr>" using prepare_never_behind [OF p assms(5)] fr(1) by (simp add: frozen_def)
  have pairs: "\<exists>p \<in> set pairs. wp_source p = sp_source (j_spec j) \<and> wp_sink p = sp_sink (j_spec j) \<and> wp_dimension p = sp_dimension (j_spec j)"
    using pr spec by auto
  have wid: "sp_worker_id (wa_spec a) = wid" using s(1) by (simp add: valid_assignment_def)
  have "b_source bs \<noteq> None" "b_sink bd \<noteq> None" "wa_source_fp a = opaque ky i (b_fingerprint bs)" "wa_sink_fp a = opaque ky i (b_fingerprint bd)"
    using conns(5,6) s(3,4) bs(2) bd(2) by (auto simp: offered_connection_def)
  with bs(1) bd(1) prepare_never_behind [OF p assms(5)] fr spec pairs wid show ?thesis
    by (auto simp: frozen_def progress_def lookup_binding_def)
qed

subsection \<open>Execution stays within the lease\<close>

lemma execute_turn_Onward:
  assumes "execute_turn sha io ky net clk canceled a jid w s (c, lst) = (Onward s', cs')" "get_job jid lst = Inr j"
  shows "active j" "wt_timer s' = tc_answered clk + max (second div 1000) (lease_span - (tc_answered clk - tc_begun clk))"
    "wt_sequence s' = wt_sequence s + 1" "tc_answered clk < wt_timer s"
  using assms by (auto simp: execute_turn_def active_def Let_def split: wake.splits option.splits sum.splits prod.splits if_splits)


subsection \<open>Instances\<close>

text \<open>An assignment of demo_worker's job with identifiers of the right form.\<close>

definition small_keys :: worker_keys where
  "small_keys = \<lparr>wk_public = \<lambda>_. replicate 32 (CHR ''p''), wk_sign = \<lambda>_ _. replicate 64 (CHR ''s''),
     wk_hmac = \<lambda>_ s. take 32 (s @ replicate 32 (CHR ''x''))\<rparr>"

definition small_identity :: identity where
  "small_identity = \<lparr>id_id = replicate 32 (CHR ''a''), id_url = ''https://t'', id_seed = ''s'', id_enrolled = True\<rparr>"

definition small_registry :: registry where
  "small_registry = [''a'' \<mapsto> zero_binding\<lparr>b_name := ''a'', b_kind := ''k'', b_fingerprint := ''f'', b_resource := ''y'', b_source := Some 0\<rparr>,
     ''b'' \<mapsto> zero_binding\<lparr>b_name := ''b'', b_kind := ''k'', b_fingerprint := ''g'', b_resource := ''z'', b_sink := Some 0\<rparr>]"

definition small_pairs :: "wpair list" where
  "small_pairs = [\<lparr>wp_source = ''a'', wp_sink = ''b'', wp_dimension = 3\<rparr>]"

definition small_spec :: spec where
  "small_spec = zero_spec\<lparr>sp_worker_id := replicate 32 (CHR ''a''), sp_name := ''n'', sp_source := ''a'', sp_sink := ''b'',
     sp_dimension := 3, sp_batch_size := 1, sp_max_attempts := 1\<rparr>"

definition small_assignment :: worker_assignment where
  "small_assignment = \<lparr>wa_id = replicate 32 (CHR ''c''), wa_spec = small_spec, wa_lease_id = replicate 64 (CHR ''d''), wa_lease_until = 9,
     wa_generation = 0, wa_records = 0, wa_batches = 0, wa_checkpoint = False, wa_source_fp = opaque small_keys small_identity ''f'',
     wa_sink_fp = opaque small_keys small_identity ''g'', wa_cancel_requested = False\<rparr>"

definition small_manifest :: manifest where
  "small_manifest = \<lparr>mf_connections = map (offered_connection small_keys small_identity) (registry_list [''a'', ''b''] small_registry),
     mf_pairs = small_pairs\<rparr>"

lemma small_manifest_made: "worker_manifest small_keys small_identity [''a'', ''b''] small_registry small_pairs = Inr small_manifest"
proof -
  have "validate_manifest small_manifest = Inr ()" by code_simp
  moreover have "filter (\<lambda>b. b_name b \<in> set [''a'', ''b'']) (registry_list [''a'', ''b''] small_registry) = registry_list [''a'', ''b''] small_registry"
    by code_simp
  ultimately show ?thesis by (simp add: worker_manifest_def small_manifest_def small_pairs_def Let_def)
qed

theorem worker_runs_only_approved_witness:
  "\<exists>j run st'. start_job demo_sha demo_io demo_io 0 (replicate 32 (CHR ''a'')) small_registry small_manifest small_assignment empty_store
       = (Started j run, st') \<and> j_source_fp j = ''f'' \<and> j_sink_fp j = ''g''"
proof -
  let ?w = "replicate 32 (CHR ''a'')"
  let ?n = "zero_job\<lparr>j_id := wa_id small_assignment, j_spec := (wa_spec small_assignment)\<lparr>sp_worker_id := []\<rparr>,
      j_generation := wa_generation small_assignment, j_state := ''queued'',
      j_created_at := 0, j_created_by := ''control-plane'', j_source_fp := ''f'', j_sink_fp := ''g'', j_sink_resource := ''z''\<rparr>"
  have v: "valid_assignment small_assignment ?w" by code_simp
  obtain src dst where c: "worker_connections (worker_of_manifest small_manifest) (wa_spec small_assignment) = Inr (src, dst)"
    "wc_fingerprint src = wa_source_fp small_assignment" "wc_fingerprint dst = wa_sink_fp small_assignment"
  proof -
    have "registry_list [''a'', ''b''] small_registry =
        [zero_binding\<lparr>b_name := ''a'', b_kind := ''k'', b_fingerprint := ''f'', b_resource := ''y'', b_source := Some 0\<rparr>,
         zero_binding\<lparr>b_name := ''b'', b_kind := ''k'', b_fingerprint := ''g'', b_resource := ''z'', b_sink := Some 0\<rparr>]" by code_simp
    with that show thesis
      by (simp add: worker_connections_def worker_of_manifest_def small_manifest_def Let_def last_named_def offered_connection_def
          small_pairs_def pair_approves_def small_assignment_def small_spec_def zero_binding_def)
  qed
  have l: "b_fingerprint (lookup_binding small_registry (sp_source (wa_spec small_assignment))) = ''f''"
    "b_fingerprint (lookup_binding small_registry (sp_sink (wa_spec small_assignment))) = ''g''"
    "b_resource (lookup_binding small_registry (sp_sink (wa_spec small_assignment))) = ''z''" by code_simp+
  have f: "\<not> wa_checkpoint small_assignment" "wa_records small_assignment = 0" "wa_batches small_assignment = 0" "\<not> wa_cancel_requested small_assignment"
    by (simp_all add: small_assignment_def)
  have io: "io_ok demo_io" by (simp add: io_ok_def demo_io_def time_ok_0)
  have t: "job_times_ok ?n" by (simp add: job_times_ok_def zero_job_def opt_time_ok_def time_ok_0)
  obtain st1 where "store_append demo_sha demo_io ?n ''submitted'' ''worker'' ''Accepted locally approved transfer'' [] empty_store = (Inr (), st1)"
    by (rule append_ok [OF empty_store_healthy io t])
  then have p: "prepare_worker_job demo_sha demo_io 0 small_assignment ''f'' ''g'' ''z'' empty_store
      = (Inr (the (s_jobs st1 (wa_id small_assignment))), st1)"
    unfolding prepare_worker_job_def Let_def using f by (simp add: empty_store_def)
  obtain j run where s: "start_job demo_sha demo_io demo_io 0 ?w small_registry small_manifest small_assignment empty_store = (Started j run, st1)"
    unfolding start_job_def Let_def using v c l f p by simp
  have r: "range_order [''a'', ''b''] small_registry" "\<And>k b. small_registry k = Some b \<Longrightarrow> b_name b = k"
    by (auto simp: small_registry_def range_order_def split: if_splits)
  have k: "keyed (s_jobs empty_store)" by (simp add: empty_store_def keyed_def)
  note w = worker_runs_only_approved [OF small_manifest_made r s k]
  then have "j_spec j = (wa_spec small_assignment)\<lparr>sp_worker_id := []\<rparr>" by blast
  then have n: "sp_source (j_spec j) = ''a''" "sp_sink (j_spec j) = ''b''" by (simp_all add: small_assignment_def small_spec_def)
  obtain x y where "small_registry ''a'' = Some x" "small_registry ''b'' = Some y" "j_source_fp j = b_fingerprint x" "j_sink_fp j = b_fingerprint y"
    using w unfolding n by blast
  then have "j_source_fp j = ''f''" "j_sink_fp j = ''g''" by (auto simp: small_registry_def)
  with s show ?thesis by blast
qed

definition progress_plane :: plane where
  "progress_plane url body token = Reply 200 ''{}''"

definition small_client :: client where
  "small_client = \<lparr>cl_identity = small_identity, cl_token = ''t'', cl_until = 100 * second, cl_disk = None\<rparr>"

definition small_turn_clock :: turn_clock where
  "small_turn_clock = \<lparr>tc_snapshot = second, tc_begun = second, tc_session = (second, second), tc_answered = 2 * second\<rparr>"

definition local_job :: job where
  "local_job = demo_worker_job\<lparr>j_state := ''running'', j_phase := ''read''\<rparr>"

definition leased_job :: job where
  "leased_job = demo_worker_job\<lparr>j_state := ''running'', j_lease_id := ''l'', j_lease_until := Some 9\<rparr>"

definition leased_clock :: report_clock where
  "leased_clock = \<lparr>rc_lease = 1, rc_checkpoint = 2, rc_until = second, rc_next = 4\<rparr>"


end
