(* ===== verification/Control_Properties.thy ===== *)
theory Control_Properties
  imports Control_Api Engine_Properties
begin

section \<open>Properties of the HTTP API\<close>

text \<open>
  Who may use the API, what a request can touch, and what it can see. \<open>foreign_data\<close> is what belongs to
  somebody else; the theorems hold for every answer of the host, with other requests of the same owner
  in between.
\<close>

subsection \<open>Ownership\<close>

definition without :: "('v \<Rightarrow> bool) \<Rightarrow> ('k \<rightharpoonup> 'v) \<Rightarrow> ('k \<rightharpoonup> 'v)" where
  "without P m = (\<lambda>k. case m k of None \<Rightarrow> None | Some x \<Rightarrow> if P x then None else Some x)"

lemma without_put:
  "(\<And>x. y = Some x \<Longrightarrow> P x) \<Longrightarrow> (\<And>x. m k = Some x \<Longrightarrow> P x) \<Longrightarrow> without P (m(k := y)) = without P m"
  by (cases y; cases "m k") (auto simp: without_def fun_eq_iff)

lemma without_simps:
  "m k = None \<Longrightarrow> P x \<Longrightarrow> without P (m(k \<mapsto> x)) = without P m"
  "m k = Some y \<Longrightarrow> P y \<Longrightarrow> P x \<Longrightarrow> without P (m(k \<mapsto> x)) = without P m"
  "m k = Some y \<Longrightarrow> P y \<Longrightarrow> without P (m(k := None)) = without P m"
  by (rule without_put; simp)+

definition foreign_jobs :: "owner option \<Rightarrow> store \<Rightarrow> string \<rightharpoonup> job" where
  "foreign_jobs ow st = without (\<lambda>j. j_owner j = ow) (s_jobs st)"

definition foreign_workers :: "owner option \<Rightarrow> workers option \<Rightarrow> string \<rightharpoonup> worker" where
  "foreign_workers ow wo = (case wo of None \<Rightarrow> Map.empty | Some ws \<Rightarrow> without (\<lambda>w. w_owner w = ow) (ws_entries ws))"

definition foreign_connections :: "owner option \<Rightarrow> vault option \<Rightarrow> string \<rightharpoonup> personal_entry" where
  "foreign_connections ow vo = (case vo of None \<Rightarrow> Map.empty | Some v \<Rightarrow> without (\<lambda>e. Some (pe_owner e) = ow) (vt_entries v))"

definition foreign_data ::
  "owner option \<Rightarrow> control \<Rightarrow> (string \<rightharpoonup> job) \<times> (string \<rightharpoonup> worker) \<times> (string \<rightharpoonup> personal_entry)" where
  "foreign_data ow ct = (foreign_jobs ow (ct_store ct), foreign_workers ow (eg_workers (ct_engine ct)),
     foreign_connections ow (eg_vault (ct_engine ct)))"

lemma foreign_jobs_put:
  assumes "s_jobs st' = (s_jobs st)(k \<mapsto> j)" "j_owner j = ow" "\<And>i. s_jobs st k = Some i \<Longrightarrow> j_owner i = ow"
  shows "foreign_jobs ow st' = foreign_jobs ow st"
  unfolding foreign_jobs_def assms(1) using assms(2,3) by (intro without_put) auto

lemma foreign_jobs_same: "s_jobs st' = s_jobs st \<Longrightarrow> foreign_jobs ow st' = foreign_jobs ow st"
  by (simp add: foreign_jobs_def)

lemma ws_save_entries: "ws_save out ws = (r, ws') \<Longrightarrow> ws_entries ws' = ws_entries ws"
  by (auto simp: ws_save_def split: if_splits save_outcome.splits)

lemma persist_entries: "persist cr nonce out e v = (r, v') \<Longrightarrow> vt_entries v' = vt_entries v"
  by (auto simp: persist_def Let_def split: sum.splits persist_outcome.splits)

lemma worker_create_foreign:
  assumes "ws_create sha out ks now view_now token ids ow name ws = (r, ws')" "ws_entries ws (hex_encode ids) = None"
  shows "foreign_workers ow (Some ws') = foreign_workers ow (Some ws)"
  using assms unfolding ws_create_def Let_def random_id_def foreign_workers_def
  by (auto simp: without_simps split: if_splits prod.splits option.splits dest!: ws_save_entries)

lemma worker_revoke_foreign:
  assumes "ws_revoke out wid ow ws = (r, ws')"
  shows "foreign_workers ow (Some ws') = foreign_workers ow (Some ws)"
  using assms unfolding ws_revoke_def ws_put_def unit_result_def foreign_workers_def
  by (auto simp: without_simps split: if_splits prod.splits option.splits dest!: ws_save_entries)

lemma vault_create_foreign:
  assumes "vault_create env h ks now nonce out w d key v = (r, v')"
  shows "foreign_connections (Some w) (Some v') = foreign_connections (Some w) (Some v)"
  using assms unfolding vault_create_def Let_def foreign_connections_def
  by (auto simp: without_simps split: if_splits prod.splits option.splits sum.splits dest!: persist_entries)

lemma vault_rotate_foreign:
  assumes "vault_rotate env h nonce out w cid creds v = (r, v')"
  shows "foreign_connections (Some w) (Some v') = foreign_connections (Some w) (Some v)"
  using assms unfolding vault_rotate_def Let_def foreign_connections_def
  by (auto simp: without_simps split: if_splits prod.splits option.splits sum.splits dest!: persist_entries)

lemma vault_delete_foreign:
  assumes "vault_delete out w cid v = (r, v')"
  shows "foreign_connections (Some w) (Some v') = foreign_connections (Some w) (Some v)"
  using assms unfolding vault_delete_def foreign_connections_def
  by (auto simp: without_simps split: if_splits option.splits persist_outcome.splits)


text \<open>What the host must give: fresh identifiers, and between the steps only requests of the same owner.\<close>

definition polite :: "owner option \<Rightarrow> host \<Rightarrow> bool" where
  "polite ow h \<longleftrightarrow> (\<forall>c. keyed (s_jobs (ct_store c)) \<longrightarrow>
     foreign_data ow (hs_others h c) = foreign_data ow c \<and> keyed (s_jobs (ct_store (hs_others h c))))"

definition fresh_ids :: "host \<Rightarrow> control \<Rightarrow> bool" where
  "fresh_ids h ct \<longleftrightarrow> (\<forall>bytes. hs_random h = Inr bytes \<longrightarrow> s_jobs (ct_store ct) (hex_encode bytes) = None)
     \<and> (\<forall>ws. eg_workers (ct_engine ct) = Some ws \<longrightarrow> ws_entries ws (hex_encode (hs_bytes h)) = None)"

lemma foreign_data_put [simp]:
  "foreign_data ow (put_workers ws ct) = (foreign_jobs ow (ct_store ct), foreign_workers ow (Some ws),
     foreign_connections ow (eg_vault (ct_engine ct)))"
  "foreign_data ow (put_vault v ct) = (foreign_jobs ow (ct_store ct), foreign_workers ow (eg_workers (ct_engine ct)),
     foreign_connections ow (Some v))"
  "foreign_data ow (ct\<lparr>ct_store := st\<rparr>) = (foreign_jobs ow st, foreign_workers ow (eg_workers (ct_engine ct)),
     foreign_connections ow (eg_vault (ct_engine ct)))"
  by (simp_all add: foreign_data_def put_workers_def put_vault_def)

lemma submit_create:
  assumes "submit sha io ks rnd created e spec key actor owners st = (r, st')"
  obtains "st' = st" | sf kf res where "create sha io ks rnd created (complete_spec spec) sf kf res key actor owners st = (r, st')"
proof (cases "forbidden_submission e spec owners \<or> (eg_hosted_disabled e \<and> sp_worker_id spec = []) \<or> spec_error spec key \<noteq> None")
  case True
  with assms have "st' = st" by (auto simp: submit_def split: if_splits)
  then show thesis by (rule that(1))
next
  case False
  show thesis
  proof (cases "submission_target e (complete_spec spec) owners")
    case (Inl err)
    with False assms have "st' = st" by (auto simp: submit_def Let_def)
    then show thesis by (rule that(1))
  next
    case (Inr t)
    with False assms that(2) show thesis by (auto simp: submit_def Let_def)
  qed
qed

lemma submit_foreign:
  assumes "submit sha io ks rnd created e spec key actor owners st = (r, st')" "first_owner owners = ow"
    and "\<And>bytes. rnd = Inr bytes \<Longrightarrow> s_jobs st (hex_encode bytes) = None"
  shows "foreign_jobs ow st' = foreign_jobs ow st"
  using assms(1)
proof (cases rule: submit_create)
  case (2 sf kf res)
  show ?thesis
  proof (cases rule: create_cases [OF 2])
    case (3 bytes)
    show ?thesis using assms(2,3) 3(1) by (intro foreign_jobs_put [OF 3(5)]) simp_all
  qed (auto intro: foreign_jobs_same)
qed simp

lemma action_fn_frozen: "action_fn action j = Inr j' \<Longrightarrow> frozen j j'"
  by (blast dest: action_fn_Inr)

lemma action_foreign:
  assumes "job_action sha io jid action actor st = (r, st')" "keyed (s_jobs st)" "\<And>j. s_jobs st jid = Some j \<Longrightarrow> j_owner j = ow"
  shows "foreign_jobs ow st' = foreign_jobs ow st"
proof (cases rule: update_jobs [OF assms(1) [unfolded job_action_def] assms(2) action_fn_frozen])
  case (3 j j')
  have "j_owner j' = j_owner j" using action_fn_frozen [OF 3(2)] by (simp add: frozen_def)
  then show ?thesis using assms(3) 3(1) by (intro foreign_jobs_put [OF 3(3)]) simp_all
qed (auto intro: foreign_jobs_same)

lemma foreign_jobs_owner:
  assumes "foreign_jobs ow st' = foreign_jobs ow st" "s_jobs st k = Some i" "j_owner i = ow" "s_jobs st' k = Some j"
  shows "j_owner j = ow"
  using assms(2-4) fun_cong [OF assms(1), of k] by (auto simp: foreign_jobs_def without_def split: if_splits)

lemma foreign_data_jobs: "foreign_data ow c = foreign_data ow c' \<Longrightarrow> foreign_jobs ow (ct_store c) = foreign_jobs ow (ct_store c')"
  by (simp add: foreign_data_def)

lemma owned_jobD: "owned_job jid ow st = Inr j \<Longrightarrow> s_jobs st jid = Some j \<and> j_owner j = ow"
  by (auto simp: owned_job_def get_job_def split: option.splits if_splits sum.splits)

lemma job_steer_foreign:
  assumes "polite ow h" "keyed (s_jobs (ct_store ct))" "job_steer h token ow jid action r ct = (rs, ct')"
  shows "foreign_data ow ct' = foreign_data ow ct"
proof -
  have o: "foreign_data ow (hs_others h ct) = foreign_data ow ct" "keyed (s_jobs (ct_store (hs_others h ct)))"
    using assms(1,2) by (auto simp: polite_def)
  have step: "foreign_jobs ow st' = foreign_jobs ow (ct_store (hs_others h ct))"
    if "owned_job jid ow (ct_store ct) = Inr j" "job_action (hs_sha h) (hs_io h) jid action actor (ct_store (hs_others h ct)) = (x, st')" for j actor x st'
    using action_foreign [OF that(2) o(2)] foreign_jobs_owner [OF foreign_data_jobs [OF o(1)]] owned_jobD [OF that(1)] by blast
  show ?thesis
    using assms(3) o(1) step unfolding job_steer_def Let_def
    by (auto simp: foreign_data_def split: sum.splits if_splits prod.splits)
qed

lemma polite_others:
  assumes "polite ow h" "keyed (s_jobs (ct_store ct))"
  shows "foreign_data ow (hs_others h ct) = foreign_data ow ct"
  using assms by (simp add: polite_def)

lemma connection_create_foreign:
  assumes "connection_create h ow r ct = (rs, ct')"
  shows "foreign_data ow ct' = foreign_data ow ct"
  using assms unfolding connection_create_def
  by (auto simp: foreign_data_def put_vault_def dest!: vault_create_foreign split: option.splits sum.splits prod.splits)

lemma connection_rotate_foreign:
  assumes "connection_rotate h ow cid r ct = (rs, ct')"
  shows "foreign_data ow ct' = foreign_data ow ct"
  using assms unfolding connection_rotate_def
  by (auto simp: foreign_data_def put_vault_def dest!: vault_rotate_foreign split: option.splits sum.splits prod.splits)

lemma connection_delete_foreign:
  assumes "polite ow h" "keyed (s_jobs (ct_store ct))" "connection_delete h ow cid ct = (rs, ct')"
  shows "foreign_data ow ct' = foreign_data ow ct"
proof -
  have d: "foreign_data (Some w) (put_vault v' c) = foreign_data (Some w) c"
    if "eg_vault (ct_engine c) = Some v" "vault_delete out w cid v = (x, v')" for w v v' c out x
    using vault_delete_foreign [OF that(2)] that(1) by (simp add: foreign_data_def put_vault_def)
  show ?thesis
    using assms(3) polite_others [OF assms(1,2)] d unfolding connection_delete_def Let_def
    by (auto split: option.splits sum.splits prod.splits if_splits simp del: foreign_data_put)
qed

lemma worker_create_data:
  assumes "fresh_ids h ct" "worker_create h ow r ct = (rs, ct')"
  shows "foreign_data ow ct' = foreign_data ow ct"
  using assms unfolding worker_create_def
  by (auto simp: foreign_data_def put_workers_def fresh_ids_def dest!: worker_create_foreign split: option.splits sum.splits prod.splits)

lemma worker_revoke_data:
  assumes "worker_revoke h ow wid r ct = (rs, ct')"
  shows "foreign_data ow ct' = foreign_data ow ct"
  using assms unfolding worker_revoke_def
  by (auto simp: foreign_data_def put_workers_def dest!: worker_revoke_foreign split: option.splits sum.splits prod.splits)

lemma job_submit_foreign:
  assumes "fresh_ids h ct" "job_submit h token ow r ct = (rs, ct')"
  shows "foreign_data ow ct' = foreign_data ow ct"
proof (cases "decode (strict spec_keys dec_spec) zero_spec r")
  case (Inr spec)
  let ?owners = "case ow of None \<Rightarrow> [] | Some w \<Rightarrow> [w]"
  obtain x st' where s: "submit (hs_sha h) (hs_io h) (hs_jobs h) (hs_random h) (hs_now h) (ct_engine ct) spec
      (header ''Idempotency-Key'' r) (actor_of token ow) ?owners (ct_store ct) = (x, st')" by fastforce
  have "first_owner ?owners = ow" by (cases ow) (simp_all add: first_owner_def)
  from submit_foreign [OF s this] assms(1) have "foreign_jobs ow st' = foreign_jobs ow (ct_store ct)" by (simp add: fresh_ids_def)
  moreover have "ct' = ct\<lparr>ct_store := st'\<rparr>" using assms(2) Inr s by (auto simp: job_submit_def split: sum.splits)
  ultimately show ?thesis by (simp add: foreign_data_def)
qed (use assms(2) in \<open>simp add: job_submit_def\<close>)

lemma job_history_foreign:
  assumes "polite ow h" "keyed (s_jobs (ct_store ct))" "job_history h ow jid r ct = (rs, ct')"
  shows "foreign_data ow ct' = foreign_data ow ct"
proof -
  have "ct' = ct \<or> ct' = hs_others h ct"
    using assms(3) unfolding job_history_def Let_def by (auto split: sum.splits option.splits if_splits)
  then show ?thesis using polite_others [OF assms(1,2)] by auto
qed

lemma readers_keep:
  "connections_list h accounts ow ct = (rs, ct') \<Longrightarrow> ct' = ct"
  "jobs_list h ow r ct = (rs, ct') \<Longrightarrow> ct' = ct"
  "job_get ow jid ct = (rs, ct') \<Longrightarrow> ct' = ct"
  "workers_list h ow ct = (rs, ct') \<Longrightarrow> ct' = ct"
  by (auto simp: connections_list_def jobs_list_def job_get_def workers_list_def Let_def split: sum.splits option.splits if_splits)

lemma api_route_foreign:
  assumes "polite ow h" "fresh_ids h ct" "keyed (s_jobs (ct_store ct))" "api_route hn h ow r ct = (rs, ct')"
  shows "foreign_data ow ct' = foreign_data ow ct"
  using assms(4) unfolding api_route_def Let_def
  by (auto split: if_splits list.splits dest: readers_keep connection_create_foreign connection_rotate_foreign
      worker_revoke_data worker_create_data [OF assms(2)] job_submit_foreign [OF assms(2)]
      job_history_foreign [OF assms(1,3)] connection_delete_foreign [OF assms(1,3)] job_steer_foreign [OF assms(1,3)])


subsection \<open>A request changes nothing of others\<close>

definition alice :: owner where
  "alice = \<lparr>o_id = ''a1'', o_subject = ''alice'', o_realm = ''r''\<rparr>"

definition bob :: owner where
  "bob = \<lparr>o_id = ''b1'', o_subject = ''bob'', o_realm = ''r''\<rparr>"

definition small_store :: store where
  "small_store = \<lparr>s_jobs = [''ab'' \<mapsto> zero_job\<lparr>j_id := ''ab'', j_owner := Some alice, j_state := ''queued''\<rparr>,
     ''cd'' \<mapsto> zero_job\<lparr>j_id := ''cd'', j_owner := Some bob, j_state := ''queued''\<rparr>],
     s_sequence = 2, s_hash = [], s_file = [], s_poison = None\<rparr>"

definition small_control :: control where
  "small_control = \<lparr>ct_engine = \<lparr>eg_worker_downloads = [], eg_hosted_disabled = False, eg_registry = Map.empty, eg_realm = ''r'',
     eg_vault = None, eg_workers = None\<rparr>, ct_store = small_store\<rparr>"

definition alice_service :: account_service where
  "alice_service = \<lparr>sv_realm = ''r'', sv_authenticate = (\<lambda>r. if header ''Authorization'' r = ''Bearer x''
       then Inr \<lparr>pr_subject = ''alice'', pr_email = [], pr_verified = False, pr_owner = ''a1''\<rparr> else Inl ErrUnauthorized),
     sv_mount = (\<lambda>_. None)\<rparr>"

definition small_handler :: handler where
  "small_handler = \<lparr>hn_token = [], hn_accounts = Some alice_service, hn_parse_url = (\<lambda>_. None), hn_parse_ip = (\<lambda>_. None)\<rparr>"

definition small_env :: vault_env where
  "small_env = \<lparr>ve_sha = (\<lambda>s. s), ve_parse_url = (\<lambda>_. None), ve_parse_ip = (\<lambda>_. None), ve_drivers = no_drivers,
     ve_crypto = \<lparr>vc_mac = (\<lambda>s. s), vc_seal = (\<lambda>n s a. s), vc_open = (\<lambda>n s a. Some s)\<rparr>\<rparr>"

definition small_host :: host where
  "small_host = \<lparr>hs_sha = (\<lambda>s. s), hs_verify = (\<lambda>_ _ _. True), hs_io = \<lparr>io_now = 0, io_write = WriteOk\<rparr>, hs_now = 0, hs_view = 0,
     hs_random = Inr ''r'', hs_bytes = ''b'', hs_token = ''t'', hs_jobs = [''ab'', ''cd''], hs_registry = [], hs_saved = [],
     hs_workers = [], hs_challenges = [], hs_save = SaveOk, hs_touch = SaveOk, hs_env = small_env, hs_handle = 0, hs_nonce = Inr [],
     hs_persist = PersistOk, hs_stat = None, hs_clock = \<lparr>rc_lease = 0, rc_checkpoint = 0, rc_until = 0, rc_next = 0\<rparr>,
     hs_others = (\<lambda>c. c)\<rparr>"

definition cancel_request :: "string \<Rightarrow> request" where
  "cancel_request jid = \<lparr>rq_method = ''POST'', rq_path = [''v1'', ''jobs'', jid, ''cancel''], rq_uri = [], rq_host = ''h'', rq_tls = False,
     rq_headers = [(''Authorization'', ''Bearer x''), (''Content-Type'', ''application/json'')], rq_query = [], rq_cookies = [],
     rq_body = ''{}''\<rparr>"

lemma small_gate: "gate small_handler (cancel_request jid) = Inr (Some alice)"
  by (simp add: gate_def small_handler_def alice_service_def cancel_request_def header_def value_of_def alice_def)

lemma small_keyed: "keyed (s_jobs (ct_store small_control))"
  by (auto simp: keyed_def small_control_def small_store_def)

text \<open>C24: A request that acts for an owner leaves the jobs, workers and saved connections of everybody
  else as they are, whatever it asks for, when new identifiers are fresh and what happens between its
  steps are requests of the same owner.\<close>

theorem requests_touch_own_data:
  assumes "v1_answer hn h r ct = (rs, ct')" "gate hn r = Inr ow"
    and "polite ow h" "fresh_ids h ct" "keyed (s_jobs (ct_store ct))"
  shows "foreign_data ow ct' = foreign_data ow ct"
proof -
  from assms(1,2) obtain rs1 where "api_route hn h ow r ct = (rs1, ct')"
    by (auto simp: v1_answer_def split: prod.splits)
  with assms(3-5) show ?thesis by (rule api_route_foreign)
qed

lemma requests_touch_own_data_witness:
  "foreign_data (Some alice) (snd (v1_answer small_handler small_host (cancel_request ''ab'') small_control))
     = foreign_data (Some alice) small_control \<and> fst (foreign_data (Some alice) small_control) ''cd'' \<noteq> None"
proof
  have "hex_encode ''r'' = ''72''" by code_simp
  then have "polite (Some alice) small_host" "fresh_ids small_host small_control"
    by (simp_all add: polite_def fresh_ids_def small_control_def small_host_def small_store_def del: hex_encode.simps)
  from requests_touch_own_data [OF prod.collapse [symmetric] small_gate this small_keyed]
  show "foreign_data (Some alice) (snd (v1_answer small_handler small_host (cancel_request ''ab'') small_control)) = foreign_data (Some alice) small_control" .
  show "fst (foreign_data (Some alice) small_control) ''cd'' \<noteq> None"
    by (simp add: foreign_data_def foreign_jobs_def without_def small_control_def small_store_def alice_def bob_def)
qed

subsection \<open>A job of others cannot be seen\<close>

definition without_job :: "string \<Rightarrow> control \<Rightarrow> control" where
  "without_job i ct = ct\<lparr>ct_store := (ct_store ct)\<lparr>s_jobs := (s_jobs (ct_store ct))(i := None)\<rparr>\<rparr>"

lemma owned_job_foreign:
  assumes "s_jobs (ct_store ct) i = Some j" "j_owner j \<noteq> ow"
  shows "owned_job i ow (ct_store ct) = Inl ErrNotFound" "owned_job i ow (ct_store (without_job i ct)) = Inl ErrNotFound"
  using assms by (simp_all add: owned_job_def get_job_def without_job_def)

text \<open>C25: Every request about a job of somebody else, to read it, its events or to steer it, is answered
  exactly as if the job did not exist, and changes nothing.\<close>

theorem foreign_job_invisible:
  assumes "gate hn r = Inr ow" "rq_path r = ''v1'' # ''jobs'' # i # tail" "s_jobs (ct_store ct) i = Some j" "j_owner j \<noteq> ow"
  shows "v1_answer hn h r ct = (fst (v1_answer hn h r (without_job i ct)), ct)"
proof -
  note o = owned_job_foreign [OF assms(3,4)]
  have "api_route hn h ow r ct = (fst (api_route hn h ow r (without_job i ct)), ct)"
    using assms(2) o by (cases tail rule: list.exhaust [case_product list.exhaust])
      (auto simp: api_route_def Let_def job_get_def job_history_def job_steer_def split: sum.splits list.splits)
  then show ?thesis using assms(1) by (simp add: v1_answer_def split: prod.splits)
qed

lemma foreign_job_invisible_witness:
  "v1_answer small_handler small_host (cancel_request ''cd'') small_control
     = (fst (v1_answer small_handler small_host (cancel_request ''cd'') (without_job ''cd'' small_control)), small_control)"
proof -
  have "s_jobs (ct_store small_control) ''cd'' = Some (zero_job\<lparr>j_id := ''cd'', j_owner := Some bob, j_state := ''queued''\<rparr>)"
    by (simp add: small_control_def small_store_def)
  from foreign_job_invisible [OF small_gate _ this] show ?thesis by (simp add: cancel_request_def alice_def bob_def)
qed

subsection \<open>Who may use the API\<close>

text \<open>C26: Whatever a request under \<^verbatim>\<open>/v1\<close> changes or is granted (an answer below 400), it has authority:
  in account mode the account service vouches for a subject and an owner; with an operator token the
  request bears it; without one it comes to a loopback name; and a browser's request is of the same
  origin.\<close>

theorem api_needs_authority:
  assumes "handle hn h hs gone r ct = (Some rs, ct')" "rq_path r = ''v1'' # tail" "ct' \<noteq> ct \<or> rs_status rs < 400"
  shows "case hn_accounts hn of
      Some sv \<Rightarrow> \<exists>p. sv_authenticate sv r = Inr p \<and> pr_subject p \<noteq> [] \<and> pr_owner p \<noteq> []
    | None \<Rightarrow> (if hn_token hn = [] then local_host (hn_parse_ip hn) (rq_host r) else header ''Authorization'' r = ''Bearer '' @ hn_token hn)
        \<and> \<not> cross_origin (hn_parse_url hn) r"
proof (cases "gate hn r")
  case (Inl refusal)
  then have "rs_status refusal \<ge> 400"
    by (auto simp: gate_def message_answer_def respond_def split: option.splits sum.splits if_splits)
  moreover from assms(1,2) Inl have "ct' = ct" "rs_status rs = rs_status refusal"
    by (auto simp: handle_def v1_answer_def security_headers_def set_header_def)
  ultimately show ?thesis using assms(3) by simp
next
  case (Inr ow)
  then show ?thesis by (auto simp: gate_def split: option.splits sum.splits if_splits)
qed

lemma api_needs_authority_witness:
  "\<exists>p. sv_authenticate alice_service ((cancel_request []) \<lparr>rq_method := ''GET'', rq_path := [''v1'', ''workers'']\<rparr>) = Inr p \<and> pr_subject p \<noteq> [] \<and> pr_owner p \<noteq> []"
proof -
  let ?r = "(cancel_request []) \<lparr>rq_method := ''GET'', rq_path := [''v1'', ''workers'']\<rparr>"
  have g: "gate small_handler ?r = Inr (Some alice)"
    by (simp add: gate_def small_handler_def alice_service_def cancel_request_def header_def value_of_def alice_def)
  obtain rs where rs: "handle small_handler small_host [] False ?r small_control = (Some rs, small_control)" "rs_status rs < 400"
    using g by (simp add: handle_def v1_answer_def api_route_def Let_def safe_method_def workers_list_def small_control_def
        security_headers_def set_header_def respond_def no_response_def)
  from api_needs_authority [OF rs(1), of "[''workers'']"] rs(2) show ?thesis
    by (simp add: small_handler_def)
qed

end
