(* ===== verification/Customer_Session.thy ===== *)
theory Customer_Session
  imports Customer_Properties Control_Properties
begin

section \<open>The worker and the registry together\<close>

text \<open>
  The calls of the customer's worker (src/worker/worker.go) answered by the handlers of the control plane
  (src/control/worker_api.go): what one side writes the other reads, and an enrolled worker opens a
  session whose token the registry accepts.
\<close>

declare dec_members.simps(2) [simp del]

subsection \<open>Base64 of keys and signatures\<close>

lemma std_val_char: "n < 64 \<Longrightarrow> Workers.b64_val (b64_std_char n) = Some n"
proof -
  assume n: "n < 64"
  then consider "n < 26" | "26 \<le> n" "n < 52" | "52 \<le> n" "n < 62" | "n = 62" | "n = 63" by linarith
  then show ?thesis
  proof cases
    case 3
    then show ?thesis
      by (simp add: Workers.b64_val_def b64_std_char_def b64_char_def is_upper_def is_lower_def is_digit_def byte_char_of) arith
  qed (simp_all add: Workers.b64_val_def b64_std_char_def b64_char_def is_upper_def is_lower_def is_digit_def byte_char_of byte_def)
qed

lemma std_char_kept: "n < 64 \<Longrightarrow> b64_std_char n \<noteq> CHR 0x0A \<and> b64_std_char n \<noteq> CHR 0x0D"
  using std_val_char [of n] by (auto simp: Workers.b64_val_def is_upper_def is_lower_def is_digit_def byte_def)

lemma std_pad_val: "Workers.b64_val (CHR ''='') = None"
  by (simp add: Workers.b64_val_def is_upper_def is_lower_def is_digit_def byte_def)

lemma std_decode_encode: "Workers.b64_decode (b64_std s) = Some s"
proof (induction s rule: b64_std.induct)
  case (1 a b c r)
  let ?f = "filter (\<lambda>c. c \<noteq> CHR 0x0A \<and> c \<noteq> CHR 0x0D)"
  have kept: "?f (b64_std (a # b # c # r)) =
    b64_std_char (byte a div 4) # b64_std_char (byte a mod 4 * 16 + byte b div 16) # b64_std_char (byte b mod 16 * 4 + byte c div 64)
      # b64_std_char (byte c mod 64) # ?f (b64_std r)"
    using std_char_kept b64_bits by simp
  from 1 have "Workers.b64_groups (?f (b64_std r)) = Some r" by (simp add: Workers.b64_decode_def)
  then show ?case unfolding Workers.b64_decode_def kept by (simp add: std_val_char b64_bits b64_parts b64_bytes_def)
next
  case (2 a b)
  show ?case using std_char_kept b64_bits
    by (simp add: Workers.b64_decode_def std_val_char std_pad_val b64_parts b64_bytes_def)
next
  case (3 a)
  show ?case using std_char_kept b64_bits
    by (simp add: Workers.b64_decode_def std_val_char std_pad_val b64_parts b64_bytes_def)
qed (simp add: Workers.b64_decode_def)

lemma length_std: "length (b64_std s) \<le> 4 * length s"
  by (induction s rule: b64_std.induct) simp_all

lemma length_escape: "length (json_escape s) \<le> 6 * length s"
proof (induction s rule: json_escape.induct)
  case (2 c cs)
  show ?case
  proof (cases "byte c < 0x80")
    case True
    have "length (escape_ascii c) \<le> 6" by (simp add: escape_ascii_def u_escape_def)
    with True 2 show ?thesis by simp
  next
    case False
    show ?thesis
    proof (cases "utf8_tail c cs")
      case None
      with False 2 show ?thesis by (simp add: u_escape_def)
    next
      case (Some n)
      with False 2 utf8_tail_bounds [OF Some] show ?thesis by (auto simp: u_escape_def)
    qed
  qed
qed simp

subsection \<open>Messages\<close>

lemma sent_id: "text_object [(''id'', x)] = JObj [(''id'', jstr x)]"
  by (simp add: text_object_def)

lemma sent_proof:
  "text_object [(''id'', x), (''challenge'', y), (''signature'', z)] = JObj [(''challenge'', jstr y), (''id'', jstr x), (''signature'', jstr z)]"
  by (simp add: text_object_def)

lemma sent_enrollment:
  "text_object [(''id'', x), (''token'', y), (''public_key'', z)] = JObj [(''id'', jstr x), (''public_key'', jstr z), (''token'', jstr y)]"
  by (simp add: text_object_def)

text \<open>The request as the server parses it, and the reply as the client reads it.\<close>

definition sent_request :: "string \<Rightarrow> string option \<Rightarrow> request" where
  "sent_request body token = \<lparr>rq_method = ''POST'', rq_path = [], rq_uri = [], rq_host = [], rq_tls = True,
     rq_headers = (''Content-Type'', ''application/json'') # (case token of None \<Rightarrow> [] | Some t \<Rightarrow> [(''Authorization'', ''Bearer '' @ t)]),
     rq_query = [], rq_cookies = [], rq_body = body\<rparr>"

definition reply_of :: "response \<Rightarrow> reply" where
  "reply_of rs = Reply (rs_status rs) (case rs_json rs of None \<Rightarrow> [] | Some v \<Rightarrow> jprint v @ [newline])"

lemma first_value_print:
  assumes "json_ok max_nesting v" "num_stop rest"
  shows "first_value (jprint v @ rest) = Some (v, rest)"
  using pval_print [of max_nesting v rest "2 * length (jprint v @ rest) + 2"] assms by (simp add: first_value_def)

lemma newline_stop: "num_stop [newline]" "num_stop []" "skip_ws [newline] = []"
  by (simp_all add: newline_def num_stop_def is_digit_def byte_def skip_ws_def is_ws_def)

lemma decode_sent:
  assumes "json_ok max_nesting v" "length (jprint v) \<le> body_limit"
  shows "decode f zero (sent_request (jprint v) token) = (case dec_struct f v zero of None \<Rightarrow> Inl bad_json | Some x \<Rightarrow> Inr x)"
proof -
  have "header ''Content-Type'' (sent_request (jprint v) token) = ''application/json''" "rq_body (sent_request (jprint v) token) = jprint v"
    by (simp_all add: header_def value_of_def sent_request_def)
  moreover have "first_value (jprint v) = Some (v, [])" using first_value_print [OF assms(1) newline_stop(2)] by simp
  moreover have "skip_ws [] = []" by (simp add: skip_ws_def)
  ultimately show ?thesis using assms(2) by (simp add: decode_def media_type_json split: option.split)
qed

lemma post_answered:
  assumes "net (id_url (cl_identity c) @ ''/worker/v1'' @ path) (jprint body) (if auth then Some (cl_token c) else None) = reply_of (respond 200 (Some v))"
    and "json_ok max_nesting v" "length (jprint v) < answer_limit" "dec_struct f v zero = Some x"
  shows "post net f zero path body auth c = (Inr x, c)"
proof -
  have "first_value (take answer_limit (jprint v @ [newline])) = Some (v, [newline])"
    using first_value_print [OF assms(2) newline_stop(1)] assms(3) by simp
  then show ?thesis using assms(1,4) newline_stop by (simp add: post_def reply_of_def respond_def)
qed

lemma challenge_answer: "jobj [(''challenge'', Some (jstr x))] = Some (JObj [(''challenge'', jstr x)])"
  by (simp add: jobj_def)

lemma session_answer: "jobj [(''token'', Some (jstr x)), (''expires_in'', Some (jint n))] = Some (JObj [(''expires_in'', jint n), (''token'', jstr x)])"
  by (simp add: jobj_def)

lemma session_keys:
  "plain_key ''id''" "plain_key ''challenge''" "plain_key ''signature''" "plain_key ''token''" "plain_key ''expires_in''"
  by code_simp+

lemma message_ok:
  "json_ok max_nesting (JObj [(''id'', jstr x)])" "json_ok max_nesting (JObj [(''challenge'', jstr x)])"
  "json_ok max_nesting (JObj [(''challenge'', jstr x), (''id'', jstr y), (''signature'', jstr z)])"
  "json_ok max_nesting (JObj [(''expires_in'', jint n), (''token'', jstr x)])"
proof -
  have "list_all raw_ok [''id'', ''challenge'', ''signature'', ''token'', ''expires_in'']" by code_simp
  then show "json_ok max_nesting (JObj [(''id'', jstr x)])" "json_ok max_nesting (JObj [(''challenge'', jstr x)])"
    "json_ok max_nesting (JObj [(''challenge'', jstr x), (''id'', jstr y), (''signature'', jstr z)])"
    "json_ok max_nesting (JObj [(''expires_in'', jint n), (''token'', jstr x)])"
    by (simp_all add: max_nesting_def jstr_def jint_def raw_ok_escape)
qed

lemma message_length:
  "length (jprint (JObj [(k, jstr x)])) \<le> length k + 6 * length x + 10"
  "length (jprint (JObj [(k, jstr x), (l, jstr y), (m, jstr z)])) \<le> length k + length l + length m + 6 * (length x + length y + length z) + 30"
  using length_escape [of x] length_escape [of y] length_escape [of z] by (simp_all add: jstr_def quoted_def)

lemma session_answer_length: "length (jprint (JObj [(''expires_in'', jint 600), (''token'', jstr x)])) \<le> 6 * length x + 60"
proof -
  have "length (itoa 600) \<le> 20" by code_simp
  then show ?thesis using length_escape [of x] by (simp add: jstr_def jint_def quoted_def)
qed

lemma dec_challenge: "valid_utf8 x \<Longrightarrow> dec_struct (dec_text ''challenge'') (JObj [(''challenge'', jstr x)]) [] = Some x"
  by (simp add: dec_struct_def dec_members_key session_keys dec_text_def dec_str_jstr)

lemma dec_id: "valid_utf8 x \<Longrightarrow> dec_struct (dec_text ''id'') (JObj [(''id'', jstr x)]) [] = Some x"
  by (simp add: dec_struct_def dec_members_key session_keys dec_text_def dec_str_jstr)

lemma dec_session:
  "valid_utf8 x \<Longrightarrow> int64 n \<Longrightarrow> dec_struct dec_session_answer (JObj [(''expires_in'', jint n), (''token'', jstr x)]) ([], 0) = Some (x, n)"
  by (simp add: dec_struct_def dec_members_key session_keys dec_session_answer_def dec_str_jstr dec_int_jint)

subsection \<open>An enrolled worker opens a session\<close>

text \<open>The control plane between the two calls: the second is answered by the registry \<open>ws1\<close> the first has left.\<close>

definition session_plane :: "string \<Rightarrow> host \<Rightarrow> host \<Rightarrow> workers \<Rightarrow> workers \<Rightarrow> control \<Rightarrow> plane" where
  "session_plane base h1 h2 ws ws1 ct url body token =
     reply_of (fst (if url = base @ ''/worker/v1/challenge'' then worker_challenge h1 (sent_request body token) ws ct
       else worker_session h2 (sent_request body token) ws1 ct))"

lemma hex_32_length: "length (hex_encode s) = 2 * length s"
  by (induction s) simp_all

lemma random_id_ok: "length s = 32 \<Longrightarrow> length (random_id s) = 64 \<and> valid_utf8 (random_id s)"
  by (simp add: random_id_def hex_32_length valid_utf8_hex)

lemma valid_std: "valid_utf8 (b64_std s)"
proof (rule valid_utf8_ascii)
  have "byte (b64_std_char n) < 0x80" if "n < 64" for n
    using that by (auto simp: b64_std_char_def b64_char_def byte_char_of byte_def)
  moreover have "byte (CHR ''='') < 0x80" by (simp add: byte_def)
  ultimately show "list_all (\<lambda>c. byte c < 0x80) (b64_std s)"
    by (induction s rule: b64_std.induct) (simp_all add: b64_bits)
qed

lemma challenge_served:
  assumes "ws_poison ws = None" "ws_entries ws wid = Some e" "\<not> w_revoked e" "w_public_key e \<noteq> []"
    and "length (range_vals (hs_challenges h) (drop_stale (hs_now h) wid (ws_challenges ws))) < 1000"
    and "length wid = 32" "valid_utf8 wid"
  shows "fst (worker_challenge h (sent_request (jprint (text_object [(''id'', wid)])) None) ws ct) =
      respond 200 (Some (JObj [(''challenge'', jstr (random_id (hs_bytes h)))]))"
    and "ws_challenges (snd (ws_challenge (hs_challenges h) (hs_now h) (hs_bytes h) wid ws)) (random_id (hs_bytes h)) =
      Some \<lparr>wss_worker = wid, wss_until = hs_now h + 60 * second\<rparr>"
    and "ws_entries (snd (ws_challenge (hs_challenges h) (hs_now h) (hs_bytes h) wid ws)) = ws_entries ws"
    and "ws_poison (snd (ws_challenge (hs_challenges h) (hs_now h) (hs_bytes h) wid ws)) = None"
proof -
  have "length (jprint (text_object [(''id'', wid)])) \<le> body_limit"
    using message_length(1) [of "''id''" wid] assms(6) by (simp add: sent_id body_limit_def)
  then have "decode (dec_text ''id'') [] (sent_request (jprint (text_object [(''id'', wid)])) None) = Inr wid"
    unfolding sent_id by (simp only: decode_sent [OF message_ok(1)] dec_id [OF assms(7)] option.case)
  then show "fst (worker_challenge h (sent_request (jprint (text_object [(''id'', wid)])) None) ws ct) =
      respond 200 (Some (JObj [(''challenge'', jstr (random_id (hs_bytes h)))]))"
    using assms(1-5) by (simp add: worker_challenge_def ws_challenge_def Let_def challenge_answer)
qed (use assms in \<open>simp_all add: ws_challenge_def Let_def\<close>)

lemma session_served:
  assumes "ws_poison ws = None" "ws_entries ws wid = Some e" "\<not> w_revoked e" "length pub = 32" "w_public_key e = b64_std pub"
    and "ws_challenges ws ch = Some \<lparr>wss_worker = wid, wss_until = t\<rparr>" "hs_now h \<le> t"
    and "hs_verify h pub (session_proof wid ch) sig" "length sig = 64" "length wid = 32" "valid_utf8 wid" "length ch = 64" "valid_utf8 ch"
  shows "fst (worker_session h (sent_request (jprint (text_object [(''id'', wid), (''challenge'', ch), (''signature'', b64_std sig)])) None) ws ct) =
      respond 200 (Some (JObj [(''expires_in'', jint 600), (''token'', jstr (random_id (hs_bytes h)))]))"
    and "hs_view h \<le> now \<Longrightarrow> now \<le> hs_view h + 600 * second \<Longrightarrow>
      ws_authenticate (hs_sha h) now (random_id (hs_bytes h))
        (snd (ws_session (hs_sha h) (hs_verify h) (hs_now h) (hs_view h) (hs_bytes h) wid ch (b64_std sig) ws)) = Inr e"
proof -
  let ?m = "JObj [(''challenge'', jstr ch), (''id'', jstr wid), (''signature'', jstr (b64_std sig))]"
  have "length (b64_std sig) \<le> 256" using length_std [of sig] assms(9) by simp
  then have len: "length (jprint ?m) \<le> body_limit"
    using message_length(2) [of "''challenge''" ch "''id''" wid "''signature''" "b64_std sig"] assms(10,12) by (simp add: body_limit_def)
  have "decode (\<lambda>k v (i, c, s). if k = ''id'' then dec_str (\<lambda>f (i, c, s). (f i, c, s)) v (i, c, s)
              else if k = ''challenge'' then dec_str (\<lambda>f (i, c, s). (i, f c, s)) v (i, c, s)
              else if k = ''signature'' then dec_str (\<lambda>f (i, c, s). (i, c, f s)) v (i, c, s) else None) ([], [], [])
      (sent_request (jprint ?m) None) = Inr (wid, ch, b64_std sig)"
    unfolding decode_sent [OF message_ok(3) len]
    by (simp add: dec_struct_def dec_members_key session_keys dec_str_jstr assms(11,13) valid_std)
  then show "fst (worker_session h (sent_request (jprint (text_object [(''id'', wid), (''challenge'', ch), (''signature'', b64_std sig)])) None) ws ct) =
      respond 200 (Some (JObj [(''expires_in'', jint 600), (''token'', jstr (random_id (hs_bytes h)))]))"
    using assms(1-8) by (simp add: sent_proof worker_session_def ws_session_def Let_def std_decode_encode session_answer)
  show "ws_authenticate (hs_sha h) now (random_id (hs_bytes h))
        (snd (ws_session (hs_sha h) (hs_verify h) (hs_now h) (hs_view h) (hs_bytes h) wid ch (b64_std sig) ws)) = Inr e"
    if "hs_view h \<le> now" "now \<le> hs_view h + 600 * second"
    using assms(1-8) that by (simp add: ws_session_def Let_def std_decode_encode ws_authenticate_def)
qed

text \<open>C33: An enrolled worker opens a session. With room for its challenge and both calls within a minute, the
  requests the worker writes are the ones the control plane reads, the answers the ones the worker
  expects, and it ends with a token for 570 seconds that the registry takes for this worker's.\<close>

theorem worker_opens_session:
  assumes "ws_poison ws = None" "ws_entries ws wid = Some e" "\<not> w_revoked e"
    and "w_public_key e = b64_std (wk_public ky (id_seed i))" "length (wk_public ky (id_seed i)) = 32"
    and "\<And>msg. hs_verify h2 (wk_public ky (id_seed i)) msg (wk_sign ky (id_seed i) msg) \<and> length (wk_sign ky (id_seed i) msg) = 64"
    and "length (range_vals (hs_challenges h1) (drop_stale (hs_now h1) wid (ws_challenges ws))) < 1000"
    and "hs_now h2 \<le> hs_now h1 + 60 * second" "length (hs_bytes h1) = 32" "length (hs_bytes h2) = 32"
    and "cl_identity c = i" "id_id i = wid" "length wid = 32" "valid_utf8 wid" "cl_token c = [] \<or> cl_until c \<le> now"
    and "ws1 = snd (ws_challenge (hs_challenges h1) (hs_now h1) (hs_bytes h1) wid ws)"
  shows "\<exists>ws2 sig. open_session ky (session_plane (id_url i) h1 h2 ws ws1 ct) now got c =
        (None, c\<lparr>cl_token := random_id (hs_bytes h2), cl_until := got + 570 * second\<rparr>)
     \<and> ws2 = snd (ws_session (hs_sha h2) (hs_verify h2) (hs_now h2) (hs_view h2) (hs_bytes h2) wid (random_id (hs_bytes h1)) sig ws1)
     \<and> (\<forall>t. hs_view h2 \<le> t \<and> t \<le> hs_view h2 + 600 * second \<longrightarrow> ws_authenticate (hs_sha h2) t (random_id (hs_bytes h2)) ws2 = Inr e)"
proof -
  let ?net = "session_plane (id_url i) h1 h2 ws ws1 ct" and ?ch = "random_id (hs_bytes h1)"
  let ?sig = "wk_sign ky (id_seed i) (session_proof wid ?ch)"
  have key: "w_public_key e \<noteq> []"
  proof
    assume "w_public_key e = []"
    with assms(4) have "Workers.b64_decode [] = Some (wk_public ky (id_seed i))" using std_decode_encode by metis
    with assms(5) show False by (simp add: Workers.b64_decode_def)
  qed
  note ids = random_id_ok [OF assms(9)] random_id_ok [OF assms(10)]
  note served = challenge_served [OF assms(1-3) key assms(7) assms(13,14)]
  have ch: "ws_challenges ws1 ?ch = Some \<lparr>wss_worker = wid, wss_until = hs_now h1 + 60 * second\<rparr>"
    and e1: "ws_entries ws1 wid = Some e" and p1: "ws_poison ws1 = None"
    using served(2-4) assms(2,16) by simp_all
  note answered = session_served [OF p1 e1 assms(3,5,4) ch assms(8) _ _ assms(13,14)]
  have sig: "hs_verify h2 (wk_public ky (id_seed i)) (session_proof wid ?ch) ?sig" "length ?sig = 64" using assms(6) by simp_all
  have first: "post ?net (dec_text ''challenge'') [] ''/challenge'' (text_object [(''id'', wid)]) False c = (Inr ?ch, c)"
  proof (rule post_answered [where v = "JObj [(''challenge'', jstr ?ch)]"])
    show "?net (id_url (cl_identity c) @ ''/worker/v1'' @ ''/challenge'') (jprint (text_object [(''id'', wid)]))
        (if False then Some (cl_token c) else None) = reply_of (respond 200 (Some (JObj [(''challenge'', jstr ?ch)])))"
      using served(1) by (simp add: session_plane_def assms(11))
    show "length (jprint (JObj [(''challenge'', jstr ?ch)])) < answer_limit"
      using message_length(1) [of "''challenge''" ?ch] ids by (simp add: answer_limit_def)
  qed (use ids in \<open>simp_all add: message_ok dec_challenge del: valid_utf8.simps json_ok.simps\<close>)
  have second: "post ?net dec_session_answer ([], 0) ''/session''
      (text_object [(''id'', wid), (''challenge'', ?ch), (''signature'', b64_std ?sig)]) False c = (Inr (random_id (hs_bytes h2), 600), c)"
  proof (rule post_answered [where v = "JObj [(''expires_in'', jint 600), (''token'', jstr (random_id (hs_bytes h2)))]"])
    show "?net (id_url (cl_identity c) @ ''/worker/v1'' @ ''/session'')
        (jprint (text_object [(''id'', wid), (''challenge'', ?ch), (''signature'', b64_std ?sig)]))
        (if False then Some (cl_token c) else None) =
        reply_of (respond 200 (Some (JObj [(''expires_in'', jint 600), (''token'', jstr (random_id (hs_bytes h2)))])))"
      using answered(1) [OF sig] ids by (simp add: session_plane_def assms(11))
    show "length (jprint (JObj [(''expires_in'', jint 600), (''token'', jstr (random_id (hs_bytes h2)))])) < answer_limit"
      using session_answer_length [of "random_id (hs_bytes h2)"] ids by (simp add: answer_limit_def del: jprint.simps)
  qed (use ids in \<open>simp_all add: message_ok dec_session int64_def del: valid_utf8.simps json_ok.simps\<close>)
  have "open_session ky ?net now got c = (None, c\<lparr>cl_token := random_id (hs_bytes h2), cl_until := got + 570 * second\<rparr>)"
    using assms(15) ids by (auto simp: open_session_def Let_def assms(11,12) first second)
  with answered(2) [OF sig] ids show ?thesis by blast
qed

subsection \<open>Instances\<close>

definition enrolled_workers :: workers where
  "enrolled_workers = no_workers\<lparr>ws_entries := [replicate 32 (CHR ''a'') \<mapsto>
     zero_worker\<lparr>w_id := replicate 32 (CHR ''a''), w_public_key := b64_std (replicate 32 (CHR ''p''))\<rparr>]\<rparr>"

definition session_host :: host where
  "session_host = small_host\<lparr>hs_verify := \<lambda>_ _ _. True, hs_now := 0, hs_view := 0, hs_challenges := [], hs_bytes := replicate 32 (CHR ''r'')\<rparr>"

theorem worker_opens_session_witness:
  "\<exists>ws2 sig. open_session small_keys (session_plane ''https://t'' session_host session_host enrolled_workers
        (snd (ws_challenge [] 0 (replicate 32 (CHR ''r'')) (replicate 32 (CHR ''a'')) enrolled_workers)) small_control) 0 0
        (small_client\<lparr>cl_token := []\<rparr>) = (None, small_client\<lparr>cl_token := random_id (replicate 32 (CHR ''r'')), cl_until := 570 * second\<rparr>)
     \<and> ws_authenticate (hs_sha session_host) 5 (random_id (replicate 32 (CHR ''r''))) ws2
         = Inr (zero_worker\<lparr>w_id := replicate 32 (CHR ''a''), w_public_key := b64_std (replicate 32 (CHR ''p''))\<rparr>)"
proof -
  let ?wid = "replicate 32 (CHR ''a'')" and ?c = "small_client\<lparr>cl_token := []\<rparr>"
  have h: "hs_bytes session_host = replicate 32 (CHR ''r'')" "hs_now session_host = 0" "hs_view session_host = 0"
    "hs_challenges session_host = []" "hs_verify session_host = (\<lambda>_ _ _. True)" by (simp_all add: session_host_def)
  have w: "ws_poison enrolled_workers = None" "ws_entries enrolled_workers ?wid =
      Some (zero_worker\<lparr>w_id := ?wid, w_public_key := b64_std (replicate 32 (CHR ''p''))\<rparr>)"
    "ws_challenges enrolled_workers = Map.empty"
    by (simp_all add: enrolled_workers_def no_workers_def)
  have u: "valid_utf8 ?wid" by code_simp
  have i: "id_id small_identity = ?wid" "id_url small_identity = ''https://t''" by (simp_all add: small_identity_def)
  have c: "cl_identity ?c = small_identity" by (simp add: small_client_def)
  have k: "wk_public small_keys x = replicate 32 (CHR ''p'')" "wk_sign small_keys x y = replicate 64 (CHR ''s'')" for x y
    by (simp_all add: small_keys_def)
  have e: "\<not> w_revoked (zero_worker\<lparr>w_id := ?wid, w_public_key := b64_std (replicate 32 (CHR ''p''))\<rparr>)" by (simp add: zero_worker_def)
  from worker_opens_session [where ky = small_keys and i = small_identity and ?h1.0 = session_host and ?h2.0 = session_host
      and c = ?c and wid = ?wid and ws = enrolled_workers and now = 0 and got = 0 and ct = small_control,
      OF w(1,2) e _ _ _ _ _ _ _ c i(1) _ u _ refl]
  obtain ws2 sig where s: "open_session small_keys (session_plane ''https://t'' session_host session_host enrolled_workers
        (snd (ws_challenge [] 0 (replicate 32 (CHR ''r'')) ?wid enrolled_workers)) small_control) 0 0 ?c
      = (None, ?c\<lparr>cl_token := random_id (replicate 32 (CHR ''r'')), cl_until := 0 + 570 * second\<rparr>)"
    "\<And>t. 0 \<le> t \<Longrightarrow> t \<le> 0 + 600 * second \<Longrightarrow> ws_authenticate (hs_sha session_host) t (random_id (replicate 32 (CHR ''r''))) ws2
       = Inr (zero_worker\<lparr>w_id := ?wid, w_public_key := b64_std (replicate 32 (CHR ''p''))\<rparr>)"
    unfolding h i k by (auto simp: second_def w(3) drop_stale_def)
  have "ws_authenticate (hs_sha session_host) 5 (random_id (replicate 32 (CHR ''r''))) ws2
       = Inr (zero_worker\<lparr>w_id := ?wid, w_public_key := b64_std (replicate 32 (CHR ''p''))\<rparr>)" by (rule s(2)) (simp_all add: second_def)
  with s(1) show ?thesis by auto
qed

end
