(* ===== verification/Cli.thy ===== *)
theory Cli
  imports Customer_Worker
begin

section \<open>The command line and the service (src/app)\<close>

text \<open>
  What a start of the program does before it serves, runs a worker or sends one request: the flags, the
  checks in their order, what is opened and closed again, and how the service ends. The components that
  are opened are those of the other theories, or parameters of type \<open>result\<close> where only success counts;
  package flag is modelled as far as it decides the outcome, without its usage text.
\<close>

subsection \<open>Package flag\<close>

datatype flag_value = FText string | FBool bool | FInt int

type_synonym flags = "(string \<times> flag_value) list"

text \<open>\<^verbatim>\<open>strconv.ParseBool\<close>, and \<^verbatim>\<open>strconv.ParseInt(s, 0, 64)\<close> with its base prefixes and underscores.\<close>

definition parse_flag_bool :: "string \<Rightarrow> bool option" where
  "parse_flag_bool s =
     (if s \<in> set [''1'', ''t'', ''T'', ''true'', ''TRUE'', ''True''] then Some True
      else if s \<in> set [''0'', ''f'', ''F'', ''false'', ''FALSE'', ''False''] then Some False else None)"

definition base_prefix :: "string \<Rightarrow> nat option" where
  "base_prefix s = (case map_of [(''0x'', 16), (''0X'', 16), (''0b'', 2), (''0B'', 2), (''0o'', 8), (''0O'', 8)] (take 2 s) of
     None \<Rightarrow> None | Some b \<Rightarrow> if 3 \<le> length s then Some b else None)"

text \<open>Underscores only separate digits, or the prefix from a digit: \<open>prev\<close> says that a digit, or the prefix, came just before.\<close>

fun underscores_ok :: "bool \<Rightarrow> string \<Rightarrow> bool" where
  "underscores_ok prev [] = True"
| "underscores_ok prev (c # cs) =
     (if c = CHR ''_'' then prev \<and> cs \<noteq> [] \<and> hd cs \<noteq> CHR ''_'' \<and> underscores_ok False cs else underscores_ok True cs)"

fun digits_value :: "nat \<Rightarrow> nat \<Rightarrow> string \<Rightarrow> nat option" where
  "digits_value base acc [] = Some acc"
| "digits_value base acc (c # cs) =
     (if c = CHR ''_'' then digits_value base acc cs
      else if is_hex c \<and> hex_val c < base then digits_value base (acc * base + hex_val c) cs else None)"

definition parse_flag_int :: "string \<Rightarrow> int option" where
  "parse_flag_int s =
     (let neg = has_prefix s ''-''; t = (if neg \<or> has_prefix s ''+'' then tl s else s);
          (base, digits, prefixed) = (case base_prefix t of Some b \<Rightarrow> (b, drop 2 t, True)
            | None \<Rightarrow> if has_prefix t ''0'' \<and> 2 \<le> length t then (8, tl t, True) else (10, t, False))
      in if digits = [] \<or> \<not> underscores_ok prefixed digits then None
         else case digits_value base 0 digits of
           None \<Rightarrow> None
         | Some n \<Rightarrow> if neg then (if n \<le> 2 ^ 63 then Some (- int n) else None) else (if n < 2 ^ 63 then Some (int n) else None))"

definition set_flag :: "string \<Rightarrow> flag_value \<Rightarrow> flags \<Rightarrow> flags" where
  "set_flag n v fs = map (\<lambda>(k, w). if k = n then (k, v) else (k, w)) fs"

definition read_flag :: "flag_value \<Rightarrow> string \<Rightarrow> flag_value option" where
  "read_flag old s = (case old of FText _ \<Rightarrow> Some (FText s)
     | FBool _ \<Rightarrow> map_option FBool (parse_flag_bool s) | FInt _ \<Rightarrow> map_option FInt (parse_flag_int s))"

text \<open>
  \<^verbatim>\<open>FlagSet.Parse\<close>: the values of the flags, which are given with their defaults, and the arguments
  that are left. The errors of the package are one.
\<close>

definition flag_error :: go_error where
  "flag_error = ErrNew ''flag''"

definition flag_name :: "string \<Rightarrow> string" where
  "flag_name s = (if has_prefix s ''--'' then drop 2 s else drop 1 s)"

fun parse_flags :: "flags \<Rightarrow> string list \<Rightarrow> (flags \<times> string list) result" where
  "parse_flags fs [] = Inr (fs, [])"
| "parse_flags fs (s # args) =
     (if length s < 2 \<or> hd s \<noteq> CHR ''-'' then Inr (fs, s # args)
      else if s = ''--'' then Inr (fs, args)
      else
        let whole = flag_name s; name = takeWhile (\<lambda>c. c \<noteq> CHR ''='') whole; given = drop (length name) whole in
        if whole = [] \<or> hd whole = CHR ''-'' \<or> hd whole = CHR ''='' then Inl flag_error
        else case map_of fs name of
          None \<Rightarrow> Inl flag_error
        | Some old \<Rightarrow>
            if given \<noteq> [] then
              (case read_flag old (tl given) of None \<Rightarrow> Inl flag_error | Some v \<Rightarrow> parse_flags (set_flag name v fs) args)
            else (case old of
              FBool _ \<Rightarrow> parse_flags (set_flag name (FBool True) fs) args
            | _ \<Rightarrow> (case args of
                [] \<Rightarrow> Inl flag_error
              | v # rest \<Rightarrow> (case read_flag old v of None \<Rightarrow> Inl flag_error | Some w \<Rightarrow> parse_flags (set_flag name w fs) rest))))"

definition flag_text :: "string \<Rightarrow> flags \<Rightarrow> string" where
  "flag_text n fs = (case map_of fs n of Some (FText s) \<Rightarrow> s | _ \<Rightarrow> [])"

definition flag_int :: "string \<Rightarrow> flags \<Rightarrow> int" where
  "flag_int n fs = (case map_of fs n of Some (FInt i) \<Rightarrow> i | _ \<Rightarrow> 0)"

definition flag_set :: "string \<Rightarrow> flags \<Rightarrow> bool" where
  "flag_set n fs = (case map_of fs n of Some (FBool b) \<Rightarrow> b | _ \<Rightarrow> False)"

subsection \<open>\<^verbatim>\<open>serve\<close>\<close>

definition serve_flags :: flags where
  "serve_flags = [(''addr'', FText ''127.0.0.1:23005''), (''data'', FText ''data''), (''config'', FText ''config.json''),
     (''account-config'', FText []), (''credential-key-file'', FText []), (''demo'', FBool False), (''workers'', FInt 2),
     (''worker-downloads'', FText [])]"

text \<open>
  What a start finds: the environment, the address parser, and what opening each component gives for the
  flags it is opened with. \<^verbatim>\<open>filepath.Join\<close> is \<open>sx_join\<close>.
\<close>

record start_env =
  sx_getenv :: "string \<Rightarrow> string"
  sx_parse_ip :: "string \<Rightarrow> ip option"
  sx_join :: "string \<Rightarrow> string \<Rightarrow> string"
  sx_sha :: "string \<Rightarrow> string"
  sx_accounts :: "string \<Rightarrow> accounts result"
  sx_store :: "string \<Rightarrow> store result"
  sx_demo :: "string \<Rightarrow> registry result"
  sx_config :: "string \<Rightarrow> registry result"
  sx_workers :: "string \<Rightarrow> workers result"
  sx_vault :: "string \<Rightarrow> string \<Rightarrow> string \<Rightarrow> vault result"
  sx_listen :: "string \<Rightarrow> go_error option"

text \<open>The service as it listens: its state, its operator token or its account service, and its hosted workers.\<close>

record service =
  se_control :: control
  se_token :: string
  se_accounts :: "accounts option"
  se_addr :: string
  se_hosted :: nat

datatype opened_part = StorePart | RegistryPart | WorkersPart | VaultPart

definition listen_anywhere :: go_error where
  "listen_anywhere = ErrNew ''set VECTOR_TRANSFER_TOKEN before listening beyond loopback''"

definition loopback_name :: "(string \<Rightarrow> ip option) \<Rightarrow> string \<Rightarrow> bool" where
  "loopback_name parse_ip host \<longleftrightarrow> host = ''localhost'' \<or> (case parse_ip host of None \<Rightarrow> False | Some a \<Rightarrow> is_loopback (unmap a))"

text \<open>The checks before anything is opened: the token and the account service.\<close>

definition serve_checks :: "start_env \<Rightarrow> flags \<Rightarrow> string list \<Rightarrow> (string \<times> accounts option) result" where
  "serve_checks w fs rest =
     (if rest \<noteq> [] then Inl (ErrNew ''unexpected serve argument'')
      else if flag_int ''workers'' fs < 0 \<or> 32 < flag_int ''workers'' fs then Inl (ErrNew ''workers must be between 0 and 32'')
      else
        let token = sx_getenv w ''VECTOR_TRANSFER_TOKEN'';
            accounts = (if flag_text ''account-config'' fs = [] then Inr None
              else if token \<noteq> [] \<or> flag_set ''demo'' fs
              then Inl (ErrNew ''account mode cannot be combined with an operator token or demo connections'')
              else map_sum id Some (sx_accounts w (flag_text ''account-config'' fs)))
        in case accounts of
          Inl e \<Rightarrow> Inl e
        | Inr acc \<Rightarrow>
            (case split_host_port (flag_text ''addr'' fs) of
               None \<Rightarrow> Inl (ErrNew ''address'')
             | Some (host, port) \<Rightarrow>
                 if acc = None \<and> token = [] \<and> \<not> loopback_name (sx_parse_ip w) host then Inl listen_anywhere
                 else Inr (token, acc)))"

text \<open>
  Opening the parts, in their order. The first component of the result is what a return then closes,
  in the order of the deferred calls: the last opened first.
\<close>

definition serve_open :: "start_env \<Rightarrow> flags \<Rightarrow> string \<Rightarrow> accounts option \<Rightarrow> opened_part list \<times> service result" where
  "serve_open w fs token acc =
     (let data = flag_text ''data'' fs; key = flag_text ''credential-key-file'' fs;
          realm = (case acc of None \<Rightarrow> [] | Some sv \<Rightarrow> account_realm (sx_sha w) (av_config sv)) in
      case sx_store w data of
        Inl e \<Rightarrow> ([], Inl e)
      | Inr st \<Rightarrow>
          (case (if flag_set ''demo'' fs then sx_demo w data else sx_config w (flag_text ''config'' fs)) of
             Inl e \<Rightarrow> ([StorePart], Inl e)
           | Inr reg \<Rightarrow>
               (case sx_workers w (sx_join w data ''workers'') of
                  Inl e \<Rightarrow> ([RegistryPart, StorePart], Inl e)
                | Inr ws \<Rightarrow>
                    (case (if key = [] then Inr None
                           else if acc = None then Inl (ErrNew ''personal connections require Polign account mode'')
                           else map_sum id Some (sx_vault w (sx_join w data ''connections'') key realm)) of
                       Inl e \<Rightarrow> ([WorkersPart, RegistryPart, StorePart], Inl e)
                     | Inr v \<Rightarrow>
                         let parts = (if v = None then [] else [VaultPart]) @ [WorkersPart, RegistryPart, StorePart] in
                         (case sx_listen w (flag_text ''addr'' fs) of
                            Some e \<Rightarrow> (parts, Inl e)
                          | None \<Rightarrow> (parts, Inr
                              \<lparr>se_control = \<lparr>ct_engine = \<lparr>eg_worker_downloads = flag_text ''worker-downloads'' fs,
                                   eg_hosted_disabled = (flag_int ''workers'' fs = 0), eg_registry = reg, eg_realm = realm,
                                   eg_vault = v, eg_workers = Some ws\<rparr>, ct_store = st\<rparr>,
                                 se_token = token, se_accounts = acc, se_addr = flag_text ''addr'' fs,
                                 se_hosted = nat (flag_int ''workers'' fs)\<rparr>))))))"

definition serve :: "start_env \<Rightarrow> string list \<Rightarrow> opened_part list \<times> service result" where
  "serve w args =
     (case parse_flags serve_flags args of
        Inl e \<Rightarrow> ([], Inl e)
      | Inr (fs, rest) \<Rightarrow>
          (case serve_checks w fs rest of Inl e \<Rightarrow> ([], Inl e) | Inr (token, acc) \<Rightarrow> serve_open w fs token acc))"

text \<open>
  The end of the service: a signal, the engine, or the server comes first. Then the server is shut down
  and, unless it has ended already, the engine is waited for. \<^verbatim>\<open>http.ErrServerClosed\<close> is no error.
\<close>

datatype first_end = Signalled | EngineEnded "go_error option" | ServerEnded "go_error option"

definition serve_end :: "first_end \<Rightarrow> go_error option \<Rightarrow> go_error option" where
  "serve_end first engine =
     (case first of Signalled \<Rightarrow> engine | EngineEnded e \<Rightarrow> e | ServerEnded e \<Rightarrow> first_error [e, engine])"

text \<open>Who answers: the handler with the operator's token, or the one of the account service, over HTTPS.\<close>

definition serve_handler :: "start_env \<Rightarrow> (string \<Rightarrow> url option) \<Rightarrow> (accounts \<Rightarrow> account_service) \<Rightarrow> service \<Rightarrow> handler" where
  "serve_handler w parse_url as se = \<lparr>hn_token = se_token se, hn_accounts = map_option as (se_accounts se),
     hn_parse_url = parse_url, hn_parse_ip = sx_parse_ip w\<rparr>"

definition serve_answer :: "start_env \<Rightarrow> (request \<Rightarrow> response) \<Rightarrow> service \<Rightarrow> request \<Rightarrow> response" where
  "serve_answer w inner se = (case se_accounts se of None \<Rightarrow> inner | Some sv \<Rightarrow> secure_origin (av_config sv) inner)"

subsection \<open>One request of the client\<close>

definition client_flags :: flags where
  "client_flags = [(''url'', FText ''http://127.0.0.1:23005''), (''file'', FText []), (''idempotency-key'', FText []),
     (''after'', FText ''0'')]"

text \<open>The request: method, path and body, for the arguments that are left after the flags.\<close>

definition client_request :: "string \<Rightarrow> (string \<Rightarrow> string result) \<Rightarrow> flags \<Rightarrow> string list \<Rightarrow> (string \<times> string \<times> string) result" where
  "client_request command read fs rest =
     (if command = ''submit'' then
        (if flag_text ''file'' fs = [] then Inl (ErrNew ''submit requires -file job.json'')
         else map_sum id (\<lambda>b. (''POST'', ''/v1/jobs'', b)) (read (flag_text ''file'' fs)))
      else if command = ''jobs'' then Inr (''GET'', ''/v1/jobs'', [])
      else if command = ''connections'' then Inr (''GET'', ''/v1/connections'', [])
      else if command \<in> set [''show'', ''events'', ''cancel'', ''resume''] then
        (case rest of
           [i] \<Rightarrow>
             let path = ''/v1/jobs/'' @ path_escape i in
             Inr (if command = ''events'' then (''GET'', path @ ''/events?limit=1000&after='' @ query_escape (flag_text ''after'' fs), [])
                  else if command = ''cancel'' \<or> command = ''resume'' then (''POST'', path @ ''/'' @ command, ''{}'')
                  else (''GET'', path, []))
         | _ \<Rightarrow> Inl (ErrNew (command @ '' requires one job ID after flags'')))
      else Inl (ErrNew (''unknown command: '' @ command)))"

record sent =
  sn_method :: string
  sn_url :: string
  sn_headers :: "(string \<times> string) list"
  sn_body :: string

text \<open>The token is sent over HTTPS, or to this machine, only. \<open>parse\<close> reads a URL as \<^verbatim>\<open>http.NewRequest\<close> does.\<close>

definition client_send ::
  "(string \<Rightarrow> string) \<Rightarrow> (string \<Rightarrow> url option) \<Rightarrow> (string \<Rightarrow> ip option) \<Rightarrow> flags \<Rightarrow> string \<times> string \<times> string \<Rightarrow> sent result" where
  "client_send getenv parse parse_ip fs rq =
     (case rq of (meth, path, body) \<Rightarrow>
       let url = trim_right (CHR ''/'') (flag_text ''url'' fs) @ path; key = flag_text ''idempotency-key'' fs;
           token = (if getenv ''VECTOR_TRANSFER_ACCOUNT_TOKEN'' = [] then getenv ''VECTOR_TRANSFER_TOKEN''
             else getenv ''VECTOR_TRANSFER_ACCOUNT_TOKEN'')
       in case parse url of
         None \<Rightarrow> Inl (ErrNew ''url'')
       | Some u \<Rightarrow>
           if token \<noteq> [] \<and> u_scheme u \<noteq> ''https'' \<and> \<not> loopback_name parse_ip (u_hostname u)
           then Inl (ErrNew ''tokens require HTTPS outside loopback'')
           else Inr \<lparr>sn_method = meth, sn_url = url,
             sn_headers = [(''Content-Type'', ''application/json'')] @ (if token = [] then [] else [(''Authorization'', ''Bearer '' @ token)])
               @ (if key = [] then [] else [(''Idempotency-Key'', key)]),
             sn_body = body\<rparr>)"

text \<open>
  \<^verbatim>\<open>json.Indent\<close> with two spaces, byte by byte on a valid text: a depth, whether an object or array has just been
  opened, and whether the byte is in a string. The strings and numbers stay as they were written.
\<close>

definition new_line :: "nat \<Rightarrow> string" where
  "new_line d = newline # replicate (2 * d) (CHR '' '')"

datatype indent_mode = Outside | Inside | Escaped

fun indent_text :: "nat \<Rightarrow> bool \<Rightarrow> indent_mode \<Rightarrow> string \<Rightarrow> string" where
  "indent_text d fresh m [] = []"
| "indent_text d fresh Escaped (c # cs) = c # indent_text d fresh Inside cs"
| "indent_text d fresh Inside (c # cs) =
     c # indent_text d fresh (if c = CHR 0x5C then Escaped else if c = CHR 0x22 then Outside else Inside) cs"
| "indent_text d fresh Outside (c # cs) =
     (if is_ws c then indent_text d fresh Outside cs
      else if c = CHR ''}'' \<or> c = CHR '']'' then
        (if fresh then c # indent_text d False Outside cs else new_line (d - 1) @ c # indent_text (d - 1) False Outside cs)
      else let e = (if fresh then Suc d else d) in (if fresh then new_line e else []) @ c #
        (if c = CHR ''{'' \<or> c = CHR ''['' then indent_text e True Outside cs
         else if c = CHR '','' then new_line e @ indent_text e False Outside cs
         else if c = CHR '':'' then CHR '' '' # indent_text e False Outside cs
         else indent_text e False (if c = CHR 0x22 then Inside else Outside) cs))"

definition response_limit :: nat where
  "response_limit = 8 * 1024 * 1024"

definition trailing_space :: "string \<Rightarrow> string" where
  "trailing_space s = rev (takeWhile is_ws (rev s))"

text \<open>What is printed for the answer, or the error.\<close>

definition client_answer :: "int \<Rightarrow> string \<Rightarrow> string result" where
  "client_answer status body =
     (let b = take response_limit body in
      if 300 \<le> status then Inl (ErrNew (''HTTP '' @ itoa status @ '': '' @ trim_space b))
      else case json_parse b of
        None \<Rightarrow> Inl (ErrNew ''json'')
      | Some _ \<Rightarrow> Inr (indent_text 0 False Outside b @ trailing_space b @ [newline]))"

definition client_main ::
  "(string \<Rightarrow> string) \<Rightarrow> (string \<Rightarrow> url option) \<Rightarrow> (string \<Rightarrow> ip option) \<Rightarrow> (string \<Rightarrow> string result) \<Rightarrow> (sent \<Rightarrow> reply) \<Rightarrow>
   string \<Rightarrow> string list \<Rightarrow> string result" where
  "client_main getenv parse parse_ip read net command args =
     (case parse_flags client_flags args of
        Inl e \<Rightarrow> Inl e
      | Inr (fs, rest) \<Rightarrow>
          (case client_request command read fs rest of
             Inl e \<Rightarrow> Inl e
           | Inr rq \<Rightarrow>
               (case client_send getenv parse parse_ip fs rq of
                  Inl e \<Rightarrow> Inl e
                | Inr m \<Rightarrow> (case net m of NoReply \<Rightarrow> Inl (ErrNew ''no answer'') | Reply status body \<Rightarrow> client_answer status body))))"

subsection \<open>\<^verbatim>\<open>worker\<close>\<close>

definition worker_flags :: flags where
  "worker_flags = [(''data'', FText ''worker-data''), (''url'', FText ''https://transfer.polign.com''), (''token-file'', FText []),
     (''config'', FText ''worker.json''), (''allow-http-loopback'', FBool False)]"

text \<open>The token file as \<^verbatim>\<open>os.Stat\<close> reports it, and its content.\<close>

record token_file =
  tf_regular :: bool
  tf_size :: int
  tf_mode :: nat
  tf_content :: "string result"

definition token_of_file :: "token_file result \<Rightarrow> string result" where
  "token_of_file f =
     (case f of
        Inl e \<Rightarrow> Inl e
      | Inr t \<Rightarrow>
          if \<not> tf_regular t \<or> 1024 < tf_size t \<or> tf_mode t mod 64 \<noteq> 0
          then Inl (ErrNew ''enrollment token file must be private (0600) and at most 1 KiB'')
          else map_sum id trim_space (tf_content t))"

text \<open>
  What a worker command finds: the data directory, the token file, the enrollment of a client, the local
  configuration, the connections it names, and the run of a client.
\<close>

record worker_env =
  wx_open :: "string \<Rightarrow> client result"
  wx_token :: "string \<Rightarrow> token_file result"
  wx_enroll :: "string \<Rightarrow> string \<Rightarrow> bool \<Rightarrow> client \<Rightarrow> go_error option \<times> client"
  wx_config :: "string \<Rightarrow> worker_config result"
  wx_registry :: "string \<Rightarrow> registry result"
  wx_run :: "registry \<Rightarrow> wpair list \<Rightarrow> bool \<Rightarrow> client \<Rightarrow> go_error option"

text \<open>The client is there when the data directory was opened; it is closed on return.\<close>

definition worker_command :: "worker_env \<Rightarrow> string \<Rightarrow> flags \<Rightarrow> client \<Rightarrow> go_error option \<times> client" where
  "worker_command w command fs c =
     (let allow = flag_set ''allow-http-loopback'' fs in
      if command = ''enroll'' then
        (if flag_text ''token-file'' fs = []
         then (Some (ErrNew ''enrollment requires -token-file; do not put tokens on the command line''), c)
         else case token_of_file (wx_token w (flag_text ''token-file'' fs)) of
           Inl e \<Rightarrow> (Some e, c)
         | Inr token \<Rightarrow> wx_enroll w (flag_text ''url'' fs) token allow c)
      else if command = ''run'' then
        (case wx_config w (flag_text ''config'' fs) of
           Inl e \<Rightarrow> (Some e, c)
         | Inr cfg \<Rightarrow>
             (case wx_registry w (wf_connections cfg) of
                Inl e \<Rightarrow> (Some (ErrNew ''could not open local connections; check configuration and locally supplied credentials''), c)
              | Inr reg \<Rightarrow> (wx_run w reg (wf_pairs cfg) allow c, c)))
      else (Some (ErrNew ''unknown worker command''), c))"

definition worker_main :: "worker_env \<Rightarrow> string list \<Rightarrow> go_error option \<times> client option" where
  "worker_main w args =
     (case args of
        [] \<Rightarrow> (Some (ErrNew ''usage: vtransfer worker enroll|run [flags]''), None)
      | command # rest \<Rightarrow>
          (case parse_flags worker_flags rest of
             Inl e \<Rightarrow> (Some e, None)
           | Inr (fs, left) \<Rightarrow>
               if left \<noteq> [] then (Some (ErrNew ''unexpected worker argument''), None)
               else case wx_open w (flag_text ''data'' fs) of
                 Inl e \<Rightarrow> (Some e, None)
               | Inr c \<Rightarrow> apsnd Some (worker_command w command fs c)))"

text \<open>The program: what it starts, by its first argument.\<close>

datatype command_line = Usage | WorkerCommand "string list" | ServeCommand "string list" | ClientCommand string "string list"

definition run_command :: "string list \<Rightarrow> command_line" where
  "run_command args = (case args of [] \<Rightarrow> Usage
     | a # rest \<Rightarrow> if a = ''worker'' then WorkerCommand rest else if a = ''serve'' then ServeCommand rest else ClientCommand a rest)"

text \<open>\<^verbatim>\<open>main\<close>: an error is logged and the exit status is 1.\<close>

definition exit_status :: "go_error option \<Rightarrow> int" where
  "exit_status err = (if err = None then 0 else 1)"

end
