(* ===== verification/Cli_Properties.thy ===== *)
theory Cli_Properties
  imports Cli Control_Properties Workers_Properties
begin

section \<open>Properties of the command line\<close>

text \<open>
  A service that is started is protected, a client keeps its token private, and the identifier of a job
  reaches the control plane as it was given.
\<close>

subsection \<open>Starting the service\<close>

lemma serve_opened:
  assumes "serve w args = (parts, Inr se)"
  obtains fs where "serve_checks w fs [] = Inr (se_token se, se_accounts se)" "flag_text ''addr'' fs = se_addr se"
    "serve_open w fs (se_token se) (se_accounts se) = (parts, Inr se)"
proof -
  from assms obtain fs rest token acc where p: "parse_flags serve_flags args = Inr (fs, rest)" "serve_checks w fs rest = Inr (token, acc)"
    "serve_open w fs token acc = (parts, Inr se)"
    by (auto simp: serve_def split: sum.splits)
  from p(2) have "rest = []" by (auto simp: serve_checks_def split: if_splits)
  moreover from p(3) have "se_token se = token" "se_accounts se = acc" "se_addr se = flag_text ''addr'' fs"
    by (auto simp: serve_open_def Let_def split: sum.splits option.splits)
  ultimately show thesis using p that by metis
qed


subsection \<open>The client's token\<close>

text \<open>C35: The client never shows its token to the network: a request that carries one goes over HTTPS or to
  this machine.\<close>

theorem token_kept_private:
  assumes "client_send getenv parse parse_ip fs rq = Inr m" "(''Authorization'', v) \<in> set (sn_headers m)"
  shows "\<exists>u. parse (sn_url m) = Some u \<and> (u_scheme u = ''https'' \<or> loopback_name parse_ip (u_hostname u))"
  using assms by (auto simp: client_send_def Let_def split: prod.splits option.splits if_splits)

subsection \<open>The path of a job\<close>

text \<open>How the server reads a path: the part before the query, its segments, each unescaped.\<close>

fun path_unescape :: "string \<Rightarrow> string option" where
  "path_unescape [] = Some []"
| "path_unescape (c # cs) =
     (if c = CHR ''%'' then
        (case cs of
           a # b # r \<Rightarrow> if is_hex a \<and> is_hex b then map_option (\<lambda>t. char_of (hex_val a * 16 + hex_val b) # t) (path_unescape r) else None
         | _ \<Rightarrow> None)
      else map_option (\<lambda>t. c # t) (path_unescape cs))"

definition request_segments :: "string \<Rightarrow> string list option" where
  "request_segments path = all_some (map path_unescape (split_on (CHR ''/'') (drop 1 (takeWhile (\<lambda>c. c \<noteq> CHR ''?'') path))))"

lemma split_on_cons: "c \<notin> set s \<Longrightarrow> split_on c (s @ c # r) = s # split_on c r"
  by (induction s) auto

lemma split_on_last: "c \<notin> set s \<Longrightarrow> split_on c s = [s]"
  by (induction s) auto

lemma unescape_percent: "path_unescape (percent c @ r) = map_option (\<lambda>t. c # t) (path_unescape r)"
proof -
  have d: "byte c div 16 < 16" "byte c mod 16 < 16" using byte_less [of c] by (simp_all add: less_mult_imp_div_less)
  have h: "is_hex (upper_hex n)" "hex_val (upper_hex n) = n" if "n < 16" for n
    using that by (auto simp: is_hex_def is_hex_lower_def upper_hex_def hex_val_def is_digit_def byte_char_of)
  have "byte c div 16 * 16 + byte c mod 16 = byte c" by simp
  then show ?thesis using d h by (simp add: percent_def)
qed

lemma path_escape_Cons: "path_escape (c # cs) =
    (if url_unreserved c \<or> c \<in> set [CHR ''$'', CHR ''&'', CHR ''+'', CHR '':'', CHR ''='', CHR ''@''] then [c] else percent c) @ path_escape cs"
  by (simp add: path_escape_def)

lemma unescape_escape: "path_unescape (path_escape s) = Some s"
proof (induction s)
  case (Cons c cs)
  then show ?case unfolding path_escape_Cons using plain_no_separator [of c] by (simp add: unescape_percent)
qed (simp add: path_escape_def)

lemma plain_segment: "list_all (\<lambda>c. c \<noteq> CHR ''%'') s \<Longrightarrow> path_unescape s = Some s"
  by (induction s) auto

lemma takeWhile_query: "\<forall>c \<in> set s. c \<noteq> CHR ''?'' \<Longrightarrow> takeWhile (\<lambda>c. c \<noteq> CHR ''?'') (s @ CHR ''?'' # q) = s"
  by (simp add: takeWhile_append)

lemma job_segments:
  assumes "q = [] \<or> hd q = CHR ''?''" "\<forall>c \<in> set tail. c \<noteq> CHR ''/'' \<and> c \<noteq> CHR ''?'' \<and> c \<noteq> CHR ''%''"
  shows "request_segments (''/v1/jobs/'' @ path_escape i @ q) = Some [''v1'', ''jobs'', i]"
    "request_segments (''/v1/jobs/'' @ path_escape i @ CHR ''/'' # tail @ q) = Some [''v1'', ''jobs'', i, tail]"
proof -
  note e = path_escape_segment [of _ i]
  have ns: "CHR ''/'' \<notin> set (path_escape i)" "CHR ''/'' \<notin> set tail" using e assms(2) by blast+
  have w: "takeWhile (\<lambda>c. c \<noteq> CHR ''?'') (s @ q) = s" if "\<forall>c \<in> set s. c \<noteq> CHR ''?''" for s
    using that assms(1) takeWhile_query [of s "tl q"] by (cases q) (auto simp: takeWhile_eq_all_conv)
  have t: "path_unescape tail = Some tail" using assms(2) by (intro plain_segment) (auto simp: list_all_iff)
  have v: "path_unescape ''v1'' = Some ''v1''" "path_unescape ''jobs'' = Some ''jobs''" by code_simp+
  have split: "split_on (CHR ''/'') (''v1/jobs/'' @ r) = ''v1'' # ''jobs'' # split_on (CHR ''/'') r" for r by simp
  have "takeWhile (\<lambda>c. c \<noteq> CHR ''?'') (''/v1/jobs/'' @ path_escape i @ q) = ''/v1/jobs/'' @ path_escape i"
    using w [of "''/v1/jobs/'' @ path_escape i"] e by auto
  moreover have "split_on (CHR ''/'') (path_escape i) = [path_escape i]" by (rule split_on_last [OF ns(1)])
  ultimately show "request_segments (''/v1/jobs/'' @ path_escape i @ q) = Some [''v1'', ''jobs'', i]"
    using split [of "path_escape i"] v by (simp add: request_segments_def unescape_escape)
  have "takeWhile (\<lambda>c. c \<noteq> CHR ''?'') (''/v1/jobs/'' @ path_escape i @ CHR ''/'' # tail @ q) = ''/v1/jobs/'' @ path_escape i @ CHR ''/'' # tail"
    using w [of "''/v1/jobs/'' @ path_escape i @ CHR ''/'' # tail"] e assms(2) by auto
  moreover have "split_on (CHR ''/'') (path_escape i @ CHR ''/'' # tail) = [path_escape i, tail]"
    by (simp only: split_on_cons [OF ns(1)] split_on_last [OF ns(2)])
  ultimately show "request_segments (''/v1/jobs/'' @ path_escape i @ CHR ''/'' # tail @ q) = Some [''v1'', ''jobs'', i, tail]"
    using split [of "path_escape i @ CHR ''/'' # tail"] v t by (simp add: request_segments_def unescape_escape)
qed

text \<open>C36: A command of the client about a job reaches that job. Whatever the identifier is, the request the
  client writes for show, events, cancel or resume is answered by the control plane as that operation
  on exactly that identifier.\<close>

theorem client_reaches_job:
  assumes "client_request command read fs [i] = Inr (meth, path, body)" "command \<in> {''show'', ''events'', ''cancel'', ''resume''}" "i \<noteq> []"
    and "rq_method r = meth" "request_segments path = Some (rq_path r)"
  shows "api_route hn h ow r ct =
     (if command = ''show'' then job_get ow i ct else if command = ''events'' then job_history h ow i r ct
      else job_steer h (hn_token hn) ow i command r ct)"
proof -
  from assms(2) consider "command = ''show''" | "command = ''events''" | "command = ''cancel''" | "command = ''resume''" by blast
  then show ?thesis
  proof cases
    case 1
    with assms(1) have p: "meth = ''GET''" "path = ''/v1/jobs/'' @ path_escape i" by (simp_all add: client_request_def Let_def)
    with assms(5) job_segments(1) [of "[]" "[]" i] have "rq_path r = [''v1'', ''jobs'', i]" by simp
    with 1 assms(3,4) p show ?thesis by (simp add: api_route_def safe_method_def)
  next
    case 2
    let ?q = "''?limit=1000&after='' @ query_escape (flag_text ''after'' fs)"
    from 2 assms(1) have p: "meth = ''GET''" "path = ''/v1/jobs/'' @ path_escape i @ CHR ''/'' # ''events'' @ ?q"
      by (simp_all add: client_request_def Let_def)
    with assms(5) job_segments(2) [of ?q "''events''" i] have "rq_path r = [''v1'', ''jobs'', i, ''events'']" by simp
    with 2 assms(3,4) p show ?thesis by (simp add: api_route_def safe_method_def)
  next
    case 3
    with assms(1) have p: "meth = ''POST''" "path = ''/v1/jobs/'' @ path_escape i @ CHR ''/'' # ''cancel'' @ []"
      by (simp_all add: client_request_def Let_def)
    with assms(5) job_segments(2) [of "[]" "''cancel''" i] have "rq_path r = [''v1'', ''jobs'', i, ''cancel'']" by simp
    with 3 assms(3,4) p show ?thesis by (simp add: api_route_def safe_method_def)
  next
    case 4
    with assms(1) have p: "meth = ''POST''" "path = ''/v1/jobs/'' @ path_escape i @ CHR ''/'' # ''resume'' @ []"
      by (simp_all add: client_request_def Let_def)
    with assms(5) job_segments(2) [of "[]" "''resume''" i] have "rq_path r = [''v1'', ''jobs'', i, ''resume'']" by simp
    with 4 assms(3,4) p show ?thesis by (simp add: api_route_def safe_method_def)
  qed
qed

subsection \<open>Instances\<close>

definition plain_start :: start_env where
  "plain_start = \<lparr>sx_getenv = \<lambda>_. ''t'', sx_parse_ip = \<lambda>_. None, sx_join = \<lambda>a b. a @ CHR ''/'' # b, sx_sha = id,
     sx_accounts = \<lambda>_. Inl (ErrNew ''none''), sx_store = \<lambda>_. Inr empty_store, sx_demo = \<lambda>_. Inr Map.empty, sx_config = \<lambda>_. Inr Map.empty,
     sx_workers = \<lambda>_. Inr no_workers, sx_vault = \<lambda>_ _ _. Inl ErrVaultUnavailable, sx_listen = \<lambda>_. None\<rparr>"


definition https_only :: "string \<Rightarrow> url option" where
  "https_only s = Some \<lparr>u_scheme = ''https'', u_host = ''t'', u_user = False, u_raw_query = [], u_fragment = [], u_path = [], u_hostname = ''t''\<rparr>"

theorem token_kept_private_witness:
  "\<exists>m u. client_send (\<lambda>_. ''t'') https_only (\<lambda>_. None) client_flags (''GET'', ''/v1/jobs'', []) = Inr m
     \<and> https_only (sn_url m) = Some u \<and> (u_scheme u = ''https'' \<or> loopback_name (\<lambda>_. None) (u_hostname u))"
proof -
  obtain m where m: "client_send (\<lambda>_. ''t'') https_only (\<lambda>_. None) client_flags (''GET'', ''/v1/jobs'', []) = Inr m"
    "(''Authorization'', ''Bearer t'') \<in> set (sn_headers m)"
    by (simp add: client_send_def https_only_def Let_def)
  from token_kept_private [OF m] m(1) show ?thesis by blast
qed

theorem client_reaches_job_witness:
  "api_route small_handler small_host (Some alice) (cancel_request ''a/b'') small_control
     = job_steer small_host (hn_token small_handler) (Some alice) ''a/b'' ''cancel'' (cancel_request ''a/b'') small_control"
proof -
  have c: "client_request ''cancel'' (\<lambda>_. Inr []) client_flags [''a/b''] = Inr (''POST'', ''/v1/jobs/a%2Fb/cancel'', ''{}'')" by code_simp
  have p: "request_segments ''/v1/jobs/a%2Fb/cancel'' = Some [''v1'', ''jobs'', ''a/b'', ''cancel'']" by code_simp
  from client_reaches_job [OF c, of "cancel_request ''a/b''" small_handler small_host "Some alice" small_control] p
  show ?thesis by (simp add: cancel_request_def)
qed

end
