(* ===== verification/Http.thy ===== *)
theory Http
  imports Go_Wire
begin

section \<open>Requests of the remote connectors (src/connector/http.go)\<close>

text \<open>
  The server behind a connector is a state \<open>'w\<close> and the function \<open>nw_do\<close> that answers a request and
  moves that state; it, the state of the context, the URL parser and the signer of S3 are parameters. An
  action takes the state and returns a result and the state after it. The text of network errors and
  response bodies never leaves this module, which is why an error here is one of a few fixed values.
\<close>

subsection \<open>Actions\<close>

type_synonym ('w, 'a) act = "'w \<Rightarrow> 'a result \<times> 'w"

definition ret :: "'a \<Rightarrow> ('w, 'a) act" where
  "ret x w = (Inr x, w)"

definition failing :: "go_error \<Rightarrow> ('w, 'a) act" where
  "failing e w = (Inl e, w)"

definition bind :: "('w, 'a) act \<Rightarrow> ('a \<Rightarrow> ('w, 'b) act) \<Rightarrow> ('w, 'b) act" where
  "bind f g w = (case f w of (Inl e, w') \<Rightarrow> (Inl e, w') | (Inr x, w') \<Rightarrow> g x w')"

definition lift :: "'a result \<Rightarrow> ('w, 'a) act" where
  "lift r w = (r, w)"

lemma act_simps [simp]:
  "bind (ret x) g = g x" "bind (failing e) g = failing e" "bind (lift (Inl e)) g = failing e" "bind (lift (Inr x)) g = g x"
  "fst (ret x w) = Inr x" "fst (failing e w) = Inl e" "snd (ret x w) = w" "snd (failing e w) = w"
  by (auto simp: bind_def ret_def failing_def lift_def)

lemma bind_Inr_iff: "bind f g w = (Inr y, w'') \<longleftrightarrow> (\<exists>x w'. f w = (Inr x, w') \<and> g x w' = (Inr y, w''))"
  by (auto simp: bind_def split: prod.splits sum.splits)

lemma ret_iff [simp]: "ret x w = (r, w') \<longleftrightarrow> r = Inr x \<and> w' = w"
  by (auto simp: ret_def)

lemma failing_iff [simp]: "failing e w = (r, w') \<longleftrightarrow> r = Inl e \<and> w' = w"
  by (auto simp: failing_def)

lemma lift_iff [simp]: "lift x w = (r, w') \<longleftrightarrow> r = x \<and> w' = w"
  by (auto simp: lift_def)

subsection \<open>One request\<close>

definition max_response_bytes :: nat where
  "max_response_bytes = 64 * 1024 * 1024"

record http_request =
  rq_method :: string
  rq_url :: string
  rq_headers :: "(string \<times> string) list"
  rq_body :: string

text \<open>A response: its status, the bytes of the body and the error that ends them, if one does.\<close>

record http_reply =
  rp_status :: int
  rp_body :: string
  rp_error :: "go_error option"

record 'w network =
  nw_ctx :: "go_error option"
  nw_ctx_after :: "go_error option"
  nw_valid :: "string \<Rightarrow> bool"
  nw_do :: "http_request \<Rightarrow> 'w \<Rightarrow> http_reply result \<times> 'w"
  nw_float :: "f32 \<Rightarrow> string"

record remote =
  rm_base :: string
  rm_headers :: "(string \<times> string) list"
  rm_sign :: "(http_request \<Rightarrow> http_request result) option"

definition new_remote :: "string \<Rightarrow> (string \<times> string) list \<Rightarrow> remote" where
  "new_remote base headers = \<lparr>rm_base = base, rm_headers = headers, rm_sign = None\<rparr>"

definition invalid_url_error :: go_error where
  "invalid_url_error = ErrNew ''invalid connector request URL''"

definition network_error :: go_error where
  "network_error = Transient (ErrNew ''connector network request failed'')"

definition read_error :: go_error where
  "read_error = Transient (ErrNew ''connector response read failed'')"

definition too_large_error :: go_error where
  "too_large_error = ErrNew ''connector response exceeds 64 MiB; reduce batch size''"

definition invalid_response_error :: go_error where
  "invalid_response_error = ErrNew ''connector returned an invalid response''"

definition status_error :: "int \<Rightarrow> go_error" where
  "status_error n = (if n = 408 \<or> n = 429 \<or> 500 \<le> n then Transient (HttpStatusError n) else HttpStatusError n)"

text \<open>\<^verbatim>\<open>io.Copy\<close> and \<^verbatim>\<open>io.ReadAll\<close> of a body limited to \<open>n\<close> bytes: what is read, and the error met before the limit.\<close>

definition read_limited :: "nat \<Rightarrow> http_reply \<Rightarrow> string \<times> go_error option" where
  "read_limited n p = (take n (rp_body p), if n \<le> length (rp_body p) then None else rp_error p)"

text \<open>What becomes of the body: without \<open>out\<close> it is discarded, else it is read whole and decoded.\<close>

definition take_body :: "(string \<Rightarrow> 'a option) option \<Rightarrow> http_reply \<Rightarrow> 'a option result" where
  "take_body out p = (case out of
       None \<Rightarrow> (case snd (read_limited max_response_bytes p) of None \<Rightarrow> Inr None | Some e \<Rightarrow> Inl e)
     | Some decode \<Rightarrow>
         (let b = read_limited (max_response_bytes + 1) p in
          if snd b \<noteq> None then Inl read_error
          else if max_response_bytes < length (fst b) then Inl too_large_error
          else case decode (fst b) of None \<Rightarrow> Inl invalid_response_error | Some x \<Rightarrow> Inr (Some x)))"

definition take_reply :: "(string \<Rightarrow> 'a option) option \<Rightarrow> http_reply \<Rightarrow> 'a option result" where
  "take_reply out p = (if rp_status p < 200 \<or> 300 \<le> rp_status p then Inl (status_error (rp_status p)) else take_body out p)"

definition call_bytes ::
  "'w network \<Rightarrow> remote \<Rightarrow> string \<Rightarrow> string \<Rightarrow> string \<Rightarrow> string \<Rightarrow> (string \<Rightarrow> 'a option) option \<Rightarrow> ('w, 'a option) act" where
  "call_bytes nw c meth path payload content_type out =
     (if \<not> nw_valid nw (rm_base c @ path) then failing invalid_url_error
      else
        let rq = \<lparr>rq_method = meth, rq_url = rm_base c @ path,
                  rq_headers = put_member ''Content-Type'' content_type (rm_headers c), rq_body = payload\<rparr>
        in bind (lift (case rm_sign c of None \<Rightarrow> Inr rq | Some sign \<Rightarrow> sign rq)) (\<lambda>rq w.
             case nw_do nw rq w of
               (Inl e, w') \<Rightarrow> (Inl (case nw_ctx_after nw of Some err \<Rightarrow> err | None \<Rightarrow> network_error), w')
             | (Inr p, w') \<Rightarrow> (take_reply out p, w')))"

definition json_type :: string where
  "json_type = ''application/json''"

definition call ::
  "'w network \<Rightarrow> remote \<Rightarrow> string \<Rightarrow> string \<Rightarrow> gval option \<Rightarrow> (string \<Rightarrow> 'a option) option \<Rightarrow> ('w, 'a option) act" where
  "call nw c meth path body out =
     (case nw_ctx nw of Some e \<Rightarrow> failing e | None \<Rightarrow>
        bind (lift (case body of None \<Rightarrow> Inr [] | Some v \<Rightarrow> marshal (nw_float nw) v))
          (\<lambda>payload. call_bytes nw c meth path payload json_type out))"

text \<open>The two ways connectors use it: with a response to decode, and without.\<close>

definition call_out :: "'w network \<Rightarrow> remote \<Rightarrow> string \<Rightarrow> string \<Rightarrow> gval option \<Rightarrow> (string \<Rightarrow> 'a option) \<Rightarrow> ('w, 'a) act" where
  "call_out nw c meth path body decode = bind (call nw c meth path body (Some decode)) (\<lambda>x. ret (the x))"

definition call_ack :: "'w network \<Rightarrow> remote \<Rightarrow> string \<Rightarrow> string \<Rightarrow> gval option \<Rightarrow> ('w, unit) act" where
  "call_ack nw c meth path body = bind (call nw c meth path body None) (\<lambda>x :: unit option. ret ())"

subsection \<open>Chunks\<close>

definition record_too_large_error :: go_error where
  "record_too_large_error = ErrNew ''a record exceeds the destination request size limit''"

text \<open>
  The inner loop: the first \<open>n\<close> of the remaining records, with \<open>n\<close> halved until they fit. The outer
  loop sends them and goes on with the rest; with a limit of no records at all it would never end, so it
  is a partial function, \<open>None\<close> where the code does not return.
\<close>

function fit :: "(vrecord list \<Rightarrow> string result) \<Rightarrow> nat \<Rightarrow> vrecord list \<Rightarrow> nat \<Rightarrow> nat result" where
  "fit enc max_bytes rs n =
     (case enc (take n rs) of
        Inl e \<Rightarrow> Inl e
      | Inr b \<Rightarrow>
          if length b \<le> max_bytes then Inr n
          else if n = 1 then Inl record_too_large_error
          else fit enc max_bytes rs (max 1 (n div 2)))"
  by pat_completeness auto
termination by (relation "measure (\<lambda>(_, _, _, n). if n = 0 then 2 else n)") auto

declare fit.simps [simp del]

partial_function (option) chunks ::
  "nat \<Rightarrow> nat \<Rightarrow> (vrecord list \<Rightarrow> string result) \<Rightarrow> (vrecord list \<Rightarrow> 'w \<Rightarrow> unit result \<times> 'w) \<Rightarrow> vrecord list \<Rightarrow> 'w \<Rightarrow> (unit result \<times> 'w) option" where
  "chunks max_records max_bytes enc send rs w =
     (if rs = [] then Some (Inr (), w)
      else case fit enc max_bytes rs (min (length rs) max_records) of
        Inl e \<Rightarrow> Some (Inl e, w)
      | Inr n \<Rightarrow>
          (case send (take n rs) w of
             (Inl e, w') \<Rightarrow> Some (Inl e, w')
           | (Inr _, w') \<Rightarrow> chunks max_records max_bytes enc send (drop n rs) w'))"

lemma fit_bounds: "fit enc mb rs n = Inr m \<Longrightarrow> 0 < n \<Longrightarrow> 0 < m \<and> m \<le> n \<and> (\<exists>b. enc (take m rs) = Inr b \<and> length b \<le> mb)"
proof (induction enc mb rs n rule: fit.induct)
  case (1 enc mb rs n)
  show ?case
  proof (cases "enc (take n rs)")
    case (Inr b)
    consider (fits) "length b \<le> mb" | (one) "\<not> length b \<le> mb" "n = 1" | (half) "\<not> length b \<le> mb" "n \<noteq> 1" by blast
    then show ?thesis
    proof cases
      case half
      then have "fit enc mb rs (max 1 (n div 2)) = Inr m" using 1(2) Inr by (simp add: fit.simps [of enc mb rs n])
      moreover have "max 1 (n div 2) \<le> n" "0 < max 1 (n div 2)" using 1(3) by auto
      ultimately show ?thesis using 1(1) [OF Inr half] by (meson le_trans)
    next
      case one
      with 1(2) Inr show ?thesis by (subst (asm) fit.simps) simp
    qed (use 1 Inr in \<open>auto simp: fit.simps [of enc mb rs n]\<close>)
  qed (use 1 in \<open>auto simp: fit.simps [of enc mb rs n]\<close>)
qed

text \<open>The chunks of a run, and the effect of sending a list of chunks in order.\<close>

definition chunk_ok :: "nat \<Rightarrow> nat \<Rightarrow> (vrecord list \<Rightarrow> string result) \<Rightarrow> vrecord list \<Rightarrow> bool" where
  "chunk_ok mr mb enc c \<longleftrightarrow> c \<noteq> [] \<and> length c \<le> mr \<and> (\<exists>b. enc c = Inr b \<and> length b \<le> mb)"

fun send_all :: "('a \<Rightarrow> 'w \<Rightarrow> unit result \<times> 'w) \<Rightarrow> 'a list \<Rightarrow> 'w \<Rightarrow> unit result \<times> 'w" where
  "send_all send [] w = (Inr (), w)"
| "send_all send (c # cs) w = (case send c w of (Inl e, w') \<Rightarrow> (Inl e, w') | (Inr _, w') \<Rightarrow> send_all send cs w')"

lemma chunks_Nil: "chunks mr mb enc send [] w = Some (Inr (), w)"
  by (simp add: chunks.simps)

lemma chunks_step:
  assumes "rs \<noteq> []" "fit enc mb rs (min (length rs) mr) = Inr n"
  shows "chunks mr mb enc send rs w = (case send (take n rs) w of
       (Inl e, w') \<Rightarrow> Some (Inl e, w') | (Inr _, w') \<Rightarrow> chunks mr mb enc send (drop n rs) w')"
  using assms by (subst chunks.simps) simp

definition chunk_outcome :: "unit result \<Rightarrow> bool \<Rightarrow> unit result \<Rightarrow> bool" where
  "chunk_outcome sent finished r \<longleftrightarrow> (case sent of Inl e \<Rightarrow> r = Inl e | Inr _ \<Rightarrow> (if finished then r = Inr () else \<exists>e. r = Inl e))"

lemma chunks_run:
  assumes "0 < mr"
  shows "\<exists>cs rest r w'. chunks mr mb enc send rs w = Some (r, w') \<and> list_all (chunk_ok mr mb enc) cs \<and> rs = concat cs @ rest
           \<and> w' = snd (send_all send cs w) \<and> chunk_outcome (fst (send_all send cs w)) (rest = []) r"
proof (induction "length rs" arbitrary: rs w rule: less_induct)
  case less
  show ?case
  proof (cases "rs = []")
    case True
    then show ?thesis by (intro exI [of _ "[]"]) (simp add: chunks_Nil chunk_outcome_def)
  next
    case False
    let ?n0 = "min (length rs) mr"
    have n0: "0 < ?n0" using False assms by simp
    show ?thesis
    proof (cases "fit enc mb rs ?n0")
      case (Inl e)
      then have "chunks mr mb enc send rs w = Some (Inl e, w)" using False by (subst chunks.simps) simp
      then show ?thesis using False
        by (intro exI [of _ "[]"] exI [of _ rs]) (simp add: chunk_outcome_def)
    next
      case (Inr n)
      from fit_bounds [OF Inr n0] have n: "0 < n" "n \<le> length rs" "n \<le> mr"
        and e: "\<exists>b. enc (take n rs) = Inr b \<and> length b \<le> mb" by auto
      have ok: "chunk_ok mr mb enc (take n rs)" using n e by (auto simp: chunk_ok_def)
      obtain r1 w1 where s: "send (take n rs) w = (r1, w1)" by fastforce
      show ?thesis
      proof (cases r1)
        case (Inl e)
        with s Inr False ok show ?thesis
          by (intro exI [of _ "[take n rs]"] exI [of _ "drop n rs"]) (simp add: chunks_step chunk_outcome_def)
      next
        case (Inr u)
        have "length (drop n rs) < length rs" using n False by simp
        from less [OF this, of w1] obtain cs rest r w' where
          ih: "chunks mr mb enc send (drop n rs) w1 = Some (r, w')" "list_all (chunk_ok mr mb enc) cs" "drop n rs = concat cs @ rest"
            "w' = snd (send_all send cs w1)" "chunk_outcome (fst (send_all send cs w1)) (rest = []) r" by blast
        have "rs = concat (take n rs # cs) @ rest" using ih(3) append_take_drop_id [of n rs] by simp
        moreover have "chunks mr mb enc send rs w = Some (r, w')"
          using chunks_step [where send = send and w = w, OF False \<open>fit enc mb rs ?n0 = Inr n\<close>] s Inr ih(1) by simp
        ultimately show ?thesis using ih(2,4,5) ok s Inr by (intro exI [of _ "take n rs # cs"] exI [of _ rest]) simp
      qed
    qed
  qed
qed

end
