(* ===== verification/Hosted.thy ===== *)
theory Hosted
  imports Http
begin

section \<open>Hosted vector services and the demo (polign.go, pinecone.go, turbopuffer.go, s3vectors.go, demo.go of src/connector)\<close>

text \<open>
  For each service: reading one page at a cursor, and writing a batch. The requests are built as the code
  builds them, the response is decoded from its JSON text, and the checks follow in the code's order. An
  \<^verbatim>\<open>int\<close> that the code adds is wrapped to 64 bits.
\<close>

definition wrap64 :: "int \<Rightarrow> int" where
  "wrap64 n = (n + 2 ^ 63) mod 2 ^ 64 - 2 ^ 63"

lemma wrap64_id: "int64 n \<Longrightarrow> wrap64 n = n"
  by (simp add: wrap64_def int64_def)

text \<open>\<^verbatim>\<open>strconv.Atoi\<close> of a cursor, 0 for the empty one; a negative offset is refused.\<close>

definition offset_cursor :: "string \<Rightarrow> int option" where
  "offset_cursor cursor = (if cursor = [] then Some 0
     else case parse_int cursor of None \<Rightarrow> None | Some n \<Rightarrow> if n < 0 then None else Some n)"

lemma offset_cursor_itoa: "0 \<le> n \<Longrightarrow> int64 n \<Longrightarrow> offset_cursor (itoa n) = Some n"
  by (simp add: offset_cursor_def)

lemma offset_cursor_bounds: "offset_cursor s = Some n \<Longrightarrow> 0 \<le> n \<and> int64 n"
  by (auto simp: offset_cursor_def int64_def split: if_splits option.splits dest: parse_int_int64)

subsection \<open>Polign\<close>

record polign =
  po_remote :: remote
  po_collection :: string

record polign_listing =
  pl_vectors :: "vrecord list"
  pl_total :: "int option"

definition new_polign :: "string \<Rightarrow> string \<Rightarrow> string \<Rightarrow> polign" where
  "new_polign base collection key =
     \<lparr>po_remote = new_remote base (if key = [] then [] else [(''Authorization'', ''Bearer '' @ key)]),
      po_collection = path_escape collection\<rparr>"

definition dec_records :: "json \<Rightarrow> vrecord list option" where
  "dec_records v = map_option nil_empty (dec_slice (\<lambda>x. dec_struct dec_record x zero_record) v)"

definition dec_polign_listing :: "string \<Rightarrow> json \<Rightarrow> polign_listing \<Rightarrow> polign_listing option" where
  "dec_polign_listing k v r =
     (if k = ''vectors'' then dec_field dec_records pl_vectors_update v r
      else if k = ''total'' then dec_field dec_int_ptr pl_total_update v r
      else Some r)"

definition polign_listing_of :: "string \<Rightarrow> polign_listing option" where
  "polign_listing_of = unmarshal (\<lambda>v. dec_struct dec_polign_listing v \<lparr>pl_vectors = [], pl_total = None\<rparr>)"

definition polign_page :: "int \<Rightarrow> polign_listing \<Rightarrow> page result" where
  "polign_page offset r =
     (let next = wrap64 (offset + int (length (pl_vectors r))) in
      case pl_total r of
        None \<Rightarrow> Inl (ErrNew ''inconsistent Polign listing response; keep source stable'')
      | Some n \<Rightarrow>
          if n < next then Inl (ErrNew ''inconsistent Polign listing response; keep source stable'')
          else if pl_vectors r = [] \<and> offset < n then Inl (ErrNew ''Polign listing made no progress'')
          else Inr \<lparr>pg_records = pl_vectors r, pg_next = itoa next, pg_done = n \<le> next\<rparr>)"

definition polign_read :: "'w network \<Rightarrow> polign \<Rightarrow> string \<Rightarrow> int \<Rightarrow> ('w, page) act" where
  "polign_read nw c cursor limit =
     (case offset_cursor cursor of
        None \<Rightarrow> failing (ErrNew ''invalid Polign cursor'')
      | Some offset \<Rightarrow>
          bind (call_out nw (po_remote c) ''GET''
             (''/v1/collections/'' @ po_collection c @ ''/vectors?typed=true&limit='' @ itoa limit @ ''&offset='' @ itoa offset)
             None polign_listing_of)
           (\<lambda>r. lift (polign_page offset r)))"

definition ids_of :: "string \<Rightarrow> string list option" where
  "ids_of = unmarshal (\<lambda>v. dec_struct (\<lambda>k x r. if k = ''ids''
     then map_option nil_empty (dec_slice dec_elem_str x) else Some r) v [])"

definition polign_ack :: "vrecord list \<Rightarrow> string list \<Rightarrow> unit result" where
  "polign_ack rs ids =
     (if length ids \<noteq> length rs then Inl (ErrNew ''Polign did not acknowledge every record'')
      else if ids \<noteq> map r_id rs then Inl (ErrNew ''Polign acknowledged an unexpected record ID'')
      else Inr ())"

definition polign_body :: "vrecord list \<Rightarrow> gval" where
  "polign_body rs = GMap [(''vectors'', GArr (map grecord rs))]"

definition polign_send :: "'w network \<Rightarrow> polign \<Rightarrow> vrecord list \<Rightarrow> ('w, unit) act" where
  "polign_send nw c rs =
     bind (call_out nw (po_remote c) ''POST'' (''/v1/collections/'' @ po_collection c @ ''/vectors:batch'')
        (Some (polign_body rs)) ids_of)
      (\<lambda>ids. lift (polign_ack rs ids))"

definition polign_upsert :: "'w network \<Rightarrow> polign \<Rightarrow> vrecord list \<Rightarrow> 'w \<Rightarrow> (unit result \<times> 'w) option" where
  "polign_upsert nw c rs = chunks 500 (8 * 1024 * 1024) (\<lambda>rs. marshal (nw_float nw) (polign_body rs)) (polign_send nw c) rs"

subsection \<open>Pinecone\<close>

record pinecone =
  pi_remote :: remote
  pi_namespace :: string

record pinecone_listing =
  pn_ids :: "string list option"
  pn_next :: string

record pinecone_vector =
  pv_record :: vrecord
  pv_sparse :: string

definition new_pinecone :: "string \<Rightarrow> string \<Rightarrow> string \<Rightarrow> pinecone" where
  "new_pinecone base namespace key =
     \<lparr>pi_remote = new_remote base [(''Api-Key'', key), (''X-Pinecone-Api-Version'', ''2025-10'')], pi_namespace = namespace\<rparr>"

definition dec_id_of :: "json \<Rightarrow> string option" where
  "dec_id_of v = dec_struct (\<lambda>k x s. if k = ''id'' then dec_str (\<lambda>f. f) x s else Some s) v []"

definition dec_next_of :: "string \<Rightarrow> json \<Rightarrow> string \<Rightarrow> string option" where
  "dec_next_of key v s = dec_struct (\<lambda>k x s. if k = key then dec_str (\<lambda>f. f) x s else Some s) v s"

definition pinecone_listing_of :: "string \<Rightarrow> pinecone_listing option" where
  "pinecone_listing_of = unmarshal (\<lambda>v. dec_struct (\<lambda>k x r.
       if k = ''vectors'' then dec_field (dec_slice dec_id_of) pn_ids_update x r
       else if k = ''pagination'' then map_option (\<lambda>s. r\<lparr>pn_next := s\<rparr>) (dec_next_of ''next'' x (pn_next r))
       else Some r) v \<lparr>pn_ids = None, pn_next = []\<rparr>)"

definition dec_pinecone_vector :: "json \<Rightarrow> pinecone_vector option" where
  "dec_pinecone_vector v = dec_struct (\<lambda>k x r.
       if k = ''sparsevalues'' then dec_field dec_raw pv_sparse_update x r
       else map_option (\<lambda>q. r\<lparr>pv_record := q\<rparr>) (dec_record k x (pv_record r))) v \<lparr>pv_record = zero_record, pv_sparse = []\<rparr>"

text \<open>A map of structs: each key once, the last one wins; a nil map is empty.\<close>

definition dec_map :: "(json \<Rightarrow> 'a option) \<Rightarrow> json \<Rightarrow> (string \<times> 'a) list option" where
  "dec_map f v = (case v of JNull \<Rightarrow> Some []
     | JObj ms \<Rightarrow> map_option (\<lambda>xs. foldl (\<lambda>acc (k, x). put_member k x acc) [] (zip (map (json_unquote \<circ> fst) ms) xs))
                    (all_some (map (\<lambda>(k, x). f x) ms))
     | _ \<Rightarrow> None)"

definition pinecone_fetched_of :: "string \<Rightarrow> (string \<times> pinecone_vector) list option" where
  "pinecone_fetched_of = unmarshal (\<lambda>v. dec_struct (\<lambda>k x r.
       if k = ''vectors'' then dec_map dec_pinecone_vector x else Some r) v [])"

text \<open>How many of the listed identifiers one fetch asks for: at most 100, and none after the query passes 6000 bytes.\<close>

definition fetch_query :: "string \<Rightarrow> string list \<Rightarrow> string" where
  "fetch_query namespace ids = values_encode ((''namespace'', [namespace]) # (if ids = [] then [] else [(''ids'', ids)]))"

fun fetch_span :: "string \<Rightarrow> string list \<Rightarrow> string list \<Rightarrow> string list" where
  "fetch_span namespace got [] = got"
| "fetch_span namespace got (i # ids) =
     (if 100 \<le> length got then got
      else if 6000 < length (fetch_query namespace (got @ [i])) then got @ [i]
      else fetch_span namespace (got @ [i]) ids)"

fun pick_fetched :: "(string \<times> pinecone_vector) list \<Rightarrow> string list \<Rightarrow> vrecord list result" where
  "pick_fetched got [] = Inr []"
| "pick_fetched got (i # ids) =
     (case map_of got i of
        None \<Rightarrow> Inl (ErrNew ''Pinecone listed a record that could not be fetched; keep source stable'')
      | Some r \<Rightarrow>
          if r_id (pv_record r) \<noteq> i then Inl (ErrNew ''Pinecone listed a record that could not be fetched; keep source stable'')
          else if pv_sparse r \<noteq> [] \<and> pv_sparse r \<noteq> ''null''
          then Inl (ErrNew ''sparse vectors are not supported by dense transfers'')
          else (case pick_fetched got ids of Inl e \<Rightarrow> Inl e | Inr rs \<Rightarrow> Inr (pv_record r # rs)))"

lemma fetch_span_prefix: "\<exists>k. fetch_span namespace got ids = got @ take k ids"
proof (induction ids arbitrary: got)
  case (Cons i ids)
  from Cons [of "got @ [i]"] obtain k where k: "fetch_span namespace (got @ [i]) ids = got @ take (Suc k) (i # ids)" by auto
  consider "100 \<le> length got" | "\<not> 100 \<le> length got" "6000 < length (fetch_query namespace (got @ [i]))"
    | "\<not> 100 \<le> length got" "\<not> 6000 < length (fetch_query namespace (got @ [i]))" by blast
  then show ?case
  proof cases
    case 1
    then show ?thesis by (intro exI [of _ 0]) simp
  next
    case 2
    then show ?thesis by (intro exI [of _ 1]) simp
  next
    case 3
    then show ?thesis using k by (intro exI [of _ "Suc k"]) simp
  qed
qed simp

lemma fetch_span_step: "ids \<noteq> [] \<Longrightarrow> fetch_span namespace [] ids \<noteq> []"
  using fetch_span_prefix [of namespace "[hd ids]" "tl ids"] by (cases ids) auto

function pinecone_fetch :: "'w network \<Rightarrow> pinecone \<Rightarrow> string list \<Rightarrow> ('w, vrecord list) act" where
  "pinecone_fetch nw c ids w =
     (if ids = [] then (Inr [], w)
      else let batch = fetch_span (pi_namespace c) [] ids in
        bind (bind (call_out nw (pi_remote c) ''GET'' (''/vectors/fetch?'' @ fetch_query (pi_namespace c) batch) None pinecone_fetched_of)
            (\<lambda>got. lift (pick_fetched got batch)))
          (\<lambda>rs w. case pinecone_fetch nw c (drop (length batch) ids) w of
             (Inl e, w') \<Rightarrow> (Inl e, w') | (Inr qs, w') \<Rightarrow> (Inr (rs @ qs), w')) w)"
  by pat_completeness auto
termination
  by (relation "measure (\<lambda>(_, _, ids, _). length ids)") (auto simp: fetch_span_step)

declare pinecone_fetch.simps [simp del]

definition pinecone_read :: "'w network \<Rightarrow> pinecone \<Rightarrow> string \<Rightarrow> int \<Rightarrow> ('w, page) act" where
  "pinecone_read nw c cursor limit =
     bind (call_out nw (pi_remote c) ''GET''
         (''/vectors/list?'' @ values_encode ([(''namespace'', [pi_namespace c]), (''limit'', [itoa limit])]
            @ (if cursor = [] then [] else [(''paginationToken'', [cursor])])))
         None pinecone_listing_of)
      (\<lambda>l. case pn_ids l of
          None \<Rightarrow> failing (ErrNew ''Pinecone listing response is missing vectors'')
        | Some ids \<Rightarrow>
            bind (pinecone_fetch nw c ids)
              (\<lambda>rs. ret \<lparr>pg_records = rs, pg_next = pn_next l, pg_done = (pn_next l = [])\<rparr>))"

definition count_of :: "string \<Rightarrow> string \<Rightarrow> int option option" where
  "count_of key = unmarshal (\<lambda>v. dec_struct (\<lambda>k x r. if k = key then dec_int_ptr x else Some r) v None)"

definition count_ack :: "string \<Rightarrow> vrecord list \<Rightarrow> int option \<Rightarrow> unit result" where
  "count_ack message rs count = (if count \<noteq> Some (int (length rs)) then Inl (ErrNew message) else Inr ())"

definition pinecone_body :: "pinecone \<Rightarrow> vrecord list \<Rightarrow> gval" where
  "pinecone_body c rs = GMap [(''vectors'', GArr (map grecord rs)), (''namespace'', GStr (pi_namespace c))]"

definition pinecone_send :: "'w network \<Rightarrow> pinecone \<Rightarrow> vrecord list \<Rightarrow> ('w, unit) act" where
  "pinecone_send nw c rs =
     bind (call_out nw (pi_remote c) ''POST'' ''/vectors/upsert'' (Some (pinecone_body c rs)) (count_of ''upsertedcount''))
      (\<lambda>n. lift (count_ack ''Pinecone did not acknowledge every record'' rs n))"

definition pinecone_upsert :: "'w network \<Rightarrow> pinecone \<Rightarrow> vrecord list \<Rightarrow> 'w \<Rightarrow> (unit result \<times> 'w) option" where
  "pinecone_upsert nw c rs = chunks 1000 1900000 (\<lambda>rs. marshal (nw_float nw) (pinecone_body c rs)) (pinecone_send nw c) rs"

subsection \<open>Turbopuffer\<close>

record turbopuffer =
  tu_remote :: remote
  tu_namespace :: string
  tu_metric :: string
  tu_id_type :: string

definition new_turbopuffer :: "string \<Rightarrow> string \<Rightarrow> string \<Rightarrow> string \<Rightarrow> string \<Rightarrow> turbopuffer" where
  "new_turbopuffer base namespace key metric id_type =
     \<lparr>tu_remote = new_remote base [(''Authorization'', ''Bearer '' @ key)], tu_namespace = path_escape namespace,
      tu_metric = metric, tu_id_type = id_type\<rparr>"

definition rows_of :: "string \<Rightarrow> (string \<times> string) list list option option" where
  "rows_of = unmarshal (\<lambda>v. dec_struct (\<lambda>k x r. if k = ''rows''
     then dec_slice (map_option nil_empty \<circ> dec_raws) x else Some r) v None)"

text \<open>A string identifier, or an unsigned integer in its decimal form.\<close>

definition turbopuffer_id :: "string \<Rightarrow> string option" where
  "turbopuffer_id raw = (case unmarshal dec_elem_str raw of Some s \<Rightarrow> Some s | None \<Rightarrow> map_option itoa_nat (parse_uint raw))"

definition turbopuffer_row :: "(string \<times> string) list \<Rightarrow> vrecord result" where
  "turbopuffer_row row =
     (case turbopuffer_id (raw_member ''id'' row) of
        None \<Rightarrow> Inl (ErrNew ''unsupported Turbopuffer ID'')
      | Some i \<Rightarrow>
          (case unmarshal dec_vec (raw_member ''vector'' row) of
             None \<Rightarrow> Inl (ErrNew ''Turbopuffer record has no dense vector attribute named vector'')
           | Some vs \<Rightarrow>
               if vs = [] then Inl (ErrNew ''Turbopuffer record has no dense vector attribute named vector'')
               else Inr \<lparr>r_id = i, r_values = vs,
                         r_metadata = del_member ''$dist'' (del_member ''vector'' (del_member ''id'' row))\<rparr>))"

fun collect :: "('a \<Rightarrow> 'b result) \<Rightarrow> 'a list \<Rightarrow> 'b list result" where
  "collect f [] = Inr []"
| "collect f (x # xs) = (case f x of Inl e \<Rightarrow> Inl e
     | Inr y \<Rightarrow> (case collect f xs of Inl e \<Rightarrow> Inl e | Inr ys \<Rightarrow> Inr (y # ys)))"

definition turbopuffer_page :: "int \<Rightarrow> (string \<times> string) list list \<Rightarrow> page result" where
  "turbopuffer_page limit rows =
     (case collect turbopuffer_row rows of
        Inl e \<Rightarrow> Inl e
      | Inr rs \<Rightarrow> Inr \<lparr>pg_records = rs, pg_next = (if rows = [] then [] else raw_member ''id'' (last rows)),
                      pg_done = (int (length rows) < limit)\<rparr>)"

definition turbopuffer_read :: "'w network \<Rightarrow> turbopuffer \<Rightarrow> string \<Rightarrow> int \<Rightarrow> ('w, page) act" where
  "turbopuffer_read nw c cursor limit =
     (if cursor \<noteq> [] \<and> \<not> json_valid cursor then failing (ErrNew ''invalid Turbopuffer cursor'')
      else
        bind (call_out nw (tu_remote c) ''POST'' (''/v2/namespaces/'' @ tu_namespace c @ ''/query'')
            (Some (GMap ([(''rank_by'', GArr [GStr ''id'', GStr ''asc'']), (''limit'', GInt limit),
                (''include_attributes'', GBool True), (''vector_encoding'', GStr ''float'')]
               @ (if cursor = [] then [] else [(''filters'', GArr [GStr ''id'', GStr ''Gt'', GRaw cursor])]))))
            rows_of)
          (\<lambda>rows. case rows of
              None \<Rightarrow> failing (ErrNew ''Turbopuffer query response is missing rows'')
            | Some rs \<Rightarrow> lift (turbopuffer_page limit rs)))"

definition turbopuffer_reserved :: "string \<Rightarrow> bool" where
  "turbopuffer_reserved k \<longleftrightarrow> k = ''id'' \<or> k = ''vector'' \<or> has_prefix k ''$''"

definition turbopuffer_upsert_row :: "turbopuffer \<Rightarrow> vrecord \<Rightarrow> gval result" where
  "turbopuffer_upsert_row c r =
     (if list_ex (turbopuffer_reserved \<circ> fst) (r_metadata r)
      then Inl (ErrNew ''metadata contains a reserved Turbopuffer attribute name'')
      else
        let row = (\<lambda>i. GMap (map (\<lambda>(k, v). (k, GRaw v)) (r_metadata r) @ [(''id'', i), (''vector'', gvec (r_values r))])) in
        if tu_id_type c = ''uint'' then
          (case parse_uint (r_id r) of
             None \<Rightarrow> Inl (ErrNew ''Turbopuffer uint destination requires canonical unsigned integer IDs'')
           | Some n \<Rightarrow>
               if itoa_nat n \<noteq> r_id r then Inl (ErrNew ''Turbopuffer uint destination requires canonical unsigned integer IDs'')
               else Inr (row (GInt (int n))))
        else if 64 < length (r_id r) then Inl (ErrNew ''Turbopuffer string IDs must not exceed 64 bytes'')
        else Inr (row (GStr (r_id r))))"

definition turbopuffer_upsert :: "'w network \<Rightarrow> turbopuffer \<Rightarrow> vrecord list \<Rightarrow> ('w, unit) act" where
  "turbopuffer_upsert nw c rs =
     bind (lift (collect (turbopuffer_upsert_row c) rs)) (\<lambda>rows.
       if rows = [] then ret ()
       else bind (call_out nw (tu_remote c) ''POST'' (''/v2/namespaces/'' @ tu_namespace c)
              (Some (GMap [(''upsert_rows'', GArr rows), (''distance_metric'', GStr (tu_metric c)),
                 (''schema'', GMap [(''id'', GStr (tu_id_type c))])])) (count_of ''rows_upserted''))
            (\<lambda>n. lift (count_ack ''Turbopuffer did not acknowledge every record'' rs n)))"

subsection \<open>S3 Vectors\<close>

record s3vectors =
  s3_remote :: remote
  s3_bucket :: string
  s3_index :: string

record s3_vector =
  sv_key :: string
  sv_values :: "f32 list"
  sv_metadata :: "(string \<times> string) list"

record s3_listing =
  sl_vectors :: "s3_vector list option"
  sl_next :: string

text \<open>Credentials are resolved and the request signed by the AWS SDK, the parameters \<open>creds\<close> and \<open>sign\<close>.\<close>

definition new_s3vectors ::
  "'c result \<Rightarrow> ('c \<Rightarrow> http_request \<Rightarrow> http_request option) \<Rightarrow> string \<Rightarrow> string \<Rightarrow> string \<Rightarrow> s3vectors" where
  "new_s3vectors creds sign base bucket index =
     \<lparr>s3_remote = (new_remote base []) \<lparr>rm_sign := Some (\<lambda>rq. case creds of
          Inl _ \<Rightarrow> Inl (ErrNew ''AWS credentials could not be resolved'')
        | Inr k \<Rightarrow> (case sign k rq of None \<Rightarrow> Inl (ErrNew ''AWS request signing failed'') | Some q \<Rightarrow> Inr q))\<rparr>,
      s3_bucket = bucket, s3_index = index\<rparr>"

definition dec_s3_vector :: "json \<Rightarrow> s3_vector option" where
  "dec_s3_vector v = dec_struct (\<lambda>k x r.
       if k = ''key'' then dec_str sv_key_update x r
       else if k = ''data'' then map_option (\<lambda>vs. r\<lparr>sv_values := vs\<rparr>)
         (dec_struct (\<lambda>k y q. if k = ''float32'' then dec_vec y else Some q) x (sv_values r))
       else if k = ''metadata'' then dec_field (map_option nil_empty \<circ> dec_raws) sv_metadata_update x r
       else Some r) v \<lparr>sv_key = [], sv_values = [], sv_metadata = []\<rparr>"

definition s3_listing_of :: "string \<Rightarrow> s3_listing option" where
  "s3_listing_of = unmarshal (\<lambda>v. dec_struct (\<lambda>k x r.
       if k = ''vectors'' then dec_field (dec_slice dec_s3_vector) sl_vectors_update x r
       else if k = ''nexttoken'' then dec_str sl_next_update x r
       else Some r) v \<lparr>sl_vectors = None, sl_next = []\<rparr>)"

definition s3_read :: "'w network \<Rightarrow> s3vectors \<Rightarrow> string \<Rightarrow> int \<Rightarrow> ('w, page) act" where
  "s3_read nw c cursor limit =
     bind (call_out nw (s3_remote c) ''POST'' ''/ListVectors''
         (Some (GMap ([(''vectorBucketName'', GStr (s3_bucket c)), (''indexName'', GStr (s3_index c)), (''maxResults'', GInt limit),
             (''returnData'', GBool True), (''returnMetadata'', GBool True)]
            @ (if cursor = [] then [] else [(''nextToken'', GStr cursor)]))))
         s3_listing_of)
      (\<lambda>l. case sl_vectors l of
          None \<Rightarrow> failing (ErrNew ''S3 Vectors listing response is missing vectors'')
        | Some vs \<Rightarrow> ret \<lparr>pg_records = map (\<lambda>v. \<lparr>r_id = sv_key v, r_values = sv_values v, r_metadata = sv_metadata v\<rparr>) vs,
                        pg_next = sl_next l, pg_done = (sl_next l = [])\<rparr>)"

definition s3_body :: "s3vectors \<Rightarrow> vrecord list \<Rightarrow> gval" where
  "s3_body c rs = GMap [(''vectorBucketName'', GStr (s3_bucket c)), (''indexName'', GStr (s3_index c)),
     (''vectors'', GArr (map (\<lambda>r. GStruct ([(''key'', GStr (r_id r)), (''data'', GStruct [(''float32'', gvec (r_values r))])]
        @ (if r_metadata r = [] then [] else [(''metadata'', graws (r_metadata r))]))) rs))]"

definition s3_upsert :: "'w network \<Rightarrow> s3vectors \<Rightarrow> vrecord list \<Rightarrow> 'w \<Rightarrow> (unit result \<times> 'w) option" where
  "s3_upsert nw c rs = chunks 500 (8 * 1024 * 1024) (\<lambda>rs. marshal (nw_float nw) (s3_body c rs))
     (\<lambda>rs. call_ack nw (s3_remote c) ''POST'' ''/PutVectors'' (Some (s3_body c rs))) rs"

subsection \<open>The demo\<close>

definition demo_values :: "nat \<Rightarrow> f32 list" where
  "demo_values i = map (f32_signed False \<circ> the) [f32_nearest i 1000, f32_nearest 1 4, f32_nearest 1 2, f32_nearest 3 4]"

definition demo_record :: "nat \<Rightarrow> vrecord" where
  "demo_record i = \<lparr>r_id = ''doc-'' @ pad 6 i, r_values = demo_values i,
     r_metadata = [(''sequence'', itoa_nat i), (''dataset'', quoted ''demo'')]\<rparr>"

definition demo_read :: "go_error option \<Rightarrow> string \<Rightarrow> int \<Rightarrow> page result" where
  "demo_read ctx cursor limit =
     (case (if cursor = [] then Some 0 else parse_int cursor) of
        None \<Rightarrow> Inl (ErrNew ''invalid demo cursor'')
      | Some start \<Rightarrow>
          if start < 0 \<or> 1000 < start then Inl (ErrNew ''invalid demo cursor'')
          else case ctx of Some e \<Rightarrow> Inl e | None \<Rightarrow>
            let stop = min (wrap64 (start + limit)) 1000 in
            Inr \<lparr>pg_records = map demo_record [nat start..<nat stop], pg_next = itoa stop, pg_done = (stop = 1000)\<rparr>)"

text \<open>
  The sink writes one file per record, named by the digest of its identifier. \<open>ctx i\<close> and \<open>fault i\<close> are
  the context's error before record \<open>i\<close> and the first error of its file operations; a file that fails is
  removed before it is renamed.
\<close>

fun demo_put ::
  "(string \<Rightarrow> string) \<Rightarrow> (f32 \<Rightarrow> string) \<Rightarrow> (nat \<Rightarrow> go_error option) \<Rightarrow> (nat \<Rightarrow> go_error option) \<Rightarrow> nat \<Rightarrow> vrecord list
    \<Rightarrow> (string \<rightharpoonup> string) \<Rightarrow> unit result \<times> (string \<rightharpoonup> string)" where
  "demo_put sha num ctx fault i [] d = (Inr (), d)"
| "demo_put sha num ctx fault i (r # rs) d =
     (case ctx i of Some e \<Rightarrow> (Inl e, d) | None \<Rightarrow>
        (case marshal num (grecord r) of Inl e \<Rightarrow> (Inl e, d) | Inr b \<Rightarrow>
           (case fault i of Some e \<Rightarrow> (Inl e, d) | None \<Rightarrow>
              demo_put sha num ctx fault (Suc i) rs (d(hex_encode (sha (r_id r)) @ ''.json'' \<mapsto> b)))))"

definition demo_upsert ::
  "(string \<Rightarrow> string) \<Rightarrow> (f32 \<Rightarrow> string) \<Rightarrow> (nat \<Rightarrow> go_error option) \<Rightarrow> (nat \<Rightarrow> go_error option) \<Rightarrow> go_error option \<Rightarrow> vrecord list
    \<Rightarrow> (string \<rightharpoonup> string) \<Rightarrow> unit result \<times> (string \<rightharpoonup> string)" where
  "demo_upsert sha num ctx fault dir rs d =
     (case demo_put sha num ctx fault 0 rs d of
        (Inl e, d') \<Rightarrow> (Inl e, d')
      | (Inr _, d') \<Rightarrow> (case dir of Some e \<Rightarrow> Inl e | None \<Rightarrow> Inr (), d'))"

definition demo_bindings :: "(string \<Rightarrow> string) \<Rightarrow> go_error option \<Rightarrow> nat \<Rightarrow> nat \<Rightarrow> registry result" where
  "demo_bindings sha mkdir source sink =
     (case mkdir of Some e \<Rightarrow> Inl e | None \<Rightarrow>
        let fp = (\<lambda>s. fingerprint sha (jprint (jstr s))) in
        Inr [''demo-source'' \<mapsto> zero_binding\<lparr>b_name := ''demo-source'', b_kind := ''demo'',
               b_description := ''1,000 sample vectors '' @ [CHR 0xC2, CHR 0xB7] @ '' 4 dimensions'',
               b_fingerprint := fp ''demo-source-v1'', b_can_read := True, b_source := Some source\<rparr>,
             ''demo-sink'' \<mapsto> zero_binding\<lparr>b_name := ''demo-sink'', b_kind := ''demo'', b_description := ''Local JSON records'',
               b_fingerprint := fp ''demo-sink-v1'', b_can_write := True, b_sink := Some sink\<rparr>])"

end
