(* ===== verification/Rest_Database.thy ===== *)
theory Rest_Database
  imports Hosted Personal
begin

section \<open>REST databases (src/connector/additional_rest.go and the record conversions of additional.go)\<close>

text \<open>
  Scans and acknowledged writes of Qdrant, Weaviate, Milvus, Chroma, Elasticsearch, OpenSearch and Solr. A
  connector holds its remote and its settings, as \<open>open_additional\<close> completed them. Milvus' bounds are
  64-bit words, with the wrap-around of the code's \<^verbatim>\<open>int64\<close> and \<^verbatim>\<open>uint64\<close> arithmetic. Where the code
  ranges over a map of two fields (Chroma's document and URI) the document comes first.
\<close>

record rest_db =
  rd_remote :: remote
  rd_config :: pconfig

subsection \<open>Identifiers and documents\<close>

fun dec_number :: "json \<Rightarrow> string option" where
  "dec_number (JNum s) = Some s"
| "dec_number JNull = Some []"
| "dec_number _ = None"

text \<open>A nonempty string, or an integer of 64 bits as it is written. (A quoted number was a string already.)\<close>

definition decode_id :: "string \<Rightarrow> string option" where
  "decode_id raw =
     (case unmarshal dec_elem_str raw of
        Some (c # cs) \<Rightarrow> Some (c # cs)
      | _ \<Rightarrow>
          (case unmarshal dec_number raw of
             None \<Rightarrow> None
           | Some n \<Rightarrow> if parse_int n \<noteq> None \<or> parse_uint n \<noteq> None then Some n else None))"

definition id_error :: go_error where
  "id_error = ErrNew ''unsupported or missing record ID''"

definition vector_error :: go_error where
  "vector_error = ErrNew ''missing or unsupported dense vector field''"

definition document_record :: "pconfig \<Rightarrow> (string \<times> string) list \<Rightarrow> vrecord result" where
  "document_record c doc =
     (case decode_id (raw_member (pc_id_field c) doc) of
        None \<Rightarrow> Inl id_error
      | Some i \<Rightarrow>
          (case unmarshal dec_vec (raw_member (pc_vector_field c) doc) of
             None \<Rightarrow> Inl vector_error
           | Some vs \<Rightarrow>
               if vs = [] then Inl vector_error
               else Inr \<lparr>r_id = i, r_values = vs,
                         r_metadata = filter (\<lambda>(k, v). k \<noteq> pc_id_field c \<and> k \<noteq> pc_vector_field c) doc\<rparr>))"

definition record_document :: "vrecord \<Rightarrow> pconfig \<Rightarrow> gval \<Rightarrow> gval result" where
  "record_document r c i =
     (if list_ex (\<lambda>(k, v). k = pc_id_field c \<or> k = pc_vector_field c) (r_metadata r)
      then Inl (ErrNew ''metadata collides with configured ID or vector field'')
      else Inr (GMap (map (\<lambda>(k, v). (k, GRaw v)) (r_metadata r) @ [(pc_id_field c, i), (pc_vector_field c, gvec (r_values r))])))"

subsection \<open>Qdrant\<close>

record qdrant_point =
  qp_id :: string
  qp_vector :: "f32 list"
  qp_payload :: "(string \<times> string) list"

record qdrant_scroll =
  qs_points :: "qdrant_point list"
  qs_next :: string

record qdrant_reply =
  qr_status :: string
  qr_result :: "qdrant_scroll option"

definition dec_qdrant_point :: "json \<Rightarrow> qdrant_point option" where
  "dec_qdrant_point v = dec_struct (\<lambda>k x r.
       if k = ''id'' then dec_field dec_raw qp_id_update x r
       else if k = ''vector'' then dec_field dec_vec qp_vector_update x r
       else if k = ''payload'' then dec_field (map_option nil_empty \<circ> dec_raws) qp_payload_update x r
       else Some r) v \<lparr>qp_id = [], qp_vector = [], qp_payload = []\<rparr>"

definition dec_qdrant_scroll :: "json \<Rightarrow> qdrant_scroll \<Rightarrow> qdrant_scroll option" where
  "dec_qdrant_scroll = dec_struct (\<lambda>k x r.
       if k = ''points'' then dec_field (\<lambda>y. map_option nil_empty (dec_slice dec_qdrant_point y)) qs_points_update x r
       else if k = ''next_page_offset'' then dec_field dec_raw qs_next_update x r
       else Some r)"

definition dec_ptr :: "(json \<Rightarrow> 'a \<Rightarrow> 'a option) \<Rightarrow> 'a \<Rightarrow> json \<Rightarrow> 'a option option" where
  "dec_ptr f zero v = (if v = JNull then Some None else map_option Some (f v zero))"

definition qdrant_reply_of :: "string \<Rightarrow> qdrant_reply option" where
  "qdrant_reply_of = unmarshal (\<lambda>v. dec_struct (\<lambda>k x r.
       if k = ''status'' then dec_str qr_status_update x r
       else if k = ''result'' then dec_field (dec_ptr dec_qdrant_scroll \<lparr>qs_points = [], qs_next = []\<rparr>) qr_result_update x r
       else Some r) v \<lparr>qr_status = [], qr_result = None\<rparr>)"

definition qdrant_record :: "qdrant_point \<Rightarrow> vrecord result" where
  "qdrant_record p = (case decode_id (qp_id p) of None \<Rightarrow> Inl id_error
     | Some i \<Rightarrow> Inr \<lparr>r_id = i, r_values = qp_vector p, r_metadata = qp_payload p\<rparr>)"

definition qdrant_page :: "qdrant_reply \<Rightarrow> page result" where
  "qdrant_page r =
     (if qr_status r \<noteq> ''ok'' then Inl (ErrNew ''Qdrant scan was not acknowledged'')
      else case qr_result r of
        None \<Rightarrow> Inl (ErrNew ''Qdrant scan was not acknowledged'')
      | Some s \<Rightarrow>
          (case collect qdrant_record (qs_points s) of
             Inl e \<Rightarrow> Inl e
           | Inr rs \<Rightarrow> Inr \<lparr>pg_records = rs, pg_next = qs_next s, pg_done = (qs_next s = [] \<or> qs_next s = ''null'')\<rparr>))"

definition read_qdrant :: "'w network \<Rightarrow> rest_db \<Rightarrow> string \<Rightarrow> int \<Rightarrow> ('w, page) act" where
  "read_qdrant nw c cursor limit =
     (if cursor \<noteq> [] \<and> \<not> json_valid cursor then failing (ErrNew ''invalid Qdrant cursor'')
      else
        bind (call_out nw (rd_remote c) ''POST'' (''/collections/'' @ path_escape (pc_collection (rd_config c)) @ ''/points/scroll'')
            (Some (GMap ([(''limit'', GInt limit), (''with_vector'', GBool True), (''with_payload'', GBool True)]
               @ (if cursor = [] then [] else [(''offset'', GRaw cursor)]))))
            qdrant_reply_of)
          (\<lambda>r. lift (qdrant_page r)))"

definition qdrant_id :: "string \<Rightarrow> gval option" where
  "qdrant_id i =
     (case parse_uint i of
        Some n \<Rightarrow> if itoa_nat n = i then Some (GInt (int n)) else if uuid_pattern i then Some (GStr i) else None
      | None \<Rightarrow> if uuid_pattern i then Some (GStr i) else None)"

definition qdrant_point_of :: "vrecord \<Rightarrow> gval result" where
  "qdrant_point_of r =
     (case qdrant_id (r_id r) of
        None \<Rightarrow> Inl (ErrNew ''Qdrant IDs must be UUIDs or unsigned integers'')
      | Some i \<Rightarrow> Inr (GMap [(''id'', i), (''vector'', gvec (r_values r)), (''payload'', graws (r_metadata r))]))"

definition qdrant_ack_of :: "string \<Rightarrow> (string \<times> string) option" where
  "qdrant_ack_of = unmarshal (\<lambda>v. dec_struct (\<lambda>k x (s, t).
       if k = ''status'' then map_option (\<lambda>s'. (s', t)) (dec_str (\<lambda>f. f) x s)
       else if k = ''result'' then map_option (\<lambda>t'. (s, t')) (dec_next_of ''status'' x t)
       else Some (s, t)) v ([], []))"

definition write_qdrant :: "'w network \<Rightarrow> rest_db \<Rightarrow> vrecord list \<Rightarrow> ('w, unit) act" where
  "write_qdrant nw c rs =
     bind (lift (collect qdrant_point_of rs)) (\<lambda>points.
       bind (call_out nw (rd_remote c) ''PUT'' (''/collections/'' @ path_escape (pc_collection (rd_config c)) @ ''/points?wait=true'')
           (Some (GMap [(''points'', GArr points)])) qdrant_ack_of)
         (\<lambda>(status, result). if status \<noteq> ''ok'' \<or> result \<noteq> ''completed''
            then failing (ErrNew ''Qdrant write was not completed'') else ret ()))"

subsection \<open>Weaviate\<close>

record weaviate_object =
  wo_id :: string
  wo_vector :: "f32 list"
  wo_properties :: "(string \<times> string) list"

definition dec_weaviate_object :: "json \<Rightarrow> weaviate_object option" where
  "dec_weaviate_object v = dec_struct (\<lambda>k x r.
       if k = ''id'' then dec_str wo_id_update x r
       else if k = ''vector'' then dec_field dec_vec wo_vector_update x r
       else if k = ''properties'' then dec_field (map_option nil_empty \<circ> dec_raws) wo_properties_update x r
       else Some r) v \<lparr>wo_id = [], wo_vector = [], wo_properties = []\<rparr>"

definition weaviate_objects_of :: "string \<Rightarrow> weaviate_object list option option" where
  "weaviate_objects_of = unmarshal (\<lambda>v. dec_struct (\<lambda>k x r.
       if k = ''objects'' then dec_slice dec_weaviate_object x else Some r) v None)"

definition weaviate_record :: "weaviate_object \<Rightarrow> vrecord result" where
  "weaviate_record p = (if \<not> uuid_pattern (wo_id p) then Inl (ErrNew ''invalid Weaviate object ID'')
     else Inr \<lparr>r_id = wo_id p, r_values = wo_vector p, r_metadata = wo_properties p\<rparr>)"

definition weaviate_page :: "int \<Rightarrow> weaviate_object list \<Rightarrow> page result" where
  "weaviate_page limit os =
     (case collect weaviate_record os of
        Inl e \<Rightarrow> Inl e
      | Inr rs \<Rightarrow> Inr \<lparr>pg_records = rs, pg_next = (if os = [] then [] else wo_id (last os)), pg_done = (int (length os) < limit)\<rparr>)"

definition read_weaviate :: "'w network \<Rightarrow> rest_db \<Rightarrow> string \<Rightarrow> int \<Rightarrow> ('w, page) act" where
  "read_weaviate nw c cursor limit =
     (if cursor \<noteq> [] \<and> \<not> uuid_pattern cursor then failing (ErrNew ''invalid Weaviate cursor'')
      else
        bind (call_out nw (rd_remote c) ''GET''
            (''/v1/objects?'' @ values_encode ([(''class'', [pc_collection (rd_config c)]), (''include'', [''vector'']), (''limit'', [itoa limit])]
               @ (if pc_tenant (rd_config c) = [] then [] else [(''tenant'', [pc_tenant (rd_config c)])])
               @ (if cursor = [] then [] else [(''after'', [cursor])])))
            None weaviate_objects_of)
          (\<lambda>r. case r of None \<Rightarrow> failing (ErrNew ''missing Weaviate objects'') | Some os \<Rightarrow> lift (weaviate_page limit os)))"

record weaviate_outcome =
  wa_id :: string
  wa_status :: string
  wa_errors :: string

definition weaviate_outcomes_of :: "string \<Rightarrow> weaviate_outcome list option" where
  "weaviate_outcomes_of = unmarshal (\<lambda>v. map_option nil_empty (dec_slice (\<lambda>y. dec_struct (\<lambda>k x r.
       if k = ''id'' then dec_str wa_id_update x r
       else if k = ''result'' then dec_struct (\<lambda>k z q.
              if k = ''status'' then dec_str wa_status_update z q
              else if k = ''errors'' then dec_field dec_raw wa_errors_update z q
              else Some q) x r
       else Some r) y \<lparr>wa_id = [], wa_status = [], wa_errors = []\<rparr>) v))"

fun weaviate_seen :: "string list \<Rightarrow> weaviate_outcome list \<Rightarrow> string list option" where
  "weaviate_seen seen [] = Some seen"
| "weaviate_seen seen (a # as) =
     (if wa_status a \<noteq> ''SUCCESS'' \<or> (wa_errors a \<noteq> [] \<and> wa_errors a \<noteq> ''null'') \<or> wa_id a \<in> set seen then None
      else weaviate_seen (wa_id a # seen) as)"

definition weaviate_ack :: "vrecord list \<Rightarrow> weaviate_outcome list \<Rightarrow> unit result" where
  "weaviate_ack rs out =
     (if length out \<noteq> length rs then Inl (ErrNew ''Weaviate did not acknowledge every object'')
      else case weaviate_seen [] out of
        None \<Rightarrow> Inl (ErrNew ''Weaviate batch contained failed objects'')
      | Some seen \<Rightarrow>
          if list_all (\<lambda>r. r_id r \<in> set seen) rs then Inr () else Inl (ErrNew ''Weaviate acknowledged unexpected IDs''))"

definition weaviate_object_of :: "rest_db \<Rightarrow> vrecord \<Rightarrow> gval result" where
  "weaviate_object_of c r =
     (if \<not> uuid_pattern (r_id r) then Inl (ErrNew ''Weaviate requires UUID record IDs'')
      else Inr (GMap ([(''class'', GStr (pc_collection (rd_config c))), (''id'', GStr (r_id r)), (''vector'', gvec (r_values r)),
                 (''properties'', graws (r_metadata r))]
               @ (if pc_tenant (rd_config c) = [] then [] else [(''tenant'', GStr (pc_tenant (rd_config c)))]))))"

definition write_weaviate :: "'w network \<Rightarrow> rest_db \<Rightarrow> vrecord list \<Rightarrow> ('w, unit) act" where
  "write_weaviate nw c rs =
     bind (lift (collect (weaviate_object_of c) rs)) (\<lambda>objects.
       bind (call_out nw (rd_remote c) ''POST'' ''/v1/batch/objects'' (Some (GMap [(''objects'', GArr objects)])) weaviate_outcomes_of)
         (\<lambda>out. lift (weaviate_ack rs out)))"

subsection \<open>Milvus\<close>

text \<open>The query of a range of primary keys, and the middle at which a range with too many is split.\<close>

definition milvus_min :: "64 word" where
  "milvus_min = word_of_int (- (2 ^ 63))"

definition milvus_max :: "64 word" where
  "milvus_max = word_of_int (2 ^ 63 - 1)"

definition milvus_middle :: "64 word \<Rightarrow> 64 word \<Rightarrow> 64 word" where
  "milvus_middle low high = low + (high - low) div 2"

definition milvus_filter :: "string \<Rightarrow> 64 word \<Rightarrow> 64 word \<Rightarrow> string" where
  "milvus_filter field low high = field @ '' >= '' @ itoa (sint low) @ '' and '' @ field @ '' <= '' @ itoa (sint high)"

record milvus_reply =
  mr_code :: "int option"
  mr_data :: "(string \<times> string) list list"

definition milvus_reply_of :: "string \<Rightarrow> milvus_reply option" where
  "milvus_reply_of = unmarshal (\<lambda>v. dec_struct (\<lambda>k x r.
       if k = ''code'' then dec_field dec_int_ptr mr_code_update x r
       else if k = ''data'' then dec_field (\<lambda>y. map_option nil_empty (dec_slice (map_option nil_empty \<circ> dec_raws) y)) mr_data_update x r
       else Some r) v \<lparr>mr_code = None, mr_data = []\<rparr>)"

definition key_error :: go_error where
  "key_error = ErrNew ''Milvus returned an unexpected primary key''"

definition milvus_record :: "pconfig \<Rightarrow> 64 word \<Rightarrow> 64 word \<Rightarrow> (string \<times> string) list \<Rightarrow> vrecord result" where
  "milvus_record c low high doc =
     (case document_record c doc of
        Inl e \<Rightarrow> Inl e
      | Inr r \<Rightarrow> (case parse_int (r_id r) of
            None \<Rightarrow> Inl key_error
          | Some n \<Rightarrow> if n < sint low \<or> sint high < n then Inl key_error else Inr r))"

definition int_id :: "vrecord \<Rightarrow> int" where
  "int_id r = (case parse_int (r_id r) of None \<Rightarrow> 0 | Some n \<Rightarrow> n)"

definition milvus_page :: "pconfig \<Rightarrow> 64 word \<Rightarrow> 64 word \<Rightarrow> (string \<times> string) list list \<Rightarrow> page result" where
  "milvus_page c low high docs =
     (case collect (milvus_record c low high) docs of
        Inl e \<Rightarrow> Inl e
      | Inr rs \<Rightarrow> Inr \<lparr>pg_records = sort_key int_id rs,
                      pg_next = (if high = milvus_max then [] else itoa (sint (high + 1))), pg_done = (high = milvus_max)\<rparr>)"

definition milvus_query :: "'w network \<Rightarrow> rest_db \<Rightarrow> 64 word \<Rightarrow> 64 word \<Rightarrow> int \<Rightarrow> ('w, milvus_reply) act" where
  "milvus_query nw c low high limit =
     (let f = rd_config c in
      call_out nw (rd_remote c) ''POST'' ''/v2/vectordb/entities/query''
        (Some (GMap [(''collectionName'', GStr (pc_collection f)), (''dbName'', GStr (pc_database f)),
           (''filter'', GStr (milvus_filter (pc_id_field f) low high)), (''limit'', GInt (limit + 1)),
           (''outputFields'', GArr [GStr ''*'', GStr (pc_vector_field f)]), (''consistencyLevel'', GStr ''Strong'')]))
        milvus_reply_of)"

lemma milvus_middle_width:
  assumes "low \<noteq> high"
  shows "unat (milvus_middle low high - low) < unat (high - low)"
proof -
  have "unat ((high - low) div 2) = unat (high - low) div 2" by (simp add: unat_div)
  moreover have "0 < unat (high - low)" using assms by (simp add: unat_gt_0)
  ultimately show ?thesis by (simp add: milvus_middle_def)
qed

function milvus_scan :: "'w network \<Rightarrow> rest_db \<Rightarrow> int \<Rightarrow> 64 word \<Rightarrow> 64 word \<Rightarrow> ('w, page) act" where
  "milvus_scan nw c limit low high w =
     bind (milvus_query nw c low high limit) (\<lambda>out w.
       if mr_code out \<noteq> Some 0 then (Inl (ErrNew ''Milvus query failed''), w)
       else if limit < int (length (mr_data out)) then
         (if low = high then (Inl (ErrNew ''duplicate Milvus primary keys''), w)
          else milvus_scan nw c limit low (milvus_middle low high) w)
       else (milvus_page (rd_config c) low high (mr_data out), w)) w"
  by pat_completeness auto

termination
  by (relation "measure (\<lambda>(_, _, _, low, high, _). unat (high - low))") (simp_all add: milvus_middle_width)

declare milvus_scan.simps [simp del]

definition read_milvus :: "'w network \<Rightarrow> rest_db \<Rightarrow> string \<Rightarrow> int \<Rightarrow> ('w, page) act" where
  "read_milvus nw c cursor limit =
     (case (if cursor = [] then Some (sint milvus_min) else parse_int cursor) of
        None \<Rightarrow> failing (ErrNew ''invalid Milvus cursor'')
      | Some low \<Rightarrow> milvus_scan nw c limit (word_of_int low) milvus_max)"

definition milvus_document :: "rest_db \<Rightarrow> vrecord \<Rightarrow> gval result" where
  "milvus_document c r =
     (case parse_int (r_id r) of
        None \<Rightarrow> Inl (ErrNew ''Milvus INT64 primary key requires canonical integer IDs'')
      | Some n \<Rightarrow>
          if itoa n \<noteq> r_id r then Inl (ErrNew ''Milvus INT64 primary key requires canonical integer IDs'')
          else record_document r (rd_config c) (GInt n))"

record milvus_ack =
  ma_code :: "int option"
  ma_count :: "int option"
  ma_ids :: "string list"

definition dec_raw_slice :: "json \<Rightarrow> string list option" where
  "dec_raw_slice v = map_option nil_empty (dec_slice dec_raw v)"

definition milvus_ack_of :: "string \<Rightarrow> milvus_ack option" where
  "milvus_ack_of = unmarshal (\<lambda>v. dec_struct (\<lambda>k x r.
       if k = ''code'' then dec_field dec_int_ptr ma_code_update x r
       else if k = ''data'' then dec_struct (\<lambda>k y q.
              if k = ''upsertcount'' then dec_field dec_int_ptr ma_count_update y q
              else if k = ''upsertids'' then dec_field dec_raw_slice ma_ids_update y q
              else Some q) x r
       else Some r) v \<lparr>ma_code = None, ma_count = None, ma_ids = []\<rparr>)"

definition milvus_ack_check :: "vrecord list \<Rightarrow> milvus_ack \<Rightarrow> unit result" where
  "milvus_ack_check rs a =
     (if ma_code a \<noteq> Some 0 \<or> ma_count a \<noteq> Some (int (length rs)) then Inl (ErrNew ''Milvus did not acknowledge every upsert'')
      else if length (ma_ids a) \<noteq> length rs then Inl (ErrNew ''Milvus did not acknowledge the original record IDs'')
      else if map decode_id (ma_ids a) \<noteq> map (Some \<circ> r_id) rs then Inl (ErrNew ''Milvus changed record IDs; disable AutoID'')
      else Inr ())"

definition write_milvus :: "'w network \<Rightarrow> rest_db \<Rightarrow> vrecord list \<Rightarrow> ('w, unit) act" where
  "write_milvus nw c rs =
     bind (lift (collect (milvus_document c) rs)) (\<lambda>docs.
       bind (call_out nw (rd_remote c) ''POST'' ''/v2/vectordb/entities/upsert''
           (Some (GMap [(''collectionName'', GStr (pc_collection (rd_config c))), (''dbName'', GStr (pc_database (rd_config c))),
              (''data'', GArr docs)])) milvus_ack_of)
         (\<lambda>a. lift (milvus_ack_check rs a)))"

subsection \<open>Chroma\<close>

record chroma_rows =
  ch_ids :: "string list option"
  ch_embeddings :: "f32 list list"
  ch_metadata :: "(string \<times> string) list list"
  ch_documents :: "string list"
  ch_uris :: "string list"

definition chroma_rows_of :: "string \<Rightarrow> chroma_rows option" where
  "chroma_rows_of = unmarshal (\<lambda>v. dec_struct (\<lambda>k x r.
       if k = ''ids'' then dec_field (dec_slice dec_elem_str) ch_ids_update x r
       else if k = ''embeddings'' then dec_field (\<lambda>y. map_option nil_empty (dec_slice dec_vec y)) ch_embeddings_update x r
       else if k = ''metadatas'' then dec_field (\<lambda>y. map_option nil_empty (dec_slice (map_option nil_empty \<circ> dec_raws) y)) ch_metadata_update x r
       else if k = ''documents'' then dec_field dec_raw_slice ch_documents_update x r
       else if k = ''uris'' then dec_field dec_raw_slice ch_uris_update x r
       else Some r) v \<lparr>ch_ids = None, ch_embeddings = [], ch_metadata = [], ch_documents = [], ch_uris = []\<rparr>)"

definition chroma_path :: "rest_db \<Rightarrow> string" where
  "chroma_path c = ''/api/v2/tenants/'' @ path_escape (pc_tenant (rd_config c)) @ ''/databases/'' @ path_escape (pc_database (rd_config c))
     @ ''/collections/'' @ path_escape (pc_collection (rd_config c))"

definition doc_key :: string where
  "doc_key = ''_chroma_document''"

definition uri_key :: string where
  "uri_key = ''_chroma_uri''"

text \<open>A document or URI of row \<open>i\<close> becomes a reserved member of the metadata.\<close>

definition chroma_aux :: "nat \<Rightarrow> nat \<Rightarrow> string \<Rightarrow> string list \<Rightarrow> (string \<times> string) list \<Rightarrow> (string \<times> string) list result" where
  "chroma_aux n i key vals m =
     (if key \<in> fst ` set m then Inl (ErrNew ''Chroma metadata uses a reserved transfer field'')
      else if vals \<noteq> [] \<and> length vals \<noteq> n then Inl (ErrNew ''incomplete Chroma auxiliary fields'')
      else if vals \<noteq> [] \<and> vals ! i \<noteq> ''null'' then Inr (put_member key (vals ! i) m)
      else Inr m)"

definition chroma_record :: "chroma_rows \<Rightarrow> string list \<Rightarrow> nat \<Rightarrow> vrecord result" where
  "chroma_record r ids i =
     (case chroma_aux (length ids) i doc_key (ch_documents r) (ch_metadata r ! i) of
        Inl e \<Rightarrow> Inl e
      | Inr m \<Rightarrow>
          (case chroma_aux (length ids) i uri_key (ch_uris r) m of
             Inl e \<Rightarrow> Inl e
           | Inr m' \<Rightarrow> Inr \<lparr>r_id = ids ! i, r_values = ch_embeddings r ! i, r_metadata = m'\<rparr>))"

definition chroma_page :: "int \<Rightarrow> int \<Rightarrow> chroma_rows \<Rightarrow> page result" where
  "chroma_page offset limit r =
     (case ch_ids r of
        None \<Rightarrow> Inl (ErrNew ''incomplete Chroma response'')
      | Some ids \<Rightarrow>
          if length ids \<noteq> length (ch_embeddings r) \<or> length ids \<noteq> length (ch_metadata r)
          then Inl (ErrNew ''incomplete Chroma response'')
          else (case collect (chroma_record r ids) [0..<length ids] of
             Inl e \<Rightarrow> Inl e
           | Inr rs \<Rightarrow> Inr \<lparr>pg_records = rs, pg_next = itoa (wrap64 (offset + int (length ids))), pg_done = (int (length ids) < limit)\<rparr>))"

definition read_chroma :: "'w network \<Rightarrow> rest_db \<Rightarrow> string \<Rightarrow> int \<Rightarrow> ('w, page) act" where
  "read_chroma nw c cursor limit =
     (case offset_cursor cursor of
        None \<Rightarrow> failing (ErrNew ''invalid Chroma cursor'')
      | Some offset \<Rightarrow>
          bind (call_out nw (rd_remote c) ''POST'' (chroma_path c @ ''/get'')
              (Some (GMap [(''offset'', GInt offset), (''limit'', GInt limit),
                 (''include'', GArr (map GStr [''embeddings'', ''metadatas'', ''documents'', ''uris'']))]))
              chroma_rows_of)
            (\<lambda>r. lift (chroma_page offset limit r)))"

text \<open>One row of a write: the metadata without the reserved members, the document and the URI.\<close>

type_synonym chroma_row = "(string \<times> string) list \<times> string option \<times> string option"

definition chroma_text :: "string \<Rightarrow> vrecord \<Rightarrow> string option result" where
  "chroma_text key r =
     (case map_of (r_metadata r) key of
        None \<Rightarrow> Inr None
      | Some raw \<Rightarrow> (case unmarshal dec_elem_str raw of
            None \<Rightarrow> Inl (ErrNew ''Chroma document and URI must be strings'') | Some s \<Rightarrow> Inr (Some s)))"

definition chroma_row_of :: "vrecord \<Rightarrow> chroma_row result" where
  "chroma_row_of r =
     (let m = filter (\<lambda>(k, v). k \<noteq> doc_key \<and> k \<noteq> uri_key) (r_metadata r) in
      if list_ex (\<lambda>(k, v). v = ''null'' \<or> has_prefix k ''chroma:'') m
      then Inl (ErrNew ''Chroma does not support null or internal metadata fields'')
      else case chroma_text doc_key r of
        Inl e \<Rightarrow> Inl e
      | Inr d \<Rightarrow> (case chroma_text uri_key r of Inl e \<Rightarrow> Inl e | Inr u \<Rightarrow> Inr (m, d, u)))"

text \<open>
  Chroma merges the metadata of an upsert into what it has, so each key that is stored already and not
  written again is written as null. \<open>chroma_aux_error\<close> checks a stored document or URI.
\<close>

definition null_missing :: "(string \<times> string) list \<Rightarrow> (string \<times> string) list \<Rightarrow> (string \<times> string) list" where
  "null_missing old m = m @ map (\<lambda>k. (k, ''null'')) (filter (\<lambda>k. k \<notin> fst ` set m) (map fst old))"

definition chroma_aux_error :: "nat \<Rightarrow> nat \<Rightarrow> string list \<Rightarrow> string option \<Rightarrow> go_error option" where
  "chroma_aux_error n j old new =
     (if old \<noteq> [] \<and> length old \<noteq> n then Some (ErrNew ''incomplete Chroma destination auxiliary fields'')
      else if old \<noteq> [] \<and> old ! j \<noteq> ''null'' \<and> new = None
      then Some (ErrNew ''Chroma destination has a document or URI absent from the source; use an empty destination'')
      else None)"

fun last_index :: "'a \<Rightarrow> 'a list \<Rightarrow> nat option" where
  "last_index x [] = None"
| "last_index x (y # ys) = (case last_index x ys of Some n \<Rightarrow> Some (Suc n) | None \<Rightarrow> if x = y then Some 0 else None)"

fun chroma_merge :: "chroma_rows \<Rightarrow> nat \<Rightarrow> string list \<Rightarrow> nat \<Rightarrow> string list \<Rightarrow> chroma_row list \<Rightarrow> chroma_row list result" where
  "chroma_merge r n ids j [] rows = Inr rows"
| "chroma_merge r n ids j (x # xs) rows =
     (case last_index x ids of
        None \<Rightarrow> Inl (ErrNew ''Chroma returned an unexpected destination ID'')
      | Some i \<Rightarrow>
          (case rows ! i of (m, d, u) \<Rightarrow>
             (case chroma_aux_error n j (ch_documents r) d of
                Some e \<Rightarrow> Inl e
              | None \<Rightarrow>
                  (case chroma_aux_error n j (ch_uris r) u of
                     Some e \<Rightarrow> Inl e
                   | None \<Rightarrow> chroma_merge r n ids (Suc j) xs (rows[i := (null_missing (ch_metadata r ! j) m, d, u)])))))"

definition chroma_rows_written :: "vrecord list \<Rightarrow> chroma_row list \<Rightarrow> chroma_rows \<Rightarrow> chroma_row list result" where
  "chroma_rows_written rs rows r =
     (case ch_ids r of
        None \<Rightarrow> Inl (ErrNew ''incomplete Chroma destination metadata response'')
      | Some old \<Rightarrow>
          if length old \<noteq> length (ch_metadata r) then Inl (ErrNew ''incomplete Chroma destination metadata response'')
          else chroma_merge r (length old) (map r_id rs) 0 old rows)"

definition opt_str :: "string option \<Rightarrow> gval" where
  "opt_str s = (case s of None \<Rightarrow> GNull | Some t \<Rightarrow> GStr t)"

definition chroma_upsert_body :: "vrecord list \<Rightarrow> chroma_row list \<Rightarrow> gval" where
  "chroma_upsert_body rs rows = GMap [(''ids'', GArr (map (GStr \<circ> r_id) rs)), (''embeddings'', GArr (map (gvec \<circ> r_values) rs)),
     (''metadatas'', GArr (map (\<lambda>(m, d, u). if m = [] then GNull else graws m) rows)),
     (''documents'', GArr (map (\<lambda>(m, d, u). opt_str d) rows)), (''uris'', GArr (map (\<lambda>(m, d, u). opt_str u) rows))]"

definition write_chroma :: "'w network \<Rightarrow> rest_db \<Rightarrow> vrecord list \<Rightarrow> ('w, unit) act" where
  "write_chroma nw c rs =
     bind (lift (collect chroma_row_of rs)) (\<lambda>rows.
       bind (call_out nw (rd_remote c) ''POST'' (chroma_path c @ ''/get'')
           (Some (GMap [(''ids'', GArr (map (GStr \<circ> r_id) rs)), (''include'', GArr (map GStr [''metadatas'', ''documents'', ''uris'']))]))
           chroma_rows_of)
         (\<lambda>old. bind (lift (chroma_rows_written rs rows old)) (\<lambda>out.
            call_ack nw (rd_remote c) ''POST'' (chroma_path c @ ''/upsert'') (Some (chroma_upsert_body rs out)))))"

subsection \<open>Elasticsearch and OpenSearch\<close>

definition encode_cursor :: "(f32 \<Rightarrow> string) \<Rightarrow> gval \<Rightarrow> string" where
  "encode_cursor num v = b64_encode (case marshal num v of Inl e \<Rightarrow> [] | Inr b \<Rightarrow> b)"

definition decode_cursor :: "(json \<Rightarrow> 'a option) \<Rightarrow> string \<Rightarrow> 'a option" where
  "decode_cursor f s = (case b64_decode s of None \<Rightarrow> None
     | Some b \<Rightarrow> if 1024 * 1024 < length b then None else unmarshal f b)"

record search_hit =
  sh_id :: string
  sh_source :: "(string \<times> string) list"
  sh_sort :: "string list"

record search_reply =
  sr_timed_out :: bool
  sr_failed :: int
  sr_hits :: "search_hit list option"

definition dec_search_hit :: "json \<Rightarrow> search_hit option" where
  "dec_search_hit v = dec_struct (\<lambda>k x r.
       if k = ''_id'' then dec_str sh_id_update x r
       else if k = ''_source'' then dec_field (map_option nil_empty \<circ> dec_raws) sh_source_update x r
       else if k = ''sort'' then dec_field dec_raw_slice sh_sort_update x r
       else Some r) v \<lparr>sh_id = [], sh_source = [], sh_sort = []\<rparr>"

definition search_reply_of :: "string \<Rightarrow> search_reply option" where
  "search_reply_of = unmarshal (\<lambda>v. dec_struct (\<lambda>k x r.
       if k = ''timed_out'' then dec_bool sr_timed_out_update x r
       else if k = ''_shards'' then dec_struct (\<lambda>k y q. if k = ''failed'' then dec_int sr_failed_update y q else Some q) x r
       else if k = ''hits'' then dec_field (dec_ptr (dec_struct (\<lambda>k y q.
              if k = ''hits'' then map_option nil_empty (dec_slice dec_search_hit y) else Some q)) []) sr_hits_update x r
       else Some r) v \<lparr>sr_timed_out = False, sr_failed = 0, sr_hits = None\<rparr>)"

text \<open>The hits in order, each with the cursor after it; equal cursors of neighbours show a sort field that is not unique.\<close>

fun search_records :: "(f32 \<Rightarrow> string) \<Rightarrow> pconfig \<Rightarrow> string \<Rightarrow> search_hit list \<Rightarrow> (vrecord \<times> string) list result" where
  "search_records num c prev [] = Inr []"
| "search_records num c prev (h # hs) =
     (if length (sh_sort h) \<noteq> 1 then Inl (ErrNew ''source requires a unique sortable ID field'')
      else
        let next = encode_cursor num (GArr (map GRaw (sh_sort h))) in
        if next = prev then Inl (ErrNew ''source sort field is not unique'')
        else case document_record c (sh_source h) of
          Inl e \<Rightarrow> Inl e
        | Inr r \<Rightarrow>
            if r_id r \<noteq> sh_id h then Inl (ErrNew ''source ID field must equal the document _id'')
            else (case search_records num c next hs of Inl e \<Rightarrow> Inl e | Inr rs \<Rightarrow> Inr ((r, next) # rs)))"

definition search_page :: "(f32 \<Rightarrow> string) \<Rightarrow> pconfig \<Rightarrow> string \<Rightarrow> int \<Rightarrow> search_reply \<Rightarrow> page result" where
  "search_page num c cursor limit r =
     (if sr_timed_out r \<or> 0 < sr_failed r then Inl (ErrNew ''search returned incomplete results'')
      else case sr_hits r of
        None \<Rightarrow> Inl (ErrNew ''search returned incomplete results'')
      | Some hits \<Rightarrow>
          (case search_records num c cursor hits of
             Inl e \<Rightarrow> Inl e
           | Inr rs \<Rightarrow> Inr \<lparr>pg_records = map fst rs, pg_next = (if rs = [] then [] else snd (last rs)),
                           pg_done = (int (length hits) < limit)\<rparr>))"

definition search_body :: "pconfig \<Rightarrow> gval \<Rightarrow> int \<Rightarrow> string list \<Rightarrow> gval" where
  "search_body c source limit after = GMap ([(''size'', GInt limit), (''query'', GMap [(''match_all'', GMap [])]),
     (''sort'', GArr [GMap [(pc_id_field c, GStr ''asc'')]]), (''track_total_hits'', GBool False), (''_source'', source)]
     @ (if after = [] then [] else [(''search_after'', GArr (map GRaw after))]))"

text \<open>\<^verbatim>\<open>errors.As(err, &status) && status.Status == 400\<close>\<close>

fun bad_request :: "go_error \<Rightarrow> bool" where
  "bad_request (HttpStatusError n) = (n = 400)"
| "bad_request (Transient e) = bad_request e"
| "bad_request _ = False"

definition search_once :: "'w network \<Rightarrow> rest_db \<Rightarrow> gval \<Rightarrow> int \<Rightarrow> string list \<Rightarrow> ('w, search_reply) act" where
  "search_once nw c source limit after =
     call_out nw (rd_remote c) ''POST'' (''/'' @ path_escape (pc_index (rd_config c)) @ ''/_search?allow_partial_search_results=false'')
       (Some (search_body (rd_config c) source limit after)) search_reply_of"

text \<open>Elasticsearch is asked to include vectors; a version that does not know that setting is asked again without it.\<close>

definition search_call :: "'w network \<Rightarrow> rest_db \<Rightarrow> int \<Rightarrow> string list \<Rightarrow> ('w, search_reply) act" where
  "search_call nw c limit after w =
     (if pc_kind (rd_config c) = ''elasticsearch'' then
        (case search_once nw c (GMap [(''exclude_vectors'', GBool False)]) limit after w of
           (Inl e, w') \<Rightarrow> if bad_request e then search_once nw c (GBool True) limit after w' else (Inl e, w')
         | (Inr r, w') \<Rightarrow> (Inr r, w'))
      else search_once nw c (GBool True) limit after w)"

definition read_search :: "'w network \<Rightarrow> rest_db \<Rightarrow> string \<Rightarrow> int \<Rightarrow> ('w, page) act" where
  "read_search nw c cursor limit =
     (case (if cursor = [] then Some [] else decode_cursor dec_raw_slice cursor) of
        None \<Rightarrow> failing (ErrNew ''invalid search cursor'')
      | Some after \<Rightarrow>
          if cursor \<noteq> [] \<and> length after \<noteq> 1 then failing (ErrNew ''invalid search cursor'')
          else bind (search_call nw c limit after) (\<lambda>r. lift (search_page (nw_float nw) (rd_config c) cursor limit r)))"

definition bulk_lines :: "(f32 \<Rightarrow> string) \<Rightarrow> pconfig \<Rightarrow> vrecord \<Rightarrow> string result" where
  "bulk_lines num c r =
     (case record_document r c (GStr (r_id r)) of
        Inl e \<Rightarrow> Inl e
      | Inr doc \<Rightarrow>
          (case marshal num (GMap [(''index'', GMap [(''_id'', GStr (r_id r))])]) of
             Inl e \<Rightarrow> Inl e
           | Inr a \<Rightarrow> (case marshal num doc of Inl e \<Rightarrow> Inl e | Inr b \<Rightarrow> Inr (a @ [CHR 0x0A] @ b @ [CHR 0x0A]))))"

record bulk_reply =
  br_errors :: "bool option"
  br_items :: "(string \<times> (string \<times> int)) list list"

definition dec_bulk_item :: "json \<Rightarrow> (string \<times> int) option" where
  "dec_bulk_item v = dec_struct (\<lambda>k x (i, n).
       if k = ''_id'' then map_option (\<lambda>i'. (i', n)) (dec_str (\<lambda>f. f) x i)
       else if k = ''status'' then map_option (\<lambda>n'. (i, n')) (dec_int (\<lambda>f. f) x n)
       else Some (i, n)) v ([], 0)"

definition bulk_reply_of :: "string \<Rightarrow> bulk_reply option" where
  "bulk_reply_of = unmarshal (\<lambda>v. dec_struct (\<lambda>k x r.
       if k = ''errors'' then dec_field dec_bool_ptr br_errors_update x r
       else if k = ''items'' then dec_field (\<lambda>y. map_option nil_empty (dec_slice (dec_map dec_bulk_item) y)) br_items_update x r
       else Some r) v \<lparr>br_errors = None, br_items = []\<rparr>)"

fun bulk_items_ok :: "vrecord list \<Rightarrow> (string \<times> (string \<times> int)) list list \<Rightarrow> bool" where
  "bulk_items_ok (r # rs) (item # items) =
     (case map_of item ''index'' of
        None \<Rightarrow> False
      | Some (i, n) \<Rightarrow> i = r_id r \<and> 200 \<le> n \<and> n < 300 \<and> bulk_items_ok rs items)"
| "bulk_items_ok _ _ = True"

definition bulk_ack :: "vrecord list \<Rightarrow> bulk_reply \<Rightarrow> unit result" where
  "bulk_ack rs a =
     (if br_errors a \<noteq> Some False \<or> length (br_items a) \<noteq> length rs
      then Inl (ErrNew ''search bulk write did not acknowledge every record'')
      else if \<not> bulk_items_ok rs (br_items a) then Inl (ErrNew ''search bulk write contained a failed item'')
      else Inr ())"

definition write_search :: "'w network \<Rightarrow> rest_db \<Rightarrow> vrecord list \<Rightarrow> ('w, unit) act" where
  "write_search nw c rs =
     bind (lift (collect (bulk_lines (nw_float nw) (rd_config c)) rs)) (\<lambda>ls.
       bind (call_bytes nw (rd_remote c) ''POST'' (''/'' @ path_escape (pc_index (rd_config c)) @ ''/_bulk'') (concat ls)
           ''application/x-ndjson'' (Some bulk_reply_of))
         (\<lambda>a. lift (bulk_ack rs (the a))))"

subsection \<open>Solr\<close>

record solr_reply =
  so_status :: "int option"
  so_partial :: string
  so_docs :: "(string \<times> string) list list"
  so_next :: string

definition solr_reply_of :: "string \<Rightarrow> solr_reply option" where
  "solr_reply_of = unmarshal (\<lambda>v. dec_struct (\<lambda>k x r.
       if k = ''responseheader'' then dec_struct (\<lambda>k y q.
              if k = ''status'' then dec_field dec_int_ptr so_status_update y q
              else if k = ''partialresults'' then dec_field dec_raw so_partial_update y q
              else Some q) x r
       else if k = ''response'' then dec_struct (\<lambda>k y q. if k = ''docs''
              then dec_field (\<lambda>z. map_option nil_empty (dec_slice (map_option nil_empty \<circ> dec_raws) z)) so_docs_update y q else Some q) x r
       else if k = ''nextcursormark'' then dec_str so_next_update x r
       else Some r) v \<lparr>so_status = None, so_partial = [], so_docs = [], so_next = []\<rparr>)"

definition solr_page :: "pconfig \<Rightarrow> string \<Rightarrow> solr_reply \<Rightarrow> page result" where
  "solr_page c cursor r =
     (if so_status r \<noteq> Some 0 \<or> so_next r = [] \<or> (so_partial r \<noteq> [] \<and> so_partial r \<noteq> ''false'')
      then Inl (ErrNew ''Solr returned incomplete results'')
      else case collect (\<lambda>doc. document_record c (del_member ''_version_'' doc)) (so_docs r) of
        Inl e \<Rightarrow> Inl e
      | Inr rs \<Rightarrow> Inr \<lparr>pg_records = rs, pg_next = so_next r, pg_done = (so_next r = cursor)\<rparr>)"

definition read_solr :: "'w network \<Rightarrow> rest_db \<Rightarrow> string \<Rightarrow> int \<Rightarrow> ('w, page) act" where
  "read_solr nw c cursor limit =
     (let mark = (if cursor = [] then ''*'' else cursor) in
      bind (call_out nw (rd_remote c) ''GET'' (''/solr/'' @ path_escape (pc_collection (rd_config c)) @ ''/select?''
          @ values_encode [(''q'', [''*:*'']), (''sort'', [pc_id_field (rd_config c) @ '' asc'']), (''rows'', [itoa limit]),
              (''cursorMark'', [mark]), (''fl'', [''*'']), (''wt'', [''json'']), (''omitHeader'', [''false''])])
          None solr_reply_of)
        (\<lambda>r. lift (solr_page (rd_config c) mark r)))"

definition solr_document :: "pconfig \<Rightarrow> vrecord \<Rightarrow> gval result" where
  "solr_document c r =
     (if ''_version_'' \<in> fst ` set (r_metadata r) then Inl (ErrNew ''Solr _version_ is reserved'')
      else record_document r c (GStr (r_id r)))"

definition solr_status_of :: "string \<Rightarrow> int option option" where
  "solr_status_of = unmarshal (\<lambda>v. dec_struct (\<lambda>k x r. if k = ''responseheader''
     then dec_struct (\<lambda>k y q. if k = ''status'' then dec_int_ptr y else Some q) x r else Some r) v None)"

definition write_solr :: "'w network \<Rightarrow> rest_db \<Rightarrow> vrecord list \<Rightarrow> ('w, unit) act" where
  "write_solr nw c rs =
     bind (lift (collect (solr_document (rd_config c)) rs)) (\<lambda>docs.
       bind (call_out nw (rd_remote c) ''POST''
           (''/solr/'' @ path_escape (pc_collection (rd_config c)) @ ''/update?overwrite=true&commit=true&wt=json'')
           (Some (GArr docs)) solr_status_of)
         (\<lambda>status. if status \<noteq> Some 0 then failing (ErrNew ''Solr write was not acknowledged'') else ret ()))"

subsection \<open>The connector\<close>

definition rest_read :: "'w network \<Rightarrow> rest_db \<Rightarrow> string \<Rightarrow> int \<Rightarrow> ('w, page) act" where
  "rest_read nw c cursor limit =
     (if limit < 1 then failing (ErrNew ''positive page size required'')
      else
        let k = pc_kind (rd_config c); n = min limit 500 in
        if k = ''qdrant'' then read_qdrant nw c cursor n
        else if k = ''weaviate'' then read_weaviate nw c cursor n
        else if k = ''milvus'' then read_milvus nw c cursor n
        else if k = ''chroma'' then read_chroma nw c cursor n
        else if k = ''elasticsearch'' \<or> k = ''opensearch'' then read_search nw c cursor n
        else if k = ''solr'' then read_solr nw c cursor n
        else failing (ErrNew ''unsupported REST source''))"

definition rest_write :: "'w network \<Rightarrow> rest_db \<Rightarrow> vrecord list \<Rightarrow> ('w, unit) act" where
  "rest_write nw c rs =
     (let k = pc_kind (rd_config c) in
      if k = ''qdrant'' then write_qdrant nw c rs
      else if k = ''weaviate'' then write_weaviate nw c rs
      else if k = ''milvus'' then write_milvus nw c rs
      else if k = ''chroma'' then write_chroma nw c rs
      else if k = ''elasticsearch'' \<or> k = ''opensearch'' then write_search nw c rs
      else if k = ''solr'' then write_solr nw c rs
      else failing (ErrNew ''unsupported REST sink''))"

definition rest_upsert :: "'w network \<Rightarrow> rest_db \<Rightarrow> vrecord list \<Rightarrow> 'w \<Rightarrow> (unit result \<times> 'w) option" where
  "rest_upsert nw c rs = (if rs = [] then (\<lambda>w. Some (Inr (), w))
     else chunks 100 (4 * 1024 * 1024) (\<lambda>rs. marshal (nw_float nw) (GArr (map grecord rs))) (rest_write nw c) rs)"

end
