(* ===== verification/Native_Database.thy ===== *)
theory Native_Database
  imports Rest_Database
begin

section \<open>PostgreSQL, Redis and MongoDB (src/connector/additional_native.go)\<close>

text \<open>
  The drivers are third-party code: each call of a driver is a field of a driver record, a function of its
  arguments and of the state of the database. A driver's error is only asked whether it is a
  \<^verbatim>\<open>net.Error\<close>. An ObjectID is its hexadecimal text as the driver prints it. BSON documents are what the driver makes of them: their identifier, their vector field
  and the Extended JSON of the rest.
\<close>

type_synonym driver_error = bool
type_synonym ('w, 'a) drv = "'w \<Rightarrow> (driver_error + 'a) \<times> 'w"

definition native_error :: "go_error option \<Rightarrow> driver_error \<Rightarrow> go_error" where
  "native_error ctx net = (case ctx of Some e \<Rightarrow> e
     | None \<Rightarrow> if net then Transient (ErrNew ''database network operation failed'')
              else ErrNew ''database operation failed; check credentials, permissions, and schema'')"

text \<open>A driver call as an action, its error turned into one of the connector's.\<close>

definition native :: "go_error option \<Rightarrow> ('w, 'a) drv \<Rightarrow> ('w, 'a) act" where
  "native ctx f w = (case f w of (Inl e, w') \<Rightarrow> (Inl (native_error ctx e), w') | (Inr x, w') \<Rightarrow> (Inr x, w'))"

fun each :: "('a \<Rightarrow> ('w, unit) act) \<Rightarrow> 'a list \<Rightarrow> ('w, unit) act" where
  "each f [] = ret ()"
| "each f (x # xs) = bind (f x) (\<lambda>_. each f xs)"

fun gather :: "('a \<Rightarrow> ('w, 'b) act) \<Rightarrow> 'a list \<Rightarrow> ('w, 'b list) act" where
  "gather f [] = ret []"
| "gather f (x # xs) = bind (f x) (\<lambda>y. bind (gather f xs) (\<lambda>ys. ret (y # ys)))"

subsection \<open>PostgreSQL with pgvector\<close>

type_synonym pg_row = "string \<times> string \<times> string option"

text \<open>
  \<open>pg_query\<close> yields the rows of a query, each one scanned or an error, and the error after the last row.
  Arguments are passed as text.
\<close>

record 'w pg_driver =
  pg_ctx :: "go_error option"
  pg_sanitize :: "string list \<Rightarrow> string"
  pg_connect :: "('w, unit) drv"
  pg_query :: "string \<Rightarrow> string list \<Rightarrow> ('w, (driver_error + pg_row) list \<times> driver_error option) drv"
  pg_begin :: "('w, unit) drv"
  pg_exec :: "string \<Rightarrow> string list \<Rightarrow> ('w, int) drv"
  pg_commit :: "('w, unit) drv"
  pg_rollback :: "'w \<Rightarrow> 'w"

definition pg_select :: "'w pg_driver \<Rightarrow> pconfig \<Rightarrow> string \<Rightarrow> string" where
  "pg_select d c cursor =
     (let i = pg_sanitize d [pc_id_field c]; vec = pg_sanitize d [pc_vector_field c]; meta = pg_sanitize d [pc_metadata_field c];
          collated = i @ ''::text COLLATE '' @ quoted ''C''
      in ''SELECT '' @ i @ ''::text,'' @ vec @ ''::text,'' @ meta @ ''::text FROM '' @ pg_sanitize d [''public'', pc_collection c]
         @ (if cursor = [] then [] else '' WHERE '' @ collated @ '' > $2'') @ '' ORDER BY '' @ collated @ '' LIMIT $1'')"

definition pg_record :: "go_error option \<Rightarrow> driver_error + pg_row \<Rightarrow> vrecord result" where
  "pg_record ctx row =
     (case row of
        Inl e \<Rightarrow> Inl (native_error ctx e)
      | Inr (i, vector, metadata) \<Rightarrow>
          (case unmarshal dec_vec vector of
             None \<Rightarrow> Inl (ErrNew ''invalid pgvector value'')
           | Some vs \<Rightarrow>
               (case (case metadata of None \<Rightarrow> Some None | Some m \<Rightarrow> unmarshal dec_raws m) of
                  None \<Rightarrow> Inl (ErrNew ''pgvector metadata must be a JSON object'')
                | Some ms \<Rightarrow> Inr \<lparr>r_id = i, r_values = vs, r_metadata = nil_empty ms\<rparr>)))"

definition pg_page :: "go_error option \<Rightarrow> int \<Rightarrow> (driver_error + pg_row) list \<times> driver_error option \<Rightarrow> page result" where
  "pg_page ctx limit out =
     (case collect (pg_record ctx) (fst out) of
        Inl e \<Rightarrow> Inl e
      | Inr rs \<Rightarrow>
          (case snd out of
             Some e \<Rightarrow> Inl (native_error ctx e)
           | None \<Rightarrow> Inr \<lparr>pg_records = rs, pg_next = (if rs = [] then [] else r_id (last rs)), pg_done = (int (length rs) < limit)\<rparr>))"

definition pgvector_read :: "'w pg_driver \<Rightarrow> pconfig \<Rightarrow> string \<Rightarrow> int \<Rightarrow> ('w, page) act" where
  "pgvector_read d c cursor limit =
     bind (native (pg_ctx d) (pg_connect d)) (\<lambda>_.
       bind (native (pg_ctx d) (pg_query d (pg_select d c cursor) (itoa limit # (if cursor = [] then [] else [cursor]))))
         (\<lambda>out. lift (pg_page (pg_ctx d) limit out)))"

definition pg_insert :: "'w pg_driver \<Rightarrow> pconfig \<Rightarrow> string" where
  "pg_insert d c =
     (let i = pg_sanitize d [pc_id_field c]; vec = pg_sanitize d [pc_vector_field c]; meta = pg_sanitize d [pc_metadata_field c]
      in ''INSERT INTO '' @ pg_sanitize d [''public'', pc_collection c] @ '' ('' @ i @ '','' @ vec @ '','' @ meta
         @ '') VALUES ($1,$2::vector,$3::jsonb) ON CONFLICT ('' @ i @ '') DO UPDATE SET ''
         @ vec @ ''=EXCLUDED.'' @ vec @ '','' @ meta @ ''=EXCLUDED.'' @ meta)"

text \<open>A nil metadata map is marshalled as null, which is told from an empty one by nothing the model keeps.\<close>

definition pg_write_row :: "'w pg_driver \<Rightarrow> (f32 \<Rightarrow> string) \<Rightarrow> pconfig \<Rightarrow> vrecord \<Rightarrow> ('w, unit) act" where
  "pg_write_row d num c r =
     (case marshal num (gvec (r_values r)) of
        Inl e \<Rightarrow> failing (ErrNew ''invalid vector'')
      | Inr vector \<Rightarrow>
          (case marshal num (graws (r_metadata r)) of
             Inl e \<Rightarrow> failing (ErrNew ''invalid metadata'')
           | Inr metadata \<Rightarrow>
               bind (native (pg_ctx d) (pg_exec d (pg_insert d c) [r_id r, vector, metadata]))
                 (\<lambda>n. if n \<noteq> 1 then failing (ErrNew ''PostgreSQL did not acknowledge one row'') else ret ())))"

text \<open>The transaction is rolled back unless it was committed; a rollback after a commit does nothing.\<close>

definition or_rollback :: "'w pg_driver \<Rightarrow> ('w, unit) act \<Rightarrow> ('w, unit) act" where
  "or_rollback d f w = (case f w of (Inl e, w') \<Rightarrow> (Inl e, pg_rollback d w') | (Inr x, w') \<Rightarrow> (Inr x, w'))"

definition pgvector_upsert :: "'w pg_driver \<Rightarrow> (f32 \<Rightarrow> string) \<Rightarrow> pconfig \<Rightarrow> vrecord list \<Rightarrow> ('w, unit) act" where
  "pgvector_upsert d num c rs =
     bind (native (pg_ctx d) (pg_connect d)) (\<lambda>_.
       bind (native (pg_ctx d) (pg_begin d)) (\<lambda>_.
         or_rollback d (bind (each (pg_write_row d num c) rs) (\<lambda>_. native (pg_ctx d) (pg_commit d)))))"

subsection \<open>Redis\<close>

record 'w redis_driver =
  re_ctx :: "go_error option"
  re_scan :: "nat \<Rightarrow> string \<Rightarrow> int \<Rightarrow> ('w, string list \<times> nat) drv"
  re_hgetall :: "string \<Rightarrow> ('w, (string \<times> string) list) drv"
  re_replace :: "string \<Rightarrow> string list \<Rightarrow> ('w, int) drv"

record redis_position =
  rp_scan :: nat
  rp_pending :: "string list"

text \<open>\<^verbatim>\<open>uint64\<close> of a JSON number.\<close>

definition dec_uint :: "((nat \<Rightarrow> nat) \<Rightarrow> 'r \<Rightarrow> 'r) \<Rightarrow> json \<Rightarrow> 'r \<Rightarrow> 'r option" where
  "dec_uint upd v r = (case v of JNull \<Rightarrow> Some r
     | JNum s \<Rightarrow> (case parse_uint s of None \<Rightarrow> None | Some n \<Rightarrow> Some (upd (\<lambda>_. n) r)) | _ \<Rightarrow> None)"

definition dec_redis_position :: "string \<Rightarrow> json \<Rightarrow> redis_position \<Rightarrow> redis_position option" where
  "dec_redis_position k v r =
     (if k = ''scan'' then dec_uint rp_scan_update v r
      else if k = ''pending'' then dec_field (\<lambda>y. map_option nil_empty (dec_slice dec_elem_str y)) rp_pending_update v r
      else Some r)"

definition redis_position_value :: "redis_position \<Rightarrow> gval" where
  "redis_position_value p = GStruct ((''scan'', GInt (int (rp_scan p)))
     # (if rp_pending p = [] then [] else [(''pending'', GArr (map GStr (rp_pending p)))]))"

definition start_position :: redis_position where
  "start_position = \<lparr>rp_scan = 0, rp_pending = []\<rparr>"

definition le_bytes :: "f32 \<Rightarrow> string" where
  "le_bytes w = map (\<lambda>i. char_of (unat w div 256 ^ i mod 256)) [0, 1, 2, 3]"

definition from_le :: "string \<Rightarrow> f32" where
  "from_le bs = word_of_nat (byte (bs ! 0) + 256 * (byte (bs ! 1) + 256 * (byte (bs ! 2) + 256 * byte (bs ! 3))))"

fun from_le_list :: "string \<Rightarrow> f32 list" where
  "from_le_list (a # b # c # d # r) = from_le [a, b, c, d] # from_le_list r"
| "from_le_list _ = []"

text \<open>The other fields of a hash become metadata, as JSON strings.\<close>

fun redis_fields :: "pconfig \<Rightarrow> (string \<times> string) list \<Rightarrow> (string \<times> string) list \<Rightarrow> (string \<times> string) list result" where
  "redis_fields c [] m = Inr m"
| "redis_fields c ((k, v) # fs) m =
     (if k = pc_vector_field c \<or> k = pc_metadata_field c then redis_fields c fs m
      else if k \<in> fst ` set m then Inl (ErrNew ''Redis metadata fields collide'')
      else redis_fields c fs (m @ [(k, jprint (jstr v))]))"

definition redis_record :: "pconfig \<Rightarrow> string \<Rightarrow> (string \<times> string) list \<Rightarrow> vrecord result" where
  "redis_record c key fs =
     (let raw = raw_member (pc_vector_field c) fs in
      if pc_vector_field c \<notin> fst ` set fs \<or> raw = [] \<or> length raw mod 4 \<noteq> 0
      then Inl (ErrNew ''Redis HASH needs a FLOAT32 little-endian vector'')
      else case (case map_of fs (pc_metadata_field c) of None \<Rightarrow> Some [] | Some m \<Rightarrow> map_option nil_empty (unmarshal dec_raws m)) of
        None \<Rightarrow> Inl (ErrNew ''Redis metadata field must contain a JSON object'')
      | Some m \<Rightarrow>
          (case redis_fields c fs m of
             Inl e \<Rightarrow> Inl e
           | Inr ms \<Rightarrow> Inr \<lparr>r_id = trim_prefix key (pc_key_prefix c), r_values = from_le_list raw, r_metadata = ms\<rparr>))"

fun redis_page_keys :: "'w redis_driver \<Rightarrow> pconfig \<Rightarrow> string list \<Rightarrow> string list \<Rightarrow> ('w, vrecord list) act" where
  "redis_page_keys d c seen [] = ret []"
| "redis_page_keys d c seen (k # ks) =
     (if \<not> has_prefix k (pc_key_prefix c) then failing (ErrNew ''Redis key escaped configured prefix'')
      else if k \<in> set seen then redis_page_keys d c seen ks
      else bind (native (re_ctx d) (re_hgetall d k)) (\<lambda>fs.
             bind (lift (redis_record c k fs)) (\<lambda>r.
               bind (redis_page_keys d c (k # seen) ks) (\<lambda>rs. ret (r # rs)))))"

definition redis_position_of :: "string \<Rightarrow> redis_position option" where
  "redis_position_of cursor = (if cursor = [] then Some start_position
     else decode_cursor (\<lambda>v. dec_struct dec_redis_position v start_position) cursor)"

definition redis_fill :: "'w redis_driver \<Rightarrow> pconfig \<Rightarrow> int \<Rightarrow> redis_position \<Rightarrow> ('w, redis_position) act" where
  "redis_fill d c limit p =
     (if rp_pending p \<noteq> [] then ret p
      else bind (native (re_ctx d) (re_scan d (rp_scan p) (pc_key_prefix c @ ''*'') (min limit 500)))
             (\<lambda>(keys, next). ret \<lparr>rp_scan = next, rp_pending = keys\<rparr>))"

definition redis_read :: "'w redis_driver \<Rightarrow> pconfig \<Rightarrow> string \<Rightarrow> int \<Rightarrow> ('w, page) act" where
  "redis_read d c cursor limit =
     (if limit < 1 then failing (ErrNew ''positive page size required'')
      else case redis_position_of cursor of
        None \<Rightarrow> failing (ErrNew ''invalid connector cursor'')
      | Some p0 \<Rightarrow>
          bind (redis_fill d c limit p0) (\<lambda>p.
            let n = min (nat limit) (length (rp_pending p)) in
            bind (redis_page_keys d c [] (take n (rp_pending p))) (\<lambda>rs.
              let q = p\<lparr>rp_pending := drop n (rp_pending p)\<rparr>;
                  next = encode_cursor (\<lambda>_. []) (redis_position_value q)
              in if 1024 * 1024 < length next then failing (ErrNew ''Redis scan cursor exceeds safety limit'')
                 else ret \<lparr>pg_records = rs, pg_next = next, pg_done = (rp_scan q = 0 \<and> rp_pending q = [])\<rparr>)))"

text \<open>\<open>re_replace key fields\<close> runs the script that deletes the hash and sets the given fields.\<close>

definition redis_write :: "'w redis_driver \<Rightarrow> (f32 \<Rightarrow> string) \<Rightarrow> pconfig \<Rightarrow> vrecord \<Rightarrow> ('w, unit) act" where
  "redis_write d num c r =
     (if r_id r = [] then failing (ErrNew ''empty Redis record ID'')
      else case marshal num (graws (r_metadata r)) of
        Inl e \<Rightarrow> failing (ErrNew ''invalid metadata'')
      | Inr metadata \<Rightarrow>
          bind (native (re_ctx d) (re_replace d (pc_key_prefix c @ r_id r)
              [pc_vector_field c, concat (map le_bytes (r_values r)), pc_metadata_field c, metadata]))
            (\<lambda>n. if n \<noteq> 2 then failing (ErrNew ''Redis did not acknowledge the record'') else ret ()))"

definition redis_upsert :: "'w redis_driver \<Rightarrow> (f32 \<Rightarrow> string) \<Rightarrow> pconfig \<Rightarrow> vrecord list \<Rightarrow> ('w, unit) act" where
  "redis_upsert d num c rs = each (redis_write d num c) rs"

subsection \<open>MongoDB\<close>

datatype mongo_id = MObjectID string | MString string | MInt64 int | MOtherId

text \<open>A document read: its identifier, its vector (an array, its elements rounded to float32 when numeric), the rest as Extended JSON.\<close>

record mongo_doc =
  md_id :: mongo_id
  md_vector :: "f32 option list option"
  md_rest :: "string option"

record 'w mongo_driver =
  mo_ctx :: "go_error option"
  mo_objectid :: "string \<Rightarrow> string option"
  mo_mixed :: "string \<Rightarrow> ('w, bool) drv"
  mo_find :: "mongo_id option \<Rightarrow> int \<Rightarrow> ('w, mongo_doc option list \<times> driver_error option) drv"
  mo_extjson :: "string \<Rightarrow> bool"
  mo_replace :: "mongo_id \<Rightarrow> string \<Rightarrow> f32 list \<Rightarrow> ('w, bool \<times> int \<times> int) drv"

definition mongo_record_id :: "'w mongo_driver \<Rightarrow> pconfig \<Rightarrow> string \<Rightarrow> mongo_id result" where
  "mongo_record_id d c i =
     (if pc_id_type c = ''objectid''
      then (case mo_objectid d i of Some h \<Rightarrow> Inr (MObjectID h) | None \<Rightarrow> Inl (ErrNew ''MongoDB requires ObjectID hex IDs''))
      else if pc_id_type c = ''int64''
      then (case parse_int i of
              None \<Rightarrow> Inl (ErrNew ''MongoDB requires canonical INT64 IDs'')
            | Some n \<Rightarrow> if itoa n \<noteq> i then Inl (ErrNew ''MongoDB requires canonical INT64 IDs'') else Inr (MInt64 n))
      else Inr (MString i))"

definition mongo_type :: "pconfig \<Rightarrow> string" where
  "mongo_type c = (if pc_id_type c = ''objectid'' then ''objectId'' else if pc_id_type c = ''int64'' then ''long''
     else if pc_id_type c = ''string'' then ''string'' else [])"

definition mongo_record :: "mongo_doc option \<Rightarrow> vrecord result" where
  "mongo_record doc =
     (case doc of
        None \<Rightarrow> Inl (ErrNew ''invalid MongoDB document'')
      | Some m \<Rightarrow>
          (case (case md_id m of MObjectID h \<Rightarrow> Some h | MString s \<Rightarrow> Some s | MInt64 n \<Rightarrow> Some (itoa n) | MOtherId \<Rightarrow> None) of
             None \<Rightarrow> Inl (ErrNew ''unsupported MongoDB ID'')
           | Some i \<Rightarrow>
               (case md_vector m of
                  None \<Rightarrow> Inl (ErrNew ''MongoDB vector field must be a dense numeric array'')
                | Some xs \<Rightarrow>
                    (case all_some xs of
                       None \<Rightarrow> Inl (ErrNew ''MongoDB vector contains a nonnumeric value'')
                     | Some vs \<Rightarrow>
                         (case (case md_rest m of None \<Rightarrow> None | Some raw \<Rightarrow> unmarshal dec_raws raw) of
                            None \<Rightarrow> Inl (ErrNew ''MongoDB metadata could not be represented as Extended JSON'')
                          | Some ms \<Rightarrow> Inr \<lparr>r_id = i, r_values = vs, r_metadata = nil_empty ms\<rparr>)))))"

definition mongo_page :: "go_error option \<Rightarrow> int \<Rightarrow> mongo_doc option list \<times> driver_error option \<Rightarrow> page result" where
  "mongo_page ctx limit out =
     (case collect mongo_record (fst out) of
        Inl e \<Rightarrow> Inl e
      | Inr rs \<Rightarrow>
          (case snd out of
             Some e \<Rightarrow> Inl (native_error ctx e)
           | None \<Rightarrow> Inr \<lparr>pg_records = rs, pg_next = (if rs = [] then [] else r_id (last rs)), pg_done = (int (length rs) < limit)\<rparr>))"

definition mongo_read :: "'w mongo_driver \<Rightarrow> pconfig \<Rightarrow> string \<Rightarrow> int \<Rightarrow> ('w, page) act" where
  "mongo_read d c cursor limit =
     bind (native (mo_ctx d) (mo_mixed d (mongo_type c))) (\<lambda>mixed.
       if mixed then failing (ErrNew ''MongoDB collection contains incompatible ID types'')
       else bind (lift (if cursor = [] then Inr None else case mongo_record_id d c cursor of Inl e \<Rightarrow> Inl e | Inr i \<Rightarrow> Inr (Some i)))
         (\<lambda>after. bind (native (mo_ctx d) (mo_find d after limit)) (\<lambda>out. lift (mongo_page (mo_ctx d) limit out))))"

definition mongo_write :: "'w mongo_driver \<Rightarrow> (f32 \<Rightarrow> string) \<Rightarrow> pconfig \<Rightarrow> vrecord \<Rightarrow> ('w, unit) act" where
  "mongo_write d num c r =
     (if ''_id'' \<in> fst ` set (r_metadata r) then failing (ErrNew ''MongoDB _id is reserved'')
      else if pc_vector_field c \<in> fst ` set (r_metadata r) then failing (ErrNew ''MongoDB vector field collides with metadata'')
      else case marshal num (graws (r_metadata r)) of
        Inl e \<Rightarrow> failing (ErrNew ''invalid metadata'')
      | Inr raw \<Rightarrow>
          if raw \<noteq> ''null'' \<and> \<not> mo_extjson d raw then failing (ErrNew ''invalid MongoDB Extended JSON metadata'')
          else bind (lift (mongo_record_id d c (r_id r))) (\<lambda>i.
                 bind (native (mo_ctx d) (mo_replace d i raw (r_values r))) (\<lambda>(ack, matched, upserted).
                   if \<not> ack \<or> matched + upserted \<noteq> 1 then failing (ErrNew ''MongoDB did not acknowledge one record'') else ret ())))"

definition mongo_upsert :: "'w mongo_driver \<Rightarrow> (f32 \<Rightarrow> string) \<Rightarrow> pconfig \<Rightarrow> vrecord list \<Rightarrow> ('w, unit) act" where
  "mongo_upsert d num c rs = each (mongo_write d num c) rs"

end
