(* ===== verification/Native_Client.thy ===== *)
theory Native_Client
  imports Native_Database Operator_Config
begin

section \<open>The clients of native databases (src/connector/additional_native.go)\<close>

text \<open>
  What \<^verbatim>\<open>newPGVector\<close>, \<^verbatim>\<open>newRedis\<close> and \<^verbatim>\<open>newMongo\<close> hand to their drivers: the address, the credentials,
  TLS with the name it verifies, and the dialer. TLS is version 1.2 or later. Timeouts, pool sizes and
  the other constants of the drivers are not modelled. The drivers accept the settings or not.
\<close>

datatype dialer = DefaultDial | PublicDial

record client_settings =
  nc_address :: string
  nc_username :: string
  nc_password :: string
  nc_database :: string
  nc_collection :: string
  nc_auth_database :: string
  nc_tls :: "string option"
  nc_dialer :: dialer

text \<open>\<^verbatim>\<open>URL.Port\<close>: what follows the last colon of the host, when it is digits.\<close>

definition url_port :: "url \<Rightarrow> string" where
  "url_port u =
     (let port = rev (takeWhile (\<lambda>c. c \<noteq> CHR '':'') (rev (u_host u)))
      in if CHR '':'' \<in> set (u_host u) \<and> list_all is_digit port then port else [])"

text \<open>\<^verbatim>\<open>net.JoinHostPort\<close>\<close>

definition join_host_port :: "string \<Rightarrow> string \<Rightarrow> string" where
  "join_host_port h p = (if CHR '':'' \<in> set h then ''['' @ h @ '']:'' @ p else h @ CHR '':'' # p)"

definition pg_port :: "url \<Rightarrow> nat option" where
  "pg_port u = (if url_port u = [] then Some 5432
     else case parse_uint (url_port u) of None \<Rightarrow> None | Some n \<Rightarrow> if n = 0 \<or> 2 ^ 16 \<le> n then None else Some n)"

definition dialer_for :: "bool \<Rightarrow> dialer" where
  "dialer_for public = (if public then PublicDial else DefaultDial)"

definition new_pgvector :: "(string \<Rightarrow> url option) \<Rightarrow> pconfig \<Rightarrow> pcreds \<Rightarrow> bool \<Rightarrow> client_settings result" where
  "new_pgvector parse c s public =
     (case parse (pc_endpoint c) of
        None \<Rightarrow> Inl (ErrNew ''url'')
      | Some u \<Rightarrow>
          (case pg_port u of
             None \<Rightarrow> Inl (ErrNew ''invalid PostgreSQL port'')
           | Some n \<Rightarrow> Inr \<lparr>nc_address = join_host_port (u_hostname u) (itoa_nat n), nc_username = cr_username s,
               nc_password = cr_password s, nc_database = pc_database c, nc_collection = pc_collection c, nc_auth_database = [],
               nc_tls = Some (u_hostname u), nc_dialer = dialer_for public\<rparr>))"

definition new_redis :: "(string \<Rightarrow> url option) \<Rightarrow> pconfig \<Rightarrow> pcreds \<Rightarrow> bool \<Rightarrow> client_settings result" where
  "new_redis parse c s public =
     (case parse (pc_endpoint c) of
        None \<Rightarrow> Inl (ErrNew ''url'')
      | Some u \<Rightarrow>
          (case parse_int (pc_database c) of
             None \<Rightarrow> Inl (ErrNew (''Redis database must be 0'' @ en_dash @ ''15''))
           | Some db \<Rightarrow>
               if db < 0 \<or> 15 < db then Inl (ErrNew (''Redis database must be 0'' @ en_dash @ ''15''))
               else Inr \<lparr>nc_address = (if url_port u = [] then join_host_port (u_hostname u) ''6379'' else u_host u),
                 nc_username = cr_username s, nc_password = cr_password s, nc_database = itoa db, nc_collection = pc_collection c,
                 nc_auth_database = [], nc_tls = (if u_scheme u = ''rediss'' then Some (u_hostname u) else None),
                 nc_dialer = dialer_for public\<rparr>))"

text \<open>The driver reads the URI itself and verifies the name of each server it connects to.\<close>

definition new_mongo :: "(client_settings \<Rightarrow> bool) \<Rightarrow> pconfig \<Rightarrow> pcreds \<Rightarrow> bool \<Rightarrow> client_settings result" where
  "new_mongo accepts c s public =
     (let m = \<lparr>nc_address = pc_endpoint c, nc_username = cr_username s,
            nc_password = (if cr_username s = [] then [] else cr_password s), nc_database = pc_database c, nc_collection = pc_collection c,
            nc_auth_database = (if cr_username s = [] then [] else pc_auth_database c), nc_tls = Some [], nc_dialer = dialer_for public\<rparr>
      in if accepts m then Inr m else Inl (ErrNew ''invalid MongoDB connection configuration''))"

text \<open>The drivers of the connection settings, with \<open>handle\<close> the client of each setting.\<close>

definition native_drivers :: "(string \<Rightarrow> url option) \<Rightarrow> (client_settings \<Rightarrow> bool) \<Rightarrow> (client_settings \<Rightarrow> nat) \<Rightarrow> drivers" where
  "native_drivers parse accepts handle = \<lparr>
     dr_pgvector = (\<lambda>c s public. map_sum id handle (new_pgvector parse c s public)),
     dr_redis = (\<lambda>c s public. map_sum id handle (new_redis parse c s public)),
     dr_mongo = (\<lambda>c s public. map_sum id handle (new_mongo accepts c s public))\<rparr>"

definition native_client :: "(string \<Rightarrow> url option) \<Rightarrow> (client_settings \<Rightarrow> bool) \<Rightarrow> pconfig \<Rightarrow> pcreds \<Rightarrow> bool \<Rightarrow> client_settings result" where
  "native_client parse accepts c s public =
     (if pc_kind c = ''pgvector'' then new_pgvector parse c s public
      else if pc_kind c = ''redis'' then new_redis parse c s public
      else new_mongo accepts c s public)"

subsection \<open>Properties\<close>

lemma defaults_same: "pc_endpoint (additional_defaults c) = trim_right (CHR ''/'') (pc_endpoint c)"
    "pc_kind (additional_defaults c) = pc_kind c"
  by (simp_all add: additional_defaults_def Let_def)

text \<open>C37: A saved connection to a native database is encrypted and guarded: when its settings are accepted,
  the client verifies TLS, with the name in the endpoint for PostgreSQL and Redis, and dials through
  the filter that refuses private networks.\<close>

theorem native_clients_guarded:
  assumes "validate_personal parse parse_ip c s = None" "pc_kind c \<in> {''pgvector'', ''redis'', ''mongodb''}"
    and "native_client parse accepts (additional_defaults c) s True = Inr m"
    and trim: "\<And>e u. parse e = Some u \<Longrightarrow> \<exists>v. parse (trim_right (CHR ''/'') e) = Some v \<and> u_scheme v = u_scheme u \<and> u_hostname v = u_hostname u"
  shows "\<exists>u. parse (pc_endpoint c) = Some u \<and> nc_dialer m = PublicDial \<and> nc_tls m \<noteq> None
     \<and> (pc_kind c \<noteq> ''mongodb'' \<longrightarrow> nc_tls m = Some (u_hostname u))
     \<and> (\<forall>a. parse_ip (u_hostname u) = Some a \<longrightarrow> public_address a)"
proof -
  have "is_additional (pc_kind c)" using assms(2) by (auto simp: is_additional_def)
  with assms(1) have v: "validate_additional parse parse_ip c s True = None" by (simp add: validate_personal_def)
  then obtain u where u: "parse (pc_endpoint c) = Some u" "scheme_error c s True u = None" "\<not> private_host parse_ip u"
    by (rule validate_additional_None) blast
  obtain w where w: "parse (pc_endpoint (additional_defaults c)) = Some w" "u_scheme w = u_scheme u" "u_hostname w = u_hostname u"
    using trim [OF u(1)] by (auto simp: defaults_same)
  have "nc_dialer m = PublicDial \<and> nc_tls m \<noteq> None \<and> (pc_kind c \<noteq> ''mongodb'' \<longrightarrow> nc_tls m = Some (u_hostname u))"
  proof (cases "pc_kind c = ''redis''")
    case True
    with u(2) have "u_scheme u = ''rediss''" by (auto simp: scheme_error_def Let_def split: if_splits)
    with True assms(3) w show ?thesis
      by (auto simp: native_client_def new_redis_def dialer_for_def defaults_same(2) split: option.splits if_splits)
  next
    case False
    with assms(2,3) w show ?thesis
      by (auto simp: native_client_def new_pgvector_def new_mongo_def Let_def dialer_for_def defaults_same(2)
          split: option.splits if_splits)
  qed
  with u(1,3) show ?thesis by (auto simp: private_host_def)
qed

text \<open>C38: An operator connection granted to account users can be opened without TLS although the code means
  to refuse it: only the prefix \<^verbatim>\<open>http://\<close> is looked at, so a Redis connection with the scheme
  \<^verbatim>\<open>redis\<close> is accepted for users, and its client does not encrypt.\<close>

theorem account_connection_without_tls:
  assumes "build env name c = Inr b" "cs_kind c = ''redis''" "account_use c"
    and "be_drivers env = native_drivers (be_parse_url env) accepts handle"
    and "\<And>v. be_parse_url env (trim_right (CHR ''/'') (cs_endpoint c)) = Some v \<Longrightarrow> u_scheme v \<noteq> ''rediss''"
  shows "\<exists>s m. new_redis (be_parse_url env) (additional_defaults (settings_config c)) s False = Inr m
     \<and> b_source b = Some (handle m) \<and> nc_tls m = None"
proof -
  have "is_additional (cs_kind c)" by (simp add: assms(2) is_additional_def)
  with assms(1) obtain s b0 where b0: "open_additional (be_sha env) (be_parse_url env) (be_parse_ip env) (be_drivers env) (be_handle env name)
      (settings_config c) s False = Inr b0" "b = without_sink (cs_read_only c) (b0\<lparr>b_name := name\<rparr>)"
    by (auto simp: build_def build_additional_def split: if_splits option.splits sum.splits)
  have k: "pc_kind (additional_defaults (settings_config c)) = ''redis''" by (simp add: defaults_same settings_config_def assms(2))
  with b0(1) obtain p where p: "map_sum id handle (new_redis (be_parse_url env) (additional_defaults (settings_config c)) s False) = Inr p"
    "b0 = connect p (additional_binding (be_sha env) (additional_defaults (settings_config c)))"
    by (auto simp: open_additional_def Let_def assms(4) native_drivers_def split: option.splits sum.splits)
  then obtain m where m: "new_redis (be_parse_url env) (additional_defaults (settings_config c)) s False = Inr m" "p = handle m"
    by (cases "new_redis (be_parse_url env) (additional_defaults (settings_config c)) s False") auto
  have "nc_tls m = None"
    using m(1) assms(5) by (auto simp: new_redis_def defaults_same settings_config_def split: option.splits if_splits)
  moreover have "b_source b = Some (handle m)" using b0(2) p(2) m(2) by (simp add: without_sink_def connect_def)
  ultimately show ?thesis using m(1) by blast
qed

subsection \<open>Instances\<close>

definition redis_config :: pconfig where
  "redis_config = \<lparr>pc_kind = ''redis'', pc_endpoint = ''h'', pc_collection = [], pc_namespace = [],
     pc_region = [], pc_bucket = [], pc_index = [], pc_distance_metric = [], pc_id_type = [],
     pc_database = [], pc_auth_database = [], pc_tenant = [], pc_vector_field = [], pc_id_field = [],
     pc_metadata_field = [], pc_key_prefix = ''p''\<rparr>"

definition redis_url :: "string \<Rightarrow> string \<Rightarrow> url option" where
  "redis_url scheme e = Some \<lparr>u_scheme = scheme, u_host = ''h'', u_user = False, u_raw_query = [], u_fragment = [],
     u_path = [], u_hostname = ''h''\<rparr>"

definition password_creds :: "string \<Rightarrow> pcreds" where
  "password_creds p = \<lparr>cr_api_key = [], cr_access_key_id = [], cr_secret_access_key = [], cr_session_token = [],
     cr_username = [], cr_password = p\<rparr>"

lemma redis_fields:
  "pc_kind redis_config = ''redis''" "pc_endpoint redis_config = ''h''" "pc_key_prefix redis_config = ''p''"
  "pc_collection redis_config = []" "pc_namespace redis_config = []" "pc_region redis_config = []" "pc_bucket redis_config = []"
  "pc_index redis_config = []" "pc_distance_metric redis_config = []" "pc_id_type redis_config = []" "pc_database redis_config = []"
  "pc_auth_database redis_config = []" "pc_tenant redis_config = []" "pc_vector_field redis_config = []"
  "pc_id_field redis_config = []" "pc_metadata_field redis_config = []"
  by (simp_all add: redis_config_def)

lemma password_fields:
  "cr_api_key (password_creds p) = []" "cr_access_key_id (password_creds p) = []" "cr_secret_access_key (password_creds p) = []"
  "cr_session_token (password_creds p) = []" "cr_username (password_creds p) = []" "cr_password (password_creds p) = p"
  by (simp_all add: password_creds_def)

lemma parse_zero: "parse_int ''0'' = Some 0"
proof -
  have "all_digits ''0''" "dec_val ''0'' = 0" by code_simp+
  then show ?thesis using parse_int_digits [of "''0''"] by simp
qed

lemma redis_defaults: "additional_defaults redis_config =
    redis_config\<lparr>pc_vector_field := ''vector'', pc_id_field := ''id'', pc_metadata_field := ''metadata'', pc_id_type := ''string'', pc_database := ''0''\<rparr>"
  by code_simp

lemma redis_valid:
  assumes "scheme = ''rediss'' \<and> public \<and> p = ''w'' \<or> scheme = ''redis'' \<and> \<not> public \<and> p = []"
  shows "validate_additional (redis_url scheme) (\<lambda>_. None) redis_config (password_creds p) public = None"
proof -
  have any: "\<not> contains_any ''h'' [CHR 0x0D, CHR 0x0A, CHR 0x00]" "\<not> contains_any ''p'' [CHR 0x0D, CHR 0x0A, CHR 0x00]"
    "\<not> contains_any p [CHR 0x0D, CHR 0x0A, CHR 0x00]" "\<not> contains_any [] [CHR 0x0D, CHR 0x0A, CHR 0x00]" "length p \<le> 1"
    using assms by (auto simp: contains_any_def)
  then have t: "\<not> bad_text 2048 ''h''" "\<not> bad_text 2048 ''p''" "\<not> bad_text 2048 []" "\<not> bad_text 16384 []" "\<not> bad_text 16384 p"
    by (auto simp: bad_text_def)
  have h: "\<not> local_hostname ''h''" by code_simp
  have f: "field_name ''vector''" "field_name ''id''" "field_name ''metadata''" by code_simp+
  have "additional_target_error (additional_defaults redis_config) (password_creds p) = None"
    by (simp add: additional_target_error_def redis_defaults redis_fields password_fields contains_any_def Let_def)
  moreover have "scheme_error redis_config (password_creds p) public \<lparr>u_scheme = scheme, u_host = ''h'', u_user = False,
      u_raw_query = [], u_fragment = [], u_path = [], u_hostname = ''h''\<rparr> = None"
    using assms by (auto simp: scheme_error_def redis_fields password_fields)
  moreover have "\<not> (public \<and> p = [])" using assms by auto
  ultimately show ?thesis using f
    by (simp add: validate_additional_def redis_fields password_fields redis_url_def t not_origin_def private_host_def h Let_def)
      (simp add: redis_defaults redis_fields)
qed

theorem native_clients_guarded_witness:
  "\<exists>m. native_client (redis_url ''rediss'') (\<lambda>_. True) (additional_defaults redis_config) (password_creds ''w'') True = Inr m
     \<and> nc_tls m = Some ''h'' \<and> nc_dialer m = PublicDial"
proof -
  have "is_additional ''redis''" by code_simp
  then have v: "validate_personal (redis_url ''rediss'') (\<lambda>_. None) redis_config (password_creds ''w'') = None"
    using redis_valid [of "''rediss''" True "''w''"] by (simp add: validate_personal_def redis_fields)
  have k: "pc_kind redis_config \<in> {''pgvector'', ''redis'', ''mongodb''}" "pc_kind redis_config \<noteq> ''mongodb''" by (simp_all add: redis_fields)
  from parse_zero obtain m where m: "native_client (redis_url ''rediss'') (\<lambda>_. True) (additional_defaults redis_config) (password_creds ''w'') True = Inr m"
    by (simp add: native_client_def new_redis_def redis_url_def redis_defaults redis_fields)
  have t: "\<exists>v. redis_url ''rediss'' (trim_right (CHR ''/'') e) = Some v \<and> u_scheme v = u_scheme u \<and> u_hostname v = u_hostname u"
    if "redis_url ''rediss'' e = Some u" for e u using that by (auto simp: redis_url_def)
  from native_clients_guarded [OF v k(1) m t] m k(2) show ?thesis by (auto simp: redis_url_def)
qed

definition redis_settings :: conn_settings where
  "redis_settings = zero_settings\<lparr>cs_kind := ''redis'', cs_endpoint := ''h'', cs_key_prefix := ''p'', cs_read_subjects := [''alice'']\<rparr>"

definition redis_env :: build_env where
  "redis_env = \<lparr>be_sha = id, be_parse_url = redis_url ''redis'', be_parse_ip = \<lambda>_. None,
     be_drivers = native_drivers (redis_url ''redis'') (\<lambda>_. True) (\<lambda>_. 7), be_getenv = \<lambda>_. [], be_aws = \<lambda>_. False,
     be_handle = \<lambda>_. 0, be_close = \<lambda>_. None\<rparr>"

theorem account_connection_without_tls_witness:
  "\<exists>b m s. build redis_env ''r'' redis_settings = Inr b \<and> b_source b = Some 7
     \<and> new_redis (redis_url ''redis'') (additional_defaults redis_config) s False = Inr m \<and> nc_tls m = None"
proof -
  have a: "is_additional ''redis''" "\<not> has_prefix ''h'' ''http://''" by code_simp+
  have c: "settings_config redis_settings = redis_config" by (simp add: settings_config_def redis_settings_def zero_settings_def redis_config_def)
  have v: "validate_additional (redis_url ''redis'') (\<lambda>_. None) redis_config (password_creds []) False = None"
    using redis_valid [of "''redis''" False "[]"] by simp
  have n: "new_redis (redis_url ''redis'') (additional_defaults redis_config) x False \<noteq> Inl e" for x e
    by (simp add: new_redis_def redis_url_def redis_defaults redis_fields parse_zero)
  have k: "pc_kind (additional_defaults redis_config) = ''redis''" by (simp add: redis_defaults redis_fields)
  obtain m0 where m0: "new_redis (redis_url ''redis'') (additional_defaults redis_config) (password_creds []) False = Inr m0"
    using n by (cases "new_redis (redis_url ''redis'') (additional_defaults redis_config) (password_creds []) False") auto
  have st: "cs_kind redis_settings = ''redis''" "cs_endpoint redis_settings = ''h''" "cs_options redis_settings = []" "cs_role_arn redis_settings = []"
    "cs_external_id_env redis_settings = []" "cs_api_key_env redis_settings = []" "cs_username_env redis_settings = []"
    "cs_password_env redis_settings = []" by (simp_all add: redis_settings_def zero_settings_def)
  have "open_additional (be_sha redis_env) (be_parse_url redis_env) (be_parse_ip redis_env) (be_drivers redis_env) (be_handle redis_env ''r'')
      redis_config (password_creds []) False \<noteq> Inl e" for e
    using v m0 k by (simp add: open_additional_def redis_env_def native_drivers_def Let_def)
  then have "\<exists>b. build redis_env ''r'' redis_settings = Inr b"
    using a by (simp add: build_def build_additional_def c st env_secret_def password_creds_def split: sum.splits)
  then obtain b where b: "build redis_env ''r'' redis_settings = Inr b" ..
  have s: "cs_kind redis_settings = ''redis''" "account_use redis_settings" by (simp_all add: redis_settings_def account_use_def)
  have d: "be_drivers redis_env = native_drivers (be_parse_url redis_env) (\<lambda>_. True) (\<lambda>_. 7)" by (simp add: redis_env_def)
  from account_connection_without_tls [OF b s d] b c show ?thesis by (auto simp: redis_env_def redis_url_def)
qed

end
