(* ===== verification/Executor.thy ===== *)
theory Executor
  imports Engine
begin

section \<open>Executing a job (src/control/engine.go: execute, retry, Run, RunJob)\<close>

text \<open>
  An execution is a machine: a program counter, the job it was started with, the job as last read, the
  two connections and the page in hand. One step runs the code up to and including the next update of
  the store or the next call of a connector; reads of the store and of the configuration that follow
  each other with no write between them are one step. Between two steps anything else may happen to the
  store. A step takes the engine as it is configured then, and an input with what the outside decides:
  the context's error, the clock, the disk, the connector's answer and which case of a \<^verbatim>\<open>select\<close> fires.
\<close>

subsection \<open>The machine\<close>

datatype operation = Reading | Writing

fun operation_name :: "operation \<Rightarrow> string" where
  "operation_name Reading = ''read''"
| "operation_name Writing = ''write''"

datatype pc =
    XEnter
  | XTop
  | XRetry operation nat
  | XPhase operation nat
  | XCall operation nat
  | XNote operation nat
  | XBackoff operation nat time
  | XFail go_error
  | XRestart time
  | XFinish string string
  | XCommit
  | XNext
  | XStop "go_error option"

record exec =
  x_pc :: pc
  x_job :: job
  x_cur :: job
  x_src :: binding
  x_dst :: binding
  x_page :: page

record xinput =
  xi_ctx :: "go_error option"
  xi_io :: io
  xi_now :: time
  xi_read :: "page result"
  xi_write :: "unit result"
  xi_jitter :: int
  xi_timer :: bool

definition empty_page :: page where
  "empty_page = \<lparr>pg_records = [], pg_next = [], pg_done = False\<rparr>"

definition start_exec :: "job \<Rightarrow> exec" where
  "start_exec j = \<lparr>x_pc = XEnter, x_job = j, x_cur = j, x_src = zero_binding, x_dst = zero_binding, x_page = empty_page\<rparr>"

definition goto :: "pc \<Rightarrow> exec \<Rightarrow> exec" where
  "goto p x = x\<lparr>x_pc := p\<rparr>"

subsection \<open>Parts of a step\<close>

text \<open>The two connections of a job, when both exist, are usable and are the ones the job was submitted for.\<close>

definition job_connections :: "engine \<Rightarrow> job \<Rightarrow> (binding \<times> binding) option" where
  "job_connections e j =
     (case (connection e (sp_source (j_spec j)), connection e (sp_sink (j_spec j))) of
        (Some src, Some dst) \<Rightarrow>
          if b_source src = None \<or> b_sink dst = None \<or> b_fingerprint src \<noteq> j_source_fp j \<or> b_fingerprint dst \<noteq> j_sink_fp j
          then None else Some (src, dst)
      | _ \<Rightarrow> None)"

definition changed_message :: string where
  "changed_message = ''Connection configuration changed; restore it or submit a new job''"

definition enter :: "engine \<Rightarrow> exec \<Rightarrow> exec" where
  "enter e x =
     (if \<not> authorized e (x_job x) then goto (XFinish ''failed'' ''Connection access was revoked or the account realm changed'') x
      else case job_connections e (x_job x) of
        None \<Rightarrow> goto (XFinish ''failed'' changed_message) x
      | Some (src, dst) \<Rightarrow> goto XTop (x\<lparr>x_src := src, x_dst := dst\<rparr>))"

definition loop_top :: "engine \<Rightarrow> xinput \<Rightarrow> exec \<Rightarrow> store \<Rightarrow> exec" where
  "loop_top e i x st =
     (case get_job (j_id (x_job x)) st of
        Inl err \<Rightarrow> goto (XStop (Some err)) x
      | Inr current \<Rightarrow>
          if j_state current = ''cancel_requested'' then goto (XFinish ''canceled'' []) x
          else if xi_ctx i \<noteq> None then goto (XFinish ''queued'' []) x
          else if j_source_exhausted current
          then goto (XFinish ''succeeded'' ''Source scan was already fully acknowledged'') x
          else if \<not> authorized e current then goto (XFinish ''failed'' ''Connection access was revoked'') x
          else (case job_connections e current of
             None \<Rightarrow> goto (XFinish ''failed'' changed_message) x
           | Some (src, dst) \<Rightarrow> goto (XRetry Reading 1) (x\<lparr>x_cur := current, x_src := src, x_dst := dst, x_page := empty_page\<rparr>)))"

definition retry_top :: "operation \<Rightarrow> nat \<Rightarrow> xinput \<Rightarrow> exec \<Rightarrow> store \<Rightarrow> exec" where
  "retry_top op attempt i x st =
     (case xi_ctx i of
        Some err \<Rightarrow> goto (XFail err) x
      | None \<Rightarrow>
          (case get_job (j_id (x_cur x)) st of
             Inl err \<Rightarrow> goto (XFail err) x
           | Inr state \<Rightarrow>
               if j_state state = ''cancel_requested'' then goto (XFail (ErrNew ''cancel requested'')) x
               else goto (XPhase op attempt) x))"

text \<open>What follows a page that was read: the checks of the page, then the write or the checkpoint.\<close>

definition page_error :: "exec \<Rightarrow> page \<Rightarrow> go_error option" where
  "page_error x p =
     (if sp_batch_size (j_spec (x_cur x)) < int (length (pg_records p))
      then Some (ErrNew ''source exceeded the requested page size'')
      else if \<not> pg_done p \<and> (pg_next p = [] \<or> pg_next p = j_cursor (x_cur x))
      then Some (ErrNew ''source pagination did not advance'')
      else case validate (pg_records p) (sp_dimension (j_spec (x_job x))) of
        Inl err \<Rightarrow> Some err
      | Inr _ \<Rightarrow> None)"

definition after_read :: "page \<Rightarrow> exec \<Rightarrow> exec" where
  "after_read p x =
     (case page_error x p of
        Some err \<Rightarrow> goto (XFail err) (x\<lparr>x_page := p\<rparr>)
      | None \<Rightarrow> goto (if pg_records p \<noteq> [] then XRetry Writing 1 else XCommit) (x\<lparr>x_page := p\<rparr>))"

definition call_failed :: "operation \<Rightarrow> nat \<Rightarrow> go_error \<Rightarrow> exec \<Rightarrow> exec" where
  "call_failed op attempt err x =
     goto (if \<not> retryable err \<or> sp_max_attempts (j_spec (x_cur x)) \<le> int attempt then XFail err else XNote op attempt) x"

definition connector_call :: "operation \<Rightarrow> nat \<Rightarrow> xinput \<Rightarrow> exec \<Rightarrow> exec" where
  "connector_call op attempt i x =
     (case op of
        Reading \<Rightarrow> (case xi_read i of Inl err \<Rightarrow> call_failed op attempt err x | Inr p \<Rightarrow> after_read p x)
      | Writing \<Rightarrow> (case xi_write i of Inl err \<Rightarrow> call_failed op attempt err x | Inr _ \<Rightarrow> goto XCommit x))"

definition millisecond :: time where
  "millisecond = 1000000"

text \<open>\<^verbatim>\<open>min(5s, 200ms << min(attempt-1, 5))\<close> plus less than 100ms at random.\<close>

definition backoff_delay :: "nat \<Rightarrow> int \<Rightarrow> time" where
  "backoff_delay attempt jitter = min (5 * second) (200 * millisecond * 2 ^ min (attempt - 1) 5) + jitter * millisecond"

definition restart_delay :: "int \<Rightarrow> time" where
  "restart_delay restarts = 30 * second * 2 ^ nat (min restarts 5)"

definition backoff :: "operation \<Rightarrow> nat \<Rightarrow> xinput \<Rightarrow> exec \<Rightarrow> exec" where
  "backoff op attempt i x =
     (if xi_timer i then goto (XRetry op (attempt + 1)) x
      else case xi_ctx i of Some err \<Rightarrow> goto (XFail err) x | None \<Rightarrow> x)"

definition failed_message :: string where
  "failed_message = ''Transfer failed; check connection permissions, availability, and data compatibility, then resume''"

definition failed_step :: "go_error \<Rightarrow> xinput \<Rightarrow> exec \<Rightarrow> store \<Rightarrow> exec" where
  "failed_step err i x st =
     (case health st of
        Some h \<Rightarrow> goto (XStop (Some h)) x
      | None \<Rightarrow>
          if xi_ctx i \<noteq> None then goto (XFinish ''queued'' []) x
          else (case get_job (j_id (x_job x)) st of
             Inl e \<Rightarrow> goto (XStop (Some e)) x
           | Inr state \<Rightarrow>
               if j_state state = ''cancel_requested'' then goto (XFinish ''canceled'' []) x
               else if retryable err \<and> j_restarts state < sp_max_restarts (j_spec state)
               then goto (XRestart (xi_now i + restart_delay (j_restarts state))) x
               else goto (XFinish ''failed'' failed_message) x))"

subsection \<open>The updates of a job\<close>

definition phase_fn :: "string \<Rightarrow> job \<Rightarrow> job result" where
  "phase_fn p j = Inr (j\<lparr>j_phase := p\<rparr>)"

definition note_fn :: "job \<Rightarrow> job result" where
  "note_fn j = Inr (j\<lparr>j_retries := j_retries j + 1, j_phase := ''backoff''\<rparr>)"

definition restart_fn :: "time \<Rightarrow> job \<Rightarrow> job result" where
  "restart_fn next_run j =
     Inr (if j_state j = ''cancel_requested'' then j\<lparr>j_state := ''canceled''\<rparr>
          else j\<lparr>j_state := ''retry_wait'', j_phase := ''waiting'', j_restarts := j_restarts j + 1,
                 j_next_run_at := Some next_run, j_error := ''Temporary provider failure''\<rparr>)"

definition commit_fn :: "time \<Rightarrow> page \<Rightarrow> job \<Rightarrow> job result" where
  "commit_fn now p j =
     Inr (j\<lparr>j_last_checkpoint_at := Some now, j_phase := ''checkpointed'', j_cursor := pg_next p,
            j_source_exhausted := pg_done p, j_records := j_records j + int (length (pg_records p)),
            j_batches := (if pg_records p \<noteq> [] then j_batches j + 1 else j_batches j),
            j_state := (if j_state j = ''cancel_requested'' then ''canceled''
              else if pg_done p then ''succeeded'' else j_state j)\<rparr>)"

text \<open>An update of the job, and where the execution goes when it fails and when it does not.\<close>

definition with_update ::
  "job result \<times> store \<Rightarrow> (go_error \<Rightarrow> pc) \<Rightarrow> pc \<Rightarrow> exec \<Rightarrow> exec \<times> store" where
  "with_update u bad good x =
     (case u of (Inl err, st') \<Rightarrow> (goto (bad err) x, st') | (Inr _, st') \<Rightarrow> (goto good x, st'))"

definition stopped :: "go_error \<Rightarrow> pc" where
  "stopped err = XStop (Some err)"

definition commit ::
  "(string \<Rightarrow> string) \<Rightarrow> (vrecord list \<Rightarrow> string result) \<Rightarrow> xinput \<Rightarrow> exec \<Rightarrow> store \<Rightarrow> exec \<times> store" where
  "commit sha enc i x st =
     (case enc (pg_records (x_page x)) of
        Inl _ \<Rightarrow> (goto (XFinish ''failed'' ''Could not encode batch receipt'') x, st)
      | Inr b \<Rightarrow>
          let p = x_page x in
          with_update
            (update sha (xi_io i) (j_id (x_job x)) (if pg_done p then ''succeeded'' else ''checkpoint'') ''worker''
               (''Acknowledged '' @ itoa (int (length (pg_records p))) @ '' records'') (hex_encode (sha b))
               (commit_fn (xi_now i) p) st)
            stopped (if pg_done p then XStop None else XNext) x)"

definition next_page :: "exec \<Rightarrow> store \<Rightarrow> exec" where
  "next_page x st =
     (case get_job (j_id (x_job x)) st of
        Inl err \<Rightarrow> goto (XStop (Some err)) x
      | Inr state \<Rightarrow> goto (if j_state state = ''canceled'' then XStop None else XTop) x)"

subsection \<open>One step\<close>

definition exec_step ::
  "(string \<Rightarrow> string) \<Rightarrow> (vrecord list \<Rightarrow> string result) \<Rightarrow> engine \<Rightarrow> xinput \<Rightarrow> exec \<Rightarrow> store \<Rightarrow> exec \<times> store" where
  "exec_step sha enc e i x st =
     (case x_pc x of
        XEnter \<Rightarrow> (enter e x, st)
      | XTop \<Rightarrow> (loop_top e i x st, st)
      | XRetry op k \<Rightarrow> (retry_top op k i x st, st)
      | XPhase op k \<Rightarrow>
          with_update
            (update sha (xi_io i) (j_id (x_cur x)) ''phase'' ''worker'' (''Starting '' @ operation_name op @ '' attempt'') []
               (phase_fn (operation_name op)) st)
            XFail (XCall op k) x
      | XCall op k \<Rightarrow> (connector_call op k i x, st)
      | XNote op k \<Rightarrow>
          with_update
            (update sha (xi_io i) (j_id (x_cur x)) ''retry'' ''worker''
               (''Retrying '' @ operation_name op @ '' after temporary failure on attempt '' @ itoa (int k)) [] note_fn st)
            XFail (XBackoff op k (backoff_delay k (xi_jitter i))) x
      | XBackoff op k d \<Rightarrow> (backoff op k i x, st)
      | XFail err \<Rightarrow> (failed_step err i x st, st)
      | XRestart t \<Rightarrow>
          with_update
            (update sha (xi_io i) (j_id (x_job x)) ''restart_scheduled'' ''worker''
               ''Temporary provider failure; restarting from the saved checkpoint'' [] (restart_fn t) st)
            stopped (XStop None) x
      | XFinish s m \<Rightarrow>
          (case finish sha (xi_io i) (j_id (x_job x)) s m st of (r, st') \<Rightarrow> (goto (XStop r) x, st'))
      | XCommit \<Rightarrow> commit sha enc i x st
      | XNext \<Rightarrow> (next_page x st, st)
      | XStop r \<Rightarrow> (x, st))"

subsection \<open>Running one job, and the pool of executors\<close>

definition run_job_fn :: "job \<Rightarrow> job result" where
  "run_job_fn j =
     (if sp_worker_id (j_spec j) \<noteq> [] \<or> (j_state j \<noteq> ''queued'' \<and> j_state j \<noteq> ''retry_wait'') then Inl ErrConflict
      else Inr (j\<lparr>j_state := ''running'', j_phase := ''starting'', j_runs := j_runs j + 1, j_next_run_at := None\<rparr>))"

definition run_job :: "(string \<Rightarrow> string) \<Rightarrow> io \<Rightarrow> string \<Rightarrow> store \<Rightarrow> exec result \<times> store" where
  "run_job sha io jid st =
     (case update sha io jid ''started'' ''worker'' ''Transfer execution started'' [] run_job_fn st of
        (Inl err, st') \<Rightarrow> (Inl err, st')
      | (Inr j, st') \<Rightarrow> (Inr (start_exec j), st'))"

text \<open>
  \<^verbatim>\<open>Run\<close> starts up to 32 goroutines that claim and execute jobs until the context ends; an error stops
  them all. \<open>pl_errs\<close> is the channel of errors, in the order they are sent.
\<close>

datatype goroutine = GLoop | GIdle | GExec exec | GDone

record pool =
  pl_routines :: "goroutine list"
  pl_cancelled :: bool
  pl_errs :: "go_error list"

definition run_start ::
  "(string \<Rightarrow> string) \<Rightarrow> (string \<Rightarrow> io) \<Rightarrow> string list \<Rightarrow> int \<Rightarrow> store \<Rightarrow> pool result \<times> store" where
  "run_start sha ios ks n st =
     (if n < 1 \<or> 32 < n then (Inl (ErrNew ''workers must be between 1 and 32''), st)
      else case recover sha ios ks st of
        (Inl err, st') \<Rightarrow> (Inl err, st')
      | (Inr _, st') \<Rightarrow> (Inr \<lparr>pl_routines = replicate (nat n) GLoop, pl_cancelled = False, pl_errs = []\<rparr>, st'))"

text \<open>The context of the pool ends with the caller's context, or when a goroutine cancels it.\<close>

definition pool_ctx :: "xinput \<Rightarrow> pool \<Rightarrow> go_error option" where
  "pool_ctx i p = (if xi_ctx i \<noteq> None then xi_ctx i else if pl_cancelled p then Some CtxCanceled else None)"

definition set_routine :: "nat \<Rightarrow> goroutine \<Rightarrow> pool \<Rightarrow> pool" where
  "set_routine k g p = p\<lparr>pl_routines := (pl_routines p)[k := g]\<rparr>"

definition pool_fail :: "nat \<Rightarrow> go_error \<Rightarrow> pool \<Rightarrow> pool" where
  "pool_fail k err p = (set_routine k GDone p)\<lparr>pl_cancelled := True, pl_errs := pl_errs p @ [err]\<rparr>"

definition pool_step ::
  "(string \<Rightarrow> string) \<Rightarrow> (vrecord list \<Rightarrow> string result) \<Rightarrow> engine \<Rightarrow> xinput \<Rightarrow> (string \<Rightarrow> time) \<Rightarrow> string list \<Rightarrow>
   string list \<Rightarrow> nat \<Rightarrow> pool \<Rightarrow> store \<Rightarrow> pool \<times> store" where
  "pool_step sha enc e i clk ks ls k p st =
     (if length (pl_routines p) \<le> k then (p, st)
      else case pl_routines p ! k of
        GLoop \<Rightarrow>
          if pool_ctx i p \<noteq> None then (set_routine k GDone p, st)
          else (case claim sha (xi_io i) clk ks ls st of
             (Inl err, st') \<Rightarrow> (pool_fail k err p, st')
           | (Inr (j, False), st') \<Rightarrow> (set_routine k GIdle p, st')
           | (Inr (j, True), st') \<Rightarrow> (set_routine k (GExec (start_exec j)) p, st'))
      | GIdle \<Rightarrow>
          if xi_timer i then (set_routine k GLoop p, st)
          else if pool_ctx i p \<noteq> None then (set_routine k GDone p, st) else (p, st)
      | GExec x \<Rightarrow>
          (case x_pc x of
             XStop None \<Rightarrow> (set_routine k GLoop p, st)
           | XStop (Some err) \<Rightarrow> (pool_fail k err p, st)
           | _ \<Rightarrow> (case exec_step sha enc e (i\<lparr>xi_ctx := pool_ctx i p\<rparr>) x st of
               (x', st') \<Rightarrow> (set_routine k (GExec x') p, st')))
      | GDone \<Rightarrow> (p, st))"

text \<open>What \<^verbatim>\<open>Run\<close> returns once every goroutine is done: the first error that was sent.\<close>

definition run_result :: "pool \<Rightarrow> go_error option option" where
  "run_result p = (if list_all (\<lambda>g. g = GDone) (pl_routines p)
     then Some (case pl_errs p of [] \<Rightarrow> None | err # _ \<Rightarrow> Some err) else None)"

end
