(* ===== verification/Executor_Facts.thy ===== *)
theory Executor_Facts
  imports Executor Store_Properties
begin

section \<open>What an execution does to its job\<close>

text \<open>
  The steps of one execution interleave with what everybody else does. \<open>transfer\<close> is the step relation
  of the two, with a record of what the outside saw: the pages the source returned, the records the
  sink acknowledged and the pages whose checkpoint was written. Others may not touch the job of a running
  execution, except for a request to cancel it (\<open>undisturbed\<close>); that the other operations keep to this
  is proved for each. \<open>xinv\<close> is the invariant of the relation.
\<close>

subsection \<open>Pages that were committed\<close>

definition last_cursor :: "string \<Rightarrow> (string \<times> page) list \<Rightarrow> string" where
  "last_cursor c ps = (if ps = [] then c else pg_next (snd (last ps)))"

definition scan_done :: "(string \<times> page) list \<Rightarrow> bool" where
  "scan_done ps \<longleftrightarrow> ps \<noteq> [] \<and> pg_done (snd (last ps))"

fun linked :: "string \<Rightarrow> (string \<times> page) list \<Rightarrow> bool" where
  "linked c [] = True"
| "linked c (cp # ps) = (fst cp = c \<and> (ps \<noteq> [] \<longrightarrow> \<not> pg_done (snd cp)) \<and> linked (pg_next (snd cp)) ps)"

lemma linked_snoc:
  "linked c (ps @ [(c', p)]) \<longleftrightarrow> linked c ps \<and> c' = last_cursor c ps \<and> \<not> scan_done ps"
  by (induction ps arbitrary: c) (auto simp: last_cursor_def scan_done_def)

lemma snoc_simps [simp]: "last_cursor c (ps @ [(c', p)]) = pg_next p" "scan_done (ps @ [(c', p)]) = pg_done p"
  "last_cursor c [] = c" "\<not> scan_done []"
  by (simp_all add: last_cursor_def scan_done_def)

definition page_fits :: "spec \<Rightarrow> string \<Rightarrow> page \<Rightarrow> bool" where
  "page_fits s c p \<longleftrightarrow> int (length (pg_records p)) \<le> sp_batch_size s
     \<and> (pg_done p \<or> (pg_next p \<noteq> [] \<and> pg_next p \<noteq> c)) \<and> validate (pg_records p) (sp_dimension s) = Inr ()"

definition moved :: "(string \<times> page) list \<Rightarrow> int" where
  "moved ps = sum_list (map (\<lambda>cp. int (length (pg_records (snd cp)))) ps)"

definition written :: "(string \<times> page) list \<Rightarrow> vrecord list list" where
  "written ps = filter (\<lambda>rs. rs \<noteq> []) (map (\<lambda>cp. pg_records (snd cp)) ps)"

lemma moved_simps [simp]: "moved [] = 0" "moved (ps @ [(c, p)]) = moved ps + int (length (pg_records p))"
  by (simp_all add: moved_def)

lemma written_simps [simp]: "written [] = []"
  "written (ps @ [(c, p)]) = written ps @ (if pg_records p = [] then [] else [pg_records p])"
  by (simp_all add: written_def)

subsection \<open>The relation\<close>

record ghost =
  gh_reads :: "(string \<times> page) list"
  gh_acked :: "vrecord list list"
  gh_pages :: "(string \<times> page) list"

definition no_ghost :: ghost where
  "no_ghost = \<lparr>gh_reads = [], gh_acked = [], gh_pages = []\<rparr>"

definition observe :: "exec \<Rightarrow> xinput \<Rightarrow> exec \<Rightarrow> ghost \<Rightarrow> ghost" where
  "observe x i x' g =
     (case x_pc x of
        XCall Reading k \<Rightarrow> (case xi_read i of Inl _ \<Rightarrow> g | Inr p \<Rightarrow> g\<lparr>gh_reads := gh_reads g @ [(j_cursor (x_cur x), p)]\<rparr>)
      | XCall Writing k \<Rightarrow> (case xi_write i of Inl _ \<Rightarrow> g | Inr _ \<Rightarrow> g\<lparr>gh_acked := gh_acked g @ [pg_records (x_page x)]\<rparr>)
      | XCommit \<Rightarrow> (if x_pc x' = XStop None \<or> x_pc x' = XNext
          then g\<lparr>gh_pages := gh_pages g @ [(j_cursor (x_cur x), x_page x)]\<rparr> else g)
      | _ \<Rightarrow> g)"

definition undisturbed :: "job \<Rightarrow> job \<Rightarrow> bool" where
  "undisturbed j j' \<longleftrightarrow> j' = j \<or> (active j \<and> (\<exists>t. j' = j\<lparr>j_state := ''cancel_requested'', j_updated_at := t\<rparr>))"

definition others :: "string \<Rightarrow> store \<Rightarrow> store \<Rightarrow> bool" where
  "others jid st st' \<longleftrightarrow> keyed (s_jobs st')
     \<and> (\<forall>j. s_jobs st jid = Some j \<longrightarrow> (\<exists>j'. s_jobs st' jid = Some j' \<and> undisturbed j j'))"

inductive transfer ::
  "(string \<Rightarrow> string) \<Rightarrow> (vrecord list \<Rightarrow> string result) \<Rightarrow> string \<Rightarrow>
   exec \<times> store \<times> ghost \<Rightarrow> exec \<times> store \<times> ghost \<Rightarrow> bool" for sha enc jid where
  own: "exec_step sha enc e i x st = (x', st') \<Longrightarrow> transfer sha enc jid (x, st, g) (x', st', observe x i x' g)"
| other: "others jid st st' \<Longrightarrow> transfer sha enc jid (x, st, g) (x, st', g)"

subsection \<open>Updates of the job\<close>

lemma goto_simps [simp]: "x_pc (goto p x) = p" "x_job (goto p x) = x_job x" "x_cur (goto p x) = x_cur x"
  "x_page (goto p x) = x_page x" "x_src (goto p x) = x_src x" "x_dst (goto p x) = x_dst x"
  by (simp_all add: goto_def)

text \<open>An update by a function that never refuses either leaves the jobs alone or applies the function.\<close>

lemma update_total:
  assumes "update sha io jid kind actor message digest fn st = (r, st')" "keyed (s_jobs st)" "s_jobs st jid = Some j"
    and "\<And>j. fn j = Inr (f j)" "\<And>j. frozen j (f j)"
  obtains (failed) err where "r = Inl err" "s_jobs st' = s_jobs st"
  | (applied) t where "r = Inr ((f j)\<lparr>j_updated_at := t\<rparr>)" "s_jobs st' = (s_jobs st)(jid \<mapsto> (f j)\<lparr>j_updated_at := t\<rparr>)"
proof -
  have fr: "\<And>j j'. fn j = Inr j' \<Longrightarrow> frozen j j'" using assms(4,5) by (metis sum.inject(2))
  show thesis
  proof (cases rule: update_jobs [OF assms(1,2) fr])
    case (2 err)
    then show thesis by (rule failed)
  next
    case (3 i j')
    then have "j' = f j" using assms(3,4) by simp
    with 3 applied show thesis by blast
  qed
qed

lemma with_update_cases:
  assumes "with_update (update sha io jid kind actor message digest fn st) bad good x = (x', st')"
    and "keyed (s_jobs st)" "s_jobs st jid = Some j" "\<And>j. fn j = Inr (f j)" "\<And>j. frozen j (f j)"
  obtains (failed) err where "x' = goto (bad err) x" "s_jobs st' = s_jobs st"
  | (applied) t where "x' = goto good x" "s_jobs st' = (s_jobs st)(jid \<mapsto> (f j)\<lparr>j_updated_at := t\<rparr>)"
proof -
  obtain r st2 where u: "update sha io jid kind actor message digest fn st = (r, st2)" by force
  show thesis
  proof (cases rule: update_total [OF u assms(2-5)])
    case (1 err)
    with assms(1) u failed [of err] show thesis by (simp add: with_update_def)
  next
    case (2 t)
    with assms(1) u applied show thesis by (simp add: with_update_def)
  qed
qed

definition finished :: "string \<Rightarrow> string \<Rightarrow> job \<Rightarrow> job" where
  "finished s m j = (if j_state j = ''cancel_requested''
     then j\<lparr>j_phase := [], j_next_run_at := None, j_state := ''canceled'', j_error := []\<rparr>
     else j\<lparr>j_phase := [], j_next_run_at := None, j_state := s, j_error := m\<rparr>)"

lemma finish_fn_eq: "finish_fn s m j = Inr (finished s m j)"
  by (simp add: finish_fn_def finished_def Let_def)

lemma frozen_finished [simp]: "frozen j (finished s m j)"
  by (simp add: frozen_def finished_def)

lemma finish_cases:
  assumes "finish sha io jid s m st = (r, st')" "keyed (s_jobs st)" "s_jobs st jid = Some j"
  obtains (failed) err where "r = Some err" "s_jobs st' = s_jobs st"
  | (applied) t where "r = None" "s_jobs st' = (s_jobs st)(jid \<mapsto> (finished s m j)\<lparr>j_updated_at := t\<rparr>)"
proof -
  obtain q st2 where u: "update sha io jid s ''worker'' m [] (finish_fn s m) st = (q, st2)" by force
  show thesis
  proof (cases rule: update_total [OF u assms(2,3) finish_fn_eq frozen_finished])
    case (1 err)
    with assms(1) u failed [of err] show thesis by (simp add: finish_def)
  next
    case (2 t)
    with assms(1) u applied show thesis by (simp add: finish_def)
  qed
qed

definition restarted :: "time \<Rightarrow> job \<Rightarrow> job" where
  "restarted t j = (if j_state j = ''cancel_requested'' then j\<lparr>j_state := ''canceled''\<rparr>
          else j\<lparr>j_state := ''retry_wait'', j_phase := ''waiting'', j_restarts := j_restarts j + 1,
                 j_next_run_at := Some t, j_error := ''Temporary provider failure''\<rparr>)"

definition committed :: "time \<Rightarrow> page \<Rightarrow> job \<Rightarrow> job" where
  "committed now p j =
     j\<lparr>j_last_checkpoint_at := Some now, j_phase := ''checkpointed'', j_cursor := pg_next p,
            j_source_exhausted := pg_done p, j_records := j_records j + int (length (pg_records p)),
            j_batches := (if pg_records p \<noteq> [] then j_batches j + 1 else j_batches j),
            j_state := (if j_state j = ''cancel_requested'' then ''canceled''
              else if pg_done p then ''succeeded'' else j_state j)\<rparr>"

lemma fns: "restart_fn t j = Inr (restarted t j)" "commit_fn t p j = Inr (committed t p j)"
  "phase_fn s j = Inr (j\<lparr>j_phase := s\<rparr>)" "note_fn j = Inr (j\<lparr>j_retries := j_retries j + 1, j_phase := ''backoff''\<rparr>)"
  by (simp_all add: restart_fn_def restarted_def commit_fn_def committed_def phase_fn_def note_fn_def)

lemma frozen_fns [simp]: "frozen j (restarted t j)" "frozen j (committed t p j)" "frozen j (j\<lparr>j_phase := s\<rparr>)"
  "frozen j (j\<lparr>j_retries := r, j_phase := s\<rparr>)"
  by (simp_all add: frozen_def restarted_def committed_def)

subsection \<open>A rule for invariants\<close>

text \<open>One obligation per program counter, and two where an update may fail.\<close>

lemma update_step:
  assumes "with_update (update sha io jid kind actor message digest fn st) bad good x = (x', st')"
    and k: "keyed (s_jobs st)" "s_jobs st jid = Some j" and fn: "\<And>j. fn j = Inr (f j)" "\<And>j. frozen j (f j)"
    and inv: "\<And>err. P (goto (bad err) x) j" "\<And>t. P (goto good x) ((f j)\<lparr>j_updated_at := t\<rparr>)"
  shows "\<exists>j'. s_jobs st' = (s_jobs st)(jid \<mapsto> j') \<and> frozen j j' \<and> P x' j'"
proof (cases rule: with_update_cases [OF assms(1) k fn])
  case (1 err)
  with k inv(1) show ?thesis by (metis fun_upd_triv frozen_refl)
next
  case (2 t)
  moreover have "frozen j ((f j)\<lparr>j_updated_at := t\<rparr>)" using fn(2) [of j] by (simp add: frozen_def)
  ultimately show ?thesis using inv(2) by metis
qed

lemma exec_step_rule:
  assumes step: "exec_step sha enc e i x st = (x', st')"
    and k: "keyed (s_jobs st)" "s_jobs st jid = Some j" and xid: "j_id (x_job x) = jid" "j_id (x_cur x) = jid"
    and r: "x_pc x = XEnter \<Longrightarrow> P (enter e x) j" "x_pc x = XTop \<Longrightarrow> P (loop_top e i x st) j"
      "\<And>op n. x_pc x = XRetry op n \<Longrightarrow> P (retry_top op n i x st) j"
      "\<And>op n err. x_pc x = XPhase op n \<Longrightarrow> P (goto (XFail err) x) j"
      "\<And>op n t. x_pc x = XPhase op n \<Longrightarrow> P (goto (XCall op n) x) (j\<lparr>j_phase := operation_name op, j_updated_at := t\<rparr>)"
      "\<And>op n. x_pc x = XCall op n \<Longrightarrow> P (connector_call op n i x) j"
      "\<And>op n err. x_pc x = XNote op n \<Longrightarrow> P (goto (XFail err) x) j"
      "\<And>op n t. x_pc x = XNote op n \<Longrightarrow> P (goto (XBackoff op n (backoff_delay n (xi_jitter i))) x)
         (j\<lparr>j_retries := j_retries j + 1, j_phase := ''backoff'', j_updated_at := t\<rparr>)"
      "\<And>op n d. x_pc x = XBackoff op n d \<Longrightarrow> P (backoff op n i x) j"
      "\<And>err. x_pc x = XFail err \<Longrightarrow> P (failed_step err i x st) j"
      "\<And>u err. x_pc x = XRestart u \<Longrightarrow> P (goto (XStop (Some err)) x) j"
      "\<And>u t. x_pc x = XRestart u \<Longrightarrow> P (goto (XStop None) x) ((restarted u j)\<lparr>j_updated_at := t\<rparr>)"
      "\<And>s m err. x_pc x = XFinish s m \<Longrightarrow> P (goto (XStop (Some err)) x) j"
      "\<And>s m t. x_pc x = XFinish s m \<Longrightarrow> P (goto (XStop None) x) ((finished s m j)\<lparr>j_updated_at := t\<rparr>)"
      "x_pc x = XCommit \<Longrightarrow> P (goto (XFinish ''failed'' ''Could not encode batch receipt'') x) j"
      "\<And>err. x_pc x = XCommit \<Longrightarrow> P (goto (XStop (Some err)) x) j"
      "\<And>t. x_pc x = XCommit \<Longrightarrow> P (goto (if pg_done (x_page x) then XStop None else XNext) x)
         ((committed (xi_now i) (x_page x) j)\<lparr>j_updated_at := t\<rparr>)"
      "x_pc x = XNext \<Longrightarrow> P (next_page x st) j" "\<And>q. x_pc x = XStop q \<Longrightarrow> P x j"
  shows "\<exists>j'. s_jobs st' = (s_jobs st)(jid \<mapsto> j') \<and> frozen j j' \<and> P x' j'"
proof (cases "x_pc x")
  case (XPhase op n)
  show ?thesis
    by (rule update_step [OF step [unfolded exec_step_def XPhase pc.case xid] k fns(3) frozen_fns(3)]) (use r(4,5) XPhase in simp_all)
next
  case (XNote op n)
  show ?thesis
    by (rule update_step [OF step [unfolded exec_step_def XNote pc.case xid] k fns(4) frozen_fns(4)]) (use r(7,8) XNote in simp_all)
next
  case (XRestart u)
  show ?thesis
    by (rule update_step [OF step [unfolded exec_step_def XRestart pc.case xid] k fns(1) frozen_fns(1)])
      (use r(11,12) XRestart in \<open>simp_all add: stopped_def\<close>)
next
  case (XFinish s m)
  obtain q st2 where f: "finish sha (xi_io i) jid s m st = (q, st2)" by force
  with step XFinish xid have x': "x' = goto (XStop q) x" "st' = st2" by (simp_all add: exec_step_def)
  show ?thesis
  proof (cases rule: finish_cases [OF f k])
    case (1 err)
    with x' r(13) XFinish k(2) show ?thesis by (metis fun_upd_triv frozen_refl)
  next
    case (2 t)
    moreover have "frozen j ((finished s m j)\<lparr>j_updated_at := t\<rparr>)" by (simp add: frozen_def finished_def)
    ultimately show ?thesis using x' r(14) XFinish by auto
  qed
next
  case XCommit
  show ?thesis
  proof (cases "enc (pg_records (x_page x))")
    case (Inl err)
    with step XCommit have "x' = goto (XFinish ''failed'' ''Could not encode batch receipt'') x" "st' = st"
      by (simp_all add: exec_step_def commit_def)
    with r(15) XCommit k(2) show ?thesis by (metis fun_upd_triv frozen_refl)
  next
    case (Inr b)
    show ?thesis
      by (rule update_step [OF step [unfolded exec_step_def XCommit pc.case commit_def Inr sum.case Let_def xid] k fns(2) frozen_fns(2)])
        (use r(16,17) XCommit in \<open>simp_all add: stopped_def\<close>)
  qed
qed (use step r k(2) in \<open>auto simp: exec_step_def intro!: exI [of _ j]\<close>)

subsection \<open>The invariant\<close>

definition in_hand :: "exec \<Rightarrow> ghost \<Rightarrow> bool" where
  "in_hand x g \<longleftrightarrow> page_error x (x_page x) = None \<and> (j_cursor (x_cur x), x_page x) \<in> set (gh_reads g)"

definition body :: "exec \<Rightarrow> job \<Rightarrow> ghost \<Rightarrow> bool" where
  "body x j g \<longleftrightarrow> j_cursor (x_cur x) = j_cursor j \<and> j_spec (x_cur x) = j_spec j \<and> \<not> scan_done (gh_pages g)"

definition op_inv :: "operation \<Rightarrow> exec \<Rightarrow> job \<Rightarrow> ghost \<Rightarrow> bool" where
  "op_inv op x j g \<longleftrightarrow> gh_acked g = written (gh_pages g) \<and> body x j g
     \<and> (op = Writing \<longrightarrow> in_hand x g \<and> pg_records (x_page x) \<noteq> [])"

definition stop_inv :: "exec \<Rightarrow> job \<Rightarrow> ghost \<Rightarrow> bool" where
  "stop_inv x j g \<longleftrightarrow> gh_acked g = written (gh_pages g)
     \<or> (\<not> scan_done (gh_pages g) \<and> (\<exists>rs. gh_acked g = written (gh_pages g) @ [rs]))"

fun pc_inv :: "pc \<Rightarrow> exec \<Rightarrow> job \<Rightarrow> ghost \<Rightarrow> bool" where
  "pc_inv (XRetry op k) x j g = op_inv op x j g"
| "pc_inv (XPhase op k) x j g = op_inv op x j g"
| "pc_inv (XCall op k) x j g = op_inv op x j g"
| "pc_inv (XNote op k) x j g = op_inv op x j g"
| "pc_inv (XBackoff op k d) x j g = op_inv op x j g"
| "pc_inv XCommit x j g = (body x j g \<and> in_hand x g
     \<and> gh_acked g = written (gh_pages g) @ (if pg_records (x_page x) = [] then [] else [pg_records (x_page x)]))"
| "pc_inv (XFinish s m) x j g = (stop_inv x j g \<and> (s = ''succeeded'' \<longrightarrow> scan_done (gh_pages g)))"
| "pc_inv (XStop r) x j g = stop_inv x j g"
| "pc_inv _ x j g = (gh_acked g = written (gh_pages g))"

definition xinv :: "string \<Rightarrow> int \<Rightarrow> exec \<Rightarrow> job \<Rightarrow> ghost \<Rightarrow> bool" where
  "xinv c0 n0 x j g \<longleftrightarrow>
     linked c0 (gh_pages g) \<and> set (gh_pages g) \<subseteq> set (gh_reads g)
     \<and> (\<forall>cp \<in> set (gh_pages g). page_fits (j_spec j) (fst cp) (snd cp))
     \<and> j_cursor j = last_cursor c0 (gh_pages g) \<and> j_records j = n0 + moved (gh_pages g)
     \<and> (j_source_exhausted j \<longleftrightarrow> scan_done (gh_pages g)) \<and> (j_state j = ''succeeded'' \<longrightarrow> scan_done (gh_pages g))
     \<and> j_spec (x_job x) = j_spec j \<and> j_id (x_job x) = j_id j \<and> j_id (x_cur x) = j_id j
     \<and> pc_inv (x_pc x) x j g"

lemma pc_inv_job:
  "j_cursor j' = j_cursor j \<Longrightarrow> j_spec j' = j_spec j \<Longrightarrow> pc_inv p x j' g = pc_inv p x j g"
  by (cases p) (simp_all add: op_inv_def body_def stop_inv_def)

text \<open>What no update but the checkpoint touches.\<close>

lemma xinv_job:
  assumes "xinv c0 n0 x j g" "j_cursor j' = j_cursor j" "j_records j' = j_records j" "j_source_exhausted j' = j_source_exhausted j"
    and "j_spec j' = j_spec j" "j_id j' = j_id j" "j_state j' = ''succeeded'' \<longrightarrow> scan_done (gh_pages g)"
  shows "xinv c0 n0 x j' g"
  using assms(1,7) unfolding xinv_def pc_inv_job [OF assms(2,5)] assms(2-6) by blast

lemma undisturbed_xinv: "undisturbed j j' \<Longrightarrow> xinv c0 n0 x j g \<Longrightarrow> xinv c0 n0 x j' g"
  unfolding undisturbed_def by (auto elim!: xinv_job)

text \<open>Moving to a program counter whose condition holds.\<close>

lemma xinv_goto:
  assumes "xinv c0 n0 x j g" "pc_inv p (goto p x) j g"
  shows "xinv c0 n0 (goto p x) j g"
  using assms by (simp add: xinv_def)

lemma page_error_goto [simp]: "page_error (goto p x) q = page_error x q"
  by (simp add: page_error_def)

lemma in_hand_goto [simp]: "in_hand (goto p x) g = in_hand x g"
  by (simp add: in_hand_def)

lemma body_goto [simp]: "body (goto p x) j g = body x j g"
  by (simp add: body_def)

lemma op_inv_goto [simp]: "op_inv op (goto p x) j g = op_inv op x j g"
  by (simp add: op_inv_def)

lemma stop_inv_goto [simp]: "stop_inv (goto p x) j g = stop_inv x j g"
  by (simp add: stop_inv_def)

lemma pc_inv_goto [simp]: "pc_inv p (goto q x) j g = pc_inv p x j g"
  by (cases p) simp_all

lemma page_error_None:
  "page_error x p = None \<longleftrightarrow> int (length (pg_records p)) \<le> sp_batch_size (j_spec (x_cur x))
     \<and> (pg_done p \<or> (pg_next p \<noteq> [] \<and> pg_next p \<noteq> j_cursor (x_cur x))) \<and> validate (pg_records p) (sp_dimension (j_spec (x_job x))) = Inr ()"
  by (auto simp: page_error_def not_less split: if_splits sum.splits)

lemma xinv_op: "xinv c0 n0 x j g \<Longrightarrow> pc_inv (XRetry op k) x j g \<Longrightarrow> op_inv op x j g"
  by simp

subsection \<open>Every own step keeps it\<close>

lemma get_keyed: "keyed (s_jobs st) \<Longrightarrow> s_jobs st jid = Some j \<Longrightarrow> get_job jid st = Inr j \<and> j_id j = jid \<and> jid \<noteq> []"
  using keyedD by (fastforce simp: get_job_def)

lemma enter_xinv:
  assumes "xinv c0 n0 x j g" "x_pc x = XEnter"
  shows "xinv c0 n0 (enter e x) j g"
  using assms by (auto simp: enter_def xinv_def stop_inv_def split: option.splits)

lemma loop_top_xinv:
  assumes "xinv c0 n0 x j g" "x_pc x = XTop" "get_job (j_id (x_job x)) st = Inr j"
  shows "xinv c0 n0 (loop_top e i x st) j g"
  using assms
  by (auto simp: loop_top_def xinv_def stop_inv_def op_inv_def body_def split: option.splits)

lemma retry_top_xinv:
  assumes "xinv c0 n0 x j g" "x_pc x = XRetry op k"
  shows "xinv c0 n0 (retry_top op k i x st) j g"
  using assms
  by (auto simp: retry_top_def xinv_def op_inv_def split: option.splits sum.splits)

lemma backoff_xinv:
  assumes "xinv c0 n0 x j g" "x_pc x = XBackoff op k d"
  shows "xinv c0 n0 (backoff op k i x) j g"
  using assms by (auto simp: backoff_def xinv_def op_inv_def split: option.splits)

lemma failed_step_xinv:
  assumes "xinv c0 n0 x j g" "x_pc x = XFail err"
  shows "xinv c0 n0 (failed_step err i x st) j g"
  using assms by (auto simp: failed_step_def xinv_def stop_inv_def split: option.splits sum.splits)

lemma next_page_xinv:
  assumes "xinv c0 n0 x j g" "x_pc x = XNext"
  shows "xinv c0 n0 (next_page x st) j g"
  using assms by (auto simp: next_page_def xinv_def stop_inv_def split: sum.splits)

lemma call_failed_xinv:
  assumes "xinv c0 n0 x j g" "op_inv op x j g"
  shows "xinv c0 n0 (call_failed op k err x) j g"
  using assms by (auto simp: call_failed_def intro!: xinv_goto) (auto simp: op_inv_def)

lemma after_read_xinv:
  assumes "xinv c0 n0 x j g" "op_inv Reading x j g"
    and g': "gh_pages g' = gh_pages g" "gh_acked g' = gh_acked g" "gh_reads g' = gh_reads g @ [(j_cursor (x_cur x), p)]"
  shows "xinv c0 n0 (after_read p x) j g'"
proof -
  have pe: "page_error (x\<lparr>x_page := p\<rparr>) q = page_error x q" for q by (simp add: page_error_def)
  have "pc_inv (x_pc (after_read p x)) (after_read p x) j g'"
    using assms(2) g' by (auto simp: after_read_def op_inv_def body_def in_hand_def pe split: option.splits)
  moreover have "x_job (after_read p x) = x_job x" "x_cur (after_read p x) = x_cur x"
    by (simp_all add: after_read_def split: option.splits)
  ultimately show ?thesis using assms(1) g' unfolding xinv_def by auto
qed

lemma call_xinv:
  assumes "xinv c0 n0 x j g" "x_pc x = XCall op k"
  shows "xinv c0 n0 (connector_call op k i x) j (observe x i (connector_call op k i x) g)"
proof -
  have op: "op_inv op x j g" using assms by (simp add: xinv_def)
  show ?thesis
  proof (cases op)
    case Reading
    show ?thesis
    proof (cases "xi_read i")
      case (Inl err)
      with assms op Reading show ?thesis by (simp add: connector_call_def observe_def call_failed_xinv)
    next
      case (Inr p)
      have "xinv c0 n0 (after_read p x) j (g\<lparr>gh_reads := gh_reads g @ [(j_cursor (x_cur x), p)]\<rparr>)"
        using assms(1) op Reading by (intro after_read_xinv) simp_all
      with assms(2) Reading Inr show ?thesis by (simp add: connector_call_def observe_def)
    qed
  next
    case Writing
    show ?thesis
    proof (cases "xi_write i")
      case (Inl err)
      with assms op Writing show ?thesis by (simp add: connector_call_def observe_def call_failed_xinv)
    next
      case (Inr u)
      with assms op Writing show ?thesis
        by (auto simp: connector_call_def observe_def xinv_def op_inv_def body_def in_hand_def)
    qed
  qed
qed

lemma commit_xinv:
  assumes "xinv c0 n0 x j g" "x_pc x = XCommit"
  shows "xinv c0 n0 (goto (if pg_done (x_page x) then XStop None else XNext) x) ((committed u (x_page x) j)\<lparr>j_updated_at := t\<rparr>)
    (g\<lparr>gh_pages := gh_pages g @ [(j_cursor (x_cur x), x_page x)]\<rparr>)"
proof -
  have b: "body x j g" "in_hand x g"
    "gh_acked g = written (gh_pages g) @ (if pg_records (x_page x) = [] then [] else [pg_records (x_page x)])"
    using assms by (simp_all add: xinv_def)
  have f: "page_fits (j_spec j) (j_cursor (x_cur x)) (x_page x)"
    using b(1,2) assms(1) by (simp add: in_hand_def page_error_None page_fits_def body_def xinv_def)
  show ?thesis using assms(1) b f
    by (auto simp: xinv_def committed_def linked_snoc body_def in_hand_def stop_inv_def)
qed

lemma job_map_upd: "m k = Some v \<Longrightarrow> m = m(k \<mapsto> v)"
  by (simp add: fun_upd_idem)

lemma observe_id: "x_pc x \<noteq> XCommit \<Longrightarrow> (\<forall>op k. x_pc x \<noteq> XCall op k) \<Longrightarrow> observe x i x' g = g"
  by (auto simp: observe_def split: pc.splits)

lemma own_step:
  assumes step: "exec_step sha enc e i x st = (x', st')"
    and k: "keyed (s_jobs st)" "s_jobs st jid = Some j" and inv: "xinv c0 n0 x j g"
  shows "\<exists>j'. s_jobs st' = (s_jobs st)(jid \<mapsto> j') \<and> frozen j j' \<and> xinv c0 n0 x' j' (observe x i x' g)"
proof -
  have jid: "j_id j = jid" and get: "get_job jid st = Inr j" using get_keyed [OF k] by simp_all
  have xid: "j_id (x_job x) = jid" "j_id (x_cur x) = jid" using inv jid by (simp_all add: xinv_def)
  have pc: "pc_inv (x_pc x) x j g" and sc: "j_state j = ''succeeded'' \<longrightarrow> scan_done (gh_pages g)"
    using inv by (simp_all add: xinv_def)
  have go: "xinv c0 n0 (goto p x) j g" if "pc_inv p x j g" for p
    using inv that by (simp add: xinv_goto)
  show ?thesis
  proof (rule exec_step_rule [OF step k xid, where P = "\<lambda>x' j'. xinv c0 n0 x' j' (observe x i x' g)"], goal_cases)
    case 1 then show ?case using enter_xinv [OF inv] by (simp add: observe_id)
  next
    case 2 then show ?case using loop_top_xinv [OF inv] get xid by (simp add: observe_id)
  next
    case (3 op n) then show ?case using retry_top_xinv [OF inv] by (simp add: observe_id)
  next
    case (4 op n err) then show ?case using pc by (simp add: observe_id go op_inv_def)
  next
    case (5 op n t) then show ?case using pc sc by (auto simp: observe_id intro: xinv_job [OF go])
  next
    case (6 op n) then show ?case using call_xinv [OF inv] by simp
  next
    case (7 op n err) then show ?case using pc by (simp add: observe_id go op_inv_def)
  next
    case (8 op n t) then show ?case using pc sc by (auto simp: observe_id intro: xinv_job [OF go])
  next
    case (9 op n d) then show ?case using backoff_xinv [OF inv] by (simp add: observe_id)
  next
    case (10 err) then show ?case using failed_step_xinv [OF inv] by (simp add: observe_id)
  next
    case (11 u err) then show ?case using pc by (simp add: observe_id go stop_inv_def)
  next
    case (12 u t) then show ?case using pc sc
      by (auto simp: observe_id restarted_def stop_inv_def intro!: xinv_job [OF go])
  next
    case (13 s m err) then show ?case using pc by (simp add: observe_id go)
  next
    case (14 s m t) then show ?case using pc sc by (auto simp: observe_id finished_def intro!: xinv_job [OF go])
  next
    case 15 then show ?case using pc by (simp add: observe_def go stop_inv_def body_def)
  next
    case (16 err) then show ?case using pc by (simp add: observe_def go stop_inv_def body_def)
  next
    case (17 t) then show ?case using commit_xinv [OF inv] by (simp add: observe_def)
  next
    case 18 then show ?case using next_page_xinv [OF inv] by (simp add: observe_id)
  next
    case (19 q) then show ?case using inv by (simp add: observe_id)
  qed
qed

end
