(* ===== verification/Executor_Properties.thy ===== *)
theory Executor_Properties
  imports Executor_Facts Engine_Properties Worker_Jobs_Properties
begin

section \<open>Properties of executions\<close>

text \<open>
  A checkpoint never runs ahead of the sink, a job succeeds only after its whole source was
  acknowledged, a cancellation stops all calls, retries and delays are bounded, and an active job
  belongs to its execution alone; with one exception, a resume that meets the last check of a page.
\<close>

subsection \<open>Runs\<close>

lemma transfer_inv:
  assumes "(transfer sha enc jid)\<^sup>*\<^sup>* s s'" "s = (x0, st0, g0)" "keyed (s_jobs st0)" "s_jobs st0 jid = Some j0" "xinv c0 n0 x0 j0 g0"
  obtains x st g j where "s' = (x, st, g)" "keyed (s_jobs st)" "s_jobs st jid = Some j" "xinv c0 n0 x j g"
proof -
  from assms(1) have "\<exists>x st g j. s' = (x, st, g) \<and> keyed (s_jobs st) \<and> s_jobs st jid = Some j \<and> xinv c0 n0 x j g"
  proof induction
    case base
    with assms show ?case by blast
  next
    case (step s t)
    then obtain x st g j where s: "s = (x, st, g)" "keyed (s_jobs st)" "s_jobs st jid = Some j" "xinv c0 n0 x j g" by blast
    from step(2) show ?case unfolding s(1)
    proof cases
      case (own e i x' st')
      from own_step [OF own(2) s(2,3,4)] obtain j' where
        j': "s_jobs st' = (s_jobs st)(jid \<mapsto> j')" "frozen j j'" "xinv c0 n0 x' j' (observe x i x' g)" by blast
      have "keyed (s_jobs st')" unfolding j'(1) using s(2,3) j'(2) by (rule keyed_update)
      with own(1) j' show ?thesis by auto
    next
      case (other st')
      from other(2) s(3) obtain j' where "keyed (s_jobs st')" "s_jobs st' jid = Some j'" "undisturbed j j'"
        unfolding others_def by blast
      with other(1) s(4) undisturbed_xinv show ?thesis by blast
    qed
  qed
  with that show thesis by blast
qed

lemma start_xinv:
  assumes "\<not> j_source_exhausted j" "j_state j \<noteq> ''succeeded''"
  shows "xinv (j_cursor j) (j_records j) (start_exec j) j no_ghost"
  using assms by (simp add: xinv_def start_exec_def no_ghost_def)

text \<open>C1: A checkpoint never runs ahead of the sink. At every moment of an execution, whatever fails, retries
  or is cancelled in between, the pages checkpointed so far form a chain from the cursor the job was
  started at, each read at the cursor its predecessor ended with, within the batch size, validated and
  advancing; the records the sink acknowledged are exactly those of the checkpointed pages, in order,
  followed by at most the one page in hand; the job's cursor and record count are those of the last
  checkpointed page; and a job succeeded only if the last page checkpointed ended the source, so that
  the sink acknowledged the whole rest of the source.\<close>

theorem checkpoint_after_ack:
  assumes "(transfer sha enc jid)\<^sup>*\<^sup>* (start_exec j0, st0, no_ghost) (x, st, g)"
    and "keyed (s_jobs st0)" "s_jobs st0 jid = Some j0" "\<not> j_source_exhausted j0" "j_state j0 \<noteq> ''succeeded''"
  shows "\<exists>j. s_jobs st jid = Some j \<and> linked (j_cursor j0) (gh_pages g) \<and> set (gh_pages g) \<subseteq> set (gh_reads g)
     \<and> (\<forall>cp \<in> set (gh_pages g). page_fits (j_spec j) (fst cp) (snd cp))
     \<and> (\<exists>extra. gh_acked g = written (gh_pages g) @ extra \<and> length extra \<le> 1 \<and> (scan_done (gh_pages g) \<longrightarrow> extra = []))
     \<and> j_cursor j = last_cursor (j_cursor j0) (gh_pages g) \<and> j_records j = j_records j0 + moved (gh_pages g)
     \<and> (j_state j = ''succeeded'' \<longrightarrow> scan_done (gh_pages g) \<and> gh_acked g = written (gh_pages g))"
proof -
  obtain j where j: "s_jobs st jid = Some j" "xinv (j_cursor j0) (j_records j0) x j g"
    using transfer_inv [OF assms(1) refl assms(2,3) start_xinv [OF assms(4,5)]] by auto
  have "\<exists>extra. gh_acked g = written (gh_pages g) @ extra \<and> length extra \<le> 1 \<and> (scan_done (gh_pages g) \<longrightarrow> extra = [])"
  proof (cases "x_pc x = XCommit")
    case True
    with j(2) have "\<not> scan_done (gh_pages g)"
      "gh_acked g = written (gh_pages g) @ (if pg_records (x_page x) = [] then [] else [pg_records (x_page x)])"
      by (simp_all add: xinv_def body_def)
    then show ?thesis by (intro exI [of _ "if pg_records (x_page x) = [] then [] else [pg_records (x_page x)]"]) simp
  next
    case False
    with j(2) have "stop_inv x j g" unfolding xinv_def by (cases "x_pc x") (auto simp: op_inv_def stop_inv_def)
    then show ?thesis unfolding stop_inv_def by force
  qed
  moreover from this have "scan_done (gh_pages g) \<longrightarrow> gh_acked g = written (gh_pages g)" by auto
  ultimately show ?thesis using j unfolding xinv_def by blast
qed

text \<open>Another invariant of an execution, kept by own steps and by what others may do.\<close>

lemma transfer_keeps:
  assumes "(transfer sha enc jid)\<^sup>*\<^sup>* s s'" "s = (x0, st0, g0)" "keyed (s_jobs st0)" "s_jobs st0 jid = Some j0" "P x0 j0 g0"
    and own: "\<And>e i x st x' st' j g. exec_step sha enc e i x st = (x', st') \<Longrightarrow> keyed (s_jobs st) \<Longrightarrow> s_jobs st jid = Some j \<Longrightarrow> P x j g \<Longrightarrow>
      \<exists>j'. s_jobs st' = (s_jobs st)(jid \<mapsto> j') \<and> frozen j j' \<and> P x' j' (observe x i x' g)"
    and other: "\<And>x j j' g. undisturbed j j' \<Longrightarrow> P x j g \<Longrightarrow> P x j' g"
  obtains x st g j where "s' = (x, st, g)" "keyed (s_jobs st)" "s_jobs st jid = Some j" "P x j g"
proof -
  from assms(1) have "\<exists>x st g j. s' = (x, st, g) \<and> keyed (s_jobs st) \<and> s_jobs st jid = Some j \<and> P x j g"
  proof induction
    case base
    with assms(2-5) show ?case by blast
  next
    case (step s t)
    then obtain x st g j where s: "s = (x, st, g)" "keyed (s_jobs st)" "s_jobs st jid = Some j" "P x j g" by blast
    from step(2) show ?case unfolding s(1)
    proof cases
      case (own e i x' st')
      from assms(6) [OF own(2) s(2,3,4)] obtain j' where
        j': "s_jobs st' = (s_jobs st)(jid \<mapsto> j')" "frozen j j'" "P x' j' (observe x i x' g)" by blast
      have "keyed (s_jobs st')" unfolding j'(1) using s(2,3) j'(2) by (rule keyed_update)
      with own(1) j' show ?thesis by auto
    next
      case (other st')
      from other(2) s(3) obtain j' where "keyed (s_jobs st')" "s_jobs st' jid = Some j'" "undisturbed j j'"
        unfolding others_def by blast
      with other(1) s(4) assms(7) show ?thesis by blast
    qed
  qed
  with that show thesis by blast
qed

subsection \<open>Cancellation\<close>

definition quiet :: "pc \<Rightarrow> bool" where
  "quiet p \<longleftrightarrow> (case p of XPhase _ _ \<Rightarrow> False | XCall _ _ \<Rightarrow> False | XCommit \<Rightarrow> False | _ \<Rightarrow> True)"

definition cancelling :: "string \<Rightarrow> ghost \<Rightarrow> exec \<Rightarrow> job \<Rightarrow> ghost \<Rightarrow> bool" where
  "cancelling jid g0 x j g \<longleftrightarrow> g = g0 \<and> j_id (x_job x) = jid \<and> j_id (x_cur x) = jid \<and> quiet (x_pc x)
     \<and> (if x_pc x = XStop None then j_state j = ''canceled''
        else j_state j = ''cancel_requested'' \<or> (\<exists>r. x_pc x = XStop r))"

lemma cancelling_own:
  assumes step: "exec_step sha enc e i x st = (x', st')" and k: "keyed (s_jobs st)" "s_jobs st jid = Some j"
    and c: "cancelling jid g0 x j g"
  shows "\<exists>j'. s_jobs st' = (s_jobs st)(jid \<mapsto> j') \<and> frozen j j' \<and> cancelling jid g0 x' j' (observe x i x' g)"
proof -
  have xid: "j_id (x_job x) = jid" "j_id (x_cur x) = jid" and q: "quiet (x_pc x)" and g: "g = g0"
    using c by (simp_all add: cancelling_def)
  have get: "get_job jid st = Inr j" using get_keyed [OF k] by simp
  have st: "(\<forall>r. x_pc x \<noteq> XStop r) \<Longrightarrow> j_state j = ''cancel_requested''" using c by (auto simp: cancelling_def split: if_splits)
  have ob: "observe x i y g = g0" for y using q g by (intro trans [OF observe_id]) (auto simp: quiet_def)
  show ?thesis
  proof (rule exec_step_rule [OF step k xid, where P = "\<lambda>x' j'. cancelling jid g0 x' j' (observe x i x' g)"],
      unfold ob, goal_cases)
    case 1 then show ?case using st xid by (auto simp: enter_def cancelling_def quiet_def split: option.splits)
  next
    case 2 then show ?case using st xid get by (auto simp: loop_top_def cancelling_def quiet_def)
  next
    case (3 op n) then show ?case using st xid get by (auto simp: retry_top_def cancelling_def quiet_def split: option.splits)
  next
    case (9 op n d) then show ?case using st xid by (auto simp: backoff_def cancelling_def quiet_def split: option.splits)
  next
    case (10 err) then show ?case using st xid get
      by (auto simp: failed_step_def cancelling_def quiet_def split: option.splits)
  next
    case 18 then show ?case using st xid get by (auto simp: next_page_def cancelling_def quiet_def)
  next
    case (19 q) then show ?case using c g by simp
  qed (use st xid q in \<open>auto simp: cancelling_def quiet_def restarted_def finished_def\<close>)
qed

lemma cancelling_other: "undisturbed j j' \<Longrightarrow> cancelling jid g0 x j g \<Longrightarrow> cancelling jid g0 x j' g"
  by (auto simp: undisturbed_def cancelling_def active_def split: if_splits)


subsection \<open>Bounds\<close>

definition attempt_fits :: "int \<Rightarrow> pc \<Rightarrow> bool" where
  "attempt_fits m p \<longleftrightarrow> (case p of
       XRetry op k \<Rightarrow> 1 \<le> k \<and> int k \<le> m | XPhase op k \<Rightarrow> 1 \<le> k \<and> int k \<le> m | XCall op k \<Rightarrow> 1 \<le> k \<and> int k \<le> m
     | XNote op k \<Rightarrow> 1 \<le> k \<and> int k < m | XBackoff op k d \<Rightarrow> 1 \<le> k \<and> int k < m | _ \<Rightarrow> True)"

definition within_bounds :: "string \<Rightarrow> spec \<Rightarrow> int \<Rightarrow> exec \<Rightarrow> job \<Rightarrow> ghost \<Rightarrow> bool" where
  "within_bounds jid s n x j g \<longleftrightarrow> j_id (x_job x) = jid \<and> j_id (x_cur x) = jid \<and> j_spec j = s
     \<and> j_spec (x_cur x) = s \<and> attempt_fits (sp_max_attempts s) (x_pc x) \<and> j_restarts j \<le> max n (sp_max_restarts s)
     \<and> ((\<exists>t. x_pc x = XRestart t) \<longrightarrow> j_restarts j < sp_max_restarts s)"

lemma within_bounds_own:
  assumes step: "exec_step sha enc e i x st = (x', st')" and k: "keyed (s_jobs st)" "s_jobs st jid = Some j"
    and m: "1 \<le> sp_max_attempts s" and c: "within_bounds jid s n x j g"
  shows "\<exists>j'. s_jobs st' = (s_jobs st)(jid \<mapsto> j') \<and> frozen j j' \<and> within_bounds jid s n x' j' (observe x i x' g)"
proof -
  have xid: "j_id (x_job x) = jid" "j_id (x_cur x) = jid" using c by (simp_all add: within_bounds_def)
  have get: "get_job jid st = Inr j" and jid: "j_id j = jid" using get_keyed [OF k] by simp_all
  note d = within_bounds_def attempt_fits_def
  show ?thesis
  proof (rule exec_step_rule [OF step k xid, where P = "\<lambda>x' j'. within_bounds jid s n x' j' (observe x i x' g)"], goal_cases)
    case 1 then show ?case using c by (auto simp: d enter_def split: option.splits)
  next
    case 2 then show ?case using c xid get m jid by (auto simp: d loop_top_def split: option.splits)
  next
    case (3 op k) then show ?case using c xid get by (auto simp: d retry_top_def split: option.splits)
  next
    case (6 op k) then show ?case using c m
      by (auto simp: d connector_call_def call_failed_def after_read_def split: operation.splits sum.splits option.splits)
  next
    case (9 op k t) then show ?case using c by (auto simp: d backoff_def split: option.splits)
  next
    case (10 err) then show ?case using c xid get by (auto simp: d failed_step_def split: option.splits)
  next
    case 18 then show ?case using c xid get by (auto simp: d next_page_def)
  qed (use c in \<open>auto simp: d restarted_def finished_def committed_def\<close>)
qed

lemma within_bounds_other: "undisturbed j j' \<Longrightarrow> within_bounds jid s n x j g \<Longrightarrow> within_bounds jid s n x j' g"
  by (auto simp: undisturbed_def within_bounds_def)

text \<open>C18: Retries and restarts are bounded. In every run of an execution a connector call is at most the
  job's \<^verbatim>\<open>max_attempts\<close>-th attempt of its operation, and the restarts never exceed \<^verbatim>\<open>max_restarts\<close>; a
  wait between attempts is at most 5.1 seconds and a wait for a restart is between 30 seconds and 16
  minutes.\<close>

theorem retries_bounded:
  assumes "(transfer sha enc jid)\<^sup>*\<^sup>* (start_exec j0, st0, g0) (x, st, g)"
    and "keyed (s_jobs st0)" "s_jobs st0 jid = Some j0" "spec_within (j_spec j0)" "0 \<le> j_restarts j0"
    and "0 \<le> jitter" "jitter < 100"
  shows "(\<forall>op k. x_pc x = XCall op k \<longrightarrow> 1 \<le> k \<and> int k \<le> sp_max_attempts (j_spec j0))
     \<and> (\<exists>j. s_jobs st jid = Some j \<and> j_restarts j \<le> max (j_restarts j0) (sp_max_restarts (j_spec j0)))
     \<and> 0 \<le> backoff_delay k jitter \<and> backoff_delay k jitter < 5100 * millisecond
     \<and> 30 * second \<le> restart_delay n \<and> restart_delay n \<le> 16 * 60 * second"
proof -
  have m: "1 \<le> sp_max_attempts (j_spec j0)" using assms(4) by (simp add: spec_within_def)
  have jid: "j_id j0 = jid" using get_keyed [OF assms(2,3)] by simp
  have c: "within_bounds jid (j_spec j0) (j_restarts j0) (start_exec j0) j0 g0"
    using jid by (simp add: within_bounds_def start_exec_def attempt_fits_def)
  obtain j where "s_jobs st jid = Some j" "within_bounds jid (j_spec j0) (j_restarts j0) x j g"
    by (rule transfer_keeps [OF assms(1) refl assms(2,3), where P = "within_bounds jid (j_spec j0) (j_restarts j0)"], rule c,
        erule (2) within_bounds_own [OF _ _ _ m], assumption, erule (1) within_bounds_other) simp
  then have "\<forall>op k. x_pc x = XCall op k \<longrightarrow> 1 \<le> k \<and> int k \<le> sp_max_attempts (j_spec j0)"
    "\<exists>j. s_jobs st jid = Some j \<and> j_restarts j \<le> max (j_restarts j0) (sp_max_restarts (j_spec j0))"
    by (auto simp: within_bounds_def attempt_fits_def)
  moreover have "0 \<le> backoff_delay k jitter" "backoff_delay k jitter < 5100 * millisecond"
    using assms(6,7) by (auto simp: backoff_delay_def millisecond_def second_def)
  moreover have "30 * second \<le> restart_delay n \<and> restart_delay n \<le> 16 * 60 * second"
  proof -
    have "(1 :: int) \<le> 2 ^ nat (min n 5)" by simp
    moreover have "(2 :: int) ^ nat (min n 5) \<le> 2 ^ 5" by (rule power_increasing) simp_all
    ultimately show ?thesis by (simp add: restart_delay_def second_def)
  qed
  ultimately show ?thesis by blast
qed

subsection \<open>Termination of a retry\<close>

definition retrying :: "operation \<Rightarrow> pc \<Rightarrow> bool" where
  "retrying op p \<longleftrightarrow> (case p of XRetry o2 k \<Rightarrow> o2 = op | XPhase o2 k \<Rightarrow> o2 = op | XCall o2 k \<Rightarrow> o2 = op
     | XNote o2 k \<Rightarrow> o2 = op | XBackoff o2 k d \<Rightarrow> o2 = op | _ \<Rightarrow> False)"

definition retry_rank :: "int \<Rightarrow> pc \<Rightarrow> nat" where
  "retry_rank m p = (case p of
       XRetry op k \<Rightarrow> nat (5 * (m - int k) + 5) | XPhase op k \<Rightarrow> nat (5 * (m - int k) + 4)
     | XCall op k \<Rightarrow> nat (5 * (m - int k) + 3) | XNote op k \<Rightarrow> nat (5 * (m - int k) + 2)
     | XBackoff op k d \<Rightarrow> nat (5 * (m - int k) + 1) | _ \<Rightarrow> 0)"

text \<open>One step inside a retry that is not spent waiting, whatever the outside answers.\<close>

definition retry_move ::
  "(string \<Rightarrow> string) \<Rightarrow> (vrecord list \<Rightarrow> string result) \<Rightarrow> operation \<Rightarrow> exec \<Rightarrow> exec \<Rightarrow> bool" where
  "retry_move sha enc op x x' \<longleftrightarrow> retrying op (x_pc x) \<and> retrying op (x_pc x') \<and> x' \<noteq> x
     \<and> (\<exists>e i st st'. exec_step sha enc e i x st = (x', st'))"

lemma with_update_pc:
  "with_update u bad good x = (x', st') \<Longrightarrow> (\<exists>err. x' = goto (bad err) x) \<or> x' = goto good x"
  by (auto simp: with_update_def split: sum.splits prod.splits)

lemma retry_move_rank:
  assumes "retry_move sha enc op x x'" "attempt_fits (sp_max_attempts (j_spec (x_cur x))) (x_pc x)"
  shows "x_cur x' = x_cur x \<and> attempt_fits (sp_max_attempts (j_spec (x_cur x))) (x_pc x')
     \<and> retry_rank (sp_max_attempts (j_spec (x_cur x))) (x_pc x') < retry_rank (sp_max_attempts (j_spec (x_cur x))) (x_pc x)"
proof -
  from assms(1) obtain e i st st' where step: "exec_step sha enc e i x st = (x', st')"
    and r: "retrying op (x_pc x)" "retrying op (x_pc x')" "x' \<noteq> x" by (auto simp: retry_move_def)
  note d = attempt_fits_def retry_rank_def retrying_def
  show ?thesis
  proof (cases "x_pc x")
    case (XRetry o2 k)
    with step r assms(2) show ?thesis by (auto simp: exec_step_def retry_top_def d split: option.splits sum.splits if_splits)
  next
    case (XPhase o2 k)
    with step have "(\<exists>err. x' = goto (XFail err) x) \<or> x' = goto (XCall o2 k) x"
      using with_update_pc by (fastforce simp: exec_step_def)
    with XPhase r assms(2) show ?thesis by (auto simp: d)
  next
    case (XCall o2 k)
    with step r assms(2) show ?thesis
      by (auto simp: exec_step_def connector_call_def call_failed_def after_read_def d split: operation.splits sum.splits option.splits if_splits)
  next
    case (XNote o2 k)
    with step have "(\<exists>err. x' = goto (XFail err) x) \<or> x' = goto (XBackoff o2 k (backoff_delay k (xi_jitter i))) x"
      using with_update_pc by (fastforce simp: exec_step_def)
    with XNote r assms(2) show ?thesis by (auto simp: d)
  next
    case (XBackoff o2 k t)
    with step r assms(2) show ?thesis by (auto simp: exec_step_def backoff_def d split: option.splits if_splits)
  qed (use r in \<open>auto simp: retrying_def\<close>)
qed

text \<open>C17: A retry ends. Whatever the provider, the disk, the clock and everybody else do, a retry of an
  operation takes at most five steps per allowed attempt, not counting the time spent waiting; then it
  has succeeded or failed.\<close>

theorem retry_terminates:
  assumes "(retry_move sha enc op ^^ n) x x'" "attempt_fits (sp_max_attempts (j_spec (x_cur x))) (x_pc x)"
    and "0 \<le> sp_max_attempts (j_spec (x_cur x))"
  shows "int n \<le> 5 * sp_max_attempts (j_spec (x_cur x))"
proof -
  have "n \<le> retry_rank (sp_max_attempts (j_spec (x_cur x))) (x_pc x)"
    using assms(1,2)
  proof (induction n arbitrary: x)
    case (Suc n)
    then obtain y where "retry_move sha enc op x y" "(retry_move sha enc op ^^ n) y x'" by (meson relpowp_Suc_E2)
    with Suc retry_move_rank show ?case by fastforce
  qed simp
  moreover have "int (retry_rank (sp_max_attempts (j_spec (x_cur x))) (x_pc x)) \<le> 5 * sp_max_attempts (j_spec (x_cur x))"
    using assms(2,3) by (auto simp: attempt_fits_def retry_rank_def split: pc.splits)
  ultimately show ?thesis by linarith
qed

subsection \<open>An active job belongs to its execution\<close>

lemma others_same: "keyed (s_jobs st) \<Longrightarrow> s_jobs st' = s_jobs st \<Longrightarrow> others jid st st'"
  by (simp add: others_def undisturbed_def)

lemma others_upd:
  assumes "keyed (s_jobs st)" "s_jobs st' = (s_jobs st)(k \<mapsto> j')" "k \<noteq> jid" "j_id j' = k" "k \<noteq> []"
  shows "others jid st st'"
  using assms by (auto simp: others_def undisturbed_def keyed_def)

lemma others_update:
  assumes "update sha io k kind actor message digest fn st = (r, st')" "keyed (s_jobs st)" "k \<noteq> jid"
    and fr: "\<And>j j'. fn j = Inr j' \<Longrightarrow> frozen j j'"
  shows "others jid st st'"
proof (cases rule: update_jobs [OF assms(1,2) fr])
  case (2 err)
  then show ?thesis using others_same assms(2) by blast
next
  case (3 j j')
  then have "j_id (j'\<lparr>j_updated_at := io_now io\<rparr>) = k" "k \<noteq> []"
    using fr [OF 3(2)] get_keyed [OF assms(2) 3(1)] by (simp_all add: frozen_def)
  with others_upd [OF assms(2) 3(3) assms(3)] show ?thesis by blast
qed simp

lemma others_action:
  assumes "keyed (s_jobs st)" "s_jobs st jid = Some j" "active j"
  shows "others jid st (snd (job_action sha io k action actor st))"
proof -
  obtain r st' where u: "job_action sha io k action actor st = (r, st')" by force
  have fr: "\<And>j j'. action_fn action j = Inr j' \<Longrightarrow> frozen j j'" using action_fn_Inr by blast
  show ?thesis
  proof (cases "k = jid")
    case False
    with others_update [OF u [unfolded job_action_def] assms(1) _ fr] show ?thesis by (simp add: u)
  next
    case True
    show ?thesis
    proof (cases rule: update_jobs [OF u [unfolded job_action_def] assms(1) fr])
      case (2 err)
      then show ?thesis using others_same assms(1) u by simp
    next
      case (3 i j')
      then have "i = j" using True assms(2) by simp
      with 3(2) assms(3) have "j' = j\<lparr>j_state := ''cancel_requested''\<rparr>"
        by (auto simp: action_fn_def cancel_fn_def resume_fn_def active_def split: if_splits)
      then have j': "undisturbed j (j'\<lparr>j_updated_at := io_now io\<rparr>)"
        using assms(3) by (auto simp: undisturbed_def intro!: exI [of _ "io_now io"])
      have "frozen j (j'\<lparr>j_updated_at := io_now io\<rparr>)" using fr [OF 3(2)] \<open>i = j\<close> by (simp add: frozen_def)
      then have "keyed (s_jobs st')" unfolding 3(3) True by (rule keyed_update [OF assms(1,2)])
      moreover have "s_jobs st' jid = Some (j'\<lparr>j_updated_at := io_now io\<rparr>)" unfolding 3(3) True by simp
      ultimately have "others jid st st'" unfolding others_def using j' assms(2) by (metis option.inject)
      then show ?thesis by (simp add: u)
    qed simp
  qed
qed

lemma others_submit:
  assumes "keyed (s_jobs st)" "s_jobs st jid = Some j"
    and fresh: "\<And>bytes. rnd = Inr bytes \<Longrightarrow> bytes \<noteq> [] \<and> s_jobs st (hex_encode bytes) = None"
  shows "others jid st (snd (submit sha io ks rnd created e spec key actor owners st))"
proof -
  have cr: "others jid st (snd (create sha io ks rnd created sp sf kf res key actor owners st))" for sp sf kf res
  proof -
    obtain r st' where c: "create sha io ks rnd created sp sf kf res key actor owners st = (r, st')" by force
    show ?thesis
    proof (cases rule: create_cases [OF c])
      case (3 bytes)
      have n: "hex_encode bytes \<noteq> []" "hex_encode bytes \<noteq> jid" using fresh [OF 3(1)] assms(2) by (cases bytes; auto)+
      have "others jid st st'" by (rule others_upd [OF assms(1) 3(5)]) (use n in simp_all)
      then show ?thesis by (simp add: c)
    qed (use c others_same assms(1) in simp_all)
  qed
  have same: "others jid st st" by (simp add: others_same assms(1))
  show ?thesis unfolding submit_def Let_def using same cr by (auto split: option.splits sum.splits)
qed

lemma others_claim:
  assumes "keyed (s_jobs st)" "s_jobs st jid = Some j" "active j"
  shows "others jid st (snd (claim sha io clk ks ls st))"
proof -
  obtain r st' where c: "claim sha io clk ks ls st = (r, st')" by force
  show ?thesis
  proof (cases rule: claim_cases [OF c assms(1)])
    case (3 i)
    have "claimable clk (busy ks st) i" using 3(1) pick_least_mem by fastforce
    then have "\<not> active i" by (auto simp: claimable_def due_def active_def)
    then have "i \<noteq> j" using assms(3) by blast
    then have ne: "j_id i \<noteq> jid" "j_id i \<noteq> []" using assms(2) 3(2) get_keyed [OF assms(1) 3(2)] by auto
    have "others jid st st'" by (rule others_upd [OF assms(1) 3(5)]) (use ne in simp_all)
    then show ?thesis by (simp add: c)
  qed (use c others_same assms(1) in simp_all)
qed

lemma others_workers:
  assumes "keyed (s_jobs st)" "s_jobs st jid = Some j" "sp_worker_id (j_spec j) = []" "w_id w \<noteq> []"
  shows "range_order ks (s_jobs st) \<Longrightarrow> others jid st (snd (claim_worker sha io now ks bytes w st))"
    and "others jid st (snd (report_worker sha io rc w k r st))"
proof -
  have nw: "\<not> job_of_worker w j" using assms(3,4) by (simp add: job_of_worker_def)
  show "others jid st (snd (claim_worker sha io now ks bytes w st))" if ks: "range_order ks (s_jobs st)"
  proof -
    obtain q st' where c: "claim_worker sha io now ks bytes w st = (q, st')" by force
    show ?thesis
    proof (cases rule: claim_worker_cases [OF c assms(1) ks])
      case 1
      then show ?thesis using others_same assms(1) c by simp
    next
      case (2 p)
      note p = 2(1)
      from 2 have "p \<noteq> j" using nw by blast
      with p(1) have ne: "j_id p \<noteq> jid" "j_id p \<noteq> []" using assms(2) get_keyed [OF assms(1) p(1)] by auto
      have "others jid st st'" by (rule others_upd [OF assms(1) 2(6)]) (use ne in \<open>simp_all add: fail_lease_def\<close>)
      then show ?thesis by (simp add: c)
    next
      case (3 p)
      note p = 3(1)
      from 3 have "p \<noteq> j" using nw by blast
      with p(1) have ne: "j_id p \<noteq> jid" "j_id p \<noteq> []" using assms(2) get_keyed [OF assms(1) p(1)] by auto
      have "others jid st st'" by (rule others_upd [OF assms(1) 3(7)]) (use ne in \<open>simp_all add: lease_job_def\<close>)
      then show ?thesis by (simp add: c)
    qed
  qed
  obtain q st' where c: "report_worker sha io rc w k r st = (q, st')" by force
  show "others jid st (snd (report_worker sha io rc w k r st))"
  proof (cases rule: report_jobs [OF c assms(1)])
    case (1 err)
    then show ?thesis using others_same assms(1) c by simp
  next
    case (2 i)
    then have "job_of_worker w i" by (simp add: report_fn_Inr)
    then have "i \<noteq> j" using nw by blast
    then have ne: "k \<noteq> jid" "j_id i = k" "k \<noteq> []" using assms(2) 2(2) get_keyed [OF assms(1) 2(2)] by auto
    have "j_id (apply_report rc f r i) = j_id i" for f by (simp add: apply_report_def Let_def)
    then have "others jid st st'" by (intro others_upd [OF assms(1) 2(4)]) (use ne in simp_all)
    then show ?thesis by (simp add: c)
  qed
qed

lemma others_with_update:
  assumes "with_update (update sha io k kind actor message digest fn st) bad good x = (x', st')" "keyed (s_jobs st)" "k \<noteq> jid"
    and fr: "\<And>j j'. fn j = Inr j' \<Longrightarrow> frozen j j'"
  shows "others jid st st'"
proof -
  obtain r st2 where u: "update sha io k kind actor message digest fn st = (r, st2)" by force
  with assms(1) have "st' = st2" by (auto simp: with_update_def split: sum.splits)
  with others_update [OF u assms(2,3) fr] show ?thesis by simp
qed

lemma others_exec:
  assumes step: "exec_step sha enc e i x st = (x', st')" and k: "keyed (s_jobs st)"
    and x: "j_id (x_job x) \<noteq> jid" "j_id (x_cur x) \<noteq> jid"
  shows "others jid st st'"
proof (cases "x_pc x")
  case (XPhase op n)
  then show ?thesis
    by (intro others_with_update [OF step [unfolded exec_step_def XPhase pc.case] k x(2)]) (auto simp: fns)
next
  case (XNote op n)
  then show ?thesis
    by (intro others_with_update [OF step [unfolded exec_step_def XNote pc.case] k x(2)]) (auto simp: fns)
next
  case (XRestart u)
  then show ?thesis
    by (intro others_with_update [OF step [unfolded exec_step_def XRestart pc.case] k x(1)]) (auto simp: fns)
next
  case (XFinish s m)
  obtain r st2 where u: "update sha (xi_io i) (j_id (x_job x)) s ''worker'' m [] (finish_fn s m) st = (r, st2)" by force
  with step XFinish have "st' = st2" by (auto simp: exec_step_def finish_def split: sum.splits)
  moreover have "others jid st st2" by (rule others_update [OF u k x(1)]) (auto simp: finish_fn_eq)
  ultimately show ?thesis by simp
next
  case XCommit
  show ?thesis
  proof (cases "enc (pg_records (x_page x))")
    case (Inl err)
    with step XCommit others_same [OF k] show ?thesis by (simp add: exec_step_def commit_def)
  next
    case (Inr b)
    show ?thesis
      by (rule others_with_update [OF step [unfolded exec_step_def XCommit pc.case commit_def Inr sum.case Let_def] k x(1)])
        (auto simp: fns)
  qed
qed (use step others_same [OF k] in \<open>auto simp: exec_step_def\<close>)

text \<open>C19: An active job belongs to its execution. While a hosted job is running or being cancelled, no
  operator action on any job, no submission, no claim, no lease or report of a customer worker and no
  execution of another job changes it, except to request its cancellation.\<close>

theorem active_job_protected:
  assumes "keyed (s_jobs st)" "s_jobs st jid = Some j" "active j" "sp_worker_id (j_spec j) = []"
    and "range_order ks (s_jobs st)" "w_id w \<noteq> []" "bytes \<noteq> []" "s_jobs st (hex_encode bytes) = None"
    and "j_id (x_job x) \<noteq> jid" "j_id (x_cur x) \<noteq> jid"
    and "st' = snd (job_action sha io k action actor st)
       \<or> st' = snd (submit sha io ks (Inr bytes) created e spec key actor owners st)
       \<or> st' = snd (claim sha io clk ks ls st) \<or> st' = snd (claim_worker sha io now ks rnd w st)
       \<or> st' = snd (report_worker sha io rc w k r st) \<or> st' = snd (exec_step sha enc e i x st)"
  shows "\<exists>j'. s_jobs st' jid = Some j' \<and> (j' = j \<or> (\<exists>t. j' = j\<lparr>j_state := ''cancel_requested'', j_updated_at := t\<rparr>))"
proof -
  have sub: "others jid st (snd (submit sha io ks (Inr bytes) created e spec key actor owners st))"
    by (rule others_submit [OF assms(1,2)]) (use assms(7,8) in simp)
  have "others jid st st'"
    using assms(11) others_action [OF assms(1-3)] sub others_claim [OF assms(1-3)]
      others_workers [OF assms(1,2,4,6)] assms(5) others_exec [OF prod.collapse [symmetric] assms(1,9,10)] by metis
  with assms(2) show ?thesis unfolding others_def undisturbed_def by blast
qed

subsection \<open>A resume that meets the last check of a page\<close>

lemma claim_single:
  assumes "s_poison st = None" "io_ok io" "s_jobs st = [jid \<mapsto> j]" "j_id j = jid" "jid \<noteq> []" "j_state j = ''queued''"
    and "sp_worker_id (j_spec j) = []" "job_times_ok j"
  obtains st' where "claim sha io clk [jid] [jid] st = (Inr (started (io_now io) j, True), st')"
    "s_jobs st' = [jid \<mapsto> started (io_now io) j]"
proof -
  let ?j = "j\<lparr>j_state := ''running'', j_phase := ''starting'', j_next_run_at := None, j_runs := j_runs j + 1, j_error := []\<rparr>"
  have "job_times_ok ?j" using assms(8) by (simp add: job_times_ok_def opt_time_ok_def)
  then obtain st' where a: "store_append sha io ?j ''started'' ''worker'' ''Transfer execution started'' [] st = (Inr (), st')"
    "s_jobs st' = (s_jobs st)(j_id ?j \<mapsto> ?j\<lparr>j_updated_at := io_now io\<rparr>)" by (rule append_ok [OF assms(1,2)])
  have r: "range_vals [jid] (s_jobs st) = [j]" by (simp add: assms(3) range_vals_Cons)
  have "busy [jid] st = []" unfolding busy_def r using assms(6) by (simp add: active_def)
  moreover have "claimable clk [] j" using assms(6,7) by (simp add: claimable_def)
  ultimately have "pick_job (claimable clk (busy [jid] st)) zero_job (range_vals [jid] (s_jobs st)) = j"
    unfolding r by (simp add: zero_job_def)
  then have "claim sha io clk [jid] [jid] st = (Inr (the (s_jobs st' jid), True), st')"
    using assms(1,4,5) a(1) by (simp add: claim_def Let_def)
  with a(2) that show thesis by (simp add: assms(3,4) started_def)
qed

text \<open>C20: A cancelled execution can be overtaken by a resume. When a cancellation is honoured by the checkpoint
  of a page, the job is canceled, but its execution looks at the job once more before it ends. If the
  job is resumed and claimed in between, the execution finds it running and goes on: two executions
  then transfer the same job.\<close>

theorem resume_race:
  assumes "s_poison st = None" "io_ok io" "s_jobs st = [jid \<mapsto> j]" "j_id j = jid" "jid \<noteq> []" "j_state j = ''cancel_requested''"
    and "sp_worker_id (j_spec j) = []" "job_times_ok j" "time_ok (xi_now i)" "xi_io i = io" "enc (pg_records (x_page x)) = Inr b"
    and "x_pc x = XCommit" "\<not> pg_done (x_page x)" "j_id (x_job x) = jid"
  shows "\<exists>x1 st1 j1 st2 j2 st3. exec_step sha enc e i x st = (x1, st1)
     \<and> job_action sha io jid ''resume'' actor st1 = (Inr j1, st2)
     \<and> claim sha io clk [jid] [jid] st2 = (Inr (j2, True), st3)
     \<and> exec_step sha enc e i x1 st3 = (goto XTop x1, st3)
     \<and> j_id (x_job (goto XTop x1)) = jid \<and> j_id (x_job (start_exec j2)) = jid \<and> j_state j2 = ''running''"
proof -
  let ?c = "committed (xi_now i) (x_page x) j"
  have s0: "s_jobs st jid = Some j" by (simp add: assms(3))
  have c: "j_state ?c = ''canceled''" "j_id ?c = jid" "j_spec ?c = j_spec j" "job_times_ok ?c"
    using assms(4,6,8,9) by (simp_all add: committed_def job_times_ok_def opt_time_ok_def)
  obtain st1 where u: "update sha io jid ''checkpoint'' ''worker''
        (''Acknowledged '' @ itoa (int (length (pg_records (x_page x)))) @ '' records'') (hex_encode (sha b))
        (commit_fn (xi_now i) (x_page x)) st = (Inr (?c\<lparr>j_updated_at := io_now io\<rparr>), st1)"
    and p1: "s_poison st1 = None" and s1: "s_jobs st1 = (s_jobs st)(jid \<mapsto> ?c\<lparr>j_updated_at := io_now io\<rparr>)"
    by (rule update_ok [where fn = "commit_fn (xi_now i) (x_page x)" and j' = ?c, OF assms(1,2) s0 fns(2) c(2,4)])
  let ?c1 = "?c\<lparr>j_updated_at := io_now io\<rparr>"
  have e1: "exec_step sha enc e i x st = (goto XNext x, st1)"
    using assms(10-14) u by (simp add: exec_step_def commit_def with_update_def Let_def)
  have g1: "s_jobs st1 jid = Some ?c1" unfolding s1 by simp
  let ?r = "?c1\<lparr>j_state := ''queued'', j_phase := [], j_next_run_at := None, j_restarts := 0, j_error := []\<rparr>"
  have fn: "action_fn ''resume'' ?c1 = Inr ?r" using c(1,3) assms(7) by (simp add: action_fn_def resume_fn_def Let_def)
  have rt: "j_id ?r = jid" "job_times_ok ?r" using c(2,4) by (simp_all add: job_times_ok_def opt_time_ok_def)
  obtain st2 where a: "update sha io jid ''resume'' actor (''Operator requested '' @ ''resume'') [] (action_fn ''resume'') st1
      = (Inr (?r\<lparr>j_updated_at := io_now io\<rparr>), st2)"
    and p2: "s_poison st2 = None" and s2: "s_jobs st2 = (s_jobs st1)(jid \<mapsto> ?r\<lparr>j_updated_at := io_now io\<rparr>)"
    by (rule update_ok [where fn = "action_fn ''resume''" and j' = ?r, OF p1 assms(2) g1 fn rt])
  let ?r2 = "?r\<lparr>j_updated_at := io_now io\<rparr>"
  have r2: "s_jobs st2 = [jid \<mapsto> ?r2]" unfolding s2 s1 assms(3) by simp
  have q: "j_id ?r2 = jid" "j_state ?r2 = ''queued''" "sp_worker_id (j_spec ?r2) = []" "job_times_ok ?r2"
    using rt c(3) assms(7) by (simp_all add: job_times_ok_def)
  obtain st3 where cl: "claim sha io clk [jid] [jid] st2 = (Inr (started (io_now io) ?r2, True), st3)"
    and s3: "s_jobs st3 = [jid \<mapsto> started (io_now io) ?r2]"
    by (rule claim_single [OF p2 assms(2) r2 q(1) assms(5) q(2-4)])
  have "exec_step sha enc e i (goto XNext x) st3 = (goto XTop (goto XNext x), st3)"
    using s3 assms(14) by (simp add: exec_step_def next_page_def get_job_def)
  with e1 a cl q(1) assms(14) show ?thesis by (simp add: job_action_def start_exec_def)
qed

end
