(* ===== verification/Executor_Completes.thy ===== *)
theory Executor_Completes
  imports Executor_Properties
begin

section \<open>A transfer that nothing disturbs completes\<close>

text \<open>
  With a source that returns a finite chain of fitting pages, a sink and a disk that accept every write,
  unchanged grants and no cancellation, iterating the step function reaches the end of the execution
  with the job succeeded and every record counted. \<open>lucky\<close> is the step under these inputs.
\<close>

definition lucky_input :: "io \<Rightarrow> time \<Rightarrow> (string \<Rightarrow> page) \<Rightarrow> exec \<Rightarrow> xinput" where
  "lucky_input io now src x = \<lparr>xi_ctx = None, xi_io = io, xi_now = now, xi_read = Inr (src (j_cursor (x_cur x))),
     xi_write = Inr (), xi_jitter = 0, xi_timer = True\<rparr>"

definition lucky ::
  "(string \<Rightarrow> string) \<Rightarrow> (vrecord list \<Rightarrow> string result) \<Rightarrow> engine \<Rightarrow> io \<Rightarrow> time \<Rightarrow> (string \<Rightarrow> page) \<Rightarrow> exec \<times> store \<Rightarrow> exec \<times> store" where
  "lucky sha enc e io now src s = exec_step sha enc e (lucky_input io now src (fst s)) (fst s) (snd s)"

definition reaches :: "('a \<Rightarrow> 'a) \<Rightarrow> 'a \<Rightarrow> 'a \<Rightarrow> bool" where
  "reaches f a b \<longleftrightarrow> (\<exists>n. (f ^^ n) a = b)"

lemma reaches_refl: "reaches f a a"
  by (auto simp: reaches_def intro: exI [of _ 0])

lemma reaches_step: "f a = b \<Longrightarrow> reaches f b c \<Longrightarrow> reaches f a c"
  by (auto simp: reaches_def funpow_swap1 intro: exI [of _ "Suc _"])

lemma reaches_trans: "reaches f a b \<Longrightarrow> reaches f b c \<Longrightarrow> reaches f a c"
  unfolding reaches_def by (metis comp_apply funpow_add)

text \<open>What a grant and a pair of connections depend on.\<close>

lemma authorized_cong:
  "j_spec j' = j_spec j \<Longrightarrow> j_owner j' = j_owner j \<Longrightarrow> j_source_fp j' = j_source_fp j \<Longrightarrow> j_sink_fp j' = j_sink_fp j \<Longrightarrow>
   authorized e j' = authorized e j \<and> job_connections e j' = job_connections e j"
  by (simp only: authorized_def job_connections_def)

definition ready :: "engine \<Rightarrow> string \<Rightarrow> exec \<Rightarrow> job \<Rightarrow> store \<Rightarrow> bool" where
  "ready e jid x j st \<longleftrightarrow> s_poison st = None \<and> s_jobs st jid = Some j \<and> j_id j = jid \<and> j_state j = ''running''
     \<and> \<not> j_source_exhausted j \<and> authorized e j \<and> job_connections e j \<noteq> None \<and> job_times_ok j
     \<and> x_pc x = XTop \<and> j_id (x_job x) = jid \<and> j_spec (x_job x) = j_spec j"

definition same_grants :: "job \<Rightarrow> job \<Rightarrow> bool" where
  "same_grants j j' \<longleftrightarrow> j_id j' = j_id j \<and> j_spec j' = j_spec j \<and> j_owner j' = j_owner j \<and> j_source_fp j' = j_source_fp j \<and> j_sink_fp j' = j_sink_fp j"

text \<open>Announcing and making one call that succeeds, from the top of a retry.\<close>

lemma lucky_retry:
  assumes "s_poison st = None" "io_ok io" "s_jobs st jid = Some j" "j_id j = jid" "j_state j = ''running''" "job_times_ok j"
    and "x_pc x = XRetry op k" "j_id (x_cur x) = jid"
  obtains st' j' where "reaches (lucky sha enc e io now src) (x, st) (goto (XCall op k) x, st')"
    "s_poison st' = None" "s_jobs st' = (s_jobs st)(jid \<mapsto> j')" "j' = j\<lparr>j_phase := operation_name op, j_updated_at := io_now io\<rparr>"
proof -
  have pid: "j_id (j\<lparr>j_phase := operation_name op\<rparr>) = jid" "job_times_ok (j\<lparr>j_phase := operation_name op\<rparr>)"
    using assms(4,6) by (simp_all add: job_times_ok_def)
  obtain st' where u: "update sha io jid ''phase'' ''worker'' (''Starting '' @ operation_name op @ '' attempt'') []
       (phase_fn (operation_name op)) st = (Inr (j\<lparr>j_phase := operation_name op, j_updated_at := io_now io\<rparr>), st')"
    and st': "s_poison st' = None" "s_jobs st' = (s_jobs st)(jid \<mapsto> j\<lparr>j_phase := operation_name op, j_updated_at := io_now io\<rparr>)"
    by (rule update_ok [where fn = "phase_fn (operation_name op)" and j' = "j\<lparr>j_phase := operation_name op\<rparr>", OF assms(1-3) _ pid])
      (simp_all add: fns)
  have 1: "lucky sha enc e io now src (x, st) = (goto (XPhase op k) x, st)"
    using assms by (simp add: lucky_def lucky_input_def exec_step_def retry_top_def get_job_def)
  have "goto (XCall op k) (goto p x) = goto (XCall op k) x" for p by (simp add: goto_def)
  then have 2: "lucky sha enc e io now src (goto (XPhase op k) x, st) = (goto (XCall op k) x, st')"
    using assms(8) u by (simp add: lucky_def lucky_input_def exec_step_def with_update_def)
  have "reaches (lucky sha enc e io now src) (x, st) (goto (XCall op k) x, st')"
    by (rule reaches_step, rule 1, rule reaches_step, rule 2, rule reaches_refl)
  then show thesis by (rule that [OF _ st' refl])
qed

lemma lucky_commit:
  assumes "s_poison st = None" "io_ok io" "s_jobs st jid = Some j" "j_id j = jid" "job_times_ok j" "time_ok now"
    and "x_pc x = XCommit" "j_id (x_job x) = jid" "enc (pg_records (x_page x)) = Inr b" "j_state j = ''running''"
  obtains st' j' where "reaches (lucky sha enc e io now src) (x, st) (goto (if pg_done (x_page x) then XStop None else XTop) x, st')"
    "s_poison st' = None" "s_jobs st' = (s_jobs st)(jid \<mapsto> j')" "j' = (committed now (x_page x) j)\<lparr>j_updated_at := io_now io\<rparr>"
    "job_times_ok j'"
proof -
  let ?c = "committed now (x_page x) j"
  have c: "j_id ?c = jid" "job_times_ok ?c"
    using assms(4-6) by (simp_all add: committed_def job_times_ok_def opt_time_ok_def)
  let ?k = "if pg_done (x_page x) then ''succeeded'' else ''checkpoint''"
  obtain st' where u: "update sha io jid ?k ''worker'' (''Acknowledged '' @ itoa (int (length (pg_records (x_page x)))) @ '' records'')
       (hex_encode (sha b)) (commit_fn now (x_page x)) st = (Inr (?c\<lparr>j_updated_at := io_now io\<rparr>), st')"
    and st': "s_poison st' = None" "s_jobs st' = (s_jobs st)(jid \<mapsto> ?c\<lparr>j_updated_at := io_now io\<rparr>)"
    by (rule update_ok [where fn = "commit_fn now (x_page x)" and j' = ?c, OF assms(1-3) fns(2) c])
  have 1: "lucky sha enc e io now src (x, st) = (goto (if pg_done (x_page x) then XStop None else XNext) x, st')"
    using assms(7-9) u by (auto simp: lucky_def lucky_input_def exec_step_def commit_def with_update_def Let_def)
  have t: "job_times_ok (?c\<lparr>j_updated_at := io_now io\<rparr>)" using c(2) by (simp add: job_times_ok_def)
  show thesis
  proof (cases "pg_done (x_page x)")
    case True
    have "reaches (lucky sha enc e io now src) (x, st) (goto (if pg_done (x_page x) then XStop None else XTop) x, st')"
      by (rule reaches_step, rule 1) (simp add: True reaches_refl)
    then show thesis by (rule that [OF _ st' refl t])
  next
    case False
    have g: "get_job jid st' = Inr (?c\<lparr>j_updated_at := io_now io\<rparr>)" using st'(2) by (simp add: get_job_def)
    have "j_state (?c\<lparr>j_updated_at := io_now io\<rparr>) = ''running''" using assms(10) False by (simp add: committed_def)
    with g assms(8) have "lucky sha enc e io now src (goto XNext x, st') = (goto XTop (goto XNext x), st')"
      by (simp add: lucky_def lucky_input_def exec_step_def next_page_def)
    moreover have "goto XTop (goto XNext x) = goto XTop x" by (simp add: goto_def)
    ultimately have 2: "lucky sha enc e io now src (goto XNext x, st') = (goto XTop x, st')" by simp
    have "reaches (lucky sha enc e io now src) (x, st) (goto (if pg_done (x_page x) then XStop None else XTop) x, st')"
      by (rule reaches_step, rule 1, simp only: False if_False, rule reaches_step, rule 2, rule reaches_refl)
    then show thesis by (rule that [OF _ st' refl t])
  qed
qed

text \<open>One page: from the top of the loop to the next top, or to the end.\<close>

lemma lucky_page:
  assumes r: "ready e jid x j st" and io: "io_ok io" "time_ok now" and enc: "\<forall>rs. \<exists>b. enc rs = Inr b"
    and p: "src (j_cursor j) = p" "page_fits (j_spec j) (j_cursor j) p"
  obtains x' st' j' where "reaches (lucky sha enc e io now src) (x, st) (x', st')" "s_jobs st' jid = Some j'" "same_grants j j'"
    "j_cursor j' = pg_next p" "j_records j' = j_records j + int (length (pg_records p))"
    "if pg_done p then x_pc x' = XStop None \<and> j_state j' = ''succeeded'' else ready e jid x' j' st'"
proof -
  let ?f = "lucky sha enc e io now src"
  obtain src0 dst0 where cn: "job_connections e j = Some (src0, dst0)" using r by (auto simp: ready_def)
  define x1 where "x1 = goto (XRetry Reading 1) (x\<lparr>x_cur := j, x_src := src0, x_dst := dst0, x_page := empty_page\<rparr>)"
  have x1: "x_pc x1 = XRetry Reading 1" "x_cur x1 = j" "x_job x1 = x_job x" by (simp_all add: x1_def)
  have top: "?f (x, st) = (x1, st)"
    using r cn unfolding x1_def by (simp add: ready_def lucky_def lucky_input_def exec_step_def loop_top_def get_job_def)
  have j: "s_poison st = None" "s_jobs st jid = Some j" "j_id j = jid" "j_state j = ''running''" "job_times_ok j" "j_id (x_cur x1) = jid"
    using r x1 by (simp_all add: ready_def)
  obtain st2 j2 where s2: "reaches ?f (x1, st) (goto (XCall Reading 1) x1, st2)" "s_poison st2 = None"
    "s_jobs st2 = (s_jobs st)(jid \<mapsto> j2)" "j2 = j\<lparr>j_phase := operation_name Reading, j_updated_at := io_now io\<rparr>"
    by (rule lucky_retry [OF j(1) io(1) j(2-5) x1(1) j(6)])
  define x3 where "x3 = after_read p (goto (XCall Reading 1) x1)"
  have fits: "page_error (goto (XCall Reading 1) x1) p = None"
    using p(2) r x1 by (simp add: page_error_None page_fits_def ready_def page_error_def split: option.splits)
  have x3: "x3 = goto (if pg_records p \<noteq> [] then XRetry Writing 1 else XCommit) (x1\<lparr>x_page := p\<rparr>)"
    using fits by (simp add: x3_def after_read_def goto_def)
  have read: "?f (goto (XCall Reading 1) x1, st2) = (x3, st2)"
    using x1 p(1) by (simp add: lucky_def lucky_input_def exec_step_def connector_call_def x3_def)
  have x3s: "x_page x3 = p" "x_job x3 = x_job x" "x_cur x3 = j" using x3 x1 by simp_all
  have j2: "s_jobs st2 jid = Some j2" "j_id j2 = jid" "j_state j2 = ''running''" "job_times_ok j2"
    using s2(3,4) j by (simp_all add: job_times_ok_def)
  obtain x4 st4 j4 ph tm where s4: "reaches ?f (x3, st2) (x4, st4)" "s_poison st4 = None" "s_jobs st4 jid = Some j4" "x_pc x4 = XCommit"
    "x_page x4 = p" "x_job x4 = x_job x" "j4 = j2\<lparr>j_phase := ph, j_updated_at := tm\<rparr>"
  proof (cases "pg_records p = []")
    case True
    show thesis by (rule that [where ph = "j_phase j2" and tm = "j_updated_at j2", OF reaches_refl s2(2) j2(1)]) (use True x3 x1 in simp_all)
  next
    case False
    have pc: "x_pc x3 = XRetry Writing 1" "j_id (x_cur x3) = jid" using False x3 x3s j by simp_all
    obtain st5 j5 where s5: "reaches ?f (x3, st2) (goto (XCall Writing 1) x3, st5)" "s_poison st5 = None"
      "s_jobs st5 = (s_jobs st2)(jid \<mapsto> j5)" "j5 = j2\<lparr>j_phase := operation_name Writing, j_updated_at := io_now io\<rparr>"
      by (rule lucky_retry [OF s2(2) io(1) j2 pc])
    have w: "?f (goto (XCall Writing 1) x3, st5) = (goto XCommit (goto (XCall Writing 1) x3), st5)"
      by (simp add: lucky_def lucky_input_def exec_step_def connector_call_def)
    have rw: "reaches ?f (x3, st2) (goto XCommit (goto (XCall Writing 1) x3), st5)"
      by (rule reaches_trans, rule s5(1), rule reaches_step, rule w, rule reaches_refl)
    have "s_jobs st5 jid = Some j5" using s5(3) by simp
    from that [OF rw s5(2) this _ _ _ s5(4)] x3s show thesis by simp
  qed
  have j4: "j_id j4 = jid" "job_times_ok j4" "j_state j4 = ''running''" "same_grants j j4" "j_records j4 = j_records j"
    unfolding s4(7) using j2 j(3) by (simp_all add: job_times_ok_def s2(4) same_grants_def)
  have x4: "j_id (x_job x4) = jid" using r s4(6) by (simp add: ready_def)
  obtain b where b: "enc (pg_records (x_page x4)) = Inr b" using enc by blast
  obtain st6 j6 where s6: "reaches ?f (x4, st4) (goto (if pg_done (x_page x4) then XStop None else XTop) x4, st6)"
    "s_poison st6 = None" "s_jobs st6 = (s_jobs st4)(jid \<mapsto> j6)" "j6 = (committed now (x_page x4) j4)\<lparr>j_updated_at := io_now io\<rparr>"
    "job_times_ok j6"
    by (rule lucky_commit [where enc = enc, OF s4(2) io(1) s4(3) j4(1,2) io(2) s4(4) x4 b j4(3)])
  have all: "reaches ?f (x, st) (goto (if pg_done p then XStop None else XTop) x4, st6)"
    by (rule reaches_step, rule top, rule reaches_trans, rule s2(1), rule reaches_step, rule read,
        rule reaches_trans, rule s4(1)) (use s6(1) s4(5) in simp)
  have g: "same_grants j j6" "j_cursor j6 = pg_next p" "j_records j6 = j_records j + int (length (pg_records p))"
    "j_state j6 = (if pg_done p then ''succeeded'' else ''running'')" "j_source_exhausted j6 = pg_done p"
    using s6(4) s4(5) j4 by (simp_all add: committed_def same_grants_def)
  have "ready e jid (goto XTop x4) j6 st6" if "\<not> pg_done p"
    using that g s6 r s4(6) authorized_cong [of j6 j e] by (simp add: ready_def same_grants_def)
  then have "if pg_done p then x_pc (goto (if pg_done p then XStop None else XTop) x4) = XStop None \<and> j_state j6 = ''succeeded''
      else ready e jid (goto (if pg_done p then XStop None else XTop) x4) j6 st6" using g(4) by (cases "pg_done p") simp_all
  from that [OF all _ g(1,2,3) this] show thesis by (simp add: s6(3))
qed

fun source_chain :: "(string \<Rightarrow> page) \<Rightarrow> spec \<Rightarrow> string \<Rightarrow> page list \<Rightarrow> bool" where
  "source_chain src s c [] = False"
| "source_chain src s c (p # ps) = (src c = p \<and> page_fits s c p \<and> (if ps = [] then pg_done p else \<not> pg_done p \<and> source_chain src s (pg_next p) ps))"

lemma lucky_pages:
  assumes "ready e jid x j st" "io_ok io" "time_ok now" "\<forall>rs. \<exists>b. enc rs = Inr b" "source_chain src (j_spec j) (j_cursor j) ps"
  shows "\<exists>x' st' j'. reaches (lucky sha enc e io now src) (x, st) (x', st') \<and> x_pc x' = XStop None \<and> s_jobs st' jid = Some j'
     \<and> j_state j' = ''succeeded'' \<and> j_records j' = j_records j + sum_list (map (\<lambda>p. int (length (pg_records p))) ps)
     \<and> j_cursor j' = pg_next (last ps)"
  using assms(1,5)
proof (induction ps arbitrary: x j st)
  case (Cons p ps)
  then have p: "src (j_cursor j) = p" "page_fits (j_spec j) (j_cursor j) p" by simp_all
  obtain x1 st1 j1 where s: "reaches (lucky sha enc e io now src) (x, st) (x1, st1)" "s_jobs st1 jid = Some j1" "same_grants j j1"
    "j_cursor j1 = pg_next p" "j_records j1 = j_records j + int (length (pg_records p))"
    "if pg_done p then x_pc x1 = XStop None \<and> j_state j1 = ''succeeded'' else ready e jid x1 j1 st1"
    by (rule lucky_page [where src = src, OF Cons.prems(1) assms(2,3,4) p])
  show ?case
  proof (cases "ps = []")
    case True
    with Cons.prems(2) s show ?thesis by auto
  next
    case False
    then have n: "\<not> pg_done p" "source_chain src (j_spec j1) (j_cursor j1) ps"
      using Cons.prems(2) s(3,4) by (simp_all add: same_grants_def)
    with s(6) have "ready e jid x1 j1 st1" by simp
    from Cons.IH [OF this n(2)] obtain x' st' j' where
      "reaches (lucky sha enc e io now src) (x1, st1) (x', st')" "x_pc x' = XStop None" "s_jobs st' jid = Some j'"
      "j_state j' = ''succeeded''" "j_records j' = j_records j1 + sum_list (map (\<lambda>p. int (length (pg_records p))) ps)"
      "j_cursor j' = pg_next (last ps)" by blast
    with reaches_trans [OF s(1)] s(5) False show ?thesis by fastforce
  qed
qed simp

text \<open>The first step enters the loop; then the pages follow one another to the end of the source.\<close>

lemma transfer_runs:
  assumes "s_poison st = None" "s_jobs st jid = Some j" "j_id j = jid" "j_state j = ''running''" "\<not> j_source_exhausted j"
    and "authorized e j" "job_connections e j \<noteq> None" "job_times_ok j" "io_ok io" "time_ok now" "\<forall>rs. \<exists>b. enc rs = Inr b"
    and "source_chain src (j_spec j) (j_cursor j) ps"
  shows "\<exists>n x' st' j'. (lucky sha enc e io now src ^^ n) (start_exec j, st) = (x', st') \<and> x_pc x' = XStop None
     \<and> s_jobs st' jid = Some j' \<and> j_state j' = ''succeeded'' \<and> j_cursor j' = pg_next (last ps)
     \<and> j_records j' = j_records j + sum_list (map (\<lambda>p. int (length (pg_records p))) ps)"
proof -
  obtain src0 dst0 where cn: "job_connections e j = Some (src0, dst0)" using assms(7) by auto
  let ?x = "goto XTop ((start_exec j)\<lparr>x_src := src0, x_dst := dst0\<rparr>)"
  have 1: "lucky sha enc e io now src (start_exec j, st) = (?x, st)"
    using assms(6) cn by (simp add: lucky_def exec_step_def start_exec_def enter_def)
  have r: "ready e jid ?x j st" using assms by (simp add: ready_def start_exec_def)
  have enc: "\<forall>rs. \<exists>b. enc rs = Inr b" using assms(11) by blast
  obtain x' st' j' where s: "reaches (lucky sha enc e io now src) (?x, st) (x', st')" "x_pc x' = XStop None" "s_jobs st' jid = Some j'"
     "j_state j' = ''succeeded''" "j_records j' = j_records j + sum_list (map (\<lambda>p. int (length (pg_records p))) ps)"
     "j_cursor j' = pg_next (last ps)"
    using lucky_pages [OF r assms(9-12)] by blast
  have "reaches (lucky sha enc e io now src) (start_exec j, st) (x', st')" by (rule reaches_step, rule 1, rule s(1))
  with s show ?thesis unfolding reaches_def by blast
qed

text \<open>C2: A transfer that nothing disturbs completes. When the job is authorized and its connections are
  unchanged, the source returns a finite chain of fitting pages from the job's cursor, and the sink and
  the disk accept every write, the execution ends after finitely many steps without an error, the job
  has succeeded, its cursor is the one the last page ended with and it counts every record.\<close>

theorem transfer_completes:
  assumes "s_poison st = None" "s_jobs st jid = Some j" "j_id j = jid" "j_state j = ''running''" "\<not> j_source_exhausted j"
    and "authorized e j" "job_connections e j \<noteq> None" "job_times_ok j" "io_ok io" "time_ok now" "\<forall>rs. \<exists>b. enc rs = Inr b"
    and "source_chain src (j_spec j) (j_cursor j) ps"
  shows "\<exists>n x' st' j'. (lucky sha enc e io now src ^^ n) (start_exec j, st) = (x', st') \<and> x_pc x' = XStop None
     \<and> s_jobs st' jid = Some j' \<and> j_state j' = ''succeeded'' \<and> j_cursor j' = pg_next (last ps)
     \<and> j_records j' = j_records j + sum_list (map (\<lambda>p. int (length (pg_records p))) ps)"
  using assms by (rule transfer_runs)

subsection \<open>Instances\<close>

definition demo_running :: job where
  "demo_running = zero_job\<lparr>j_id := ''j'', j_owner := Some demo_account, j_spec := complete_spec demo_request,
     j_state := ''running'', j_created_at := 0, j_source_fp := ''f'', j_sink_fp := ''g''\<rparr>"

definition demo_page :: page where
  "demo_page = \<lparr>pg_records = [\<lparr>r_id = ''v'', r_values = [0, 0, 0], r_metadata = []\<rparr>], pg_next = [], pg_done = True\<rparr>"

definition demo_enc :: "vrecord list \<Rightarrow> string result" where
  "demo_enc rs = Inr (itoa (int (length rs)))"

lemma demo_running_simps [simp]:
  "j_id demo_running = ''j''" "j_owner demo_running = Some demo_account" "j_state demo_running = ''running''"
  "j_source_fp demo_running = ''f''" "j_sink_fp demo_running = ''g''" "j_cursor demo_running = []" "j_records demo_running = 0"
  "\<not> j_source_exhausted demo_running" "j_restarts demo_running = 0" "active demo_running"
  by (simp_all add: demo_running_def zero_job_def active_def)

lemma demo_running_spec [simp]:
  "sp_worker_id (j_spec demo_running) = []" "sp_source (j_spec demo_running) = ''a''" "sp_sink (j_spec demo_running) = ''b''"
  "sp_batch_size (j_spec demo_running) = 100" "sp_dimension (j_spec demo_running) = 3" "sp_max_attempts (j_spec demo_running) = 5"
  unfolding demo_running_def demo_complete by (simp_all add: demo_request_def)

lemma demo_running_times: "job_times_ok demo_running"
  by (simp add: job_times_ok_def demo_running_def zero_job_def opt_time_ok_def time_ok_0)

lemma demo_io_good: "io_ok demo_io"
  by (simp add: io_ok_def demo_io_def time_ok_0)

lemma demo_authorized: "authorized demo_engine demo_running"
  by (simp add: authorized_def connection_or_zero_def allows_read_def allows_write_def contains_subject_iff demo_account_def)
    (simp add: demo_engine_def)

lemma demo_connections: "job_connections demo_engine demo_running \<noteq> None"
  by (simp add: job_connections_def)

lemma demo_chain: "source_chain (\<lambda>_. demo_page) (j_spec demo_running) [] [demo_page]"
  by (simp add: page_fits_def demo_page_def validate_def f32_finite_def f32_exponent_def)

theorem transfer_completes_witness:
  "\<exists>n x' st' j'. (lucky demo_sha demo_enc demo_engine demo_io 0 (\<lambda>_. demo_page) ^^ n) (start_exec demo_running, job_store demo_running) = (x', st')
     \<and> s_jobs st' ''j'' = Some j' \<and> j_state j' = ''succeeded'' \<and> j_records j' = 1"
proof -
  have "\<forall>rs. \<exists>b. demo_enc rs = Inr b" by (simp add: demo_enc_def)
  moreover have "source_chain (\<lambda>_. demo_page) (j_spec demo_running) (j_cursor demo_running) [demo_page]" using demo_chain by simp
  ultimately have "\<exists>n x' st' j'. (lucky demo_sha demo_enc demo_engine demo_io 0 (\<lambda>_. demo_page) ^^ n) (start_exec demo_running, job_store demo_running) = (x', st')
     \<and> x_pc x' = XStop None \<and> s_jobs st' ''j'' = Some j' \<and> j_state j' = ''succeeded'' \<and> j_cursor j' = pg_next (last [demo_page])
     \<and> j_records j' = j_records demo_running + sum_list (map (\<lambda>p. int (length (pg_records p))) [demo_page])"
    using demo_running_times demo_io_good demo_authorized demo_connections time_ok_0
    by (intro transfer_completes) simp_all
  then show ?thesis by (simp add: demo_page_def) blast
qed

lemma demo_running_keyed: "keyed (s_jobs (job_store demo_running))"
  by (rule job_store_keyed) simp

text \<open>A first step of an execution, for the witnesses of the properties of runs.\<close>

definition demo_input :: xinput where
  "demo_input = \<lparr>xi_ctx = None, xi_io = demo_io, xi_now = 0, xi_read = Inr demo_page, xi_write = Inr (), xi_jitter = 0, xi_timer = False\<rparr>"

lemma demo_step:
  assumes "exec_step demo_sha demo_enc demo_engine demo_input x st = (x', st')"
  shows "(transfer demo_sha demo_enc jid)\<^sup>*\<^sup>* (x, st, g) (x', st', observe x demo_input x' g)"
  using transfer.own [OF assms] by blast

theorem checkpoint_after_ack_witness:
  "\<exists>x st g j. (transfer demo_sha demo_enc ''j'')\<^sup>*\<^sup>* (start_exec demo_running, job_store demo_running, no_ghost) (x, st, g)
     \<and> x_pc x = XTop \<and> s_jobs st ''j'' = Some j \<and> j_records j = moved (gh_pages g)"
proof -
  obtain x st where s: "exec_step demo_sha demo_enc demo_engine demo_input (start_exec demo_running) (job_store demo_running) = (x, st)"
    by force
  then have pc: "x_pc x = XTop"
    using demo_authorized demo_connections by (auto simp: exec_step_def start_exec_def enter_def)
  note r = demo_step [OF s, of "''j''" no_ghost]
  have j: "s_jobs (job_store demo_running) ''j'' = Some demo_running" "j_state demo_running \<noteq> ''succeeded''" by simp_all
  from checkpoint_after_ack [OF r demo_running_keyed j(1) demo_running_simps(8) j(2)] r pc show ?thesis by auto
qed

definition demo_cancelled :: job where
  "demo_cancelled = demo_running\<lparr>j_state := ''cancel_requested''\<rparr>"


theorem retries_bounded_witness:
  "\<exists>x st g. (transfer demo_sha demo_enc ''j'')\<^sup>*\<^sup>* (start_exec demo_running, job_store demo_running, no_ghost) (x, st, g)
     \<and> backoff_delay 3 99 < 5100 * millisecond"
proof -
  obtain x st where s: "exec_step demo_sha demo_enc demo_engine demo_input (start_exec demo_running) (job_store demo_running) = (x, st)"
    by force
  note r = demo_step [OF s, of "''j''" no_ghost]
  have j: "s_jobs (job_store demo_running) ''j'' = Some demo_running" by simp
  have w: "spec_within (j_spec demo_running)"
    unfolding demo_running_def demo_complete by (simp add: spec_within_def demo_request_def)
  from retries_bounded [OF r demo_running_keyed j w, of 99 3] r show ?thesis by auto
qed

theorem retry_terminates_witness:
  "\<exists>x'. (retry_move demo_sha demo_enc Reading ^^ 1) (goto (XRetry Reading 1) (start_exec demo_running)) x' \<and> int 1 \<le> 5 * 5"
proof -
  let ?x = "goto (XRetry Reading 1) (start_exec demo_running)"
  have s: "exec_step demo_sha demo_enc demo_engine demo_input ?x (job_store demo_running) = (goto (XPhase Reading 1) ?x, job_store demo_running)"
    by (simp add: exec_step_def retry_top_def get_job_def demo_input_def start_exec_def)
  have ne: "goto (XPhase Reading 1) ?x \<noteq> ?x" by (simp add: goto_def start_exec_def)
  have m: "(retry_move demo_sha demo_enc Reading ^^ 1) ?x (goto (XPhase Reading 1) ?x)"
    using s ne by (simp only: relpowp_1 retry_move_def) (auto simp: retrying_def)
  have "int 1 \<le> 5 * sp_max_attempts (j_spec (x_cur ?x))"
    by (rule retry_terminates [OF m]) (simp_all add: attempt_fits_def start_exec_def)
  with m show ?thesis by (auto simp: start_exec_def)
qed

theorem active_job_protected_witness:
  "\<exists>j'. s_jobs (snd (job_action demo_sha demo_io ''j'' ''resume'' ''u'' (job_store demo_running))) ''j'' = Some j'
     \<and> (j' = demo_running \<or> (\<exists>t. j' = demo_running\<lparr>j_state := ''cancel_requested'', j_updated_at := t\<rparr>))"
proof -
  let ?st = "job_store demo_running"
  have f: "s_jobs ?st (hex_encode ''z'') = None" by (simp add: hex_digit_def)
  have x: "j_id (x_job (start_exec zero_job)) \<noteq> ''j''" "j_id (x_cur (start_exec zero_job)) \<noteq> ''j''"
    by (simp_all add: start_exec_def zero_job_def)
  have r: "range_order [''j''] (s_jobs ?st)" by (simp add: range_order_def)
  have w: "w_id demo_worker \<noteq> []" by (simp add: demo_worker_def)
  have j: "s_jobs ?st ''j'' = Some demo_running" by simp
  show ?thesis
    by (rule active_job_protected [OF demo_running_keyed j demo_running_simps(10) demo_running_spec(1) r w _ f x, OF _ disjI1 [OF refl]]) simp
qed

theorem resume_race_witness:
  "\<exists>x1 st1 j1 st2 j2 st3. job_action demo_sha demo_io ''j'' ''resume'' ''u'' st1 = (Inr j1, st2)
     \<and> claim demo_sha demo_io (\<lambda>_. 0) [''j''] [''j''] st2 = (Inr (j2, True), st3)
     \<and> exec_step demo_sha demo_enc demo_engine demo_input x1 st3 = (goto XTop x1, st3)
     \<and> j_id (x_job x1) = ''j'' \<and> j_state j2 = ''running''"
proof -
  let ?x = "goto XCommit ((start_exec demo_cancelled)\<lparr>x_page := demo_page\<lparr>pg_done := False\<rparr>\<rparr>)"
  have i: "j_id demo_cancelled = ''j''" "j_state demo_cancelled = ''cancel_requested''" "sp_worker_id (j_spec demo_cancelled) = []"
    "job_times_ok demo_cancelled" "s_poison (job_store demo_cancelled) = None" "s_jobs (job_store demo_cancelled) = [''j'' \<mapsto> demo_cancelled]"
    using demo_running_times by (simp_all add: demo_cancelled_def job_times_ok_def)
  have e: "demo_enc (pg_records (x_page ?x)) = Inr (itoa 1)" by (simp add: demo_enc_def demo_page_def)
  have x: "x_pc ?x = XCommit" "\<not> pg_done (x_page ?x)" "j_id (x_job ?x) = ''j''" "time_ok (xi_now demo_input)" "xi_io demo_input = demo_io"
    using i by (simp_all add: start_exec_def demo_input_def time_ok_0)
  have n: "''j'' \<noteq> []" by simp
  from resume_race [where enc = demo_enc and i = demo_input and x = ?x and e = demo_engine and sha = demo_sha and actor = "''u''" and clk = "\<lambda>_. 0",
      OF i(5) demo_io_good i(6,1) n i(2-4) x(4,5) e x(1-3)]
  show ?thesis by fastforce
qed

end
