(* ===== verification/Memory_Db.thy ===== *)
theory Memory_Db
  imports Operator_Config
begin

section \<open>The teaching connector (src/examples/custom/memorydb/memorydb.go)\<close>

text \<open>
  An in-memory database is a map of records by identifier; copying a record is the identity on values.
  A Go map is ranged over in any order, so the listing takes the order. The cursor is a small JSON object,
  read with the strict decoder of \<^verbatim>\<open>connector.DecodeOptions\<close>.
\<close>

type_synonym memory = "string \<rightharpoonup> vrecord"

definition new_memory :: "vrecord list \<Rightarrow> memory" where
  "new_memory rs = foldl (\<lambda>db r. db(r_id r \<mapsto> r)) Map.empty rs"

definition memory_records :: "go_error option \<Rightarrow> string list \<Rightarrow> memory \<Rightarrow> vrecord list result" where
  "memory_records ctx ks db = (case ctx of Some e \<Rightarrow> Inl e | None \<Rightarrow> Inr (sort_key r_id (range_vals ks db)))"

record position =
  po_version :: int
  po_offset :: int

definition dec_position :: "string \<Rightarrow> json \<Rightarrow> position \<Rightarrow> position option" where
  "dec_position k v r =
     (if k = ''v'' then dec_int po_version_update v r
      else if k = ''offset'' then dec_int po_offset_update v r
      else None)"

definition position_of :: "string \<Rightarrow> position option" where
  "position_of cursor =
     (if cursor = [] then Some \<lparr>po_version = 0, po_offset = 0\<rparr>
      else case decode_options dec_position cursor \<lparr>po_version = 0, po_offset = 0\<rparr> of
        Inl e \<Rightarrow> None
      | Inr p \<Rightarrow> if po_version p \<noteq> 1 \<or> po_offset p < 0 then None else Some p)"

definition position_text :: "int \<Rightarrow> string" where
  "position_text n = jprint (JObj [(''v'', jint 1), (''offset'', jint n)])"

definition memory_read :: "go_error option \<Rightarrow> string list \<Rightarrow> memory \<Rightarrow> string \<Rightarrow> int \<Rightarrow> page result" where
  "memory_read ctx ks db cursor limit =
     (case ctx of Some e \<Rightarrow> Inl e | None \<Rightarrow>
        if limit < 1 then Inl (ErrNew ''limit must be positive'')
        else case position_of cursor of
          None \<Rightarrow> Inl (ErrNew ''invalid memorydb cursor'')
        | Some p \<Rightarrow>
            (case memory_records ctx ks db of
               Inl e \<Rightarrow> Inl e
             | Inr rs \<Rightarrow>
                 if int (length rs) < po_offset p then Inl (ErrNew ''cursor exceeds source dataset'')
                 else
                   let start = po_offset p; stop = start + min limit (int (length rs) - start) in
                   Inr \<lparr>pg_records = take (nat stop - nat start) (drop (nat start) rs),
                        pg_next = (if stop = int (length rs) then [] else position_text stop),
                        pg_done = (stop = int (length rs))\<rparr>))"

text \<open>\<open>ctx i\<close> is the context's error when record \<open>i\<close> is due.\<close>

fun memory_put :: "(nat \<Rightarrow> go_error option) \<Rightarrow> nat \<Rightarrow> vrecord list \<Rightarrow> memory \<Rightarrow> unit result \<times> memory" where
  "memory_put ctx i [] db = (Inr (), db)"
| "memory_put ctx i (r # rs) db =
     (case ctx i of Some e \<Rightarrow> (Inl e, db) | None \<Rightarrow> memory_put ctx (Suc i) rs (db(r_id r \<mapsto> r)))"

definition memory_upsert :: "(nat \<Rightarrow> go_error option) \<Rightarrow> vrecord list \<Rightarrow> memory \<Rightarrow> unit result \<times> memory" where
  "memory_upsert ctx rs db = (case ctx 0 of Some e \<Rightarrow> (Inl e, db) | None \<Rightarrow> memory_put (\<lambda>i. ctx (Suc i)) 0 rs db)"

subsection \<open>The factory\<close>

definition sample_records :: "vrecord list" where
  "sample_records =
     (let f = f32_signed False \<circ> the; q = f (f32_nearest 1 4); h = f (f32_nearest 1 2); t = f (f32_nearest 3 4) in
      [\<lparr>r_id = ''a'', r_values = [q, t], r_metadata = [(''title'', quoted ''First document''), (''count'', ''9007199254740993'')]\<rparr>,
       \<lparr>r_id = ''b'', r_values = [h, h], r_metadata = [(''active'', ''true'')]\<rparr>,
       \<lparr>r_id = ''c'', r_values = [t, q], r_metadata = [(''tags'', ''['' @ quoted ''example'' @ '','' @ quoted ''vector'' @ '']'')]\<rparr>])"

text \<open>The databases the factory has made so far, and the one it returns for the given options.\<close>

definition memory_factory :: "go_error option \<Rightarrow> string \<Rightarrow> (string \<rightharpoonup> memory) \<Rightarrow> string result \<times> (string \<rightharpoonup> memory)" where
  "memory_factory ctx raw dbs =
     (case ctx of Some e \<Rightarrow> (Inl e, dbs) | None \<Rightarrow>
        (case decode_options (\<lambda>k v name. if k = ''database'' then dec_str (\<lambda>f. f) v name else None) raw [] of
           Inl e \<Rightarrow> (Inl e, dbs)
         | Inr name \<Rightarrow>
             if name = [] then (Inl (ErrNew ''database is required''), dbs)
             else case dbs name of
                    Some db \<Rightarrow> (Inr name, dbs)
                  | None \<Rightarrow> (Inr name, dbs(name \<mapsto> new_memory (if name = ''sample'' then sample_records else [])))))"

end
