(* ===== verification/Sources.thy ===== *)
theory Sources
  imports Executor_Completes Memory_Db Native_Database
begin

section \<open>Exhaustive scans\<close>

text \<open>
  The contract of a source, as connector.go states it: the pages from a cursor hold what is left of the
  dataset, each within the limit, and the scan ends. \<open>paged_source\<close> is that contract; under it a scan
  returns every record once and in order. It is interpreted on the in-memory database and the demo.
\<close>

fun scan_source :: "(string \<Rightarrow> int \<Rightarrow> page result) \<Rightarrow> nat \<Rightarrow> int \<Rightarrow> string \<Rightarrow> vrecord list option" where
  "scan_source read 0 limit c = None"
| "scan_source read (Suc n) limit c =
     (case read c limit of
        Inl e \<Rightarrow> None
      | Inr p \<Rightarrow> if pg_done p then Some (pg_records p) else map_option ((@) (pg_records p)) (scan_source read n limit (pg_next p)))"

locale paged_source =
  fixes read :: "string \<Rightarrow> int \<Rightarrow> page result"
    and rest :: "string \<Rightarrow> vrecord list \<Rightarrow> bool"
    and rank :: "string \<Rightarrow> nat"
    and ok :: "int \<Rightarrow> bool"
  assumes read_rest: "rest c rs \<Longrightarrow> ok limit \<Longrightarrow> \<exists>p. read c limit = Inr p \<and> int (length (pg_records p)) \<le> limit
      \<and> (if pg_done p then pg_records p = rs
         else \<exists>rs'. rs = pg_records p @ rs' \<and> rest (pg_next p) rs' \<and> rank (pg_next p) < rank c \<and> pg_next p \<noteq> [])"
begin

lemma scan_complete:
  assumes "rest c rs" "ok limit" "rank c < n"
  shows "scan_source read n limit c = Some rs"
  using assms
proof (induction n arbitrary: c rs)
  case (Suc n)
  from read_rest [OF Suc.prems(1,2)] obtain p where p: "read c limit = Inr p"
    "if pg_done p then pg_records p = rs
     else \<exists>rs'. rs = pg_records p @ rs' \<and> rest (pg_next p) rs' \<and> rank (pg_next p) < rank c \<and> pg_next p \<noteq> []" by blast
  show ?case
  proof (cases "pg_done p")
    case False
    with p(2) obtain rs' where r: "rs = pg_records p @ rs'" "rest (pg_next p) rs'" "rank (pg_next p) < rank c" by auto
    then have "scan_source read n limit (pg_next p) = Some rs'" using Suc by simp
    with p(1) False r(1) show ?thesis by simp
  qed (use p in simp)
qed simp

text \<open>The pages of a scan form the chain of pages that a transfer follows, when each of them fits the job.\<close>

lemma scan_chain:
  assumes "rest c rs" "ok limit" "rank c < n"
    and fits: "\<And>c p. read c limit = Inr p \<Longrightarrow> (\<exists>rs'. rest c rs') \<Longrightarrow> page_fits s c p"
  shows "\<exists>ps. source_chain (\<lambda>c. case read c limit of Inr p \<Rightarrow> p | Inl e \<Rightarrow> empty_page) s c ps \<and> concat (map pg_records ps) = rs"
  using assms(1-3)
proof (induction n arbitrary: c rs)
  case (Suc n)
  from read_rest [OF Suc.prems(1,2)] obtain p where p: "read c limit = Inr p"
    "if pg_done p then pg_records p = rs
     else \<exists>rs'. rs = pg_records p @ rs' \<and> rest (pg_next p) rs' \<and> rank (pg_next p) < rank c \<and> pg_next p \<noteq> []" by blast
  have f: "page_fits s c p" using fits p(1) Suc.prems(1) by blast
  show ?case
  proof (cases "pg_done p")
    case True
    with p f show ?thesis by (intro exI [of _ "[p]"]) simp
  next
    case False
    with p(2) obtain rs' where r: "rs = pg_records p @ rs'" "rest (pg_next p) rs'" "rank (pg_next p) < rank c" by auto
    from Suc.IH [OF r(2) assms(2)] r(3) Suc.prems(3) obtain ps where
      ps: "source_chain (\<lambda>c. case read c limit of Inr p \<Rightarrow> p | Inl e \<Rightarrow> empty_page) s (pg_next p) ps" "concat (map pg_records ps) = rs'"
      by auto
    then have "ps \<noteq> []" by auto
    with p f False r(1) ps show ?thesis by (intro exI [of _ "p # ps"]) simp
  qed
qed simp

end

subsection \<open>The demo\<close>

definition demo_dataset :: "vrecord list" where
  "demo_dataset = map demo_record [0..<1000]"

definition demo_rest :: "string \<Rightarrow> vrecord list \<Rightarrow> bool" where
  "demo_rest c rs \<longleftrightarrow> (\<exists>n \<le> 1000. (if c = [] then n = 0 else c = itoa (int n)) \<and> rs = drop n demo_dataset)"

definition demo_at :: "string \<Rightarrow> nat" where
  "demo_at c = (if c = [] then 0 else nat (the (parse_int c)))"

lemma demo_rest_read:
  assumes "demo_rest c rs" "0 < limit" "limit < 2 ^ 62"
  shows "\<exists>p. demo_read None c limit = Inr p \<and> int (length (pg_records p)) \<le> limit
      \<and> (if pg_done p then pg_records p = rs
         else \<exists>rs'. rs = pg_records p @ rs' \<and> demo_rest (pg_next p) rs' \<and> 1000 - demo_at (pg_next p) < 1000 - demo_at c \<and> pg_next p \<noteq> [])"
proof -
  from assms(1) obtain n where n: "n \<le> 1000" "if c = [] then n = 0 else c = itoa (int n)" "rs = drop n demo_dataset"
    by (auto simp: demo_rest_def)
  have i64: "int64 (int n)" "int64 (int n + limit)" using n(1) assms(2,3) by (simp_all add: int64_def)
  have start: "(if c = [] then Some 0 else parse_int c) = Some (int n)" using n(2) i64(1) by (auto split: if_splits)
  then have at: "demo_at c = n" by (auto simp: demo_at_def split: if_splits)
  define m where "m = min (n + nat limit) 1000"
  have m: "min (wrap64 (int n + limit)) 1000 = int m" using i64(2) assms(2) by (simp add: wrap64_id m_def)
  have recs: "map demo_record [n..<m] = take (m - n) rs"
    using n(1) by (simp add: n(3) demo_dataset_def m_def take_map drop_map)
  let ?p = "\<lparr>pg_records = map demo_record [n..<m], pg_next = itoa (int m), pg_done = (int m = 1000)\<rparr>"
  have read: "demo_read None c limit = Inr ?p"
    using start n(1) m by (simp add: demo_read_def Let_def)
  show ?thesis
  proof (intro exI conjI)
    show "demo_read None c limit = Inr ?p" by (rule read)
    show "int (length (pg_records ?p)) \<le> limit" using assms(2) by (simp add: m_def)
    show "if pg_done ?p then pg_records ?p = rs
         else \<exists>rs'. rs = pg_records ?p @ rs' \<and> demo_rest (pg_next ?p) rs' \<and> 1000 - demo_at (pg_next ?p) < 1000 - demo_at c \<and> pg_next ?p \<noteq> []"
    proof (cases "m = 1000")
      case True
      then show ?thesis using recs by (simp add: n(3) demo_dataset_def)
    next
      case False
      then have lt: "n < m" "m < 1000" using assms(2) n(1) by (auto simp: m_def)
      have "demo_at (itoa (int m)) = m" using lt by (simp add: demo_at_def int64_def)
      moreover have "rs = take (m - n) rs @ drop m demo_dataset" using lt by (simp add: n(3)) (metis append_take_drop_id drop_drop le_add_diff_inverse2 less_imp_le)
      moreover have "demo_rest (itoa (int m)) (drop m demo_dataset)" using lt by (auto simp: demo_rest_def)
      ultimately show ?thesis using lt at False recs by auto
    qed
  qed
qed

interpretation demo: paged_source "demo_read None" demo_rest "\<lambda>c. 1000 - demo_at c" "\<lambda>limit. 0 < limit \<and> limit < 2 ^ 62"
  by unfold_locales (use demo_rest_read in blast)

lemma demo_start: "demo_rest [] demo_dataset"
  by (auto simp: demo_rest_def intro!: exI [of _ 0])

text \<open>The demo's vectors have finite components: their quotients round to small float32 values.\<close>

lemma bits_pos: "0 < n \<Longrightarrow> bits n = Suc (bits (n div 2))" "bits 0 = 0"
  by (subst bits.simps; simp)+

lemma bits_bounds: "n < 2 ^ bits n \<and> (0 < n \<longrightarrow> 0 < bits n \<and> 2 ^ (bits n - 1) \<le> n)"
proof (induction n rule: bits.induct)
  case (1 n)
  show ?case
  proof (cases "n = 0")
    case False
    with 1 have ih: "n div 2 < 2 ^ bits (n div 2)" "0 < n div 2 \<longrightarrow> 0 < bits (n div 2) \<and> 2 ^ (bits (n div 2) - 1) \<le> n div 2" by auto
    have "2 ^ bits (n div 2) \<le> n"
    proof (cases "n div 2 = 0")
      case True
      then show ?thesis using False by (simp add: bits_pos)
    next
      case False
      then have "0 < bits (n div 2)" "2 ^ (bits (n div 2) - 1) \<le> n div 2" using ih(2) by auto
      then show ?thesis by (cases "bits (n div 2)") auto
    qed
    moreover have "n < 2 ^ Suc (bits (n div 2))" using ih(1) by simp
    ultimately show ?thesis using False by (simp add: bits_pos)
  qed (simp add: bits_pos)
qed

lemma bits_mono:
  assumes "m \<le> n"
  shows "bits m \<le> bits n"
proof (rule ccontr)
  assume "\<not> bits m \<le> bits n"
  then have m: "0 < m" and le: "bits n \<le> bits m - 1" by (cases "m = 0"; simp add: bits_pos)+
  have "(2 :: nat) ^ bits n \<le> 2 ^ (bits m - 1)" using le by (rule power_increasing) simp
  also have "\<dots> \<le> m" using bits_bounds [of m] m by simp
  also have "\<dots> < 2 ^ bits n" using bits_bounds [of n] assms by linarith
  finally show False by simp
qed

lemma round_half_even_le: "num < k * den \<Longrightarrow> round_half_even num den \<le> k"
proof -
  assume "num < k * den"
  then have "num div den < k" by (simp add: less_mult_imp_div_less)
  then show ?thesis by (simp add: round_half_even_def Let_def)
qed

lemma f32_place_bound:
  assumes "0 < num" "0 < den"
  shows "fst (f32_scale num den (f32_place num den)) < 2 ^ 24 * snd (f32_scale num den (f32_place num den))"
proof -
  define e0 where "e0 = int (bits num) - int (bits den) - 24"
  define below where "below e \<longleftrightarrow> fst (f32_scale num den e) < 2 ^ 24 * snd (f32_scale num den e)" for e
  have n: "num < 2 ^ bits num" and d: "2 ^ (bits den - 1) \<le> den" "0 < bits den" using bits_bounds assms(2) by auto
  have succ: "below (e0 + 1)"
  proof (cases "0 \<le> e0 + 1")
    case True
    then have "bits num = (bits den - 1) + 24 + nat (e0 + 1)" using d(2) by (simp add: e0_def)
    then have "num < 2 ^ (bits den - 1) * 2 ^ 24 * 2 ^ nat (e0 + 1)" using n by (simp add: power_add)
    also have "\<dots> \<le> den * 2 ^ 24 * 2 ^ nat (e0 + 1)" using d(1) by simp
    finally show ?thesis using True by (simp add: below_def f32_scale_def mult_ac)
  next
    case False
    then have "bits num + nat (- (e0 + 1)) = (bits den - 1) + 24" using d(2) by (simp add: e0_def)
    then have "(2 :: nat) ^ bits num * 2 ^ nat (- (e0 + 1)) = 2 ^ (bits den - 1) * 2 ^ 24" by (metis power_add)
    moreover have "num * 2 ^ nat (- (e0 + 1)) < 2 ^ bits num * 2 ^ nat (- (e0 + 1))" using n by simp
    moreover have "2 ^ (bits den - 1) * 2 ^ 24 \<le> den * 2 ^ 24" using d(1) by simp
    ultimately show ?thesis using False by (simp add: below_def f32_scale_def mult.commute)
  qed
  define e1 where "e1 = (if below e0 then e0 else e0 + 1)"
  have e1: "below e1" using succ by (simp add: e1_def)
  have place: "f32_place num den = max e1 (- 149)" by (simp add: f32_place_def Let_def e1_def below_def e0_def)
  have "below (max e1 (- 149))"
  proof (cases "- 149 \<le> e1")
    case True
    with e1 show ?thesis by simp
  next
    case False
    then have "(2 :: nat) ^ 149 \<le> 2 ^ nat (- e1)" by (intro power_increasing) simp_all
    then have "num * 2 ^ 149 \<le> num * 2 ^ nat (- e1)" by simp
    moreover have "num * 2 ^ nat (- e1) < 2 ^ 24 * den" using e1 False by (simp add: below_def f32_scale_def)
    ultimately have "num * 2 ^ 149 < 2 ^ 24 * den" by (rule le_less_trans)
    moreover have "f32_scale num den (- 149) = (num * 2 ^ 149, den)" by (simp add: f32_scale_def)
    moreover have "max e1 (- 149) = - 149" using False by simp
    ultimately show ?thesis unfolding below_def by (simp only: fst_conv snd_conv)
  qed
  then show ?thesis by (simp add: place below_def)
qed

lemma f32_nearest_fraction:
  assumes "0 < den" "num \<le> den"
  shows "\<exists>b. f32_nearest num den = Some b"
proof (cases "num = 0")
  case False
  let ?e = "f32_place num den"
  have "?e \<le> 1 - 24" using bits_mono [OF assms(2)] by (simp add: f32_place_def Let_def)
  then have "nat (?e + 149) \<le> 126" by simp
  moreover have "round_half_even (fst (f32_scale num den ?e)) (snd (f32_scale num den ?e)) \<le> 2 ^ 24"
    using f32_place_bound [of num den] False assms(1) by (intro round_half_even_le) simp
  ultimately have "nat (?e + 149) * 2 ^ 23 + round_half_even (fst (f32_scale num den ?e)) (snd (f32_scale num den ?e)) < 255 * 2 ^ 23"
    by simp
  with False show ?thesis by (simp add: f32_nearest_def Let_def)
qed (simp add: f32_nearest_def)

lemma f32_nearest_finite:
  assumes "f32_nearest num den = Some b"
  shows "f32_finite (f32_signed False b)"
proof -
  have b: "b < 255 * 2 ^ 23" using assms by (auto simp: f32_nearest_def Let_def split: if_splits)
  then have "unat (f32_signed False b) = b" by (simp add: f32_signed_def unat_of_nat)
  moreover have "b div 2 ^ 23 < 255" using b by (simp add: less_mult_imp_div_less)
  ultimately show ?thesis by (simp add: f32_finite_def f32_exponent_def)
qed

lemma demo_values_ok: "i \<le> 1000 \<Longrightarrow> list_all f32_finite (demo_values i) \<and> length (demo_values i) = 4"
proof -
  assume "i \<le> 1000"
  then obtain a b c d where "f32_nearest i 1000 = Some a" "f32_nearest 1 4 = Some b" "f32_nearest 1 2 = Some c" "f32_nearest 3 4 = Some d"
    using f32_nearest_fraction [of 1000 i] f32_nearest_fraction [of 4 1] f32_nearest_fraction [of 2 1] f32_nearest_fraction [of 4 3] by auto
  then show ?thesis using f32_nearest_finite by (simp add: demo_values_def)
qed

text \<open>Records of the demo validate at dimension 4.\<close>

lemma dec_val_pad_small: "n < 10 ^ w \<Longrightarrow> dec_val (pad w n) = n"
  by (simp add: dec_val_pad)

lemma demo_ids_distinct:
  assumes "n \<le> 1000"
  shows "distinct (map r_id (map demo_record [0..<n]))"
proof -
  have "i = j" if "i < n" "j < n" "r_id (demo_record i) = r_id (demo_record j)" for i j
  proof -
    have "pad 6 i = pad 6 j" using that(3) by (simp add: demo_record_def del: pad.simps)
    moreover have "i < 10 ^ 6" "j < 10 ^ 6" using that(1,2) assms by simp_all
    ultimately show ?thesis using dec_val_pad_small [of i 6] dec_val_pad_small [of j 6] by metis
  qed
  then have "inj_on (\<lambda>i. r_id (demo_record i)) {0..<n}" by (intro inj_onI) simp
  then show ?thesis by (simp add: distinct_map comp_def)
qed

lemma json_valid_quoted: "raw_ok r \<Longrightarrow> json_valid (quoted r)"
  using json_parse_print [of "JStr r"] by (simp add: json_valid_def)

lemma demo_record_ok: "i < 1000 \<Longrightarrow> record_ok 4 (demo_record i)"
proof -
  assume i: "i < 1000"
  have "json_valid (itoa (int i))" using json_parse_print [of "jint (int i)"] by (simp add: json_valid_def jint_def)
  then have "json_valid (itoa_nat i)" by (simp add: itoa_def)
  moreover have "raw_ok ''demo''" by (simp add: raw_ok_def byte_def)
  ultimately show ?thesis using demo_values_ok [of i] i json_valid_quoted [of "''demo''"]
    by (simp add: record_ok_def demo_record_def)
qed


text \<open>A job that reads the demo at dimension 4 finds every page fitting.\<close>

lemma demo_fits:
  assumes "0 < limit" "limit < 2 ^ 62" "sp_dimension s = 4" "sp_batch_size s = limit" "demo_read None c limit = Inr p" "demo_rest c rs"
  shows "page_fits s c p"
proof -
  from demo_rest_read [OF assms(6,1,2)] assms(5) have
    p: "int (length (pg_records p)) \<le> limit" "if pg_done p then pg_records p = rs
         else \<exists>rs'. rs = pg_records p @ rs' \<and> demo_rest (pg_next p) rs' \<and> 1000 - demo_at (pg_next p) < 1000 - demo_at c \<and> pg_next p \<noteq> []"
    by auto
  from assms(6) obtain n where n: "n \<le> 1000" "rs = drop n demo_dataset" by (auto simp: demo_rest_def)
  obtain k where k: "pg_records p = take k rs" using p(2) by (cases "pg_done p") (auto intro: that [of "length rs"] that [of "length (pg_records p)"])
  have all: "list_all (record_ok 4) demo_dataset" using demo_record_ok by (auto simp: demo_dataset_def list_all_iff)
  have dist: "distinct (map r_id demo_dataset)" using demo_ids_distinct [of 1000] by (simp only: demo_dataset_def)
  have sub: "pg_records p = take k (drop n demo_dataset)" using k n(2) by simp
  have "list_all (record_ok 4) (pg_records p)" unfolding sub using all by (auto simp: list_all_iff dest: in_set_takeD in_set_dropD)
  moreover have "distinct (map r_id (pg_records p))" unfolding sub by (simp add: take_map [symmetric] drop_map [symmetric] dist)
  ultimately have "validate (pg_records p) 4 = Inr ()" by (simp add: validate_def validate_loop_iff)
  moreover have "pg_done p \<or> (pg_next p \<noteq> [] \<and> pg_next p \<noteq> c)" using p(2) by auto
  ultimately show ?thesis using p(1) assms(3,4) by (simp add: page_fits_def)
qed

subsection \<open>The in-memory database\<close>

definition memory_all :: "string list \<Rightarrow> memory \<Rightarrow> vrecord list" where
  "memory_all ks db = sort_key r_id (range_vals ks db)"

definition memory_rest :: "string list \<Rightarrow> memory \<Rightarrow> string \<Rightarrow> vrecord list \<Rightarrow> bool" where
  "memory_rest ks db c rs \<longleftrightarrow> length (memory_all ks db) < 2 ^ 62
     \<and> (\<exists>n \<le> length (memory_all ks db). c = (if n = 0 then [] else position_text (int n)) \<and> rs = drop n (memory_all ks db))"

definition memory_at :: "string \<Rightarrow> nat" where
  "memory_at c = (case position_of c of None \<Rightarrow> 0 | Some p \<Rightarrow> nat (po_offset p))"

lemma position_text_eq: "position_text n = ''{'' @ quoted ''v'' @ '':1,'' @ quoted ''offset'' @ '':'' @ itoa n @ ''}''"
  by (simp add: position_text_def jint_def itoa_def itoa_nat.simps digit_char_def char_of_def bit_0)

lemma position_of_text:
  assumes "0 \<le> n" "int64 n"
  shows "position_of (position_text n) = Some \<lparr>po_version = 1, po_offset = n\<rparr>"
proof -
  let ?v = "JObj [(''v'', jint 1), (''offset'', jint n)]"
  have k: "plain_key ''v''" "plain_key ''offset''" by code_simp+
  have "json_ok max_nesting ?v" using raw_ok_plain [OF k(1)] raw_ok_plain [OF k(2)] by (simp add: max_nesting_def jint_def)
  then have "pval (2 * length (jprint ?v) + 2) max_nesting (jprint ?v @ []) = Some (?v, [])"
    by (intro pval_print) (simp_all add: num_stop_def)
  then have first: "first_value (position_text n) = Some (?v, [])"
    by (simp add: first_value_def position_text_def del: jprint.simps pval.simps)
  have ends: "hd (position_text n) = CHR ''{''" "last (position_text n) = CHR ''}''" "position_text n \<noteq> []"
    by (simp_all add: position_text_eq)
  then have "trim_space (position_text n) = position_text n"
    by (intro trim_space_visible) (simp_all add: visible_def byte_def)
  moreover have "dec_members dec_position [(''v'', jint 1), (''offset'', jint n)] \<lparr>po_version = 0, po_offset = 0\<rparr>
      = Some \<lparr>po_version = 1, po_offset = n\<rparr>"
  proof -
    have i1: "int64 1" by (simp add: int64_def)
    have "dec_position ''v'' (jint 1) r = Some (r\<lparr>po_version := 1\<rparr>)" "dec_position ''offset'' (jint n) r = Some (r\<lparr>po_offset := n\<rparr>)" for r
      using dec_int_jint [OF i1, of po_version_update r] dec_int_jint [OF assms(2), of po_offset_update r] by (simp_all add: dec_position_def)
    then show ?thesis by (simp only: dec_members.simps fst_conv snd_conv key_name [OF k(1)] key_name [OF k(2)] option.case) simp
  qed
  ultimately have "decode_options dec_position (position_text n) \<lparr>po_version = 0, po_offset = 0\<rparr>
      = Inr \<lparr>po_version = 1, po_offset = n\<rparr>"
    using ends first by (simp add: decode_options_def skip_ws_def)
  with assms(1) ends show ?thesis by (simp add: position_of_def)
qed

lemma memory_rest_read:
  assumes "memory_rest ks db c rs" "0 < limit"
  shows "\<exists>p. memory_read None ks db c limit = Inr p \<and> int (length (pg_records p)) \<le> limit
      \<and> (if pg_done p then pg_records p = rs
         else \<exists>rs'. rs = pg_records p @ rs' \<and> memory_rest ks db (pg_next p) rs'
           \<and> length (memory_all ks db) - memory_at (pg_next p) < length (memory_all ks db) - memory_at c \<and> pg_next p \<noteq> [])"
proof -
  let ?all = "memory_all ks db"
  from assms(1) obtain n where n: "length ?all < 2 ^ 62" "n \<le> length ?all" "c = (if n = 0 then [] else position_text (int n))"
    "rs = drop n ?all" by (auto simp: memory_rest_def)
  have i64: "int64 (int k)" if "k \<le> length ?all" for k using that n(1) by (simp add: int64_def)
  have pos: "\<exists>v. position_of c = Some \<lparr>po_version = v, po_offset = int n\<rparr>"
    using n(3) position_of_text [OF _ i64 [OF n(2)]] by (cases "n = 0") (auto simp: position_of_def)
  then obtain v where v: "position_of c = Some \<lparr>po_version = v, po_offset = int n\<rparr>" by blast
  define m where "m = n + min (nat limit) (length ?all - n)"
  have m: "int n + min limit (int (length ?all) - int n) = int m" "m \<le> length ?all" using n(2) assms(2) by (auto simp: m_def)
  let ?p = "\<lparr>pg_records = take (m - n) (drop n ?all), pg_next = (if m = length ?all then [] else position_text (int m)), pg_done = (m = length ?all)\<rparr>"
  have "memory_read None ks db c limit = Inr ?p"
  proof (cases "limit \<le> int (length ?all) - int n")
    case True
    then have "int m = int n + limit" using m(1) by simp
    moreover from this have "nat (int n + limit) = m" by simp
    ultimately show ?thesis using True assms(2) n(2) by (simp add: memory_read_def v memory_records_def memory_all_def [symmetric] Let_def)
  next
    case False
    then have "m = length ?all" using m(1) by simp
    with False assms(2) n(2) show ?thesis by (simp add: memory_read_def v memory_records_def memory_all_def [symmetric] Let_def)
  qed
  moreover have "int (length (pg_records ?p)) \<le> limit" using assms(2) by (simp add: m_def)
  moreover have "if pg_done ?p then pg_records ?p = rs
         else \<exists>rs'. rs = pg_records ?p @ rs' \<and> memory_rest ks db (pg_next ?p) rs'
           \<and> length ?all - memory_at (pg_next ?p) < length ?all - memory_at c \<and> pg_next ?p \<noteq> []"
  proof (cases "m = length ?all")
    case True
    then show ?thesis by (simp add: n(4))
  next
    case False
    then have lt: "n < m" "m < length ?all" using m(2) n(2) assms(2) by (auto simp: m_def)
    have rs: "rs = take (m - n) (drop n ?all) @ drop m ?all" using lt n(4) by (metis append_take_drop_id drop_drop le_add_diff_inverse2 less_imp_le)
    have rest: "memory_rest ks db (position_text (int m)) (drop m ?all)"
      unfolding memory_rest_def using lt n(1) by (intro conjI exI [of _ m]) simp_all
    have at: "memory_at (position_text (int m)) = m" "memory_at c = n" using position_of_text [OF _ i64 [OF m(2)]] by (simp_all add: memory_at_def v)
    have ne: "position_text (int m) \<noteq> []" by (simp add: position_text_eq)
    have "length ?all - m < length ?all - n" using lt by simp
    then have "\<exists>rs'. rs = take (m - n) (drop n ?all) @ rs' \<and> memory_rest ks db (position_text (int m)) rs'
        \<and> length ?all - memory_at (position_text (int m)) < length ?all - memory_at c \<and> position_text (int m) \<noteq> []"
      unfolding at using rs rest ne by blast
    then show ?thesis using False by (simp only: page.simps if_False)
  qed
  ultimately show ?thesis by blast
qed

interpretation memory: paged_source "memory_read None ks db" "memory_rest ks db"
    "\<lambda>c. length (memory_all ks db) - memory_at c" "\<lambda>limit. 0 < limit" for ks db
  by unfold_locales (rule memory_rest_read)

end
