(* ===== verification/Record_Copy.thy ===== *)
theory Record_Copy
  imports Sources
begin

section \<open>A record through JSON and back\<close>

text \<open>
  What \<^verbatim>\<open>json.Marshal\<close> and \<^verbatim>\<open>json.Unmarshal\<close> make of a record: the identifier and the values stay, the
  metadata is sorted, compacted and has its HTML characters escaped, and a second copy changes nothing.
\<close>

subsection \<open>Escaping HTML characters of a raw string\<close>

definition html_plain :: "char \<Rightarrow> bool" where
  "html_plain c \<longleftrightarrow> c \<notin> set [CHR ''<'', CHR ''>'', CHR ''&'', CHR 0xE2]"

declare html_raw.simps(2) [simp del]

lemma html_raw_plain: "html_plain c \<Longrightarrow> html_raw (c # s) = c # html_raw s"
  by (simp add: html_raw.simps(2) html_plain_def)

lemma html_raw_plains: "list_all html_plain p \<Longrightarrow> html_raw (p @ s) = p @ html_raw s"
  by (induction p) (simp_all add: html_raw_plain)

lemma html_raw_escaped: "c \<in> set [CHR ''<'', CHR ''>'', CHR ''&''] \<Longrightarrow> html_raw (c # s) = escape_ascii c @ html_raw s"
  by (simp add: html_raw.simps(2))

lemma html_raw_line:
  "html_raw (CHR 0xE2 # CHR 0x80 # CHR 0xA8 # s) = u_escape ''2028'' @ html_raw s"
  "html_raw (CHR 0xE2 # CHR 0x80 # CHR 0xA9 # s) = u_escape ''2029'' @ html_raw s"
  by (simp_all add: html_raw.simps(2))

lemma html_raw_e2: "take 2 s \<noteq> [CHR 0x80, CHR 0xA8] \<Longrightarrow> take 2 s \<noteq> [CHR 0x80, CHR 0xA9] \<Longrightarrow> html_raw (CHR 0xE2 # s) = CHR 0xE2 # html_raw s"
  by (simp add: html_raw.simps(2) numeral_2_eq_2 numeral_3_eq_3)

text \<open>The cases of a nonempty raw string.\<close>

lemma html_raw_cases:
  obtains (none) "s = []"
    | (plain) c t where "s = c # t" "html_plain c" "html_raw s = c # html_raw t"
    | (html) c t where "s = c # t" "c \<in> set [CHR ''<'', CHR ''>'', CHR ''&'']" "html_raw s = escape_ascii c @ html_raw t"
    | (line) h t where "h = ''2028'' \<and> s = CHR 0xE2 # CHR 0x80 # CHR 0xA8 # t \<or> h = ''2029'' \<and> s = CHR 0xE2 # CHR 0x80 # CHR 0xA9 # t"
        "html_raw s = u_escape h @ html_raw t"
    | (lead) t where "s = CHR 0xE2 # t" "take 2 t \<noteq> [CHR 0x80, CHR 0xA8]" "take 2 t \<noteq> [CHR 0x80, CHR 0xA9]" "html_raw s = CHR 0xE2 # html_raw t"
proof (cases s)
  case (Cons c t)
  consider "html_plain c" | "c \<in> set [CHR ''<'', CHR ''>'', CHR ''&'']" | "c = CHR 0xE2" by (auto simp: html_plain_def)
  then show thesis
  proof cases
    case 3
    have two: "\<exists>r. t = a # b # r" if "take 2 t = [a, b]" for a b
      using that by (cases t; cases "tl t") (auto simp: numeral_2_eq_2)
    show thesis using 3 Cons two html_raw_line html_raw_e2 line lead by metis
  qed (use Cons html_raw_plain html_raw_escaped plain html in metis)+
qed (rule none)

lemma escape_html:
  assumes "c \<in> set [CHR ''<'', CHR ''>'', CHR ''&'']"
  shows "list_all html_plain (escape_ascii c)" "hd (escape_ascii c) = CHR 0x5C" "escape_ascii c \<noteq> []"
proof -
  have "list_all (\<lambda>c. list_all html_plain (escape_ascii c) \<and> hd (escape_ascii c) = CHR 0x5C \<and> escape_ascii c \<noteq> []) [CHR ''<'', CHR ''>'', CHR ''&'']"
    by code_simp
  with assms show "list_all html_plain (escape_ascii c)" "hd (escape_ascii c) = CHR 0x5C" "escape_ascii c \<noteq> []"
    unfolding list_all_iff by blast+
qed

lemma u_escape_plain: "list_all html_plain (u_escape ''2028'')" "list_all html_plain (u_escape ''2029'')"
  by (simp_all add: u_escape_def html_plain_def)

lemma html_head:
  assumes "html_raw s = x # r" "0x80 \<le> byte x"
  shows "\<exists>t. s = x # t \<and> r = html_raw t"
proof (cases s rule: html_raw_cases)
  case (html c t)
  with escape_html(2,3) [OF html(2)] assms(1) have "x = CHR 0x5C" by (cases "escape_ascii c") auto
  with assms(2) show ?thesis by (simp add: byte_def)
qed (use assms in \<open>auto simp: u_escape_def byte_def\<close>)

lemma html_take2:
  assumes "take 2 (html_raw s) = [CHR 0x80, y]" "0x80 \<le> byte y"
  shows "take 2 s = [CHR 0x80, y]"
proof -
  from assms(1) obtain r where r: "html_raw s = CHR 0x80 # y # r"
    by (cases "html_raw s"; cases "tl (html_raw s)") (auto simp: numeral_2_eq_2)
  have "0x80 \<le> byte (CHR 0x80)" by (simp add: byte_def)
  from html_head [OF r this] obtain t where t: "s = CHR 0x80 # t" "html_raw t = y # r" by auto
  from html_head [OF t(2) assms(2)] t(1) show ?thesis by (auto simp: numeral_2_eq_2)
qed

lemma html_raw_idem: "html_raw (html_raw s) = html_raw s"
proof (induction "length s" arbitrary: s rule: less_induct)
  case less
  show ?case
  proof (cases s rule: html_raw_cases)
    case (lead t)
    have "byte (CHR 0xA8) \<ge> 0x80" "byte (CHR 0xA9) \<ge> 0x80" by (simp_all add: byte_def)
    then have "html_raw (CHR 0xE2 # html_raw t) = CHR 0xE2 # html_raw (html_raw t)"
      using html_take2 [of t "CHR 0xA8"] html_take2 [of t "CHR 0xA9"] lead(2,3) by (intro html_raw_e2) auto
    with lead less show ?thesis by simp
  next
    case (line h t)
    then have "list_all html_plain (u_escape h)" using u_escape_plain by auto
    with line less show ?thesis by (auto simp: html_raw_plains)
  qed (use less in \<open>simp_all add: html_raw_plain html_raw_plains escape_html\<close>)
qed

text \<open>Escaping keeps a raw string well formed.\<close>

lemma is_hex_html: "is_hex c \<Longrightarrow> html_plain c"
  by (auto simp: html_plain_def is_hex_def is_hex_lower_def is_digit_def byte_def)

lemma simple_escape_html: "simple_escape c \<noteq> None \<Longrightarrow> html_plain c"
  by (auto simp: html_plain_def simple_escape_def split: if_splits)

lemma lex_string_html:
  "lex_string s = Some (r, q) \<Longrightarrow> lex_string (html_raw r @ CHR 0x22 # q) = Some (html_raw r, q)"
proof (induction "length s" arbitrary: s r rule: less_induct)
  case less
  from less.prems obtain c cs where s: "s = c # cs" by (cases s) auto
  have bs: "html_plain (CHR 0x5C)" "html_plain (CHR ''u'')" by (simp_all add: html_plain_def)
  consider (quote) "c = CHR 0x22" | (esc) "c = CHR 0x5C" | (plain) "c \<noteq> CHR 0x22" "c \<noteq> CHR 0x5C" by blast
  then show ?case
  proof cases
    case esc
    with less.prems s obtain e ds where cs: "cs = e # ds" by (auto split: list.splits)
    show ?thesis
    proof (cases "e = CHR ''u''")
      case True
      with less.prems s esc cs obtain t where t: "4 \<le> length ds" "list_all is_hex (take 4 ds)"
        "lex_string (drop 4 ds) = Some (t, q)" "r = c # e # take 4 ds @ t" by (auto simp: consume_Some_iff split: if_splits)
      then have "list_all html_plain (c # e # take 4 ds)" using esc True bs is_hex_html by (auto simp: list_all_iff)
      then have h: "html_raw r = c # e # take 4 ds @ html_raw t" using html_raw_plains [of "c # e # take 4 ds" t] t(4) by simp
      have "lex_string (html_raw t @ CHR 0x22 # q) = Some (html_raw t, q)" using less.hyps [OF _ t(3)] s cs by simp
      with h esc True t(1,2) show ?thesis by simp
    next
      case False
      with less.prems s esc cs obtain t where t: "simple_escape e \<noteq> None" "lex_string ds = Some (t, q)" "r = c # e # t"
        by (auto simp: consume_Some_iff split: if_splits)
      then have h: "html_raw r = c # e # html_raw t" using esc bs simple_escape_html by (simp add: html_raw_plain)
      have "lex_string (html_raw t @ CHR 0x22 # q) = Some (html_raw t, q)" using less.hyps [OF _ t(2)] s cs by simp
      with h esc False t(1) show ?thesis by simp
    qed
  next
    case plain
    with less.prems s obtain t where t: "\<not> byte c < 0x20" "lex_string cs = Some (t, q)" "r = c # t"
      by (auto simp: consume_Some_iff split: if_splits)
    have ih: "lex_string (html_raw t @ CHR 0x22 # q) = Some (html_raw t, q)" using less.hyps [OF _ t(2)] s by simp
    show ?thesis
    proof (cases r rule: html_raw_cases)
      case (html d u)
      then have "byte d < 0x80" by (auto simp: byte_def)
      then show ?thesis using html ih t(3) by (auto simp: lex_string_escape_ascii)
    next
      case (line h u)
      have hex: "length h = 4" "list_all is_hex h" using line(1) is_hex_fffd by auto
      from line(1) t(3) obtain y where y: "t = CHR 0x80 # y # u" "y = CHR 0xA8 \<or> y = CHR 0xA9" by auto
      then have "html_raw t = CHR 0x80 # y # html_raw u" by (auto simp: html_raw_plain html_plain_def)
      then have "lex_string (html_raw u @ CHR 0x22 # q) = Some (html_raw u, q)"
        using ih y(2) by (auto simp: byte_def consume_Some_iff)
      with line(2) hex show ?thesis by (simp add: lex_string_u_escape)
    qed (use t plain ih in auto)
  qed (use less.prems s in auto)
qed

lemma raw_ok_html: "raw_ok r \<Longrightarrow> raw_ok (html_raw r)"
  using lex_string_html by (simp add: raw_ok_def)

lemma json_ok_html: "json_ok d v \<Longrightarrow> json_ok d (html_json v)"
proof (induction v arbitrary: d)
  case (JObj ms)
  then show ?case by (force simp: list_all_iff raw_ok_html)
qed (auto simp: list_all_iff raw_ok_html)

lemma json_ok_mono: "json_ok d v \<Longrightarrow> d \<le> e \<Longrightarrow> json_ok e v"
proof (induction v arbitrary: d e)
  case (JArr xs)
  then show ?case using diff_le_mono [OF JArr.prems(2), of 1] by (fastforce simp: list_all_iff)
next
  case (JObj ms)
  then show ?case using diff_le_mono [OF JObj.prems(2), of 1] by (fastforce simp: list_all_iff)
qed auto

lemma html_json_idem: "html_json (html_json v) = html_json v"
proof (induction v)
  case (JObj ms)
  then show ?case by (force simp: html_raw_idem)
qed (auto simp: html_raw_idem)

subsection \<open>The copy\<close>

definition compact :: "string \<Rightarrow> string" where
  "compact raw = jprint (html_json (the (json_parse raw)))"

definition copied :: "vrecord \<Rightarrow> vrecord" where
  "copied r = r\<lparr>r_metadata := sort_key fst (map (apsnd compact) (r_metadata r))\<rparr>"

definition shallow :: "string \<Rightarrow> bool" where
  "shallow raw \<longleftrightarrow> (case json_parse raw of None \<Rightarrow> False | Some v \<Rightarrow> json_ok (max_nesting - 3) v)"

text \<open>
  What makes a record survive: identifier and keys are UTF-8, the keys distinct, the metadata valid and
  not nested to the limit of the decoder, and \<open>num\<close> writes each value so that it is read back.
\<close>

definition portable :: "(f32 \<Rightarrow> string) \<Rightarrow> vrecord \<Rightarrow> bool" where
  "portable num r \<longleftrightarrow> valid_utf8 (r_id r)
     \<and> list_all (\<lambda>v. f32_finite v \<and> num_ok (num v) \<and> f32_text (num v) = Some v) (r_values r)
     \<and> distinct (map fst (r_metadata r)) \<and> list_all (\<lambda>(k, raw). valid_utf8 k \<and> shallow raw) (r_metadata r)"

lemma compact_parse:
  assumes "shallow raw"
  shows "json_parse (compact raw) = Some (html_json (the (json_parse raw)))" "json_ok (max_nesting - 3) (html_json (the (json_parse raw)))"
proof -
  show ok: "json_ok (max_nesting - 3) (html_json (the (json_parse raw)))"
    using assms by (auto simp: shallow_def intro: json_ok_html split: option.splits)
  show "json_parse (compact raw) = Some (html_json (the (json_parse raw)))"
    unfolding compact_def by (rule json_parse_print [OF json_ok_mono [OF ok]]) simp
qed

lemma compact_idem: "shallow raw \<Longrightarrow> compact (compact raw) = compact raw"
  using compact_parse(1) [of raw] by (simp add: compact_def html_json_idem)

lemma shallow_compact: "shallow raw \<Longrightarrow> shallow (compact raw)"
  using compact_parse [of raw] by (simp add: shallow_def)

lemma copied_fields [simp]: "r_id (copied r) = r_id r" "r_values (copied r) = r_values r"
  by (simp_all add: copied_def)

lemma distinct_insort_keys: "distinct (map fst (insort_key fst m ms)) \<longleftrightarrow> fst m \<notin> fst ` set ms \<and> distinct (map fst ms)"
  for ms :: "(string \<times> 'a) list"
  by (induction ms) (auto simp: set_insort_key)

lemma distinct_sort_keys: "distinct (map fst (sort_key fst ms)) \<longleftrightarrow> distinct (map fst ms)" for ms :: "(string \<times> 'a) list"
  by (induction ms) (simp_all add: sort_key_def distinct_insort_keys flip: sort_key_def)

lemma portable_copied: "portable num r \<Longrightarrow> portable num (copied r)"
  by (auto simp: portable_def copied_def distinct_sort_keys list_all_iff shallow_compact)

lemma copied_idem: "portable num r \<Longrightarrow> copied (copied r) = copied r"
proof -
  assume p: "portable num r"
  let ?ms = "sort_key fst (map (apsnd compact) (r_metadata r))"
  have "map (apsnd compact) ?ms = ?ms"
    by (rule map_idI) (use p in \<open>auto simp: portable_def list_all_iff compact_idem\<close>)
  moreover have "sort_key fst ?ms = ?ms" by (intro sort_key_id_if_sorted) simp
  ultimately show ?thesis by (simp add: copied_def)
qed

text \<open>The JSON of a record, and what is read from it.\<close>

lemma all_some_values: "list_all (\<lambda>v. f32_finite v) vs \<Longrightarrow> all_some (map (gjson num) (map GFloat vs)) = Some (map (JNum \<circ> num) vs)"
  by (induction vs) simp_all

lemma gjson_metadata:
  assumes "list_all (\<lambda>(k, raw). json_parse raw \<noteq> None) ms"
  shows "gjson num (graws ms) = Some (JObj (map (\<lambda>(k, v). (json_escape k, v)) (sort_key fst (map (apsnd (html_json \<circ> the \<circ> json_parse)) ms))))"
proof -
  have "json_parse [] = None" by (simp add: json_parse_def skip_ws_def)
  then have "all_some (map (\<lambda>(k, v). gjson num v) (map (\<lambda>(k, v). (k, GRaw v)) ms)) = Some (map (html_json \<circ> the \<circ> json_parse \<circ> snd) ms)"
    using assms by (induction ms) auto
  moreover have "zip (map fst ms) (map (html_json \<circ> the \<circ> json_parse \<circ> snd) ms) = map (apsnd (html_json \<circ> the \<circ> json_parse)) ms"
    by (induction ms) auto
  moreover have "map fst (map (\<lambda>(k, v). (k, GRaw v)) ms) = map fst ms" by (induction ms) auto
  ultimately show ?thesis by (simp add: graws_def apfst_def map_prod_def del: map_map)
qed

definition record_json :: "(f32 \<Rightarrow> string) \<Rightarrow> vrecord \<Rightarrow> json" where
  "record_json num r = JObj ([(''id'', jstr (r_id r)), (''values'', JArr (map (JNum \<circ> num) (r_values r)))]
     @ (if r_metadata r = [] then [] else [(''metadata'', JObj (map (\<lambda>(k, v). (json_escape k, v))
         (sort_key fst (map (apsnd (html_json \<circ> the \<circ> json_parse)) (r_metadata r)))))]))"

lemma record_keys: "plain_key ''id''" "plain_key ''values''" "plain_key ''metadata''"
    "json_escape ''id'' = ''id''" "json_escape ''values'' = ''values''" "json_escape ''metadata'' = ''metadata''"
  by code_simp+

lemma gjson_record:
  assumes "portable num r"
  shows "gjson num (grecord r) = Some (record_json num r)"
proof -
  have "list_all (\<lambda>(k, raw). json_parse raw \<noteq> None) (r_metadata r)" "list_all f32_finite (r_values r)"
    using assms by (fastforce simp: portable_def shallow_def list_all_iff split: option.splits)+
  from gjson_metadata [OF this(1)] all_some_values [OF this(2)] show ?thesis
    by (simp add: grecord_def record_json_def gvec_def record_keys jstr_def del: map_map json_escape.simps)
qed

lemma record_json_ok:
  assumes "portable num r" "d = max_nesting - 1"
  shows "json_ok d (record_json num r)"
proof -
  have d: "0 < d" "0 < d - 1" "d - 1 - 1 = max_nesting - 3" by (simp_all add: assms(2) max_nesting_def)
  have m: "list_all (\<lambda>(k, v). raw_ok (json_escape k) \<and> json_ok (d - 1 - 1) v) (sort_key fst (map (apsnd (html_json \<circ> the \<circ> json_parse)) (r_metadata r)))"
    unfolding d(3) using assms(1) compact_parse(2) by (auto simp: portable_def list_all_iff raw_ok_escape)
  have v: "list_all (num_ok \<circ> num) (r_values r)" using assms(1) by (auto simp: portable_def list_all_iff)
  show ?thesis using d(1,2) m v raw_ok_plain [OF record_keys(1)] raw_ok_plain [OF record_keys(2)] raw_ok_plain [OF record_keys(3)]
    by (auto simp: record_json_def jstr_def raw_ok_escape list_all_iff)
qed

lemma put_member_new: "k \<notin> fst ` set ms \<Longrightarrow> put_member k v ms = ms @ [(k, v)]"
  by (induction ms) auto

lemma put_members: "distinct (map fst (acc @ ms)) \<Longrightarrow> foldl (\<lambda>acc (k, v). put_member k v acc) acc ms = acc @ ms"
proof (induction ms arbitrary: acc)
  case (Cons m ms)
  obtain k v where m: "m = (k, v)" by (cases m)
  have "put_member k v acc = acc @ [(k, v)]" using Cons.prems m by (intro put_member_new) auto
  with Cons.IH [of "acc @ [(k, v)]"] Cons.prems m show ?case by auto
qed simp

lemma dec_values: "list_all (\<lambda>v. f32_text (num v) = Some v) vs \<Longrightarrow> dec_vec (JArr (map (JNum \<circ> num) vs)) = Some vs"
proof -
  assume "list_all (\<lambda>v. f32_text (num v) = Some v) vs"
  then have "all_some (map dec_elem_f32 (map (JNum \<circ> num) vs)) = Some vs" by (induction vs) simp_all
  then show ?thesis by (simp add: dec_vec_def dec_slice_def nil_empty_def del: map_map)
qed

lemma dec_metadata:
  assumes "distinct (map fst ms)" "list_all (\<lambda>(k, v). valid_utf8 k) ms"
  shows "dec_raws (JObj (map (\<lambda>(k, v). (json_escape k, v)) ms)) = Some (Some (map (apsnd jprint) ms))"
proof -
  have "foldl (\<lambda>acc (k, x). put_member (json_unquote k) (jprint x) acc) acc (map (\<lambda>(k, v). (json_escape k, v)) ms)
      = foldl (\<lambda>acc (k, v). put_member k v acc) acc (map (apsnd jprint) ms)" for acc
    using assms(2) by (induction ms arbitrary: acc) (auto simp: json_unquote_escape)
  moreover have "foldl (\<lambda>acc (k, v). put_member k v acc) [] (map (apsnd jprint) ms) = [] @ map (apsnd jprint) ms"
    using assms(1) by (intro put_members) (simp add: comp_def)
  ultimately show ?thesis by (simp add: dec_raws_def)
qed

lemma sort_key_map: "sort_key fst (map (apsnd f) ms) = map (apsnd f) (sort_key fst ms)" for ms :: "(string \<times> 'a) list"
proof -
  have "insort_key fst (apsnd f m) (map (apsnd f) xs) = map (apsnd f) (insort_key fst m xs)" for m :: "string \<times> 'a" and xs
    by (induction xs) auto
  then show ?thesis by (induction ms) (simp_all add: sort_key_def)
qed

lemma dec_record_json:
  assumes "portable num r"
  shows "dec_struct dec_record (record_json num r) zero_record = Some (copied r)"
proof -
  let ?js = "sort_key fst (map (apsnd (html_json \<circ> the \<circ> json_parse)) (r_metadata r))"
  have d: "distinct (map fst ?js)" "list_all (\<lambda>(k, v). valid_utf8 k) ?js"
    using assms by (auto simp: portable_def distinct_sort_keys list_all_iff comp_def simp del: valid_utf8.simps)
  have c: "map (apsnd jprint) ?js = r_metadata (copied r)"
    by (auto simp: copied_def sort_key_map compact_def)
  have i: "dec_record ''id'' (jstr (r_id r)) x = Some (x\<lparr>r_id := r_id r\<rparr>)" for x
    using assms by (simp add: portable_def dec_record_def dec_str_jstr del: valid_utf8.simps)
  have v: "dec_record ''values'' (JArr (map (JNum \<circ> num) (r_values r))) x = Some (x\<lparr>r_values := r_values r\<rparr>)" for x
    using assms dec_values [of num "r_values r"] by (simp add: portable_def dec_record_def dec_field_def list_all_iff)
  have m: "dec_record ''metadata'' (JObj (map (\<lambda>(k, v). (json_escape k, v)) ?js)) x = Some (x\<lparr>r_metadata := r_metadata (copied r)\<rparr>)" for x
    using dec_metadata [OF d] c by (simp add: dec_record_def dec_field_def nil_empty_def)
  show ?thesis
  proof (cases "r_metadata r = []")
    case True
    then have "record_json num r = JObj [(''id'', jstr (r_id r)), (''values'', JArr (map (JNum \<circ> num) (r_values r)))]"
      by (simp add: record_json_def)
    then show ?thesis using True
      by (simp only: dec_struct_def json.case dec_members_key [OF record_keys(1)] dec_members_key [OF record_keys(2)] i v option.case
          dec_members.simps(1)) (simp add: zero_record_def copied_def)
  next
    case False
    then have "record_json num r = JObj [(''id'', jstr (r_id r)), (''values'', JArr (map (JNum \<circ> num) (r_values r))),
        (''metadata'', JObj (map (\<lambda>(k, v). (json_escape k, v)) ?js))]"
      by (simp add: record_json_def)
    then show ?thesis
      by (simp only: dec_struct_def json.case dec_members_key [OF record_keys(1)] dec_members_key [OF record_keys(2)]
          dec_members_key [OF record_keys(3)] i v m option.case dec_members.simps(1)) (simp add: zero_record_def)
  qed
qed

lemma copy_records:
  assumes "list_all (portable num) rs"
  shows "\<exists>b. marshal num (GArr (map grecord rs)) = Inr b \<and> unmarshal dec_records b = Some (map copied rs)"
proof -
  let ?v = "JArr (map (record_json num) rs)"
  have "all_some (map (gjson num) (map grecord rs)) = Some (map (record_json num) rs)"
    using assms by (induction rs) (simp_all add: gjson_record)
  then have m: "marshal num (GArr (map grecord rs)) = Inr (jprint ?v)" by (simp add: marshal_def del: map_map jprint.simps)
  have "0 < max_nesting" by (simp add: max_nesting_def)
  then have "json_ok max_nesting ?v" using assms record_json_ok by (simp add: list_all_iff)
  then have p: "json_parse (jprint ?v) = Some ?v" by (rule json_parse_print)
  have "all_some (map (\<lambda>x. dec_struct dec_record x zero_record) (map (record_json num) rs)) = Some (map copied rs)"
    using assms by (induction rs) (simp_all add: dec_record_json)
  then have "unmarshal dec_records (jprint ?v) = Some (map copied rs)"
    by (simp add: unmarshal_def p dec_records_def dec_slice_def nil_empty_def del: map_map jprint.simps)
  with m show ?thesis by blast
qed

end
