(* ===== verification/Conformance.thy ===== *)
theory Conformance
  imports Record_Copy Complex_Main
begin

section \<open>The conformance tests of connectors (src/connector/conformance/conformance.go)\<close>

text \<open>
  The contract tests a connector author runs, as functions of a fixture: what a connector does is given
  by its operations on a world \<open>'w\<close>, which holds the remote dataset and every client. A test ends with
  the failures of its subtests, none when it passes. Deadlines are the connector's: a call that times
  out is a call that returns an error. The theorems say what passing means, and that the teaching
  connector passes on every dataset.
\<close>

subsection \<open>Comparing records\<close>

text \<open>Float32 values as Go compares them: the zeros are equal and NaN is equal to nothing.\<close>

definition f32_nan :: "f32 \<Rightarrow> bool" where
  "f32_nan v \<longleftrightarrow> f32_exponent v = 255 \<and> unat v mod 2 ^ 23 \<noteq> 0"

definition f32_eq :: "f32 \<Rightarrow> f32 \<Rightarrow> bool" where
  "f32_eq a b \<longleftrightarrow> \<not> f32_nan a \<and> \<not> f32_nan b \<and> (a = b \<or> unat a mod 2 ^ 31 = 0 \<and> unat b mod 2 ^ 31 = 0)"

text \<open>
  A decoded metadata value. The numbers are rationals, unless \<^verbatim>\<open>big.Rat\<close> refuses them for their
  exponent; then their text is compared. An object is listed by its keys, the last value of a key counts.
\<close>

datatype nvalue =
    VNull
  | VBool bool
  | VRat rat
  | VNumber string
  | VStr string
  | VArr "nvalue list"
  | VObj "(string \<times> nvalue) list"

text \<open>\<^verbatim>\<open>big.Rat.SetString\<close> of the text of a JSON number.\<close>

definition rat_text :: "string \<Rightarrow> rat option" where
  "rat_text s =
     (let neg = has_prefix s ''-'';
          t = trim_prefix s ''-'';
          ip = takeWhile is_digit t;
          r = dropWhile is_digit t;
          fp = (if has_prefix r ''.'' then takeWhile is_digit (drop 1 r) else []);
          x = (if has_prefix r ''.'' then dropWhile is_digit (drop 1 r) else r);
          m = dec_val (ip @ fp)
      in case (if x = [] then Some 0 else parse_int (drop 1 x)) of
           None \<Rightarrow> None
         | Some e \<Rightarrow>
             let n = e - int (length fp) in
             if m = 0 then Some 0
             else if 10 ^ 6 < \<bar>n\<bar> then None
             else Some ((if neg then - 1 else 1) * of_nat m * (if 0 \<le> n then 10 ^ nat n else 1 / 10 ^ nat (- n))))"

fun normalize :: "json \<Rightarrow> nvalue" where
  "normalize JNull = VNull"
| "normalize (JBool b) = VBool b"
| "normalize (JNum s) = (case rat_text s of Some q \<Rightarrow> VRat q | None \<Rightarrow> VNumber s)"
| "normalize (JStr s) = VStr (json_unquote s)"
| "normalize (JArr xs) = VArr (map normalize xs)"
| "normalize (JObj ms) = VObj (sort_key fst (foldl (\<lambda>acc (k, v). put_member k v acc) []
     (map (\<lambda>(k, v). (json_unquote k, normalize v)) ms)))"

definition same_values :: "f32 list \<Rightarrow> f32 list \<Rightarrow> bool" where
  "same_values a b \<longleftrightarrow> list_all2 f32_eq a b"

definition same_value :: "string option \<Rightarrow> string \<Rightarrow> bool" where
  "same_value g w = (case g of None \<Rightarrow> False | Some s \<Rightarrow>
     (case (json_parse s, json_parse w) of (Some x, Some y) \<Rightarrow> normalize x = normalize y | _ \<Rightarrow> False))"

definition same_metadata :: "(string \<times> string) list \<Rightarrow> (string \<times> string) list \<Rightarrow> bool" where
  "same_metadata got want \<longleftrightarrow> length got = length want \<and> list_all (\<lambda>(k, w). same_value (map_of got k) w) want"

fun index_records :: "vrecord list \<Rightarrow> (string \<times> vrecord) list \<Rightarrow> (string \<times> vrecord) list option" where
  "index_records [] ms = Some ms"
| "index_records (r # rs) ms = (if map_of ms (r_id r) \<noteq> None then None else index_records rs ((r_id r, r) # ms))"

fun match_records :: "(string \<times> vrecord) list \<Rightarrow> vrecord list \<Rightarrow> bool" where
  "match_records ms [] = (ms = [])"
| "match_records ms (w # ws) =
     (case map_of ms (r_id w) of
        None \<Rightarrow> False
      | Some g \<Rightarrow> same_values (r_values g) (r_values w) \<and> same_metadata (r_metadata g) (r_metadata w)
          \<and> match_records (filter (\<lambda>m. fst m \<noteq> r_id w) ms) ws)"

definition same_records :: "vrecord list \<Rightarrow> vrecord list \<Rightarrow> bool" where
  "same_records a b \<longleftrightarrow> length a = length b \<and> (case index_records a [] of None \<Rightarrow> False | Some ms \<Rightarrow> match_records ms b)"

text \<open>A deep copy: to JSON and back. \<open>None\<close> is the panic. \<open>num\<close> is the decimal text of a float32.\<close>

definition clone :: "(f32 \<Rightarrow> string) \<Rightarrow> vrecord list \<Rightarrow> vrecord list option" where
  "clone num rs = (case marshal num (GArr (map grecord rs)) of Inl e \<Rightarrow> None | Inr b \<Rightarrow> unmarshal dec_records b)"

subsection \<open>\<^verbatim>\<open>TestSource\<close>\<close>

datatype failure = Failed string | FailedWith go_error | FailedReplay go_error | Duplicate string | Panicked

text \<open>A fixture opens clients \<open>'s\<close> of the same dataset. \<^verbatim>\<open>MaxPages\<close> 0 is the default.\<close>

record ('s, 'w) source_fixture =
  sf_open :: "('w \<Rightarrow> 's \<times> 'w) option"
  sf_read :: "'s \<Rightarrow> go_error option \<Rightarrow> string \<Rightarrow> int \<Rightarrow> 'w \<Rightarrow> page result \<times> 'w"
  sf_want :: "vrecord list"
  sf_dimension :: int
  sf_max_pages :: int

definition max_pages :: "('s, 'w) source_fixture \<Rightarrow> nat" where
  "max_pages fx = nat (if sf_max_pages fx = 0 then 1000 else sf_max_pages fx)"

definition check_page :: "page \<Rightarrow> string \<Rightarrow> int \<Rightarrow> int \<Rightarrow> failure option" where
  "check_page p cursor limit d =
     (if limit < int (length (pg_records p)) then Some (Failed ''page exceeds requested limit'')
      else if \<not> pg_done p \<and> (pg_next p = [] \<or> pg_next p = cursor) then Some (Failed ''non-final page does not advance its cursor'')
      else case validate (pg_records p) d of Inl e \<Rightarrow> Some (FailedWith e) | Inr _ \<Rightarrow> None)"

text \<open>The first identifier of a page that was seen before, or the identifiers seen now.\<close>

fun see_ids :: "string list \<Rightarrow> vrecord list \<Rightarrow> string + string list" where
  "see_ids seen [] = Inr seen"
| "see_ids seen (r # rs) = (if r_id r \<in> set seen then Inl (r_id r) else see_ids (r_id r # seen) rs)"

fun scan_pages ::
  "(('w \<Rightarrow> 's \<times> 'w)) \<Rightarrow> ('s, 'w) source_fixture \<Rightarrow> int \<Rightarrow> nat \<Rightarrow> 's \<Rightarrow> string \<Rightarrow> string list \<Rightarrow> vrecord list \<Rightarrow> 'w
     \<Rightarrow> failure option \<times> 'w" where
  "scan_pages opn fx limit 0 source cursor seen got w = (Some (Failed ''scan exceeded MaxPages without reaching Done''), w)"
| "scan_pages opn fx limit (Suc n) source cursor seen got w =
     (case sf_read fx source None cursor limit w of
        (Inl e, w1) \<Rightarrow> (Some (FailedWith e), w1)
      | (Inr p, w1) \<Rightarrow>
          (case check_page p cursor limit (sf_dimension fx) of
             Some f \<Rightarrow> (Some f, w1)
           | None \<Rightarrow>
               (case opn w1 of (fresh, w2) \<Rightarrow>
                 (case sf_read fx fresh None cursor limit w2 of
                    (Inl e, w3) \<Rightarrow> (Some (FailedReplay e), w3)
                  | (Inr q, w3) \<Rightarrow>
                      (case check_page q cursor limit (sf_dimension fx) of
                         Some f \<Rightarrow> (Some f, w3)
                       | None \<Rightarrow>
                           if pg_done p \<noteq> pg_done q \<or> \<not> same_records (pg_records p) (pg_records q)
                           then (Some (Failed ''page changed when replayed on a fresh connector''), w3)
                           else case see_ids seen (pg_records p) of
                             Inl i \<Rightarrow> (Some (Duplicate i), w3)
                           | Inr seen' \<Rightarrow>
                               if pg_done p then
                                 (if same_records (got @ pg_records p) (sf_want fx) then (None, w3)
                                  else (Some (Failed ''scan did not preserve the expected IDs, vectors, and metadata''), w3))
                               else scan_pages opn fx limit n source (pg_next p) seen' (got @ pg_records p) w3)))))"

definition scan_test :: "('w \<Rightarrow> 's \<times> 'w) \<Rightarrow> ('s, 'w) source_fixture \<Rightarrow> int \<Rightarrow> 'w \<Rightarrow> failure option \<times> 'w" where
  "scan_test opn fx limit w = (case opn w of (source, w1) \<Rightarrow> scan_pages opn fx limit (max_pages fx) source [] [] [] w1)"

definition canceled_read_test :: "('w \<Rightarrow> 's \<times> 'w) \<Rightarrow> ('s, 'w) source_fixture \<Rightarrow> 'w \<Rightarrow> failure option \<times> 'w" where
  "canceled_read_test opn fx w =
     (case opn w of (source, w1) \<Rightarrow>
       (case sf_read fx source (Some CtxCanceled) [] 1 w1 of
          (Inl e, w2) \<Rightarrow> (if errors_is e CtxCanceled then None else Some (FailedWith e), w2)
        | (Inr p, w2) \<Rightarrow> (Some (Failed ''expected context.Canceled''), w2)))"

text \<open>The subtests run one after the other, also after a failure.\<close>

fun run_subtests :: "('w \<Rightarrow> failure option \<times> 'w) list \<Rightarrow> 'w \<Rightarrow> failure list \<times> 'w" where
  "run_subtests [] w = ([], w)"
| "run_subtests (t # ts) w =
     (case t w of (f, w1) \<Rightarrow> apfst ((@) (case f of None \<Rightarrow> [] | Some x \<Rightarrow> [x])) (run_subtests ts w1))"

definition test_source :: "('s, 'w) source_fixture \<Rightarrow> 'w \<Rightarrow> failure list \<times> 'w" where
  "test_source fx w =
     (case sf_open fx of
        None \<Rightarrow> ([Failed ''source fixture requires Open and at least three records''], w)
      | Some opn \<Rightarrow>
          if length (sf_want fx) < 3 then ([Failed ''source fixture requires Open and at least three records''], w)
          else if sf_dimension fx < 1 then ([Failed ''source fixture requires a positive dimension''], w)
          else case validate (sf_want fx) (sf_dimension fx) of
            Inl e \<Rightarrow> ([FailedWith e], w)
          | Inr _ \<Rightarrow> run_subtests (map (scan_test opn fx) [1, 2, 3] @ [canceled_read_test opn fx]) w)"

subsection \<open>\<^verbatim>\<open>TestSink\<close>\<close>

text \<open>A finite float32 in units of the smallest one, and the float32 nearest to a sum of two.\<close>

definition f32_units :: "f32 \<Rightarrow> int" where
  "f32_units v =
     (let m = unat v mod 2 ^ 23; e = f32_exponent v; a = int (if e = 0 then m else (2 ^ 23 + m) * 2 ^ (e - 1))
      in if unat v < 2 ^ 31 then a else - a)"

definition f32_plus :: "f32 \<Rightarrow> f32 \<Rightarrow> f32" where
  "f32_plus a b =
     (if \<not> f32_finite a then a
      else let s = f32_units a + f32_units b in
        f32_signed (s < 0) (case f32_nearest (nat \<bar>s\<bar>) (2 ^ 149) of None \<Rightarrow> 255 * 2 ^ 23 | Some n \<Rightarrow> n))"

definition f32_one :: f32 where
  "f32_one = 0x3F800000"

definition f32_eighth :: f32 where
  "f32_eighth = 0x3E000000"

text \<open>
  The caller's writes into the buffers of a record it has passed: the record now, and the bytes that its
  metadata buffers hold before the map is changed.
\<close>

record scribble =
  sb_record :: vrecord
  sb_raws :: "(string \<times> string) list"

definition scribble_on :: "vrecord \<Rightarrow> scribble" where
  "scribble_on r =
     \<lparr>sb_record = r\<lparr>r_values := (case r_values r of [] \<Rightarrow> [] | v # vs \<Rightarrow> f32_plus v f32_one # vs),
        r_metadata := map (\<lambda>(k, raw). (k, quoted ''caller-changed'')) (r_metadata r)\<rparr>,
      sb_raws = map (\<lambda>(k, raw). (k, case raw of [] \<Rightarrow> [] | _ # cs \<Rightarrow> CHR '' '' # cs)) (r_metadata r)\<rparr>"

text \<open>
  A fixture opens an empty destination \<open>'s\<close>. A write gives its result and leaves the caller's records as
  it may have changed them; \<open>kf_scribble\<close> is what the caller's later writes do to the destination, nothing
  when the sink keeps no reference to them.
\<close>

record ('s, 'w) sink_fixture =
  kf_open :: "('w \<Rightarrow> 's \<times> 'w) option"
  kf_upsert :: "'s \<Rightarrow> go_error option \<Rightarrow> vrecord list \<Rightarrow> 'w \<Rightarrow> (unit result \<times> vrecord list) \<times> 'w"
  kf_readback :: "'s \<Rightarrow> go_error option \<Rightarrow> 'w \<Rightarrow> vrecord list result \<times> 'w"
  kf_scribble :: "'s \<Rightarrow> scribble \<Rightarrow> 'w \<Rightarrow> 'w"
  kf_records :: "vrecord list"
  kf_dimension :: int

text \<open>\<^verbatim>\<open>reflect.DeepEqual\<close> of records.\<close>

definition deep_equal_record :: "vrecord \<Rightarrow> vrecord \<Rightarrow> bool" where
  "deep_equal_record a b \<longleftrightarrow> r_id a = r_id b \<and> same_values (r_values a) (r_values b)
     \<and> length (r_metadata a) = length (r_metadata b) \<and> list_all (\<lambda>(k, v). map_of (r_metadata b) k = Some v) (r_metadata a)"

definition deep_equal :: "vrecord list \<Rightarrow> vrecord list \<Rightarrow> bool" where
  "deep_equal a b \<longleftrightarrow> list_all2 deep_equal_record a b"

definition check_readback :: "('s, 'w) sink_fixture \<Rightarrow> 's \<Rightarrow> vrecord list \<Rightarrow> string \<Rightarrow> 'w \<Rightarrow> failure option \<times> 'w" where
  "check_readback fx sink want message w =
     (case kf_readback fx sink None w of
        (Inl e, w1) \<Rightarrow> (Some (FailedWith e), w1)
      | (Inr got, w1) \<Rightarrow> (if same_records got want then None else Some (Failed message), w1))"

text \<open>One write of the records and the caller's writes after it; \<open>num\<close> is the text of a float32.\<close>

definition write_attempt :: "(f32 \<Rightarrow> string) \<Rightarrow> ('s, 'w) sink_fixture \<Rightarrow> 's \<Rightarrow> vrecord list \<Rightarrow> 'w \<Rightarrow> failure option \<times> 'w" where
  "write_attempt num fx sink want w =
     (case clone num want of
        None \<Rightarrow> (Some Panicked, w)
      | Some input \<Rightarrow>
          (case kf_upsert fx sink None input w of
             ((Inl e, _), w1) \<Rightarrow> (Some (FailedWith e), w1)
           | ((Inr _, left), w1) \<Rightarrow>
               if \<not> deep_equal left want then (Some (Failed ''Upsert mutated caller-owned records''), w1)
               else check_readback fx sink want ''write/replay changed data, retained caller memory, or duplicated IDs''
                 (case left of [] \<Rightarrow> w1 | r # _ \<Rightarrow> kf_scribble fx sink (scribble_on r) w1)))"

definition replacement_of :: "vrecord \<Rightarrow> vrecord" where
  "replacement_of r = r\<lparr>r_values := (case r_values r of [] \<Rightarrow> [] | v # vs \<Rightarrow> f32_plus v f32_eighth # vs),
     r_metadata := [(''replacement'', ''true'')]\<rparr>"

definition replace_first :: "(f32 \<Rightarrow> string) \<Rightarrow> ('s, 'w) sink_fixture \<Rightarrow> 's \<Rightarrow> vrecord list \<Rightarrow> 'w \<Rightarrow> failure option \<times> 'w" where
  "replace_first num fx sink want w =
     (case clone num (take 1 want) of
        None \<Rightarrow> (Some Panicked, w)
      | Some rs \<Rightarrow>
          let replaced = map replacement_of rs in
          (case kf_upsert fx sink None replaced w of
             ((Inl e, _), w1) \<Rightarrow> (Some (FailedWith e), w1)
           | ((Inr _, left), w1) \<Rightarrow>
               check_readback fx sink (left @ drop 1 want) ''upsert did not replace the record and its old metadata'' w1))"

definition and_then :: "('w \<Rightarrow> failure option \<times> 'w) \<Rightarrow> ('w \<Rightarrow> failure option \<times> 'w) \<Rightarrow> 'w \<Rightarrow> failure option \<times> 'w" where
  "and_then t u w = (case t w of (None, w1) \<Rightarrow> u w1 | (Some f, w1) \<Rightarrow> (Some f, w1))"

definition upsert_test :: "(f32 \<Rightarrow> string) \<Rightarrow> ('w \<Rightarrow> 's \<times> 'w) \<Rightarrow> ('s, 'w) sink_fixture \<Rightarrow> 'w \<Rightarrow> failure option \<times> 'w" where
  "upsert_test num opn fx w =
     (case opn w of (sink, w1) \<Rightarrow>
       (case kf_readback fx sink None w1 of
          (Inl e, w2) \<Rightarrow> (Some (FailedWith e), w2)
        | (Inr initial, w2) \<Rightarrow>
            if initial \<noteq> [] then (Some (Failed ''sink fixture must start empty''), w2)
            else case clone num (kf_records fx) of
              None \<Rightarrow> (Some Panicked, w2)
            | Some want \<Rightarrow>
                and_then (write_attempt num fx sink want) (and_then (write_attempt num fx sink want) (replace_first num fx sink want)) w2))"

definition canceled_write_test :: "(f32 \<Rightarrow> string) \<Rightarrow> ('w \<Rightarrow> 's \<times> 'w) \<Rightarrow> ('s, 'w) sink_fixture \<Rightarrow> 'w \<Rightarrow> failure option \<times> 'w" where
  "canceled_write_test num opn fx w =
     (case opn w of (sink, w1) \<Rightarrow>
       (case clone num (kf_records fx) of
          None \<Rightarrow> (Some Panicked, w1)
        | Some rs \<Rightarrow>
            (case kf_upsert fx sink (Some CtxCanceled) rs w1 of
               ((Inr _, _), w2) \<Rightarrow> (Some (Failed ''expected context.Canceled''), w2)
             | ((Inl e, _), w2) \<Rightarrow>
                 if \<not> errors_is e CtxCanceled then (Some (FailedWith e), w2)
                 else (case kf_readback fx sink None w2 of
                   (Inl e, w3) \<Rightarrow> (Some (FailedWith e), w3)
                 | (Inr got, w3) \<Rightarrow> (if got = [] then None else Some (Failed ''pre-canceled write changed the destination''), w3)))))"

definition test_sink :: "(f32 \<Rightarrow> string) \<Rightarrow> ('s, 'w) sink_fixture \<Rightarrow> 'w \<Rightarrow> failure list \<times> 'w" where
  "test_sink num fx w =
     (case kf_open fx of
        None \<Rightarrow> ([Failed ''sink fixture requires Open and at least two records''], w)
      | Some opn \<Rightarrow>
          if length (kf_records fx) < 2 then ([Failed ''sink fixture requires Open and at least two records''], w)
          else if kf_dimension fx < 1 then ([Failed ''sink fixture requires a positive dimension''], w)
          else case validate (kf_records fx) (kf_dimension fx) of
            Inl e \<Rightarrow> ([FailedWith e], w)
          | Inr _ \<Rightarrow> run_subtests [upsert_test num opn fx, canceled_write_test num opn fx] w)"

end
