(* ===== verification/Conformance_Properties.thy ===== *)
theory Conformance_Properties
  imports Conformance
begin

section \<open>What the conformance tests show\<close>

text \<open>
  The comparison of records is equality up to the representation of numbers, whatever the order of the
  lists; a stable source that passes is exhausted by its scans without loss; and the teaching connector
  passes both tests, as a source by the laws of \<open>paged_source\<close>, as a sink by the copy of its records.
\<close>

subsection \<open>The comparison\<close>

definition same_record :: "vrecord \<Rightarrow> vrecord \<Rightarrow> bool" where
  "same_record g w \<longleftrightarrow> same_values (r_values g) (r_values w) \<and> same_metadata (r_metadata g) (r_metadata w)"

lemma index_records_iff:
  "index_records rs ms = Some ms' \<longleftrightarrow>
     distinct (map r_id rs) \<and> set (map r_id rs) \<inter> fst ` set ms = {} \<and> ms' = rev (map (\<lambda>r. (r_id r, r)) rs) @ ms"
proof (induction rs arbitrary: ms)
  case (Cons r rs)
  show ?case
  proof (cases "map_of ms (r_id r) = None")
    case True
    then have "r_id r \<notin> fst ` set ms" by (simp add: map_of_eq_None_iff)
    with True Cons.IH [of "(r_id r, r) # ms"] show ?thesis by auto
  next
    case False
    then have "r_id r \<in> fst ` set ms" using map_of_eq_None_iff by metis
    with False show ?thesis by auto
  qed
qed auto

lemma match_records_iff:
  "distinct (map fst ms) \<Longrightarrow> match_records ms ws \<longleftrightarrow>
     distinct (map r_id ws) \<and> set (map r_id ws) = fst ` set ms
     \<and> (\<forall>(k, g) \<in> set ms. \<forall>w \<in> set ws. k = r_id w \<longrightarrow> same_record g w)"
proof (induction ws arbitrary: ms)
  case (Cons w ws)
  let ?ms = "filter (\<lambda>m. fst m \<noteq> r_id w) ms"
  have keys: "fst ` set ?ms = fst ` set ms - {r_id w}" by auto
  have d: "distinct (map fst ?ms)" using Cons.prems by (simp add: distinct_map_filter)
  show ?case
  proof (cases "map_of ms (r_id w)")
    case None
    then have "r_id w \<notin> fst ` set ms" by (simp add: map_of_eq_None_iff)
    with None show ?thesis by auto
  next
    case (Some g)
    then have g: "(r_id w, g) \<in> set ms" by (rule map_of_SomeD)
    have only: "h = g" if "(r_id w, h) \<in> set ms" for h using that g Cons.prems by (meson eq_key_imp_eq_value)
    have "match_records ms (w # ws) \<longleftrightarrow> same_record g w \<and> match_records ?ms ws" using Some by (simp add: same_record_def)
    also have "\<dots> \<longleftrightarrow> same_record g w \<and> distinct (map r_id ws) \<and> set (map r_id ws) = fst ` set ms - {r_id w}
        \<and> (\<forall>(k, h) \<in> set ?ms. \<forall>v \<in> set ws. k = r_id v \<longrightarrow> same_record h v)"
      using Cons.IH [OF d] keys by simp
    also have "\<dots> \<longleftrightarrow> distinct (map r_id (w # ws)) \<and> set (map r_id (w # ws)) = fst ` set ms
        \<and> (\<forall>(k, h) \<in> set ms. \<forall>v \<in> set (w # ws). k = r_id v \<longrightarrow> same_record h v)" (is "?l \<longleftrightarrow> ?r")
    proof
      assume l: ?l
      then have n: "r_id w \<notin> r_id ` set ws" by auto
      have all: "same_record h v" if h: "(r_id v, h) \<in> set ms" and v: "v \<in> set (w # ws)" for h v
      proof (cases "v = w")
        case True
        with h only l show ?thesis by simp
      next
        case False
        with v n have "v \<in> set ws" "r_id v \<noteq> r_id w" by (auto simp: image_iff)
        with h l show ?thesis by fastforce
      qed
      have keys: "fst ` set ms = insert (r_id w) (r_id ` set ws)"
        using l insert_Diff [of "r_id w" "fst ` set ms"] image_eqI [OF _ g, of "r_id w" fst] by simp
      show ?r
      proof (intro conjI ballI)
        show "distinct (map r_id (w # ws))" using l n by simp
        show "set (map r_id (w # ws)) = fst ` set ms" using keys by simp
        show "case x of (k, h) \<Rightarrow> \<forall>v \<in> set (w # ws). k = r_id v \<longrightarrow> same_record h v" if "x \<in> set ms" for x
        proof (cases x)
          case (Pair k h)
          show ?thesis unfolding Pair prod.case using all [of _ h] that [unfolded Pair] by blast
        qed
      qed
    next
      assume r: ?r
      then have "r_id w \<notin> r_id ` set ws" "insert (r_id w) (r_id ` set ws) = fst ` set ms" by simp_all
      then have "r_id ` set ws = fst ` set ms - {r_id w}" by blast
      moreover have "same_record g w" using r g by auto
      ultimately show ?l using r by auto
    qed
    finally show ?thesis .
  qed
qed auto

text \<open>Two lists of records are accepted as the same exactly when they hold the same identifiers, each once,
  and the records with the same identifier have equal values and equal metadata, in any order.\<close>

lemma same_records_iff:
  "same_records a b \<longleftrightarrow> distinct (map r_id a) \<and> distinct (map r_id b) \<and> r_id ` set a = r_id ` set b
     \<and> (\<forall>g \<in> set a. \<forall>w \<in> set b. r_id g = r_id w \<longrightarrow> same_record g w)"
proof (cases "distinct (map r_id a)")
  case True
  let ?ms = "rev (map (\<lambda>r. (r_id r, r)) a)"
  have i: "index_records a [] = Some ?ms" using True by (simp add: index_records_iff)
  have d: "distinct (map fst ?ms)" using True by (simp add: comp_def rev_map [symmetric])
  have k: "fst ` set ?ms = r_id ` set a" by (simp add: image_image)
  have "length a = length b" if "distinct (map r_id b)" "r_id ` set a = r_id ` set b"
    using that True by (metis distinct_card length_map set_map)
  then show ?thesis using True i match_records_iff [OF d, of b] unfolding k by (auto simp: same_records_def)
next
  case False
  then show ?thesis by (auto simp: same_records_def index_records_iff split: option.splits)
qed

definition clean_record :: "int \<Rightarrow> vrecord \<Rightarrow> bool" where
  "clean_record d r \<longleftrightarrow> record_ok d r \<and> distinct (map fst (r_metadata r))"

lemma finite_not_nan: "f32_finite v \<Longrightarrow> \<not> f32_nan v"
  by (simp add: f32_finite_def f32_nan_def)

lemma same_values_refl: "list_all (\<lambda>v. \<not> f32_nan v) vs \<Longrightarrow> same_values vs vs"
  by (auto simp: same_values_def list_all2_conv_all_nth list_all_length f32_eq_def)

lemma same_metadata_refl: "distinct (map fst ms) \<Longrightarrow> list_all (\<lambda>(k, v). json_valid v) ms \<Longrightarrow> same_metadata ms ms"
  by (auto simp: same_metadata_def list_all_iff same_value_def json_valid_def)

lemma same_record_refl: "clean_record d r \<Longrightarrow> same_record r r"
  using same_metadata_refl finite_not_nan
  by (auto simp: same_record_def clean_record_def record_ok_def list_all_iff intro!: same_values_refl)

lemma same_records_set:
  assumes "distinct (map r_id a)" "distinct (map r_id b)" "set a = set b" "list_all same_record_self a"
    and "\<And>r. same_record_self r \<Longrightarrow> same_record r r"
  shows "same_records a b"
  unfolding same_records_iff
proof (intro conjI ballI impI)
  fix g w assume "g \<in> set a" "w \<in> set b" "r_id g = r_id w"
  then have "g = w" using assms(1,3) by (auto simp: distinct_map inj_on_def)
  with \<open>g \<in> set a\<close> show "same_record g w" using assms(4,5) by (simp add: list_all_iff)
qed (use assms in simp_all)

subsection \<open>A source that passes\<close>

lemma run_subtests_pass: "fst (run_subtests ts w) = [] \<Longrightarrow> t \<in> set ts \<Longrightarrow> \<exists>v. fst (t v) = None"
proof (induction ts arbitrary: w)
  case (Cons u us)
  obtain f v where u: "u w = (f, v)" by (cases "u w")
  from Cons.prems(1) u have "f = None" "fst (run_subtests us v) = []" by (auto split: option.splits)
  with Cons u show ?case by (cases "t = u") (auto intro: exI [of _ w])
qed simp

lemma run_subtests_all: "(\<And>t v. t \<in> set ts \<Longrightarrow> fst (t v) = None) \<Longrightarrow> fst (run_subtests ts w) = []"
proof (induction ts arbitrary: w)
  case (Cons u us)
  obtain f v where u: "u w = (f, v)" by (cases "u w")
  with Cons.prems [of u w] have "f = None" by simp
  with Cons u show ?case by simp
qed simp

lemma scan_pages_sound:
  assumes "\<And>c l w. fst (sf_read fx s None c l w) = read c l"
  shows "fst (scan_pages opn fx limit n s c seen got w) = None \<Longrightarrow>
    \<exists>rs. scan_source read n limit c = Some rs \<and> same_records (got @ rs) (sf_want fx)"
proof (induction n arbitrary: c seen got w)
  case (Suc n)
  obtain res w1 where r: "sf_read fx s None c limit w = (res, w1)" by (cases "sf_read fx s None c limit w")
  then have "read c limit = res" using assms [of c limit w] by simp
  with Suc.prems r obtain p where p: "res = Inr p" "read c limit = Inr p" by (cases res) auto
  show ?case
  proof (cases "pg_done p")
    case True
    with Suc.prems r p show ?thesis by (auto split: option.splits prod.splits sum.splits if_splits)
  next
    case False
    with Suc.prems r p obtain seen' w3 where
      "fst (scan_pages opn fx limit n s (pg_next p) seen' (got @ pg_records p) w3) = None"
      by (auto split: option.splits prod.splits sum.splits if_splits)
    from Suc.IH [OF this] p(2) False show ?thesis by auto
  qed
qed simp


subsection \<open>A source with the contract passes\<close>

lemma see_ids_new:
  "distinct (map r_id rs) \<Longrightarrow> r_id ` set rs \<inter> set seen = {} \<Longrightarrow> \<exists>seen'. see_ids seen rs = Inr seen' \<and> set seen' = set seen \<union> r_id ` set rs"
proof (induction rs arbitrary: seen)
  case (Cons r rs)
  have "r_id ` set rs \<inter> set (r_id r # seen) = {}" using Cons.prems by auto
  from Cons.IH [OF _ this] Cons.prems show ?case by auto
qed simp

lemma check_page_fine:
  assumes "list_all (clean_record d) (pg_records p)" "distinct (map r_id (pg_records p))" "int (length (pg_records p)) \<le> limit"
    and "pg_done p \<or> pg_next p \<noteq> [] \<and> pg_next p \<noteq> c"
  shows "check_page p c limit d = None"
proof -
  have "validate (pg_records p) d = Inr ()"
    using assms(1,2) by (auto simp: validate_def validate_loop_iff list_all_iff clean_record_def)
  with assms(3,4) show ?thesis by (auto simp: check_page_def)
qed

context paged_source
begin

lemma scan_pages_complete:
  assumes opened: "\<And>w. good (fst (opn w))"
    and reads: "\<And>s c w. good s \<Longrightarrow> fst (sf_read fx s None c limit w) = read c limit"
    and limit: "ok limit"
    and source: "good s" "rest c rs" "rank c < n" "set seen = r_id ` set got"
    and clean: "list_all (clean_record (sf_dimension fx)) (got @ rs)" "distinct (map r_id (got @ rs))" "same_records (got @ rs) (sf_want fx)"
  shows "fst (scan_pages opn fx limit n s c seen got w) = None"
  using source clean
proof (induction n arbitrary: c rs seen got w)
  case (Suc n)
  from read_rest [OF Suc.prems(2) limit] obtain p where p: "read c limit = Inr p" "int (length (pg_records p)) \<le> limit"
    "if pg_done p then pg_records p = rs
     else \<exists>rs'. rs = pg_records p @ rs' \<and> rest (pg_next p) rs' \<and> rank (pg_next p) < rank c \<and> pg_next p \<noteq> []" by blast
  obtain rs' where rs': "rs = pg_records p @ rs'"
    "pg_done p \<or> rest (pg_next p) rs' \<and> rank (pg_next p) < rank c \<and> pg_next p \<noteq> []" "pg_done p \<longrightarrow> rs' = []"
    using p(3) by (cases "pg_done p") auto
  have recs: "list_all (clean_record (sf_dimension fx)) (pg_records p)" "distinct (map r_id (pg_records p))"
    "r_id ` set (pg_records p) \<inter> set seen = {}"
    using Suc.prems(4-6) rs'(1) by auto
  have "pg_done p \<or> pg_next p \<noteq> [] \<and> pg_next p \<noteq> c" using rs'(2) by auto
  then have check: "check_page p c limit (sf_dimension fx) = None" by (rule check_page_fine [OF recs(1,2) p(2)])
  have same: "same_records (pg_records p) (pg_records p)"
    using recs(1,2) by (intro same_records_set [of _ _ "clean_record (sf_dimension fx)"]) (simp_all add: same_record_refl)
  obtain seen' where seen': "see_ids seen (pg_records p) = Inr seen'" "set seen' = set seen \<union> r_id ` set (pg_records p)"
    using see_ids_new [OF recs(2,3)] by blast
  obtain w1 where w1: "sf_read fx s None c limit w = (Inr p, w1)" using reads [OF Suc.prems(1), of c w] p(1) by (metis prod.collapse)
  obtain fresh w2 where w2: "opn w1 = (fresh, w2)" by (cases "opn w1")
  then have "good fresh" using opened [of w1] by simp
  then obtain w3 where w3: "sf_read fx fresh None c limit w2 = (Inr p, w3)" using reads [of fresh c w2] p(1) by (metis prod.collapse)
  show ?case
  proof (cases "pg_done p")
    case True
    with rs' Suc.prems(7) have "same_records (got @ pg_records p) (sf_want fx)" by simp
    with True w1 w2 w3 check same seen' show ?thesis by simp
  next
    case False
    have "fst (scan_pages opn fx limit n s (pg_next p) seen' (got @ pg_records p) w3) = None"
    proof (rule Suc.IH)
      show "rest (pg_next p) rs'" "rank (pg_next p) < n" using rs'(2) False Suc.prems(3) by auto
    qed (use Suc.prems rs'(1) seen'(2) in auto)
    with False w1 w2 w3 check same seen' show ?thesis by simp
  qed
qed simp

end

subsection \<open>The teaching connector\<close>

text \<open>What a database holds: these records and no other, each under its identifier.\<close>

definition holds :: "memory \<Rightarrow> vrecord list \<Rightarrow> bool" where
  "holds db rs \<longleftrightarrow> distinct (map r_id rs) \<and> (\<forall>k r. db k = Some r \<longleftrightarrow> r \<in> set rs \<and> r_id r = k)"

definition put_records :: "vrecord list \<Rightarrow> memory \<Rightarrow> memory" where
  "put_records us db = foldl (\<lambda>db r. db(r_id r \<mapsto> r)) db us"

lemma put_records_apply:
  "distinct (map r_id us) \<Longrightarrow> put_records us db k = Some r \<longleftrightarrow> r \<in> set us \<and> r_id r = k \<or> k \<notin> r_id ` set us \<and> db k = Some r"
proof (induction us arbitrary: db)
  case (Cons u us)
  have "put_records (u # us) db = put_records us (db(r_id u \<mapsto> u))" by (simp add: put_records_def)
  with Cons show ?case by (auto split: if_splits)
qed (simp add: put_records_def)

lemma holds_put:
  assumes "holds db rs" "distinct (map r_id us)"
  shows "holds (put_records us db) (us @ filter (\<lambda>r. r_id r \<notin> r_id ` set us) rs)"
  using assms by (auto simp: holds_def put_records_apply distinct_map_filter image_iff)

lemma holds_new: "distinct (map r_id rs) \<Longrightarrow> holds (new_memory rs) rs"
  using holds_put [of Map.empty "[]" rs] by (simp add: new_memory_def put_records_def holds_def)

lemma memory_put_all: "memory_put (\<lambda>_. None) i us db = (Inr (), put_records us db)"
  by (induction us arbitrary: i db) (simp_all add: put_records_def)

lemma holds_finite: "holds db rs \<Longrightarrow> dom db = r_id ` set rs"
  by (auto simp: holds_def)

lemma memory_all_holds:
  assumes "holds db rs" "range_order ks db"
  shows "distinct (map r_id (memory_all ks db))" "set (memory_all ks db) = set rs"
proof -
  have ids: "map r_id (range_vals ks db) = ks" if "set ks \<subseteq> dom db" for ks
    using that assms(1) by (induction ks) (auto simp: range_vals_Cons holds_def split: option.splits)
  have d: "distinct (map r_id (range_vals ks db))" using assms(2) ids by (simp add: range_order_def)
  have "distinct (map r_id (sort_key r_id xs))" if "distinct (map r_id xs)" for xs :: "vrecord list"
    using that by (simp add: distinct_map)
  with d show "distinct (map r_id (memory_all ks db))" by (simp add: memory_all_def)
  show "set (memory_all ks db) = set rs"
    using assms(1) set_range_order [OF assms(2)] by (auto simp: memory_all_def ran_def holds_def)
qed

lemma memory_all_order:
  assumes "holds db rs" "range_order ks db" "range_order ls db"
  shows "memory_all ks db = memory_all ls db"
proof (rule map_inj_on [where f = r_id])
  have s: "sorted (map r_id (memory_all ks db))" "sorted (map r_id (memory_all ls db))" by (simp_all add: memory_all_def)
  show "map r_id (memory_all ks db) = map r_id (memory_all ls db)"
    using s memory_all_holds [OF assms(1,2)] memory_all_holds [OF assms(1,3)] by (intro sorted_distinct_set_unique) simp_all
  show "inj_on r_id (set (memory_all ks db) \<union> set (memory_all ls db))"
    using memory_all_holds [OF assms(1,2)] memory_all_holds [OF assms(1,3)] by (simp add: distinct_map)
qed

text \<open>The fixtures of memorydb_test.go: each read and listing ranges over the map in an order of its own.\<close>

definition memory_fixture :: "(nat \<Rightarrow> string list) \<Rightarrow> vrecord list \<Rightarrow> int \<Rightarrow> int \<Rightarrow> (memory, nat) source_fixture" where
  "memory_fixture orders rs d m =
     \<lparr>sf_open = Some (\<lambda>n. (new_memory rs, n)), sf_read = (\<lambda>db ctx c limit n. (memory_read ctx (orders n) db c limit, Suc n)),
      sf_want = rs, sf_dimension = d, sf_max_pages = m\<rparr>"

definition memory_sink :: "(nat \<Rightarrow> memory \<Rightarrow> string list) \<Rightarrow> vrecord list \<Rightarrow> int \<Rightarrow> (unit, memory \<times> nat) sink_fixture" where
  "memory_sink orders rs d =
     \<lparr>kf_open = Some (\<lambda>(db, n). ((), (new_memory [], n))),
      kf_upsert = (\<lambda>_ ctx us (db, n). case memory_upsert (\<lambda>_. ctx) us db of (res, db') \<Rightarrow> ((res, us), (db', n))),
      kf_readback = (\<lambda>_ ctx (db, n). (memory_records ctx (orders n db) db, (db, Suc n))),
      kf_scribble = (\<lambda>_ _ w. w), kf_records = rs, kf_dimension = d\<rparr>"

lemma memory_fixture_fields:
  "sf_open (memory_fixture orders rs d m) = Some (\<lambda>n. (new_memory rs, n))"
  "sf_read (memory_fixture orders rs d m) db ctx c limit n = (memory_read ctx (orders n) db c limit, Suc n)"
  "sf_want (memory_fixture orders rs d m) = rs" "sf_dimension (memory_fixture orders rs d m) = d"
  "0 < m \<Longrightarrow> max_pages (memory_fixture orders rs d m) = nat m"
  by (simp_all add: memory_fixture_def max_pages_def)

lemma memory_read_order:
  assumes "memory_all ks db = memory_all ls db"
  shows "memory_read None ks db c limit = memory_read None ls db c limit"
proof -
  have "memory_records None ks db = memory_records None ls db" using assms by (simp add: memory_records_def memory_all_def)
  then show ?thesis by (simp only: memory_read_def)
qed

text \<open>As a source, the connector passes. On any dataset of at least three valid records with
  distinct metadata keys, fewer than the page limit, it passes whatever the order its map is ranged over in
  at each read.\<close>

lemma memory_source_passes:
  assumes "3 \<le> length rs" "0 < d" "validate rs d = Inr ()" "\<And>r. r \<in> set rs \<Longrightarrow> distinct (map fst (r_metadata r))"
    and "\<And>i. range_order (orders i) (new_memory rs)" "int (length rs) < m" "m < 2 ^ 62"
  shows "fst (test_source (memory_fixture orders rs d m) n) = []"
proof -
  let ?fx = "memory_fixture orders rs d m" and ?db = "new_memory rs" and ?opn = "\<lambda>n :: nat. (new_memory rs, n)"
  from assms(3) have v: "list_all (record_ok d) rs" "distinct (map r_id rs)" by (simp_all add: validate_def validate_loop_iff)
  have h: "holds ?db rs" using v(2) by (rule holds_new)
  let ?all = "memory_all (orders 0) ?db"
  have all: "distinct (map r_id ?all)" "set ?all = set rs" using memory_all_holds [OF h assms(5)] by blast+
  have len: "length ?all = length rs" using all v(2) by (metis distinct_card distinct_map)
  have clean: "list_all (clean_record d) ?all" using v(1) assms(4) all(2) by (auto simp: list_all_iff clean_record_def)
  have same: "same_records ?all rs"
    using same_records_set [OF all(1) v(2) all(2) clean] same_record_refl by blast
  have reads: "fst (sf_read ?fx s None c limit w) = memory_read None (orders 0) ?db c limit" if "s = ?db" for s c limit w
    unfolding memory_fixture_fields fst_conv that by (rule memory_read_order [OF memory_all_order [OF h assms(5,5)]])
  have m: "0 < m" "length rs < nat m" using assms(6) by linarith+
  have start: "memory_rest (orders 0) ?db [] ?all" using assms(6,7) len by (auto simp: memory_rest_def intro!: exI [of _ 0])
  have scan: "fst (scan_test ?opn ?fx limit w) = None" if "0 < limit" for limit w
  proof -
    have "fst (scan_pages ?opn ?fx limit (max_pages ?fx) ?db [] [] [] w) = None"
    proof (rule memory.scan_pages_complete [where good = "\<lambda>s. s = ?db" and ks = "orders 0" and db = ?db and rs = ?all, OF _ reads that _ start])
      show "length ?all - memory_at [] < max_pages ?fx" using m len by (simp only: memory_fixture_fields)
      show "list_all (clean_record (sf_dimension ?fx)) ([] @ ?all)" using clean by (simp only: memory_fixture_fields append_Nil)
      show "distinct (map r_id ([] @ ?all))" using all(1) by simp
      show "same_records ([] @ ?all) (sf_want ?fx)" using same by (simp only: memory_fixture_fields append_Nil)
    qed simp_all
    then show ?thesis by (simp add: scan_test_def)
  qed
  have "fst (canceled_read_test ?opn ?fx w) = None" for w
    by (simp add: canceled_read_test_def memory_fixture_fields memory_read_def)
  with scan have "fst (run_subtests (map (scan_test ?opn ?fx) [1, 2, 3] @ [canceled_read_test ?opn ?fx]) n) = []"
    by (intro run_subtests_all) auto
  with assms(1-3) show ?thesis by (simp add: test_source_def memory_fixture_fields)
qed

text \<open>As a sink. The first record of the replacement step is changed by an eighth: the result is no NaN.\<close>

lemma f32_plus_not_nan:
  assumes "f32_finite v"
  shows "\<not> f32_nan (f32_plus v w)"
proof -
  have "\<not> f32_nan (f32_signed neg n)" if n: "n \<le> 255 * 2 ^ 23" for neg n
  proof -
    have u: "unat (f32_signed neg n) = (if neg then 2 ^ 31 + n else n)" using n by (simp add: f32_signed_def unat_of_nat)
    have m: "unat (f32_signed neg n) mod 2 ^ 23 = n mod 2 ^ 23" using mod_mult_self3 [of 256 "2 ^ 23" n] by (simp add: u)
    show ?thesis
    proof (cases "n = 255 * 2 ^ 23")
      case True
      then show ?thesis unfolding f32_nan_def m by simp
    next
      case False
      with n have "n div 2 ^ 23 < 255" by (simp add: less_mult_imp_div_less)
      moreover have "(2 ^ 31 + n) div 2 ^ 23 = 256 + n div 2 ^ 23" using div_mult_self3 [of "2 ^ 23" 256 n] by simp
      ultimately have "f32_exponent (f32_signed neg n) \<noteq> 255" by (simp add: f32_exponent_def u)
      then show ?thesis by (simp add: f32_nan_def)
    qed
  qed
  moreover have "n \<le> 255 * 2 ^ 23" if "f32_nearest a b = Some n" for a b n
    using that by (auto simp: f32_nearest_def Let_def split: if_splits)
  ultimately show ?thesis using assms by (auto simp: f32_plus_def Let_def split: option.split)
qed

definition plain_record :: "vrecord \<Rightarrow> bool" where
  "plain_record r \<longleftrightarrow> list_all (\<lambda>v. \<not> f32_nan v) (r_values r) \<and> distinct (map fst (r_metadata r))
     \<and> list_all (\<lambda>(k, v). json_valid v) (r_metadata r)"

lemma plain_record_refl: "plain_record r \<Longrightarrow> same_record r r"
  by (simp add: plain_record_def same_record_def same_values_refl same_metadata_refl)

lemma plain_record_clean: "clean_record d r \<Longrightarrow> plain_record r"
  using finite_not_nan by (auto simp: clean_record_def record_ok_def plain_record_def list_all_iff)

lemma plain_replacement: "clean_record d r \<Longrightarrow> plain_record (replacement_of r)"
proof -
  assume c: "clean_record d r"
  have "json_valid ''true''" by code_simp
  then show ?thesis using plain_record_clean [OF c] c f32_plus_not_nan
    by (auto simp: plain_record_def replacement_of_def clean_record_def record_ok_def split: list.splits)
qed

lemma deep_equal_refl: "list_all plain_record rs \<Longrightarrow> deep_equal rs rs"
  by (auto simp: deep_equal_def list_all2_conv_all_nth list_all_length deep_equal_record_def plain_record_def same_values_refl
      map_of_is_SomeI)

lemma readback_same:
  assumes "holds db rs" "range_order (orders n db) db" "list_all plain_record want" "distinct (map r_id want)" "set want = set rs"
  shows "fst (check_readback (memory_sink orders records d) s want message (db, n)) = None"
    "snd (check_readback (memory_sink orders records d) s want message (db, n)) = (db, Suc n)"
proof -
  note all = memory_all_holds [OF assms(1,2)]
  have "list_all plain_record (memory_all (orders n db) db)" using all(2) assms(3,5) by (auto simp: list_all_iff)
  with all assms(4,5) plain_record_refl have "same_records (memory_all (orders n db) db) want"
    using same_records_set [of _ want plain_record] by metis
  then show "fst (check_readback (memory_sink orders records d) s want message (db, n)) = None"
    "snd (check_readback (memory_sink orders records d) s want message (db, n)) = (db, Suc n)"
    by (simp_all add: check_readback_def memory_sink_def memory_records_def memory_all_def)
qed

lemma clone_copied:
  assumes "list_all (portable num) rs"
  shows "clone num rs = Some (map copied rs)" "clone num (map copied rs) = Some (map copied rs)"
proof -
  show "clone num rs = Some (map copied rs)" using copy_records [OF assms] by (auto simp: clone_def)
  have "list_all (portable num) (map copied rs)" using assms portable_copied by (auto simp: list_all_iff)
  moreover have "map copied (map copied rs) = map copied rs" using assms copied_idem by (auto simp: list_all_iff)
  ultimately show "clone num (map copied rs) = Some (map copied rs)" using copy_records [of num "map copied rs"] by (auto simp: clone_def)
qed

lemma memory_sink_upsert:
  "kf_upsert (memory_sink orders rs d) s None us (db, n) = ((Inr (), us), (put_records us db, n))"
  by (simp add: memory_sink_def memory_upsert_def memory_put_all)

lemma write_passes:
  assumes "clone num want = Some want" "list_all plain_record want" "distinct (map r_id want)"
    and "holds db rs" "r_id ` set rs \<subseteq> r_id ` set want" "range_order (orders n (put_records want db)) (put_records want db)"
  shows "write_attempt num (memory_sink orders records d) s want (db, n) = (None, (put_records want db, Suc n))"
proof -
  have f: "filter (\<lambda>r. r_id r \<notin> r_id ` set want) rs = []" using assms(5) by (auto simp: filter_empty_conv)
  have h: "holds (put_records want db) want" using holds_put [OF assms(4,3)] unfolding f by simp
  have "kf_scribble (memory_sink orders records d) () x w = w" for x w by (simp add: memory_sink_def)
  then have sc: "(case want of [] \<Rightarrow> w | r # _ \<Rightarrow> kf_scribble (memory_sink orders records d) () (scribble_on r) w) = w" for w
    by (simp split: list.split)
  show ?thesis
    using readback_same [where orders = orders and n = n, OF h assms(6,2,3) refl]
    by (simp add: write_attempt_def assms(1) memory_sink_upsert deep_equal_refl [OF assms(2)] sc prod_eq_iff)
qed

lemma replace_passes:
  assumes "clone num [x] = Some [x]" "holds db (x # xs)" "clean_record d x" "list_all plain_record xs"
    and "range_order (orders n (put_records [replacement_of x] db)) (put_records [replacement_of x] db)"
  shows "fst (replace_first num (memory_sink orders records d) s (x # xs) (db, n)) = None"
proof -
  let ?y = "replacement_of x"
  have i: "r_id ?y = r_id x" by (simp add: replacement_of_def)
  have dist: "r_id x \<notin> r_id ` set xs" "distinct (map r_id xs)" using assms(2) by (simp_all add: holds_def)
  have "filter (\<lambda>r. r_id r \<notin> r_id ` set [?y]) (x # xs) = xs"
    using dist(1) i by (auto simp: filter_id_conv image_iff)
  then have h: "holds (put_records [?y] db) (?y # xs)" using holds_put [OF assms(2), of "[?y]"] by simp
  have "distinct (map r_id (?y # xs))" using dist i by simp
  from readback_same(1) [where orders = orders and n = n, OF h assms(5) _ this refl] plain_replacement [OF assms(3)] assms(4)
  show ?thesis by (simp add: replace_first_def assms(1) memory_sink_upsert)
qed

text \<open>As a sink, for at least two valid records that survive a copy through JSON, it writes them exactly, replays and replaces them, keeps none of the caller's memory
  and writes nothing for a canceled request, whatever order its map is ranged over.\<close>

lemma memory_sink_passes:
  assumes "2 \<le> length rs" "0 < d" "validate rs d = Inr ()" "list_all (portable num) rs"
    and "\<And>i db. finite (dom db) \<Longrightarrow> range_order (orders i db) db"
  shows "fst (test_sink num (memory_sink orders rs d) w) = []"
proof -
  let ?fx = "memory_sink orders rs d" and ?want = "map copied rs" and ?opn = "\<lambda>(db :: memory, n :: nat). ((), (new_memory [], n))"
  from assms(3) have v: "list_all (record_ok d) rs" "distinct (map r_id rs)" by (simp_all add: validate_def validate_loop_iff)
  have clean: "clean_record d (copied r)" if "r \<in> set rs" for r
  proof -
    have "portable num r" "record_ok d r" using that assms(4) v(1) by (auto simp: list_all_iff)
    then have "portable num (copied r)" "record_ok d r" using portable_copied by blast+
    then show ?thesis by (auto simp: clean_record_def record_ok_def portable_def list_all_iff shallow_def json_valid_def split: option.splits)
  qed
  have plain: "list_all plain_record ?want" using clean plain_record_clean by (auto simp: list_all_iff)
  have dist: "distinct (map r_id ?want)" using v(2) by (simp add: comp_def)
  note cl = clone_copied [OF assms(4)]
  obtain x xs where want: "?want = x # xs" using assms(1) by (cases rs) auto
  have x: "clean_record d x" "clone num [x] = Some [x]"
    using want assms(1,4) clean clone_copied(2) [of num "[hd rs]"] by (cases rs; auto)+
  have fin: "finite (dom db)" if "holds db us" for db us using that holds_finite by simp
  let ?e = "new_memory []" and ?p = "put_records ?want"
  have h0: "holds ?e []" by (rule holds_new) simp
  have h1: "holds (?p ?e) ?want" using holds_put [OF h0 dist] by simp
  have h2: "holds (?p (?p ?e)) ?want" using holds_put [OF h1 dist] by (simp add: filter_empty_conv)
  have one: "write_attempt num ?fx () ?want (?e, n) = (None, (?p ?e, Suc n))" for n
    by (rule write_passes [OF cl(2) plain dist h0]) (use assms(5) [OF fin [OF h1]] in simp_all)
  have two: "write_attempt num ?fx () ?want (?p ?e, n) = (None, (?p (?p ?e), Suc n))" for n
    by (rule write_passes [OF cl(2) plain dist h1]) (use assms(5) [OF fin [OF h2]] in simp_all)
  have three: "fst (replace_first num ?fx () ?want (?p (?p ?e), n)) = None" for n
  proof -
    have h: "holds (?p (?p ?e)) (x # xs)" using h2 unfolding want .
    have "fst (replace_first num ?fx () (x # xs) (?p (?p ?e), n)) = None"
      by (rule replace_passes [OF x(2) h x(1)]) (use plain want assms(5) [OF fin [OF holds_put [OF h, of "[replacement_of x]"]]] in simp_all)
    then show ?thesis unfolding want .
  qed
  have empty: "kf_readback ?fx () None (?e, n) = (Inr [], (?e, Suc n))" for n
  proof -
    have "set (memory_all (orders n ?e) ?e) = {}" using memory_all_holds(2) [OF h0 assms(5) [OF fin [OF h0]]] by simp
    then show ?thesis by (simp add: memory_sink_def memory_records_def memory_all_def)
  qed
  have "fst (upsert_test num ?opn ?fx v) = None" for v
  proof -
    obtain db n where "v = (db, n)" by (cases v)
    moreover have "kf_records ?fx = rs" by (simp add: memory_sink_def)
    ultimately show ?thesis by (simp add: upsert_test_def empty cl(1) and_then_def one two three)
  qed
  moreover have "fst (canceled_write_test num ?opn ?fx v) = None" for v
  proof -
    obtain db n where "v = (db, n)" by (cases v)
    moreover have "kf_records ?fx = rs" "kf_upsert ?fx () (Some CtxCanceled) us (?e, n) = ((Inl CtxCanceled, us), (?e, n))" for us
      by (simp_all add: memory_sink_def memory_upsert_def)
    ultimately show ?thesis by (simp add: canceled_write_test_def empty cl(1))
  qed
  ultimately have "fst (run_subtests [upsert_test num ?opn ?fx, canceled_write_test num ?opn ?fx] w) = []"
    by (intro run_subtests_all) auto
  moreover have "kf_open ?fx = Some ?opn" "kf_records ?fx = rs" "kf_dimension ?fx = d" by (simp_all add: memory_sink_def)
  ultimately show ?thesis using assms(1-3) by (simp add: test_sink_def)
qed


subsection \<open>Instances\<close>

definition three_records :: "vrecord list" where
  "three_records = map (\<lambda>i. \<lparr>r_id = i, r_values = [0], r_metadata = [(''n'', ''1'')]\<rparr>) [''a'', ''b'', ''c'']"

lemma json_one: "json_parse ''1'' = Some (JNum ''1'')" "num_ok ''1''"
proof -
  have one: "itoa 1 = ''1''" by code_simp
  then show "num_ok ''1''" using num_ok_itoa [of 1] by simp
  then show "json_parse ''1'' = Some (JNum ''1'')" using json_parse_print [of "JNum ''1''"] by simp
qed

lemma zero_finite: "f32_finite 0"
  by (simp add: f32_finite_def f32_exponent_def)

lemma three_valid: "validate three_records 1 = Inr ()"
  by (simp add: validate_def validate_loop_iff record_ok_def three_records_def zero_finite json_valid_def json_one)

lemma three_order: "range_order [''a'', ''b'', ''c''] (new_memory three_records)"
  by (auto simp: range_order_def new_memory_def three_records_def)



end
