(* ===== verification/Delivery.thy ===== *)
theory Delivery
  imports Conformance_Properties Executor_Completes
begin

section \<open>Delivery: the executor between a source and a sink\<close>

text \<open>
  docs/architecture.md promises that a crash between write and checkpoint replays at most a page and that
  idempotent upserts make this harmless. Here the executor, a source with the contract \<open>paged_source\<close> and
  a sink with the contract \<open>upsert_sink\<close> run together: writes may fail half way, executions may stop at any
  step and start again, others may use the store in between. The locale \<open>replication\<close> joins the two
  contracts and proves that an exhausted job has put exactly the source's records into the sink.
\<close>

subsection \<open>Sinks\<close>

lemma put_records_Cons: "put_records (u # us) db = put_records us (db(r_id u \<mapsto> u))"
  by (simp add: put_records_def)

lemma put_records_other: "k \<notin> r_id ` set us \<Longrightarrow> put_records us db k = db k"
  by (induction us arbitrary: db) (auto simp: put_records_Cons put_records_def)

lemma put_records_put: "k \<in> r_id ` set us \<Longrightarrow> \<exists>r \<in> set us. r_id r = k \<and> put_records us db k = Some r"
proof (induction us arbitrary: db)
  case (Cons u us)
  show ?case
  proof (cases "k \<in> r_id ` set us")
    case True
    with Cons.IH show ?thesis by (auto simp: put_records_Cons)
  next
    case False
    with Cons.prems have "k = r_id u" by auto
    with put_records_other [OF False] show ?thesis by (auto simp: put_records_Cons)
  qed
qed simp

text \<open>A write that is acknowledged has put every record in its place; one that fails, some first part of them.\<close>

locale upsert_sink =
  fixes upsert :: "'e \<Rightarrow> vrecord list \<Rightarrow> 'w \<Rightarrow> unit result \<times> 'w"
    and contents :: "'w \<Rightarrow> string \<rightharpoonup> vrecord"
  assumes upsert_prefix: "upsert e rs w = (res, w') \<Longrightarrow>
    \<exists>k. contents w' = put_records (take k rs) (contents w) \<and> (res = Inr () \<longrightarrow> length rs \<le> k)"

lemma memory_put_prefix:
  "memory_put ctx i rs db = (res, db') \<Longrightarrow> \<exists>k. db' = put_records (take k rs) db \<and> (res = Inr () \<longrightarrow> length rs \<le> k)"
proof (induction rs arbitrary: i db)
  case Nil
  then show ?case by (auto simp: put_records_def)
next
  case (Cons r rs)
  show ?case
  proof (cases "ctx i")
    case None
    with Cons.prems have "memory_put ctx (Suc i) rs (db(r_id r \<mapsto> r)) = (res, db')" by simp
    from Cons.IH [OF this] obtain k where "db' = put_records (take k rs) (db(r_id r \<mapsto> r))" "res = Inr () \<longrightarrow> length rs \<le> k" by blast
    then show ?thesis by (intro exI [of _ "Suc k"]) (simp add: put_records_Cons)
  next
    case (Some e)
    with Cons.prems show ?thesis by (intro exI [of _ 0]) (auto simp: put_records_def)
  qed
qed

lemma memory_upsert_prefix:
  "memory_upsert ctx rs db = (res, db') \<Longrightarrow> \<exists>k. db' = put_records (take k rs) db \<and> (res = Inr () \<longrightarrow> length rs \<le> k)"
  using memory_put_prefix [of "\<lambda>i. ctx (Suc i)" 0 rs db res db']
  by (cases "ctx 0") (auto simp: memory_upsert_def put_records_def intro!: exI [of _ 0])

interpretation memory_sink: upsert_sink memory_upsert "\<lambda>db. db"
  by unfold_locales (rule memory_upsert_prefix)

text \<open>
  What of a dataset has arrived over what was there before: the records \<open>dn\<close> have, others of the dataset
  may have, and nothing else has changed.
\<close>

definition stored :: "vrecord list \<Rightarrow> vrecord list \<Rightarrow> (string \<rightharpoonup> vrecord) \<Rightarrow> (string \<rightharpoonup> vrecord) \<Rightarrow> bool" where
  "stored ds dn base db \<longleftrightarrow> (\<forall>r \<in> set dn. db (r_id r) = Some r) \<and> (\<forall>k. k \<notin> r_id ` set ds \<longrightarrow> db k = base k)"

lemma stored_put:
  assumes "stored ds dn base db" "distinct (map r_id ds)" "set dn \<subseteq> set ds" "set us \<subseteq> set ds"
  shows "stored ds (dn @ us) base (put_records us db)"
  unfolding stored_def
proof (intro conjI ballI allI impI)
  fix r assume r: "r \<in> set (dn @ us)"
  show "put_records us db (r_id r) = Some r"
  proof (cases "r_id r \<in> r_id ` set us")
    case True
    from put_records_put [OF this] obtain u where u: "u \<in> set us" "r_id u = r_id r" "put_records us db (r_id r) = Some u" by blast
    moreover have "u \<in> set ds" "r \<in> set ds" using u(1) r assms(3,4) by auto
    ultimately have "u = r" using assms(2) by (auto simp: distinct_map inj_on_def)
    with u show ?thesis by simp
  next
    case False
    with r assms(1) show ?thesis by (auto simp: put_records_other stored_def)
  qed
next
  fix k assume k: "k \<notin> r_id ` set ds"
  then have "k \<notin> r_id ` set us" using assms(4) by auto
  with k assms(1) show "put_records us db k = base k" by (simp add: put_records_other stored_def)
qed

lemma stored_less: "stored ds dn base db \<Longrightarrow> set dn' \<subseteq> set dn \<Longrightarrow> stored ds dn' base db"
  by (auto simp: stored_def)

lemma stored_all: "stored ds ds base db \<Longrightarrow> distinct (map r_id ds) \<Longrightarrow> db = base ++ map_of (map (\<lambda>r. (r_id r, r)) ds)"
proof
  fix k assume s: "stored ds ds base db" and d: "distinct (map r_id ds)"
  have d': "distinct (map fst (map (\<lambda>r. (r_id r, r)) ds))" using d by (simp add: comp_def)
  show "db k = (base ++ map_of (map (\<lambda>r. (r_id r, r)) ds)) k"
  proof (cases "k \<in> r_id ` set ds")
    case True
    then obtain r where r: "r \<in> set ds" "k = r_id r" by blast
    then have "map_of (map (\<lambda>r. (r_id r, r)) ds) k = Some r" using d' by (intro map_of_is_SomeI) auto
    with s r show ?thesis by (simp add: stored_def)
  next
    case False
    then have "map_of (map (\<lambda>r. (r_id r, r)) ds) k = None" by (auto simp: map_of_eq_None_iff image_image)
    with s False show ?thesis by (simp add: stored_def map_add_def)
  qed
qed

subsection \<open>Executor, source and sink\<close>

text \<open>
  \<open>transfer\<close> with the two connectors attached: what a step reads is what the source says at the job's
  cursor and batch size, if it says anything, and what it writes changes the sink, also when the write
  fails. \<open>limit\<close> is the batch size of a job.
\<close>

inductive delivery ::
  "(string \<Rightarrow> string) \<Rightarrow> (vrecord list \<Rightarrow> string result) \<Rightarrow> string \<Rightarrow> (string \<Rightarrow> int \<Rightarrow> page result) \<Rightarrow>
   ('e \<Rightarrow> vrecord list \<Rightarrow> 'w \<Rightarrow> unit result \<times> 'w) \<Rightarrow> exec \<times> store \<times> ghost \<times> 'w \<Rightarrow> exec \<times> store \<times> ghost \<times> 'w \<Rightarrow> bool"
  for sha enc jid read upsert where
  step: "exec_step sha enc e i x st = (x', st') \<Longrightarrow> \<not> (\<exists>k. x_pc x = XCall Writing k) \<Longrightarrow>
    (\<And>k p. x_pc x = XCall Reading k \<Longrightarrow> xi_read i = Inr p \<Longrightarrow> read (j_cursor (x_cur x)) (sp_batch_size (j_spec (x_cur x))) = Inr p) \<Longrightarrow>
    delivery sha enc jid read upsert (x, st, g, w) (x', st', observe x i x' g, w)"
| wrote: "exec_step sha enc e i x st = (x', st') \<Longrightarrow> x_pc x = XCall Writing k \<Longrightarrow> upsert a (pg_records (x_page x)) w = (xi_write i, w') \<Longrightarrow>
    delivery sha enc jid read upsert (x, st, g, w) (x', st', observe x i x' g, w')"
| interfered: "others jid st st' \<Longrightarrow> delivery sha enc jid read upsert (x, st, g, w) (x, st', g, w)"

lemma delivery_transfer:
  assumes "(delivery sha enc jid read upsert)\<^sup>*\<^sup>* s t"
  shows "(transfer sha enc jid)\<^sup>*\<^sup>* (fst s, fst (snd s), fst (snd (snd s))) (fst t, fst (snd t), fst (snd (snd t)))"
  using assms
proof induction
  case (step t u)
  from step(2) have "transfer sha enc jid (fst t, fst (snd t), fst (snd (snd t))) (fst u, fst (snd u), fst (snd (snd u)))"
    by cases (auto intro: transfer.intros)
  with step(3) show ?case by simp
qed simp

text \<open>A step keeps the job it works on.\<close>

lemma exec_step_job: "exec_step sha enc e i x st = (x', st') \<Longrightarrow> x_job x' = x_job x"
  by (cases "x_pc x")
    (auto simp: exec_step_def enter_def loop_top_def retry_top_def with_update_def connector_call_def after_read_def call_failed_def
      backoff_def failed_step_def commit_def next_page_def Let_def split: option.splits sum.splits prod.splits if_splits operation.splits)

lemma xinv_acked: "xinv c0 n0 x j g \<Longrightarrow> \<exists>extra. gh_acked g = written (gh_pages g) @ extra"
  by (cases "x_pc x") (auto simp: xinv_def op_inv_def stop_inv_def)

lemma written_records: "set (concat (written ps)) = (\<Union>cp \<in> set ps. set (pg_records (snd cp)))"
  by (auto simp: written_def)

lemma delivery_job: "(delivery sha enc jid read upsert)\<^sup>*\<^sup>* (start_exec j0, st0, no_ghost, w0) (x, st, g, w) \<Longrightarrow> x_job x = j0"
proof -
  assume r: "(delivery sha enc jid read upsert)\<^sup>*\<^sup>* (start_exec j0, st0, no_ghost, w0) (x, st, g, w)"
  have "x_job (fst t) = j0" if "(delivery sha enc jid read upsert)\<^sup>*\<^sup>* (start_exec j0, st0, no_ghost, w0) t" for t
    using that
  proof induction
    case (step t u)
    from step(2) have "x_job (fst u) = x_job (fst t)" by cases (auto dest: exec_step_job)
    with step(3) show ?case by simp
  qed (simp add: start_exec_def)
  from this [OF r] show "x_job x = j0" by simp
qed

locale replication = paged_source read rest rank ok + upsert_sink upsert contents
  for read rest rank ok and upsert :: "'e \<Rightarrow> vrecord list \<Rightarrow> 'w \<Rightarrow> unit result \<times> 'w" and contents :: "'w \<Rightarrow> string \<rightharpoonup> vrecord"
begin

text \<open>The pages of a chain and what the contract leaves after them.\<close>

lemma chain_rest:
  assumes "rest c rs" "ok limit"
  shows "linked c ps \<Longrightarrow> \<forall>cp \<in> set ps. read (fst cp) limit = Inr (snd cp) \<Longrightarrow>
    \<exists>rs'. rs = concat (map (\<lambda>a. pg_records (snd a)) ps) @ rs' \<and> (if scan_done ps then rs' = [] else rest (last_cursor c ps) rs')"
proof (induction ps rule: rev_induct)
  case Nil
  with assms(1) show ?case by simp
next
  case (snoc cp ps)
  obtain c' p where cp: "cp = (c', p)" by (cases cp)
  from snoc.prems(1) cp have l: "linked c ps" "c' = last_cursor c ps" "\<not> scan_done ps" by (simp_all add: linked_snoc)
  from snoc.IH [OF l(1)] snoc.prems(2) l(3) obtain rs1 where
    rs1: "rs = concat (map (\<lambda>a. pg_records (snd a)) ps) @ rs1" "rest (last_cursor c ps) rs1" by auto
  from read_rest [OF rs1(2) assms(2)] snoc.prems(2) cp l(2) have
    "if pg_done p then pg_records p = rs1 else \<exists>rs'. rs1 = pg_records p @ rs' \<and> rest (pg_next p) rs'" by auto
  then obtain rs2 where "rs1 = pg_records p @ rs2" "if pg_done p then rs2 = [] else rest (pg_next p) rs2"
    by (cases "pg_done p") auto
  with rs1(1) cp show ?case by auto
qed

lemma page_rest: "rest c rs \<Longrightarrow> ok limit \<Longrightarrow> read c limit = Inr p \<Longrightarrow> set (pg_records p) \<subseteq> set rs"
  using read_rest [of c rs limit] by (auto split: if_splits)

definition arrived :: "job \<Rightarrow> vrecord list \<Rightarrow> vrecord list \<Rightarrow> (string \<rightharpoonup> vrecord) \<Rightarrow> exec \<Rightarrow> ghost \<Rightarrow> 'w \<Rightarrow> bool" where
  "arrived j0 ds pre base x g w \<longleftrightarrow> x_job x = j0 \<and> (\<forall>cp \<in> set (gh_reads g). read (fst cp) (sp_batch_size (j_spec j0)) = Inr (snd cp))
     \<and> set (concat (gh_acked g)) \<subseteq> set ds \<and> stored ds (pre @ concat (gh_acked g)) base (contents w)"

lemma arrived_step:
  assumes "delivery sha enc jid read upsert (x, st, g, w) (x', st', g', w')" "xinv (j_cursor j0) n0 x j g" "arrived j0 ds pre base x g w"
    and ds: "ok (sp_batch_size (j_spec j0))" "rest (j_cursor j0) rs0" "ds = pre @ rs0" "distinct (map r_id ds)"
  shows "arrived j0 ds pre base x' g' w'"
  using assms(1)
proof cases
  case (step e i)
  have j: "x_job x' = j0" using exec_step_job [OF step(3)] assms(3) by (simp add: arrived_def)
  have reads: "j_spec (x_cur x) = j_spec j0" if "x_pc x = XCall Reading k" for k
    using that assms(2,3) by (simp add: xinv_def op_inv_def body_def arrived_def)
  have "gh_acked g' = gh_acked g" using step(1,4) by (auto simp: observe_def split: pc.splits operation.splits sum.splits)
  moreover have "read (fst cp) (sp_batch_size (j_spec j0)) = Inr (snd cp)" if "cp \<in> set (gh_reads g')" for cp
    using that step(1,5) reads assms(3) by (auto simp: observe_def arrived_def split: pc.splits operation.splits sum.splits if_splits)
  ultimately show ?thesis using j assms(3) step(1,2) unfolding arrived_def by simp
next
  case (wrote e i k a)
  have j: "x_job x' = j0" using exec_step_job [OF wrote(2)] assms(3) by (simp add: arrived_def)
  let ?rs = "pg_records (x_page x)"
  from wrote(3) assms(2) have inv: "linked (j_cursor j0) (gh_pages g)" "set (gh_pages g) \<subseteq> set (gh_reads g)"
    "j_cursor (x_cur x) = last_cursor (j_cursor j0) (gh_pages g)" "\<not> scan_done (gh_pages g)" "(j_cursor (x_cur x), x_page x) \<in> set (gh_reads g)"
    by (auto simp: xinv_def op_inv_def body_def in_hand_def)
  have reads: "\<forall>cp \<in> set (gh_reads g). read (fst cp) (sp_batch_size (j_spec j0)) = Inr (snd cp)"
    and acked: "set (concat (gh_acked g)) \<subseteq> set ds" "stored ds (pre @ concat (gh_acked g)) base (contents w)"
    using assms(3) by (simp_all add: arrived_def)
  from chain_rest [OF ds(2,1) inv(1)] reads inv(2,4) obtain rs' where
    rs': "rs0 = concat (map (\<lambda>a. pg_records (snd a)) (gh_pages g)) @ rs'" "rest (last_cursor (j_cursor j0) (gh_pages g)) rs'" by auto
  have "read (j_cursor (x_cur x)) (sp_batch_size (j_spec j0)) = Inr (x_page x)" using reads inv(5) by auto
  with page_rest [OF rs'(2) ds(1)] inv(3) have sub: "set ?rs \<subseteq> set ds" using rs'(1) ds(3) by auto
  from upsert_prefix [OF wrote(4)] obtain n where
    n: "contents w' = put_records (take n ?rs) (contents w)" "xi_write i = Inr () \<longrightarrow> length ?rs \<le> n" by blast
  have "set (pre @ concat (gh_acked g)) \<subseteq> set ds" using acked(1) ds(3) by auto
  from stored_put [OF acked(2) ds(4) this, of "take n ?rs"] sub n(1)
  have st: "stored ds ((pre @ concat (gh_acked g)) @ take n ?rs) base (contents w')" by (auto dest: in_set_takeD)
  have g': "gh_reads g' = gh_reads g" "gh_acked g' = (case xi_write i of Inl _ \<Rightarrow> gh_acked g | Inr _ \<Rightarrow> gh_acked g @ [?rs])"
    using wrote(1,3) by (simp_all add: observe_def split: sum.splits)
  have "set (concat (gh_acked g')) \<subseteq> set ds" using g'(2) acked(1) sub by (auto split: sum.splits)
  moreover have "stored ds (pre @ concat (gh_acked g')) base (contents w')"
    using g'(2) n(2) st by (cases "xi_write i") (auto elim: stored_less)
  ultimately show ?thesis using j reads g'(1) by (simp add: arrived_def)
next
  case interfered
  with assms(3) show ?thesis by simp
qed

text \<open>What has arrived, at every moment of one execution.\<close>

lemma execution_arrives:
  assumes run: "(delivery sha enc jid read upsert)\<^sup>*\<^sup>* (start_exec j0, st0, no_ghost, w0) (x, st, g, w)"
    and job: "keyed (s_jobs st0)" "s_jobs st0 jid = Some j0" "\<not> j_source_exhausted j0" "j_state j0 \<noteq> ''succeeded''"
    and ds: "ok (sp_batch_size (j_spec j0))" "rest (j_cursor j0) rs0" "ds = pre @ rs0" "distinct (map r_id ds)"
    and base: "stored ds pre base (contents w0)"
  obtains j where "s_jobs st jid = Some j" "keyed (s_jobs st)" "xinv (j_cursor j0) (j_records j0) x j g" "arrived j0 ds pre base x g w"
proof -
  have inv: "\<exists>j. s_jobs (fst (snd t)) jid = Some j \<and> keyed (s_jobs (fst (snd t))) \<and> xinv (j_cursor j0) (j_records j0) (fst t) j (fst (snd (snd t)))"
    if t: "(delivery sha enc jid read upsert)\<^sup>*\<^sup>* (start_exec j0, st0, no_ghost, w0) t" for t
  proof -
    from transfer_inv [OF delivery_transfer [OF t] _ _ _ start_xinv [OF job(3,4)], of st0] job(1,2) obtain x st g j where
      "(fst t, fst (snd t), fst (snd (snd t))) = (x, st, g)" "keyed (s_jobs st)" "s_jobs st jid = Some j" "xinv (j_cursor j0) (j_records j0) x j g"
      by auto
    then show ?thesis by auto
  qed
  have arr: "arrived j0 ds pre base (fst t) (fst (snd (snd t))) (snd (snd (snd t)))"
    if t: "(delivery sha enc jid read upsert)\<^sup>*\<^sup>* (start_exec j0, st0, no_ghost, w0) t" for t
    using t
  proof induction
    case base
    then show ?case using assms(10) by (simp add: arrived_def start_exec_def no_ghost_def)
  next
    case (step t u)
    obtain x1 st1 g1 w1 x2 st2 g2 w2 where tu: "t = (x1, st1, g1, w1)" "u = (x2, st2, g2, w2)" by (cases t; cases u)
    with inv [OF step(1)] obtain j where "xinv (j_cursor j0) (j_records j0) x1 j g1" by auto
    from arrived_step [OF step(2) [unfolded tu] this _ ds] step(3) tu show ?case by simp
  qed
  from inv [OF run] arr [OF run] that show thesis by auto
qed

lemma execution_delivers:
  assumes run: "(delivery sha enc jid read upsert)\<^sup>*\<^sup>* (start_exec j0, st0, no_ghost, w0) (x, st, g, w)"
    and job: "keyed (s_jobs st0)" "s_jobs st0 jid = Some j0" "\<not> j_source_exhausted j0" "j_state j0 \<noteq> ''succeeded''"
    and ds: "ok (sp_batch_size (j_spec j0))" "rest (j_cursor j0) rs0" "ds = pre @ rs0" "distinct (map r_id ds)"
    and base: "stored ds pre base (contents w0)"
  shows "\<exists>j pre' rs'. s_jobs st jid = Some j \<and> keyed (s_jobs st) \<and> j_spec j = j_spec j0 \<and> ds = pre' @ rs' \<and> stored ds pre' base (contents w)
    \<and> (j_state j = ''succeeded'' \<longrightarrow> j_source_exhausted j) \<and> (if j_source_exhausted j then rs' = [] else rest (j_cursor j) rs')"
proof -
  from execution_arrives [OF assms] obtain j where j: "s_jobs st jid = Some j" "keyed (s_jobs st)" "xinv (j_cursor j0) (j_records j0) x j g"
    and a: "arrived j0 ds pre base x g w" .
  from j(3) have x: "linked (j_cursor j0) (gh_pages g)" "set (gh_pages g) \<subseteq> set (gh_reads g)" "j_cursor j = last_cursor (j_cursor j0) (gh_pages g)"
    "j_source_exhausted j \<longleftrightarrow> scan_done (gh_pages g)" "j_state j = ''succeeded'' \<longrightarrow> scan_done (gh_pages g)" "j_spec (x_job x) = j_spec j"
    by (simp_all add: xinv_def)
  from chain_rest [OF ds(2,1) x(1)] a x(2) obtain rs' where
    rs': "rs0 = concat (map (\<lambda>a. pg_records (snd a)) (gh_pages g)) @ rs'" "if scan_done (gh_pages g) then rs' = [] else rest (j_cursor j) rs'"
    unfolding arrived_def x(3) by blast
  from xinv_acked [OF j(3)] obtain extra where "gh_acked g = written (gh_pages g) @ extra" by blast
  then have "set (concat (map (\<lambda>a. pg_records (snd a)) (gh_pages g))) \<subseteq> set (concat (gh_acked g))"
    using written_records [of "gh_pages g"] by auto
  with a have stored: "stored ds (pre @ concat (map (\<lambda>a. pg_records (snd a)) (gh_pages g))) base (contents w)"
    unfolding arrived_def by (elim conjE stored_less) auto
  show ?thesis
  proof (intro exI conjI)
    show "s_jobs st jid = Some j" "keyed (s_jobs st)" by (rule j)+
    show "j_spec j = j_spec j0" using a x(6) by (simp add: arrived_def)
    show "ds = (pre @ concat (map (\<lambda>a. pg_records (snd a)) (gh_pages g))) @ rs'" using ds(3) rs'(1) by simp
    show "j_state j = ''succeeded'' \<longrightarrow> j_source_exhausted j" using x(4,5) by simp
    show "if j_source_exhausted j then rs' = [] else rest (j_cursor j) rs'" using rs'(2) x(4) by simp
  qed (rule stored)
qed

end

subsection \<open>Jobs over many executions\<close>

text \<open>
  A job over any number of executions. Each may stop after any step, as in a crash; what happens before
  the next one starts leaves the job's settings and checkpoint, and the sink, as they are. These are the
  updates that may come in between.
\<close>

definition kept :: "job \<Rightarrow> job \<Rightarrow> bool" where
  "kept j j' \<longleftrightarrow> j_spec j' = j_spec j \<and> j_cursor j' = j_cursor j \<and> j_source_exhausted j' = j_source_exhausted j"

lemma kept_between:
  "fn j = Inr j' \<Longrightarrow> fn \<in> {run_job_fn, recover_fn, action_fn a, finish_fn s m, restart_fn t, note_fn, phase_fn p} \<Longrightarrow> kept j j'"
  by (auto simp: kept_def run_job_fn_def recover_fn_def action_fn_def cancel_fn_def resume_fn_def finish_fn_def restart_fn_def
      note_fn_def phase_fn_def Let_def split: if_splits)

inductive campaign ::
  "(string \<Rightarrow> string) \<Rightarrow> (vrecord list \<Rightarrow> string result) \<Rightarrow> string \<Rightarrow> (string \<Rightarrow> int \<Rightarrow> page result) \<Rightarrow>
   ('e \<Rightarrow> vrecord list \<Rightarrow> 'w \<Rightarrow> unit result \<times> 'w) \<Rightarrow> job \<times> 'w \<Rightarrow> job \<times> 'w \<Rightarrow> bool"
  for sha enc jid read upsert where
  executed: "kept j j0 \<Longrightarrow> keyed (s_jobs st0) \<Longrightarrow> s_jobs st0 jid = Some j0 \<Longrightarrow> \<not> j_source_exhausted j0 \<Longrightarrow> j_state j0 = ''running'' \<Longrightarrow>
    (delivery sha enc jid read upsert)\<^sup>*\<^sup>* (start_exec j0, st0, no_ghost, w) (x, st, g, w') \<Longrightarrow> s_jobs st jid = Some j' \<Longrightarrow>
    campaign sha enc jid read upsert (j, w) (j', w')"

context replication
begin

definition delivered :: "vrecord list \<Rightarrow> (string \<rightharpoonup> vrecord) \<Rightarrow> spec \<Rightarrow> job \<Rightarrow> 'w \<Rightarrow> bool" where
  "delivered ds base s j w \<longleftrightarrow> j_spec j = s \<and> (j_state j = ''succeeded'' \<longrightarrow> j_source_exhausted j)
     \<and> (\<exists>pre rs. ds = pre @ rs \<and> stored ds pre base (contents w) \<and> (if j_source_exhausted j then rs = [] else rest (j_cursor j) rs))"

lemma campaign_step:
  assumes "campaign sha enc jid read upsert (j, w) (j', w')" "delivered ds base s j w" "ok (sp_batch_size s)" "distinct (map r_id ds)"
  shows "delivered ds base s j' w'"
  using assms(1)
proof cases
  case (executed j0 st0 x st g)
  from assms(2) executed(1,4) obtain pre rs where d: "ds = pre @ rs" "stored ds pre base (contents w)" "rest (j_cursor j0) rs" "j_spec j0 = s"
    by (auto simp: delivered_def kept_def)
  from executed(5) have "j_state j0 \<noteq> ''succeeded''" by simp
  moreover have "ok (sp_batch_size (j_spec j0))" using assms(3) d(4) by simp
  ultimately obtain pre' rs' where "j_spec j' = j_spec j0" "ds = pre' @ rs'" "stored ds pre' base (contents w')"
    "j_state j' = ''succeeded'' \<longrightarrow> j_source_exhausted j'" "if j_source_exhausted j' then rs' = [] else rest (j_cursor j') rs'"
    using execution_delivers [OF executed(6,2,3,4) _ _ d(3,1) assms(4) d(2)] executed(7) by auto
  with d(4) show ?thesis unfolding delivered_def by blast
qed

lemma campaign_delivers:
  assumes "(campaign sha enc jid read upsert)\<^sup>*\<^sup>* (j, w) (j', w')" "rest (j_cursor j) ds" "ok (sp_batch_size (j_spec j))" "distinct (map r_id ds)"
    and "\<not> j_source_exhausted j" "j_state j \<noteq> ''succeeded''"
  shows "delivered ds (contents w) (j_spec j) j' w'"
proof -
  have "delivered ds (contents w) (j_spec j) (fst t) (snd t)" if "(campaign sha enc jid read upsert)\<^sup>*\<^sup>* (j, w) t" for t
    using that
  proof induction
    case base
    show ?case unfolding delivered_def using assms(2,5,6) by (intro conjI exI [of _ "[]"] exI [of _ ds]) (simp_all add: stored_def)
  next
    case (step t u)
    then show ?case using campaign_step [of sha enc jid "fst t" "snd t" "fst u" "snd u"] assms(3,4) by simp
  qed
  from this [OF assms(1)] show ?thesis by simp
qed

lemma delivered_all:
  assumes "delivered ds base s j w" "j_source_exhausted j \<or> j_state j = ''succeeded''" "distinct (map r_id ds)"
  shows "contents w = base ++ map_of (map (\<lambda>r. (r_id r, r)) ds)"
  using assms stored_all by (auto simp: delivered_def)

lemma delivered_other: "delivered ds base s j w \<Longrightarrow> k \<notin> r_id ` set ds \<Longrightarrow> contents w k = base k"
  by (auto simp: delivered_def stored_def)

end

interpretation memory_replication: replication "memory_read None ks db" "memory_rest ks db"
    "\<lambda>c. length (memory_all ks db) - memory_at c" "\<lambda>limit. 0 < limit" memory_upsert "\<lambda>db. db" for ks db
  by unfold_locales

subsection \<open>A run that nothing disturbs\<close>

text \<open>The run of a transfer that nothing disturbs is one of these, when the sink accepts every write.\<close>

definition page_of :: "page result \<Rightarrow> page" where
  "page_of r = (case r of Inr p \<Rightarrow> p | Inl e \<Rightarrow> empty_page)"

context replication
begin

lemma lucky_delivery:
  assumes job: "keyed (s_jobs st0)" "s_jobs st0 jid = Some j0" "\<not> j_source_exhausted j0" "j_state j0 \<noteq> ''succeeded''"
    and ds: "ok (sp_batch_size (j_spec j0))" "rest (j_cursor j0) ds" "distinct (map r_id ds)" and acc: "\<And>rs w. fst (upsert a rs w) = Inr ()"
    and run: "(lucky sha enc e io now (\<lambda>c. page_of (read c (sp_batch_size (j_spec j0)))) ^^ n) (start_exec j0, st0) = (x, st)"
  shows "\<exists>g w. (delivery sha enc jid read upsert)\<^sup>*\<^sup>* (start_exec j0, st0, no_ghost, w0) (x, st, g, w)"
  using run
proof (induction n arbitrary: x st)
  case (Suc n)
  let ?src = "\<lambda>c. page_of (read c (sp_batch_size (j_spec j0)))"
  obtain x1 st1 where 1: "(lucky sha enc e io now ?src ^^ n) (start_exec j0, st0) = (x1, st1)" by fastforce
  from Suc.IH [OF 1] obtain g w where r: "(delivery sha enc jid read upsert)\<^sup>*\<^sup>* (start_exec j0, st0, no_ghost, w0) (x1, st1, g, w)" by blast
  let ?i = "lucky_input io now ?src x1"
  have s: "exec_step sha enc e ?i x1 st1 = (x, st)" using Suc.prems 1 by (simp add: lucky_def [of sha enc e io now ?src "(x1, st1)"])
  have base: "stored ds [] (contents w0) (contents w0)" by (simp add: stored_def)
  from execution_arrives [OF r job ds(1,2) _ ds(3) base] obtain j where
    x: "xinv (j_cursor j0) (j_records j0) x1 j g" and a: "arrived j0 ds [] (contents w0) x1 g w" by auto
  have "\<exists>w'. delivery sha enc jid read upsert (x1, st1, g, w) (x, st, observe x1 ?i x g, w')"
  proof (cases "\<exists>k. x_pc x1 = XCall Writing k")
    case True
    then obtain k where k: "x_pc x1 = XCall Writing k" by blast
    have "upsert a (pg_records (x_page x1)) w = (xi_write ?i, snd (upsert a (pg_records (x_page x1)) w))"
      using acc by (simp add: lucky_input_def prod_eq_iff)
    then show ?thesis using delivery.wrote [where upsert = upsert and a = a and w = w, OF s k] by blast
  next
    case False
    have rd: "read (j_cursor (x_cur x1)) (sp_batch_size (j_spec (x_cur x1))) = Inr p"
      if pc: "x_pc x1 = XCall Reading k" and p: "xi_read ?i = Inr p" for k p
    proof -
      have j: "j_spec (x_cur x1) = j_spec j0" "linked (j_cursor j0) (gh_pages g)" "set (gh_pages g) \<subseteq> set (gh_reads g)"
        "j_cursor (x_cur x1) = last_cursor (j_cursor j0) (gh_pages g)" "\<not> scan_done (gh_pages g)"
        using x a pc by (auto simp: xinv_def op_inv_def body_def arrived_def)
      with chain_rest [OF ds(2,1) j(2)] a obtain rs' where "rest (j_cursor (x_cur x1)) rs'" by (auto simp: arrived_def)
      from read_rest [OF this ds(1)] p show ?thesis by (auto simp: j(1) lucky_input_def page_of_def)
    qed
    have "delivery sha enc jid read upsert (x1, st1, g, w) (x, st, observe x1 ?i x g, w)"
      by (rule delivery.step [OF s False]) (rule rd)
    then show ?thesis by blast
  qed
  with r show ?case by (meson rtranclp.rtrancl_into_rtrancl)
qed (use rtranclp.rtrancl_refl in auto)

end

subsection \<open>Between two teaching databases\<close>

lemma memory_all_dataset:
  assumes "holds src rs" "range_order ks src"
  shows "map_of (map (\<lambda>r. (r_id r, r)) (memory_all ks src)) = src"
proof
  note all = memory_all_holds [OF assms]
  have d: "distinct (map fst (map (\<lambda>r. (r_id r, r)) (memory_all ks src)))" using all(1) by (simp add: comp_def)
  fix k show "map_of (map (\<lambda>r. (r_id r, r)) (memory_all ks src)) k = src k"
  proof (cases "src k")
    case None
    then have "k \<notin> r_id ` set rs" using holds_finite [OF assms(1)] by auto
    then show ?thesis using None all(2) by (auto simp: map_of_eq_None_iff image_image)
  next
    case (Some r)
    then have "r \<in> set (memory_all ks src)" "r_id r = k" using assms(1) all(2) by (auto simp: holds_def)
    then show ?thesis using Some d by (auto intro: map_of_is_SomeI)
  qed
qed


text \<open>A transfer of the three records of one database into another that holds an older record already.\<close>

definition demo_records :: "vrecord list" where
  "demo_records = map (\<lambda>i. \<lparr>r_id = i, r_values = [0, 0, 0], r_metadata = []\<rparr>) [''a'', ''b'', ''c'']"

definition demo_before :: memory where
  "demo_before = [''a'' \<mapsto> \<lparr>r_id = ''a'', r_values = [], r_metadata = []\<rparr>, ''z'' \<mapsto> \<lparr>r_id = ''z'', r_values = [], r_metadata = []\<rparr>]"

definition demo_whole :: page where
  "demo_whole = \<lparr>pg_records = demo_records, pg_next = [], pg_done = True\<rparr>"


end
