(* ===== verification/Spec2Isabelle.thy ===== *)
theory Spec2Isabelle
  imports Vault_Properties Journal_Damage Accounts_Properties Customer_Session Cli_Properties Native_Client Delivery
begin

section \<open>Verification library of vector-transfer\<close>

text \<open>
  \<^bold>\<open>The program.\<close> vector-transfer copies vectors with their metadata from one database to another. A control
  plane (package control, src/control) serves an HTTP API and the web console, authenticates the operator by
  a token or account users by a browser session (package accountauth), keeps its jobs in a journal file, and
  keeps the private connections of account users in encrypted files. A job is executed by a pool of hosted
  workers in the same process, or leased over HTTPS to a customer's worker (package worker), which runs the
  same engine over a store of its own and reports its progress. An execution reads pages from a source and
  writes them to a sink; sources and sinks are the connectors of package connector, with a conformance test
  for authors of new ones and a teaching connector. Package app is the command line. docs/architecture.md
  describes the whole; \<open>Delivery\<close> proves its central promise.

  \<^bold>\<open>Conventions.\<close> A Go string is a list of bytes, an error the value \<open>Inl\<close> of a sum (\<open>go_error\<close>, \<open>Prelude\<close>), a
  struct a record with a field per member, an enum the strings the code uses. \<^verbatim>\<open>int\<close> and \<^verbatim>\<open>int64\<close> are integers
  where every value stays within bounds the code checks, and wrap where the code adds unchecked numbers
  (offset cursors of \<open>Hosted\<close>, 64-bit words in the ranges of Milvus); floats are their bit patterns. What runs
  under a mutex is one function from state to state; where code lets go of its lock, what others do there is
  a parameter (\<open>hs_others\<close>, \<open>others\<close>) or a step of a relation (\<open>transfer\<close>, \<open>delivery\<close>). Every reading of the clock,
  random bytes, the outcome of each write and the order in which a map is ranged over are arguments, so the
  theorems hold for all of them. A decoded \<^verbatim>\<open>json.RawMessage\<close> is the compact text of its value, a nil map an
  empty map, and the text of an error made by a library a fixed stand-in.

  \<^bold>\<open>Parameters.\<close> SHA-256, HMAC, AES-GCM, Ed25519, the parsers of URLs and IP addresses, the decimal text of a
  float32, the account provider, the database drivers and AWS, and every server at the other end of a network.
  A law of one of them that a theorem needs is a hypothesis of that theorem (\<open>seals\<close>: what was sealed opens; the
  hash is injective where tampering is to be seen), and its witness instantiates the parameter.
\<close>

subsection \<open>Theories\<close>

text \<open>
  Language and library: \<open>Prelude\<close> (errors, results, map iteration, the locale \<open>keyed_history\<close>), \<open>Go_Strings\<close>, \<open>Go_Time\<close>,
  \<open>Go_Json\<close> with \<open>Go_Json_Facts\<close> (parser and printer of encoding/json, round trip, fuel), \<open>Go_Wire\<close> (URL queries,
  base64, nearest float32, request bodies), \<open>Web\<close> (net/http requests and responses), \<open>Record_Copy\<close> (a record
  through JSON and back).

  \<^item> src/connector: \<open>Connector\<close> (connector.go), \<open>Net_Address\<close> and \<open>Personal\<close> (personal.go, additional.go), \<open>Http\<close>
    (http.go), \<open>Hosted\<close> (polign.go, pinecone.go, turbopuffer.go, s3vectors.go, demo.go), \<open>Rest_Database\<close>
    (additional_rest.go), \<open>Native_Database\<close> and \<open>Native_Client\<close> (additional_native.go), \<open>Operator_Config\<close> (config.go,
    factory.go), \<open>Memory_Db\<close> (examples/custom/memorydb), \<open>Conformance\<close> (conformance/conformance.go).
  \<^item> src/control: \<open>Journal_Codec\<close> and \<open>Store\<close> (store.go), \<open>Workers\<close> (workers.go), \<open>Vault\<close> (connections.go), \<open>Engine\<close> and
    \<open>Executor\<close> (engine.go; an execution is a machine with a program counter, one step up to the next update of
    the store or call of a connector), \<open>Worker_Jobs\<close> (worker_jobs.go), \<open>Control_Api\<close> (api.go, worker_api.go).
  \<^item> src/accountauth: \<open>Accounts\<close>. src/worker: \<open>Customer_Worker\<close>. src/internal/durable: \<open>Durable\<close>. src/app, src/cmd
    and src/examples/custom: \<open>Cli\<close>.

  A definition has the name of the function it models, with a prefix of its component (\<open>ws_\<close> workers, \<open>vault_\<close>,
  \<open>memory_\<close>) where names clash.
\<close>

subsection \<open>What the lemmas show\<close>

text \<open>
  \<^item> The journal. \<open>Journal_Facts\<close>: a line is read back as it was written. \<open>Store_Facts\<close>, \<open>Store_Invariants\<close> and
    \<open>Store_Properties\<close>: a crash at any byte of a write leaves the state before or after it, the hash chain shows
    tampering, creation is idempotent, at most one hosted job is active on a sink. \<open>Journal_Damage\<close>: a submission
    whose idempotency key is not UTF-8 is accepted and the journal never opens again.
  \<^item> Executions. \<open>Executor_Facts\<close> has the step relation \<open>transfer\<close> of an execution and everybody else with its
    invariant \<open>xinv\<close>; \<open>Executor_Properties\<close>: a checkpoint never runs ahead of the sink, a cancellation stops all calls,
    retries terminate and are bounded, nobody else changes an active job, and the race of a resume with the last
    check of a page. \<open>Executor_Completes\<close>: a transfer that nothing disturbs completes.
  \<^item> Delivery. \<open>Sources\<close> and \<open>Delivery\<close> put the executor between a source and a sink that keep their contracts: over
    any number of executions and crashes a job that exhausted its source has left exactly the source in the sink.
    \<open>Conformance_Properties\<close>: a source that passes the conformance test has no lossy scan, and the teaching connector
    passes both tests on every valid dataset.
  \<^item> Submission and leases. \<open>Engine_Properties\<close>: limits and grants of submitted jobs. \<open>Worker_Jobs_Properties\<close>: no worker
    holds two live leases, a report counts under the live lease only. \<open>Workers_Facts\<close>, \<open>Workers_Properties\<close>:
    enrollment, challenges, sessions, manifests.
  \<^item> Private connections. \<open>Vault_Facts\<close>, \<open>Vault_Properties\<close>: a restart finds the vault that was in memory, users are
    separated, a connection can be accepted that the next start refuses. \<open>Net_Address\<close>, \<open>Native_Client\<close>: a saved
    connection dials public addresses only, and an address with a zone passes the filter.
  \<^item> The API. \<open>Control_Properties\<close>: what a request may change and see, with what authority. \<open>Accounts_Properties\<close>: the
    session a cookie names, its CSRF token, sign-out for good, the browser of a sign-in. \<open>Customer_Properties\<close> and
    \<open>Customer_Session\<close>: what a customer's worker runs and for how long, and the two sides of its protocol together.
    \<open>Cli_Properties\<close>: a service that starts is protected, a client's token stays private.

  Interfaces are locales, each interpreted on the code's own definitions: \<open>keyed_history\<close> (how an entry may change
  along a run: the worker registry, the account sessions), \<open>line_journal\<close> (a log of lines over a state: the store's
  journal), \<open>paged_source\<close> (the demo, the in-memory database), \<open>upsert_sink\<close> (the in-memory database) and \<open>replication\<close>,
  which joins the last two. Runs are inductive relations (\<open>transfer\<close>, \<open>delivery\<close>, \<open>campaign\<close>, \<open>vault_step\<close>, the steps of
  the registry and of the account service) with invariants by rule induction.

  \<^bold>\<open>Bounds and fuel.\<close> The JSON parser takes twice the length of its text plus two as fuel, which \<open>Go_Json_Facts\<close> proves
  enough for any text the printer writes, and keeps Go's nesting limit of 10000. Chunks of a write and ranges of
  Milvus are halved, so their recursion ends by the length and the width; journal and event loops shorten their
  text; the parameters of a media type are cut one per turn. A scan of the conformance test makes at most
  \<open>max_pages\<close> calls, as in the code. An execution is not a recursion but a step relation, and that a retry and a
  whole undisturbed transfer end is proved.
\<close>

subsection \<open>Not modelled\<close>

text \<open>
  The bytes of the web console and of downloads (src/control/web), the FAISS adapter (Python, src/adapters) and
  the deployment files are other languages. Of the Go code: closing of files, locks and clients, where nothing but
  the result of \<^verbatim>\<open>Close\<close> is lost; logging and printed notices; listening sockets, their timeouts and the handling
  of signals; timeouts and pool sizes handed to drivers; and src/connector/doc.go, which is a comment. How net/http
  parses, cleans and redirects a request before a handler sees it is the package's, as are its timeouts.
\<close>

end
